(* ===== verification/Prelude.thy ===== *)
theory Prelude
  imports Main "HOL-Library.AList" "HOL-Library.Char_ord" "HOL-Library.List_Lexorder"
begin

text \<open>
  What every component of the development shares: results that may be a raised Python
  exception, Python's insertion-ordered dictionaries, the string operations the code uses
  (f-strings joined by a dot, \<^verbatim>\<open>rpartition\<close>, \<^verbatim>\<open>split\<close>, \<^verbatim>\<open>strip\<close>, \<^verbatim>\<open>startswith\<close>), and the
  collections of simplification rules the component proofs name.

  Instants of time (\<^verbatim>\<open>datetime.now(UTC)\<close>, \<^verbatim>\<open>time.monotonic()\<close>) are integers, passed to an
  operation as the argument \<open>now\<close>; identifiers drawn from \<^verbatim>\<open>uuid.uuid4()\<close> and secrets drawn
  from \<^verbatim>\<open>secrets.token_urlsafe\<close> are arguments too, so that an operation is a function of its
  inputs and a property that needs a fresh identifier says so.
\<close>

named_theorems dict_simps \<open>lookup and iteration over insertion-ordered dictionaries\<close>
named_theorems res_simps \<open>results that may be an exception\<close>
named_theorems str_simps \<open>string operations\<close>

type_synonym ident = string
type_synonym instant = int
type_synonym ('e, 'a) result = "'e + 'a"

section \<open>Results: a value or a raised exception\<close>

definition res_bind :: "('e, 'a) result \<Rightarrow> ('a \<Rightarrow> ('e, 'b) result) \<Rightarrow> ('e, 'b) result" where
  "res_bind r f = (case r of Inl e \<Rightarrow> Inl e | Inr x \<Rightarrow> f x)"

text \<open>A loop that collects one result per element and stops at the first exception.\<close>

fun res_map :: "('a \<Rightarrow> ('e, 'b) result) \<Rightarrow> 'a list \<Rightarrow> ('e, 'b list) result" where
  "res_map f [] = Inr []"
| "res_map f (x # xs) =
     (case f x of
        Inl e \<Rightarrow> Inl e
      | Inr y \<Rightarrow> (case res_map f xs of Inl e \<Rightarrow> Inl e | Inr ys \<Rightarrow> Inr (y # ys)))"

text \<open>Python's \<^verbatim>\<open>all\<close> and \<^verbatim>\<open>any\<close> over a generator: left to right, stopping at the first element
  that decides the answer, so that a later element is never evaluated.\<close>

fun res_all :: "('a \<Rightarrow> ('e, bool) result) \<Rightarrow> 'a list \<Rightarrow> ('e, bool) result" where
  "res_all f [] = Inr True"
| "res_all f (x # xs) =
     (case f x of Inl e \<Rightarrow> Inl e | Inr b \<Rightarrow> if b then res_all f xs else Inr False)"

fun res_any :: "('a \<Rightarrow> ('e, bool) result) \<Rightarrow> 'a list \<Rightarrow> ('e, bool) result" where
  "res_any f [] = Inr False"
| "res_any f (x # xs) =
     (case f x of Inl e \<Rightarrow> Inl e | Inr b \<Rightarrow> if b then Inr True else res_any f xs)"

lemma res_all_cong [fundef_cong]:
  "\<lbrakk>xs = ys; \<And>x. x \<in> set ys \<Longrightarrow> f x = g x\<rbrakk> \<Longrightarrow> res_all f xs = res_all g ys"
  by (induction ys arbitrary: xs) (auto split: sum.splits)

lemma res_any_cong [fundef_cong]:
  "\<lbrakk>xs = ys; \<And>x. x \<in> set ys \<Longrightarrow> f x = g x\<rbrakk> \<Longrightarrow> res_any f xs = res_any g ys"
  by (induction ys arbitrary: xs) (auto split: sum.splits)

lemma res_bind_Inl [simp, res_simps]: "res_bind (Inl e) f = Inl e"
  by (simp add: res_bind_def)

lemma res_bind_Inr [simp, res_simps]: "res_bind (Inr x) f = f x"
  by (simp add: res_bind_def)

lemma res_bind_eq_Inr [res_simps]:
  "res_bind r f = Inr y \<longleftrightarrow> (\<exists>x. r = Inr x \<and> f x = Inr y)"
  by (cases r) auto

lemma res_map_length: "res_map f xs = Inr ys \<Longrightarrow> length ys = length xs"
  by (induction xs arbitrary: ys) (auto split: sum.splits)

lemma res_map_eq_map: "(\<And>x. x \<in> set xs \<Longrightarrow> f x = Inr (g x)) \<Longrightarrow> res_map f xs = Inr (map g xs)"
  by (induction xs) auto

lemma res_map_cong: "(\<And>x. x \<in> set xs \<Longrightarrow> f x = g x) \<Longrightarrow> res_map f xs = res_map g xs"
  by (induction xs) (auto split: sum.splits)

lemma res_map_nth:
  "\<lbrakk>res_map f xs = Inr ys; i < length xs\<rbrakk> \<Longrightarrow> f (xs ! i) = Inr (ys ! i)"
proof (induction xs arbitrary: ys i)
  case (Cons x xs)
  then show ?case by (cases i) (auto split: sum.splits)
qed simp

lemma res_all_True_iff: "res_all f xs = Inr True \<longleftrightarrow> (\<forall>x \<in> set xs. f x = Inr True)"
  by (induction xs) (auto split: sum.splits)

lemma res_any_False_iff: "res_any f xs = Inr False \<longleftrightarrow> (\<forall>x \<in> set xs. f x = Inr False)"
  by (induction xs) (auto split: sum.splits)

section \<open>Insertion-ordered dictionaries\<close>

text \<open>
  A Python \<^verbatim>\<open>dict\<close> iterates in insertion order; assigning to a present key keeps the key's
  position. That is an association list with \<^const>\<open>AList.update\<close> as assignment.
\<close>

type_synonym ('k, 'v) dict = "('k \<times> 'v) list"

abbreviation dict_get :: "('k, 'v) dict \<Rightarrow> 'k \<Rightarrow> 'v option" where
  "dict_get d k \<equiv> map_of d k"

abbreviation dict_set :: "'k \<Rightarrow> 'v \<Rightarrow> ('k, 'v) dict \<Rightarrow> ('k, 'v) dict" where
  "dict_set k v d \<equiv> AList.update k v d"

abbreviation dict_pop :: "'k \<Rightarrow> ('k, 'v) dict \<Rightarrow> ('k, 'v) dict" where
  "dict_pop k d \<equiv> AList.delete k d"

definition dict_get_default :: "('k, 'v) dict \<Rightarrow> 'k \<Rightarrow> 'v \<Rightarrow> 'v" where
  "dict_get_default d k v = (case dict_get d k of None \<Rightarrow> v | Some w \<Rightarrow> w)"

definition dict_setdefault :: "'k \<Rightarrow> 'v \<Rightarrow> ('k, 'v) dict \<Rightarrow> ('k, 'v) dict" where
  "dict_setdefault k v d = (case dict_get d k of None \<Rightarrow> d @ [(k, v)] | Some _ \<Rightarrow> d)"

definition dict_values :: "('k, 'v) dict \<Rightarrow> 'v list" where
  "dict_values d = map snd d"

definition dict_ok :: "('k, 'v) dict \<Rightarrow> bool" where
  "dict_ok d \<longleftrightarrow> distinct (map fst d)"

lemma dict_get_set [simp, dict_simps]:
  "dict_get (dict_set k v d) k' = (if k' = k then Some v else dict_get d k')"
  by (simp add: update_conv')

lemma dict_get_pop [simp, dict_simps]:
  "dict_get (dict_pop k d) k' = (if k' = k then None else dict_get d k')"
  by (simp add: delete_conv')

lemma dict_ok_Nil [simp, intro]: "dict_ok []"
  by (simp add: dict_ok_def)

lemma dict_ok_set [simp, intro]: "dict_ok d \<Longrightarrow> dict_ok (dict_set k v d)"
  by (simp add: dict_ok_def distinct_update)

lemma dict_ok_pop [simp, intro]: "dict_ok d \<Longrightarrow> dict_ok (dict_pop k d)"
  by (simp add: dict_ok_def distinct_delete)

lemma dict_set_fresh: "dict_get d k = None \<Longrightarrow> dict_set k v d = d @ [(k, v)]"
  by (induction d) (auto split: if_splits)

lemma dict_ok_setdefault [simp, intro]: "dict_ok d \<Longrightarrow> dict_ok (dict_setdefault k v d)"
  by (auto simp: dict_setdefault_def dict_ok_def map_of_eq_None_iff split: option.splits)

lemma dict_get_setdefault [simp, dict_simps]:
  "dict_get (dict_setdefault k v d) k' =
     (if k' = k \<and> dict_get d k = None then Some v else dict_get d k')"
  by (auto simp: dict_setdefault_def map_add_def split: option.splits)

lemma dict_get_default_set [simp, dict_simps]:
  "dict_get_default (dict_set k v d) k' w = (if k' = k then v else dict_get_default d k' w)"
  by (simp add: dict_get_default_def)

lemma dict_ok_get_iff: "dict_ok d \<Longrightarrow> dict_get d k = Some v \<longleftrightarrow> (k, v) \<in> set d"
  by (simp add: dict_ok_def)

lemma dict_values_iff: "dict_ok d \<Longrightarrow> v \<in> set (dict_values d) \<longleftrightarrow> (\<exists>k. dict_get d k = Some v)"
  by (force simp: dict_values_def dict_ok_get_iff)

lemma dict_get_in_values: "dict_get d k = Some v \<Longrightarrow> v \<in> set (dict_values d)"
  by (force simp: dict_values_def dest: map_of_SomeD)

lemma dict_values_set_fresh:
  "dict_get d k = None \<Longrightarrow> dict_values (dict_set k v d) = dict_values d @ [v]"
  by (simp add: dict_set_fresh dict_values_def)

lemma dict_values_set_subset:
  "set (dict_values (dict_set k v d)) \<subseteq> insert v (set (dict_values d))"
  by (induction d) (auto simp: dict_values_def)

lemma dict_set_update_comm_get:
  "k \<noteq> k' \<Longrightarrow> dict_get (dict_set k v (dict_set k' v' d)) k' = Some v'"
  by simp

lemma set_update_subset: "set (dict_set k v d) \<subseteq> insert (k, v) (set d)"
  by (induction d) auto

text \<open>Entries whose key is the identifier stored in the value, as in every table of the
  in-memory store.\<close>

definition keyed_by :: "('v \<Rightarrow> 'k) \<Rightarrow> ('k, 'v) dict \<Rightarrow> bool" where
  "keyed_by key d \<longleftrightarrow> dict_ok d \<and> (\<forall>(k, v) \<in> set d. key v = k)"

lemma keyed_by_Nil [simp, intro]: "keyed_by key []"
  by (simp add: keyed_by_def)

lemma keyed_by_set [intro]: "\<lbrakk>keyed_by key d; key v = k\<rbrakk> \<Longrightarrow> keyed_by key (dict_set k v d)"
  using dict_ok_set [of d k v] set_update_subset [of k v d] by (fastforce simp: keyed_by_def)

lemma keyed_by_get: "\<lbrakk>keyed_by key d; dict_get d k = Some v\<rbrakk> \<Longrightarrow> key v = k"
  by (auto simp: keyed_by_def dest: map_of_SomeD)

lemma keyed_by_dict_ok: "keyed_by key d \<Longrightarrow> dict_ok d"
  by (simp add: keyed_by_def)

lemma keyed_by_values:
  "keyed_by key d \<Longrightarrow> v \<in> set (dict_values d) \<longleftrightarrow> dict_get d (key v) = Some v"
  using dict_values_iff [OF keyed_by_dict_ok] keyed_by_get by metis

text \<open>Replacing or adding an entry that a scan does not see.\<close>

lemma find_dict_set:
  "\<lbrakk>\<not> P v; \<And>w. dict_get d k = Some w \<Longrightarrow> \<not> P w\<rbrakk> \<Longrightarrow>
     List.find P (dict_values (dict_set k v d)) = List.find P (dict_values d)"
  by (induction d) (auto simp: dict_values_def split: if_splits)

lemma filter_dict_set:
  "\<lbrakk>\<not> P v; \<And>w. dict_get d k = Some w \<Longrightarrow> \<not> P w\<rbrakk> \<Longrightarrow>
     filter P (dict_values (dict_set k v d)) = filter P (dict_values d)"
  by (induction d) (auto simp: dict_values_def split: if_splits)

section \<open>First match\<close>

text \<open>\<^verbatim>\<open>next((x for x in xs if p(x)), None)\<close> is \<^const>\<open>List.find\<close>.\<close>

lemma find_Some_set: "List.find P xs = Some x \<Longrightarrow> x \<in> set xs \<and> P x"
  by (auto simp: find_Some_iff)

lemma find_Some_ex: "List.find P xs \<noteq> None \<longleftrightarrow> (\<exists>x \<in> set xs. P x)"
  by (auto simp: find_None_iff)

lemma find_cong_set: "(\<And>x. x \<in> set xs \<Longrightarrow> P x = Q x) \<Longrightarrow> List.find P xs = List.find Q xs"
  by (induction xs) auto

lemma find_unique:
  "\<lbrakk>x \<in> set xs; P x; \<And>y. \<lbrakk>y \<in> set xs; P y\<rbrakk> \<Longrightarrow> y = x\<rbrakk> \<Longrightarrow> List.find P xs = Some x"
  by (metis find_None_iff2 find_Some_set not_Some_eq)

section \<open>Strings\<close>

text \<open>The f-string \<^verbatim>\<open>f"{resource}.{action}"\<close>.\<close>

definition join_dot :: "string \<Rightarrow> string \<Rightarrow> string" where
  "join_dot r a = r @ ''.'' @ a"

definition starts_with :: "string \<Rightarrow> string \<Rightarrow> bool" where
  "starts_with p s \<longleftrightarrow> take (length p) s = p"

text \<open>\<^verbatim>\<open>s.split(c)\<close> for a one-character separator: \<^verbatim>\<open>n\<close> separators give \<^verbatim>\<open>n + 1\<close> pieces.\<close>

fun split_on :: "char \<Rightarrow> string \<Rightarrow> string list" where
  "split_on c [] = [[]]"
| "split_on c (x # xs) =
     (if x = c then [] # split_on c xs
      else (case split_on c xs of [] \<Rightarrow> [[x]] | p # ps \<Rightarrow> (x # p) # ps))"

text \<open>\<^verbatim>\<open>c.join(parts)\<close> for a one-character separator.\<close>

fun join_on :: "char \<Rightarrow> string list \<Rightarrow> string" where
  "join_on c [] = []"
| "join_on c [p] = p"
| "join_on c (p # q # ps) = p @ c # join_on c (q # ps)"

text \<open>\<^verbatim>\<open>s.rpartition(c)\<close> for a string that holds the separator: (before, after) the last one.\<close>

definition rpartition :: "char \<Rightarrow> string \<Rightarrow> string \<times> string" where
  "rpartition c s =
     (rev (tl (dropWhile (\<lambda>x. x \<noteq> c) (rev s))), rev (takeWhile (\<lambda>x. x \<noteq> c) (rev s)))"

text \<open>\<^verbatim>\<open>s.strip()\<close>: ASCII white space at both ends (the separators 28 to 31 included, as Python
  counts them).\<close>

definition is_space :: "char \<Rightarrow> bool" where
  "is_space c \<longleftrightarrow> (of_char c :: nat) \<in> {9, 10, 11, 12, 13, 28, 29, 30, 31, 32}"

definition strip :: "string \<Rightarrow> string" where
  "strip s = rev (dropWhile is_space (rev (dropWhile is_space s)))"

lemma starts_with_append [simp, str_simps]: "starts_with p (p @ s)"
  by (simp add: starts_with_def)

lemma starts_with_iff [str_simps]: "starts_with p s \<longleftrightarrow> (\<exists>t. s = p @ t)"
  unfolding starts_with_def by (metis append_eq_conv_conj append_take_drop_id)

lemma split_on_neq_Nil [simp]: "split_on c s \<noteq> []"
  by (induction s) (auto split: list.splits)

lemma split_on_no_sep: "\<forall>p \<in> set (split_on c s). c \<notin> set p"
  by (induction s) (auto split: list.splits)

lemma join_on_Cons_char: "join_on c ((x # p) # ps) = x # join_on c (p # ps)"
  by (cases ps) auto

lemma join_on_Nil_Cons: "ps \<noteq> [] \<Longrightarrow> join_on c ([] # ps) = c # join_on c ps"
  by (cases ps) auto

lemma join_split_on [simp, str_simps]: "join_on c (split_on c s) = s"
proof (induction s)
  case (Cons x s)
  then show ?case
    by (cases "split_on c s") (auto simp: join_on_Cons_char join_on_Nil_Cons)
qed simp

lemma split_on_no_sep_id: "c \<notin> set s \<Longrightarrow> split_on c s = [s]"
  by (induction s) auto

lemma split_on_append_sep:
  "c \<notin> set p \<Longrightarrow> split_on c (p @ c # s) = p # split_on c s"
  by (induction p) auto

lemma split_join_on:
  "\<lbrakk>ps \<noteq> []; \<forall>p \<in> set ps. c \<notin> set p\<rbrakk> \<Longrightarrow> split_on c (join_on c ps) = ps"
  by (induction c ps rule: join_on.induct) (auto simp: split_on_append_sep split_on_no_sep_id)

lemma rpartition_join:
  assumes "c \<in> set s"
  shows "fst (rpartition c s) @ c # snd (rpartition c s) = s"
proof -
  let ?t = "rev s"
  have d: "dropWhile (\<lambda>x. x \<noteq> c) ?t \<noteq> []" and h: "hd (dropWhile (\<lambda>x. x \<noteq> c) ?t) = c"
    using assms hd_dropWhile [of "\<lambda>x. x \<noteq> c" ?t] by auto
  have "?t = takeWhile (\<lambda>x. x \<noteq> c) ?t @ c # tl (dropWhile (\<lambda>x. x \<noteq> c) ?t)"
    using d h by (metis list.collapse takeWhile_dropWhile_id)
  then have "rev ?t = rev (takeWhile (\<lambda>x. x \<noteq> c) ?t @ c # tl (dropWhile (\<lambda>x. x \<noteq> c) ?t))"
    by (rule arg_cong)
  then show ?thesis by (simp add: rpartition_def)
qed

lemma rpartition_snd_no_sep: "c \<notin> set (snd (rpartition c s))"
  by (auto simp: rpartition_def dest: set_takeWhileD)

lemma rpartition_of_join: "c \<notin> set a \<Longrightarrow> rpartition c (r @ c # a) = (r, a)"
proof -
  assume "c \<notin> set a"
  then have "takeWhile (\<lambda>x. x \<noteq> c) (rev a @ c # rev r) = rev a"
    and "dropWhile (\<lambda>x. x \<noteq> c) (rev a @ c # rev r) = c # rev r"
    by (subst takeWhile_append2 dropWhile_append2; force)+
  then show ?thesis by (simp add: rpartition_def)
qed

lemma join_dot_inject_action:
  assumes "CHR ''.'' \<notin> set a" and "CHR ''.'' \<notin> set a'"
  shows "join_dot r a = join_dot r' a' \<longleftrightarrow> r = r' \<and> a = a'"
proof
  assume "join_dot r a = join_dot r' a'"
  then have "rpartition CHR ''.'' (join_dot r a) = rpartition CHR ''.'' (join_dot r' a')"
    by (rule arg_cong)
  then show "r = r' \<and> a = a'"
    using rpartition_of_join [OF assms(1), of r] rpartition_of_join [OF assms(2), of r']
    by (simp add: join_dot_def)
qed simp

lemma dropWhile_none: "\<forall>x \<in> set xs. \<not> P x \<Longrightarrow> dropWhile P xs = xs"
  by (cases xs) auto

lemma strip_no_space: "\<forall>c \<in> set s. \<not> is_space c \<Longrightarrow> strip s = s"
  by (simp add: strip_def dropWhile_none)

lemma strip_Nil [simp]: "strip [] = []"
  by (simp add: strip_def)

text \<open>\<^verbatim>\<open>str(i)\<close> of an integer and \<^verbatim>\<open>int(s)\<close> of its decimal digits.\<close>

fun nat_str :: "nat \<Rightarrow> string" where
  "nat_str n = (if n < 10 then [char_of (48 + n)] else nat_str (n div 10) @ [char_of (48 + n mod 10)])"

declare nat_str.simps [simp del]

definition int_str :: "int \<Rightarrow> string" where
  "int_str i = (if i < 0 then ''-'' @ nat_str (nat (- i)) else nat_str (nat i))"

fun digits_value :: "nat \<Rightarrow> string \<Rightarrow> nat" where
  "digits_value acc [] = acc"
| "digits_value acc (c # cs) = digits_value (10 * acc + (of_char c - 48)) cs"

lemma digits_value_append: "digits_value acc (xs @ ys) = digits_value (digits_value acc xs) ys"
  by (induction xs arbitrary: acc) auto

lemma digits_value_nat_str [simp]: "digits_value 0 (nat_str n) = n"
proof (induction n rule: nat_str.induct)
  case (1 n)
  then show ?case
    by (subst nat_str.simps) (auto simp: digits_value_append of_char_of)
qed

lemma sorted_dropWhile_le:
  fixes xs :: "('a::linorder) list"
  shows "sorted xs \<Longrightarrow> dropWhile (\<lambda>t. t \<le> c) xs = filter (\<lambda>t. c < t) xs"
proof (induction xs)
  case (Cons x xs)
  show ?case
  proof (cases "x \<le> c")
    case False
    then have "\<forall>y \<in> set (x # xs). c < y" using Cons.prems by auto
    then have "filter (\<lambda>t. c < t) (x # xs) = x # xs" by (subst filter_True) auto
    then show ?thesis using False by simp
  qed (use Cons in auto)
qed simp

lemma length_dict_pop_less: "dict_get d k = Some v \<Longrightarrow> length (dict_pop k d) < length d"
  by (induction d) (auto simp: AList.delete_eq le_imp_less_Suc split: if_splits)

lemma length_dict_set_present: "dict_get d k \<noteq> None \<Longrightarrow> length (dict_set k v d) = length d"
  by (induction d) (auto split: if_splits)

end
