(* ===== verification/Domain.thy ===== *)
theory Domain
  imports Prelude
begin

text \<open>
  The domain model of \<^verbatim>\<open>authzkit\<close>: the frozen dataclasses of \<^verbatim>\<open>tenancy/models.py\<close>,
  \<^verbatim>\<open>rbac/models.py\<close> and \<^verbatim>\<open>agents/models.py\<close>, the desired-state types of \<^verbatim>\<open>provisioning.py\<close>, and the
  exceptions of \<^verbatim>\<open>exceptions.py\<close> with the Python ones the code lets escape. An exception is a
  value; what the code keeps in it (a permission, a list of names) is kept, the wording of its
  message is not.
\<close>

section \<open>Exceptions\<close>

datatype authz_error =
    InvalidRequestError string
  | InvalidSubjectError
  | TenantNotActiveError string
  | ApplicationNotActiveError
  | NoActiveMembershipError
  | AgentNotFoundError string
  | AgentNotActiveError string
  | TenantFeatureDisabledError
  | PolicyConditionFailedError
  | PermissionDeniedError string
  | UnknownNamesError string "string list"
  | ValueError
  | TypeError
  | KeyError
  | AttributeError
  | IndexError
  | IntegrityError
  | StopIteration

text \<open>The class attribute \<^verbatim>\<open>reason\<close> of each \<^verbatim>\<open>AuthzError\<close> subclass; the exceptions that are not
  subclasses have none.\<close>

fun error_reason :: "authz_error \<Rightarrow> string option" where
  "error_reason (InvalidRequestError _) = Some ''invalid_request''"
| "error_reason InvalidSubjectError = Some ''invalid_subject''"
| "error_reason (TenantNotActiveError _) = Some ''tenant_not_active''"
| "error_reason ApplicationNotActiveError = Some ''application_not_active''"
| "error_reason NoActiveMembershipError = Some ''no_active_membership''"
| "error_reason (AgentNotFoundError _) = Some ''agent_not_found''"
| "error_reason (AgentNotActiveError _) = Some ''agent_not_active''"
| "error_reason TenantFeatureDisabledError = Some ''tenant_feature_disabled''"
| "error_reason PolicyConditionFailedError = Some ''policy_condition_failed''"
| "error_reason (PermissionDeniedError _) = Some ''missing_permission''"
| "error_reason _ = None"

section \<open>Tenancy\<close>

definition MEMBERSHIP_STATUS_ACTIVE :: string where
  "MEMBERSHIP_STATUS_ACTIVE = ''active''"

definition MEMBERSHIP_STATUS_DISABLED :: string where
  "MEMBERSHIP_STATUS_DISABLED = ''disabled''"

definition TENANT_STATUS_ACTIVE :: string where
  "TENANT_STATUS_ACTIVE = ''active''"

record tenant =
  tenant_id :: ident
  tenant_slug :: string
  tenant_name :: string
  tenant_status :: string

record application =
  app_id :: ident
  app_slug :: string
  app_name :: string
  app_status :: string
  app_managed_by :: "string option"

record user =
  user_id :: ident
  user_display_name :: "string option"
  user_email :: "string option"
  user_status :: string

record external_identity =
  xid_id :: ident
  xid_user_id :: ident
  xid_provider :: string
  xid_issuer :: string
  xid_subject :: string
  xid_external_tenant_id :: "string option"
  xid_email :: "string option"

record membership =
  mem_id :: ident
  mem_tenant_id :: ident
  mem_user_id :: ident
  mem_application_id :: "ident option"
  mem_roles :: "string set"
  mem_status :: string

record tenant_identity_mapping =
  tim_id :: ident
  tim_tenant_id :: ident
  tim_provider :: string
  tim_issuer :: string
  tim_external_tenant_id :: string

section \<open>Roles and permissions\<close>

datatype role_scope = PLATFORM | APPLICATION | TENANT | AGENT

record permission =
  perm_id :: ident
  perm_name :: string
  perm_resource :: string
  perm_action :: string
  perm_application_id :: "ident option"
  perm_description :: "string option"
  perm_deprecated :: bool
  perm_critical :: bool

text \<open>The property \<^verbatim>\<open>Permission.active\<close>.\<close>

definition perm_active :: "permission \<Rightarrow> bool" where
  "perm_active p \<longleftrightarrow> \<not> perm_deprecated p"

text \<open>\<^verbatim>\<open>Permission.from_name\<close>: the action is the last dotted segment; a name with no dot raises.\<close>

definition from_name :: "string \<Rightarrow> ident option \<Rightarrow> ident option \<Rightarrow> (authz_error, permission) result" where
  "from_name name pid application_id =
     (if CHR ''.'' \<notin> set name then Inl ValueError
      else (let (resource, action) = rpartition CHR ''.'' name in
        Inr \<lparr>perm_id = (case pid of None \<Rightarrow> name | Some i \<Rightarrow> if i = '''' then name else i),
             perm_name = name, perm_resource = resource, perm_action = action,
             perm_application_id = application_id, perm_description = None,
             perm_deprecated = False, perm_critical = False\<rparr>))"

record role =
  role_id :: ident
  role_name :: string
  role_scope :: role_scope
  role_tenant_id :: "ident option"
  role_application_id :: "ident option"
  role_description :: "string option"
  role_is_system :: bool
  role_agent_id :: "ident option"

section \<open>Agents\<close>

record agent =
  agent_id :: ident
  agent_tenant_id :: ident
  agent_application_id :: ident
  agent_name :: string
  agent_role :: string
  agent_status :: string
  agent_created_by_user_id :: "ident option"
  agent_display_name :: "string option"

record agent_context =
  ac_tenant_id :: ident
  ac_application_id :: ident
  ac_user_id :: ident
  ac_user_roles :: "string set"
  ac_user_permissions :: "string set"
  ac_agent_id :: ident
  ac_agent_role :: string
  ac_agent_permissions :: "string set"
  ac_effective_permissions :: "string set"

section \<open>Identity of names that do not resolve\<close>

text \<open>\<^verbatim>\<open>UnknownNamesError.check\<close>: raises with the sorted names that were wanted and not found.\<close>

definition check_names :: "string \<Rightarrow> string set \<Rightarrow> string set \<Rightarrow> (authz_error, unit) result" where
  "check_names kind wanted found =
     (let unknown = wanted - found in
      if unknown \<noteq> {} then Inl (UnknownNamesError kind (sorted_list_of_set unknown)) else Inr ())"

section \<open>Lemmas\<close>

lemma check_names_ok [simp]: "check_names kind wanted found = Inr () \<longleftrightarrow> wanted \<subseteq> found"
  by (auto simp: check_names_def Let_def)

lemma check_names_cases:
  obtains "wanted \<subseteq> found" "check_names kind wanted found = Inr ()"
  | "\<not> wanted \<subseteq> found"
    "check_names kind wanted found =
       Inl (UnknownNamesError kind (sorted_list_of_set (wanted - found)))"
  by (auto simp: check_names_def Let_def)

lemma from_name_cases:
  assumes "from_name name pid application_id = Inr p"
  shows "CHR ''.'' \<in> set name" "perm_name p = name" "perm_application_id p = application_id"
    "perm_active p" "join_dot (perm_resource p) (perm_action p) = name"
    "CHR ''.'' \<notin> set (perm_action p)"
  using assms rpartition_join [of "CHR ''.''" name] rpartition_snd_no_sep [of "CHR ''.''" name]
  by (auto simp: from_name_def perm_active_def join_dot_def Let_def
      split: if_splits prod.splits)

lemma from_name_error: "from_name name pid a = Inl e \<longleftrightarrow> CHR ''.'' \<notin> set name \<and> e = ValueError"
  by (auto simp: from_name_def Let_def split: prod.splits)

section \<open>Properties\<close>

text \<open>Parsing a permission name and printing it back agree: whatever \<^verbatim>\<open>from_name\<close> accepts, joining
  its resource and action by a dot (the way the engine builds the required permission) gives the
  name again and its action holds no dot, and a name built from a resource and a dot-free action
  parses to exactly that pair.\<close>

theorem from_name_roundtrip:
  "(from_name name pid app = Inr p \<longrightarrow>
      join_dot (perm_resource p) (perm_action p) = name \<and> CHR ''.'' \<notin> set (perm_action p)) \<and>
   (CHR ''.'' \<notin> set action \<longrightarrow>
      (\<exists>q. from_name (join_dot resource action) pid app = Inr q \<and>
        perm_resource q = resource \<and> perm_action q = action))"
proof (intro conjI impI)
  assume "CHR ''.'' \<notin> set action"
  then show "\<exists>q. from_name (join_dot resource action) pid app = Inr q \<and>
      perm_resource q = resource \<and> perm_action q = action"
    by (simp add: from_name_def join_dot_def rpartition_of_join Let_def)
qed (auto dest: from_name_cases)

theorem from_name_roundtrip_witness:
  "(\<exists>p. from_name ''mcp.github.create_issue'' None None = Inr p \<and>
      join_dot (perm_resource p) (perm_action p) = ''mcp.github.create_issue'') \<and>
   (\<exists>q. from_name (join_dot ''contracts'' ''review'') None None = Inr q \<and>
      perm_resource q = ''contracts'' \<and> perm_action q = ''review'')"
proof -
  have d: "CHR ''.'' \<notin> set ''review''" by simp
  obtain p where p: "from_name ''mcp.github.create_issue'' None None = Inr p"
    by (simp add: from_name_def Let_def rpartition_def)
  show ?thesis
    using from_name_roundtrip [of "''mcp.github.create_issue''" None None p "''review''" "''contracts''"]
      d p by blast
qed

end
