(* ===== verification/Tables.thy ===== *)
theory Tables
  imports Domain
begin

text \<open>
  The database tables of \<^verbatim>\<open>authzkit/storage/orm.py\<close> that the security services keep: a table is the list
  of its rows in insertion order; a primary key or a unique column is a projection with distinct
  values, and an insert that would break one raises \<^const>\<open>IntegrityError\<close> and leaves the table as it
  was. A datetime column is an instant, read back with its time zone (\<^verbatim>\<open>_aware\<close>, \<^verbatim>\<open>_to_aware\<close>).

  The second part is the contract the services share: a credential that is revoked stays revoked
  whatever operations follow, and a revoked credential is never accepted again.
\<close>

section \<open>Rows\<close>

definition tbl_get :: "('r \<Rightarrow> 'k) \<Rightarrow> 'r list \<Rightarrow> 'k \<Rightarrow> 'r option" where
  "tbl_get key rows k = List.find (\<lambda>r. key r = k) rows"

definition tbl_update :: "('r \<Rightarrow> 'k) \<Rightarrow> 'k \<Rightarrow> ('r \<Rightarrow> 'r) \<Rightarrow> 'r list \<Rightarrow> 'r list" where
  "tbl_update key k f rows = map (\<lambda>r. if key r = k then f r else r) rows"

definition tbl_delete :: "('r \<Rightarrow> 'k) \<Rightarrow> 'k \<Rightarrow> 'r list \<Rightarrow> 'r list" where
  "tbl_delete key k rows = filter (\<lambda>r. key r \<noteq> k) rows"

text \<open>An insert with the unique columns of the table: \<open>clash\<close> says which present row collides.\<close>

definition tbl_insert ::
  "('r \<Rightarrow> 'r \<Rightarrow> bool) \<Rightarrow> 'r \<Rightarrow> 'r list \<Rightarrow> (authz_error, 'r list) result" where
  "tbl_insert clash row rows =
     (if list_ex (\<lambda>r. clash row r) rows then Inl IntegrityError else Inr (rows @ [row]))"

definition unique_col :: "('r \<Rightarrow> 'k) \<Rightarrow> 'r list \<Rightarrow> bool" where
  "unique_col key rows \<longleftrightarrow> distinct (map key rows)"

lemma unique_col_Nil [simp, intro]: "unique_col key []"
  by (simp add: unique_col_def)

lemma unique_col_append:
  "unique_col key (rows @ [r]) \<longleftrightarrow> unique_col key rows \<and> key r \<notin> key ` set rows"
  by (auto simp: unique_col_def)

lemma unique_col_update [intro]:
  "\<lbrakk>unique_col key rows; \<And>r. key (f r) = key r\<rbrakk> \<Longrightarrow> unique_col key (tbl_update key' k f rows)"
  by (simp add: unique_col_def tbl_update_def comp_def if_distrib cong: if_cong)

lemma unique_col_filter [intro]: "unique_col key rows \<Longrightarrow> unique_col key (filter P rows)"
  by (induction rows) (auto simp: unique_col_def)

lemma unique_col_eq: "\<lbrakk>unique_col key rows; r \<in> set rows; q \<in> set rows; key r = key q\<rbrakk> \<Longrightarrow> r = q"
  by (auto simp: unique_col_def distinct_map inj_on_def)

lemma tbl_get_Some: "tbl_get key rows k = Some r \<Longrightarrow> r \<in> set rows \<and> key r = k"
  by (auto simp: tbl_get_def dest: find_Some_set)

lemma tbl_get_None: "tbl_get key rows k = None \<longleftrightarrow> k \<notin> key ` set rows"
  by (auto simp: tbl_get_def find_None_iff)

lemma tbl_get_unique: "\<lbrakk>unique_col key rows; r \<in> set rows\<rbrakk> \<Longrightarrow> tbl_get key rows (key r) = Some r"
  unfolding tbl_get_def by (rule find_unique) (auto dest: unique_col_eq)

lemma unique_col_filter_key:
  "\<lbrakk>unique_col key rows; r \<in> set rows; P r\<rbrakk> \<Longrightarrow> filter (\<lambda>q. key q = key r \<and> P q) rows = [r]"
proof (induction rows)
  case (Cons a rows)
  then have n: "key a \<notin> key ` set rows" by (auto simp: unique_col_def)
  show ?case
  proof (cases "a = r")
    case True
    then have "filter (\<lambda>q. key q = key r \<and> P q) rows = []"
      using n unfolding filter_empty_conv by (metis imageI)
    then show ?thesis using True Cons.prems by simp
  next
    case False
    then show ?thesis using Cons n by (auto simp: unique_col_def)
  qed
qed simp

lemma keys_map: "(\<And>r. key (f r) = key r) \<Longrightarrow> key ` set (map f rows) = key ` set rows"
  by (simp add: image_image)

lemma keys_tbl_update:
  "(\<And>r. key (f r) = key r) \<Longrightarrow> key ` set (tbl_update key' k f rows) = key ` set rows"
  unfolding tbl_update_def by (rule keys_map) simp

lemma tbl_get_append:
  "tbl_get key (rows @ [r]) k =
     (case tbl_get key rows k of Some q \<Rightarrow> Some q | None \<Rightarrow> if key r = k then Some r else None)"
  by (induction rows) (auto simp: tbl_get_def)

lemma tbl_get_update:
  "(\<And>r. key (f r) = key r) \<Longrightarrow>
     tbl_get key (tbl_update key k f rows) k' =
       map_option (\<lambda>r. if k' = k then f r else r) (tbl_get key rows k')"
  by (induction rows) (auto simp: tbl_get_def tbl_update_def)

lemma tbl_get_delete:
  "tbl_get key (tbl_delete key k rows) k' = (if k' = k then None else tbl_get key rows k')"
  by (induction rows) (auto simp: tbl_get_def tbl_delete_def)

lemma in_tbl_update:
  "r \<in> set (tbl_update key k f rows) \<longleftrightarrow>
     (\<exists>q \<in> set rows. r = (if key q = k then f q else q))"
  unfolding tbl_update_def set_map image_iff ..

lemma bex_tbl_update:
  "(\<exists>r \<in> set (tbl_update key k f rows). P r) \<longleftrightarrow>
     (\<exists>q \<in> set rows. P (if key q = k then f q else q))"
  unfolding tbl_update_def set_map bex_simps ..

lemma tbl_update_keeps:
  "\<lbrakk>\<exists>r \<in> set rows. P r; \<And>r. P r \<Longrightarrow> P (f r)\<rbrakk> \<Longrightarrow> \<exists>r \<in> set (tbl_update key k f rows). P r"
  unfolding bex_tbl_update by metis

lemma tbl_insert_Inr:
  "tbl_insert clash row rows = Inr rows' \<longleftrightarrow> (\<forall>r \<in> set rows. \<not> clash row r) \<and> rows' = rows @ [row]"
  by (auto simp: tbl_insert_def list_ex_iff)

lemma tbl_insert_Inl:
  "tbl_insert clash row rows = Inl e \<longleftrightarrow> (\<exists>r \<in> set rows. clash row r) \<and> e = IntegrityError"
  by (auto simp: tbl_insert_def list_ex_iff)

section \<open>Revocable credentials\<close>

text \<open>
  The operations of a credential service as its client sees them: \<open>live s now c k\<close> says that
  presenting \<open>c\<close> at \<open>now\<close> is accepted as the credential \<open>k\<close>, \<open>revoked s k\<close> that the row of \<open>k\<close>
  carries the revoked status, \<open>revoke\<close> is the service's own operation, and \<open>step\<close> relates the tables
  before and after any operation of the service.
\<close>

locale revocable =
  fixes known :: "'s \<Rightarrow> 'k \<Rightarrow> bool"
    and revoked :: "'s \<Rightarrow> 'k \<Rightarrow> bool"
    and live :: "'s \<Rightarrow> instant \<Rightarrow> 'c \<Rightarrow> 'k \<Rightarrow> bool"
    and revoke :: "'s \<Rightarrow> instant \<Rightarrow> 'k \<Rightarrow> 's"
    and step :: "'s \<Rightarrow> 's \<Rightarrow> bool"
    and wf :: "'s \<Rightarrow> bool"
  assumes revoke_marks: "\<lbrakk>wf s; known s k\<rbrakk> \<Longrightarrow> revoked (revoke s now k) k"
    and revoke_is_step: "step s (revoke s now k)"
    and step_wf: "\<lbrakk>wf s; step s s'\<rbrakk> \<Longrightarrow> wf s'"
    and step_keeps: "\<lbrakk>wf s; step s s'; revoked s k\<rbrakk> \<Longrightarrow> revoked s' k"
    and revoked_dead: "\<lbrakk>wf s; revoked s k\<rbrakk> \<Longrightarrow> \<not> live s now c k"
begin

lemma steps_wf: "\<lbrakk>step\<^sup>*\<^sup>* s s'; wf s\<rbrakk> \<Longrightarrow> wf s'"
  by (induction rule: rtranclp_induct) (auto intro: step_wf)

lemma steps_keep: "\<lbrakk>step\<^sup>*\<^sup>* s s'; wf s; revoked s k\<rbrakk> \<Longrightarrow> revoked s' k"
  by (induction rule: rtranclp_induct) (auto intro: step_keeps steps_wf)

lemma revoked_forever:
  assumes "wf s" "known s k" "step\<^sup>*\<^sup>* (revoke s now k) s'"
  shows "\<not> live s' now' c k"
  using revoked_dead [of s' k] steps_keep [OF assms(3)] steps_wf [OF assms(3)]
    step_wf [OF assms(1) revoke_is_step] revoke_marks [OF assms(1,2)] by blast

end

end
