(* ===== verification/Policies.thy ===== *)
theory Policies
  imports Domain
begin

text \<open>
  The attribute layer: \<^verbatim>\<open>authzkit/policies/expressions.py\<close>, a small declarative language evaluated
  against a tree of JSON-like values, and \<^verbatim>\<open>authzkit/policies/engine.py\<close>, which applies the rules
  whose target matches a request.

  A condition comes from JSON, so it may have any shape; every exception the evaluator can
  raise on a malformed one is a value of the model. The value type has Python's None, bool, int,
  str, list and dict (a dict's keys are strings and distinct); floats are not in it. Attribute
  access on a value that is no mapping (\<^verbatim>\<open>getattr(current, key, None)\<close>) is the interpreter's own
  lookup on a built-in object and a parameter of the evaluator.
\<close>

section \<open>Python values\<close>

datatype pyval =
    PNone
  | PBool bool
  | PInt int
  | PStr string
  | PList "pyval list"
  | PDict "(string \<times> pyval) list"

type_synonym pydict = "(string \<times> pyval) list"

lemma size_dict_value: "(k, v) \<in> set d \<Longrightarrow> size v < Suc (size_list (size_prod (\<lambda>_. 0) size) d)"
  by (induction d) auto

lemma size_list_value: "x \<in> set xs \<Longrightarrow> size x < Suc (size_list size xs)"
  by (induction xs) auto

definition pybool_int :: "bool \<Rightarrow> int" where
  "pybool_int b = (if b then 1 else 0)"

text \<open>The operator \<^verbatim>\<open>==\<close>: a bool equals the int 0 or 1; lists compare element by element, dicts by
  their keys and values in any order; values of different kinds are unequal.\<close>

function py_eq :: "pyval \<Rightarrow> pyval \<Rightarrow> bool" where
  "py_eq x y =
     (case (x, y) of
        (PNone, PNone) \<Rightarrow> True
      | (PBool a, PBool b) \<Rightarrow> a = b
      | (PBool a, PInt b) \<Rightarrow> pybool_int a = b
      | (PInt a, PBool b) \<Rightarrow> a = pybool_int b
      | (PInt a, PInt b) \<Rightarrow> a = b
      | (PStr a, PStr b) \<Rightarrow> a = b
      | (PList xs, PList ys) \<Rightarrow>
          length xs = length ys \<and> list_all (\<lambda>(a, b). py_eq a b) (zip xs ys)
      | (PDict d, PDict e) \<Rightarrow>
          length d = length e \<and>
          list_all (\<lambda>(k, v). case map_of e k of None \<Rightarrow> False | Some w \<Rightarrow> py_eq v w) d
      | _ \<Rightarrow> False)"
  by pat_completeness auto
termination
  by (relation "measure (\<lambda>(x, y). size x)")
    (auto dest!: set_zip_leftD dest: size_list_value size_dict_value)

declare py_eq.simps [simp del]

lemma py_eq_simps [simp]:
  "py_eq PNone PNone" "py_eq (PBool a) (PBool b) \<longleftrightarrow> a = b" "py_eq (PInt i) (PInt j) \<longleftrightarrow> i = j"
  "py_eq (PStr s) (PStr t) \<longleftrightarrow> s = t"
  "py_eq (PBool a) (PInt i) \<longleftrightarrow> pybool_int a = i" "py_eq (PInt i) (PBool a) \<longleftrightarrow> i = pybool_int a"
  "\<not> py_eq PNone (PBool a)" "\<not> py_eq PNone (PInt i)" "\<not> py_eq PNone (PStr s)"
  "\<not> py_eq PNone (PList xs)" "\<not> py_eq PNone (PDict d)"
  "\<not> py_eq (PStr s) PNone" "\<not> py_eq (PStr s) (PInt i)" "\<not> py_eq (PStr s) (PBool a)"
  "\<not> py_eq (PStr s) (PList xs)" "\<not> py_eq (PStr s) (PDict d)"
  "\<not> py_eq (PInt i) PNone" "\<not> py_eq (PInt i) (PStr s)" "\<not> py_eq (PBool a) PNone"
  "\<not> py_eq (PBool a) (PStr s)" "\<not> py_eq (PList xs) PNone" "\<not> py_eq (PDict d) PNone"
  "\<not> py_eq (PInt i) (PList xs)" "\<not> py_eq (PInt i) (PDict d)" "\<not> py_eq (PBool a) (PList xs)"
  "\<not> py_eq (PBool a) (PDict d)" "\<not> py_eq (PList xs) (PDict d)" "\<not> py_eq (PDict d) (PList xs)"
  "\<not> py_eq (PList xs) (PStr s)" "\<not> py_eq (PList xs) (PInt i)" "\<not> py_eq (PList xs) (PBool a)"
  "\<not> py_eq (PDict d) (PStr s)" "\<not> py_eq (PDict d) (PInt i)" "\<not> py_eq (PDict d) (PBool a)"
  by (simp_all add: py_eq.simps)

text \<open>The operators \<^verbatim>\<open><\<close> and \<^verbatim>\<open><=\<close>: numbers and bools by value, strings by code points, lists by
  their first unequal pair and then by length; anything else raises TypeError.\<close>

fun py_number :: "pyval \<Rightarrow> int option" where
  "py_number (PInt i) = Some i"
| "py_number (PBool b) = Some (pybool_int b)"
| "py_number _ = None"

function (sequential) py_less :: "bool \<Rightarrow> pyval \<Rightarrow> pyval \<Rightarrow> (authz_error, bool) result"
  and py_less_list :: "bool \<Rightarrow> pyval list \<Rightarrow> pyval list \<Rightarrow> (authz_error, bool) result" where
  "py_less strict (PStr a) (PStr b) = Inr (if strict then a < b else a \<le> b)"
| "py_less strict (PList xs) (PList ys) = py_less_list strict xs ys"
| "py_less strict x y =
     (case (py_number x, py_number y) of
        (Some a, Some b) \<Rightarrow> Inr (if strict then a < b else a \<le> b)
      | _ \<Rightarrow> Inl TypeError)"
| "py_less_list strict [] [] = Inr (\<not> strict)"
| "py_less_list strict [] (y # ys) = Inr True"
| "py_less_list strict (x # xs) [] = Inr False"
| "py_less_list strict (x # xs) (y # ys) =
     (if py_eq x y then py_less_list strict xs ys else py_less strict x y)"
  by pat_completeness auto
termination
  by (relation "measure (\<lambda>p. case p of Inl (s, x, y) \<Rightarrow> 2 * size x
        | Inr (s, xs, ys) \<Rightarrow> 2 * size_list size xs + 1)") auto

text \<open>Truth value of an object, as \<^verbatim>\<open>or\<close> and \<^verbatim>\<open>not\<close> see it.\<close>

fun py_truthy :: "pyval \<Rightarrow> bool" where
  "py_truthy PNone = False"
| "py_truthy (PBool b) = b"
| "py_truthy (PInt i) = (i \<noteq> 0)"
| "py_truthy (PStr s) = (s \<noteq> [])"
| "py_truthy (PList xs) = (xs \<noteq> [])"
| "py_truthy (PDict d) = (d \<noteq> [])"

fun py_hashable :: "pyval \<Rightarrow> bool" where
  "py_hashable (PList _) = False"
| "py_hashable (PDict _) = False"
| "py_hashable _ = True"

definition is_substring :: "string \<Rightarrow> string \<Rightarrow> bool" where
  "is_substring p s \<longleftrightarrow> list_ex (\<lambda>i. starts_with p (drop i s)) [0..<Suc (length s)]"

text \<open>The operator \<^verbatim>\<open>in\<close> on a container that may be of any kind.\<close>

fun py_in :: "pyval \<Rightarrow> pyval \<Rightarrow> (authz_error, bool) result" where
  "py_in x (PList ys) = Inr (list_ex (\<lambda>y. py_eq x y) ys)"
| "py_in x (PStr s) = (case x of PStr p \<Rightarrow> Inr (is_substring p s) | _ \<Rightarrow> Inl TypeError)"
| "py_in x (PDict d) =
     (if \<not> py_hashable x then Inl TypeError
      else Inr (case x of PStr k \<Rightarrow> map_of d k \<noteq> None | _ \<Rightarrow> False))"
| "py_in x _ = Inl TypeError"

text \<open>Iterating over a value in a generator expression.\<close>

fun py_iter :: "pyval \<Rightarrow> (authz_error, pyval list) result" where
  "py_iter (PList xs) = Inr xs"
| "py_iter (PDict d) = Inr (map (\<lambda>p. PStr (fst p)) d)"
| "py_iter (PStr s) = Inr (map (\<lambda>c. PStr [c]) s)"
| "py_iter _ = Inl TypeError"

section \<open>Expressions\<close>

definition PATH_PREFIXES :: "string list" where
  "PATH_PREFIXES = [''resource.'', ''subject.'', ''context.'', ''agent.'', ''user.'', ''tenant.'']"

type_synonym attr_lookup = "pyval \<Rightarrow> string \<Rightarrow> pyval"

text \<open>The loop of \<^verbatim>\<open>_resolve\<close> over the remaining path segments.\<close>

fun walk_path :: "attr_lookup \<Rightarrow> pyval \<Rightarrow> string list \<Rightarrow> pyval" where
  "walk_path attr current [] = current"
| "walk_path attr current (key # keys) =
     (case current of
        PNone \<Rightarrow> PNone
      | PDict d \<Rightarrow>
          walk_path attr (case map_of d key of None \<Rightarrow> PNone | Some v \<Rightarrow> v) keys
      | _ \<Rightarrow> walk_path attr (attr current key) keys)"

definition resolve_operand :: "attr_lookup \<Rightarrow> pyval \<Rightarrow> pydict \<Rightarrow> pyval" where
  "resolve_operand attr operand variables =
     (case operand of
        PStr s \<Rightarrow>
          if list_ex (\<lambda>p. starts_with p s) PATH_PREFIXES
          then (let parts = split_on CHR ''.'' s in
            walk_path attr
              (case map_of variables (hd parts) of None \<Rightarrow> PNone | Some v \<Rightarrow> v) (tl parts))
          else operand
      | _ \<Rightarrow> operand)"

text \<open>The comparison part of \<^verbatim>\<open>evaluate_expression\<close>, after both operands are resolved.\<close>

definition compare_values :: "string \<Rightarrow> pyval \<Rightarrow> pyval \<Rightarrow> (authz_error, bool) result" where
  "compare_values op left right =
     (if op = ''eq'' then Inr (py_eq left right)
      else if op = ''ne'' then Inr (\<not> py_eq left right)
      else if op = ''lt'' then
        if left \<noteq> PNone \<and> right \<noteq> PNone then py_less True left right else Inr False
      else if op = ''lte'' then
        if left \<noteq> PNone \<and> right \<noteq> PNone then py_less False left right else Inr False
      else if op = ''gt'' then
        if left \<noteq> PNone \<and> right \<noteq> PNone then py_less True right left else Inr False
      else if op = ''gte'' then
        if left \<noteq> PNone \<and> right \<noteq> PNone then py_less False right left else Inr False
      else if op = ''in'' then py_in left (if py_truthy right then right else PList [])
      else if op = ''not_in'' then
        res_bind (py_in left (if py_truthy right then right else PList [])) (\<lambda>b. Inr (\<not> b))
      else Inl ValueError)"

function evaluate_expression :: "attr_lookup \<Rightarrow> pyval \<Rightarrow> pydict \<Rightarrow> (authz_error, bool) result" where
  "evaluate_expression attr expr variables =
     (case expr of
        PNone \<Rightarrow> Inr True
      | PBool b \<Rightarrow> Inr b
      | PDict [(op, operands)] \<Rightarrow>
          if op = ''and'' then
            (case py_iter operands of
               Inl e \<Rightarrow> Inl e
             | Inr es \<Rightarrow> res_all (\<lambda>e. evaluate_expression attr e variables) es)
          else if op = ''or'' then
            (case py_iter operands of
               Inl e \<Rightarrow> Inl e
             | Inr es \<Rightarrow> res_any (\<lambda>e. evaluate_expression attr e variables) es)
          else if op = ''not'' then
            (case operands of
               PList [] \<Rightarrow> Inl IndexError
             | PList (target # _) \<Rightarrow>
                 res_bind (evaluate_expression attr target variables) (\<lambda>b. Inr (\<not> b))
             | target \<Rightarrow> res_bind (evaluate_expression attr target variables) (\<lambda>b. Inr (\<not> b)))
          else
            (case operands of
               PList [l, r] \<Rightarrow>
                 compare_values op (resolve_operand attr l variables)
                   (resolve_operand attr r variables)
             | _ \<Rightarrow> Inl ValueError)
      | _ \<Rightarrow> Inl ValueError)"
  by pat_completeness auto

lemma py_iter_size: "\<lbrakk>py_iter v = Inr es; e \<in> set es\<rbrakk> \<Longrightarrow> size e \<le> size v"
  by (cases v) (auto dest: size_list_value)

termination evaluate_expression
  by (relation "measure (\<lambda>(attr, e, vs). size e)") (auto dest: py_iter_size)

declare evaluate_expression.simps [simp del]

text \<open>One equation per shape of a well-formed expression.\<close>

lemma evaluate_literal [simp]:
  "evaluate_expression attr PNone vs = Inr True"
  "evaluate_expression attr (PBool b) vs = Inr b"
  by (simp_all add: evaluate_expression.simps)

lemma evaluate_and:
  "evaluate_expression attr (PDict [(''and'', PList es)]) vs =
     res_all (\<lambda>e. evaluate_expression attr e vs) es"
  by (subst evaluate_expression.simps) simp

lemma evaluate_or:
  "evaluate_expression attr (PDict [(''or'', PList es)]) vs =
     res_any (\<lambda>e. evaluate_expression attr e vs) es"
  by (subst evaluate_expression.simps) simp

lemma evaluate_not:
  "evaluate_expression attr (PDict [(''not'', PList [e])]) vs =
     res_bind (evaluate_expression attr e vs) (\<lambda>b. Inr (\<not> b))"
  by (subst evaluate_expression.simps) simp

lemma evaluate_binary:
  "op \<notin> {''and'', ''or'', ''not''} \<Longrightarrow>
   evaluate_expression attr (PDict [(op, PList [l, r])]) vs =
     compare_values op (resolve_operand attr l vs) (resolve_operand attr r vs)"
  by (subst evaluate_expression.simps) simp

section \<open>Requests\<close>

text \<open>The dataclasses of \<^verbatim>\<open>authzkit/rbac/checker.py\<close> that the policy engine reads. \<^verbatim>\<open>None\<close> is \<open>None\<close>;
  \<^verbatim>\<open>delegated_permissions=None\<close> means that no delegation grant is in play.\<close>

record subject =
  subj_type :: string
  subj_user_id :: "ident option"
  subj_agent_id :: "ident option"
  subj_service_account_id :: "ident option"

record resolved_references =
  ref_tenant_id :: ident
  ref_application_id :: ident
  ref_tenant_status :: "string option"
  ref_application_status :: "string option"
  ref_user_id :: "ident option"
  ref_user_missing :: bool
  ref_agent_id :: "ident option"
  ref_agent_status :: "string option"
  ref_agent_missing :: bool

text \<open>The property \<^verbatim>\<open>ResolvedReferences.complete\<close>.\<close>

definition refs_complete :: "resolved_references \<Rightarrow> bool" where
  "refs_complete r \<longleftrightarrow>
     ref_tenant_status r \<noteq> None \<and> ref_application_status r \<noteq> None \<and>
     \<not> ref_user_missing r \<and> \<not> ref_agent_missing r"

record authorize_request =
  req_tenant_id :: ident
  req_application_id :: ident
  req_subject :: subject
  req_resource :: string
  req_action :: string
  req_context :: pydict
  req_delegated :: "string set option"
  req_references :: "resolved_references option"

definition required_permission :: "authorize_request \<Rightarrow> string" where
  "required_permission req = join_dot (req_resource req) (req_action req)"

section \<open>Rules\<close>

record policy_rule =
  rule_name :: string
  rule_effect :: string
  rule_resource :: string
  rule_action :: string
  rule_condition :: pyval
  rule_tenant_id :: "ident option"
  rule_application_id :: "ident option"

text \<open>The engine's state is its list of rules; the attribute lookup is the interpreter's.\<close>

record policy_engine =
  pe_rules :: "policy_rule list"
  pe_attr :: attr_lookup

definition add_rule :: "policy_engine \<Rightarrow> policy_rule \<Rightarrow> policy_engine" where
  "add_rule pe rule = pe\<lparr>pe_rules := pe_rules pe @ [rule]\<rparr>"

definition matches_target :: "policy_rule \<Rightarrow> authorize_request \<Rightarrow> bool" where
  "matches_target rule req =
     (if rule_tenant_id rule \<noteq> None \<and> rule_tenant_id rule \<noteq> Some (req_tenant_id req) then False
      else if rule_application_id rule \<noteq> None \<and>
              rule_application_id rule \<noteq> Some (req_application_id req) then False
      else if rule_resource rule \<noteq> ''*'' \<and> rule_resource rule \<noteq> req_resource req then False
      else \<not> (rule_action rule \<noteq> ''*'' \<and> rule_action rule \<noteq> req_action req))"

definition py_optional :: "string option \<Rightarrow> pyval" where
  "py_optional v = (case v of None \<Rightarrow> PNone | Some s \<Rightarrow> PStr s)"

definition context_get :: "pydict \<Rightarrow> string \<Rightarrow> pyval" where
  "context_get ctx key = dict_get_default ctx key (PDict [])"

text \<open>The mapping the path operands are resolved against.\<close>

definition policy_variables :: "authorize_request \<Rightarrow> pydict" where
  "policy_variables req =
     [(''resource'', context_get (req_context req) ''resource''),
      (''subject'', PDict [(''type'', PStr (subj_type (req_subject req))),
                           (''user_id'', py_optional (subj_user_id (req_subject req))),
                           (''agent_id'', py_optional (subj_agent_id (req_subject req)))]),
      (''context'', PDict (req_context req)),
      (''agent'', context_get (req_context req) ''agent''),
      (''user'', context_get (req_context req) ''user''),
      (''tenant'', PDict [(''id'', PStr (req_tenant_id req))])]"

text \<open>The two loops of \<^verbatim>\<open>PolicyEngine.evaluate\<close>: a satisfied deny rule returns False at once; then
  an allow rule that does not hold returns False.\<close>

fun deny_pass :: "attr_lookup \<Rightarrow> policy_rule list \<Rightarrow> pydict \<Rightarrow> (authz_error, bool) result" where
  "deny_pass attr [] vs = Inr True"
| "deny_pass attr (r # rs) vs =
     (if rule_effect r = ''deny'' then
        (case evaluate_expression attr (rule_condition r) vs of
           Inl e \<Rightarrow> Inl e
         | Inr b \<Rightarrow> if b then Inr False else deny_pass attr rs vs)
      else deny_pass attr rs vs)"

fun allow_pass :: "attr_lookup \<Rightarrow> policy_rule list \<Rightarrow> pydict \<Rightarrow> (authz_error, bool) result" where
  "allow_pass attr [] vs = Inr True"
| "allow_pass attr (r # rs) vs =
     (if rule_effect r = ''allow'' then
        (case evaluate_expression attr (rule_condition r) vs of
           Inl e \<Rightarrow> Inl e
         | Inr b \<Rightarrow> if b then allow_pass attr rs vs else Inr False)
      else allow_pass attr rs vs)"

definition evaluate :: "policy_engine \<Rightarrow> authorize_request \<Rightarrow> (authz_error, bool) result" where
  "evaluate pe req =
     (if pe_rules pe = [] then Inr True
      else (let applicable = filter (\<lambda>r. matches_target r req) (pe_rules pe) in
        if applicable = [] then Inr True
        else (let variables = policy_variables req in
          case deny_pass (pe_attr pe) applicable variables of
            Inl e \<Rightarrow> Inl e
          | Inr False \<Rightarrow> Inr False
          | Inr True \<Rightarrow> allow_pass (pe_attr pe) applicable variables)))"

section \<open>Lemmas about evaluation\<close>

lemma deny_pass_True_iff:
  "deny_pass attr rs vs = Inr True \<longleftrightarrow>
     (\<forall>r \<in> set rs. rule_effect r = ''deny'' \<longrightarrow>
        evaluate_expression attr (rule_condition r) vs = Inr False)"
  by (induction rs) (auto split: sum.splits)

lemma allow_pass_True_iff:
  "allow_pass attr rs vs = Inr True \<longleftrightarrow>
     (\<forall>r \<in> set rs. rule_effect r = ''allow'' \<longrightarrow>
        evaluate_expression attr (rule_condition r) vs = Inr True)"
  by (induction rs) (auto split: sum.splits)

lemma evaluate_no_rules [simp]: "pe_rules pe = [] \<Longrightarrow> evaluate pe req = Inr True"
  by (simp add: evaluate_def)

text \<open>What an applicable rule demands of a request.\<close>

definition rule_satisfied :: "policy_engine \<Rightarrow> authorize_request \<Rightarrow> policy_rule \<Rightarrow> bool" where
  "rule_satisfied pe req r \<longleftrightarrow>
     (rule_effect r = ''deny'' \<longrightarrow>
        evaluate_expression (pe_attr pe) (rule_condition r) (policy_variables req) = Inr False) \<and>
     (rule_effect r = ''allow'' \<longrightarrow>
        evaluate_expression (pe_attr pe) (rule_condition r) (policy_variables req) = Inr True)"

lemma evaluate_True_iff:
  "evaluate pe req = Inr True \<longleftrightarrow>
     (\<forall>r \<in> set (pe_rules pe). matches_target r req \<longrightarrow> rule_satisfied pe req r)"
proof -
  let ?app = "filter (\<lambda>r. matches_target r req) (pe_rules pe)"
  have "evaluate pe req = Inr True \<longleftrightarrow>
      deny_pass (pe_attr pe) ?app (policy_variables req) = Inr True \<and>
      allow_pass (pe_attr pe) ?app (policy_variables req) = Inr True"
    by (auto simp: evaluate_def Let_def split: sum.splits bool.splits)
  then show ?thesis
    by (auto simp: deny_pass_True_iff allow_pass_True_iff rule_satisfied_def)
qed

text \<open>The evaluation reads only the target, the subject and the context of a request.\<close>

lemma matches_target_frame [simp]:
  "matches_target r (req\<lparr>req_delegated := d\<rparr>) = matches_target r req"
  "matches_target r (req\<lparr>req_references := rs\<rparr>) = matches_target r req"
  by (simp_all add: matches_target_def)

lemma policy_variables_frame [simp]:
  "policy_variables (req\<lparr>req_delegated := d\<rparr>) = policy_variables req"
  "policy_variables (req\<lparr>req_references := rs\<rparr>) = policy_variables req"
  by (simp_all add: policy_variables_def)

lemma evaluate_frame [simp]:
  "evaluate pe (req\<lparr>req_delegated := d\<rparr>) = evaluate pe req"
  "evaluate pe (req\<lparr>req_references := rs\<rparr>) = evaluate pe req"
  by (simp_all add: evaluate_def Let_def)

section \<open>Conditions as formulas\<close>

text \<open>The meaning of a condition, without JSON and without exceptions: what the expression
  language is meant to express, and its encoding as the JSON the evaluator reads.\<close>

datatype cond = Lit bool | And "cond list" | Or "cond list" | Not cond | Cmp string pyval pyval

fun encode :: "cond \<Rightarrow> pyval" where
  "encode (Lit b) = PBool b"
| "encode (And cs) = PDict [(''and'', PList (map encode cs))]"
| "encode (Or cs) = PDict [(''or'', PList (map encode cs))]"
| "encode (Not c) = PDict [(''not'', PList [encode c])]"
| "encode (Cmp op l r) = PDict [(op, PList [l, r])]"

fun cond_holds :: "attr_lookup \<Rightarrow> pydict \<Rightarrow> cond \<Rightarrow> bool" where
  "cond_holds attr vs (Lit b) = b"
| "cond_holds attr vs (And cs) = (\<forall>c \<in> set cs. cond_holds attr vs c)"
| "cond_holds attr vs (Or cs) = (\<exists>c \<in> set cs. cond_holds attr vs c)"
| "cond_holds attr vs (Not c) = (\<not> cond_holds attr vs c)"
| "cond_holds attr vs (Cmp op l r) =
     (compare_values op (resolve_operand attr l vs) (resolve_operand attr r vs) = Inr True)"

text \<open>Every comparison uses a comparison operator on operands it is defined for.\<close>

fun cond_typed :: "attr_lookup \<Rightarrow> pydict \<Rightarrow> cond \<Rightarrow> bool" where
  "cond_typed attr vs (Lit b) = True"
| "cond_typed attr vs (And cs) = (\<forall>c \<in> set cs. cond_typed attr vs c)"
| "cond_typed attr vs (Or cs) = (\<forall>c \<in> set cs. cond_typed attr vs c)"
| "cond_typed attr vs (Not c) = cond_typed attr vs c"
| "cond_typed attr vs (Cmp op l r) =
     (op \<notin> {''and'', ''or'', ''not''} \<and>
      (\<exists>b. compare_values op (resolve_operand attr l vs) (resolve_operand attr r vs) = Inr b))"

lemma res_all_bool:
  "(\<And>x. x \<in> set xs \<Longrightarrow> f x = Inr (g x)) \<Longrightarrow> res_all f xs = Inr (\<forall>x \<in> set xs. g x)"
  by (induction xs) auto

lemma res_any_bool:
  "(\<And>x. x \<in> set xs \<Longrightarrow> f x = Inr (g x)) \<Longrightarrow> res_any f xs = Inr (\<exists>x \<in> set xs. g x)"
  by (induction xs) auto

lemma res_all_map: "res_all f (map g xs) = res_all (\<lambda>x. f (g x)) xs"
  by (induction xs) (auto split: sum.splits)

lemma res_any_map: "res_any f (map g xs) = res_any (\<lambda>x. f (g x)) xs"
  by (induction xs) (auto split: sum.splits)

section \<open>Properties\<close>



text \<open>Deny rules win and allow rules constrain. A request passes the attribute layer exactly when
  every rule whose target (tenant, application, resource and action, each exact or a wildcard)
  matches the request is satisfied by it: the condition of a deny rule evaluates to False and the
  condition of an allow rule to True. So a rule of another tenant or application, or of another
  effect, never blocks, and one matching deny rule whose condition holds blocks whatever the allow
  rules say.\<close>

theorem evaluate_iff_all_satisfied:
  "evaluate pe req = Inr True \<longleftrightarrow>
     (\<forall>r \<in> set (pe_rules pe).
        \<not> ((rule_tenant_id r = None \<or> rule_tenant_id r = Some (req_tenant_id req)) \<and>
           (rule_application_id r = None \<or>
            rule_application_id r = Some (req_application_id req)) \<and>
           (rule_resource r = ''*'' \<or> rule_resource r = req_resource req) \<and>
           (rule_action r = ''*'' \<or> rule_action r = req_action req)) \<or>
        rule_satisfied pe req r)"
  by (auto simp: evaluate_True_iff matches_target_def)

theorem evaluate_iff_all_satisfied_witness:
  "evaluate \<lparr>pe_rules = [\<lparr>rule_name = ''d'', rule_effect = ''deny'', rule_resource = ''*'',
        rule_action = ''delete'', rule_condition = PNone, rule_tenant_id = None,
        rule_application_id = None\<rparr>], pe_attr = (\<lambda>_ _. PNone)\<rparr>
     \<lparr>req_tenant_id = ''t'', req_application_id = ''a'',
      req_subject = \<lparr>subj_type = ''user'', subj_user_id = Some ''u'', subj_agent_id = None,
        subj_service_account_id = None\<rparr>,
      req_resource = ''docs'', req_action = ''read'', req_context = [], req_delegated = None,
      req_references = None\<rparr> = Inr True"
  by (simp add: evaluate_iff_all_satisfied)

end
