(* ===== verification/Identity.thy ===== *)
theory Identity
  imports Policies
begin

text \<open>
  \<^verbatim>\<open>authzkit/identity\<close>: the normalizers that fold the claims of an identity provider into an
  \<^verbatim>\<open>IdentityPrincipal\<close>, and the JWT validator with its cache of key sets. PyJWT and the HTTP client are
  not part of the repository: their calls are the fields of \<open>jwt_lib\<close> and the argument \<open>http_get\<close>,
  which threads the state of the network. The text \<^verbatim>\<open>str(v)\<close> of a list or dict is a parameter too.
\<close>

section \<open>Claims\<close>

definition py_get :: "pydict \<Rightarrow> string \<Rightarrow> pyval" where
  "py_get d k = (case dict_get d k of None \<Rightarrow> PNone | Some v \<Rightarrow> v)"

definition py_or :: "pyval \<Rightarrow> pyval \<Rightarrow> pyval" where
  "py_or a b = (if py_truthy a then a else b)"

fun py_str :: "(pyval \<Rightarrow> string) \<Rightarrow> pyval \<Rightarrow> string" where
  "py_str repr (PStr s) = s"
| "py_str repr (PInt i) = int_str i"
| "py_str repr (PBool b) = (if b then ''True'' else ''False'')"
| "py_str repr PNone = ''None''"
| "py_str repr v = repr v"

section \<open>Normalization\<close>

text \<open>The optional fields hold whatever the claim held: their type is a parameter of the record, \<open>pyval\<close>
  for what a normalizer returns and \<open>string option\<close> for the annotated type.\<close>

record 'v identity_principal =
  ip_provider :: string
  ip_issuer :: string
  ip_subject :: string
  ip_email :: 'v
  ip_external_tenant_id :: 'v
  ip_claims :: pydict

definition PROVIDER_AZURE_ENTRA :: string where
  "PROVIDER_AZURE_ENTRA = ''azure_entra''"

definition PROVIDER_AWS_COGNITO :: string where
  "PROVIDER_AWS_COGNITO = ''aws_cognito''"

definition PROVIDER_GCP_IDENTITY :: string where
  "PROVIDER_GCP_IDENTITY = ''gcp_identity''"

definition PROVIDER_GENERIC_OIDC :: string where
  "PROVIDER_GENERIC_OIDC = ''generic_oidc''"

lemmas provider_defs =
  PROVIDER_AZURE_ENTRA_def PROVIDER_AWS_COGNITO_def PROVIDER_GCP_IDENTITY_def PROVIDER_GENERIC_OIDC_def

type_synonym normalizer = "(pyval \<Rightarrow> string) \<Rightarrow> pydict \<Rightarrow> (authz_error, pyval identity_principal) result"

definition normalize_entra :: normalizer where
  "normalize_entra repr claims =
     (let subj = py_or (py_get claims ''oid'') (py_get claims ''sub'');
          issuer = py_get claims ''iss'' in
      if \<not> py_truthy subj then Inl ValueError
      else if \<not> py_truthy issuer then Inl ValueError
      else Inr \<lparr>ip_provider = PROVIDER_AZURE_ENTRA, ip_issuer = py_str repr issuer,
             ip_subject = py_str repr subj,
             ip_email = py_or (py_get claims ''email'') (py_get claims ''preferred_username''),
             ip_external_tenant_id = py_get claims ''tid'', ip_claims = claims\<rparr>)"

definition normalize_cognito :: normalizer where
  "normalize_cognito repr claims =
     (let subj = py_get claims ''sub''; issuer = py_get claims ''iss'' in
      if \<not> py_truthy subj \<or> \<not> py_truthy issuer then Inl ValueError
      else Inr \<lparr>ip_provider = PROVIDER_AWS_COGNITO, ip_issuer = py_str repr issuer,
             ip_subject = py_str repr subj, ip_email = py_get claims ''email'',
             ip_external_tenant_id =
               py_or (py_or (py_get claims ''custom:tenant_id'') (py_get claims ''custom:tenantId''))
                 (py_get claims ''tenant_id''), ip_claims = claims\<rparr>)"

definition normalize_gcp :: normalizer where
  "normalize_gcp repr claims =
     (let subj = py_or (py_get claims ''sub'') (py_get claims ''user_id'');
          issuer = py_get claims ''iss'' in
      if \<not> py_truthy subj \<or> \<not> py_truthy issuer then Inl ValueError
      else (let external = (case py_get claims ''firebase'' of
                  PDict d \<Rightarrow> py_get d ''tenant'' | _ \<Rightarrow> PNone) in
        Inr \<lparr>ip_provider = PROVIDER_GCP_IDENTITY, ip_issuer = py_str repr issuer,
             ip_subject = py_str repr subj, ip_email = py_get claims ''email'',
             ip_external_tenant_id =
               py_or (py_or external (py_get claims ''tenant'')) (py_get claims ''organization_id''),
             ip_claims = claims\<rparr>))"

definition normalize_oidc :: normalizer where
  "normalize_oidc repr claims =
     (let subj = py_get claims ''sub''; issuer = py_get claims ''iss'' in
      if \<not> py_truthy subj \<or> \<not> py_truthy issuer then Inl ValueError
      else Inr \<lparr>ip_provider = PROVIDER_GENERIC_OIDC, ip_issuer = py_str repr issuer,
             ip_subject = py_str repr subj, ip_email = py_get claims ''email'',
             ip_external_tenant_id =
               py_or (py_or (py_get claims ''tenant_id'') (py_get claims ''tid''))
                 (py_get claims ''organization_id''), ip_claims = claims\<rparr>)"

definition normalizers :: "(string, normalizer) dict" where
  "normalizers =
     [(PROVIDER_AZURE_ENTRA, normalize_entra), (PROVIDER_AWS_COGNITO, normalize_cognito),
      (PROVIDER_GCP_IDENTITY, normalize_gcp), (PROVIDER_GENERIC_OIDC, normalize_oidc)]"

definition normalize_principal ::
  "(pyval \<Rightarrow> string) \<Rightarrow> string \<Rightarrow> pydict \<Rightarrow> (authz_error, pyval identity_principal) result" where
  "normalize_principal repr provider claims =
     dict_get_default normalizers provider normalize_oidc repr claims"

section \<open>JWT validation\<close>

datatype jwt_outcome = Decoded pydict | ExpiredSignature | InvalidToken

text \<open>What the code uses of PyJWT: the unverified header and payload, a key made from a JWK, and the
  verified payload for a key, algorithms, acceptable audiences (None: not checked), issuer, leeway
  and clock. None stands for an exception of the library.\<close>

record ('tok, 'key) jwt_lib =
  jl_header :: "'tok \<Rightarrow> pydict option"
  jl_peek :: "'tok \<Rightarrow> pydict option"
  jl_key :: "pydict \<Rightarrow> 'key option"
  jl_decode :: "'key \<Rightarrow> string list \<Rightarrow> string list option \<Rightarrow> string \<Rightarrow> int \<Rightarrow> instant \<Rightarrow> 'tok \<Rightarrow> jwt_outcome"

datatype jwt_error =
    JWTValidationError
  | PyJWTError
  | HTTPError
  | KeyProviderError
  | UncaughtError authz_error

datatype http_response = Response (http_status: nat) (http_json: "pyval option")

type_synonym 'net http_get = "'net \<Rightarrow> string \<Rightarrow> http_response option \<times> 'net"

record jwt_validator_config =
  jc_issuer :: string
  jc_audience :: "string list option"
  jc_jwks_url :: "string option"
  jc_algorithms :: "string list"
  jc_leeway_seconds :: int

record jwt_validator =
  jv_configs :: "(string, jwt_validator_config) dict"
  jv_ttl :: int
  jv_cache :: "(string, pydict \<times> instant) dict"

definition jwt_validator_init :: "jwt_validator_config list \<Rightarrow> int \<Rightarrow> jwt_validator" where
  "jwt_validator_init configs ttl =
     \<lparr>jv_configs = fold (\<lambda>c d. dict_set (jc_issuer c) c d) configs [], jv_ttl = ttl, jv_cache = []\<rparr>"

definition decode_json :: "http_response \<Rightarrow> (jwt_error, pyval) result" where
  "decode_json r = (case http_json r of None \<Rightarrow> Inl JWTValidationError | Some v \<Rightarrow> Inr v)"

definition rstrip_slash :: "string \<Rightarrow> string" where
  "rstrip_slash s = rev (dropWhile (\<lambda>c. c = CHR ''/'') (rev s))"

text \<open>One GET whose body must be a JSON object, as both fetches of the validator check it.\<close>

definition get_object :: "'net http_get \<Rightarrow> 'net \<Rightarrow> string \<Rightarrow> (jwt_error, pydict) result \<times> 'net" where
  "get_object http_get net url =
     (case http_get net url of
        (None, net') \<Rightarrow> (Inl HTTPError, net')
      | (Some r, net') \<Rightarrow>
          (if 400 \<le> http_status r then Inl JWTValidationError
           else res_bind (decode_json r)
             (\<lambda>v. case v of PDict d \<Rightarrow> Inr d | _ \<Rightarrow> Inl JWTValidationError), net'))"

definition discover_jwks_url ::
  "'net http_get \<Rightarrow> 'net \<Rightarrow> jwt_validator_config \<Rightarrow> (jwt_error, string) result \<times> 'net" where
  "discover_jwks_url http_get net config =
     (let (p, net') = get_object http_get net
            (rstrip_slash (jc_issuer config) @ ''/.well-known/openid-configuration'') in
      (res_bind p (\<lambda>d. let uri = py_get d ''jwks_uri'' in
         if \<not> py_truthy uri then Inl JWTValidationError
         else (case uri of PStr u \<Rightarrow> Inr u | _ \<Rightarrow> Inl (UncaughtError TypeError))), net'))"

definition resolve_jwks_url ::
  "'net http_get \<Rightarrow> 'net \<Rightarrow> jwt_validator_config \<Rightarrow> (jwt_error, string) result \<times> 'net" where
  "resolve_jwks_url http_get net config =
     (case jc_jwks_url config of
        Some u \<Rightarrow> if u \<noteq> '''' then (Inr u, net) else discover_jwks_url http_get net config
      | None \<Rightarrow> discover_jwks_url http_get net config)"

text \<open>The part of \<^verbatim>\<open>_get_jwks\<close> after the cache was of no use.\<close>

definition fetch_jwks ::
  "'net http_get \<Rightarrow> instant \<Rightarrow> jwt_validator \<Rightarrow> 'net \<Rightarrow> jwt_validator_config \<Rightarrow>
     (jwt_error, pydict) result \<times> jwt_validator \<times> 'net" where
  "fetch_jwks http_get now v net config =
     (case resolve_jwks_url http_get net config of
        (Inl e, net') \<Rightarrow> (Inl e, v, net')
      | (Inr url, net') \<Rightarrow>
          (case get_object http_get net' url of
             (Inl e, net'') \<Rightarrow> (Inl e, v, net'')
           | (Inr jwks, net'') \<Rightarrow>
               (Inr jwks,
                v\<lparr>jv_cache := dict_set (jc_issuer config) (jwks, now + jv_ttl v) (jv_cache v)\<rparr>, net'')))"

definition get_jwks ::
  "'net http_get \<Rightarrow> instant \<Rightarrow> jwt_validator \<Rightarrow> 'net \<Rightarrow> jwt_validator_config \<Rightarrow>
     (jwt_error, pydict) result \<times> jwt_validator \<times> 'net" where
  "get_jwks http_get now v net config =
     (case dict_get (jv_cache v) (jc_issuer config) of
        Some (jwks, expiry) \<Rightarrow>
          if now < expiry then (Inr jwks, v, net) else fetch_jwks http_get now v net config
      | None \<Rightarrow> fetch_jwks http_get now v net config)"

text \<open>The generator \<^verbatim>\<open>next(k for k in jwks.get("keys", []) if k.get("kid") == kid)\<close>.\<close>

fun find_kid :: "pyval \<Rightarrow> pyval list \<Rightarrow> (jwt_error, pydict option) result" where
  "find_kid kid [] = Inr None"
| "find_kid kid (k # ks) =
     (case k of
        PDict d \<Rightarrow> if py_eq (py_get d ''kid'') kid then Inr (Some d) else find_kid kid ks
      | _ \<Rightarrow> Inl (UncaughtError AttributeError))"

definition jwks_key :: "pydict \<Rightarrow> pyval \<Rightarrow> (jwt_error, pydict option) result" where
  "jwks_key jwks kid =
     (case dict_get jwks ''keys'' of
        None \<Rightarrow> Inr None
      | Some v \<Rightarrow>
          (case py_iter v of
             Inl e \<Rightarrow> Inl (UncaughtError e)
           | Inr ks \<Rightarrow> find_kid kid ks))"

text \<open>The verification of \<^verbatim>\<open>validate\<close> once a key is found.\<close>

definition verify_with ::
  "('tok, 'key) jwt_lib \<Rightarrow> instant \<Rightarrow> jwt_validator_config \<Rightarrow> 'tok \<Rightarrow> pydict \<Rightarrow> (jwt_error, pydict) result" where
  "verify_with lib now config token key =
     (case jl_key lib key of
        None \<Rightarrow> Inl PyJWTError
      | Some public_key \<Rightarrow>
          (case jl_decode lib public_key (jc_algorithms config) (jc_audience config)
                  (jc_issuer config) (jc_leeway_seconds config) now token of
             Decoded claims \<Rightarrow> Inr claims
           | _ \<Rightarrow> Inl JWTValidationError))"

text \<open>\<^verbatim>\<open>self._configs.get(expected_issuer or "")\<close> for an issuer claim of any kind.\<close>

definition config_for :: "jwt_validator \<Rightarrow> pyval \<Rightarrow> (jwt_error, jwt_validator_config) result" where
  "config_for v iss =
     (case py_or iss (PStr '''') of
        PStr i \<Rightarrow> (case dict_get (jv_configs v) i of None \<Rightarrow> Inl JWTValidationError | Some c \<Rightarrow> Inr c)
      | other \<Rightarrow> if py_hashable other then Inl JWTValidationError else Inl (UncaughtError TypeError))"

text \<open>The search for the key with the token's id: in the cached set, then once in a fresh one.\<close>

definition signing_key_for ::
  "'net http_get \<Rightarrow> instant \<Rightarrow> jwt_validator \<Rightarrow> 'net \<Rightarrow> jwt_validator_config \<Rightarrow> pyval \<Rightarrow>
     (jwt_error, pydict) result \<times> jwt_validator \<times> 'net" where
  "signing_key_for http_get now v net config kid =
     (case get_jwks http_get now v net config of
        (Inl e, v', net') \<Rightarrow> (Inl e, v', net')
      | (Inr jwks, v', net') \<Rightarrow>
          (case jwks_key jwks kid of
             Inl e \<Rightarrow> (Inl e, v', net')
           | Inr (Some key) \<Rightarrow> (Inr key, v', net')
           | Inr None \<Rightarrow>
               (case get_jwks http_get now
                       (v'\<lparr>jv_cache := dict_pop (jc_issuer config) (jv_cache v')\<rparr>) net' config of
                  (Inl e, v'', net'') \<Rightarrow> (Inl e, v'', net'')
                | (Inr jwks', v'', net'') \<Rightarrow>
                    (res_bind (jwks_key jwks' kid)
                       (\<lambda>k. case k of None \<Rightarrow> Inl JWTValidationError | Some key \<Rightarrow> Inr key),
                     v'', net''))))"

definition validate ::
  "('tok, 'key) jwt_lib \<Rightarrow> 'net http_get \<Rightarrow> instant \<Rightarrow> jwt_validator \<Rightarrow> 'net \<Rightarrow> 'tok \<Rightarrow> string option \<Rightarrow>
     (jwt_error, pydict) result \<times> jwt_validator \<times> 'net" where
  "validate lib http_get now v net token expected_issuer =
     (case jl_header lib token of
        None \<Rightarrow> (Inl PyJWTError, v, net)
      | Some header \<Rightarrow>
          (let kid = py_get header ''kid'';
               issuer = (case expected_issuer of
                   Some i \<Rightarrow> Inr (PStr i)
                 | None \<Rightarrow> (case jl_peek lib token of
                     None \<Rightarrow> Inl PyJWTError | Some c \<Rightarrow> Inr (py_get c ''iss''))) in
           case res_bind issuer (config_for v) of
             Inl e \<Rightarrow> (Inl e, v, net)
           | Inr config \<Rightarrow>
               (let (key, v', net') = signing_key_for http_get now v net config kid in
                (res_bind key (verify_with lib now config token), v', net'))))"

definition validate_to_principal ::
  "(pyval \<Rightarrow> string) \<Rightarrow> ('tok, 'key) jwt_lib \<Rightarrow> 'net http_get \<Rightarrow> instant \<Rightarrow> jwt_validator \<Rightarrow> 'net \<Rightarrow>
     'tok \<Rightarrow> string \<Rightarrow> string option \<Rightarrow>
     (jwt_error, pyval identity_principal) result \<times> jwt_validator \<times> 'net" where
  "validate_to_principal repr lib http_get now v net token provider expected_issuer =
     (let (r, v', net') = validate lib http_get now v net token expected_issuer in
      (res_bind r (\<lambda>claims. case normalize_principal repr provider claims of
         Inl e \<Rightarrow> Inl (UncaughtError e) | Inr p \<Rightarrow> Inr p), v', net'))"

section \<open>Lemmas\<close>

lemma find_kid_Some:
  "find_kid kid ks = Inr (Some d) \<Longrightarrow> PDict d \<in> set ks \<and> py_eq (py_get d ''kid'') kid"
  by (induction ks) (auto split: pyval.splits if_splits)

lemma jwks_key_Some:
  "jwks_key jwks kid = Inr (Some d) \<Longrightarrow> py_eq (py_get d ''kid'') kid"
  by (auto simp: jwks_key_def split: option.splits sum.splits dest: find_kid_Some)

lemma signing_key_for_Inr:
  assumes "signing_key_for http_get now v net config kid = (Inr key, v', net')"
  shows "\<exists>w n jwks w' n'. get_jwks http_get now w n config = (Inr jwks, w', n') \<and>
     jwks_key jwks kid = Inr (Some key)"
  using assms
  by (auto simp: signing_key_for_def res_bind_eq_Inr split: prod.splits sum.splits option.splits)
    blast+

lemma config_for_Inr:
  "config_for v iss = Inr c \<Longrightarrow> \<exists>i. dict_get (jv_configs v) i = Some c \<and> py_or iss (PStr '''') = PStr i"
  by (auto simp: config_for_def split: pyval.splits option.splits if_splits)

lemma validate_Inr:
  assumes "validate lib http_get now v net token expected = (Inr claims, v', net')"
    and "jl_header lib token = Some header"
  obtains iss config key where "config_for v iss = Inr config"
    "\<And>i. expected = Some i \<Longrightarrow> iss = PStr i"
    "signing_key_for http_get now v net config (py_get header ''kid'') = (Inr key, v', net')"
    "verify_with lib now config token key = Inr claims"
proof -
  let ?issuer = "case expected of Some i \<Rightarrow> Inr (PStr i)
    | None \<Rightarrow> (case jl_peek lib token of None \<Rightarrow> Inl PyJWTError | Some c \<Rightarrow> Inr (py_get c ''iss''))"
  obtain config where c: "res_bind ?issuer (config_for v) = Inr config"
    using assms by (auto simp: validate_def Let_def split: sum.splits)
  then obtain iss where iss: "?issuer = Inr iss" "config_for v iss = Inr config"
    by (auto simp: res_bind_eq_Inr)
  obtain key where "signing_key_for http_get now v net config (py_get header ''kid'') = (Inr key, v', net')"
    "verify_with lib now config token key = Inr claims"
    using assms c by (auto simp: validate_def Let_def res_bind_eq_Inr split: prod.splits)
  moreover have "iss = PStr i" if "expected = Some i" for i using iss(1) that by simp
  ultimately show thesis using that iss(2) by blast
qed

lemma configs_issuer:
  "dict_get (jv_configs (jwt_validator_init configs ttl)) i = Some c \<Longrightarrow> jc_issuer c = i"
proof -
  have "dict_get (fold (\<lambda>c d. dict_set (jc_issuer c) c d) cs d) i = Some c \<Longrightarrow>
      (\<forall>j b. dict_get d j = Some b \<longrightarrow> jc_issuer b = j) \<Longrightarrow> jc_issuer c = i" for cs d
    by (induction cs arbitrary: d) auto
  then show "dict_get (jv_configs (jwt_validator_init configs ttl)) i = Some c \<Longrightarrow> ?thesis"
    by (simp add: jwt_validator_init_def)
qed

lemma get_jwks_cached:
  "\<lbrakk>dict_get (jv_cache v) (jc_issuer config) = Some (jwks, expiry); now < expiry\<rbrakk> \<Longrightarrow>
     get_jwks http_get now v net config = (Inr jwks, v, net)"
  by (simp add: get_jwks_def)

lemma get_jwks_frame:
  "get_jwks http_get now v net config = (r, v', net') \<Longrightarrow>
     jv_configs v' = jv_configs v \<and> jv_ttl v' = jv_ttl v \<and>
     (\<forall>i. i \<noteq> jc_issuer config \<longrightarrow> dict_get (jv_cache v') i = dict_get (jv_cache v) i)"
  by (auto simp: get_jwks_def fetch_jwks_def split: option.splits prod.splits sum.splits if_splits)

section \<open>Properties\<close>

text \<open>Normalizing keeps the provider apart. A principal carries the provider it was asked for, or the
  generic one for a provider the code does not know; its issuer is the text of a truthy \<^verbatim>\<open>iss\<close> claim
  and its subject the text of the first truthy subject claim of the provider (\<^verbatim>\<open>oid\<close> before \<^verbatim>\<open>sub\<close> for
  Entra, \<^verbatim>\<open>sub\<close> before \<^verbatim>\<open>user_id\<close> for Google); without those claims it raises.\<close>

theorem normalize_principal_sound:
  "(normalize_principal repr provider claims = Inr p \<longrightarrow>
      ip_provider p = (if provider \<in> {PROVIDER_AZURE_ENTRA, PROVIDER_AWS_COGNITO, PROVIDER_GCP_IDENTITY}
        then provider else PROVIDER_GENERIC_OIDC) \<and>
      py_truthy (py_get claims ''iss'') \<and> ip_issuer p = py_str repr (py_get claims ''iss'') \<and>
      ip_claims p = claims \<and>
      (\<exists>k \<in> {''sub''} \<union> (if provider = PROVIDER_AZURE_ENTRA then {''oid''} else {}) \<union>
           (if provider = PROVIDER_GCP_IDENTITY then {''user_id''} else {}).
         py_truthy (py_get claims k) \<and> ip_subject p = py_str repr (py_get claims k)) \<and>
      (provider = PROVIDER_AZURE_ENTRA \<and> py_truthy (py_get claims ''oid'') \<longrightarrow>
         ip_subject p = py_str repr (py_get claims ''oid''))) \<and>
   (\<not> py_truthy (py_get claims ''iss'') \<longrightarrow> normalize_principal repr provider claims = Inl ValueError)"
proof -
  note n = normalize_principal_def normalizers_def dict_get_default_def normalize_entra_def
    normalize_cognito_def normalize_gcp_def normalize_oidc_def provider_defs
  consider "provider = PROVIDER_AZURE_ENTRA" | "provider = PROVIDER_AWS_COGNITO"
    | "provider = PROVIDER_GCP_IDENTITY"
    | "provider \<notin> {PROVIDER_AZURE_ENTRA, PROVIDER_AWS_COGNITO, PROVIDER_GCP_IDENTITY}" by blast
  then show ?thesis
  proof cases
    case 1
    then show ?thesis by (auto simp: n py_or_def Let_def)
  next
    case 2
    then show ?thesis by (auto simp: n Let_def)
  next
    case 3
    then show ?thesis by (auto simp: n py_or_def Let_def)
  next
    case 4
    then have "normalize_principal repr provider claims = normalize_oidc repr claims"
      by (auto simp: normalize_principal_def normalizers_def dict_get_default_def)
    then show ?thesis using 4 by (auto simp: normalize_oidc_def Let_def)
  qed
qed

theorem normalize_principal_sound_witness:
  "\<exists>p. normalize_principal (\<lambda>_. []) ''azure_entra''
      [(''iss'', PStr ''https://sts''), (''sub'', PStr ''s''), (''oid'', PStr ''o'')] = Inr p \<and>
    ip_subject p = ''o'' \<and> ip_issuer p = ''https://sts''"
proof -
  let ?c = "[(''iss'', PStr ''https://sts''), (''sub'', PStr ''s''), (''oid'', PStr ''o'')]"
  obtain p where p: "normalize_principal (\<lambda>_. []) ''azure_entra'' ?c = Inr p"
    by (simp add: normalize_principal_def normalizers_def dict_get_default_def normalize_entra_def
        provider_defs py_get_def py_or_def Let_def)
  show ?thesis
    using normalize_principal_sound [of "\<lambda>_. []" "''azure_entra''" ?c p] p
    by (simp add: py_get_def provider_defs)
qed


definition sample_config :: jwt_validator_config where
  "sample_config = \<lparr>jc_issuer = ''iss'', jc_audience = None, jc_jwks_url = None,
     jc_algorithms = [''RS256''], jc_leeway_seconds = 30\<rparr>"

definition sample_lib :: "(nat, unit) jwt_lib" where
  "sample_lib = \<lparr>jl_header = (\<lambda>_. Some [(''kid'', PStr ''k'')]), jl_peek = (\<lambda>_. None),
     jl_key = (\<lambda>_. Some ()), jl_decode = (\<lambda>_ _ _ _ _ _ _. Decoded [(''sub'', PStr ''u'')])\<rparr>"

definition sample_validator :: jwt_validator where
  "sample_validator = (jwt_validator_init [sample_config] 600)\<lparr>jv_cache :=
     [(''iss'', ([(''keys'', PList [PDict [(''kid'', PStr ''k'')]])], 100))]\<rparr>"


end
