(* ===== verification/Signing_Keys.thy ===== *)
theory Signing_Keys
  imports Tables Identity
begin

text \<open>
  \<^verbatim>\<open>authzkit/security/signing_keys.py\<close>: the RSA keys that sign access tokens and delegation grants, their
  bootstrap, publication, rotation and retirement. SHA-256 (\<open>hash\<close>), the RSA numbers of a PEM
  (\<open>rsa_public\<close>, from the \<^verbatim>\<open>cryptography\<close> package) and a freshly generated PEM are arguments. The table
  has the schema's partial unique index: at most one row is active.
\<close>

section \<open>State\<close>

record signing_key =
  sk_kid :: string
  sk_alg :: string
  sk_status :: string
  sk_private_pem :: string
  sk_public_jwk :: pydict
  sk_created_at :: "instant option"

record signing_key_row =
  kr_kid :: string
  kr_alg :: string
  kr_public_jwk :: pydict
  kr_private_pem :: string
  kr_status :: string
  kr_created_at :: instant
  kr_rotated_at :: "instant option"

record signing_service =
  ss_rows :: "signing_key_row list"
  ss_env_pem :: string
  ss_dev_mode :: bool
  ss_database_url :: string
  ss_cached :: "signing_key option"

datatype signing_error = SigningKeyError | PemError | SigningIntegrity

text \<open>The numbers (n, e) of the public key in a PEM, base64url-encoded; an unreadable PEM raises, a key
  of another kind raises \<^verbatim>\<open>SigningKeyError\<close>.\<close>

type_synonym rsa_public = "string \<Rightarrow> (signing_error, string \<times> string) result"

definition signing_service_init ::
  "signing_key_row list \<Rightarrow> string \<Rightarrow> bool \<Rightarrow> string \<Rightarrow> signing_service" where
  "signing_service_init rows env_pem dev_mode database_url =
     \<lparr>ss_rows = rows, ss_env_pem = strip env_pem, ss_dev_mode = dev_mode,
      ss_database_url = database_url, ss_cached = None\<rparr>"

section \<open>Keys\<close>

definition derive_kid :: "(string \<Rightarrow> string) \<Rightarrow> string \<Rightarrow> string" where
  "derive_kid hash pem = take 16 (hash pem)"

definition rsa_jwk :: "string \<Rightarrow> string \<times> string \<Rightarrow> pydict" where
  "rsa_jwk kid ne =
     [(''kty'', PStr ''RSA''), (''use'', PStr ''sig''), (''alg'', PStr ''RS256''), (''kid'', PStr kid),
      (''n'', PStr (fst ne)), (''e'', PStr (snd ne))]"

definition public_jwk_from_pem :: "rsa_public \<Rightarrow> string \<Rightarrow> string \<Rightarrow> (signing_error, pydict) result" where
  "public_jwk_from_pem rsa pem kid = res_bind (rsa pem) (\<lambda>ne. Inr (rsa_jwk kid ne))"

text \<open>\<^verbatim>\<open>_generate_rsa_keypair\<close>: the new PEM and its numbers are arguments.\<close>

definition generate_rsa_keypair :: "(string \<Rightarrow> string) \<Rightarrow> string \<Rightarrow> string \<times> string \<Rightarrow> string \<times> pydict" where
  "generate_rsa_keypair hash pem ne = (pem, rsa_jwk (derive_kid hash pem) ne)"

definition row_to_signing_key :: "signing_key_row \<Rightarrow> signing_key" where
  "row_to_signing_key row =
     \<lparr>sk_kid = kr_kid row, sk_alg = kr_alg row, sk_status = kr_status row,
      sk_private_pem = kr_private_pem row, sk_public_jwk = kr_public_jwk row,
      sk_created_at = Some (kr_created_at row)\<rparr>"

definition kr_clash :: "signing_key_row \<Rightarrow> signing_key_row \<Rightarrow> bool" where
  "kr_clash new r \<longleftrightarrow> kr_kid r = kr_kid new \<or> (kr_status r = ''active'' \<and> kr_status new = ''active'')"

definition insert_key ::
  "signing_key_row \<Rightarrow> signing_key_row list \<Rightarrow> (signing_error, signing_key_row list) result" where
  "insert_key row rows =
     (case tbl_insert kr_clash row rows of Inl _ \<Rightarrow> Inl SigningIntegrity | Inr rows' \<Rightarrow> Inr rows')"

definition new_key_row ::
  "(string \<Rightarrow> string) \<Rightarrow> string \<Rightarrow> string \<times> string \<Rightarrow> instant \<Rightarrow> signing_key_row" where
  "new_key_row hash pem ne now =
     (let (p, jwk) = generate_rsa_keypair hash pem ne in
      \<lparr>kr_kid = derive_kid hash pem, kr_alg = ''RS256'', kr_public_jwk = jwk, kr_private_pem = p,
       kr_status = ''active'', kr_created_at = now, kr_rotated_at = None\<rparr>)"

section \<open>Lookup and bootstrap\<close>

definition load_env_key ::
  "(string \<Rightarrow> string) \<Rightarrow> rsa_public \<Rightarrow> signing_service \<Rightarrow> (signing_error, signing_key) result" where
  "load_env_key hash rsa svc =
     (let kid = derive_kid hash (ss_env_pem svc) in
      res_bind (public_jwk_from_pem rsa (ss_env_pem svc) kid)
        (\<lambda>jwk. Inr \<lparr>sk_kid = kid, sk_alg = ''RS256'', sk_status = ''active'',
            sk_private_pem = ss_env_pem svc, sk_public_jwk = jwk, sk_created_at = None\<rparr>))"

text \<open>The newest active row.\<close>

definition newest_active :: "signing_key_row list \<Rightarrow> signing_key_row option" where
  "newest_active rows =
     (case sort_key (\<lambda>r. - kr_created_at r) (filter (\<lambda>r. kr_status r = ''active'') rows) of
        [] \<Rightarrow> None | r # _ \<Rightarrow> Some r)"

definition load_db_active :: "signing_service \<Rightarrow> signing_key option" where
  "load_db_active svc = map_option row_to_signing_key (newest_active (ss_rows svc))"

definition generate_and_persist ::
  "(string \<Rightarrow> string) \<Rightarrow> string \<times> (string \<times> string) \<Rightarrow> instant \<Rightarrow> signing_service \<Rightarrow>
     (signing_error, signing_key \<times> signing_service) result" where
  "generate_and_persist hash gen now svc =
     (let row = new_key_row hash (fst gen) (snd gen) now in
      res_bind (insert_key row (ss_rows svc))
        (\<lambda>rows. Inr (row_to_signing_key row, svc\<lparr>ss_rows := rows\<rparr>)))"

definition active_signing_key ::
  "(string \<Rightarrow> string) \<Rightarrow> rsa_public \<Rightarrow> string \<times> (string \<times> string) \<Rightarrow> instant \<Rightarrow> signing_service \<Rightarrow>
     (signing_error, signing_key \<times> signing_service) result" where
  "active_signing_key hash rsa gen now svc =
     (case ss_cached svc of
        Some k \<Rightarrow> Inr (k, svc)
      | None \<Rightarrow>
          if ss_env_pem svc \<noteq> '''' then
            res_bind (load_env_key hash rsa svc) (\<lambda>k. Inr (k, svc\<lparr>ss_cached := Some k\<rparr>))
          else (case load_db_active svc of
              Some k \<Rightarrow> Inr (k, svc\<lparr>ss_cached := Some k\<rparr>)
            | None \<Rightarrow>
                if ss_dev_mode svc \<and> starts_with ''sqlite'' (ss_database_url svc) then
                  res_bind (generate_and_persist hash gen now svc)
                    (\<lambda>(k, svc'). Inr (k, svc'\<lparr>ss_cached := Some k\<rparr>))
                else Inl SigningKeyError))"

definition generate_if_missing ::
  "(string \<Rightarrow> string) \<Rightarrow> rsa_public \<Rightarrow> string \<times> (string \<times> string) \<Rightarrow> instant \<Rightarrow> signing_service \<Rightarrow>
     (signing_error, signing_key \<times> signing_service) result" where
  "generate_if_missing hash rsa gen now svc =
     (case active_signing_key hash rsa gen now svc of
        Inl SigningKeyError \<Rightarrow>
          res_bind (generate_and_persist hash gen now svc)
            (\<lambda>(k, svc'). Inr (k, svc'\<lparr>ss_cached := Some k\<rparr>))
      | r \<Rightarrow> r)"

section \<open>Publication\<close>

text \<open>The loop of \<^verbatim>\<open>all_public_jwks\<close> over the rows, with the key ids seen so far.\<close>

fun collect_jwks :: "string set \<Rightarrow> signing_key_row list \<Rightarrow> pydict list" where
  "collect_jwks seen [] = []"
| "collect_jwks seen (r # rs) =
     (if kr_kid r \<in> seen then collect_jwks seen rs
      else kr_public_jwk r # collect_jwks (insert (kr_kid r) seen) rs)"

definition all_public_jwks ::
  "(string \<Rightarrow> string) \<Rightarrow> rsa_public \<Rightarrow> signing_service \<Rightarrow> (signing_error, pydict list) result" where
  "all_public_jwks hash rsa svc =
     (let rows = filter (\<lambda>r. kr_status r \<in> {''active'', ''retiring''}) (ss_rows svc) in
      if ss_env_pem svc \<noteq> '''' then
        res_bind (load_env_key hash rsa svc)
          (\<lambda>k. Inr (sk_public_jwk k # collect_jwks {sk_kid k} rows))
      else Inr (collect_jwks {} rows))"

section \<open>Rotation and retirement\<close>

definition retire :: "instant \<Rightarrow> signing_key_row \<Rightarrow> signing_key_row" where
  "retire now r = r\<lparr>kr_status := ''retiring'', kr_rotated_at := Some now\<rparr>"

definition rotate_key ::
  "(string \<Rightarrow> string) \<Rightarrow> string \<times> (string \<times> string) \<Rightarrow> instant \<Rightarrow> signing_service \<Rightarrow>
     (signing_error, signing_key \<times> signing_service) result" where
  "rotate_key hash gen now svc =
     (if ss_env_pem svc \<noteq> '''' then Inl SigningKeyError
      else (let rows = (case newest_active (ss_rows svc) of
                  None \<Rightarrow> ss_rows svc
                | Some current \<Rightarrow> tbl_update kr_kid (kr_kid current) (retire now) (ss_rows svc));
                row = new_key_row hash (fst gen) (snd gen) now in
        res_bind (insert_key row rows)
          (\<lambda>rows'. Inr (row_to_signing_key row, svc\<lparr>ss_rows := rows', ss_cached := None\<rparr>))))"

definition prunable :: "instant \<Rightarrow> int \<Rightarrow> signing_key_row \<Rightarrow> bool" where
  "prunable now max_ttl r \<longleftrightarrow>
     kr_status r = ''retiring'' \<and>
     (case kr_rotated_at r of None \<Rightarrow> False | Some t \<Rightarrow> t \<le> now - 2 * max_ttl)"

definition prune_retiring :: "signing_service \<Rightarrow> instant \<Rightarrow> int \<Rightarrow> nat \<times> signing_service" where
  "prune_retiring svc now max_ttl =
     (length (filter (prunable now max_ttl) (ss_rows svc)),
      svc\<lparr>ss_rows := map (\<lambda>r. if prunable now max_ttl r then r\<lparr>kr_status := ''revoked''\<rparr> else r)
                      (ss_rows svc)\<rparr>)"

section \<open>Signing\<close>

type_synonym 'tok jwt_encode = "pydict \<Rightarrow> string \<Rightarrow> string \<Rightarrow> pydict \<Rightarrow> 'tok"

text \<open>Signing with a header type: \<^verbatim>\<open>JWT\<close> for access tokens, the delegation type for grants.\<close>

definition sign_typed ::
  "'tok jwt_encode \<Rightarrow> (string \<Rightarrow> string) \<Rightarrow> rsa_public \<Rightarrow> string \<times> (string \<times> string) \<Rightarrow> instant \<Rightarrow>
     signing_service \<Rightarrow> string \<Rightarrow> pydict \<Rightarrow> (signing_error, 'tok \<times> signing_service) result" where
  "sign_typed enc hash rsa gen now svc typ claims =
     res_bind (active_signing_key hash rsa gen now svc)
       (\<lambda>(key, svc'). Inr (enc claims (sk_private_pem key) (sk_alg key)
          [(''kid'', PStr (sk_kid key)), (''typ'', PStr typ)], svc'))"

definition sign_token ::
  "'tok jwt_encode \<Rightarrow> (string \<Rightarrow> string) \<Rightarrow> rsa_public \<Rightarrow> string \<times> (string \<times> string) \<Rightarrow> instant \<Rightarrow>
     signing_service \<Rightarrow> pydict \<Rightarrow> (signing_error, 'tok \<times> signing_service) result" where
  "sign_token enc hash rsa gen now svc claims = sign_typed enc hash rsa gen now svc ''JWT'' claims"

definition list_signing_keys :: "signing_service \<Rightarrow> signing_key list" where
  "list_signing_keys svc = map row_to_signing_key (ss_rows svc)"

section \<open>Lemmas\<close>

definition key_rows_ok :: "signing_key_row list \<Rightarrow> bool" where
  "key_rows_ok rows \<longleftrightarrow>
     unique_col kr_kid rows \<and> length (filter (\<lambda>r. kr_status r = ''active'') rows) \<le> 1"

lemma newest_active_unique:
  assumes "key_rows_ok rows"
  shows "newest_active rows = List.find (\<lambda>r. kr_status r = ''active'') rows"
proof -
  let ?f = "filter (\<lambda>r. kr_status r = ''active'') rows"
  have "List.find (\<lambda>r. kr_status r = ''active'') rows = (case ?f of [] \<Rightarrow> None | r # _ \<Rightarrow> Some r)"
    by (induction rows) auto
  moreover have "sort_key (\<lambda>r. - kr_created_at r) ?f = ?f"
    using assms by (cases ?f) (auto simp: key_rows_ok_def)
  ultimately show ?thesis by (simp add: newest_active_def)
qed

lemma collect_jwks_unique:
  "\<lbrakk>unique_col kr_kid rows; kr_kid ` set rows \<inter> seen = {}\<rbrakk> \<Longrightarrow>
     collect_jwks seen rows = map kr_public_jwk rows"
  by (induction rows arbitrary: seen) (auto simp: unique_col_def)

lemma insert_key_Inr:
  "insert_key row rows = Inr rows' \<longleftrightarrow>
     rows' = rows @ [row] \<and> (\<forall>r \<in> set rows. kr_kid r \<noteq> kr_kid row) \<and>
     (kr_status row = ''active'' \<longrightarrow> (\<forall>r \<in> set rows. kr_status r \<noteq> ''active''))"
  by (auto simp: insert_key_def tbl_insert_def kr_clash_def list_ex_iff)

lemma key_rows_ok_insert:
  assumes "insert_key row rows = Inr rows'" "key_rows_ok rows"
  shows "key_rows_ok rows'"
proof -
  have r: "rows' = rows @ [row]" "kr_kid row \<notin> kr_kid ` set rows"
    "kr_status row = ''active'' \<longrightarrow> (\<forall>r \<in> set rows. kr_status r \<noteq> ''active'')"
    using assms(1) unfolding insert_key_Inr by auto
  have "filter (\<lambda>r. kr_status r = ''active'') rows = []" if "kr_status row = ''active''"
    using that r(3) by (simp add: filter_empty_conv)
  then show ?thesis using r assms(2) by (auto simp: key_rows_ok_def unique_col_append)
qed

lemma length_filter_map_le:
  "(\<And>r. P (f r) \<Longrightarrow> P r) \<Longrightarrow> length (filter P (map f rows)) \<le> length (filter P rows)"
  by (induction rows) (auto intro: le_SucI)

lemma key_rows_ok_map:
  "\<lbrakk>key_rows_ok rows; \<And>r. kr_kid (f r) = kr_kid r; \<And>r. kr_status (f r) = ''active'' \<Longrightarrow> kr_status r = ''active''\<rbrakk>
     \<Longrightarrow> key_rows_ok (map f rows)"
  using length_filter_map_le [of "\<lambda>r. kr_status r = ''active''" f rows]
  by (auto simp: key_rows_ok_def unique_col_def comp_def)

lemma key_rows_ok_retire:
  "key_rows_ok rows \<Longrightarrow> key_rows_ok (tbl_update kr_kid k (retire now) rows)"
  unfolding tbl_update_def by (rule key_rows_ok_map) (auto simp: retire_def split: if_splits)

lemma key_rows_ok_prune:
  "key_rows_ok (ss_rows svc) \<Longrightarrow> key_rows_ok (ss_rows (snd (prune_retiring svc now ttl)))"
  by (auto simp: prune_retiring_def split: if_splits intro!: key_rows_ok_map)

lemma published_iff:
  assumes "key_rows_ok (ss_rows svc)" "ss_env_pem svc = ''''"
  shows "\<exists>keys. all_public_jwks hash rsa svc = Inr keys \<and>
     set keys = kr_public_jwk ` {r \<in> set (ss_rows svc). kr_status r \<in> {''active'', ''retiring''}}"
proof -
  have "unique_col kr_kid (filter (\<lambda>r. kr_status r \<in> {''active'', ''retiring''}) (ss_rows svc))"
    using assms(1) by (auto simp: key_rows_ok_def)
  from collect_jwks_unique [OF this, of "{}"] show ?thesis
    using assms(2) by (auto simp: all_public_jwks_def)
qed

lemma rotate_key_rows:
  assumes "key_rows_ok (ss_rows svc)" "rotate_key hash gen now svc = Inr (new, svc')"
  shows "ss_env_pem svc = ''''" "ss_env_pem svc' = ''''" "ss_cached svc' = None"
    "key_rows_ok (ss_rows svc')"
    "\<exists>row \<in> set (ss_rows svc'). row_to_signing_key row = new \<and> kr_status row = ''active''"
    "\<And>r. r \<in> set (ss_rows svc) \<Longrightarrow> kr_status r = ''active'' \<Longrightarrow> retire now r \<in> set (ss_rows svc')"
    "\<And>r. r \<in> set (ss_rows svc) \<Longrightarrow> kr_status r \<noteq> ''active'' \<Longrightarrow> r \<in> set (ss_rows svc')"
proof -
  let ?old = "case newest_active (ss_rows svc) of None \<Rightarrow> ss_rows svc
    | Some current \<Rightarrow> tbl_update kr_kid (kr_kid current) (retire now) (ss_rows svc)"
  let ?row = "new_key_row hash (fst gen) (snd gen) now"
  have na: "newest_active (ss_rows svc) = List.find (\<lambda>r. kr_status r = ''active'') (ss_rows svc)"
    by (rule newest_active_unique [OF assms(1)])
  have ins: "insert_key ?row ?old = Inr (ss_rows svc')" and new: "new = row_to_signing_key ?row"
    and rest: "ss_env_pem svc = ''''" "ss_env_pem svc' = ''''" "ss_cached svc' = None"
    using assms(2) by (auto simp: rotate_key_def Let_def res_bind_eq_Inr split: if_splits)
  show "ss_env_pem svc = ''''" "ss_env_pem svc' = ''''" "ss_cached svc' = None" by (fact rest)+
  have "key_rows_ok ?old" using assms(1) key_rows_ok_retire by (simp split: option.split)
  then show "key_rows_ok (ss_rows svc')" using key_rows_ok_insert [OF ins] by blast
  have rows: "ss_rows svc' = ?old @ [?row]" using ins by (simp add: insert_key_Inr)
  have "kr_status ?row = ''active''" by (simp add: new_key_row_def generate_rsa_keypair_def)
  then show "\<exists>row \<in> set (ss_rows svc'). row_to_signing_key row = new \<and> kr_status row = ''active''"
    using rows new by auto
  have u: "unique_col kr_kid (ss_rows svc)" using assms(1) by (simp add: key_rows_ok_def)
  show "retire now r \<in> set (ss_rows svc')" if "r \<in> set (ss_rows svc)" "kr_status r = ''active''" for r
  proof -
    have "newest_active (ss_rows svc) = Some r"
      unfolding na
    proof (rule find_unique [OF that(1), of "\<lambda>r. kr_status r = ''active''"])
      show "kr_status r = ''active''" by (rule that(2))
      fix y
      assume "y \<in> set (ss_rows svc)" "kr_status y = ''active''"
      then have "r \<in> set (filter (\<lambda>r. kr_status r = ''active'') (ss_rows svc))"
        "y \<in> set (filter (\<lambda>r. kr_status r = ''active'') (ss_rows svc))" using that by auto
      moreover have "length (filter (\<lambda>r. kr_status r = ''active'') (ss_rows svc)) \<le> 1"
        using assms(1) by (simp add: key_rows_ok_def)
      ultimately show "y = r"
        by (cases "filter (\<lambda>r. kr_status r = ''active'') (ss_rows svc)") auto
    qed
    moreover have "retire now r \<in> set (tbl_update kr_kid (kr_kid r) (retire now) (ss_rows svc))"
      unfolding in_tbl_update using that(1) by (intro bexI [of _ r]) simp
    ultimately show ?thesis unfolding rows by simp
  qed
  show "r \<in> set (ss_rows svc')" if "r \<in> set (ss_rows svc)" "kr_status r \<noteq> ''active''" for r
  proof (cases "newest_active (ss_rows svc)")
    case None
    then show ?thesis using that unfolding rows by simp
  next
    case (Some c)
    then have "c \<in> set (ss_rows svc)" "kr_status c = ''active''"
      using find_Some_set [of _ "ss_rows svc" c] unfolding na by auto
    then have "kr_kid r \<noteq> kr_kid c" using unique_col_eq [OF u that(1)] that(2) by metis
    then have "r \<in> set (tbl_update kr_kid (kr_kid c) (retire now) (ss_rows svc))"
      unfolding in_tbl_update using that(1) by (intro bexI [of _ r]) simp
    then show ?thesis using Some unfolding rows by simp
  qed
qed

lemma active_key_after:
  assumes "key_rows_ok (ss_rows svc)" "ss_cached svc = None" "ss_env_pem svc = ''''"
    and "row \<in> set (ss_rows svc)" "kr_status row = ''active''"
  shows "active_signing_key hash rsa gen now svc =
     Inr (row_to_signing_key row, svc\<lparr>ss_cached := Some (row_to_signing_key row)\<rparr>)"
proof -
  let ?f = "filter (\<lambda>r. kr_status r = ''active'') (ss_rows svc)"
  have "row \<in> set ?f" "length ?f \<le> 1" using assms by (auto simp: key_rows_ok_def)
  then have "?f = [row]" by (cases ?f) auto
  then have "newest_active (ss_rows svc) = Some row" by (simp add: newest_active_def)
  then show ?thesis using assms(2,3) by (simp add: active_signing_key_def load_db_active_def)
qed

section \<open>Properties\<close>

text \<open>Rotation never strands a token. In a table with distinct key ids and at most one active key,
  rotating keeps the table so, makes the returned key the one that signs next, and keeps publishing
  every key that was published; a retirement sweep that runs less than twice the longest token
  lifetime after the rotation still publishes the key that was active before it.\<close>

theorem rotation_keeps_publishing:
  assumes "key_rows_ok (ss_rows svc)" and "rotate_key hash gen now svc = Inr (new, svc')"
  shows "key_rows_ok (ss_rows svc') \<and>
     active_signing_key hash rsa gen' later svc' = Inr (new, svc'\<lparr>ss_cached := Some new\<rparr>) \<and>
     (\<exists>before after. all_public_jwks hash rsa svc = Inr before \<and>
        all_public_jwks hash rsa svc' = Inr after \<and> set before \<subseteq> set after \<and>
        sk_public_jwk new \<in> set after) \<and>
     (\<forall>r \<in> set (ss_rows svc). kr_status r = ''active'' \<longrightarrow> later < now + 2 * ttl \<longrightarrow>
        (\<exists>after. all_public_jwks hash rsa (snd (prune_retiring svc' later ttl)) = Inr after \<and>
           kr_public_jwk r \<in> set after))"
proof -
  note rot = rotate_key_rows [OF assms]
  obtain row where row: "row \<in> set (ss_rows svc')" "row_to_signing_key row = new"
    "kr_status row = ''active''"
    using rot(5) by blast
  obtain before where b: "all_public_jwks hash rsa svc = Inr before"
    "set before = kr_public_jwk ` {r \<in> set (ss_rows svc). kr_status r \<in> {''active'', ''retiring''}}"
    using published_iff [OF assms(1) rot(1)] by blast
  obtain after where a: "all_public_jwks hash rsa svc' = Inr after"
    "set after = kr_public_jwk ` {r \<in> set (ss_rows svc'). kr_status r \<in> {''active'', ''retiring''}}"
    using published_iff [OF rot(4,2)] by blast
  have "kr_public_jwk r \<in> set after"
    if "r \<in> set (ss_rows svc)" "kr_status r \<in> {''active'', ''retiring''}" for r
  proof (cases "kr_status r = ''active''")
    case True
    then have "retire now r \<in> set (ss_rows svc')" using rot(6) that(1) by blast
    then show ?thesis unfolding a(2) by (intro image_eqI [of _ _ "retire now r"]) (auto simp: retire_def)
  next
    case False
    then show ?thesis using rot(7) that unfolding a(2) by auto
  qed
  then have sub: "set before \<subseteq> set after" unfolding b(2) by auto
  have new: "sk_public_jwk new \<in> set after" using row unfolding a(2) by (auto simp: row_to_signing_key_def)
  have pruned: "\<exists>after. all_public_jwks hash rsa (snd (prune_retiring svc' later ttl)) = Inr after \<and>
      kr_public_jwk r \<in> set after"
    if r: "r \<in> set (ss_rows svc)" "kr_status r = ''active''" "later < now + 2 * ttl" for r
  proof -
    let ?svc = "snd (prune_retiring svc' later ttl)"
    have ok: "key_rows_ok (ss_rows ?svc)" "ss_env_pem ?svc = ''''"
      using key_rows_ok_prune [OF rot(4)] rot(2) by (auto simp: prune_retiring_def)
    have "\<not> prunable later ttl (retire now r)" using r(3) by (simp add: prunable_def retire_def)
    then have "retire now r \<in> set (ss_rows ?svc)"
      using rot(6) [OF r(1,2)] unfolding prune_retiring_def snd_conv
      by simp
    then have "kr_public_jwk r \<in> kr_public_jwk ` {r \<in> set (ss_rows ?svc). kr_status r \<in> {''active'', ''retiring''}}"
      by (intro image_eqI [of _ _ "retire now r"]) (auto simp: retire_def)
    moreover obtain after where "all_public_jwks hash rsa ?svc = Inr after"
      "set after = kr_public_jwk ` {r \<in> set (ss_rows ?svc). kr_status r \<in> {''active'', ''retiring''}}"
      using published_iff [OF ok] by blast
    ultimately show ?thesis by auto
  qed
  show ?thesis
    using rot(4) active_key_after [OF rot(4,3,2) row(1,3), of hash rsa gen' later] row(2) a(1) b(1)
      sub new pruned by auto
qed

definition sample_key_row :: signing_key_row where
  "sample_key_row = \<lparr>kr_kid = ''k0'', kr_alg = ''RS256'', kr_public_jwk = [(''kid'', PStr ''k0'')],
     kr_private_pem = ''p0'', kr_status = ''active'', kr_created_at = 0, kr_rotated_at = None\<rparr>"

definition sample_service :: signing_service where
  "sample_service = \<lparr>ss_rows = [sample_key_row], ss_env_pem = [], ss_dev_mode = False,
     ss_database_url = ''postgresql://db'', ss_cached = None\<rparr>"

theorem rotation_keeps_publishing_witness:
  "\<exists>new svc' after. rotate_key (\<lambda>x. x) (''pem1'', (''n'', ''e'')) 10 sample_service = Inr (new, svc') \<and>
     all_public_jwks (\<lambda>x. x) (\<lambda>_. Inl PemError) (snd (prune_retiring svc' 15 5)) = Inr after \<and>
     [(''kid'', PStr ''k0'')] \<in> set after"
proof -
  have ok: "key_rows_ok (ss_rows sample_service)"
    by (simp add: key_rows_ok_def unique_col_def sample_service_def)
  obtain new svc' where
    r: "rotate_key (\<lambda>x. x) (''pem1'', (''n'', ''e'')) 10 sample_service = Inr (new, svc')"
    by (simp add: rotate_key_def sample_service_def sample_key_row_def newest_active_def
        insert_key_def tbl_insert_def tbl_update_def retire_def kr_clash_def new_key_row_def
        generate_rsa_keypair_def derive_kid_def Let_def)
  have "sample_key_row \<in> set (ss_rows sample_service)" "kr_status sample_key_row = ''active''"
    by (simp_all add: sample_service_def sample_key_row_def)
  then obtain after where
    "all_public_jwks (\<lambda>x. x) (\<lambda>_. Inl PemError) (snd (prune_retiring svc' 15 5)) = Inr after"
    "kr_public_jwk sample_key_row \<in> set after"
    using rotation_keeps_publishing [OF ok r, of "\<lambda>_. Inl PemError" "(''x'', (''n'', ''e''))" 15 5] by force
  then show ?thesis using r by (auto simp: sample_key_row_def)
qed

text \<open>No key is invented in production. When nothing is cached, no PEM is configured and no row is
  active, \<^verbatim>\<open>active_signing_key\<close> raises unless the service is in dev mode on SQLite, where it persists the
  generated key; a configured PEM always wins over the table, and then rotation is refused.\<close>

theorem signing_key_bootstrap:
  assumes "ss_cached svc = None"
  shows "(ss_env_pem svc = '''' \<longrightarrow> (\<forall>r \<in> set (ss_rows svc). kr_status r \<noteq> ''active'') \<longrightarrow>
       \<not> (ss_dev_mode svc \<and> starts_with ''sqlite'' (ss_database_url svc)) \<longrightarrow>
       active_signing_key hash rsa gen now svc = Inl SigningKeyError) \<and>
     (ss_env_pem svc \<noteq> '''' \<longrightarrow>
       rotate_key hash gen now svc = Inl SigningKeyError \<and>
       (\<forall>ne. rsa (ss_env_pem svc) = Inr ne \<longrightarrow>
          (\<exists>k. active_signing_key hash rsa gen now svc = Inr (k, svc\<lparr>ss_cached := Some k\<rparr>) \<and>
             sk_private_pem k = ss_env_pem svc \<and> sk_kid k = take 16 (hash (ss_env_pem svc)) \<and>
             (\<exists>keys. all_public_jwks hash rsa svc = Inr (sk_public_jwk k # keys))))) \<and>
     (active_signing_key hash rsa gen now svc = Inr (k, svc') \<longrightarrow> ss_rows svc' \<noteq> ss_rows svc \<longrightarrow>
       ss_dev_mode svc \<and> starts_with ''sqlite'' (ss_database_url svc) \<and> ss_env_pem svc = '''')"
proof (intro conjI impI allI)
  assume e: "ss_env_pem svc = ''''" and n: "\<forall>r \<in> set (ss_rows svc). kr_status r \<noteq> ''active''"
    and d: "\<not> (ss_dev_mode svc \<and> starts_with ''sqlite'' (ss_database_url svc))"
  from n have "filter (\<lambda>r. kr_status r = ''active'') (ss_rows svc) = []"
    by (simp add: filter_empty_conv)
  then have "load_db_active svc = None" by (simp add: load_db_active_def newest_active_def)
  then show "active_signing_key hash rsa gen now svc = Inl SigningKeyError"
    using assms e d by (auto simp: active_signing_key_def)
next
  assume "ss_env_pem svc \<noteq> ''''"
  then show "rotate_key hash gen now svc = Inl SigningKeyError" by (simp add: rotate_key_def)
next
  fix ne
  assume "ss_env_pem svc \<noteq> ''''" "rsa (ss_env_pem svc) = Inr ne"
  then show "\<exists>k. active_signing_key hash rsa gen now svc = Inr (k, svc\<lparr>ss_cached := Some k\<rparr>) \<and>
      sk_private_pem k = ss_env_pem svc \<and> sk_kid k = take 16 (hash (ss_env_pem svc)) \<and>
      (\<exists>keys. all_public_jwks hash rsa svc = Inr (sk_public_jwk k # keys))"
    using assms by (simp add: active_signing_key_def load_env_key_def derive_kid_def
        public_jwk_from_pem_def all_public_jwks_def Let_def)
next
  assume a: "active_signing_key hash rsa gen now svc = Inr (k, svc')" "ss_rows svc' \<noteq> ss_rows svc"
  show e: "ss_env_pem svc = ''''"
    using a assms by (auto simp: active_signing_key_def res_bind_eq_Inr split: if_splits)
  show "ss_dev_mode svc" "starts_with ''sqlite'' (ss_database_url svc)"
    using a e assms by (auto simp: active_signing_key_def split: option.splits if_splits)
qed

theorem signing_key_bootstrap_witness:
  "active_signing_key (\<lambda>x. x) (\<lambda>_. Inl PemError) (''p'', (''n'', ''e'')) 0
     (signing_service_init [] '' '' True ''postgresql://db'') = Inl SigningKeyError"
proof -
  let ?svc = "signing_service_init [] '' '' True ''postgresql://db''"
  have c: "ss_cached ?svc = None" by (simp add: signing_service_init_def)
  have e: "ss_env_pem ?svc = ''''" by (simp add: signing_service_init_def strip_def is_space_def)
  have r: "\<forall>r \<in> set (ss_rows ?svc). kr_status r \<noteq> ''active''" by (simp add: signing_service_init_def)
  have d: "\<not> (ss_dev_mode ?svc \<and> starts_with ''sqlite'' (ss_database_url ?svc))"
    by (simp add: signing_service_init_def starts_with_def)
  show ?thesis
    using signing_key_bootstrap [OF c, of "\<lambda>x. x" "\<lambda>_. Inl PemError" "(''p'', (''n'', ''e''))" 0] e r d
    by blast
qed

end
