(* ===== verification/Delegations.thy ===== *)
theory Delegations
  imports Signing_Keys
begin

text \<open>
  \<^verbatim>\<open>authzkit/security/delegations.py\<close>: grants of a permission subset to an agent, issued as signed tokens
  and checked against their stored row. Instants are microseconds here, because a grant's times are cut
  to whole seconds. PyJWT is the parameter \<open>lib\<close> (and \<open>enc\<close> for signing), as in the validator.
\<close>

section \<open>State\<close>

definition DELEGATION_TOKEN_TYPE :: string where
  "DELEGATION_TOKEN_TYPE = ''authz-delegation+jwt''"

definition DELEGATION_AUDIENCE :: string where
  "DELEGATION_AUDIENCE = ''urn:authz:delegation''"

definition DEFAULT_ISSUER :: string where
  "DEFAULT_ISSUER = ''urn:authz''"

datatype delegation_reason =
    REASON_INVALID | REASON_EXPIRED | REASON_REVOKED | REASON_MISMATCH | REASON_REQUIRED

text \<open>The machine-readable codes.\<close>

fun reason_code :: "delegation_reason \<Rightarrow> string" where
  "reason_code REASON_INVALID = ''delegation_invalid''"
| "reason_code REASON_EXPIRED = ''delegation_expired''"
| "reason_code REASON_REVOKED = ''delegation_revoked''"
| "reason_code REASON_MISMATCH = ''delegation_mismatch''"
| "reason_code REASON_REQUIRED = ''delegation_required''"

datatype delegation_error =
    DelegationError delegation_reason
  | SigningFailed signing_error
  | DelegationUncaught authz_error

record delegation_row =
  dg_id :: ident
  dg_tenant_id :: ident
  dg_application_id :: ident
  dg_user_id :: ident
  dg_agent_id :: ident
  dg_permissions :: "string list"
  dg_purpose :: "string option"
  dg_issued_by :: "string option"
  dg_status :: string
  dg_expires_at :: instant
  dg_revoked_at :: "instant option"
  dg_created_at :: instant

record delegation_grant =
  gr_id :: ident
  gr_tenant_id :: ident
  gr_application_id :: ident
  gr_user_id :: ident
  gr_agent_id :: ident
  gr_permissions :: "string set"
  gr_purpose :: "string option"
  gr_issued_by :: "string option"
  gr_status :: string
  gr_expires_at :: instant
  gr_revoked_at :: "instant option"
  gr_created_at :: "instant option"

definition to_grant :: "delegation_row \<Rightarrow> delegation_grant" where
  "to_grant row =
     \<lparr>gr_id = dg_id row, gr_tenant_id = dg_tenant_id row, gr_application_id = dg_application_id row,
      gr_user_id = dg_user_id row, gr_agent_id = dg_agent_id row,
      gr_permissions = set (dg_permissions row), gr_purpose = dg_purpose row,
      gr_issued_by = dg_issued_by row, gr_status = dg_status row, gr_expires_at = dg_expires_at row,
      gr_revoked_at = dg_revoked_at row, gr_created_at = Some (dg_created_at row)\<rparr>"

definition grant_active :: "delegation_grant \<Rightarrow> instant \<Rightarrow> bool" where
  "grant_active g now \<longleftrightarrow> gr_status g = ''active'' \<and> now < gr_expires_at g"

record delegation_service =
  ds_rows :: "delegation_row list"
  ds_keys :: signing_service
  ds_issuer :: string
  ds_leeway :: int

definition delegation_service_init ::
  "delegation_row list \<Rightarrow> signing_service \<Rightarrow> string \<Rightarrow> int \<Rightarrow> delegation_service" where
  "delegation_service_init rows keys issuer leeway =
     \<lparr>ds_rows = rows, ds_keys = keys,
      ds_issuer = (if issuer \<noteq> '''' then issuer else DEFAULT_ISSUER), ds_leeway = leeway\<rparr>"

section \<open>Issue\<close>

definition whole_seconds :: "instant \<Rightarrow> int" where
  "whole_seconds now = now div 1000000"

definition delegation_claims ::
  "string \<Rightarrow> instant \<Rightarrow> int \<Rightarrow> ident \<Rightarrow> ident \<Rightarrow> ident \<Rightarrow> ident \<Rightarrow> ident \<Rightarrow> string list \<Rightarrow> string option \<Rightarrow>
     pydict" where
  "delegation_claims issuer now ttl gid tid aid uid agid perms purpose =
     [(''iss'', PStr issuer), (''aud'', PStr DELEGATION_AUDIENCE), (''sub'', PStr uid),
      (''act'', PDict [(''sub'', PStr agid)]), (''jti'', PStr gid),
      (''iat'', PInt (whole_seconds now)), (''nbf'', PInt (whole_seconds now)),
      (''exp'', PInt (whole_seconds (whole_seconds now * 1000000 + ttl))),
      (''authz'', PDict ([(''tenant_id'', PStr tid), (''application_id'', PStr aid),
         (''permissions'', PList (map PStr perms))] @
         (case purpose of None \<Rightarrow> [] | Some p \<Rightarrow> if p \<noteq> '''' then [(''purpose'', PStr p)] else [])))]"

definition delegation_issue ::
  "'tok jwt_encode \<Rightarrow> (string \<Rightarrow> string) \<Rightarrow> rsa_public \<Rightarrow> string \<times> (string \<times> string) \<Rightarrow> instant \<Rightarrow>
     delegation_service \<Rightarrow> ident \<Rightarrow> ident \<Rightarrow> ident \<Rightarrow> ident \<Rightarrow> ident \<Rightarrow> string list \<Rightarrow> int \<Rightarrow>
     string option \<Rightarrow> string option \<Rightarrow>
     (delegation_error, (delegation_grant \<times> 'tok) \<times> delegation_service) result" where
  "delegation_issue enc hash rsa gen now svc gid tid aid uid agid permissions ttl purpose issued_by =
     (let start = whole_seconds now * 1000000;
          perms = sorted_list_of_set (set permissions);
          claims = delegation_claims (ds_issuer svc) now ttl gid tid aid uid agid perms purpose in
      case sign_typed enc hash rsa gen now (ds_keys svc) DELEGATION_TOKEN_TYPE claims of
        Inl e \<Rightarrow> Inl (SigningFailed e)
      | Inr (token, keys') \<Rightarrow>
          (let row = \<lparr>dg_id = gid, dg_tenant_id = tid, dg_application_id = aid, dg_user_id = uid,
                      dg_agent_id = agid, dg_permissions = perms, dg_purpose = purpose,
                      dg_issued_by = issued_by, dg_status = ''active'', dg_expires_at = start + ttl,
                      dg_revoked_at = None, dg_created_at = start\<rparr> in
           case tbl_insert (\<lambda>new r. dg_id r = dg_id new) row (ds_rows svc) of
             Inl e \<Rightarrow> Inl (DelegationUncaught e)
           | Inr rows \<Rightarrow> Inr ((to_grant row, token), svc\<lparr>ds_rows := rows, ds_keys := keys'\<rparr>)))"

section \<open>Verify\<close>

definition delegation_get :: "delegation_service \<Rightarrow> ident \<Rightarrow> delegation_grant option" where
  "delegation_get svc gid = map_option to_grant (tbl_get dg_id (ds_rows svc) gid)"

text \<open>\<^verbatim>\<open>v.get(k)\<close> on a value that must be a mapping.\<close>

definition obj_get :: "pyval \<Rightarrow> string \<Rightarrow> (authz_error, pyval) result" where
  "obj_get v k = (case v of PDict d \<Rightarrow> Inr (py_get d k) | _ \<Rightarrow> Inl AttributeError)"

text \<open>\<^verbatim>\<open>frozenset(v or ())\<close>.\<close>

definition frozenset_of :: "pyval \<Rightarrow> (authz_error, pyval set) result" where
  "frozenset_of v =
     (if \<not> py_truthy v then Inr {}
      else res_bind (py_iter v)
        (\<lambda>xs. if list_all py_hashable xs then Inr (set xs) else Inl TypeError))"

text \<open>The comparison of the signed claims with the stored grant, in the order of the code's \<^verbatim>\<open>or\<close>.\<close>

definition claims_match :: "pydict \<Rightarrow> delegation_grant \<Rightarrow> (authz_error, bool) result" where
  "claims_match claims g =
     (let act = py_or (py_get claims ''act'') (PDict []);
          body = py_or (py_get claims ''authz'') (PDict []) in
      if py_get claims ''sub'' \<noteq> PStr (gr_user_id g) then Inr False
      else res_bind (obj_get act ''sub'') (\<lambda>a.
        if a \<noteq> PStr (gr_agent_id g) then Inr False
        else res_bind (obj_get body ''tenant_id'') (\<lambda>t.
          if t \<noteq> PStr (gr_tenant_id g) then Inr False
          else res_bind (obj_get body ''application_id'') (\<lambda>ap.
            if ap \<noteq> PStr (gr_application_id g) then Inr False
            else res_bind (obj_get body ''permissions'') (\<lambda>ps.
              res_bind (frozenset_of ps) (\<lambda>s. Inr (s = PStr ` gr_permissions g)))))))"

text \<open>The part of \<^verbatim>\<open>verify\<close> after the token's signature and claims were checked.\<close>

definition check_grant ::
  "(pyval \<Rightarrow> string) \<Rightarrow> instant \<Rightarrow> delegation_service \<Rightarrow> pydict \<Rightarrow> (delegation_error, delegation_grant) result" where
  "check_grant repr now svc claims =
     (case dict_get claims ''jti'' of
        None \<Rightarrow> Inl (DelegationUncaught KeyError)
      | Some jti \<Rightarrow>
          (case delegation_get svc (py_str repr jti) of
             None \<Rightarrow> Inl (DelegationError REASON_INVALID)
           | Some g \<Rightarrow>
               if gr_status g = ''revoked'' then Inl (DelegationError REASON_REVOKED)
               else if gr_expires_at g \<le> now then Inl (DelegationError REASON_EXPIRED)
               else (case claims_match claims g of
                   Inl e \<Rightarrow> Inl (DelegationUncaught e)
                 | Inr b \<Rightarrow> if b then Inr g else Inl (DelegationError REASON_INVALID))))"

definition delegation_verify ::
  "(pyval \<Rightarrow> string) \<Rightarrow> ('tok, 'key) jwt_lib \<Rightarrow> (string \<Rightarrow> string) \<Rightarrow> rsa_public \<Rightarrow> instant \<Rightarrow>
     delegation_service \<Rightarrow> 'tok \<Rightarrow> (delegation_error, delegation_grant) result" where
  "delegation_verify repr lib hash rsa now svc token =
     (case jl_header lib token of
        None \<Rightarrow> Inl (DelegationError REASON_INVALID)
      | Some header \<Rightarrow>
          if py_get header ''typ'' \<noteq> PStr DELEGATION_TOKEN_TYPE then Inl (DelegationError REASON_INVALID)
          else (case all_public_jwks hash rsa (ds_keys svc) of
              Inl e \<Rightarrow> Inl (SigningFailed e)
            | Inr jwks \<Rightarrow>
                (case List.find (\<lambda>k. py_eq (py_get k ''kid'') (py_get header ''kid'')) jwks of
                   None \<Rightarrow> Inl (DelegationError REASON_INVALID)
                 | Some jwk \<Rightarrow>
                     (case jl_key lib jwk of
                        None \<Rightarrow> Inl (DelegationError REASON_INVALID)
                      | Some key \<Rightarrow>
                          (case jl_decode lib key [''RS256''] (Some [DELEGATION_AUDIENCE])
                                  (ds_issuer svc) (ds_leeway svc) now token of
                             ExpiredSignature \<Rightarrow> Inl (DelegationError REASON_EXPIRED)
                           | InvalidToken \<Rightarrow> Inl (DelegationError REASON_INVALID)
                           | Decoded claims \<Rightarrow> check_grant repr now svc claims)))))"

section \<open>List and revoke\<close>

definition opt_filter :: "('r \<Rightarrow> ident) \<Rightarrow> ident option \<Rightarrow> 'r \<Rightarrow> bool" where
  "opt_filter col v r = (case v of None \<Rightarrow> True | Some x \<Rightarrow> x = '''' \<or> col r = x)"

definition delegation_list ::
  "delegation_service \<Rightarrow> instant \<Rightarrow> ident option \<Rightarrow> ident option \<Rightarrow> ident option \<Rightarrow> bool \<Rightarrow> nat \<Rightarrow> nat \<Rightarrow>
     delegation_grant list" where
  "delegation_list svc now tid uid agid active_only offset limit =
     map to_grant (take limit (drop offset
       (filter (\<lambda>r. opt_filter dg_tenant_id tid r \<and> opt_filter dg_user_id uid r \<and>
            opt_filter dg_agent_id agid r \<and>
            (active_only \<longrightarrow> dg_status r = ''active'' \<and> now < dg_expires_at r))
          (sort_key (\<lambda>r. - dg_created_at r) (ds_rows svc)))))"

definition delegation_revoke ::
  "delegation_service \<Rightarrow> instant \<Rightarrow> ident \<Rightarrow> delegation_grant option \<times> delegation_service" where
  "delegation_revoke svc now gid =
     (case tbl_get dg_id (ds_rows svc) gid of
        None \<Rightarrow> (None, svc)
      | Some row \<Rightarrow>
          if dg_status row \<noteq> ''revoked'' then
            (Some (to_grant (row\<lparr>dg_status := ''revoked'', dg_revoked_at := Some now\<rparr>)),
             svc\<lparr>ds_rows := tbl_update dg_id gid
               (\<lambda>r. r\<lparr>dg_status := ''revoked'', dg_revoked_at := Some now\<rparr>) (ds_rows svc)\<rparr>)
          else (Some (to_grant row), svc))"

definition matching :: "ident \<Rightarrow> ident option \<Rightarrow> ident option \<Rightarrow> delegation_row \<Rightarrow> bool" where
  "matching tid uid agid r \<longleftrightarrow>
     dg_tenant_id r = tid \<and> dg_status r = ''active'' \<and> opt_filter dg_user_id uid r \<and>
     opt_filter dg_agent_id agid r"

definition delegation_revoke_matching ::
  "delegation_service \<Rightarrow> instant \<Rightarrow> ident \<Rightarrow> ident option \<Rightarrow> ident option \<Rightarrow> nat \<times> delegation_service" where
  "delegation_revoke_matching svc now tid uid agid =
     (length (filter (matching tid uid agid) (ds_rows svc)),
      svc\<lparr>ds_rows := map (\<lambda>r. if matching tid uid agid r
             then r\<lparr>dg_status := ''revoked'', dg_revoked_at := Some now\<rparr> else r) (ds_rows svc)\<rparr>)"

section \<open>Lemmas\<close>

lemma check_grant_Inr:
  assumes "check_grant repr now svc claims = Inr g"
  shows "\<exists>row jti. row \<in> set (ds_rows svc) \<and> g = to_grant row \<and> dict_get claims ''jti'' = Some jti \<and>
     dg_id row = py_str repr jti \<and> dg_status row \<noteq> ''revoked'' \<and> now < dg_expires_at row \<and>
     claims_match claims g = Inr True"
  using assms
  by (auto simp: check_grant_def delegation_get_def to_grant_def not_le
      split: option.splits if_splits sum.splits dest!: tbl_get_Some)

lemma delegation_verify_Inr:
  assumes "delegation_verify repr lib hash rsa now svc token = Inr g"
  shows "\<exists>header jwks jwk key claims. jl_header lib token = Some header \<and>
     py_get header ''typ'' = PStr DELEGATION_TOKEN_TYPE \<and>
     all_public_jwks hash rsa (ds_keys svc) = Inr jwks \<and> jwk \<in> set jwks \<and>
     py_eq (py_get jwk ''kid'') (py_get header ''kid'') \<and> jl_key lib jwk = Some key \<and>
     jl_decode lib key [''RS256''] (Some [DELEGATION_AUDIENCE]) (ds_issuer svc) (ds_leeway svc) now token =
       Decoded claims \<and> check_grant repr now svc claims = Inr g"
  using assms
  by (auto simp: delegation_verify_def split: option.splits if_splits sum.splits jwt_outcome.splits
      dest!: find_Some_set)

lemma frozenset_of_strings: "frozenset_of (PList (map PStr xs)) = Inr (PStr ` set xs)"
  by (simp add: frozenset_of_def list_all_iff)

lemma claims_match_issued:
  "claims_match (delegation_claims issuer now ttl gid tid aid uid agid perms purpose) g = Inr True \<longleftrightarrow>
     gr_user_id g = uid \<and> gr_agent_id g = agid \<and> gr_tenant_id g = tid \<and> gr_application_id g = aid \<and>
     gr_permissions g = set perms"
proof -
  have inj: "PStr ` set perms = PStr ` gr_permissions g \<longleftrightarrow> gr_permissions g = set perms"
    by (auto simp: inj_image_eq_iff inj_def)
  then show ?thesis
    by (auto simp: claims_match_def delegation_claims_def py_get_def py_or_def obj_get_def
        frozenset_of_strings Let_def)
qed

text \<open>Any operation of the service.\<close>

inductive dg_step :: "'tok jwt_encode \<Rightarrow> delegation_service \<Rightarrow> delegation_service \<Rightarrow> bool" for enc where
  issue: "delegation_issue enc hash rsa gen now svc gid tid aid uid agid perms ttl purpose by' = Inr (m, svc') \<Longrightarrow>
     dg_step enc svc svc'"
| revoke: "dg_step enc svc (snd (delegation_revoke svc now gid))"
| revoke_matching: "dg_step enc svc (snd (delegation_revoke_matching svc now tid uid agid))"

definition dg_wf :: "delegation_service \<Rightarrow> bool" where
  "dg_wf svc \<longleftrightarrow> unique_col dg_id (ds_rows svc)"

definition dg_revoked :: "delegation_service \<Rightarrow> ident \<Rightarrow> bool" where
  "dg_revoked svc k \<longleftrightarrow> (\<exists>r \<in> set (ds_rows svc). dg_id r = k \<and> dg_status r = ''revoked'')"

text \<open>A token accepted as the grant \<open>k\<close>, whatever the library answers.\<close>

definition dg_live ::
  "(pyval \<Rightarrow> string) \<Rightarrow> ('tok, 'key) jwt_lib \<Rightarrow> (string \<Rightarrow> string) \<Rightarrow> rsa_public \<Rightarrow>
     delegation_service \<Rightarrow> instant \<Rightarrow> 'tok \<Rightarrow> ident \<Rightarrow> bool" where
  "dg_live repr lib hash rsa svc now token k \<longleftrightarrow>
     (\<exists>g. delegation_verify repr lib hash rsa now svc token = Inr g \<and> gr_id g = k)"

lemma dg_step_rows:
  assumes "dg_step enc svc svc'"
  shows "(\<exists>row. ds_rows svc' = ds_rows svc @ [row] \<and> dg_id row \<notin> dg_id ` set (ds_rows svc)) \<or>
     (\<exists>f. ds_rows svc' = map f (ds_rows svc) \<and>
        (\<forall>r. dg_id (f r) = dg_id r \<and> (dg_status r = ''revoked'' \<longrightarrow> dg_status (f r) = ''revoked'')))"
  using assms
proof cases
  case (issue hash rsa gen now gid tid aid uid agid perms ttl purpose by' m)
  then show ?thesis
    by (auto simp: delegation_issue_def Let_def tbl_insert_Inr image_iff split: sum.splits prod.splits)
next
  case (revoke now gid)
  show ?thesis
  proof (cases "\<exists>row. tbl_get dg_id (ds_rows svc) gid = Some row \<and> dg_status row \<noteq> ''revoked''")
    case True
    then show ?thesis
      unfolding revoke
      by (intro disjI2 exI [of _ "\<lambda>r. if dg_id r = gid
            then r\<lparr>dg_status := ''revoked'', dg_revoked_at := Some now\<rparr> else r"])
        (auto simp: delegation_revoke_def tbl_update_def)
  next
    case False
    then show ?thesis
      unfolding revoke
      by (intro disjI2 exI [of _ id]) (auto simp: delegation_revoke_def split: option.splits)
  qed
next
  case (revoke_matching now tid uid agid)
  then show ?thesis
    by (intro disjI2 exI [of _ "\<lambda>r. if matching tid uid agid r
          then r\<lparr>dg_status := ''revoked'', dg_revoked_at := Some now\<rparr> else r"])
      (auto simp: delegation_revoke_matching_def)
qed

interpretation delegations: revocable
  "\<lambda>svc k. \<exists>r \<in> set (ds_rows svc). dg_id r = k" dg_revoked "dg_live repr lib hash rsa"
  "\<lambda>svc now k. snd (delegation_revoke svc now k)" "dg_step enc" dg_wf
  for repr lib hash rsa enc
proof (unfold_locales, goal_cases)
  case (1 s k now)
  then obtain row where r: "tbl_get dg_id (ds_rows s) k = Some row"
    using tbl_get_None [of dg_id "ds_rows s" k] by fastforce
  note row = tbl_get_Some [OF r]
  show ?case
  proof (cases "dg_status row = ''revoked''")
    case True
    then show ?thesis using r row by (auto simp: delegation_revoke_def dg_revoked_def)
  next
    case False
    then show ?thesis
      using r row by (auto simp: delegation_revoke_def dg_revoked_def bex_tbl_update intro!: bexI [of _ row])
  qed
next
  case (2 s now k)
  then show ?case by (rule dg_step.revoke)
next
  case (3 s s')
  then show ?case
    using dg_step_rows [OF 3(2)] by (auto simp: dg_wf_def unique_col_append unique_col_def comp_def)
next
  case (4 s s' k)
  then show ?case
    using dg_step_rows [OF 4(2)] by (fastforce simp: dg_revoked_def)
next
  case (5 s k now c)
  show ?case
  proof
    assume "dg_live repr lib hash rsa s now c k"
    then obtain g where "delegation_verify repr lib hash rsa now s c = Inr g" "gr_id g = k"
      by (auto simp: dg_live_def)
    then obtain claims where "check_grant repr now s claims = Inr g"
      using delegation_verify_Inr [of repr lib hash rsa now s c g] by blast
    from check_grant_Inr [OF this] \<open>gr_id g = k\<close> obtain row where
      "row \<in> set (ds_rows s)" "dg_id row = k" "dg_status row \<noteq> ''revoked''"
      by (auto simp: to_grant_def)
    with 5 show False using unique_col_eq [of dg_id "ds_rows s"] by (auto simp: dg_wf_def dg_revoked_def)
  qed
qed

lemma delegation_issue_Inr:
  assumes "delegation_issue enc hash rsa gen now svc gid tid aid uid agid perms ttl purpose by' =
      Inr ((g, token), svc')"
  shows "\<exists>key row. active_signing_key hash rsa gen now (ds_keys svc) = Inr (key, ds_keys svc') \<and>
     token = enc (delegation_claims (ds_issuer svc) now ttl gid tid aid uid agid
         (sorted_list_of_set (set perms)) purpose) (sk_private_pem key) (sk_alg key)
         [(''kid'', PStr (sk_kid key)), (''typ'', PStr DELEGATION_TOKEN_TYPE)] \<and>
     ds_rows svc' = ds_rows svc @ [row] \<and> g = to_grant row \<and> dg_id row = gid \<and>
     gid \<notin> dg_id ` set (ds_rows svc) \<and> dg_status row = ''active'' \<and>
     dg_expires_at row = whole_seconds now * 1000000 + ttl \<and> dg_user_id row = uid \<and>
     dg_agent_id row = agid \<and> dg_tenant_id row = tid \<and> dg_application_id row = aid \<and>
     set (dg_permissions row) = set perms \<and> ds_issuer svc' = ds_issuer svc \<and> ds_leeway svc' = ds_leeway svc"
  using assms
  by (auto simp: delegation_issue_def sign_typed_def Let_def res_bind_eq_Inr tbl_insert_Inr image_iff
      split: sum.splits prod.splits)

lemma issue_then_verify:
  assumes "delegation_issue enc hash rsa gen now svc gid tid aid uid agid perms ttl purpose by' =
      Inr ((g, token), svc')"
    and signer: "active_signing_key hash rsa gen now (ds_keys svc) = Inr (key, ds_keys svc')"
    and published: "all_public_jwks hash rsa (ds_keys svc') = Inr jwks"
      "List.find (\<lambda>k. py_eq (py_get k ''kid'') (PStr (sk_kid key))) jwks = Some jwk"
    and header: "\<And>claims pem alg h. jl_header lib (enc claims pem alg h) = Some h"
    and decode: "jl_key lib jwk = Some pk"
      "\<And>claims h. jl_decode lib pk [''RS256''] (Some [DELEGATION_AUDIENCE]) (ds_issuer svc)
         (ds_leeway svc) later (enc claims (sk_private_pem key) (sk_alg key) h) = Decoded claims"
    and "later < whole_seconds now * 1000000 + ttl"
  shows "delegation_verify repr lib hash rsa later svc' token = Inr g"
proof -
  obtain row where
    t: "token = enc (delegation_claims (ds_issuer svc) now ttl gid tid aid uid agid
         (sorted_list_of_set (set perms)) purpose) (sk_private_pem key) (sk_alg key)
         [(''kid'', PStr (sk_kid key)), (''typ'', PStr DELEGATION_TOKEN_TYPE)]"
    and r: "ds_rows svc' = ds_rows svc @ [row]" "g = to_grant row" "dg_id row = gid"
      "gid \<notin> dg_id ` set (ds_rows svc)" "dg_status row = ''active''"
      "dg_expires_at row = whole_seconds now * 1000000 + ttl" "dg_user_id row = uid"
      "dg_agent_id row = agid" "dg_tenant_id row = tid" "dg_application_id row = aid"
      "set (dg_permissions row) = set perms" "ds_issuer svc' = ds_issuer svc" "ds_leeway svc' = ds_leeway svc"
    using delegation_issue_Inr [OF assms(1)] signer by auto
  let ?claims = "delegation_claims (ds_issuer svc) now ttl gid tid aid uid agid
         (sorted_list_of_set (set perms)) purpose"
  have "tbl_get dg_id (ds_rows svc) gid = None" using r(4) by (simp add: tbl_get_None)
  then have g: "delegation_get svc' gid = Some g"
    using r by (simp add: delegation_get_def tbl_get_append)
  have "claims_match ?claims g = Inr True"
    unfolding claims_match_issued using r by (simp add: to_grant_def)
  moreover have "dict_get ?claims ''jti'' = Some (PStr gid)" by (simp add: delegation_claims_def)
  moreover have "gr_status g = ''active''" "later < gr_expires_at g"
    using r assms(8) by (simp_all add: to_grant_def)
  ultimately have "check_grant repr later svc' ?claims = Inr g"
    using g by (simp add: check_grant_def)
  then show ?thesis
    using published header decode r(12,13) unfolding t
    by (simp add: delegation_verify_def py_get_def)
qed

text \<open>A library whose tokens are the tuples they were signed from.\<close>

type_synonym plain_token = "pydict \<times> string \<times> string \<times> pydict"

definition plain_enc :: "plain_token jwt_encode" where
  "plain_enc claims pem alg h = (claims, pem, alg, h)"

definition plain_lib :: "(plain_token, unit) jwt_lib" where
  "plain_lib = \<lparr>jl_header = (\<lambda>(c, p, a, h). Some h), jl_peek = (\<lambda>(c, p, a, h). Some c),
     jl_key = (\<lambda>_. Some ()), jl_decode = (\<lambda>_ _ _ _ _ _ (c, p, a, h). Decoded c)\<rparr>"

definition sample_delegations :: delegation_service where
  "sample_delegations = delegation_service_init [] sample_service '''' 30"

lemma sample_active_key:
  "active_signing_key (\<lambda>x. x) (\<lambda>_. Inl PemError) (''p'', (''n'', ''e'')) 5000000 sample_service =
     Inr (row_to_signing_key sample_key_row, sample_service\<lparr>ss_cached := Some (row_to_signing_key sample_key_row)\<rparr>)"
  by (rule active_key_after) (simp_all add: key_rows_ok_def unique_col_def sample_service_def sample_key_row_def)

definition sample_issue ::
  "(delegation_error, (delegation_grant \<times> plain_token) \<times> delegation_service) result" where
  "sample_issue = delegation_issue plain_enc (\<lambda>x. x) (\<lambda>_. Inl PemError) (''p'', (''n'', ''e'')) 5000000
     sample_delegations ''g1'' ''t'' ''a'' ''u'' ''ag'' [''docs.read''] 60000000 None None"

lemma sample_issue_ok:
  obtains g token svc' where "sample_issue = Inr ((g, token), svc')" "gr_id g = ''g1''"
    "ds_keys svc' = sample_service\<lparr>ss_cached := Some (row_to_signing_key sample_key_row)\<rparr>"
    "ds_rows svc' \<noteq> []"
  by (simp add: sample_issue_def delegation_issue_def sign_typed_def sample_delegations_def
      delegation_service_init_def sample_active_key tbl_insert_def to_grant_def Let_def)

lemma sample_issue_verifies:
  assumes "sample_issue = Inr ((g, token), svc')" "later < 65000000"
  shows "delegation_verify (\<lambda>_. []) plain_lib (\<lambda>x. x) (\<lambda>_. Inl PemError) later svc' token = Inr g"
proof -
  have d: "ds_keys sample_delegations = sample_service"
    by (simp add: sample_delegations_def delegation_service_init_def)
  have k: "ds_keys svc' = sample_service\<lparr>ss_cached := Some (row_to_signing_key sample_key_row)\<rparr>"
    using delegation_issue_Inr [OF assms(1) [unfolded sample_issue_def]]
    unfolding d sample_active_key sum.inject prod.inject by metis
  have s: "active_signing_key (\<lambda>x. x) (\<lambda>_. Inl PemError) (''p'', (''n'', ''e'')) 5000000
      (ds_keys sample_delegations) = Inr (row_to_signing_key sample_key_row, ds_keys svc')"
    using sample_active_key k by (simp add: sample_delegations_def delegation_service_init_def)
  have p: "all_public_jwks (\<lambda>x. x) (\<lambda>_. Inl PemError) (ds_keys svc') = Inr [[(''kid'', PStr ''k0'')]]"
    by (simp add: k all_public_jwks_def sample_service_def sample_key_row_def)
  have f: "List.find (\<lambda>k. py_eq (py_get k ''kid'') (PStr (sk_kid (row_to_signing_key sample_key_row))))
      [[(''kid'', PStr ''k0'')]] = Some [(''kid'', PStr ''k0'')]"
    by (simp add: py_get_def row_to_signing_key_def sample_key_row_def)
  show ?thesis
    by (rule issue_then_verify [OF assms(1) [unfolded sample_issue_def] s p f, where pk = "()"])
      (use assms(2) in \<open>simp_all add: plain_lib_def plain_enc_def whole_seconds_def\<close>)
qed

section \<open>Properties\<close>





text \<open>C28: a revoked grant is dead for good. After a grant is revoked by its id, or by the kill switch for
  its tenant, user or agent, no token verifies as it, at any time and after any further operations of
  the service (issuing other grants, revoking), whatever the JWT library answers; the kill switch
  counts and revokes exactly the active grants it matches.\<close>

theorem delegation_revocation_final:
  assumes "dg_wf svc" and "\<exists>r \<in> set (ds_rows svc). dg_id r = gid"
  shows "((dg_step enc)\<^sup>*\<^sup>* (snd (delegation_revoke svc now gid)) svc' \<longrightarrow>
       delegation_verify repr lib hash rsa later svc' token = Inr g \<longrightarrow> gr_id g \<noteq> gid) \<and>
     (r \<in> set (ds_rows svc) \<longrightarrow> matching tid uid agid r \<longrightarrow>
       (dg_step enc)\<^sup>*\<^sup>* (snd (delegation_revoke_matching svc now tid uid agid)) svc'' \<longrightarrow>
       delegation_verify repr lib hash rsa later svc'' token = Inr g \<longrightarrow> gr_id g \<noteq> dg_id r) \<and>
     fst (delegation_revoke_matching svc now tid uid agid) =
       length (filter (matching tid uid agid) (ds_rows svc)) \<and>
     (\<forall>q \<in> set (ds_rows svc). \<not> matching tid uid agid q \<longrightarrow>
        q \<in> set (ds_rows (snd (delegation_revoke_matching svc now tid uid agid))))"
proof (intro conjI impI ballI)
  assume "(dg_step enc)\<^sup>*\<^sup>* (snd (delegation_revoke svc now gid)) svc'"
    "delegation_verify repr lib hash rsa later svc' token = Inr g"
  then show "gr_id g \<noteq> gid"
    using delegations.revoked_forever [OF assms, of enc now svc' repr lib hash rsa later token]
    by (auto simp: dg_live_def)
next
  let ?s = "snd (delegation_revoke_matching svc now tid uid agid)"
  assume r: "r \<in> set (ds_rows svc)" "matching tid uid agid r"
    and s: "(dg_step enc)\<^sup>*\<^sup>* ?s svc''" and v: "delegation_verify repr lib hash rsa later svc'' token = Inr g"
  have w: "dg_wf ?s" by (rule delegations.step_wf [OF assms(1) dg_step.revoke_matching])
  have "r\<lparr>dg_status := ''revoked'', dg_revoked_at := Some now\<rparr> \<in> set (ds_rows ?s)"
    using r by (force simp: delegation_revoke_matching_def)
  then have "dg_revoked ?s (dg_id r)" unfolding dg_revoked_def by (rule bexI [rotated]) simp
  then have "dg_revoked svc'' (dg_id r)" using delegations.steps_keep [OF s w] by blast
  then have "\<not> dg_live repr lib hash rsa svc'' later token (dg_id r)"
    by (rule delegations.revoked_dead [OF delegations.steps_wf [OF s w]])
  then show "gr_id g \<noteq> dg_id r" using v by (auto simp: dg_live_def)
next
  fix q
  assume "q \<in> set (ds_rows svc)" "\<not> matching tid uid agid q"
  then show "q \<in> set (ds_rows (snd (delegation_revoke_matching svc now tid uid agid)))"
    by (auto simp: delegation_revoke_matching_def)
qed (simp add: delegation_revoke_matching_def)

theorem delegation_revocation_final_witness:
  "\<exists>g token svc'. sample_issue = Inr ((g, token), svc') \<and>
     (\<forall>h. delegation_verify (\<lambda>_. []) plain_lib (\<lambda>x. x) (\<lambda>_. Inl PemError) 6000000
        (snd (delegation_revoke svc' 6000000 ''g1'')) token = Inr h \<longrightarrow> gr_id h \<noteq> ''g1'')"
proof -
  obtain g token svc' where i: "sample_issue = Inr ((g, token), svc')" using sample_issue_ok by blast
  have "dg_step plain_enc sample_delegations svc'"
    by (rule dg_step.issue [OF i [unfolded sample_issue_def]])
  moreover have "dg_wf sample_delegations"
    by (simp add: dg_wf_def sample_delegations_def delegation_service_init_def)
  ultimately have w: "dg_wf svc'" using delegations.step_wf by blast
  have k: "\<exists>r \<in> set (ds_rows svc'). dg_id r = ''g1''"
    using delegation_issue_Inr [OF i [unfolded sample_issue_def]] by auto
  have "gr_id h \<noteq> ''g1''" if "delegation_verify (\<lambda>_. []) plain_lib (\<lambda>x. x) (\<lambda>_. Inl PemError) 6000000
        (snd (delegation_revoke svc' 6000000 ''g1'')) token = Inr h" for h
    using delegation_revocation_final [OF w k, of plain_enc 6000000 "snd (delegation_revoke svc' 6000000 ''g1'')"
        "\<lambda>_. []" plain_lib "\<lambda>x. x" "\<lambda>_. Inl PemError" 6000000 token h] that by blast
  then show ?thesis using i by blast
qed

end
