(* ===== verification/Api_Keys.thy ===== *)
theory Api_Keys
  imports Tables Policies
begin

text \<open>
  \<^verbatim>\<open>authzkit/security/api_keys.py\<close>, \<^verbatim>\<open>security/principal.py\<close> and \<^verbatim>\<open>security/oauth_clients.py\<close>: the scope
  vocabulary, the API keys and the OAuth clients that carry scopes, and the principals a caller is
  identified as. The digest \<^verbatim>\<open>_hash\<close> is a parameter (\<open>hash\<close>, SHA-256 in hexadecimal); random
  identifiers and secrets are arguments. The columns the services never read (\<^verbatim>\<open>updated_at\<close>) are left
  out.
\<close>

section \<open>Scopes\<close>

definition SCOPE_ADMIN :: string where
  "SCOPE_ADMIN = ''admin''"

definition SCOPE_RUNTIME :: string where
  "SCOPE_RUNTIME = ''runtime''"

definition tenant_scope :: "ident \<Rightarrow> string" where
  "tenant_scope t = ''tenant:'' @ t"

definition parse_scopes :: "string \<Rightarrow> string list" where
  "parse_scopes v = filter (\<lambda>s. s \<noteq> []) (map strip (split_on CHR '','' v))"

definition serialize_scopes :: "string list \<Rightarrow> string" where
  "serialize_scopes scopes = join_on CHR '','' (sorted_list_of_set (set (filter (\<lambda>s. s \<noteq> []) scopes)))"

definition scope_allows :: "string list \<Rightarrow> string \<Rightarrow> ident option \<Rightarrow> bool" where
  "scope_allows scopes surface tid =
     (let scopes_set = set scopes in
      if SCOPE_ADMIN \<in> scopes_set then True
      else if surface = ''runtime'' \<and> SCOPE_RUNTIME \<in> scopes_set then True
      else if (case tid of None \<Rightarrow> False | Some t \<Rightarrow> tenant_scope t \<in> scopes_set) then True
      else surface = ''runtime'' \<and> tid = None \<and>
           list_ex (\<lambda>s. starts_with ''tenant:'' s) scopes)"

definition tenant_scope_matches :: "string list \<Rightarrow> ident \<Rightarrow> bool" where
  "tenant_scope_matches scopes t =
     (if SCOPE_ADMIN \<in> set scopes \<or> SCOPE_RUNTIME \<in> set scopes then True
      else tenant_scope t \<in> set scopes)"

section \<open>API keys\<close>

record api_key_record =
  akr_id :: ident
  akr_name :: string
  akr_key_prefix :: string
  akr_scopes :: "string list"
  akr_tenant_id :: "ident option"
  akr_status :: string
  akr_expires_at :: "instant option"
  akr_last_used_at :: "instant option"
  akr_rotates :: "ident option"

text \<open>The table \<^verbatim>\<open>api_keys\<close>: the scopes are one comma-separated string.\<close>

record api_key_row =
  ak_id :: ident
  ak_name :: string
  ak_key_hash :: string
  ak_key_prefix :: string
  ak_scopes :: string
  ak_tenant_id :: "ident option"
  ak_status :: string
  ak_expires_at :: "instant option"
  ak_last_used_at :: "instant option"
  ak_rotates :: "ident option"

definition generate_api_key :: "(string \<Rightarrow> string) \<Rightarrow> string \<Rightarrow> string \<Rightarrow> string \<times> string \<times> string" where
  "generate_api_key hash prefix raw =
     (let plaintext = prefix @ ''_'' @ raw in
      (plaintext, hash plaintext, take (length prefix + 7) plaintext))"

definition ak_to_record :: "api_key_row \<Rightarrow> api_key_record" where
  "ak_to_record row =
     \<lparr>akr_id = ak_id row, akr_name = ak_name row, akr_key_prefix = ak_key_prefix row,
      akr_scopes = parse_scopes (ak_scopes row), akr_tenant_id = ak_tenant_id row,
      akr_status = ak_status row, akr_expires_at = ak_expires_at row,
      akr_last_used_at = ak_last_used_at row, akr_rotates = ak_rotates row\<rparr>"

definition ak_clash :: "api_key_row \<Rightarrow> api_key_row \<Rightarrow> bool" where
  "ak_clash new r \<longleftrightarrow> ak_id r = ak_id new \<or> ak_key_hash r = ak_key_hash new"

text \<open>\<^verbatim>\<open>issue\<close>: the new row's id and the random part of the key are arguments; the result is the record and
  the plaintext.\<close>

definition ak_issue ::
  "(string \<Rightarrow> string) \<Rightarrow> api_key_row list \<Rightarrow> ident \<Rightarrow> string \<Rightarrow> string \<Rightarrow> string list \<Rightarrow> ident option \<Rightarrow>
     instant option \<Rightarrow> ident option \<Rightarrow>
     (authz_error, (api_key_record \<times> string) \<times> api_key_row list) result" where
  "ak_issue hash rows nid raw name scopes tid expires_at rotates =
     (let (plaintext, key_hash, prefix) = generate_api_key hash ''azk'' raw;
          row = \<lparr>ak_id = nid, ak_name = name, ak_key_hash = key_hash, ak_key_prefix = prefix,
                 ak_scopes = serialize_scopes scopes, ak_tenant_id = tid, ak_status = ''active'',
                 ak_expires_at = expires_at, ak_last_used_at = None, ak_rotates = rotates\<rparr> in
      res_bind (tbl_insert ak_clash row rows)
        (\<lambda>rows'. Inr ((ak_to_record row, plaintext), rows')))"

text \<open>The checks that \<^verbatim>\<open>find_active\<close> and \<^verbatim>\<open>authenticate\<close> make on a row's status and expiry.\<close>

definition row_usable :: "string \<Rightarrow> instant option \<Rightarrow> instant \<Rightarrow> bool" where
  "row_usable status expires_at now \<longleftrightarrow>
     status = ''active'' \<and> (case expires_at of None \<Rightarrow> True | Some e \<Rightarrow> \<not> e < now)"

definition ak_find_active ::
  "(string \<Rightarrow> string) \<Rightarrow> api_key_row list \<Rightarrow> instant \<Rightarrow> string \<Rightarrow>
     api_key_record option \<times> api_key_row list" where
  "ak_find_active hash rows now plaintext =
     (let candidate_hash = hash plaintext in
      case tbl_get ak_key_hash rows candidate_hash of
        None \<Rightarrow> (None, rows)
      | Some row \<Rightarrow>
          if ak_key_hash row \<noteq> candidate_hash then (None, rows)
          else if \<not> row_usable (ak_status row) (ak_expires_at row) now then (None, rows)
          else (Some (ak_to_record (row\<lparr>ak_last_used_at := Some now\<rparr>)),
                tbl_update ak_id (ak_id row) (\<lambda>r. r\<lparr>ak_last_used_at := Some now\<rparr>) rows))"

definition ak_list_keys :: "api_key_row list \<Rightarrow> api_key_record list" where
  "ak_list_keys rows = map ak_to_record rows"

definition ak_revoke :: "api_key_row list \<Rightarrow> ident \<Rightarrow> bool \<times> api_key_row list" where
  "ak_revoke rows kid =
     (case tbl_get ak_id rows kid of
        None \<Rightarrow> (False, rows)
      | Some _ \<Rightarrow> (True, tbl_update ak_id kid (\<lambda>r. r\<lparr>ak_status := ''revoked''\<rparr>) rows))"

definition ak_rotate ::
  "(string \<Rightarrow> string) \<Rightarrow> api_key_row list \<Rightarrow> ident \<Rightarrow> string \<Rightarrow> ident \<Rightarrow> string option \<Rightarrow>
     (authz_error, (api_key_record \<times> string) \<times> api_key_row list) result" where
  "ak_rotate hash rows nid raw old_id name =
     (case tbl_get ak_id rows old_id of
        None \<Rightarrow> Inl ValueError
      | Some old \<Rightarrow>
          ak_issue hash rows nid raw
            (case name of Some n \<Rightarrow> if n \<noteq> '''' then n else ak_name old @ '' (rotated)''
                        | None \<Rightarrow> ak_name old @ '' (rotated)'')
            (parse_scopes (ak_scopes old)) (ak_tenant_id old) None (Some old_id))"

section \<open>OAuth clients\<close>

record oauth_client_record =
  ocr_id :: ident
  ocr_client_id :: string
  ocr_name :: string
  ocr_scopes :: "string list"
  ocr_tenant_id :: "ident option"
  ocr_status :: string
  ocr_expires_at :: "instant option"
  ocr_last_used_at :: "instant option"
  ocr_created_at :: "instant option"

record oauth_client_row =
  oc_id :: ident
  oc_client_id :: string
  oc_secret_hash :: string
  oc_name :: string
  oc_scopes :: string
  oc_tenant_id :: "ident option"
  oc_status :: string
  oc_expires_at :: "instant option"
  oc_last_used_at :: "instant option"
  oc_created_at :: "instant option"

definition oc_to_record :: "oauth_client_row \<Rightarrow> oauth_client_record" where
  "oc_to_record row =
     \<lparr>ocr_id = oc_id row, ocr_client_id = oc_client_id row, ocr_name = oc_name row,
      ocr_scopes = parse_scopes (oc_scopes row), ocr_tenant_id = oc_tenant_id row,
      ocr_status = oc_status row, ocr_expires_at = oc_expires_at row,
      ocr_last_used_at = oc_last_used_at row, ocr_created_at = oc_created_at row\<rparr>"

definition generate_client_id :: "string \<Rightarrow> string" where
  "generate_client_id raw = ''oc_'' @ raw"

definition generate_client_secret :: "string \<Rightarrow> string" where
  "generate_client_secret raw = ''ocs_'' @ raw"

definition oc_clash :: "oauth_client_row \<Rightarrow> oauth_client_row \<Rightarrow> bool" where
  "oc_clash new r \<longleftrightarrow> oc_id r = oc_id new \<or> oc_client_id r = oc_client_id new"

definition oc_issue ::
  "(string \<Rightarrow> string) \<Rightarrow> oauth_client_row list \<Rightarrow> instant \<Rightarrow> ident \<Rightarrow> string \<Rightarrow> string \<Rightarrow> string \<Rightarrow>
     string list \<Rightarrow> ident option \<Rightarrow> instant option \<Rightarrow> string option \<Rightarrow>
     (authz_error, (oauth_client_record \<times> string) \<times> oauth_client_row list) result" where
  "oc_issue hash rows now nid raw_id raw_secret name scopes tid expires_at client_id =
     (let cid = (case client_id of Some c \<Rightarrow> if c \<noteq> '''' then c else generate_client_id raw_id
                                 | None \<Rightarrow> generate_client_id raw_id);
          secret = generate_client_secret raw_secret;
          row = \<lparr>oc_id = nid, oc_client_id = cid, oc_secret_hash = hash secret, oc_name = name,
                 oc_scopes = serialize_scopes scopes, oc_tenant_id = tid, oc_status = ''active'',
                 oc_expires_at = expires_at, oc_last_used_at = None, oc_created_at = Some now\<rparr> in
      res_bind (tbl_insert oc_clash row rows)
        (\<lambda>rows'. Inr ((oc_to_record row, secret), rows')))"

definition oc_authenticate ::
  "(string \<Rightarrow> string) \<Rightarrow> oauth_client_row list \<Rightarrow> instant \<Rightarrow> string \<Rightarrow> string \<Rightarrow>
     oauth_client_record option \<times> oauth_client_row list" where
  "oc_authenticate hash rows now client_id client_secret =
     (let candidate_hash = hash client_secret in
      case tbl_get oc_client_id rows client_id of
        None \<Rightarrow> (None, rows)
      | Some row \<Rightarrow>
          if oc_secret_hash row \<noteq> candidate_hash then (None, rows)
          else if \<not> row_usable (oc_status row) (oc_expires_at row) now then (None, rows)
          else (Some (oc_to_record (row\<lparr>oc_last_used_at := Some now\<rparr>)),
                tbl_update oc_client_id client_id (\<lambda>r. r\<lparr>oc_last_used_at := Some now\<rparr>) rows))"

definition oc_list_clients :: "oauth_client_row list \<Rightarrow> oauth_client_record list" where
  "oc_list_clients rows = map oc_to_record rows"

definition oc_get :: "oauth_client_row list \<Rightarrow> string \<Rightarrow> oauth_client_record option" where
  "oc_get rows client_id = map_option oc_to_record (tbl_get oc_client_id rows client_id)"

definition oc_revoke :: "oauth_client_row list \<Rightarrow> string \<Rightarrow> bool \<times> oauth_client_row list" where
  "oc_revoke rows client_id =
     (case tbl_get oc_client_id rows client_id of
        None \<Rightarrow> (False, rows)
      | Some _ \<Rightarrow>
          (True, tbl_update oc_client_id client_id (\<lambda>r. r\<lparr>oc_status := ''revoked''\<rparr>) rows))"

definition oc_rotate_secret ::
  "(string \<Rightarrow> string) \<Rightarrow> oauth_client_row list \<Rightarrow> string \<Rightarrow> string \<Rightarrow>
     (oauth_client_record \<times> string) option \<times> oauth_client_row list" where
  "oc_rotate_secret hash rows raw client_id =
     (case tbl_get oc_client_id rows client_id of
        None \<Rightarrow> (None, rows)
      | Some row \<Rightarrow>
          (let secret = generate_client_secret raw;
               row' = row\<lparr>oc_secret_hash := hash secret\<rparr> in
           (Some (oc_to_record row', secret),
            tbl_update oc_client_id client_id (\<lambda>r. r\<lparr>oc_secret_hash := hash secret\<rparr>) rows)))"

section \<open>Principals\<close>

record token_principal =
  tp_issuer :: string
  tp_subject :: string
  tp_client_id :: "string option"
  tp_scopes :: "string list"
  tp_tenant_id :: "ident option"
  tp_claims :: pydict

record session_principal =
  sp_subject :: string
  sp_email :: "string option"
  sp_scopes :: "string list"
  sp_session_id :: string
  sp_csrf_token :: string
  sp_issuer :: "string option"

datatype principal =
    KeyPrincipal api_key_record
  | Token token_principal
  | Session session_principal

fun principal_scopes :: "principal \<Rightarrow> string list" where
  "principal_scopes (KeyPrincipal k) = akr_scopes k"
| "principal_scopes (Token t) = tp_scopes t"
| "principal_scopes (Session s) = sp_scopes s"

fun principal_tenant_id :: "principal \<Rightarrow> ident option" where
  "principal_tenant_id (KeyPrincipal k) = akr_tenant_id k"
| "principal_tenant_id (Token t) = tp_tenant_id t"
| "principal_tenant_id (Session s) = None"

fun principal_subject_label :: "principal \<Rightarrow> string" where
  "principal_subject_label (Token t) =
     ''token:'' @ (case tp_client_id t of
        Some c \<Rightarrow> if c \<noteq> '''' then c else tp_subject t
      | None \<Rightarrow> tp_subject t)"
| "principal_subject_label (Session s) = ''session:'' @ sp_subject s"
| "principal_subject_label (KeyPrincipal k) = ''apikey:'' @ akr_id k"

definition principal_allows :: "principal \<Rightarrow> string \<Rightarrow> ident option \<Rightarrow> bool" where
  "principal_allows p surface tid = scope_allows (principal_scopes p) surface tid"

definition principal_tenant_matches :: "principal \<Rightarrow> ident \<Rightarrow> bool" where
  "principal_tenant_matches p t = tenant_scope_matches (principal_scopes p) t"

section \<open>Lemmas on scopes\<close>

lemma tenant_scope_inject [simp]: "tenant_scope t = tenant_scope t' \<longleftrightarrow> t = t'"
  by (simp add: tenant_scope_def)

lemma tenant_scope_not_surface [simp]:
  "tenant_scope t \<noteq> SCOPE_ADMIN" "tenant_scope t \<noteq> SCOPE_RUNTIME"
  "SCOPE_ADMIN \<noteq> tenant_scope t" "SCOPE_RUNTIME \<noteq> tenant_scope t"
  "SCOPE_ADMIN \<noteq> SCOPE_RUNTIME" "SCOPE_RUNTIME \<noteq> SCOPE_ADMIN"
  by (auto simp: tenant_scope_def SCOPE_ADMIN_def SCOPE_RUNTIME_def)

lemma join_on_empty_pieces: "join_on c ps = [] \<Longrightarrow> set ps \<subseteq> {[]}"
  by (induction c ps rule: join_on.induct) auto

definition scope_clean :: "string \<Rightarrow> bool" where
  "scope_clean s \<longleftrightarrow> CHR '','' \<notin> set s \<and> strip s = s"

lemma parse_serialize_scopes:
  assumes "\<forall>s \<in> set scopes. scope_clean s"
  shows "parse_scopes (serialize_scopes scopes) =
     sorted_list_of_set (set (filter (\<lambda>s. s \<noteq> []) scopes))"
proof -
  let ?l = "sorted_list_of_set (set (filter (\<lambda>s. s \<noteq> []) scopes))"
  have l: "\<forall>s \<in> set ?l. scope_clean s \<and> s \<noteq> []" using assms by auto
  show ?thesis
  proof (cases "?l = []")
    case True
    then show ?thesis by (simp add: parse_scopes_def serialize_scopes_def)
  next
    case False
    have "split_on CHR '','' (join_on CHR '','' ?l) = ?l"
      by (rule split_join_on [OF False]) (use l in \<open>auto simp: scope_clean_def\<close>)
    moreover have "map strip ?l = ?l" using l unfolding scope_clean_def by (blast intro: map_idI)
    moreover have "filter (\<lambda>s. s \<noteq> []) ?l = ?l" using l by (simp add: filter_id_conv)
    ultimately show ?thesis unfolding parse_scopes_def serialize_scopes_def by simp
  qed
qed

lemma serialize_scopes_set: "set (sorted_list_of_set (set (filter (\<lambda>s. s \<noteq> []) scopes))) = set scopes - {[]}"
  by auto

section \<open>Lemmas on keys and clients\<close>

definition ak_wf :: "api_key_row list \<Rightarrow> bool" where
  "ak_wf rows \<longleftrightarrow> unique_col ak_id rows \<and> unique_col ak_key_hash rows"

definition oc_wf :: "oauth_client_row list \<Rightarrow> bool" where
  "oc_wf rows \<longleftrightarrow> unique_col oc_id rows \<and> unique_col oc_client_id rows"

text \<open>One step of each service: any of its operations, with any arguments.\<close>

inductive ak_step :: "(string \<Rightarrow> string) \<Rightarrow> api_key_row list \<Rightarrow> api_key_row list \<Rightarrow> bool" for hash where
  issue: "ak_issue hash rows nid raw name scopes tid expires_at rotates = Inr (m, rows') \<Longrightarrow>
     ak_step hash rows rows'"
| find: "ak_step hash rows (snd (ak_find_active hash rows now plaintext))"
| revoke: "ak_step hash rows (snd (ak_revoke rows kid))"
| rotate: "ak_rotate hash rows nid raw old_id name' = Inr (m, rows') \<Longrightarrow> ak_step hash rows rows'"

inductive oc_step :: "(string \<Rightarrow> string) \<Rightarrow> oauth_client_row list \<Rightarrow> oauth_client_row list \<Rightarrow> bool"
  for hash where
  issue: "oc_issue hash rows now nid ri rs name scopes tid expires_at cid = Inr (m, rows') \<Longrightarrow>
     oc_step hash rows rows'"
| authenticate: "oc_step hash rows (snd (oc_authenticate hash rows now cid secret))"
| revoke: "oc_step hash rows (snd (oc_revoke rows cid))"
| rotate: "oc_step hash rows (snd (oc_rotate_secret hash rows raw cid))"

lemma ak_issue_Inr:
  "ak_issue hash rows nid raw name scopes tid expires_at rotates = Inr ((rec, plain), rows') \<Longrightarrow>
   \<exists>row. rows' = rows @ [row] \<and> rec = ak_to_record row \<and> ak_id row = nid \<and>
     ak_key_hash row = hash plain \<and> ak_scopes row = serialize_scopes scopes \<and>
     ak_tenant_id row = tid \<and> ak_status row = ''active'' \<and> ak_expires_at row = expires_at \<and>
     ak_rotates row = rotates \<and> (\<forall>r \<in> set rows. ak_id r \<noteq> nid \<and> ak_key_hash r \<noteq> hash plain)"
  by (auto simp: ak_issue_def generate_api_key_def Let_def res_bind_eq_Inr tbl_insert_Inr ak_clash_def)

lemma oc_issue_Inr:
  "oc_issue hash rows now nid ri rs name scopes tid expires_at cid = Inr ((rec, secret), rows') \<Longrightarrow>
   \<exists>row. rows' = rows @ [row] \<and> rec = oc_to_record row \<and> oc_id row = nid \<and>
     oc_secret_hash row = hash secret \<and> oc_scopes row = serialize_scopes scopes \<and>
     oc_status row = ''active'' \<and> oc_expires_at row = expires_at \<and>
     (\<forall>r \<in> set rows. oc_id r \<noteq> nid \<and> oc_client_id r \<noteq> oc_client_id row)"
  by (auto simp: oc_issue_def Let_def res_bind_eq_Inr tbl_insert_Inr oc_clash_def)

lemma ak_step_cases:
  assumes "ak_step hash rows rows'"
  obtains (insert) row where "rows' = rows @ [row]" "ak_status row = ''active''"
      "\<forall>r \<in> set rows. ak_id r \<noteq> ak_id row \<and> ak_key_hash r \<noteq> ak_key_hash row"
  | (update) k f where "rows' = tbl_update ak_id k f rows"
      "\<And>r. ak_id (f r) = ak_id r \<and> ak_key_hash (f r) = ak_key_hash r \<and>
        (ak_status r = ''revoked'' \<longrightarrow> ak_status (f r) = ''revoked'')"
  | (same) "rows' = rows"
  using assms
proof cases
  case (issue nid raw name scopes tid expires_at rotates m)
  then show thesis using ak_issue_Inr insert by (cases m) fastforce
next
  case (find now plaintext)
  then show thesis
    using same update [of _ "\<lambda>r. r\<lparr>ak_last_used_at := Some now\<rparr>"]
    by (auto simp: ak_find_active_def Let_def split: option.splits if_splits)
next
  case (revoke kid)
  then show thesis
    using same update [of _ "\<lambda>r. r\<lparr>ak_status := ''revoked''\<rparr>"]
    by (auto simp: ak_revoke_def split: option.splits)
next
  case (rotate nid raw old_id name' m)
  then show thesis using ak_issue_Inr insert
    by (cases m) (fastforce simp: ak_rotate_def split: option.splits)
qed

lemma oc_step_cases:
  assumes "oc_step hash rows rows'"
  obtains (insert) row where "rows' = rows @ [row]" "oc_status row = ''active''"
      "\<forall>r \<in> set rows. oc_id r \<noteq> oc_id row \<and> oc_client_id r \<noteq> oc_client_id row"
  | (update) k f where "rows' = tbl_update oc_client_id k f rows"
      "\<And>r. oc_id (f r) = oc_id r \<and> oc_client_id (f r) = oc_client_id r \<and>
        (oc_status r = ''revoked'' \<longrightarrow> oc_status (f r) = ''revoked'')"
  | (same) "rows' = rows"
  using assms
proof cases
  case (issue now nid ri rs name scopes tid expires_at cid m)
  then show thesis using oc_issue_Inr insert by (cases m) fastforce
next
  case (authenticate now cid secret)
  then show thesis
    using same update [of _ "\<lambda>r. r\<lparr>oc_last_used_at := Some now\<rparr>"]
    by (auto simp: oc_authenticate_def Let_def split: option.splits if_splits)
next
  case (revoke cid)
  then show thesis
    using same update [of _ "\<lambda>r. r\<lparr>oc_status := ''revoked''\<rparr>"]
    by (auto simp: oc_revoke_def split: option.splits)
next
  case (rotate raw cid)
  then show thesis
    using same update [of _ "\<lambda>r. r\<lparr>oc_secret_hash := hash (generate_client_secret raw)\<rparr>"]
    by (auto simp: oc_rotate_secret_def Let_def split: option.splits)
qed

text \<open>What being revoked and being accepted mean for the two services.\<close>

definition ak_revoked :: "api_key_row list \<Rightarrow> ident \<Rightarrow> bool" where
  "ak_revoked rows k \<longleftrightarrow> (\<exists>r \<in> set rows. ak_id r = k \<and> ak_status r = ''revoked'')"

definition ak_live :: "(string \<Rightarrow> string) \<Rightarrow> api_key_row list \<Rightarrow> instant \<Rightarrow> string \<Rightarrow> ident \<Rightarrow> bool" where
  "ak_live hash rows now plaintext k \<longleftrightarrow>
     (\<exists>rec. fst (ak_find_active hash rows now plaintext) = Some rec \<and> akr_id rec = k)"

definition oc_revoked :: "oauth_client_row list \<Rightarrow> string \<Rightarrow> bool" where
  "oc_revoked rows k \<longleftrightarrow> (\<exists>r \<in> set rows. oc_client_id r = k \<and> oc_status r = ''revoked'')"

definition oc_live ::
  "(string \<Rightarrow> string) \<Rightarrow> oauth_client_row list \<Rightarrow> instant \<Rightarrow> string \<times> string \<Rightarrow> string \<Rightarrow> bool" where
  "oc_live hash rows now c k \<longleftrightarrow>
     (\<exists>rec. fst (oc_authenticate hash rows now (fst c) (snd c)) = Some rec \<and> ocr_client_id rec = k)"

lemma ak_live_row:
  "ak_live hash rows now c k \<Longrightarrow> \<exists>r \<in> set rows. ak_id r = k \<and> ak_status r = ''active''"
  by (auto simp: ak_live_def ak_find_active_def row_usable_def ak_to_record_def Let_def
      split: option.splits if_splits dest!: tbl_get_Some)

lemma oc_live_row:
  "oc_live hash rows now c k \<Longrightarrow> \<exists>r \<in> set rows. oc_client_id r = k \<and> oc_status r = ''active''"
  by (auto simp: oc_live_def oc_authenticate_def row_usable_def oc_to_record_def Let_def
      split: option.splits if_splits dest!: tbl_get_Some)

interpretation api_keys: revocable
  "\<lambda>rows k. \<exists>r \<in> set rows. ak_id r = k" ak_revoked "ak_live hash"
  "\<lambda>rows _ k. snd (ak_revoke rows k)" "ak_step hash" ak_wf
  for hash
proof (unfold_locales, goal_cases)
  case (1 s k now)
  then show ?case
    by (auto simp: ak_revoke_def ak_revoked_def bex_tbl_update tbl_get_None split: option.splits)
next
  case (2 s now k)
  then show ?case by (rule ak_step.revoke)
next
  case (3 s s')
  from 3(2) show ?case
    by (cases rule: ak_step_cases) (use 3(1) in \<open>auto simp: ak_wf_def unique_col_append\<close>)
next
  case (4 s s' k)
  from 4(2) show ?case
  proof (cases rule: ak_step_cases)
    case (update j f)
    show ?thesis
      unfolding ak_revoked_def update(1)
      by (rule tbl_update_keeps) (use 4(3) update(2) in \<open>auto simp: ak_revoked_def\<close>)
  qed (use 4(3) in \<open>auto simp: ak_revoked_def\<close>)
next
  case (5 s k now c)
  then show ?case
    using ak_live_row [of hash s now c k] unique_col_eq [of ak_id s]
    unfolding ak_wf_def ak_revoked_def by force
qed

interpretation oauth_clients: revocable
  "\<lambda>rows k. \<exists>r \<in> set rows. oc_client_id r = k" oc_revoked "oc_live hash"
  "\<lambda>rows _ k. snd (oc_revoke rows k)" "oc_step hash" oc_wf
  for hash
proof (unfold_locales, goal_cases)
  case (1 s k now)
  then show ?case
    by (auto simp: oc_revoke_def oc_revoked_def bex_tbl_update tbl_get_None split: option.splits)
next
  case (2 s now k)
  then show ?case by (rule oc_step.revoke)
next
  case (3 s s')
  from 3(2) show ?case
    by (cases rule: oc_step_cases) (use 3(1) in \<open>auto simp: oc_wf_def unique_col_append\<close>)
next
  case (4 s s' k)
  from 4(2) show ?case
  proof (cases rule: oc_step_cases)
    case (update j f)
    show ?thesis
      unfolding oc_revoked_def update(1)
      by (rule tbl_update_keeps) (use 4(3) update(2) in \<open>auto simp: oc_revoked_def\<close>)
  qed (use 4(3) in \<open>auto simp: oc_revoked_def\<close>)
next
  case (5 s k now c)
  then show ?case
    using oc_live_row [of hash s now c k] unique_col_eq [of oc_client_id s]
    unfolding oc_wf_def oc_revoked_def by force
qed

lemma ak_find_issued:
  assumes "ak_issue hash rows nid raw name scopes tid expires_at rotates = Inr ((rec, plain), rows')"
    and "case expires_at of None \<Rightarrow> True | Some e \<Rightarrow> now \<le> e"
  shows "fst (ak_find_active hash rows' now plain) = Some (rec\<lparr>akr_last_used_at := Some now\<rparr>)"
proof -
  obtain row where row: "rows' = rows @ [row]" "rec = ak_to_record row" "ak_key_hash row = hash plain"
    "ak_status row = ''active''" "ak_expires_at row = expires_at"
    "\<forall>r \<in> set rows. ak_key_hash r \<noteq> hash plain"
    using ak_issue_Inr [OF assms(1)] by blast
  have "tbl_get ak_key_hash rows (hash plain) = None" using row(6) by (auto simp: tbl_get_None)
  then have "tbl_get ak_key_hash rows' (hash plain) = Some row"
    using row(1,3) by (simp add: tbl_get_append)
  then show ?thesis
    using row assms(2)
    by (auto simp: ak_find_active_def row_usable_def ak_to_record_def Let_def split: option.splits)
qed

section \<open>Properties\<close>

text \<open>A tenant-bound caller stays in its tenant. Whatever kind of principal carries them, scopes
  that are all of the form \<^verbatim>\<open>tenant:<id>\<close> never open the admin surface without a tenant, open a
  surface for a given tenant exactly when they name it, pass the bare runtime check exactly when there
  is one, and bind a request to exactly the tenants they name; an admin scope opens everything and a
  runtime scope the runtime surface and every tenant.\<close>

theorem tenant_scopes_confined:
  assumes "principal_scopes p = map tenant_scope ts"
  shows "\<not> principal_allows p ''admin'' None \<and>
     (principal_allows p surface (Some t) \<longleftrightarrow> t \<in> set ts) \<and>
     (principal_allows p ''runtime'' None \<longleftrightarrow> ts \<noteq> []) \<and>
     (principal_tenant_matches p t \<longleftrightarrow> t \<in> set ts) \<and>
     (SCOPE_ADMIN \<in> set (principal_scopes q) \<longrightarrow>
        principal_allows q surface anyt \<and> principal_tenant_matches q t) \<and>
     (SCOPE_RUNTIME \<in> set (principal_scopes q) \<longrightarrow>
        principal_allows q ''runtime'' anyt \<and> principal_tenant_matches q t)"
proof -
  have "starts_with ''tenant:'' (tenant_scope x)" for x by (simp add: tenant_scope_def starts_with_def)
  then show ?thesis
    using assms
    by (auto simp: principal_allows_def principal_tenant_matches_def scope_allows_def
        tenant_scope_matches_def list_ex_iff Let_def)
qed

theorem tenant_scopes_confined_witness:
  "\<not> principal_allows (Session \<lparr>sp_subject = ''s'', sp_email = None,
       sp_scopes = [''tenant:acme''], sp_session_id = ''1'', sp_csrf_token = ''c'', sp_issuer = None\<rparr>)
       ''runtime'' (Some ''other'') \<and>
   principal_allows (Session \<lparr>sp_subject = ''s'', sp_email = None,
       sp_scopes = [''tenant:acme''], sp_session_id = ''1'', sp_csrf_token = ''c'', sp_issuer = None\<rparr>)
       ''runtime'' (Some ''acme'')"
proof -
  let ?p = "Session \<lparr>sp_subject = ''s'', sp_email = None, sp_scopes = [''tenant:acme''],
    sp_session_id = ''1'', sp_csrf_token = ''c'', sp_issuer = None\<rparr>"
  have "principal_scopes ?p = map tenant_scope [''acme'']" by (simp add: tenant_scope_def)
  from tenant_scopes_confined [OF this, of "''runtime''" "''other''"]
    tenant_scopes_confined [OF this, of "''runtime''" "''acme''"]
  show ?thesis by simp
qed

text \<open>Scopes survive storage. For scopes that hold no comma and no surrounding white space, parsing
  the stored string gives back exactly the non-empty scopes, sorted and without duplicates, so that
  the surface and tenant checks decide the same before and after.\<close>

theorem scopes_roundtrip:
  assumes "\<forall>s \<in> set scopes. CHR '','' \<notin> set s \<and> strip s = s"
  shows "parse_scopes (serialize_scopes scopes) =
           sorted_list_of_set (set (filter (\<lambda>s. s \<noteq> []) scopes)) \<and>
         scope_allows (parse_scopes (serialize_scopes scopes)) surface tid =
           scope_allows scopes surface tid \<and>
         tenant_scope_matches (parse_scopes (serialize_scopes scopes)) t =
           tenant_scope_matches scopes t"
proof -
  have p: "parse_scopes (serialize_scopes scopes) =
      sorted_list_of_set (set (filter (\<lambda>s. s \<noteq> []) scopes))"
    by (rule parse_serialize_scopes) (use assms in \<open>auto simp: scope_clean_def\<close>)
  have s: "set (parse_scopes (serialize_scopes scopes)) = set scopes - {[]}" unfolding p by auto
  have n: "SCOPE_ADMIN \<noteq> []" "SCOPE_RUNTIME \<noteq> []" "tenant_scope x \<noteq> []"
    "\<not> starts_with ''tenant:'' []" for x
    by (auto simp: SCOPE_ADMIN_def SCOPE_RUNTIME_def tenant_scope_def starts_with_def)
  have a: "scope_allows (parse_scopes (serialize_scopes scopes)) surface tid =
      scope_allows scopes surface tid"
    unfolding scope_allows_def Let_def list_ex_iff s using n by (auto split: option.splits)
  have m: "tenant_scope_matches (parse_scopes (serialize_scopes scopes)) t =
      tenant_scope_matches scopes t"
    unfolding tenant_scope_matches_def s using n by auto
  show ?thesis using p a m by simp
qed

theorem scopes_roundtrip_witness:
  "parse_scopes (serialize_scopes [''runtime'', ''admin'', ''runtime'']) = [''admin'', ''runtime'']"
proof -
  have "\<forall>s \<in> set [''runtime'', ''admin'', ''runtime'']. CHR '','' \<notin> set s \<and> strip s = s"
    by (simp add: strip_def is_space_def)
  moreover have "set (filter (\<lambda>s. s \<noteq> []) [''runtime'', ''admin'', ''runtime'']) =
      set [''admin'', ''runtime'']" by auto
  moreover have "sorted_list_of_set (set [''admin'', ''runtime'']) = [''admin'', ''runtime'']"
    by (rule sorted_list_of_set.idem_if_sorted_distinct) simp_all
  ultimately show ?thesis using scopes_roundtrip [of "[''runtime'', ''admin'', ''runtime'']"] by metis
qed



text \<open>Rotating a key copies its scopes and tenant but not its expiry. The new key has the parsed
  scopes of the old row, its tenant, a link to it, the active status and no expiry, also when the old
  key had one or is revoked; the old row stays as it was.\<close>

theorem rotate_drops_expiry:
  assumes "ak_wf rows" and "old \<in> set rows"
    and "ak_rotate hash rows nid raw (ak_id old) name = Inr ((rec, plain), rows')"
    and "\<forall>s \<in> set (parse_scopes (ak_scopes old)). CHR '','' \<notin> set s \<and> strip s = s"
  shows "set (akr_scopes rec) = set (parse_scopes (ak_scopes old)) - {[]} \<and>
     akr_tenant_id rec = ak_tenant_id old \<and> akr_rotates rec = Some (ak_id old) \<and>
     akr_status rec = ''active'' \<and> akr_expires_at rec = None \<and>
     old \<in> set rows' \<and> (\<forall>now. fst (ak_find_active hash rows' now plain) \<noteq> None)"
proof -
  have g: "tbl_get ak_id rows (ak_id old) = Some old"
    using assms(1,2) tbl_get_unique by (auto simp: ak_wf_def)
  obtain n where i: "ak_issue hash rows nid raw n (parse_scopes (ak_scopes old)) (ak_tenant_id old)
      None (Some (ak_id old)) = Inr ((rec, plain), rows')"
    using assms(3) g by (auto simp: ak_rotate_def)
  have "parse_scopes (serialize_scopes (parse_scopes (ak_scopes old))) =
      sorted_list_of_set (set (filter (\<lambda>s. s \<noteq> []) (parse_scopes (ak_scopes old))))"
    by (rule parse_serialize_scopes) (use assms(4) in \<open>auto simp: scope_clean_def\<close>)
  then show ?thesis
    using ak_issue_Inr [OF i] ak_find_issued [OF i] assms(2)
    by (auto simp: ak_to_record_def)
qed

theorem rotate_drops_expiry_witness:
  "\<exists>rec plain rows'.
    ak_rotate (\<lambda>x. x)
      [\<lparr>ak_id = ''k0'', ak_name = ''ci'', ak_key_hash = ''h'', ak_key_prefix = ''azk_'',
        ak_scopes = ''runtime'', ak_tenant_id = None, ak_status = ''active'',
        ak_expires_at = Some 10, ak_last_used_at = None, ak_rotates = None\<rparr>]
      ''k1'' ''r'' ''k0'' None = Inr ((rec, plain), rows') \<and> akr_expires_at rec = None"
proof -
  let ?old = "\<lparr>ak_id = ''k0'', ak_name = ''ci'', ak_key_hash = ''h'', ak_key_prefix = ''azk_'',
        ak_scopes = ''runtime'', ak_tenant_id = None, ak_status = ''active'',
        ak_expires_at = Some 10, ak_last_used_at = None, ak_rotates = None\<rparr>"
  obtain rec plain rows' where
    r: "ak_rotate (\<lambda>x. x) [?old] ''k1'' ''r'' (ak_id ?old) None = Inr ((rec, plain), rows')"
    by (simp add: ak_rotate_def ak_issue_def generate_api_key_def tbl_get_def tbl_insert_def
        ak_clash_def Let_def)
  have w: "ak_wf [?old]" by (simp add: ak_wf_def unique_col_def)
  have p: "\<forall>s \<in> set (parse_scopes (ak_scopes ?old)). CHR '','' \<notin> set s \<and> strip s = s"
    by (simp add: parse_scopes_def strip_def is_space_def)
  from rotate_drops_expiry [OF w _ r p] show ?thesis using r by auto
qed

text \<open>An OAuth client authenticates only with its current secret. A successful authentication is
  for an active, unexpired client of that id whose stored hash is the hash of the secret; after a
  rotation the new secret is the one the service returned, and an old secret with another hash is
  refused; a revoked client is refused for good, rotations included.\<close>

theorem oauth_client_secrets:
  assumes "oc_wf rows"
  shows "(fst (oc_authenticate hash rows now cid secret) = Some rec \<longrightarrow>
       (\<exists>r \<in> set rows. oc_client_id r = cid \<and> oc_secret_hash r = hash secret \<and>
          oc_status r = ''active'' \<and> (\<forall>e. oc_expires_at r = Some e \<longrightarrow> now \<le> e) \<and>
          ocr_scopes rec = parse_scopes (oc_scopes r) \<and> ocr_tenant_id rec = oc_tenant_id r)) \<and>
     (oc_rotate_secret hash rows raw cid = (Some (rec', new), rows') \<longrightarrow>
       (hash old \<noteq> hash new \<longrightarrow> fst (oc_authenticate hash rows' now cid old) = None) \<and>
       (\<forall>r \<in> set rows. oc_client_id r = cid \<longrightarrow> oc_status r = ''active'' \<longrightarrow> oc_expires_at r = None \<longrightarrow>
          fst (oc_authenticate hash rows' now cid new) \<noteq> None)) \<and>
     ((\<exists>r \<in> set rows. oc_client_id r = cid) \<longrightarrow> (oc_step hash)\<^sup>*\<^sup>* (snd (oc_revoke rows cid)) rows'' \<longrightarrow>
       fst (oc_authenticate hash rows'' now cid any) = None)"
proof (intro conjI impI)
  assume "fst (oc_authenticate hash rows now cid secret) = Some rec"
  then show "\<exists>r \<in> set rows. oc_client_id r = cid \<and> oc_secret_hash r = hash secret \<and>
      oc_status r = ''active'' \<and> (\<forall>e. oc_expires_at r = Some e \<longrightarrow> now \<le> e) \<and>
      ocr_scopes rec = parse_scopes (oc_scopes r) \<and> ocr_tenant_id rec = oc_tenant_id r"
    by (auto simp: oc_authenticate_def row_usable_def oc_to_record_def Let_def
        split: option.splits if_splits dest!: tbl_get_Some)
next
  assume r: "oc_rotate_secret hash rows raw cid = (Some (rec', new), rows')"
  then obtain row where row: "tbl_get oc_client_id rows cid = Some row"
    by (auto simp: oc_rotate_secret_def split: option.splits)
  then have g: "tbl_get oc_client_id rows' cid = Some (row\<lparr>oc_secret_hash := hash new\<rparr>)"
    using r by (auto simp: oc_rotate_secret_def Let_def tbl_get_update)
  show "fst (oc_authenticate hash rows' now cid old) = None" if "hash old \<noteq> hash new"
    using g that by (simp add: oc_authenticate_def)
  show "\<forall>r \<in> set rows. oc_client_id r = cid \<longrightarrow> oc_status r = ''active'' \<longrightarrow> oc_expires_at r = None \<longrightarrow>
      fst (oc_authenticate hash rows' now cid new) \<noteq> None"
  proof (intro ballI impI)
    fix q
    assume q: "q \<in> set rows" "oc_client_id q = cid" "oc_status q = ''active''" "oc_expires_at q = None"
    then have "tbl_get oc_client_id rows cid = Some q"
      using assms tbl_get_unique [of oc_client_id rows q] by (simp add: oc_wf_def)
    then show "fst (oc_authenticate hash rows' now cid new) \<noteq> None"
      using g row q by (simp add: oc_authenticate_def row_usable_def)
  qed
next
  assume k: "\<exists>r \<in> set rows. oc_client_id r = cid"
    and s: "(oc_step hash)\<^sup>*\<^sup>* (snd (oc_revoke rows cid)) rows''"
  have n: "\<not> oc_live hash rows'' now (cid, any) cid"
    by (rule oauth_clients.revoked_forever [OF assms k s])
  have "ocr_client_id r = cid" if "fst (oc_authenticate hash rows'' now cid any) = Some r" for r
    using that by (auto simp: oc_authenticate_def oc_to_record_def Let_def
        split: option.splits if_splits dest!: tbl_get_Some)
  then show "fst (oc_authenticate hash rows'' now cid any) = None"
    using n by (cases "fst (oc_authenticate hash rows'' now cid any)") (auto simp: oc_live_def)
qed

theorem oauth_client_secrets_witness:
  "fst (oc_authenticate (\<lambda>x. x)
     (snd (oc_revoke
       [\<lparr>oc_id = ''1'', oc_client_id = ''c'', oc_secret_hash = ''s'', oc_name = ''n'',
         oc_scopes = ''runtime'', oc_tenant_id = None, oc_status = ''active'', oc_expires_at = None,
         oc_last_used_at = None, oc_created_at = None\<rparr>] ''c'')) 7 ''c'' ''s'') = None"
proof -
  let ?rows = "[\<lparr>oc_id = ''1'', oc_client_id = ''c'', oc_secret_hash = ''s'', oc_name = ''n'',
         oc_scopes = ''runtime'', oc_tenant_id = None, oc_status = ''active'', oc_expires_at = None,
         oc_last_used_at = None, oc_created_at = None\<rparr>]"
  have "oc_wf ?rows" by (simp add: oc_wf_def unique_col_def)
  from oauth_client_secrets [OF this, of "\<lambda>x. x" 7 "''c''" _ _ _ _ _ _ _ "snd (oc_revoke ?rows ''c'')" "''s''"]
  show ?thesis by simp
qed

end
