(* ===== verification/OAuth_Resource.thy ===== *)
theory OAuth_Resource
  imports Delegations Api_Keys
begin

text \<open>
  \<^verbatim>\<open>authzkit/security/oauth_resource.py\<close>: the resolver that turns a bearer token into a principal. Tokens
  of the service's own issuer are verified against the local signing keys, all others by the JWT
  validator. The claims \<^verbatim>\<open>sub\<close>, \<^verbatim>\<open>client_id\<close> and \<^verbatim>\<open>azp\<close> are taken at the type the principal declares
  (text, by \<^verbatim>\<open>str\<close> for any other value).
\<close>

section \<open>Configuration\<close>

record issuer_config =
  ic_issuer :: string
  ic_audience :: "string list"
  ic_jwks_url :: "string option"
  ic_algorithms :: "string list"
  ic_leeway_seconds :: int
  ic_scope_claim :: string
  ic_scope_separator :: "char option"
  ic_scope_map :: "(string, string) dict"
  ic_tenant_claim :: "string option"
  ic_tenant_prefix :: string

record jwt_resolver =
  jr_configs :: "(string, issuer_config) dict"
  jr_self_issuer :: "string option"
  jr_self_keys :: "signing_service option"
  jr_validator :: jwt_validator

definition custom_config :: "issuer_config \<Rightarrow> bool" where
  "custom_config c \<longleftrightarrow>
     ic_scope_claim c \<noteq> ''scope'' \<or> ic_tenant_claim c \<noteq> Some ''tenant_id'' \<or> ic_scope_map c \<noteq> []"

definition validator_config :: "issuer_config \<Rightarrow> jwt_validator_config" where
  "validator_config c =
     \<lparr>jc_issuer = ic_issuer c, jc_audience = Some (ic_audience c), jc_jwks_url = ic_jwks_url c,
      jc_algorithms = ic_algorithms c, jc_leeway_seconds = ic_leeway_seconds c\<rparr>"

definition jwt_resolver_init ::
  "issuer_config list \<Rightarrow> int \<Rightarrow> string option \<Rightarrow> signing_service option \<Rightarrow>
     (authz_error, jwt_resolver) result" where
  "jwt_resolver_init issuers ttl self_issuer keys =
     (if self_issuer \<noteq> None \<and>
         list_ex (\<lambda>c. Some (ic_issuer c) = self_issuer \<and> custom_config c) issuers
      then Inl ValueError
      else Inr \<lparr>jr_configs = fold (\<lambda>c d. dict_set (ic_issuer c) c d) issuers [],
             jr_self_issuer = self_issuer, jr_self_keys = keys,
             jr_validator = jwt_validator_init
               (map validator_config (filter (\<lambda>c. Some (ic_issuer c) \<noteq> self_issuer) issuers)) ttl\<rparr>)"

section \<open>Scopes and tenant\<close>

definition tenant_scope_char :: "char \<Rightarrow> bool" where
  "tenant_scope_char c \<longleftrightarrow>
     (let n = of_char c :: nat in
      65 \<le> n \<and> n \<le> 90 \<or> 97 \<le> n \<and> n \<le> 122 \<or> 48 \<le> n \<and> n \<le> 57 \<or> c \<in> {CHR ''_'', CHR ''-'', CHR '':''})"

text \<open>The regular expression \<^verbatim>\<open>^tenant:[A-Za-z0-9_\-:]+$\<close> with \<^verbatim>\<open>re.match\<close>, where \<^verbatim>\<open>$\<close> also matches before a
  trailing newline.\<close>

definition is_tenant_scope :: "string \<Rightarrow> bool" where
  "is_tenant_scope s \<longleftrightarrow>
     starts_with ''tenant:'' s \<and>
     (let rest = drop (length ''tenant:'') s;
          body = (if rest \<noteq> [] \<and> last rest = char_of (10 :: nat) then butlast rest else rest) in
      body \<noteq> [] \<and> list_all tenant_scope_char body)"

definition internal_scope :: "string \<Rightarrow> bool" where
  "internal_scope s \<longleftrightarrow> s \<in> {SCOPE_ADMIN, SCOPE_RUNTIME} \<or> is_tenant_scope s"

definition scope_tokens :: "(pyval \<Rightarrow> string) \<Rightarrow> issuer_config \<Rightarrow> pyval \<Rightarrow> string list" where
  "scope_tokens repr config raw =
     (case raw of
        PStr s \<Rightarrow> (case ic_scope_separator config of None \<Rightarrow> [s] | Some c \<Rightarrow> split_on c s)
      | PList xs \<Rightarrow> map (py_str repr) xs
      | _ \<Rightarrow> [py_str repr raw])"

text \<open>The loop of \<^verbatim>\<open>_map_scopes\<close>, with the scopes mapped so far (also the set \<^verbatim>\<open>seen\<close>).\<close>

fun map_tokens :: "issuer_config \<Rightarrow> string list \<Rightarrow> string list \<Rightarrow> string list" where
  "map_tokens config [] mapped = mapped"
| "map_tokens config (t # ts) mapped =
     (let token = strip t in
      if token = [] then map_tokens config ts mapped
      else (let v = dict_get_default (ic_scope_map config) token token in
        if v \<in> set mapped then map_tokens config ts mapped
        else if internal_scope v then map_tokens config ts (mapped @ [v])
        else map_tokens config ts mapped))"

definition map_scopes :: "(pyval \<Rightarrow> string) \<Rightarrow> pydict \<Rightarrow> issuer_config \<Rightarrow> string list" where
  "map_scopes repr claims config =
     (let raw = py_get claims (ic_scope_claim config) in
      if raw = PNone then [] else map_tokens config (scope_tokens repr config raw) [])"

text \<open>A Python bool is an int, so its text is accepted too.\<close>

definition extract_tenant :: "(pyval \<Rightarrow> string) \<Rightarrow> pydict \<Rightarrow> issuer_config \<Rightarrow> string option" where
  "extract_tenant repr claims config =
     (case ic_tenant_claim config of
        None \<Rightarrow> None
      | Some c \<Rightarrow>
          (case py_get claims c of
             PStr s \<Rightarrow> Some (ic_tenant_prefix config @ s)
           | PInt i \<Rightarrow> Some (ic_tenant_prefix config @ py_str repr (PInt i))
           | PBool b \<Rightarrow> Some (ic_tenant_prefix config @ py_str repr (PBool b))
           | _ \<Rightarrow> None))"

section \<open>Resolution\<close>

definition reject_delegation_token :: "('tok, 'key) jwt_lib \<Rightarrow> 'tok \<Rightarrow> (jwt_error, unit) result" where
  "reject_delegation_token lib token =
     (case jl_header lib token of
        None \<Rightarrow> Inl JWTValidationError
      | Some h \<Rightarrow> if py_get h ''typ'' = PStr DELEGATION_TOKEN_TYPE then Inl JWTValidationError else Inr ())"

definition peek_issuer :: "(pyval \<Rightarrow> string) \<Rightarrow> ('tok, 'key) jwt_lib \<Rightarrow> 'tok \<Rightarrow> (jwt_error, string option) result" where
  "peek_issuer repr lib token =
     (case jl_peek lib token of
        None \<Rightarrow> Inl JWTValidationError
      | Some payload \<Rightarrow>
          (let iss = py_get payload ''iss'' in
           Inr (if py_truthy iss then Some (py_str repr iss) else None)))"

definition validate_self_issued ::
  "('tok, 'key) jwt_lib \<Rightarrow> (string \<Rightarrow> string) \<Rightarrow> rsa_public \<Rightarrow> instant \<Rightarrow> jwt_resolver \<Rightarrow> 'tok \<Rightarrow>
     issuer_config \<Rightarrow> (jwt_error, pydict) result" where
  "validate_self_issued lib hash rsa now jr token config =
     (case jr_self_keys jr of
        None \<Rightarrow> Inl JWTValidationError
      | Some keys \<Rightarrow>
          (case jl_header lib token of
             None \<Rightarrow> Inl JWTValidationError
           | Some h \<Rightarrow>
               (case all_public_jwks hash rsa keys of
                  Inl _ \<Rightarrow> Inl KeyProviderError
                | Inr jwks \<Rightarrow>
                    (case List.find (\<lambda>k. py_eq (py_get k ''kid'') (py_get h ''kid'')) jwks of
                       None \<Rightarrow> Inl JWTValidationError
                     | Some jwk \<Rightarrow>
                         (case jl_key lib jwk of
                            None \<Rightarrow> Inl PyJWTError
                          | Some pk \<Rightarrow>
                              (case jl_decode lib pk (ic_algorithms config)
                                      (if ic_audience config = [] then None else Some (ic_audience config))
                                      (ic_issuer config) (ic_leeway_seconds config) now token of
                                 Decoded claims \<Rightarrow> Inr claims
                               | _ \<Rightarrow> Inl JWTValidationError))))))"

text \<open>The projection of verified claims onto a principal.\<close>

definition token_to_principal ::
  "(pyval \<Rightarrow> string) \<Rightarrow> issuer_config \<Rightarrow> pydict \<Rightarrow> token_principal" where
  "token_to_principal repr config claims =
     (let scopes = map_scopes repr claims config;
          tid = extract_tenant repr claims config;
          scopes' = (case tid of Some t \<Rightarrow> if scopes = [] then [tenant_scope t] else scopes | None \<Rightarrow> scopes);
          client = py_or (py_get claims ''client_id'') (py_get claims ''azp'');
          subj = py_get claims ''sub'' in
      \<lparr>tp_issuer = ic_issuer config, tp_subject = (if py_truthy subj then py_str repr subj else ''''),
       tp_client_id = (if client = PNone then None else Some (py_str repr client)),
       tp_scopes = scopes', tp_tenant_id = tid, tp_claims = claims\<rparr>)"

definition resolve_token ::
  "(pyval \<Rightarrow> string) \<Rightarrow> ('tok, 'key) jwt_lib \<Rightarrow> 'net http_get \<Rightarrow> (string \<Rightarrow> string) \<Rightarrow> rsa_public \<Rightarrow> instant \<Rightarrow>
     jwt_resolver \<Rightarrow> 'net \<Rightarrow> 'tok \<Rightarrow> (jwt_error, token_principal) result \<times> jwt_resolver \<times> 'net" where
  "resolve_token repr lib http_get hash rsa now jr net token =
     (case res_bind (reject_delegation_token lib token) (\<lambda>_. peek_issuer repr lib token) of
        Inl e \<Rightarrow> (Inl e, jr, net)
      | Inr issuer \<Rightarrow>
          (case dict_get (jr_configs jr) (case issuer of None \<Rightarrow> '''' | Some i \<Rightarrow> i) of
             None \<Rightarrow> (Inl JWTValidationError, jr, net)
           | Some config \<Rightarrow>
               if jr_self_issuer jr \<noteq> None \<and> issuer = jr_self_issuer jr then
                 (res_bind (validate_self_issued lib hash rsa now jr token config)
                    (\<lambda>claims. Inr (token_to_principal repr config claims)), jr, net)
               else
                 (let (r, v, net') = validate lib http_get now (jr_validator jr) net token
                        (Some (ic_issuer config)) in
                  (res_bind r (\<lambda>claims. Inr (token_to_principal repr config claims)),
                   jr\<lparr>jr_validator := v\<rparr>, net'))))"

section \<open>Lemmas\<close>

lemma map_tokens_internal:
  "\<lbrakk>\<forall>s \<in> set mapped. internal_scope s; distinct mapped\<rbrakk> \<Longrightarrow>
     (\<forall>s \<in> set (map_tokens config ts mapped). internal_scope s) \<and> distinct (map_tokens config ts mapped)"
proof (induction ts arbitrary: mapped)
  case (Cons t ts)
  let ?v = "dict_get_default (ic_scope_map config) (strip t) (strip t)"
  show ?case
  proof (cases "strip t \<noteq> [] \<and> ?v \<notin> set mapped \<and> internal_scope ?v")
    case True
    then have "map_tokens config (t # ts) mapped = map_tokens config ts (mapped @ [?v])"
      by (simp add: Let_def)
    then show ?thesis using Cons.IH [of "mapped @ [?v]"] Cons.prems True by simp
  next
    case False
    then have "map_tokens config (t # ts) mapped = map_tokens config ts mapped"
      by (auto simp: Let_def)
    then show ?thesis using Cons.IH [OF Cons.prems] by simp
  qed
qed simp

lemma map_tokens_sources:
  "s \<in> set (map_tokens config ts mapped) \<Longrightarrow>
     s \<in> set mapped \<or> (\<exists>t \<in> set ts. s = dict_get_default (ic_scope_map config) (strip t) (strip t))"
proof (induction ts arbitrary: mapped)
  case (Cons t ts)
  let ?v = "dict_get_default (ic_scope_map config) (strip t) (strip t)"
  have "map_tokens config (t # ts) mapped = map_tokens config ts mapped \<or>
      map_tokens config (t # ts) mapped = map_tokens config ts (mapped @ [?v])"
    by (simp add: Let_def)
  then show ?case
    using Cons.IH [of mapped] Cons.IH [of "mapped @ [?v]"] Cons.prems by auto
qed simp

lemma resolve_token_Inr:
  assumes "resolve_token repr lib http_get hash rsa now jr net token = (Inr p, jr', net')"
  shows "\<exists>h config claims i. jl_header lib token = Some h \<and>
     py_get h ''typ'' \<noteq> PStr DELEGATION_TOKEN_TYPE \<and> dict_get (jr_configs jr) i = Some config \<and>
     p = token_to_principal repr config claims"
  using assms
  by (auto simp: resolve_token_def reject_delegation_token_def res_bind_eq_Inr Let_def
      split: sum.splits option.splits if_splits prod.splits)

lemma scopes_token_to_principal:
  "tp_scopes (token_to_principal repr config claims) =
     (case extract_tenant repr claims config of
        Some t \<Rightarrow> if map_scopes repr claims config = [] then [tenant_scope t] else map_scopes repr claims config
      | None \<Rightarrow> map_scopes repr claims config)"
  by (simp add: token_to_principal_def Let_def)

lemma map_scopes_internal: "s \<in> set (map_scopes repr claims config) \<Longrightarrow> internal_scope s"
  using map_tokens_internal [of "[]" config] by (auto simp: map_scopes_def Let_def split: if_splits)

section \<open>Properties\<close>

text \<open>A delegation token never authenticates a caller. Any token that the delegation service accepts
  is refused by the bearer-token resolver (of any configuration, in any state), and any token the
  resolver accepts is refused by the delegation service: the two kinds of token, though signed with the
  same keys, are never confused.\<close>

theorem delegation_tokens_not_bearer:
  "(delegation_verify repr lib hash rsa now svc token = Inr g \<longrightarrow>
      resolve_token repr' lib http_get hash' rsa' now' jr net token = (Inl JWTValidationError, jr, net)) \<and>
   (fst (resolve_token repr' lib http_get hash' rsa' now' jr net token) = Inr p \<longrightarrow>
      delegation_verify repr lib hash rsa now svc token = Inl (DelegationError REASON_INVALID))"
proof (intro conjI impI)
  assume "delegation_verify repr lib hash rsa now svc token = Inr g"
  then obtain h where "jl_header lib token = Some h" "py_get h ''typ'' = PStr DELEGATION_TOKEN_TYPE"
    using delegation_verify_Inr [of repr lib hash rsa now svc token g] by blast
  then show "resolve_token repr' lib http_get hash' rsa' now' jr net token = (Inl JWTValidationError, jr, net)"
    by (simp add: resolve_token_def reject_delegation_token_def)
next
  assume "fst (resolve_token repr' lib http_get hash' rsa' now' jr net token) = Inr p"
  then obtain jr' net' where "resolve_token repr' lib http_get hash' rsa' now' jr net token = (Inr p, jr', net')"
    by (metis fst_conv surj_pair)
  from resolve_token_Inr [OF this] show "delegation_verify repr lib hash rsa now svc token =
      Inl (DelegationError REASON_INVALID)"
    by (auto simp: delegation_verify_def)
qed

theorem delegation_tokens_not_bearer_witness:
  "\<exists>g token svc'. sample_issue = Inr ((g, token), svc') \<and>
     (\<forall>jr. fst (resolve_token (\<lambda>_. []) plain_lib (\<lambda>net _. (None, net)) (\<lambda>x. x) (\<lambda>_. Inl PemError) 6 jr ()
        token) = Inl JWTValidationError)"
proof -
  obtain g token svc' where i: "sample_issue = Inr ((g, token), svc')" using sample_issue_ok by blast
  have "delegation_verify (\<lambda>_. []) plain_lib (\<lambda>x. x) (\<lambda>_. Inl PemError) 6 svc' token = Inr g"
    by (rule sample_issue_verifies [OF i]) simp
  then have "fst (resolve_token (\<lambda>_. []) plain_lib (\<lambda>net _. (None, net)) (\<lambda>x. x) (\<lambda>_. Inl PemError) 6 jr ()
        token) = Inl JWTValidationError" for jr
    using delegation_tokens_not_bearer [of "\<lambda>_. []" plain_lib "\<lambda>x. x" "\<lambda>_. Inl PemError" 6 svc' token g
        "\<lambda>_. []" "\<lambda>net _. (None, net)" "\<lambda>x. x" "\<lambda>_. Inl PemError" 6 jr "()"] by simp
  then show ?thesis using i by blast
qed

text \<open>External scopes map onto the internal vocabulary only. The scopes of a resolved token are
  distinct internal scopes (admin, runtime or a tenant scope), each the image of a token of the scope
  claim under the configured map, or the single tenant scope of the tenant claim when none is left; so
  a token gets the admin surface without a tenant only if some token of its scope claim maps to admin.\<close>

theorem token_scopes_internal:
  assumes "resolve_token repr lib http_get hash rsa now jr net token = (Inr p, jr', net')"
  shows "\<exists>config claims i. dict_get (jr_configs jr) i = Some config \<and>
     (tp_scopes p = map_scopes repr claims config \<or>
      (\<exists>t. map_scopes repr claims config = [] \<and> tp_tenant_id p = Some t \<and> tp_scopes p = [tenant_scope t])) \<and>
     distinct (tp_scopes p) \<and>
     (\<forall>s \<in> set (map_scopes repr claims config). internal_scope s \<and>
        (\<exists>t \<in> set (scope_tokens repr config (py_get claims (ic_scope_claim config))).
           s = dict_get_default (ic_scope_map config) (strip t) (strip t))) \<and>
     (principal_allows (Token p) ''admin'' None \<longrightarrow>
        (\<exists>t \<in> set (scope_tokens repr config (py_get claims (ic_scope_claim config))).
           dict_get_default (ic_scope_map config) (strip t) (strip t) = SCOPE_ADMIN))"
proof -
  obtain config claims i where c: "dict_get (jr_configs jr) i = Some config"
    and p: "p = token_to_principal repr config claims"
    using resolve_token_Inr [OF assms] by blast
  let ?m = "map_scopes repr claims config"
  have d: "distinct ?m" using map_tokens_internal [of "[]" config] by (simp add: map_scopes_def Let_def)
  have s: "internal_scope s \<and> (\<exists>t \<in> set (scope_tokens repr config (py_get claims (ic_scope_claim config))).
      s = dict_get_default (ic_scope_map config) (strip t) (strip t))" if "s \<in> set ?m" for s
  proof -
    have "s \<in> set (map_tokens config (scope_tokens repr config (py_get claims (ic_scope_claim config))) [])"
      using that by (simp add: map_scopes_def Let_def split: if_splits)
    from map_tokens_sources [OF this] map_scopes_internal [OF that] show ?thesis by simp
  qed
  have t: "tp_scopes p = ?m \<or> (\<exists>t. ?m = [] \<and> tp_tenant_id p = Some t \<and> tp_scopes p = [tenant_scope t])"
    unfolding p scopes_token_to_principal by (auto simp: token_to_principal_def Let_def split: option.splits)
  have "SCOPE_ADMIN \<in> set (tp_scopes p)" if "principal_allows (Token p) ''admin'' None"
    using that by (simp add: principal_allows_def scope_allows_def Let_def split: if_splits)
  then have "SCOPE_ADMIN \<in> set ?m" if "principal_allows (Token p) ''admin'' None"
    using that t by auto
  then have a: "principal_allows (Token p) ''admin'' None \<longrightarrow>
      (\<exists>t \<in> set (scope_tokens repr config (py_get claims (ic_scope_claim config))).
         dict_get_default (ic_scope_map config) (strip t) (strip t) = SCOPE_ADMIN)"
    using s by metis
  have "distinct (tp_scopes p)" using t d by auto
  then show ?thesis using c t s a by blast
qed

definition sample_issuer :: issuer_config where
  "sample_issuer = \<lparr>ic_issuer = ''iss'', ic_audience = [''api''], ic_jwks_url = None,
     ic_algorithms = [''RS256''], ic_leeway_seconds = 30, ic_scope_claim = ''scope'',
     ic_scope_separator = Some (CHR '' ''), ic_scope_map = [(''AuthZ.Admin'', ''admin'')],
     ic_tenant_claim = Some ''tid'', ic_tenant_prefix = []\<rparr>"

definition sample_resolver :: jwt_resolver where
  "sample_resolver = \<lparr>jr_configs = [(''iss'', sample_issuer)], jr_self_issuer = None,
     jr_self_keys = None, jr_validator = (jwt_validator_init [validator_config sample_issuer] 600)\<lparr>jv_cache :=
       [(''iss'', ([(''keys'', PList [PDict [(''kid'', PStr ''k'')]])], 100))]\<rparr>\<rparr>"

definition sample_token :: plain_token where
  "sample_token = ([(''iss'', PStr ''iss''), (''scope'', PStr ''AuthZ.Admin other''), (''sub'', PStr ''u'')],
     ''p'', ''RS256'', [(''kid'', PStr ''k''), (''typ'', PStr ''JWT'')])"

lemma sample_token_resolves:
  "\<exists>p jr' net'. resolve_token (\<lambda>_. []) plain_lib (\<lambda>net _. (None, net)) (\<lambda>x. x) (\<lambda>_. Inl PemError) 5
     sample_resolver () sample_token = (Inr p, jr', net')"
  by (simp add: resolve_token_def reject_delegation_token_def peek_issuer_def sample_resolver_def
      sample_token_def plain_lib_def py_get_def sample_issuer_def validate_def config_for_def
      py_or_def jwt_validator_init_def validator_config_def signing_key_for_def get_jwks_def
      jwks_key_def verify_with_def DELEGATION_TOKEN_TYPE_def)

theorem token_scopes_internal_witness:
  "\<exists>p jr' net'. resolve_token (\<lambda>_. []) plain_lib (\<lambda>net _. (None, net)) (\<lambda>x. x) (\<lambda>_. Inl PemError) 5
     sample_resolver () sample_token = (Inr p, jr', net') \<and> distinct (tp_scopes p)"
proof -
  obtain p jr' net' where
    r: "resolve_token (\<lambda>_. []) plain_lib (\<lambda>net _. (None, net)) (\<lambda>x. x) (\<lambda>_. Inl PemError) 5
     sample_resolver () sample_token = (Inr p, jr', net')"
    using sample_token_resolves by blast
  from token_scopes_internal [OF r] r show ?thesis by blast
qed

end
