(* ===== verification/Sessions.thy ===== *)
theory Sessions
  imports Api_Keys
begin

text \<open>
  \<^verbatim>\<open>authzkit/security/sessions.py\<close>: the pending logins of the OIDC flow and the admin browser sessions.
  The lifetimes \<^verbatim>\<open>session_ttl_seconds\<close> and \<^verbatim>\<open>login_attempt_ttl_seconds\<close> and the random tokens are
  arguments. A request reads the clock once in the model.
\<close>

section \<open>State\<close>

record login_attempt =
  la_id :: string
  la_state :: string
  la_code_verifier :: string
  la_nonce :: string
  la_return_to :: string
  la_expires_at :: instant

record admin_session =
  as_id :: string
  as_subject :: string
  as_email :: "string option"
  as_issuer :: string
  as_scopes :: "string list"
  as_raw_claims :: pydict
  as_csrf_token :: string
  as_created_at :: instant
  as_expires_at :: instant
  as_last_seen_at :: "instant option"

text \<open>The row of \<^verbatim>\<open>admin_sessions\<close> holds the scopes as one string.\<close>

record admin_session_row =
  asr_id :: string
  asr_subject :: string
  asr_email :: "string option"
  asr_issuer :: string
  asr_scopes :: string
  asr_raw_claims :: pydict
  asr_csrf_token :: string
  asr_created_at :: instant
  asr_expires_at :: instant
  asr_last_seen_at :: "instant option"

record session_tables =
  sn_attempts :: "login_attempt list"
  sn_sessions :: "admin_session_row list"

section \<open>Login attempts\<close>

definition la_clash :: "login_attempt \<Rightarrow> login_attempt \<Rightarrow> bool" where
  "la_clash new r \<longleftrightarrow> la_id r = la_id new \<or> la_state r = la_state new"

definition create_login_attempt ::
  "session_tables \<Rightarrow> int \<Rightarrow> instant \<Rightarrow> string \<Rightarrow> string \<Rightarrow> string \<Rightarrow> string \<Rightarrow> string \<Rightarrow>
     (authz_error, login_attempt \<times> session_tables) result" where
  "create_login_attempt s ttl now cookie_id state code_verifier nonce return_to =
     (let row = \<lparr>la_id = cookie_id, la_state = state, la_code_verifier = code_verifier,
                 la_nonce = nonce, la_return_to = return_to, la_expires_at = now + ttl\<rparr> in
      res_bind (tbl_insert la_clash row (sn_attempts s))
        (\<lambda>rows. Inr (row, s\<lparr>sn_attempts := rows\<rparr>)))"

definition consume_login_attempt ::
  "session_tables \<Rightarrow> instant \<Rightarrow> string \<Rightarrow> string \<Rightarrow> login_attempt option \<times> session_tables" where
  "consume_login_attempt s now cookie_id state =
     (case tbl_get la_id (sn_attempts s) cookie_id of
        None \<Rightarrow> (None, s)
      | Some row \<Rightarrow>
          (let s' = s\<lparr>sn_attempts := tbl_delete la_id cookie_id (sn_attempts s)\<rparr> in
           if la_state row \<noteq> state then (None, s')
           else if la_expires_at row < now then (None, s')
           else (Some row, s')))"

section \<open>Sessions\<close>

definition create_session ::
  "session_tables \<Rightarrow> int \<Rightarrow> instant \<Rightarrow> string \<Rightarrow> string \<Rightarrow> string \<Rightarrow> string option \<Rightarrow> string \<Rightarrow>
     string list \<Rightarrow> pydict \<Rightarrow> (authz_error, admin_session \<times> session_tables) result" where
  "create_session s ttl now sid csrf subj email issuer scopes raw_claims =
     (let row = \<lparr>asr_id = sid, asr_subject = subj, asr_email = email, asr_issuer = issuer,
                 asr_scopes = join_on CHR '','' scopes, asr_raw_claims = raw_claims,
                 asr_csrf_token = csrf, asr_created_at = now, asr_expires_at = now + ttl,
                 asr_last_seen_at = None\<rparr> in
      res_bind (tbl_insert (\<lambda>new r. asr_id r = asr_id new) row (sn_sessions s))
        (\<lambda>rows. Inr (\<lparr>as_id = sid, as_subject = subj, as_email = email, as_issuer = issuer,
            as_scopes = scopes, as_raw_claims = raw_claims, as_csrf_token = csrf,
            as_created_at = now, as_expires_at = now + ttl, as_last_seen_at = None\<rparr>,
          s\<lparr>sn_sessions := rows\<rparr>)))"

definition lookup_session ::
  "session_tables \<Rightarrow> instant \<Rightarrow> string \<Rightarrow> admin_session option \<times> session_tables" where
  "lookup_session s now sid =
     (case tbl_get asr_id (sn_sessions s) sid of
        None \<Rightarrow> (None, s)
      | Some row \<Rightarrow>
          if asr_expires_at row < now
          then (None, s\<lparr>sn_sessions := tbl_delete asr_id sid (sn_sessions s)\<rparr>)
          else (Some \<lparr>as_id = asr_id row, as_subject = asr_subject row, as_email = asr_email row,
                  as_issuer = asr_issuer row, as_scopes = parse_scopes (asr_scopes row),
                  as_raw_claims = asr_raw_claims row, as_csrf_token = asr_csrf_token row,
                  as_created_at = asr_created_at row, as_expires_at = asr_expires_at row,
                  as_last_seen_at = Some now\<rparr>,
                s\<lparr>sn_sessions :=
                    tbl_update asr_id sid (\<lambda>r. r\<lparr>asr_last_seen_at := Some now\<rparr>) (sn_sessions s)\<rparr>))"

definition delete_session :: "session_tables \<Rightarrow> string \<Rightarrow> bool \<times> session_tables" where
  "delete_session s sid =
     (case tbl_get asr_id (sn_sessions s) sid of
        None \<Rightarrow> (False, s)
      | Some _ \<Rightarrow> (True, s\<lparr>sn_sessions := tbl_delete asr_id sid (sn_sessions s)\<rparr>))"

definition session_to_principal :: "admin_session \<Rightarrow> session_principal" where
  "session_to_principal a =
     \<lparr>sp_subject = as_subject a, sp_email = as_email a, sp_scopes = as_scopes a,
      sp_session_id = as_id a, sp_csrf_token = as_csrf_token a, sp_issuer = Some (as_issuer a)\<rparr>"

definition prune_expired :: "session_tables \<Rightarrow> instant \<Rightarrow> nat \<times> session_tables" where
  "prune_expired s now =
     (let dead_sessions = filter (\<lambda>r. asr_expires_at r < now) (sn_sessions s);
          dead_attempts = filter (\<lambda>r. la_expires_at r < now) (sn_attempts s) in
      (length dead_sessions + length dead_attempts,
       s\<lparr>sn_sessions := filter (\<lambda>r. \<not> asr_expires_at r < now) (sn_sessions s),
         sn_attempts := filter (\<lambda>r. \<not> la_expires_at r < now) (sn_attempts s)\<rparr>))"

section \<open>Lemmas\<close>

definition sn_wf :: "session_tables \<Rightarrow> bool" where
  "sn_wf s \<longleftrightarrow> unique_col la_id (sn_attempts s) \<and> unique_col asr_id (sn_sessions s)"

inductive sn_step :: "session_tables \<Rightarrow> session_tables \<Rightarrow> bool" where
  attempt: "create_login_attempt s ttl now cid st cv n rt = Inr (a, s') \<Longrightarrow> sn_step s s'"
| consume: "sn_step s (snd (consume_login_attempt s now cid st))"
| create: "create_session s ttl now sid csrf subj email iss scopes claims = Inr (a, s') \<Longrightarrow> sn_step s s'"
| lookup: "sn_step s (snd (lookup_session s now sid))"
| delete: "sn_step s (snd (delete_session s sid))"
| prune: "sn_step s (snd (prune_expired s now))"

lemma sn_step_wf: "\<lbrakk>sn_step s s'; sn_wf s\<rbrakk> \<Longrightarrow> sn_wf s'"
  by (induction rule: sn_step.induct)
    (auto simp: create_login_attempt_def consume_login_attempt_def create_session_def
      lookup_session_def delete_session_def prune_expired_def sn_wf_def res_bind_eq_Inr
      tbl_insert_Inr la_clash_def unique_col_append tbl_delete_def Let_def
      split: option.splits if_splits)

lemma tbl_get_filter:
  assumes "unique_col key rows"
  shows "tbl_get key (filter P rows) k =
     (case tbl_get key rows k of None \<Rightarrow> None | Some r \<Rightarrow> if P r then Some r else None)"
  using assms
proof (induction rows)
  case (Cons a rows)
  then have u: "unique_col key rows" and n: "key a \<notin> key ` set rows"
    by (auto simp: unique_col_def)
  show ?case
  proof (cases "key a = k")
    case True
    then have "tbl_get key (filter P rows) k = None" using n by (auto simp: tbl_get_None)
    then show ?thesis using True by (simp add: tbl_get_def)
  next
    case False
    then show ?thesis using Cons.IH [OF u] by (simp add: tbl_get_def)
  qed
qed (simp add: tbl_get_def)

lemma lookup_after_prune:
  assumes "sn_wf s" "t \<le> now"
  shows "fst (lookup_session (snd (prune_expired s t)) now sid) = fst (lookup_session s now sid)"
proof -
  have u: "unique_col asr_id (sn_sessions s)" using assms(1) by (simp add: sn_wf_def)
  show ?thesis
    using assms(2)
    by (auto simp: lookup_session_def prune_expired_def Let_def tbl_get_filter [OF u]
        split: option.splits)
qed

lemma consume_after_prune:
  assumes "sn_wf s" "t \<le> now"
  shows "fst (consume_login_attempt (snd (prune_expired s t)) now cid st) =
     fst (consume_login_attempt s now cid st)"
proof -
  have u: "unique_col la_id (sn_attempts s)" using assms(1) by (simp add: sn_wf_def)
  show ?thesis
    using assms(2)
    by (auto simp: consume_login_attempt_def prune_expired_def Let_def tbl_get_filter [OF u]
        split: option.splits)
qed

section \<open>Properties\<close>

text \<open>A pending login is used at most once. A consumed attempt had exactly the presented state and
  was not expired; after any consumption of a cookie, successful or not (a wrong state and an
  expired attempt included), the same cookie is refused whatever state it comes with, until a new
  attempt is created under it.\<close>

theorem login_attempt_single_use:
  "(fst (consume_login_attempt s now cid st) = Some a \<longrightarrow>
      la_id a = cid \<and> la_state a = st \<and> now \<le> la_expires_at a \<and> a \<in> set (sn_attempts s)) \<and>
   fst (consume_login_attempt (snd (consume_login_attempt s now cid st)) now' cid st') = None \<and>
   (other \<noteq> cid \<longrightarrow>
      fst (consume_login_attempt (snd (consume_login_attempt s now cid st)) now' other st') =
      fst (consume_login_attempt s now' other st'))"
  by (auto simp: consume_login_attempt_def tbl_get_delete Let_def split: option.splits if_splits
      dest: tbl_get_Some)

theorem login_attempt_single_use_witness:
  "\<exists>a. fst (consume_login_attempt
       \<lparr>sn_attempts = [\<lparr>la_id = ''c'', la_state = ''s'', la_code_verifier = ''v'', la_nonce = ''n'',
          la_return_to = ''/'', la_expires_at = 9\<rparr>], sn_sessions = []\<rparr> 5 ''c'' ''s'') = Some a \<and>
     la_state a = ''s''"
proof -
  let ?s = "\<lparr>sn_attempts = [\<lparr>la_id = ''c'', la_state = ''s'', la_code_verifier = ''v'', la_nonce = ''n'',
          la_return_to = ''/'', la_expires_at = 9\<rparr>], sn_sessions = []\<rparr>"
  obtain a where "fst (consume_login_attempt ?s 5 ''c'' ''s'') = Some a"
    by (simp add: consume_login_attempt_def tbl_get_def)
  then show ?thesis using login_attempt_single_use [of ?s 5 "''c''" "''s''" a] by auto
qed

text \<open>A session lives exactly its time. A created session is found with its subject, claims, CSRF
  token and scopes up to its expiry and not after; sweeping the expired rows at any moment up to a
  lookup changes no answer, of a session or of a pending login; and a deleted session is not found.\<close>

theorem session_lifetime:
  assumes "sn_wf s"
    and "create_session s ttl now sid csrf subj email iss scopes claims = Inr (a, s')"
    and "\<forall>x \<in> set scopes. CHR '','' \<notin> set x \<and> strip x = x \<and> x \<noteq> []"
  shows "fst (lookup_session s' later sid) =
       (if later \<le> now + ttl then Some (a\<lparr>as_last_seen_at := Some later\<rparr>) else None) \<and>
     (t \<le> later \<longrightarrow>
       fst (lookup_session (snd (prune_expired s' t)) later any) = fst (lookup_session s' later any) \<and>
       fst (consume_login_attempt (snd (prune_expired s' t)) later cid st) =
         fst (consume_login_attempt s' later cid st)) \<and>
     fst (lookup_session (snd (delete_session s' any)) later any) = None"
proof -
  have wf: "sn_wf s'" by (rule sn_step_wf [OF sn_step.create [OF assms(2)] assms(1)])
  have sc: "parse_scopes (join_on CHR '','' scopes) = scopes"
  proof (cases "scopes = []")
    case True
    then show ?thesis by (simp add: parse_scopes_def)
  next
    case False
    have "split_on CHR '','' (join_on CHR '','' scopes) = scopes"
      by (rule split_join_on [OF False]) (use assms(3) in blast)
    moreover have "map strip scopes = scopes" using assms(3) by (blast intro: map_idI)
    moreover have "filter (\<lambda>x. x \<noteq> []) scopes = scopes" using assms(3) by (simp add: filter_id_conv)
    ultimately show ?thesis unfolding parse_scopes_def by simp
  qed
  have n: "tbl_get asr_id (sn_sessions s) sid = None"
    using assms(2) by (auto simp: create_session_def res_bind_eq_Inr tbl_insert_Inr tbl_get_None Let_def)
  have "fst (lookup_session s' later sid) =
       (if later \<le> now + ttl then Some (a\<lparr>as_last_seen_at := Some later\<rparr>) else None)"
    using assms(2) n
    by (auto simp: create_session_def lookup_session_def res_bind_eq_Inr tbl_insert_Inr
        tbl_get_append sc Let_def)
  moreover have "fst (lookup_session (snd (delete_session s' any)) later any) = None"
    by (simp add: lookup_session_def delete_session_def tbl_get_delete split: option.split)
  ultimately show ?thesis
    using lookup_after_prune [OF wf] consume_after_prune [OF wf] by simp
qed

theorem session_lifetime_witness:
  "\<exists>a s'. create_session \<lparr>sn_attempts = [], sn_sessions = []\<rparr> 100 5 ''sid'' ''csrf'' ''u'' None ''iss''
      [''admin''] [] = Inr (a, s') \<and>
    fst (lookup_session s' 105 ''sid'') = Some (a\<lparr>as_last_seen_at := Some 105\<rparr>) \<and>
    fst (lookup_session s' 106 ''sid'') = None"
proof -
  let ?s = "\<lparr>sn_attempts = [], sn_sessions = []\<rparr>"
  have w: "sn_wf ?s" by (simp add: sn_wf_def)
  obtain a s' where c: "create_session ?s 100 5 ''sid'' ''csrf'' ''u'' None ''iss'' [''admin''] [] = Inr (a, s')"
    by (simp add: create_session_def tbl_insert_def Let_def)
  have p: "\<forall>x \<in> set [''admin'']. CHR '','' \<notin> set x \<and> strip x = x \<and> x \<noteq> []"
    by (simp add: strip_def is_space_def)
  show ?thesis
    using session_lifetime [OF w c p, of 105] session_lifetime [OF w c p, of 106] c by auto
qed

end
