(* ===== verification/Invitations.thy ===== *)
theory Invitations
  imports Tables "HOL-Library.Multiset"
begin

text \<open>
  \<^verbatim>\<open>authzkit/security/invitations.py\<close>: invitation tokens and the race-free claim that turns one into a
  membership. \<^verbatim>\<open>accept\<close> runs in two transactions (claim the row, then create the membership and, if
  that fails, put the row back), so the model has the two halves and their composition, and a step
  relation in which any number of acceptors interleave with each other and with a revocation. The
  digest and the store's \<^verbatim>\<open>create_membership\<close> are arguments, as the code takes the store.
\<close>

section \<open>State\<close>

definition INVITATION_STATUS_PENDING :: string where
  "INVITATION_STATUS_PENDING = ''pending''"

definition INVITATION_STATUS_ACCEPTED :: string where
  "INVITATION_STATUS_ACCEPTED = ''accepted''"

definition INVITATION_STATUS_EXPIRED :: string where
  "INVITATION_STATUS_EXPIRED = ''expired''"

definition INVITATION_STATUS_REVOKED :: string where
  "INVITATION_STATUS_REVOKED = ''revoked''"

lemmas invitation_status_defs =
  INVITATION_STATUS_PENDING_def INVITATION_STATUS_ACCEPTED_def INVITATION_STATUS_EXPIRED_def
  INVITATION_STATUS_REVOKED_def

record invitation_row =
  inv_id :: ident
  inv_tenant_id :: ident
  inv_application_id :: "ident option"
  inv_email :: string
  inv_token_hash :: string
  inv_roles :: string
  inv_status :: string
  inv_invited_by :: "ident option"
  inv_expires_at :: instant
  inv_accepted_at :: "instant option"
  inv_accepted_by :: "ident option"
  inv_created_at :: instant

record invitation_record =
  ivr_id :: ident
  ivr_tenant_id :: ident
  ivr_application_id :: "ident option"
  ivr_email :: string
  ivr_roles :: "string list"
  ivr_status :: string
  ivr_expires_at :: instant
  ivr_invited_by :: "ident option"
  ivr_accepted_at :: "instant option"
  ivr_accepted_by :: "ident option"

datatype invitation_error =
    InvitationError string
  | MembershipFailed authz_error

section \<open>Operations\<close>

text \<open>\<^verbatim>\<open>str.lower\<close> on ASCII letters.\<close>

definition lower_char :: "char \<Rightarrow> char" where
  "lower_char c = (let n = of_char c :: nat in if 65 \<le> n \<and> n \<le> 90 then char_of (n + 32) else c)"

definition split_roles :: "string \<Rightarrow> string list" where
  "split_roles v = filter (\<lambda>r. r \<noteq> []) (split_on CHR '','' v)"

definition inv_to_record :: "invitation_row \<Rightarrow> invitation_record" where
  "inv_to_record row =
     \<lparr>ivr_id = inv_id row, ivr_tenant_id = inv_tenant_id row,
      ivr_application_id = inv_application_id row, ivr_email = inv_email row,
      ivr_roles = split_roles (inv_roles row), ivr_status = inv_status row,
      ivr_expires_at = inv_expires_at row, ivr_invited_by = inv_invited_by row,
      ivr_accepted_at = inv_accepted_at row, ivr_accepted_by = inv_accepted_by row\<rparr>"

definition invitation_create ::
  "(string \<Rightarrow> string) \<Rightarrow> invitation_row list \<Rightarrow> instant \<Rightarrow> ident \<Rightarrow> string \<Rightarrow> ident \<Rightarrow> ident option \<Rightarrow>
     string \<Rightarrow> string list \<Rightarrow> ident option \<Rightarrow> int \<Rightarrow>
     (authz_error, (invitation_record \<times> string) \<times> invitation_row list) result" where
  "invitation_create hash rows now nid plaintext tid aid email roles invited_by ttl =
     (let row = \<lparr>inv_id = nid, inv_tenant_id = tid, inv_application_id = aid,
                 inv_email = strip (map lower_char email), inv_token_hash = hash plaintext,
                 inv_roles = join_on CHR '',''
                   (sorted_list_of_set (set (filter (\<lambda>r. r \<noteq> []) (map strip roles)))),
                 inv_status = INVITATION_STATUS_PENDING, inv_invited_by = invited_by,
                 inv_expires_at = now + ttl, inv_accepted_at = None, inv_accepted_by = None,
                 inv_created_at = now\<rparr> in
      res_bind
        (tbl_insert (\<lambda>new r. inv_id r = inv_id new \<or> inv_token_hash r = inv_token_hash new) row rows)
        (\<lambda>rows'. Inr ((inv_to_record row, plaintext), rows')))"

text \<open>The first transaction of \<^verbatim>\<open>accept\<close>: find the row, check it, and mark it accepted with an update
  that only hits a pending row.\<close>

definition invitation_claim ::
  "(string \<Rightarrow> string) \<Rightarrow> invitation_row list \<Rightarrow> instant \<Rightarrow> string \<Rightarrow> ident \<Rightarrow>
     (invitation_error + invitation_row) \<times> invitation_row list" where
  "invitation_claim hash rows now plaintext uid =
     (case tbl_get inv_token_hash rows (hash plaintext) of
        None \<Rightarrow> (Inl (InvitationError ''invalid_token''), rows)
      | Some row \<Rightarrow>
          if inv_status row \<noteq> INVITATION_STATUS_PENDING
          then (Inl (InvitationError ''invitation_not_pending''), rows)
          else if inv_expires_at row < now
          then (Inl (InvitationError ''invitation_expired''),
                tbl_update inv_id (inv_id row)
                  (\<lambda>r. r\<lparr>inv_status := INVITATION_STATUS_EXPIRED\<rparr>) rows)
          else (let hit = filter (\<lambda>r. inv_id r = inv_id row \<and> inv_status r = INVITATION_STATUS_PENDING) rows
            in if length hit \<noteq> 1 then (Inl (InvitationError ''invitation_not_pending''), rows)
               else (Inr row,
                     map (\<lambda>r. if inv_id r = inv_id row \<and> inv_status r = INVITATION_STATUS_PENDING
                          then r\<lparr>inv_status := INVITATION_STATUS_ACCEPTED,
                                 inv_accepted_at := Some now, inv_accepted_by := Some uid\<rparr>
                          else r) rows)))"

text \<open>The update that puts a claimed row back when the membership could not be created.\<close>

definition invitation_revert :: "invitation_row list \<Rightarrow> ident \<Rightarrow> invitation_row list" where
  "invitation_revert rows iid =
     tbl_update inv_id iid
       (\<lambda>r. r\<lparr>inv_status := INVITATION_STATUS_PENDING, inv_accepted_at := None,
              inv_accepted_by := None\<rparr>) rows"

definition invitation_accept ::
  "(string \<Rightarrow> string) \<Rightarrow>
   ('m \<Rightarrow> ident \<Rightarrow> ident option \<Rightarrow> ident \<Rightarrow> string set option \<Rightarrow> (authz_error, 'm) result) \<Rightarrow>
   invitation_row list \<Rightarrow> 'm \<Rightarrow> instant \<Rightarrow> string \<Rightarrow> ident \<Rightarrow>
     (invitation_error + invitation_record) \<times> invitation_row list \<times> 'm" where
  "invitation_accept hash create rows ms now plaintext uid =
     (case invitation_claim hash rows now plaintext uid of
        (Inl e, rows') \<Rightarrow> (Inl e, rows', ms)
      | (Inr row, rows') \<Rightarrow>
          (let roles = split_roles (inv_roles row) in
           case create ms (inv_tenant_id row) (inv_application_id row) uid
                  (if set roles = {} then None else Some (set roles)) of
             Inl e \<Rightarrow> (Inl (MembershipFailed e), invitation_revert rows' (inv_id row), ms)
           | Inr ms' \<Rightarrow>
               (Inr \<lparr>ivr_id = inv_id row, ivr_tenant_id = inv_tenant_id row,
                     ivr_application_id = inv_application_id row, ivr_email = inv_email row,
                     ivr_roles = roles, ivr_status = INVITATION_STATUS_ACCEPTED,
                     ivr_expires_at = inv_expires_at row, ivr_invited_by = inv_invited_by row,
                     ivr_accepted_at = Some now, ivr_accepted_by = Some uid\<rparr>, rows', ms')))"

definition invitation_list_for_tenant :: "invitation_row list \<Rightarrow> ident \<Rightarrow> invitation_record list" where
  "invitation_list_for_tenant rows tid =
     map inv_to_record
       (sort_key (\<lambda>r. - inv_created_at r) (filter (\<lambda>r. inv_tenant_id r = tid) rows))"

definition invitation_revoke :: "invitation_row list \<Rightarrow> ident \<Rightarrow> bool \<times> invitation_row list" where
  "invitation_revoke rows iid =
     (case tbl_get inv_id rows iid of
        None \<Rightarrow> (False, rows)
      | Some _ \<Rightarrow>
          (True, tbl_update inv_id iid (\<lambda>r. r\<lparr>inv_status := INVITATION_STATUS_REVOKED\<rparr>) rows))"

section \<open>Interleaved acceptors\<close>

text \<open>The table, the claims whose second transaction has not run yet, and the memberships created so
  far, each by the invitation it came from.\<close>

record inv_system =
  sys_rows :: "invitation_row list"
  sys_claimed :: "ident multiset"
  sys_granted :: "ident multiset"

inductive inv_step :: "(string \<Rightarrow> string) \<Rightarrow> inv_system \<Rightarrow> inv_system \<Rightarrow> bool" for hash where
  create: "invitation_create hash (sys_rows s) now nid plain tid aid email roles inviter ttl = Inr (res, rows') \<Longrightarrow>
     inv_step hash s (s\<lparr>sys_rows := rows'\<rparr>)"
| claim: "invitation_claim hash (sys_rows s) now plain uid = (Inr row, rows') \<Longrightarrow>
     inv_step hash s (s\<lparr>sys_rows := rows', sys_claimed := add_mset (inv_id row) (sys_claimed s)\<rparr>)"
| refuse: "invitation_claim hash (sys_rows s) now plain uid = (Inl e, rows') \<Longrightarrow>
     inv_step hash s (s\<lparr>sys_rows := rows'\<rparr>)"
| grant: "i \<in># sys_claimed s \<Longrightarrow>
     inv_step hash s (s\<lparr>sys_claimed := sys_claimed s - {#i#}, sys_granted := add_mset i (sys_granted s)\<rparr>)"
| revert: "i \<in># sys_claimed s \<Longrightarrow>
     inv_step hash s (s\<lparr>sys_rows := invitation_revert (sys_rows s) i, sys_claimed := sys_claimed s - {#i#}\<rparr>)"
| lost: "i \<in># sys_claimed s \<Longrightarrow> inv_step hash s (s\<lparr>sys_claimed := sys_claimed s - {#i#}\<rparr>)"
| revoke: "inv_step hash s (s\<lparr>sys_rows := snd (invitation_revoke (sys_rows s) i)\<rparr>)"

definition inv_start :: inv_system where
  "inv_start = \<lparr>sys_rows = [], sys_claimed = {#}, sys_granted = {#}\<rparr>"

text \<open>Every invitation has at most one claim or membership, and a pending one has none; rows have
  distinct ids and token hashes, and only rows have claims or memberships.\<close>

definition uses :: "inv_system \<Rightarrow> ident \<Rightarrow> nat" where
  "uses s i = count (sys_claimed s) i + count (sys_granted s) i"

definition inv_sys_ok :: "inv_system \<Rightarrow> bool" where
  "inv_sys_ok s \<longleftrightarrow>
     unique_col inv_id (sys_rows s) \<and> unique_col inv_token_hash (sys_rows s) \<and>
     (\<forall>i. uses s i \<le> 1) \<and>
     (\<forall>i. 0 < uses s i \<longrightarrow> i \<in> inv_id ` set (sys_rows s)) \<and>
     (\<forall>r \<in> set (sys_rows s). inv_status r = INVITATION_STATUS_PENDING \<longrightarrow> uses s (inv_id r) = 0)"

section \<open>Lemmas\<close>

lemma invitation_create_Inr:
  "invitation_create hash rows now nid plain tid aid email roles inviter ttl = Inr (res, rows') \<Longrightarrow>
   \<exists>row. rows' = rows @ [row] \<and>
     (\<forall>r \<in> set rows. inv_id r \<noteq> inv_id row \<and> inv_token_hash r \<noteq> inv_token_hash row)"
  by (auto simp: invitation_create_def Let_def res_bind_eq_Inr tbl_insert_Inr)

lemma invitation_claim_Inr:
  assumes "invitation_claim hash rows now plain uid = (Inr row, rows')"
  shows "row \<in> set rows" "inv_status row = INVITATION_STATUS_PENDING" "now \<le> inv_expires_at row"
    "inv_token_hash row = hash plain"
    "rows' = map (\<lambda>r. if inv_id r = inv_id row \<and> inv_status r = INVITATION_STATUS_PENDING
       then r\<lparr>inv_status := INVITATION_STATUS_ACCEPTED, inv_accepted_at := Some now,
              inv_accepted_by := Some uid\<rparr> else r) rows"
  using assms
  by (auto simp: invitation_claim_def Let_def split: option.splits if_splits dest: tbl_get_Some)

lemma invitation_claim_Inl:
  assumes "invitation_claim hash rows now plain uid = (Inl e, rows')"
  shows "rows' = rows \<or>
     (\<exists>i. rows' = tbl_update inv_id i (\<lambda>r. r\<lparr>inv_status := INVITATION_STATUS_EXPIRED\<rparr>) rows)"
  using assms by (auto simp: invitation_claim_def Let_def split: option.splits if_splits)

lemma unique_col_map:
  "\<lbrakk>unique_col key rows; \<And>r. key (f r) = key r\<rbrakk> \<Longrightarrow> unique_col key (map f rows)"
  by (simp add: unique_col_def comp_def)

text \<open>An update of the table that keeps the keys and makes no row pending keeps the invariant.\<close>

lemma inv_sys_ok_map:
  assumes "inv_sys_ok s" and "\<And>r. inv_id (f r) = inv_id r \<and> inv_token_hash (f r) = inv_token_hash r \<and>
      (inv_status (f r) = INVITATION_STATUS_PENDING \<longrightarrow> inv_status r = INVITATION_STATUS_PENDING)"
  shows "inv_sys_ok (s\<lparr>sys_rows := map f (sys_rows s)\<rparr>)"
  using assms
  by (auto simp: inv_sys_ok_def uses_def image_iff intro!: unique_col_map)

lemma inv_sys_ok_uses:
  assumes "inv_sys_ok s" and "sys_rows s' = sys_rows s" and "\<And>j. uses s' j \<le> uses s j"
  shows "inv_sys_ok s'"
  unfolding inv_sys_ok_def assms(2)
proof (intro conjI allI ballI impI)
  fix i
  show "uses s' i \<le> 1" using assms(1,3) le_trans unfolding inv_sys_ok_def by blast
next
  fix i
  assume "0 < uses s' i"
  then have "0 < uses s i" using assms(3) [of i] by linarith
  then show "i \<in> inv_id ` set (sys_rows s)" using assms(1) by (simp add: inv_sys_ok_def)
next
  fix r
  assume "r \<in> set (sys_rows s)" "inv_status r = INVITATION_STATUS_PENDING"
  then show "uses s' (inv_id r) = 0"
    using assms(1) assms(3) [of "inv_id r"] by (simp add: inv_sys_ok_def)
qed (use assms(1) in \<open>auto simp: inv_sys_ok_def\<close>)

text \<open>A claim and a put-back change the use of one invitation together with its row.\<close>

lemma inv_sys_ok_claim:
  assumes "inv_sys_ok (s\<lparr>sys_rows := rows\<rparr>)" "uses s i = 0" "i \<in> inv_id ` set rows"
    and "\<And>r. r \<in> set rows \<Longrightarrow> inv_status r = INVITATION_STATUS_PENDING \<Longrightarrow> inv_id r \<noteq> i"
  shows "inv_sys_ok (s\<lparr>sys_rows := rows, sys_claimed := add_mset i (sys_claimed s)\<rparr>)"
proof -
  have "uses (s\<lparr>sys_rows := rows, sys_claimed := add_mset i (sys_claimed s)\<rparr>) j =
      (if j = i then 1 else uses s j)" "uses (s\<lparr>sys_rows := rows\<rparr>) j = uses s j" for j
    using assms(2) by (simp_all add: uses_def)
  then show ?thesis using assms by (auto simp: inv_sys_ok_def)
qed

lemma inv_sys_ok_revert:
  assumes "inv_sys_ok s" "i \<in># sys_claimed s"
  shows "inv_sys_ok (s\<lparr>sys_rows := invitation_revert (sys_rows s) i, sys_claimed := sys_claimed s - {#i#}\<rparr>)"
proof -
  let ?s = "s\<lparr>sys_rows := invitation_revert (sys_rows s) i, sys_claimed := sys_claimed s - {#i#}\<rparr>"
  have c: "0 < count (sys_claimed s) i" "uses s i \<le> 1" using assms by (auto simp: inv_sys_ok_def)
  have i: "uses ?s j = (if j = i then 0 else uses s j)" for j
    using c unfolding uses_def by (cases "j = i") (simp_all del: count_greater_zero_iff)
  have "unique_col inv_id (sys_rows ?s)" "unique_col inv_token_hash (sys_rows ?s)"
    using assms(1) by (auto simp: inv_sys_ok_def invitation_revert_def)
  moreover have "inv_id ` set (sys_rows ?s) = inv_id ` set (sys_rows s)"
    by (simp add: invitation_revert_def keys_tbl_update)
  moreover have "uses ?s (inv_id r) = 0"
    if "r \<in> set (sys_rows ?s)" "inv_status r = INVITATION_STATUS_PENDING" for r
    using that assms(1) unfolding i
    by (auto simp: invitation_revert_def in_tbl_update inv_sys_ok_def split: if_splits)
  ultimately show ?thesis
    using assms(1) unfolding inv_sys_ok_def i by auto
qed

lemma inv_sys_ok_insert:
  assumes "inv_sys_ok s"
    and "\<forall>r \<in> set (sys_rows s). inv_id r \<noteq> inv_id row \<and> inv_token_hash r \<noteq> inv_token_hash row"
  shows "inv_sys_ok (s\<lparr>sys_rows := sys_rows s @ [row]\<rparr>)"
proof -
  have u: "uses (s\<lparr>sys_rows := sys_rows s @ [row]\<rparr>) j = uses s j" for j by (simp add: uses_def)
  have n: "inv_id row \<notin> inv_id ` set (sys_rows s)"
    "inv_token_hash row \<notin> inv_token_hash ` set (sys_rows s)" using assms(2) by auto
  moreover have "uses s (inv_id row) = 0" using assms(1) n(1) unfolding inv_sys_ok_def by blast
  ultimately show ?thesis
    using assms(1) unfolding inv_sys_ok_def u
    by (simp add: unique_col_append)
qed

lemma inv_step_ok: "\<lbrakk>inv_step hash s s'; inv_sys_ok s\<rbrakk> \<Longrightarrow> inv_sys_ok s'"
proof (induction rule: inv_step.induct)
  case (create s now nid plain tid aid email roles inviter ttl res rows')
  obtain row where row: "rows' = sys_rows s @ [row]"
    "\<forall>r \<in> set (sys_rows s). inv_id r \<noteq> inv_id row \<and> inv_token_hash r \<noteq> inv_token_hash row"
    using invitation_create_Inr [OF create.hyps] by blast
  show ?case unfolding row(1) by (rule inv_sys_ok_insert [OF create.prems row(2)])
next
  case (claim s now plain uid row rows')
  let ?f = "\<lambda>r. if inv_id r = inv_id row \<and> inv_status r = INVITATION_STATUS_PENDING
       then r\<lparr>inv_status := INVITATION_STATUS_ACCEPTED, inv_accepted_at := Some now,
              inv_accepted_by := Some uid\<rparr> else r"
  note c = invitation_claim_Inr [OF claim.hyps]
  have ok: "inv_sys_ok (s\<lparr>sys_rows := map ?f (sys_rows s)\<rparr>)"
    by (rule inv_sys_ok_map [OF claim.prems]) (simp add: invitation_status_defs)
  have u: "uses s (inv_id row) = 0"
    using c(1,2) claim.prems by (auto simp: inv_sys_ok_def)
  have i: "inv_id row \<in> inv_id ` set (map ?f (sys_rows s))"
    using c(1) keys_map [of inv_id ?f "sys_rows s"] by simp
  have "inv_id r \<noteq> inv_id row"
    if r: "r \<in> set (map ?f (sys_rows s))" and p: "inv_status r = INVITATION_STATUS_PENDING" for r
  proof -
    obtain q where q: "r = ?f q" using r unfolding set_map by blast
    show ?thesis
    proof (cases "inv_id q = inv_id row \<and> inv_status q = INVITATION_STATUS_PENDING")
      case True
      then show ?thesis using p unfolding q by (simp add: invitation_status_defs)
    next
      case False
      then have "r = q" using q by (simp only: if_False)
      then show ?thesis using p False by blast
    qed
  qed
  from inv_sys_ok_claim [OF ok u i this] show ?case unfolding c(5) .
next
  case (refuse s now plain uid e rows')
  have expire: "inv_sys_ok (s\<lparr>sys_rows :=
      map (\<lambda>r. if inv_id r = i then r\<lparr>inv_status := INVITATION_STATUS_EXPIRED\<rparr> else r) (sys_rows s)\<rparr>)" for i
    by (rule inv_sys_ok_map [OF refuse.prems]) (simp add: invitation_status_defs)
  from invitation_claim_Inl [OF refuse.hyps] show ?case
  proof
    assume "rows' = sys_rows s"
    then show ?case using refuse.prems by simp
  next
    assume "\<exists>i. rows' = tbl_update inv_id i (\<lambda>r. r\<lparr>inv_status := INVITATION_STATUS_EXPIRED\<rparr>) (sys_rows s)"
    then show ?case using expire unfolding tbl_update_def by blast
  qed
next
  case (grant i s)
  let ?s = "s\<lparr>sys_claimed := sys_claimed s - {#i#}, sys_granted := add_mset i (sys_granted s)\<rparr>"
  have "0 < count (sys_claimed s) i" using grant.hyps by simp
  then have "uses ?s j \<le> uses s j" for j
    unfolding uses_def by (cases "j = i") (simp_all del: count_greater_zero_iff)
  then show ?case by (intro inv_sys_ok_uses [OF grant.prems]) simp_all
next
  case (revert i s)
  then show ?case using inv_sys_ok_revert by blast
next
  case (lost i s)
  have "uses (s\<lparr>sys_claimed := sys_claimed s - {#i#}\<rparr>) j \<le> uses s j" for j
    unfolding uses_def by simp
  then show ?case by (intro inv_sys_ok_uses [OF lost.prems]) simp_all
next
  case (revoke s i)
  have "inv_sys_ok (s\<lparr>sys_rows :=
      map (\<lambda>r. if inv_id r = i then r\<lparr>inv_status := INVITATION_STATUS_REVOKED\<rparr> else r) (sys_rows s)\<rparr>)"
    by (rule inv_sys_ok_map [OF revoke]) (simp add: invitation_status_defs)
  then show ?case using revoke by (simp add: invitation_revoke_def tbl_update_def split: option.split)
qed

lemma inv_start_ok: "inv_sys_ok inv_start"
  by (simp add: inv_sys_ok_def inv_start_def uses_def)

lemma inv_steps_ok: "(inv_step hash)\<^sup>*\<^sup>* inv_start s \<Longrightarrow> inv_sys_ok s"
  by (induction rule: rtranclp_induct) (auto intro: inv_start_ok inv_step_ok)

section \<open>Properties\<close>



text \<open>What accepting does, branch by branch. Accepting a token either raises and leaves no new
  membership (an unknown token, a row that is not pending, an expired one, which is then marked
  expired, or a failure of the store, after which the row is pending again), or creates exactly the
  membership of the row's tenant, application and roles for the accepting user, and the same token is
  refused from then on.\<close>

theorem invitation_accept_outcomes:
  assumes "unique_col inv_id rows" and "unique_col inv_token_hash rows"
    and "invitation_accept hash create rows ms now plain uid = (res, rows', ms')"
  shows "(\<forall>e. res = Inl e \<longrightarrow> ms' = ms) \<and>
     (\<forall>rec. res = Inr rec \<longrightarrow>
       (\<exists>r \<in> set rows. inv_token_hash r = hash plain \<and> inv_status r = INVITATION_STATUS_PENDING \<and>
          now \<le> inv_expires_at r \<and> ivr_id rec = inv_id r \<and>
          create ms (inv_tenant_id r) (inv_application_id r) uid
            (if set (split_roles (inv_roles r)) = {} then None else Some (set (split_roles (inv_roles r))))
            = Inr ms') \<and>
       (\<forall>later other. fst (invitation_accept hash create rows' ms' later plain other) =
          Inl (InvitationError ''invitation_not_pending'')))"
proof (intro conjI allI impI)
  fix e
  assume "res = Inl e"
  then show "ms' = ms"
    using assms(3) by (auto simp: invitation_accept_def Let_def split: prod.splits sum.splits)
next
  fix rec
  assume "res = Inr rec"
  then obtain row where c: "invitation_claim hash rows now plain uid = (Inr row, rows')"
    and m: "create ms (inv_tenant_id row) (inv_application_id row) uid
        (if set (split_roles (inv_roles row)) = {} then None else Some (set (split_roles (inv_roles row))))
        = Inr ms'" and i: "ivr_id rec = inv_id row"
    using assms(3) by (auto simp: invitation_accept_def Let_def split: prod.splits sum.splits)
  note cl = invitation_claim_Inr [OF c]
  show "\<exists>r \<in> set rows. inv_token_hash r = hash plain \<and> inv_status r = INVITATION_STATUS_PENDING \<and>
      now \<le> inv_expires_at r \<and> ivr_id rec = inv_id r \<and>
      create ms (inv_tenant_id r) (inv_application_id r) uid
        (if set (split_roles (inv_roles r)) = {} then None else Some (set (split_roles (inv_roles r))))
        = Inr ms'"
    using cl m i by blast
  fix later other
  let ?row = "row\<lparr>inv_status := INVITATION_STATUS_ACCEPTED, inv_accepted_at := Some now,
     inv_accepted_by := Some uid\<rparr>"
  have "?row \<in> set rows'" using cl(1,2) unfolding cl(5) by force
  moreover have "unique_col inv_token_hash rows'"
    unfolding cl(5) using assms(2) by (rule unique_col_map) simp
  ultimately have "tbl_get inv_token_hash rows' (hash plain) = Some ?row"
    using tbl_get_unique [of inv_token_hash rows' ?row] cl(4) by simp
  then show "fst (invitation_accept hash create rows' ms' later plain other) =
      Inl (InvitationError ''invitation_not_pending'')"
    by (simp add: invitation_accept_def invitation_claim_def invitation_status_defs)
qed

theorem invitation_accept_outcomes_witness:
  "fst (invitation_accept (\<lambda>x. x) (\<lambda>ms t a u r. Inr (ms + 1 :: nat))
      (fst (snd (invitation_accept (\<lambda>x. x) (\<lambda>ms t a u r. Inr (ms + 1 :: nat))
        [\<lparr>inv_id = ''i'', inv_tenant_id = ''t'', inv_application_id = None, inv_email = ''e'',
          inv_token_hash = ''tok'', inv_roles = ''reader'', inv_status = ''pending'',
          inv_invited_by = None, inv_expires_at = 9, inv_accepted_at = None, inv_accepted_by = None,
          inv_created_at = 0\<rparr>] 0 3 ''tok'' ''u''))) 1 4 ''tok'' ''v'') =
   Inl (InvitationError ''invitation_not_pending'')"
proof -
  let ?rows = "[\<lparr>inv_id = ''i'', inv_tenant_id = ''t'', inv_application_id = None, inv_email = ''e'',
          inv_token_hash = ''tok'', inv_roles = ''reader'', inv_status = ''pending'',
          inv_invited_by = None, inv_expires_at = 9, inv_accepted_at = None, inv_accepted_by = None,
          inv_created_at = 0\<rparr>]"
  let ?c = "\<lambda>ms t a u r. Inr (ms + 1 :: nat)"
  have u: "unique_col inv_id ?rows" "unique_col inv_token_hash ?rows" by (simp_all add: unique_col_def)
  obtain rec rows' where a: "invitation_accept (\<lambda>x. x) ?c ?rows 0 3 ''tok'' ''u'' = (Inr rec, rows', 1)"
    by (simp add: invitation_accept_def invitation_claim_def tbl_get_def invitation_status_defs Let_def)
  have "fst (invitation_accept (\<lambda>x. x) ?c rows' 1 4 ''tok'' ''v'') =
      Inl (InvitationError ''invitation_not_pending'')"
    using invitation_accept_outcomes [OF u a] by blast
  then show ?thesis unfolding a by simp
qed

text \<open>A revocation can be undone by a failing acceptor. When an invitation is revoked between the two
  transactions of an acceptance and creating the membership then fails, the row is put back to
  pending, so that the token is accepted again before its expiry.\<close>

theorem revocation_lost_by_revert:
  assumes "unique_col inv_id rows" and "unique_col inv_token_hash rows"
    and "invitation_claim hash rows now plain uid = (Inr row, rows')"
    and "later \<le> inv_expires_at row"
  shows "\<exists>row'. fst (invitation_claim hash
       (invitation_revert (snd (invitation_revoke rows' (inv_id row))) (inv_id row)) later plain other) =
     Inr row' \<and> inv_id row' = inv_id row"
proof -
  let ?rows = "invitation_revert (snd (invitation_revoke rows' (inv_id row))) (inv_id row)"
  let ?f = "\<lambda>r. if inv_id r = inv_id row \<and> inv_status r = INVITATION_STATUS_PENDING
       then r\<lparr>inv_status := INVITATION_STATUS_ACCEPTED, inv_accepted_at := Some now,
              inv_accepted_by := Some uid\<rparr> else r"
  note cl = invitation_claim_Inr [OF assms(3)]
  let ?new = "row\<lparr>inv_status := INVITATION_STATUS_PENDING, inv_accepted_at := None,
      inv_accepted_by := None\<rparr>"
  have u': "unique_col inv_id rows'" "unique_col inv_token_hash rows'"
    unfolding cl(5) using assms(1,2) by (auto intro!: unique_col_map)
  have mem: "?f row \<in> set rows'" using cl(1) unfolding cl(5) by force
  then have "inv_id (?f row) \<in> inv_id ` set rows'" by (rule imageI)
  then have "tbl_get inv_id rows' (inv_id row) \<noteq> None" by (simp add: tbl_get_None split: if_splits)
  then have rv: "?rows = tbl_update inv_id (inv_id row)
      (\<lambda>r. r\<lparr>inv_status := INVITATION_STATUS_PENDING, inv_accepted_at := None, inv_accepted_by := None\<rparr>)
      (tbl_update inv_id (inv_id row) (\<lambda>r. r\<lparr>inv_status := INVITATION_STATUS_REVOKED\<rparr>) rows')"
    by (auto simp: invitation_revert_def invitation_revoke_def)
  have new: "?new \<in> set ?rows"
    unfolding rv in_tbl_update
    by (rule bexI [of _ "(?f row)\<lparr>inv_status := INVITATION_STATUS_REVOKED\<rparr>"])
      (use mem cl(2) in \<open>auto simp: in_tbl_update intro!: bexI [of _ "?f row"]\<close>)
  have u: "unique_col inv_id ?rows" "unique_col inv_token_hash ?rows"
    unfolding rv by (intro unique_col_update u'; simp)+
  have "tbl_get inv_token_hash ?rows (hash plain) = Some ?new"
    using tbl_get_unique [OF u(2) new] cl(4) by simp
  moreover have "filter (\<lambda>r. inv_id r = inv_id row \<and> inv_status r = INVITATION_STATUS_PENDING) ?rows = [?new]"
    using unique_col_filter_key [OF u(1) new, of "\<lambda>r. inv_status r = INVITATION_STATUS_PENDING"] by simp
  ultimately show ?thesis using assms(4) by (simp add: invitation_claim_def)
qed

theorem revocation_lost_by_revert_witness:
  "\<exists>row'. fst (invitation_claim (\<lambda>x. x)
       (invitation_revert (snd (invitation_revoke
         (snd (invitation_claim (\<lambda>x. x)
           [\<lparr>inv_id = ''i'', inv_tenant_id = ''t'', inv_application_id = None, inv_email = ''e'',
             inv_token_hash = ''tok'', inv_roles = [], inv_status = INVITATION_STATUS_PENDING,
             inv_invited_by = None, inv_expires_at = 9, inv_accepted_at = None,
             inv_accepted_by = None, inv_created_at = 0\<rparr>] 3 ''tok'' ''u'')) ''i'')) ''i'')
       4 ''tok'' ''v'') = Inr row'"
proof -
  let ?row = "\<lparr>inv_id = ''i'', inv_tenant_id = ''t'', inv_application_id = None, inv_email = ''e'',
             inv_token_hash = ''tok'', inv_roles = [], inv_status = INVITATION_STATUS_PENDING,
             inv_invited_by = None, inv_expires_at = 9, inv_accepted_at = None,
             inv_accepted_by = None, inv_created_at = 0\<rparr>"
  have u: "unique_col inv_id [?row]" "unique_col inv_token_hash [?row]" by (simp_all add: unique_col_def)
  obtain rows' where c: "invitation_claim (\<lambda>x. x) [?row] 3 ''tok'' ''u'' = (Inr ?row, rows')"
    by (simp add: invitation_claim_def tbl_get_def)
  have "\<exists>row'. fst (invitation_claim (\<lambda>x. x)
      (invitation_revert (snd (invitation_revoke rows' (inv_id ?row))) (inv_id ?row)) 4 ''tok'' ''v'') =
      Inr row' \<and> inv_id row' = inv_id ?row"
    by (rule revocation_lost_by_revert [OF u c]) simp
  then show ?thesis unfolding c by auto
qed

end
