(* ===== verification/Settings.thy ===== *)
theory Settings
  imports Invitations
begin

text \<open>
  The configuration of the service: \<^verbatim>\<open>authz_service/config.py\<close> and the start-up checks of
  \<^verbatim>\<open>authz_service/main.py\<close>. The process environment is a dictionary of strings; every field of
  \<^verbatim>\<open>Settings\<close> is read from it with the default of the code, and a number that does not parse is the
  \<^const>\<open>ValueError\<close> of \<^verbatim>\<open>int()\<close>.
\<close>

section \<open>Settings\<close>

record settings =
  cfg_database_url :: string
  cfg_api_keys :: "string list"
  cfg_log_level :: string
  cfg_audit_all_decisions :: bool
  cfg_auto_provision_user :: bool
  cfg_auto_provision_tenant :: bool
  cfg_cors_allow_origins :: "string list"
  cfg_dev_mode :: bool
  cfg_rate_limit_per_minute :: int
  cfg_redis_url :: "string option"
  cfg_audit_retention_days :: int
  cfg_audit_prune_interval_seconds :: int
  cfg_auto_create_schema :: bool
  cfg_oauth_resource_enabled :: string
  cfg_oauth_resource_issuers_json :: string
  cfg_oauth_resource_issuers_file :: "string option"
  cfg_oauth_jwks_cache_ttl_seconds :: int
  cfg_oauth_as_enabled :: bool
  cfg_oauth_issuer :: string
  cfg_oauth_audience :: string
  cfg_oauth_access_token_ttl_seconds :: int
  cfg_oauth_signing_key_pem :: string
  cfg_oauth_signing_key_rotation_days :: int
  cfg_delegation_default_ttl_seconds :: int
  cfg_delegation_max_ttl_seconds :: int
  cfg_delegation_required :: bool
  cfg_admin_oidc_enabled :: string
  cfg_admin_oidc_issuer :: string
  cfg_admin_oidc_client_id :: string
  cfg_admin_oidc_client_secret :: string
  cfg_admin_oidc_redirect_uri :: string
  cfg_admin_oidc_scopes :: string
  cfg_admin_oidc_groups_claim :: string
  cfg_admin_oidc_admin_groups :: "string list"
  cfg_admin_oidc_email_allowlist :: "string list"
  cfg_admin_oidc_session_ttl_seconds :: int

definition lower :: "string \<Rightarrow> string" where
  "lower s = map lower_char s"

definition csv_env :: "(string, string) dict \<Rightarrow> string \<Rightarrow> string \<Rightarrow> string list" where
  "csv_env environ key dflt =
     map strip (filter (\<lambda>item. strip item \<noteq> '''') (split_on CHR '','' (dict_get_default environ key dflt)))"

definition env_flag :: "(string, string) dict \<Rightarrow> string \<Rightarrow> string \<Rightarrow> bool" where
  "env_flag environ key dflt \<longleftrightarrow> lower (dict_get_default environ key dflt) = ''true''"

text \<open>\<^verbatim>\<open>os.environ.get(key) or None\<close>.\<close>

definition env_opt :: "(string, string) dict \<Rightarrow> string \<Rightarrow> string option" where
  "env_opt environ key =
     (case dict_get environ key of None \<Rightarrow> None | Some v \<Rightarrow> if v = '''' then None else Some v)"

text \<open>\<^verbatim>\<open>int(s)\<close>: surrounding white space, one sign, and groups of decimal digits joined by single
  underscores.\<close>

definition is_digit :: "char \<Rightarrow> bool" where
  "is_digit c \<longleftrightarrow> (let n = of_char c :: nat in 48 \<le> n \<and> n \<le> 57)"

definition py_nat :: "string \<Rightarrow> (authz_error, nat) result" where
  "py_nat s =
     (let groups = split_on CHR ''_'' s in
      if list_all (\<lambda>g. g \<noteq> [] \<and> list_all is_digit g) groups then Inr (digits_value 0 (concat groups))
      else Inl ValueError)"

definition py_int :: "string \<Rightarrow> (authz_error, int) result" where
  "py_int s =
     (case strip s of
        [] \<Rightarrow> Inl ValueError
      | c # cs \<Rightarrow>
          if c = CHR ''-'' then res_bind (py_nat cs) (\<lambda>n. Inr (- int n))
          else if c = CHR ''+'' then res_bind (py_nat cs) (\<lambda>n. Inr (int n))
          else res_bind (py_nat (c # cs)) (\<lambda>n. Inr (int n)))"

definition env_int :: "(string, string) dict \<Rightarrow> string \<Rightarrow> string \<Rightarrow> (authz_error, int) result" where
  "env_int environ key dflt = py_int (dict_get_default environ key dflt)"

definition load_settings :: "(string, string) dict \<Rightarrow> (authz_error, settings) result" where
  "load_settings environ =
     res_bind (env_int environ ''AUTHZ_RATE_LIMIT_PER_MINUTE'' ''0'') (\<lambda>rate_limit.
     res_bind (env_int environ ''AUTHZ_AUDIT_RETENTION_DAYS'' ''0'') (\<lambda>retention.
     res_bind (env_int environ ''AUTHZ_AUDIT_PRUNE_INTERVAL_SECONDS'' ''3600'') (\<lambda>prune_interval.
     res_bind (env_int environ ''AUTHZ_OAUTH_JWKS_CACHE_TTL_SECONDS'' ''600'') (\<lambda>jwks_ttl.
     res_bind (env_int environ ''AUTHZ_OAUTH_ACCESS_TOKEN_TTL_SECONDS'' ''3600'') (\<lambda>access_ttl.
     res_bind (env_int environ ''AUTHZ_OAUTH_SIGNING_KEY_ROTATION_DAYS'' ''90'') (\<lambda>rotation.
     res_bind (env_int environ ''AUTHZ_DELEGATION_DEFAULT_TTL_SECONDS'' ''3600'') (\<lambda>dg_ttl.
     res_bind (env_int environ ''AUTHZ_DELEGATION_MAX_TTL_SECONDS'' ''86400'') (\<lambda>dg_max.
     res_bind (env_int environ ''AUTHZ_ADMIN_OIDC_SESSION_TTL_SECONDS'' ''28800'') (\<lambda>session_ttl.
     Inr \<lparr>cfg_database_url = dict_get_default environ ''AUTHZ_DATABASE_URL'' ''sqlite+pysqlite:///./authz.db'',
          cfg_api_keys = csv_env environ ''AUTHZ_API_KEYS'' '''',
          cfg_log_level = dict_get_default environ ''AUTHZ_LOG_LEVEL'' ''INFO'',
          cfg_audit_all_decisions = env_flag environ ''AUTHZ_AUDIT_ALL'' ''false'',
          cfg_auto_provision_user = env_flag environ ''AUTHZ_AUTO_PROVISION_USER'' ''true'',
          cfg_auto_provision_tenant = env_flag environ ''AUTHZ_AUTO_PROVISION_TENANT'' ''false'',
          cfg_cors_allow_origins = csv_env environ ''AUTHZ_CORS_ORIGINS'' '''',
          cfg_dev_mode = env_flag environ ''AUTHZ_DEV_MODE'' ''false'',
          cfg_rate_limit_per_minute = rate_limit,
          cfg_redis_url = env_opt environ ''AUTHZ_REDIS_URL'',
          cfg_audit_retention_days = retention,
          cfg_audit_prune_interval_seconds = prune_interval,
          cfg_auto_create_schema =
            (lower (dict_get_default environ ''AUTHZ_AUTO_CREATE_SCHEMA'' ''auto'') \<in> {''true'', ''1'', ''yes''}),
          cfg_oauth_resource_enabled = lower (dict_get_default environ ''AUTHZ_OAUTH_RESOURCE_ENABLED'' ''auto''),
          cfg_oauth_resource_issuers_json = dict_get_default environ ''AUTHZ_OAUTH_RESOURCE_ISSUERS'' '''',
          cfg_oauth_resource_issuers_file = env_opt environ ''AUTHZ_OAUTH_RESOURCE_ISSUERS_FILE'',
          cfg_oauth_jwks_cache_ttl_seconds = jwks_ttl,
          cfg_oauth_as_enabled = env_flag environ ''AUTHZ_OAUTH_AS_ENABLED'' ''false'',
          cfg_oauth_issuer = dict_get_default environ ''AUTHZ_OAUTH_ISSUER'' '''',
          cfg_oauth_audience = dict_get_default environ ''AUTHZ_OAUTH_AUDIENCE'' '''',
          cfg_oauth_access_token_ttl_seconds = access_ttl,
          cfg_oauth_signing_key_pem = dict_get_default environ ''AUTHZ_OAUTH_SIGNING_KEY_PEM'' '''',
          cfg_oauth_signing_key_rotation_days = rotation,
          cfg_delegation_default_ttl_seconds = dg_ttl,
          cfg_delegation_max_ttl_seconds = dg_max,
          cfg_delegation_required = env_flag environ ''AUTHZ_DELEGATION_REQUIRED'' ''false'',
          cfg_admin_oidc_enabled = lower (dict_get_default environ ''AUTHZ_ADMIN_OIDC_ENABLED'' ''auto''),
          cfg_admin_oidc_issuer = dict_get_default environ ''AUTHZ_ADMIN_OIDC_ISSUER'' '''',
          cfg_admin_oidc_client_id = dict_get_default environ ''AUTHZ_ADMIN_OIDC_CLIENT_ID'' '''',
          cfg_admin_oidc_client_secret = dict_get_default environ ''AUTHZ_ADMIN_OIDC_CLIENT_SECRET'' '''',
          cfg_admin_oidc_redirect_uri = dict_get_default environ ''AUTHZ_ADMIN_OIDC_REDIRECT_URI'' '''',
          cfg_admin_oidc_scopes = dict_get_default environ ''AUTHZ_ADMIN_OIDC_SCOPES'' ''openid email profile'',
          cfg_admin_oidc_groups_claim = dict_get_default environ ''AUTHZ_ADMIN_OIDC_GROUPS_CLAIM'' ''groups'',
          cfg_admin_oidc_admin_groups = csv_env environ ''AUTHZ_ADMIN_OIDC_ADMIN_GROUPS'' '''',
          cfg_admin_oidc_email_allowlist = csv_env environ ''AUTHZ_ADMIN_OIDC_EMAIL_ALLOWLIST'' '''',
          cfg_admin_oidc_session_ttl_seconds = session_ttl\<rparr>)))))))))"

definition oauth_resource_is_enabled :: "settings \<Rightarrow> bool" where
  "oauth_resource_is_enabled st =
     (let raw = lower (cfg_oauth_resource_enabled st) in
      if raw = ''true'' then True
      else if raw = ''false'' then False
      else strip (cfg_oauth_resource_issuers_json st) \<noteq> '''' \<or>
           (case cfg_oauth_resource_issuers_file st of None \<Rightarrow> False | Some f \<Rightarrow> f \<noteq> ''''))"

definition admin_oidc_is_enabled :: "settings \<Rightarrow> bool" where
  "admin_oidc_is_enabled st =
     (let raw = lower (cfg_admin_oidc_enabled st) in
      if raw = ''true'' then True
      else if raw = ''false'' then False
      else cfg_admin_oidc_issuer st \<noteq> '''' \<and> cfg_admin_oidc_client_id st \<noteq> '''')"

definition should_auto_create_schema :: "(string, string) dict \<Rightarrow> settings \<Rightarrow> bool" where
  "should_auto_create_schema environ st =
     (let raw = lower (dict_get_default environ ''AUTHZ_AUTO_CREATE_SCHEMA'' ''auto'') in
      if raw \<in> {''true'', ''1'', ''yes''} then True
      else if raw \<in> {''false'', ''0'', ''no''} then False
      else starts_with ''sqlite'' (cfg_database_url st))"

text \<open>The start-up checks: which configurations the service refuses to start with (the warnings it logs
  are left out). The second case names the missing variables.\<close>

datatype startup_error = WildcardCors | IssuerMissing | OidcIncomplete "string list"

definition enforce_startup_safety :: "settings \<Rightarrow> (startup_error, unit) result" where
  "enforce_startup_safety st =
     (if ''*'' \<in> set (cfg_cors_allow_origins st) \<and> \<not> cfg_dev_mode st then Inl WildcardCors
      else if cfg_oauth_as_enabled st \<and> cfg_oauth_issuer st = '''' then Inl IssuerMissing
      else if admin_oidc_is_enabled st then
        (let missing = map fst (filter (\<lambda>(_, v). v = '''')
               [(''AUTHZ_ADMIN_OIDC_ISSUER'', cfg_admin_oidc_issuer st),
                (''AUTHZ_ADMIN_OIDC_CLIENT_ID'', cfg_admin_oidc_client_id st),
                (''AUTHZ_ADMIN_OIDC_CLIENT_SECRET'', cfg_admin_oidc_client_secret st),
                (''AUTHZ_ADMIN_OIDC_REDIRECT_URI'', cfg_admin_oidc_redirect_uri st)]) in
         if missing \<noteq> [] then Inl (OidcIncomplete missing) else Inr ())
      else Inr ())"

section \<open>The defaults\<close>

lemmas settings_eval =
  py_int_def py_nat_def is_digit_def env_int_def env_opt_def env_flag_def csv_env_def lower_def
  lower_char_def dict_get_default_def strip_def is_space_def

text \<open>An empty environment is a valid configuration: fail-closed, without API keys, and it starts.\<close>

lemma load_defaults:
  "\<exists>st. load_settings [] = Inr st \<and> \<not> cfg_dev_mode st \<and> cfg_api_keys st = [] \<and>
     \<not> cfg_audit_all_decisions st \<and> \<not> cfg_delegation_required st \<and> cfg_oauth_issuer st = '''' \<and>
     \<not> oauth_resource_is_enabled st \<and> \<not> admin_oidc_is_enabled st \<and> cfg_delegation_default_ttl_seconds st = 3600 \<and>
     cfg_delegation_max_ttl_seconds st = 86400 \<and> enforce_startup_safety st = Inr ()"
  by (simp add: load_settings_def settings_eval oauth_resource_is_enabled_def admin_oidc_is_enabled_def
      enforce_startup_safety_def Let_def)

end
