(* ===== verification/Middleware.thy ===== *)
theory Middleware
  imports Domain
begin

text \<open>
  \<^verbatim>\<open>authz_service/middleware.py\<close>: rate limiting and idempotent replay. Both have a protocol with an
  in-memory and a Redis backend. The limiters keep one contract, a locale here, whose fact bounds the
  number of admitted calls in every window; the Redis backend is the Lua script it runs, on the sorted
  set of its key, with the script's random suffix as an argument. The clock counts microseconds for the
  in-memory backends (a monotonic clock) and milliseconds for Redis.
\<close>

section \<open>Rate limiters\<close>

record sliding_window =
  sw_limit :: int
  sw_window :: int
  sw_buckets :: "(string, instant list) dict"

text \<open>\<^verbatim>\<open>_SlidingWindowLimiter.allow\<close>: the answer is (allowed, remaining, retry_after); reading the first
  element of an empty bucket (a limit that is not positive) raises.\<close>

definition sliding_allow ::
  "sliding_window \<Rightarrow> instant \<Rightarrow> string \<Rightarrow> (authz_error, (bool \<times> int \<times> int) \<times> sliding_window) result" where
  "sliding_allow s now key =
     (let bucket = dict_get_default (sw_buckets s) key [];
          cutoff = now - sw_window s;
          bucket' = dropWhile (\<lambda>t. t \<le> cutoff) bucket in
      if sw_limit s \<le> int (length bucket') then
        (case bucket' of
           [] \<Rightarrow> Inl IndexError
         | t # _ \<Rightarrow> Inr ((False, 0, max 1000 (t + sw_window s - now)),
             s\<lparr>sw_buckets := dict_set key bucket' (sw_buckets s)\<rparr>))
      else
        (let bucket'' = bucket' @ [now] in
         Inr ((True, sw_limit s - int (length bucket''), 0),
           s\<lparr>sw_buckets := dict_set key bucket'' (sw_buckets s)\<rparr>)))"

text \<open>A Redis sorted set: (score, member) in ascending order of scores.\<close>

type_synonym zset = "(int \<times> string) list"

definition zadd :: "int \<Rightarrow> string \<Rightarrow> zset \<Rightarrow> zset" where
  "zadd score m z = insort_key fst (score, m) (filter (\<lambda>e. snd e \<noteq> m) z)"

definition zremrangebyscore :: "int \<Rightarrow> int \<Rightarrow> zset \<Rightarrow> zset" where
  "zremrangebyscore lo hi z = filter (\<lambda>e. \<not> (lo \<le> fst e \<and> fst e \<le> hi)) z"

record redis_limiter =
  rl_limit :: int
  rl_window_ms :: int
  rl_sets :: "(string, zset) dict"

text \<open>The script, with the member it adds (the clock, a dash and a random number) as an argument. The
  expiry it sets on the whole key comes when every element has left the window, so it removes nothing
  the next call would keep.\<close>

definition redis_script ::
  "redis_limiter \<Rightarrow> string \<Rightarrow> int \<Rightarrow> string \<Rightarrow> (authz_error, (int \<times> int \<times> int) \<times> redis_limiter) result" where
  "redis_script s key now m =
     (let z = zremrangebyscore 0 (now - rl_window_ms s) (dict_get_default (rl_sets s) key []);
          cnt = int (length z) in
      if rl_limit s \<le> cnt then
        (case z of
           [] \<Rightarrow> Inl TypeError
         | (oldest, _) # _ \<Rightarrow>
             Inr ((0, 0, oldest + rl_window_ms s - now), s\<lparr>rl_sets := dict_set key z (rl_sets s)\<rparr>))
      else
        Inr ((1, rl_limit s - cnt - 1, 0), s\<lparr>rl_sets := dict_set key (zadd now m z) (rl_sets s)\<rparr>))"

definition redis_allow ::
  "redis_limiter \<Rightarrow> int \<Rightarrow> string \<Rightarrow> string \<Rightarrow> (authz_error, (bool \<times> int \<times> int) \<times> redis_limiter) result" where
  "redis_allow s now_ms m key =
     res_bind (redis_script s (''authz:rl:'' @ key) now_ms m)
       (\<lambda>((flag, remaining, retry), s'). Inr ((flag \<noteq> 0, remaining, max 0 retry), s'))"

text \<open>The backend that \<^verbatim>\<open>build_rate_limiter\<close> picks.\<close>

datatype limiter_backend = NoLimiter | MemoryLimiter sliding_window | RedisLimiter redis_limiter

definition build_rate_limiter :: "int \<Rightarrow> string option \<Rightarrow> bool \<Rightarrow> limiter_backend" where
  "build_rate_limiter limit redis_url redis_installed =
     (if limit \<le> 0 then NoLimiter
      else if (case redis_url of None \<Rightarrow> True | Some u \<Rightarrow> u = '''') \<or> \<not> redis_installed
      then MemoryLimiter \<lparr>sw_limit = limit, sw_window = 60000000, sw_buckets = []\<rparr>
      else RedisLimiter \<lparr>rl_limit = limit, rl_window_ms = 60000, rl_sets = []\<rparr>)"

section \<open>The contract of a limiter\<close>

text \<open>The admitted calls (time and key) of a sequence of calls; a call that raises changes nothing.\<close>

fun admitted_calls ::
  "('s \<Rightarrow> instant \<Rightarrow> 'r \<Rightarrow> string \<Rightarrow> (authz_error, (bool \<times> int \<times> int) \<times> 's) result) \<Rightarrow> 's \<Rightarrow>
     (instant \<times> 'r \<times> string) list \<Rightarrow> (instant \<times> string) list" where
  "admitted_calls allow s [] = []"
| "admitted_calls allow s ((now, r, k) # calls) =
     (case allow s now r k of
        Inl _ \<Rightarrow> admitted_calls allow s calls
      | Inr ((ok, _), s') \<Rightarrow> (if ok then [(now, k)] else []) @ admitted_calls allow s' calls)"

text \<open>Whether every call of a sequence is acceptable to the backend in the state it meets.\<close>

fun all_valid ::
  "('s \<Rightarrow> instant \<Rightarrow> 'r \<Rightarrow> string \<Rightarrow> (authz_error, (bool \<times> int \<times> int) \<times> 's) result) \<Rightarrow>
   ('s \<Rightarrow> instant \<Rightarrow> 'r \<Rightarrow> string \<Rightarrow> bool) \<Rightarrow> 's \<Rightarrow> (instant \<times> 'r \<times> string) list \<Rightarrow> bool" where
  "all_valid allow valid s [] = True"
| "all_valid allow valid s ((now, r, k) # calls) =
     (valid s now r k \<and>
      (case allow s now r k of
         Inl _ \<Rightarrow> all_valid allow valid s calls
       | Inr (_, s') \<Rightarrow> all_valid allow valid s' calls))"

definition in_window :: "instant \<Rightarrow> int \<Rightarrow> instant list \<Rightarrow> instant list" where
  "in_window x w h = filter (\<lambda>y. x - w < y \<and> y \<le> x) h"

text \<open>
  What a limiter remembers for a key is its admitted calls still in the window: a call drops those that
  have left it, is refused when as many as the limit remain, and is remembered otherwise. \<open>valid\<close> is
  what a backend needs of the extra argument of a call.
\<close>

locale window_limiter =
  fixes allow :: "'s \<Rightarrow> instant \<Rightarrow> 'r \<Rightarrow> string \<Rightarrow> (authz_error, (bool \<times> int \<times> int) \<times> 's) result"
    and remembered :: "'s \<Rightarrow> string \<Rightarrow> instant list"
    and valid :: "'s \<Rightarrow> instant \<Rightarrow> 'r \<Rightarrow> string \<Rightarrow> bool"
    and wf :: "'s \<Rightarrow> bool"
    and limit :: "'s \<Rightarrow> int" and window :: "'s \<Rightarrow> int"
  assumes admit: "\<lbrakk>wf s; valid s now r k; allow s now r k = Inr ((True, n, w), s');
        \<forall>j. \<forall>t \<in> set (remembered s j). t \<le> now\<rbrakk> \<Longrightarrow>
      remembered s' k = filter (\<lambda>t. now - window s < t) (remembered s k) @ [now] \<and>
      int (length (remembered s' k)) \<le> limit s"
    and refuse: "\<lbrakk>wf s; valid s now r k; allow s now r k = Inr ((False, n, w), s')\<rbrakk> \<Longrightarrow>
      remembered s' k = filter (\<lambda>t. now - window s < t) (remembered s k)"
    and frame: "\<lbrakk>wf s; valid s now r k; allow s now r k = Inr (a, s')\<rbrakk> \<Longrightarrow>
      limit s' = limit s \<and> window s' = window s \<and> (\<forall>k'. k' \<noteq> k \<longrightarrow> remembered s' k' = remembered s k')"
    and keeps_wf: "\<lbrakk>wf s; valid s now r k; allow s now r k = Inr (a, s');
        \<forall>k'. \<forall>t \<in> set (remembered s k'). t \<le> now\<rbrakk> \<Longrightarrow> wf s'"
begin

text \<open>What is remembered is what was admitted and is still in the window, and no window holds more
  admitted calls than the limit.\<close>

definition inv :: "string \<Rightarrow> instant \<Rightarrow> 's \<Rightarrow> instant list \<Rightarrow> bool" where
  "inv k t s h \<longleftrightarrow> wf s \<and> (\<forall>j. \<forall>x \<in> set (remembered s j). x \<le> t) \<and> (\<forall>x \<in> set h. x \<le> t) \<and>
     (\<forall>c \<ge> t - window s. filter (\<lambda>x. c < x) (remembered s k) = filter (\<lambda>x. c < x) h) \<and>
     (\<forall>x. int (length (in_window x (window s) h)) \<le> limit s)"

lemma remembered_le:
  assumes "wf s" "valid s now r j" "allow s now r j = Inr ((ok, n, w), s')"
    and "\<forall>i. \<forall>x \<in> set (remembered s i). x \<le> now"
  shows "\<forall>i. \<forall>x \<in> set (remembered s' i). x \<le> now"
proof (intro allI ballI)
  fix i x
  assume x: "x \<in> set (remembered s' i)"
  show "x \<le> now"
  proof (cases "i = j")
    case True
    then show ?thesis
      using x admit [OF assms(1,2) _ assms(4), of n w s'] refuse [OF assms(1,2), of n w s'] assms(3,4)
      by (cases ok) auto
  next
    case False
    then show ?thesis using x frame [OF assms(1-3)] assms(4) by auto
  qed
qed

lemma inv_admit:
  assumes "inv k t s h" "t \<le> now" "valid s now r k" "allow s now r k = Inr ((True, n, w), s')"
  shows "inv k now s' (h @ [now])"
proof -
  have wf: "wf s" and rt: "\<forall>j. \<forall>x \<in> set (remembered s j). x \<le> now" and ht: "\<forall>x \<in> set h. x \<le> now"
    and c: "\<And>c. t - window s \<le> c \<Longrightarrow> filter (\<lambda>x. c < x) (remembered s k) = filter (\<lambda>x. c < x) h"
    and b: "\<And>x. int (length (in_window x (window s) h)) \<le> limit s"
    using assms(1,2) by (fastforce simp: inv_def)+
  note f = frame [OF wf assms(3,4)] and a = admit [OF wf assms(3,4) rt]
  have r: "remembered s' k = filter (\<lambda>x. now - window s < x) h @ [now]"
    using a c [of "now - window s"] assms(2) by simp
  have "filter (\<lambda>x. d < x) (remembered s' k) = filter (\<lambda>x. d < x) (h @ [now])"
    if "now - window s \<le> d" for d
    using that unfolding r by (auto intro!: filter_cong)
  moreover have "int (length (in_window x (window s) (h @ [now]))) \<le> limit s" for x
  proof (cases "now \<le> x \<and> x - window s < now")
    case True
    have "length (filter (\<lambda>y. x - window s < y \<and> y \<le> x) h) \<le> length (filter (\<lambda>y. now - window s < y) h)"
      using True by (induction h) auto
    then show ?thesis using a True unfolding r in_window_def by auto
  next
    case False
    then have "in_window x (window s) (h @ [now]) = in_window x (window s) h"
      by (auto simp: in_window_def)
    then show ?thesis using b [of x] by simp
  qed
  moreover have "wf s'" by (rule keeps_wf [OF wf assms(3,4) rt])
  moreover have "\<forall>j. \<forall>x \<in> set (remembered s' j). x \<le> now" by (rule remembered_le [OF wf assms(3,4) rt])
  ultimately show ?thesis using f ht by (simp add: inv_def)
qed

lemma inv_other:
  assumes "inv k t s h" "t \<le> now" "valid s now r j" "allow s now r j = Inr ((ok, n, w), s')"
    and "j \<noteq> k \<or> \<not> ok"
  shows "inv k now s' h"
proof -
  have wf: "wf s" and rt: "\<forall>j. \<forall>x \<in> set (remembered s j). x \<le> now" and ht: "\<forall>x \<in> set h. x \<le> now"
    and c: "\<And>c. t - window s \<le> c \<Longrightarrow> filter (\<lambda>x. c < x) (remembered s k) = filter (\<lambda>x. c < x) h"
    and b: "\<And>x. int (length (in_window x (window s) h)) \<le> limit s"
    using assms(1,2) by (fastforce simp: inv_def)+
  note f = frame [OF wf assms(3,4)]
  have d: "filter (\<lambda>x. d < x) (remembered s' k) = filter (\<lambda>x. d < x) h" if "now - window s \<le> d" for d
  proof (cases "j = k")
    case True
    then have "remembered s' k = filter (\<lambda>x. now - window s < x) (remembered s k)"
      using refuse [OF wf assms(3), of n w s'] assms(4,5) by simp
    then have "filter (\<lambda>x. d < x) (remembered s' k) = filter (\<lambda>x. d < x) (remembered s k)"
      using that by (auto intro!: filter_cong)
    then show ?thesis using c [of d] that assms(2) by simp
  next
    case False
    then show ?thesis using f c [of d] that assms(2) by simp
  qed
  have "wf s'" by (rule keeps_wf [OF wf assms(3,4) rt])
  moreover have "\<forall>j. \<forall>x \<in> set (remembered s' j). x \<le> now" by (rule remembered_le [OF wf assms(3,4) rt])
  ultimately show ?thesis using f ht d b by (simp add: inv_def)
qed

lemma run_bound:
  "\<lbrakk>inv k t s h; sorted (map fst calls); \<forall>c \<in> set calls. t \<le> fst c; all_valid allow valid s calls\<rbrakk> \<Longrightarrow>
   int (length (in_window x (window s)
     (h @ map fst (filter (\<lambda>c. snd c = k) (admitted_calls allow s calls))))) \<le> limit s"
proof (induction calls arbitrary: t s h)
  case Nil
  then show ?case by (simp add: inv_def)
next
  case (Cons c calls)
  obtain now r j where c: "c = (now, r, j)" by (cases c)
  have t: "t \<le> now" and v: "valid s now r j" and srt: "sorted (map fst calls)"
    "\<forall>d \<in> set calls. now \<le> fst d" "\<forall>d \<in> set calls. t \<le> fst d"
    using Cons.prems c by auto
  show ?case
  proof (cases "allow s now r j")
    case (Inl e)
    then show ?thesis using Cons.IH [OF Cons.prems(1) srt(1,3)] Cons.prems(4) c by simp
  next
    case (Inr res)
    then obtain ok n w s' where a: "allow s now r j = Inr ((ok, n, w), s')" by (cases res) auto
    have av: "all_valid allow valid s' calls" using Cons.prems(4) c a by simp
    have wf: "wf s" using Cons.prems(1) by (simp add: inv_def)
    note f = frame [OF wf v a]
    show ?thesis
    proof (cases "j = k \<and> ok")
      case True
      then have "valid s now r k" "allow s now r k = Inr ((True, n, w), s')" using v a by auto
      then have i: "inv k now s' (h @ [now])" by (rule inv_admit [OF Cons.prems(1) t])
      show ?thesis using Cons.IH [OF i srt(1,2) av] True a c f by simp
    next
      case False
      then have i: "inv k now s' h" using inv_other [OF Cons.prems(1) t v a] by blast
      show ?thesis using Cons.IH [OF i srt(1,2) av] False a c f by (cases ok) auto
    qed
  qed
qed

text \<open>From a state that remembers nothing.\<close>

lemma rate_bound:
  assumes "wf s" "\<And>j. remembered s j = []" "0 \<le> limit s" "sorted (map fst calls)"
    and "all_valid allow valid s calls"
  shows "int (length (in_window x (window s)
     (map fst (filter (\<lambda>c. snd c = k) (admitted_calls allow s calls))))) \<le> limit s"
proof -
  let ?t = "case calls of [] \<Rightarrow> 0 | c # _ \<Rightarrow> fst c"
  have "inv k ?t s []" using assms(1-3) by (simp add: inv_def in_window_def)
  moreover have "\<forall>c \<in> set calls. ?t \<le> fst c" using assms(4) by (cases calls) auto
  ultimately show ?thesis using run_bound [of k ?t s "[]" calls x] assms(4,5) by simp
qed

end

section \<open>The two backends keep the contract\<close>

definition sliding_remembered :: "sliding_window \<Rightarrow> string \<Rightarrow> instant list" where
  "sliding_remembered s k = dict_get_default (sw_buckets s) k []"

definition sliding_wf :: "sliding_window \<Rightarrow> bool" where
  "sliding_wf s \<longleftrightarrow> (\<forall>k. sorted (sliding_remembered s k))"

lemma sliding_allow_cases:
  assumes "sliding_wf s" "sliding_allow s now k = Inr ((ok, n, w), s')"
  defines "b \<equiv> filter (\<lambda>t. now - sw_window s < t) (sliding_remembered s k)"
  shows "ok \<longleftrightarrow> int (length b) < sw_limit s"
    and "s' = s\<lparr>sw_buckets := dict_set k (if ok then b @ [now] else b) (sw_buckets s)\<rparr>"
proof -
  have d: "dropWhile (\<lambda>t. t \<le> now - sw_window s) (dict_get_default (sw_buckets s) k []) = b"
    using assms(1) sorted_dropWhile_le unfolding b_def sliding_wf_def sliding_remembered_def by blast
  have "(ok \<longleftrightarrow> int (length b) < sw_limit s) \<and>
      s' = s\<lparr>sw_buckets := dict_set k (if ok then b @ [now] else b) (sw_buckets s)\<rparr>"
    using assms(2) unfolding sliding_allow_def Let_def d by (auto split: if_splits list.splits)
  then show "ok \<longleftrightarrow> int (length b) < sw_limit s"
    and "s' = s\<lparr>sw_buckets := dict_set k (if ok then b @ [now] else b) (sw_buckets s)\<rparr>" by blast+
qed

interpretation memory_window: window_limiter "\<lambda>s now (r :: unit) k. sliding_allow s now k" sliding_remembered
  "\<lambda>s now r k. True" sliding_wf sw_limit sw_window
proof
  fix s s' :: sliding_window and now w n :: int and k :: string
  assume wf: "sliding_wf s" and a: "sliding_allow s now k = Inr ((True, n, w), s')"
  show "sliding_remembered s' k = filter (\<lambda>t. now - sw_window s < t) (sliding_remembered s k) @ [now] \<and>
      int (length (sliding_remembered s' k)) \<le> sw_limit s"
    using sliding_allow_cases [OF wf a] by (simp add: sliding_remembered_def)
next
  fix s s' :: sliding_window and now w n :: int and k :: string
  assume wf: "sliding_wf s" and a: "sliding_allow s now k = Inr ((False, n, w), s')"
  show "sliding_remembered s' k = filter (\<lambda>t. now - sw_window s < t) (sliding_remembered s k)"
    using sliding_allow_cases [OF wf a] by (simp add: sliding_remembered_def)
next
  fix s s' :: sliding_window and now :: int and k :: string and a
  assume wf: "sliding_wf s" and a: "sliding_allow s now k = Inr (a, s')"
  obtain ok n w where "a = (ok, n, w)" by (cases a)
  note c = sliding_allow_cases(2) [OF wf a [unfolded this]]
  show "sw_limit s' = sw_limit s \<and> sw_window s' = sw_window s \<and>
      (\<forall>k'. k' \<noteq> k \<longrightarrow> sliding_remembered s' k' = sliding_remembered s k')"
    unfolding c by (simp add: sliding_remembered_def)
next
  fix s s' :: sliding_window and now :: int and k :: string and a
  assume wf: "sliding_wf s" and a: "sliding_allow s now k = Inr (a, s')"
    and le: "\<forall>k'. \<forall>t \<in> set (sliding_remembered s k'). t \<le> now"
  obtain ok n w where "a = (ok, n, w)" by (cases a)
  note c = sliding_allow_cases(2) [OF wf a [unfolded this]]
  show "sliding_wf s'"
    using wf le unfolding c
    by (auto simp: sliding_wf_def sliding_remembered_def sorted_append sorted_filter [where f=id, simplified])
qed

definition redis_remembered :: "redis_limiter \<Rightarrow> string \<Rightarrow> instant list" where
  "redis_remembered s k = map fst (dict_get_default (rl_sets s) (''authz:rl:'' @ k) [])"

definition redis_wf :: "redis_limiter \<Rightarrow> bool" where
  "redis_wf s \<longleftrightarrow> (\<forall>k. sorted (redis_remembered s k) \<and> (\<forall>t \<in> set (redis_remembered s k). 0 \<le> t))"

text \<open>The clock is past 1970 and the member is not in the set (two calls in one millisecond that draw the
  same random number would count once).\<close>

definition redis_valid :: "redis_limiter \<Rightarrow> instant \<Rightarrow> string \<Rightarrow> string \<Rightarrow> bool" where
  "redis_valid s now m k \<longleftrightarrow>
     0 \<le> now \<and> m \<notin> snd ` set (dict_get_default (rl_sets s) (''authz:rl:'' @ k) [])"

lemma zremrangebyscore_scores:
  "\<forall>t \<in> set (map fst z). 0 \<le> t \<Longrightarrow>
   map fst (zremrangebyscore 0 c z) = filter (\<lambda>t. c < t) (map fst z)"
  by (induction z) (auto simp: zremrangebyscore_def)

lemma zadd_scores:
  assumes "\<forall>t \<in> set (map fst z). t \<le> now" "m \<notin> snd ` set z" "sorted (map fst z)"
  shows "map fst (zadd now m z) = map fst z @ [now]"
proof -
  have "filter (\<lambda>e. snd e \<noteq> m) z = z" using assms(2) by (auto intro!: filter_True)
  moreover have "map fst (insort_key fst (now, m) z) = map fst z @ [now]"
    using assms(1,3)
  proof (induction z)
    case (Cons e z)
    then show ?case by (cases z) auto
  qed simp
  ultimately show ?thesis by (simp add: zadd_def)
qed

lemma redis_allow_cases:
  assumes "redis_wf s" "redis_valid s now m k" "redis_allow s now m k = Inr ((ok, n, w), s')"
  defines "b \<equiv> filter (\<lambda>t. now - rl_window_ms s < t) (redis_remembered s k)"
  shows "ok \<longleftrightarrow> int (length b) < rl_limit s"
    and "rl_limit s' = rl_limit s \<and> rl_window_ms s' = rl_window_ms s"
    and "k' \<noteq> k \<Longrightarrow> redis_remembered s' k' = redis_remembered s k'"
    and "\<not> ok \<Longrightarrow> redis_remembered s' k = b"
    and "\<lbrakk>ok; \<forall>t \<in> set (redis_remembered s k). t \<le> now\<rbrakk> \<Longrightarrow> redis_remembered s' k = b @ [now]"
proof -
  let ?key = "''authz:rl:'' @ k"
  let ?z = "zremrangebyscore 0 (now - rl_window_ms s) (dict_get_default (rl_sets s) ?key [])"
  have z: "map fst ?z = b"
    using assms(1) unfolding b_def redis_wf_def redis_remembered_def
    by (intro zremrangebyscore_scores) blast
  then have l: "length ?z = length b" by (metis length_map)
  have sz: "sorted (map fst ?z)"
    using assms(1) unfolding z b_def redis_wf_def by (simp add: sorted_filter [where f=id, simplified])
  have fresh: "m \<notin> snd ` set ?z" using assms(2) by (auto simp: redis_valid_def zremrangebyscore_def)
  have "(ok \<longleftrightarrow> int (length b) < rl_limit s) \<and>
      s' = s\<lparr>rl_sets := dict_set ?key (if ok then zadd now m ?z else ?z) (rl_sets s)\<rparr>"
    using assms(3) unfolding redis_allow_def redis_script_def Let_def l
    by (auto simp: res_simps split: if_splits list.splits)
  then have o: "ok \<longleftrightarrow> int (length b) < rl_limit s"
    and s': "s' = s\<lparr>rl_sets := dict_set ?key (if ok then zadd now m ?z else ?z) (rl_sets s)\<rparr>" by blast+
  show "ok \<longleftrightarrow> int (length b) < rl_limit s" by (rule o)
  show "rl_limit s' = rl_limit s \<and> rl_window_ms s' = rl_window_ms s" by (simp add: s')
  show "k' \<noteq> k \<Longrightarrow> redis_remembered s' k' = redis_remembered s k'"
    by (simp add: s' redis_remembered_def)
  show "\<not> ok \<Longrightarrow> redis_remembered s' k = b" using z by (simp add: s' redis_remembered_def)
  show "redis_remembered s' k = b @ [now]" if "ok" "\<forall>t \<in> set (redis_remembered s k). t \<le> now"
  proof -
    have "\<forall>t \<in> set (map fst ?z). t \<le> now" using that(2) unfolding z b_def by simp
    then have "map fst (zadd now m ?z) = b @ [now]" using zadd_scores [OF _ fresh sz] z by simp
    then show ?thesis using that(1) by (simp add: s' redis_remembered_def)
  qed
qed

interpretation redis_window: window_limiter redis_allow redis_remembered redis_valid redis_wf
  rl_limit rl_window_ms
proof
  fix s s' :: redis_limiter and now w n :: int and m k :: string
  assume h: "redis_wf s" "redis_valid s now m k" "redis_allow s now m k = Inr ((True, n, w), s')"
    "\<forall>j. \<forall>t \<in> set (redis_remembered s j). t \<le> now"
  then show "redis_remembered s' k = filter (\<lambda>t. now - rl_window_ms s < t) (redis_remembered s k) @ [now] \<and>
      int (length (redis_remembered s' k)) \<le> rl_limit s"
    using redis_allow_cases [OF h(1-3)] by simp
next
  fix s s' :: redis_limiter and now w n :: int and m k :: string
  assume h: "redis_wf s" "redis_valid s now m k" "redis_allow s now m k = Inr ((False, n, w), s')"
  then show "redis_remembered s' k = filter (\<lambda>t. now - rl_window_ms s < t) (redis_remembered s k)"
    using redis_allow_cases [OF h] by simp
next
  fix s s' :: redis_limiter and now :: int and m k :: string and a
  assume h: "redis_wf s" "redis_valid s now m k" and a: "redis_allow s now m k = Inr (a, s')"
  obtain ok n w where "a = (ok, n, w)" by (cases a)
  note c = redis_allow_cases(2,3) [OF h a [unfolded this]]
  show "rl_limit s' = rl_limit s \<and> rl_window_ms s' = rl_window_ms s \<and>
      (\<forall>k'. k' \<noteq> k \<longrightarrow> redis_remembered s' k' = redis_remembered s k')"
    using c by blast
next
  fix s s' :: redis_limiter and now :: int and m k :: string and a
  assume h: "redis_wf s" "redis_valid s now m k" and a: "redis_allow s now m k = Inr (a, s')"
    and le: "\<forall>k'. \<forall>t \<in> set (redis_remembered s k'). t \<le> now"
  obtain ok n w where "a = (ok, n, w)" by (cases a)
  note c = redis_allow_cases [OF h a [unfolded this]]
  have "sorted (redis_remembered s' j) \<and> (\<forall>t \<in> set (redis_remembered s' j). 0 \<le> t)" for j
  proof (cases "j = k")
    case True
    have "redis_remembered s' k \<in> {filter (\<lambda>t. now - rl_window_ms s < t) (redis_remembered s k) @ [now],
        filter (\<lambda>t. now - rl_window_ms s < t) (redis_remembered s k)}"
      using c(4,5) le by blast
    then show ?thesis
      using True h le by (auto simp: redis_wf_def redis_valid_def sorted_append sorted_filter [where f=id, simplified])
  next
    case False
    then show ?thesis using c(3) [of j] h(1) by (simp add: redis_wf_def)
  qed
  then show "redis_wf s'" by (simp add: redis_wf_def)
qed

text \<open>C22: no window admits more than the limit. Whatever calls a limiter built for \<open>n\<close> calls a minute
  receives, in the order of its clock, the number of admitted calls of one key in any minute is at most
  \<open>n\<close>. This holds for the in-memory backend and for the Redis script; for Redis each call has its own
  member and the clock is past the epoch.\<close>

theorem rate_limit_bound:
  assumes "build_rate_limiter n url installed = backend"
  shows "case backend of
      NoLimiter \<Rightarrow> n \<le> 0
    | MemoryLimiter s \<Rightarrow> (\<forall>calls x k. sorted (map fst calls) \<longrightarrow>
        int (length (in_window x 60000000 (map fst (filter (\<lambda>c. snd c = k)
          (admitted_calls (\<lambda>s now (r :: unit) k. sliding_allow s now k) s calls))))) \<le> n)
    | RedisLimiter s \<Rightarrow> (\<forall>calls x k. sorted (map fst calls) \<and> all_valid redis_allow redis_valid s calls \<longrightarrow>
        int (length (in_window x 60000 (map fst (filter (\<lambda>c. snd c = k)
          (admitted_calls redis_allow s calls))))) \<le> n)"
proof (cases backend)
  case NoLimiter
  then show ?thesis using assms by (auto simp: build_rate_limiter_def split: if_splits)
next
  case (MemoryLimiter s)
  then have s: "s = \<lparr>sw_limit = n, sw_window = 60000000, sw_buckets = []\<rparr>" "0 < n"
    using assms by (auto simp: build_rate_limiter_def split: if_splits)
  have v: "all_valid (\<lambda>s now (r :: unit) k. sliding_allow s now k) (\<lambda>s now r k. True) s' calls" for calls s'
    by (induction calls arbitrary: s') (auto split: sum.splits)
  show ?thesis
    using memory_window.rate_bound [of s, OF _ _ _ _ v] s MemoryLimiter
    by (simp add: sliding_wf_def sliding_remembered_def dict_get_default_def)
next
  case (RedisLimiter s)
  then have s: "s = \<lparr>rl_limit = n, rl_window_ms = 60000, rl_sets = []\<rparr>" "0 < n"
    using assms by (auto simp: build_rate_limiter_def split: if_splits)
  show ?thesis
    using redis_window.rate_bound [of s] s RedisLimiter
    by (simp add: redis_wf_def redis_remembered_def dict_get_default_def)
qed

theorem rate_limit_bound_witness:
  "let s = \<lparr>rl_limit = 1, rl_window_ms = 60000, rl_sets = []\<rparr>;
       calls = [(10, ''10-0.1'', ''k''), (20, ''20-0.7'', ''k''), (70000, ''70000-0.2'', ''k'')] in
   build_rate_limiter 1 (Some ''redis://r'') True = RedisLimiter s \<and>
   admitted_calls redis_allow s calls = [(10, ''k''), (70000, ''k'')] \<and>
   int (length (in_window 20 60000 (map fst (filter (\<lambda>c. snd c = ''k'') (admitted_calls redis_allow s calls))))) \<le> 1"
proof -
  let ?s = "\<lparr>rl_limit = 1, rl_window_ms = 60000, rl_sets = []\<rparr>"
  let ?calls = "[(10 :: int, ''10-0.1'', ''k''), (20, ''20-0.7'', ''k''), (70000, ''70000-0.2'', ''k'')]"
  note defs = redis_allow_def redis_script_def zremrangebyscore_def zadd_def dict_get_default_def
    redis_valid_def Let_def
  have b: "build_rate_limiter 1 (Some ''redis://r'') True = RedisLimiter ?s"
    by (simp add: build_rate_limiter_def)
  have "sorted (map fst ?calls) \<and> all_valid redis_allow redis_valid ?s ?calls" by (simp add: defs)
  then have "int (length (in_window 20 60000 (map fst (filter (\<lambda>c. snd c = ''k'')
      (admitted_calls redis_allow ?s ?calls))))) \<le> 1"
    using rate_limit_bound [OF b] unfolding limiter_backend.case by blast
  then show ?thesis using b by (simp add: defs)
qed

end
