(* ===== verification/Idempotency.thy ===== *)
theory Idempotency
  imports Middleware
begin

text \<open>
  The request-handling half of \<^verbatim>\<open>authz_service/middleware.py\<close>: the rate-limit and idempotency middlewares,
  the two idempotency stores, the credential partition and the pagination helper. The application
  behind a middleware (\<^verbatim>\<open>call_next\<close>) is a function that threads its own state; SHA-256 and the JSON
  rendering of Starlette are arguments. Header names are spelled as the code spells them.
\<close>

section \<open>Requests and responses\<close>

record http_request =
  rq_method :: string
  rq_path :: string
  rq_headers :: "(string, string) dict"
  rq_cookies :: "(string, string) dict"
  rq_client :: "string option"

record http_resp =
  rs_status :: nat
  rs_body :: string
  rs_content_type :: "string option"
  rs_headers :: "(string, string) dict"

type_synonym 'a handler = "'a \<Rightarrow> http_request \<Rightarrow> http_resp \<times> 'a"

text \<open>The fingerprint of every credential of a request.\<close>

definition credential_payload :: "http_request \<Rightarrow> string" where
  "credential_payload rq =
     ''x='' @ dict_get_default (rq_headers rq) ''X-API-Key'' '''' @
     ''|a='' @ dict_get_default (rq_headers rq) ''Authorization'' '''' @
     ''|s='' @ dict_get_default (rq_cookies rq) ''authz_session'' ''''"

definition credential_partition :: "(string \<Rightarrow> string) \<Rightarrow> http_request \<Rightarrow> string" where
  "credential_partition sha256 rq = take 32 (sha256 (credential_payload rq))"

section \<open>Rate limiting a request\<close>

text \<open>\<^verbatim>\<open>f"{x:.0f}"\<close> of a time given in units of which \<open>u\<close> make a second: half goes to the even neighbour.\<close>

definition format_seconds :: "int \<Rightarrow> int \<Rightarrow> string" where
  "format_seconds u x =
     int_str (if 2 * (x mod u) < u \<or> 2 * (x mod u) = u \<and> even (x div u) then x div u else x div u + 1)"

definition rate_limit_key :: "http_request \<Rightarrow> string" where
  "rate_limit_key rq =
     (case dict_get (rq_headers rq) ''X-API-Key'' of
        Some k \<Rightarrow> if k \<noteq> '''' then k else (case rq_client rq of Some h \<Rightarrow> if h \<noteq> '''' then h else ''anonymous''
                                                        | None \<Rightarrow> ''anonymous'')
      | None \<Rightarrow> (case rq_client rq of Some h \<Rightarrow> if h \<noteq> '''' then h else ''anonymous'' | None \<Rightarrow> ''anonymous''))"

text \<open>\<^verbatim>\<open>RateLimitMiddleware.dispatch\<close>, enabled, over the \<open>allow\<close> of a backend whose clock has \<open>u\<close> units to the
  second.\<close>

definition rate_limit_dispatch ::
  "(int \<Rightarrow> string) \<Rightarrow> int \<Rightarrow> int \<Rightarrow> ('s \<Rightarrow> string \<Rightarrow> (authz_error, (bool \<times> int \<times> int) \<times> 's) result) \<Rightarrow> 'a handler \<Rightarrow>
     's \<Rightarrow> 'a \<Rightarrow> http_request \<Rightarrow> (authz_error, http_resp \<times> 's \<times> 'a) result" where
  "rate_limit_dispatch json u limit allow call_next s a rq =
     res_bind (allow s (rate_limit_key rq)) (\<lambda>((allowed, remaining, retry_after), s').
       if \<not> allowed then
         Inr (\<lparr>rs_status = 429, rs_body = json retry_after, rs_content_type = Some ''application/json'',
               rs_headers = [(''Retry-After'', format_seconds u retry_after)]\<rparr>, s', a)
       else
         (let (response, a') = call_next a rq in
          Inr (response\<lparr>rs_headers :=
                 dict_set ''X-RateLimit-Remaining'' (int_str remaining)
                   (dict_set ''X-RateLimit-Limit'' (int_str limit) (rs_headers response))\<rparr>, s', a')))"

section \<open>Idempotency stores\<close>

type_synonym replay_entry = "nat \<times> string \<times> string"

record memory_idempotency =
  mi_max :: int
  mi_cache :: "(string, replay_entry \<times> instant) dict"

definition mi_get :: "memory_idempotency \<Rightarrow> instant \<Rightarrow> string \<Rightarrow> replay_entry option \<times> memory_idempotency" where
  "mi_get s now key =
     (case dict_get (mi_cache s) key of
        None \<Rightarrow> (None, s)
      | Some (entry, expires_at) \<Rightarrow>
          if expires_at \<le> now then (None, s\<lparr>mi_cache := dict_pop key (mi_cache s)\<rparr>)
          else (Some entry, s))"

text \<open>\<^verbatim>\<open>min(cache.items(), key=...)\<close>: the first entry with the least expiry.\<close>

fun oldest_entry :: "(string, 'e \<times> instant) dict \<Rightarrow> (string \<times> instant) option" where
  "oldest_entry [] = None"
| "oldest_entry ((k, (_, x)) # d) =
     (case oldest_entry d of
        None \<Rightarrow> Some (k, x)
      | Some (k', x') \<Rightarrow> if x \<le> x' then Some (k, x) else Some (k', x'))"

lemma oldest_entry_in: "oldest_entry d = Some (k, x) \<Longrightarrow> \<exists>e. (k, (e, x)) \<in> set d"
  by (induction d arbitrary: k x rule: oldest_entry.induct) (auto split: option.splits if_splits)

lemma oldest_entry_None [simp]: "oldest_entry d = None \<longleftrightarrow> d = []"
  by (induction d rule: oldest_entry.induct) (auto split: option.splits if_splits)

lemma oldest_entry_pop_less:
  assumes "oldest_entry d = Some (k, x)"
  shows "length (dict_pop k d) < length d"
proof -
  obtain v where "dict_get d k = Some v"
    using oldest_entry_in [OF assms] by (meson weak_map_of_SomeI)
  then show ?thesis by (rule length_dict_pop_less)
qed

text \<open>The eviction loop of \<^verbatim>\<open>put\<close>; \<^verbatim>\<open>min\<close> of an empty cache raises.\<close>

function evict :: "int \<Rightarrow> (string, 'e \<times> instant) dict \<Rightarrow> (authz_error, (string, 'e \<times> instant) dict) result" where
  "evict mx d =
     (if int (length d) \<le> mx then Inr d
      else (case oldest_entry d of None \<Rightarrow> Inl ValueError | Some (k, _) \<Rightarrow> evict mx (dict_pop k d)))"
  by auto
termination
  by (relation "measure (\<lambda>(mx, d). length d)") (auto simp: oldest_entry_pop_less)

declare evict.simps [simp del]

definition mi_put ::
  "memory_idempotency \<Rightarrow> instant \<Rightarrow> string \<Rightarrow> replay_entry \<Rightarrow> int \<Rightarrow> (authz_error, memory_idempotency) result" where
  "mi_put s now key entry ttl =
     res_bind (evict (mi_max s) (dict_set key (entry, now + ttl) (mi_cache s)))
       (\<lambda>c. Inr (s\<lparr>mi_cache := c\<rparr>))"

text \<open>The Redis store: a hash per key with an expiry. A key past its expiry is gone for every command.
  The hashes under this prefix are written by \<^verbatim>\<open>put\<close> only, so the status read back is decimal.\<close>

type_synonym redis_hashes = "(string, (string, string) dict \<times> instant) dict"

definition full_key :: "string \<Rightarrow> string" where
  "full_key key = ''authz:idem:'' @ key"

definition hgetall :: "redis_hashes \<Rightarrow> instant \<Rightarrow> string \<Rightarrow> (string, string) dict" where
  "hgetall s now full =
     (case dict_get s full of None \<Rightarrow> [] | Some (h, ex) \<Rightarrow> if ex \<le> now then [] else h)"

definition ri_get :: "redis_hashes \<Rightarrow> instant \<Rightarrow> string \<Rightarrow> replay_entry option \<times> redis_hashes" where
  "ri_get s now key =
     (let data = hgetall s now (full_key key) in
      if data = [] then (None, s)
      else (Some (digits_value 0 (dict_get_default data ''status'' ''0''),
                  dict_get_default data ''body'' '''',
                  dict_get_default data ''content_type'' ''application/json''), s))"

definition ri_put ::
  "redis_hashes \<Rightarrow> instant \<Rightarrow> string \<Rightarrow> replay_entry \<Rightarrow> int \<Rightarrow> (authz_error, redis_hashes) result" where
  "ri_put s now key entry ttl =
     (let (status, body, content_type) = entry; full = full_key key;
          h = dict_set ''content_type'' content_type
                (dict_set ''body'' body (dict_set ''status'' (nat_str status) (hgetall s now full))) in
      Inr (dict_set full (h, now + ttl) s))"

datatype idempotency_backend = MemoryIdempotency memory_idempotency | RedisIdempotency redis_hashes

definition build_idempotency_store :: "string option \<Rightarrow> bool \<Rightarrow> redis_hashes \<Rightarrow> idempotency_backend" where
  "build_idempotency_store redis_url redis_installed server =
     (if (case redis_url of None \<Rightarrow> True | Some u \<Rightarrow> u = '''') \<or> \<not> redis_installed
      then MemoryIdempotency \<lparr>mi_max = 1024, mi_cache = []\<rparr>
      else RedisIdempotency server)"

section \<open>The idempotency middleware\<close>

definition idempotency_key :: "http_request \<Rightarrow> string option" where
  "idempotency_key rq =
     (if rq_method rq \<noteq> ''POST'' then None
      else (case dict_get (rq_headers rq) ''Idempotency-Key'' of
              None \<Rightarrow> None | Some k \<Rightarrow> if k = '''' then None else Some k))"

definition cache_key :: "(string \<Rightarrow> string) \<Rightarrow> http_request \<Rightarrow> string \<Rightarrow> string" where
  "cache_key sha256 rq k = credential_partition sha256 rq @ '':'' @ rq_path rq @ '':'' @ k"

definition replay_response :: "replay_entry \<Rightarrow> http_resp" where
  "replay_response e =
     \<lparr>rs_status = fst e, rs_body = fst (snd e), rs_content_type = Some (snd (snd e)),
      rs_headers = [(''Idempotent-Replay'', ''true'')]\<rparr>"

definition entry_of :: "http_resp \<Rightarrow> replay_entry" where
  "entry_of r = (rs_status r, rs_body r,
     case rs_content_type r of None \<Rightarrow> ''application/json'' | Some c \<Rightarrow> c)"

text \<open>\<^verbatim>\<open>dispatch\<close>: the cache is read at \<open>now\<close> and written, after the handler, at \<open>later\<close>.\<close>

definition idempotency_dispatch ::
  "(string \<Rightarrow> string) \<Rightarrow> ('s \<Rightarrow> instant \<Rightarrow> string \<Rightarrow> replay_entry option \<times> 's) \<Rightarrow>
   ('s \<Rightarrow> instant \<Rightarrow> string \<Rightarrow> replay_entry \<Rightarrow> int \<Rightarrow> (authz_error, 's) result) \<Rightarrow> int \<Rightarrow> 'a handler \<Rightarrow>
     's \<Rightarrow> 'a \<Rightarrow> instant \<Rightarrow> instant \<Rightarrow> http_request \<Rightarrow> (authz_error, http_resp \<times> 's \<times> 'a) result" where
  "idempotency_dispatch sha256 get put ttl call_next s a now later rq =
     (case idempotency_key rq of
        None \<Rightarrow> (let (response, a') = call_next a rq in Inr (response, s, a'))
      | Some k \<Rightarrow>
          (case get s now (cache_key sha256 rq k) of
             (Some e, s') \<Rightarrow> Inr (replay_response e, s', a)
           | (None, s') \<Rightarrow>
               (let (response, a') = call_next a rq in
                if 200 \<le> rs_status response \<and> rs_status response < 500 then
                  res_bind (put s' later (cache_key sha256 rq k) (entry_of response) ttl)
                    (\<lambda>s''. Inr (response, s'', a'))
                else Inr (response, s', a'))))"

section \<open>Pagination\<close>

definition paginate_params :: "int \<Rightarrow> int \<Rightarrow> int \<times> int" where
  "paginate_params page page_size =
     (let p = max 1 page; n = max 1 (min 500 page_size) in ((p - 1) * n, n))"

section \<open>Runs of the middleware\<close>

text \<open>Requests one after the other, each with the time its cache lookup and its cache write happen at; the
  log keeps the state of the application before and after.\<close>

type_synonym 'a log_entry = "http_request \<times> instant \<times> instant \<times> 'a \<times> http_resp \<times> 'a"

fun idem_run ::
  "('s \<Rightarrow> 'a \<Rightarrow> instant \<Rightarrow> instant \<Rightarrow> http_request \<Rightarrow> (authz_error, http_resp \<times> 's \<times> 'a) result) \<Rightarrow> 's \<Rightarrow> 'a \<Rightarrow>
     (instant \<times> instant \<times> http_request) list \<Rightarrow> (authz_error, 'a log_entry list) result" where
  "idem_run dispatch s a [] = Inr []"
| "idem_run dispatch s a ((now, later, rq) # rqs) =
     (case dispatch s a now later rq of
        Inl e \<Rightarrow> Inl e
      | Inr (resp, s', a') \<Rightarrow>
          res_bind (idem_run dispatch s' a' rqs) (\<lambda>log. Inr ((rq, now, later, a, resp, a') # log)))"

fun chronological :: "instant \<Rightarrow> (instant \<times> instant \<times> http_request) list \<Rightarrow> bool" where
  "chronological t [] \<longleftrightarrow> True"
| "chronological t ((now, later, _) # rqs) \<longleftrightarrow> t \<le> now \<and> now \<le> later \<and> chronological later rqs"

text \<open>What is recorded of a handled request.\<close>

definition record_handled ::
  "(string \<Rightarrow> string) \<Rightarrow> http_request \<Rightarrow> instant \<Rightarrow> http_resp \<Rightarrow> (string \<times> instant \<times> replay_entry) list \<Rightarrow>
     (string \<times> instant \<times> replay_entry) list" where
  "record_handled sha rq later resp h =
     (case idempotency_key rq of
        None \<Rightarrow> h
      | Some k \<Rightarrow> if 200 \<le> rs_status resp \<and> rs_status resp < 500
                 then (cache_key sha rq k, later, entry_of resp) # h else h)"

definition is_replay ::
  "(string \<Rightarrow> string) \<Rightarrow> int \<Rightarrow> (string \<times> instant \<times> replay_entry) list \<Rightarrow> 'a log_entry \<Rightarrow> bool" where
  "is_replay sha ttl h l \<longleftrightarrow>
     (case l of (rq, now, later, a, resp, a') \<Rightarrow>
        a' = a \<and> (\<exists>r \<in> set h. Some (fst r) = map_option (cache_key sha rq) (idempotency_key rq) \<and>
                   now < fst (snd r) + ttl \<and> resp = replay_response (snd (snd r))))"

text \<open>A log is genuine when each response is the handler's own, or repeats an earlier handled response for
  the same partition, path and key, recorded less than \<open>ttl\<close> ago, with the handler not called.\<close>

fun genuine ::
  "(string \<Rightarrow> string) \<Rightarrow> int \<Rightarrow> 'a handler \<Rightarrow> (string \<times> instant \<times> replay_entry) list \<Rightarrow> 'a log_entry list \<Rightarrow> bool" where
  "genuine sha ttl handler h [] \<longleftrightarrow> True"
| "genuine sha ttl handler h ((rq, now, later, a, resp, a') # log) \<longleftrightarrow>
     is_replay sha ttl h (rq, now, later, a, resp, a') \<and> genuine sha ttl handler h log \<or>
     (resp, a') = handler a rq \<and> genuine sha ttl handler (record_handled sha rq later resp h) log"

text \<open>The contract of a store: reading forgets nothing that is alive, a write is read back until it expires,
  and a write to another key can at most make an entry disappear.\<close>

locale replay_store =
  fixes get :: "'s \<Rightarrow> instant \<Rightarrow> string \<Rightarrow> replay_entry option \<times> 's"
    and put :: "'s \<Rightarrow> instant \<Rightarrow> string \<Rightarrow> replay_entry \<Rightarrow> int \<Rightarrow> (authz_error, 's) result"
    and ok :: "int \<Rightarrow> instant \<Rightarrow> 's \<Rightarrow> bool"
  assumes ok_later: "\<lbrakk>ok ttl t s; t \<le> now\<rbrakk> \<Longrightarrow> ok ttl now s"
    and get_ok: "ok ttl t s \<Longrightarrow> ok ttl t (snd (get s now k))"
    and get_keeps: "\<lbrakk>ok ttl t s; now \<le> now'\<rbrakk> \<Longrightarrow>
      fst (get (snd (get s now k)) now' k') = fst (get s now' k')"
    and put_total: "\<lbrakk>ok ttl t s; t \<le> now; 0 < ttl\<rbrakk> \<Longrightarrow> \<exists>s'. put s now k e ttl = Inr s' \<and> ok ttl now s'"
    and put_get: "\<lbrakk>ok ttl t s; t \<le> now; 0 < ttl; put s now k e ttl = Inr s'; now \<le> now'\<rbrakk> \<Longrightarrow>
      fst (get s' now' k) = (if now' < now + ttl then Some e else None)"
    and put_other: "\<lbrakk>ok ttl t s; t \<le> now; 0 < ttl; put s now k e ttl = Inr s'; now \<le> now'; k' \<noteq> k\<rbrakk> \<Longrightarrow>
      fst (get s' now' k') = None \<or> fst (get s' now' k') = fst (get s now' k')"
begin

definition recorded :: "int \<Rightarrow> instant \<Rightarrow> 's \<Rightarrow> (string \<times> instant \<times> replay_entry) list \<Rightarrow> bool" where
  "recorded ttl t s h \<longleftrightarrow> ok ttl t s \<and>
     (\<forall>now k e. t \<le> now \<longrightarrow> fst (get s now k) = Some e \<longrightarrow>
        (\<exists>later. (k, later, e) \<in> set h \<and> now < later + ttl))"

lemma recorded_later: "\<lbrakk>recorded ttl t s h; t \<le> t'\<rbrakk> \<Longrightarrow> recorded ttl t' s h"
  unfolding recorded_def by (meson ok_later order_trans)

lemma recorded_get:
  assumes "recorded ttl t s h" "t \<le> now"
  shows "recorded ttl now (snd (get s now k)) h"
proof -
  have r: "recorded ttl now s h" by (rule recorded_later [OF assms])
  then have o: "ok ttl now s" by (simp add: recorded_def)
  show ?thesis
    using r get_ok [OF o] get_keeps [OF o] unfolding recorded_def by simp
qed

lemma recorded_put:
  assumes "recorded ttl t s h" "t \<le> now" "0 < ttl" "put s now k e ttl = Inr s'"
  shows "recorded ttl now s' ((k, now, e) # h)"
proof -
  have o: "ok ttl t s" using assms(1) by (simp add: recorded_def)
  have o': "ok ttl now s'" using put_total [OF o assms(2,3), of k e] assms(4) by auto
  have "\<exists>later. (k', later, e') \<in> set ((k, now, e) # h) \<and> now' < later + ttl"
    if n: "now \<le> now'" and g: "fst (get s' now' k') = Some e'" for now' k' e'
  proof (cases "k' = k")
    case True
    then show ?thesis
      using put_get [OF o assms(2,3,4) n] g by (auto split: if_splits)
  next
    case False
    then have "fst (get s now' k') = Some e'" using put_other [OF o assms(2,3,4) n] g by force
    moreover have "t \<le> now'" using n assms(2) by simp
    ultimately show ?thesis using assms(1) unfolding recorded_def by (metis list.set_intros(2))
  qed
  then show ?thesis using o' by (simp add: recorded_def)
qed

lemma dispatch_cases:
  assumes "recorded ttl t s h" "t \<le> now" "now \<le> later" "0 < ttl"
  obtains resp s' a' h' where
    "idempotency_dispatch sha get put ttl handler s a now later rq = Inr (resp, s', a')"
    "recorded ttl later s' h'"
    "is_replay sha ttl h (rq, now, later, a, resp, a') \<and> h' = h \<or>
     (resp, a') = handler a rq \<and> h' = record_handled sha rq later resp h"
proof -
  obtain resp a' where hd: "handler a rq = (resp, a')" by fastforce
  have rl: "recorded ttl later s h" using recorded_later assms(1-3) by simp
  show thesis
  proof (cases "idempotency_key rq")
    case None
    then show thesis
      using that [of resp s a' h] hd rl by (simp add: idempotency_dispatch_def record_handled_def)
  next
    case (Some k)
    let ?ck = "cache_key sha rq k"
    obtain r s1 where g: "get s now ?ck = (r, s1)" by fastforce
    have r1: "recorded ttl now s1 h" using recorded_get [OF assms(1,2), of ?ck] g by simp
    have rl1: "recorded ttl later s1 h" by (rule recorded_later [OF r1 assms(3)])
    show thesis
    proof (cases r)
      case (Some e)
      have "fst (get s now ?ck) = Some e" using g Some by simp
      then have "\<exists>l. (?ck, l, e) \<in> set h \<and> now < l + ttl"
        using assms(1,2) unfolding recorded_def by blast
      then obtain l where l: "(?ck, l, e) \<in> set h" "now < l + ttl" by blast
      have "is_replay sha ttl h (rq, now, later, a, replay_response e, a)"
        using \<open>idempotency_key rq = Some k\<close> bexI [OF _ l(1)] l(2) by (simp add: is_replay_def)
      then show thesis
        using that [of "replay_response e" s1 a h] g Some \<open>idempotency_key rq = Some k\<close> rl1
        by (simp add: idempotency_dispatch_def)
    next
      case None
      show thesis
      proof (cases "200 \<le> rs_status resp \<and> rs_status resp < 500")
        case True
        have o1: "ok ttl now s1" using r1 by (simp add: recorded_def)
        obtain s2 where p: "put s1 later ?ck (entry_of resp) ttl = Inr s2"
          using put_total [OF o1 assms(3,4), of ?ck "entry_of resp"] by blast
        show thesis
          using that [of resp s2 a' "(?ck, later, entry_of resp) # h"] p g None True hd
            \<open>idempotency_key rq = Some k\<close> recorded_put [OF r1 assms(3,4) p]
          by (simp add: idempotency_dispatch_def record_handled_def)
      next
        case False
        then show thesis
          using that [of resp s1 a' h] g None hd \<open>idempotency_key rq = Some k\<close> rl1
          by (auto simp: idempotency_dispatch_def record_handled_def)
      qed
    qed
  qed
qed

lemma run_genuine:
  "\<lbrakk>recorded ttl t s h; 0 < ttl; chronological t rqs\<rbrakk> \<Longrightarrow>
   \<exists>log. idem_run (idempotency_dispatch sha get put ttl handler) s a rqs = Inr log \<and>
         genuine sha ttl handler h log"
proof (induction rqs arbitrary: t s h a)
  case (Cons c rqs)
  obtain now later rq where c: "c = (now, later, rq)" by (cases c)
  then have t: "t \<le> now" "now \<le> later" and ch: "chronological later rqs" using Cons.prems(3) by auto
  obtain resp s' a' h' where d: "idempotency_dispatch sha get put ttl handler s a now later rq = Inr (resp, s', a')"
    and r: "recorded ttl later s' h'"
    and cs: "is_replay sha ttl h (rq, now, later, a, resp, a') \<and> h' = h \<or>
     (resp, a') = handler a rq \<and> h' = record_handled sha rq later resp h"
    using dispatch_cases [OF Cons.prems(1) t Cons.prems(2)] by metis
  obtain log where "idem_run (idempotency_dispatch sha get put ttl handler) s' a' rqs = Inr log"
    "genuine sha ttl handler h' log"
    using Cons.IH [OF r Cons.prems(2) ch] by blast
  then show ?case using c d cs by auto
qed simp

text \<open>A duplicate that arrives next, before the entry expires, is answered without the handler.\<close>

lemma duplicate_replayed:
  assumes "ok ttl t s" "t \<le> now" "now \<le> later" "0 < ttl"
    and "idempotency_key rq = Some k" "fst (get s now (cache_key sha rq k)) = None"
    and "handler a rq = (resp, a')" "200 \<le> rs_status resp" "rs_status resp < 500"
    and "idempotency_dispatch sha get put ttl handler s a now later rq = Inr (r, s', b)"
    and "idempotency_key rq' = Some k'" "cache_key sha rq' k' = cache_key sha rq k"
    and "later \<le> now'" "now' < later + ttl"
  shows "\<exists>s''. idempotency_dispatch sha get put ttl handler s' b now' later' rq' =
     Inr (replay_response (entry_of resp), s'', b) \<and> b = a'"
proof -
  let ?ck = "cache_key sha rq k"
  obtain s1 where g: "get s now ?ck = (None, s1)" using assms(6) by (metis prod.collapse)
  have o1: "ok ttl now s1" using get_ok [OF ok_later [OF assms(1,2)], of now ?ck] g by simp
  obtain s2 where p: "put s1 later ?ck (entry_of resp) ttl = Inr s2"
    using put_total [OF o1 assms(3,4), of ?ck "entry_of resp"] by blast
  have s': "s' = s2" "b = a'" using assms(5,7-10) g p by (auto simp: idempotency_dispatch_def)
  have "fst (get s2 now' ?ck) = Some (entry_of resp)"
    using put_get [OF o1 assms(3,4) p assms(13)] assms(14) by simp
  then show ?thesis
    using assms(11,12) s' by (cases "get s2 now' ?ck") (auto simp: idempotency_dispatch_def)
qed

end

section \<open>The two stores keep the contract\<close>

definition mi_ok :: "int \<Rightarrow> instant \<Rightarrow> memory_idempotency \<Rightarrow> bool" where
  "mi_ok ttl t s \<longleftrightarrow> dict_ok (mi_cache s) \<and> 1 \<le> mi_max s \<and> int (length (mi_cache s)) \<le> mi_max s \<and>
     (\<forall>(k, (e, x)) \<in> set (mi_cache s). x \<le> t + ttl)"

lemma mi_get_fst:
  "fst (mi_get s now k) =
     (case dict_get (mi_cache s) k of None \<Rightarrow> None | Some (e, x) \<Rightarrow> if x \<le> now then None else Some e)"
  by (auto simp: mi_get_def split: option.splits)

lemma mi_get_snd: "mi_cache (snd (mi_get s now k)) = mi_cache s \<or>
    mi_cache (snd (mi_get s now k)) = dict_pop k (mi_cache s) \<and> fst (mi_get s now k) = None"
  and mi_get_max: "mi_max (snd (mi_get s now k)) = mi_max s"
  by (auto simp: mi_get_def split: option.splits)

lemma oldest_not_last:
  assumes "d \<noteq> []" "\<forall>(k, (e, x)) \<in> set d. x \<le> y" "oldest_entry (d @ [(k, (e, y))]) = Some (k', x')"
  shows "k' \<in> fst ` set d"
  using assms
proof (induction d arbitrary: k' x' rule: oldest_entry.induct)
  case (2 k0 e0 x0 d)
  show ?case
  proof (cases "d = []")
    case True
    then show ?thesis using 2 by (auto split: if_splits)
  next
    case False
    obtain k1 x1 where o: "oldest_entry (d @ [(k, (e, y))]) = Some (k1, x1)"
      using oldest_entry_None [of "d @ [(k, (e, y))]"] by fastforce
    then have "k1 \<in> fst ` set d" using 2 False by auto
    then show ?thesis using 2(4) o by (auto split: if_splits)
  qed
qed simp

text \<open>One write into a full cache evicts one entry, and never the one just written.\<close>

lemma evict_after_put:
  fixes k :: string and e :: replay_entry
  assumes "mi_ok ttl t s" "t \<le> now" "0 < ttl"
  defines "d \<equiv> dict_set k (e, now + ttl) (mi_cache s)"
  shows "\<exists>c. evict (mi_max s) d = Inr c \<and> (c = d \<or> (\<exists>k'. k' \<noteq> k \<and> c = dict_pop k' d)) \<and>
    int (length c) \<le> mi_max s"
proof (cases "int (length d) \<le> mi_max s")
  case True
  then show ?thesis by (simp add: evict.simps [of _ d])
next
  case False
  have fresh: "dict_get (mi_cache s) k = None"
  proof (rule ccontr)
    assume "dict_get (mi_cache s) k \<noteq> None"
    then have "length d = length (mi_cache s)"
      unfolding d_def by (rule length_dict_set_present)
    then show False using False assms(1) by (simp add: mi_ok_def)
  qed
  then have d: "d = mi_cache s @ [(k, (e, now + ttl))]" by (simp add: d_def dict_set_fresh)
  have ne: "mi_cache s \<noteq> []" using False assms(1) d by (auto simp: mi_ok_def)
  obtain k' x' where o: "oldest_entry d = Some (k', x')"
    using oldest_entry_None [of d] unfolding d by (cases "oldest_entry (mi_cache s @ [(k, e, now + ttl)])") auto
  have "\<forall>(k, (e, x)) \<in> set (mi_cache s). x \<le> now + ttl" using assms(1,2) by (force simp: mi_ok_def)
  then have k': "k' \<in> fst ` set (mi_cache s)" using oldest_not_last [OF ne] o unfolding d by blast
  have nk: "k' \<noteq> k" using k' fresh by (auto simp: map_of_eq_None_iff)
  have len: "int (length (dict_pop k' d)) \<le> mi_max s"
    using oldest_entry_pop_less [OF o] d assms(1) by (simp add: mi_ok_def)
  then have "evict (mi_max s) d = Inr (dict_pop k' d)"
    by (subst evict.simps, simp add: False o, subst evict.simps, simp)
  then show ?thesis using nk len by blast
qed

lemma mi_put_cases:
  assumes "mi_ok ttl t s" "t \<le> now" "0 < ttl"
  obtains c where "mi_put s now k e ttl = Inr (s\<lparr>mi_cache := c\<rparr>)" "int (length c) \<le> mi_max s"
    "c = dict_set k (e, now + ttl) (mi_cache s) \<or>
     (\<exists>k'. k' \<noteq> k \<and> c = dict_pop k' (dict_set k (e, now + ttl) (mi_cache s)))"
proof -
  let ?d = "dict_set k (e, now + ttl) (mi_cache s)"
  obtain c where c: "evict (mi_max s) ?d = Inr c" "int (length c) \<le> mi_max s"
    "c = ?d \<or> (\<exists>k'. k' \<noteq> k \<and> c = dict_pop k' ?d)"
    using evict_after_put [OF assms, of k e] by blast
  then have "mi_put s now k e ttl = Inr (s\<lparr>mi_cache := c\<rparr>)" by (simp add: mi_put_def)
  then show thesis using c(2,3) by (rule that)
qed

lemma mi_ok_put:
  assumes "mi_ok ttl t s" "t \<le> now" "int (length c) \<le> mi_max s"
    and "c = dict_set k (e, now + ttl) (mi_cache s) \<or>
     (\<exists>k'. k' \<noteq> k \<and> c = dict_pop k' (dict_set k (e, now + ttl) (mi_cache s)))"
  shows "mi_ok ttl now (s\<lparr>mi_cache := c\<rparr>)"
proof -
  let ?d = "dict_set k (e, now + ttl) (mi_cache s)"
  have "dict_ok ?d" using assms(1) by (simp add: mi_ok_def)
  moreover have "\<forall>(k, (e, x)) \<in> set ?d. x \<le> now + ttl"
    using assms(1,2) set_update_subset [of k "(e, now + ttl)" "mi_cache s"] by (force simp: mi_ok_def)
  moreover have "set c \<subseteq> set ?d" using assms(4) by (auto simp: AList.delete_eq)
  moreover have "dict_ok c" using assms(4) \<open>dict_ok ?d\<close> by auto
  ultimately show ?thesis using assms(1,3) unfolding mi_ok_def by auto
qed

interpretation memory_replay: replay_store mi_get mi_put mi_ok
proof
  fix ttl t now :: int and s assume "mi_ok ttl t s" "t \<le> now"
  then show "mi_ok ttl now s" by (force simp: mi_ok_def)
next
  fix ttl t now :: int and s k assume o: "mi_ok ttl t s"
  show "mi_ok ttl t (snd (mi_get s now k))"
    using mi_get_snd [of s now k]
  proof
    assume "mi_cache (snd (mi_get s now k)) = mi_cache s"
    then show ?thesis using o by (simp add: mi_ok_def mi_get_max)
  next
    assume "mi_cache (snd (mi_get s now k)) = dict_pop k (mi_cache s) \<and> fst (mi_get s now k) = None"
    moreover have "set (dict_pop k (mi_cache s)) \<subseteq> set (mi_cache s)" by (auto simp: AList.delete_eq)
    ultimately show ?thesis
      using o length_delete_le [of k "mi_cache s"] by (force simp: mi_ok_def mi_get_max)
  qed
next
  fix ttl t now now' :: int and s k k' assume "mi_ok ttl t s" "now \<le> now'"
  then show "fst (mi_get (snd (mi_get s now k)) now' k') = fst (mi_get s now' k')"
    by (auto simp: mi_get_fst mi_get_def split: option.splits)
next
  fix ttl t now :: int and s k e assume o: "mi_ok ttl t s" "t \<le> now" "0 < ttl"
  obtain c where c: "mi_put s now k e ttl = Inr (s\<lparr>mi_cache := c\<rparr>)" "int (length c) \<le> mi_max s"
    "c = dict_set k (e, now + ttl) (mi_cache s) \<or>
     (\<exists>k'. k' \<noteq> k \<and> c = dict_pop k' (dict_set k (e, now + ttl) (mi_cache s)))"
    using mi_put_cases [OF o] .
  show "\<exists>s'. mi_put s now k e ttl = Inr s' \<and> mi_ok ttl now s'"
    using c(1) mi_ok_put [OF o(1,2) c(2,3)] by blast
next
  fix ttl t now now' :: int and s k e s' assume o: "mi_ok ttl t s" "t \<le> now" "0 < ttl"
    and p: "mi_put s now k e ttl = Inr s'" and "now \<le> now'"
  show "fst (mi_get s' now' k) = (if now' < now + ttl then Some e else None)"
    by (rule mi_put_cases [OF o, of k e]) (use p in \<open>auto simp: mi_get_fst\<close>)
next
  fix ttl t now now' :: int and s k e s' k' assume o: "mi_ok ttl t s" "t \<le> now" "0 < ttl"
    and p: "mi_put s now k e ttl = Inr s'" and "now \<le> now'" and k: "k' \<noteq> k"
  show "fst (mi_get s' now' k') = None \<or> fst (mi_get s' now' k') = fst (mi_get s now' k')"
    by (rule mi_put_cases [OF o, of k e]) (use p k in \<open>auto simp: mi_get_fst\<close>)
qed

interpretation redis_replay: replay_store ri_get ri_put "\<lambda>ttl t s. True"
proof
  fix ttl t now now' :: int and s k k'
  show "fst (ri_get (snd (ri_get s now k)) now' k') = fst (ri_get s now' k')"
    by (simp add: ri_get_def Let_def)
next
  fix ttl t now :: int and s k e
  show "\<exists>s'. ri_put s now k e ttl = Inr s' \<and> True" by (cases e) (simp add: ri_put_def Let_def)
next
  fix ttl t now now' :: int and s k e s' assume p: "ri_put s now k e ttl = Inr s'" and n: "now \<le> now'"
  obtain st b ct where e: "e = (st, b, ct)" by (cases e)
  have ne: "dict_set a v d \<noteq> []" for a :: string and v :: string and d by (cases d) auto
  show "fst (ri_get s' now' k) = (if now' < now + ttl then Some e else None)"
    using p e by (auto simp: ri_put_def ri_get_def hgetall_def Let_def ne split: if_splits)
next
  fix ttl t now now' :: int and s k e s' k' assume p: "ri_put s now k e ttl = Inr s'" and k: "k' \<noteq> k"
  obtain st b ct where e: "e = (st, b, ct)" by (cases e)
  show "fst (ri_get s' now' k') = None \<or> fst (ri_get s' now' k') = fst (ri_get s now' k')"
    using p e k by (auto simp: ri_put_def ri_get_def hgetall_def full_key_def Let_def)
qed auto

section \<open>Properties\<close>



text \<open>The credential partition keeps callers apart when no API key or bearer token holds the separator; the
  field markers alone do not achieve that, since values can shift across them.\<close>

definition credentials :: "http_request \<Rightarrow> string \<times> string \<times> string" where
  "credentials rq =
     (dict_get_default (rq_headers rq) ''X-API-Key'' '''',
      dict_get_default (rq_headers rq) ''Authorization'' '''',
      dict_get_default (rq_cookies rq) ''authz_session'' '''')"

lemma bar_split:
  "\<lbrakk>CHR ''|'' \<notin> set a; CHR ''|'' \<notin> set a'\<rbrakk> \<Longrightarrow>
   a @ CHR ''|'' # s = a' @ CHR ''|'' # s' \<longleftrightarrow> a = a' \<and> s = s'"
proof (induction a arbitrary: a')
  case Nil
  then show ?case by (cases a') auto
next
  case (Cons c a)
  then show ?case by (cases a') auto
qed

lemma credential_payload_inject:
  assumes "\<forall>q \<in> {rq, rq'}. CHR ''|'' \<notin> set (fst (credentials q)) \<and> CHR ''|'' \<notin> set (fst (snd (credentials q)))"
  shows "credential_payload rq = credential_payload rq' \<longleftrightarrow> credentials rq = credentials rq'"
  using assms by (simp add: credential_payload_def credentials_def bar_split)

lemma credential_partition_collides:
  "\<exists>rq rq'. credentials rq \<noteq> credentials rq' \<and>
     (\<forall>sha256. credential_partition sha256 rq = credential_partition sha256 rq')"
proof -
  let ?rq = "\<lparr>rq_method = ''POST'', rq_path = '''', rq_headers = [(''X-API-Key'', ''k|a=foo'')], rq_cookies = [],
    rq_client = None\<rparr>"
  let ?rq' = "\<lparr>rq_method = ''POST'', rq_path = '''',
    rq_headers = [(''X-API-Key'', ''k''), (''Authorization'', ''foo|a='')], rq_cookies = [], rq_client = None\<rparr>"
  have "credentials ?rq \<noteq> credentials ?rq'" by (simp add: credentials_def dict_get_default_def)
  moreover have "\<forall>sha256. credential_partition sha256 ?rq = credential_partition sha256 ?rq'"
    by (simp add: credential_partition_def credential_payload_def dict_get_default_def)
  ultimately show ?thesis by blast
qed

end
