(* ===== verification/Callers.thy ===== *)
theory Callers
  imports OAuth_Resource Sessions Settings Idempotency
begin

text \<open>
  Who is calling: the authentication dependencies of \<^verbatim>\<open>authz_service/dependencies.py\<close>
  (\<^verbatim>\<open>require_caller\<close> and the scope and tenant checks built on it). The services they call are the models
  of the other theories; what they keep between requests (API keys, sessions, the resolver with its
  key cache, the network) is the record \<open>auth_state\<close>.
\<close>

section \<open>Errors of the service\<close>

text \<open>An \<^verbatim>\<open>HTTPException\<close> with its status and its error (or reason) code; an exception no handler catches
  becomes a 500.\<close>

datatype http_error = HTTPException nat string | InternalError

section \<open>Credentials\<close>

definition jwt_char :: "char \<Rightarrow> bool" where
  "jwt_char c \<longleftrightarrow>
     (let n = of_char c :: nat in
      65 \<le> n \<and> n \<le> 90 \<or> 97 \<le> n \<and> n \<le> 122 \<or> 48 \<le> n \<and> n \<le> 57 \<or> c \<in> {CHR ''_'', CHR ''-'', CHR ''=''})"

text \<open>\<^verbatim>\<open>_JWT_SHAPE_RE\<close>: three non-empty segments; \<^verbatim>\<open>$\<close> also matches before a trailing newline.\<close>

definition looks_like_jwt :: "string \<Rightarrow> bool" where
  "looks_like_jwt s \<longleftrightarrow>
     (let body = (if s \<noteq> [] \<and> last s = char_of (10 :: nat) then butlast s else s);
          parts = split_on CHR ''.'' body in
      length parts = 3 \<and> list_all (\<lambda>p. p \<noteq> [] \<and> list_all jwt_char p) parts)"

datatype credential = ApiKeyCred string | JwtCred string

definition bearer_credential :: "string option \<Rightarrow> credential option" where
  "bearer_credential authorization =
     (case authorization of
        None \<Rightarrow> None
      | Some a \<Rightarrow>
          if starts_with ''bearer '' (lower a) then
            (let value = strip (drop 6 a) in
             if value = '''' then None
             else Some (if looks_like_jwt value then JwtCred value else ApiKeyCred value))
          else None)"

definition extract_credential :: "string option \<Rightarrow> string option \<Rightarrow> credential option" where
  "extract_credential authorization x_api_key =
     (case x_api_key of
        Some k \<Rightarrow> if k \<noteq> '''' then Some (ApiKeyCred k) else bearer_credential authorization
      | None \<Rightarrow> bearer_credential authorization)"

definition extract_key :: "string option \<Rightarrow> string option \<Rightarrow> string option" where
  "extract_key authorization x_api_key =
     (case extract_credential authorization x_api_key of
        None \<Rightarrow> None | Some (ApiKeyCred v) \<Rightarrow> Some v | Some (JwtCred v) \<Rightarrow> Some v)"

definition builtin_key :: "ident \<Rightarrow> string \<Rightarrow> string \<Rightarrow> api_key_record" where
  "builtin_key kid name prefix =
     \<lparr>akr_id = kid, akr_name = name, akr_key_prefix = prefix, akr_scopes = [SCOPE_ADMIN],
      akr_tenant_id = None, akr_status = ''active'', akr_expires_at = None, akr_last_used_at = None,
      akr_rotates = None\<rparr>"

definition env_key_record :: "string \<Rightarrow> string list \<Rightarrow> api_key_record option" where
  "env_key_record candidate env_keys =
     (if candidate \<in> set env_keys then Some (builtin_key ''env'' ''env-bootstrap-key'' (take 8 candidate))
      else None)"

definition resolve_api_key ::
  "(string \<Rightarrow> string) \<Rightarrow> settings \<Rightarrow> api_key_row list \<Rightarrow> instant \<Rightarrow> string \<Rightarrow>
     api_key_record option \<times> api_key_row list" where
  "resolve_api_key hash st keys now candidate =
     (case env_key_record candidate (cfg_api_keys st) of
        Some r \<Rightarrow> (Some r, keys)
      | None \<Rightarrow> ak_find_active hash keys now candidate)"

definition has_any_db_key :: "api_key_row list \<Rightarrow> bool" where
  "has_any_db_key keys = list_ex (\<lambda>k. akr_status k = ''active'') (ak_list_keys keys)"

definition dev_bypass_active :: "settings \<Rightarrow> api_key_row list \<Rightarrow> jwt_resolver option \<Rightarrow> bool" where
  "dev_bypass_active st keys resolver =
     (if \<not> cfg_dev_mode st then False
      else if cfg_api_keys st \<noteq> [] then False
      else if has_any_db_key keys then False
      else if (case resolver of None \<Rightarrow> False | Some r \<Rightarrow> jr_configs r \<noteq> []) then False
      else if oauth_resource_is_enabled st then False
      else \<not> admin_oidc_is_enabled st)"

definition dev_bypass_principal :: principal where
  "dev_bypass_principal = KeyPrincipal (builtin_key ''dev'' ''dev-mode'' ''dev'')"

section \<open>The caller\<close>

record 'net auth_state =
  au_keys :: "api_key_row list"
  au_sessions :: session_tables
  au_resolver :: "jwt_resolver option"
  au_net :: 'net

text \<open>What the service calls outside the repository: the hash of API keys and signing keys, PyJWT, the
  HTTP client, the PEM parser.\<close>

record ('key, 'net) auth_env =
  ae_hash :: "string \<Rightarrow> string"
  ae_repr :: "pyval \<Rightarrow> string"
  ae_lib :: "(string, 'key) jwt_lib"
  ae_http :: "'net http_get"
  ae_rsa :: rsa_public

definition SESSION_COOKIE_NAME :: string where
  "SESSION_COOKIE_NAME = ''authz_session''"

definition resolve_session ::
  "session_tables \<Rightarrow> instant \<Rightarrow> http_request \<Rightarrow> session_principal option \<times> session_tables" where
  "resolve_session ss now rq =
     (case dict_get (rq_cookies rq) SESSION_COOKIE_NAME of
        None \<Rightarrow> (None, ss)
      | Some sid \<Rightarrow>
          if sid = '''' then (None, ss)
          else (case lookup_session ss now sid of
                  (None, ss') \<Rightarrow> (None, ss')
                | (Some a, ss') \<Rightarrow> (Some (session_to_principal a), ss')))"

definition MUTATING_METHODS :: "string set" where
  "MUTATING_METHODS = {''POST'', ''PUT'', ''PATCH'', ''DELETE''}"

definition enforce_csrf :: "http_request \<Rightarrow> session_principal \<Rightarrow> (http_error, unit) result" where
  "enforce_csrf rq p =
     (if rq_method rq \<notin> MUTATING_METHODS then Inr ()
      else if dict_get_default (rq_headers rq) ''X-CSRF-Token'' '''' \<noteq> sp_csrf_token p
      then Inl (HTTPException 403 ''csrf_token_required'')
      else Inr ())"

definition require_caller ::
  "('key, 'net) auth_env \<Rightarrow> settings \<Rightarrow> instant \<Rightarrow> http_request \<Rightarrow> 'net auth_state \<Rightarrow>
     (http_error, principal) result \<times> 'net auth_state" where
  "require_caller env st now rq au =
     (if dev_bypass_active st (au_keys au) (au_resolver au) then (Inr dev_bypass_principal, au)
      else
        (case extract_credential (dict_get (rq_headers rq) ''Authorization'') (dict_get (rq_headers rq) ''X-API-Key'') of
           Some (ApiKeyCred v) \<Rightarrow>
             (case resolve_api_key (ae_hash env) st (au_keys au) now v of
                (Some r, ks) \<Rightarrow> (Inr (KeyPrincipal r), au\<lparr>au_keys := ks\<rparr>)
              | (None, ks) \<Rightarrow> (Inl (HTTPException 401 ''missing_or_invalid_api_key''), au\<lparr>au_keys := ks\<rparr>))
         | Some (JwtCred v) \<Rightarrow>
             (case au_resolver au of
                None \<Rightarrow> (Inl (HTTPException 401 ''invalid_token''), au)
              | Some jr \<Rightarrow>
                  (let (r, jr', net') = resolve_token (ae_repr env) (ae_lib env) (ae_http env) (ae_hash env)
                         (ae_rsa env) now jr (au_net au) v;
                       au' = au\<lparr>au_resolver := Some jr', au_net := net'\<rparr> in
                   (case r of
                      Inr p \<Rightarrow> (Inr (Token p), au')
                    | Inl JWTValidationError \<Rightarrow> (Inl (HTTPException 401 ''invalid_token''), au')
                    | Inl _ \<Rightarrow> (Inl InternalError, au'))))
         | None \<Rightarrow>
             (case resolve_session (au_sessions au) now rq of
                (Some p, ss) \<Rightarrow>
                  (res_bind (enforce_csrf rq p) (\<lambda>_. Inr (Session p)), au\<lparr>au_sessions := ss\<rparr>)
              | (None, ss) \<Rightarrow>
                  (Inl (HTTPException 401 ''missing_or_invalid_api_key''), au\<lparr>au_sessions := ss\<rparr>))))"

definition require_api_key ::
  "('key, 'net) auth_env \<Rightarrow> settings \<Rightarrow> instant \<Rightarrow> http_request \<Rightarrow> 'net auth_state \<Rightarrow>
     (http_error, api_key_record) result \<times> 'net auth_state" where
  "require_api_key env st now rq au =
     (let (r, au') = require_caller env st now rq au in
      (res_bind r (\<lambda>p. case p of KeyPrincipal k \<Rightarrow> Inr k
         | _ \<Rightarrow> Inl (HTTPException 401 ''missing_or_invalid_api_key'')), au'))"

section \<open>Scopes and tenants\<close>

definition require_surface :: "string \<Rightarrow> principal \<Rightarrow> (http_error, principal) result" where
  "require_surface surface p =
     (if \<not> principal_allows p surface None then Inl (HTTPException 403 ''scope_required'') else Inr p)"

definition require_admin :: "principal \<Rightarrow> (http_error, principal) result" where
  "require_admin p = require_surface SCOPE_ADMIN p"

definition require_runtime :: "principal \<Rightarrow> (http_error, principal) result" where
  "require_runtime p = require_surface SCOPE_RUNTIME p"

definition require_admin_scope :: "api_key_record \<Rightarrow> (http_error, api_key_record) result" where
  "require_admin_scope k =
     (if \<not> scope_allows (akr_scopes k) SCOPE_ADMIN None then Inl (HTTPException 403 ''scope_required'') else Inr k)"

definition require_runtime_scope :: "api_key_record \<Rightarrow> (http_error, api_key_record) result" where
  "require_runtime_scope k =
     (if \<not> scope_allows (akr_scopes k) SCOPE_RUNTIME None then Inl (HTTPException 403 ''scope_required'') else Inr k)"

definition enforce_tenant_scope_binding :: "principal \<Rightarrow> ident \<Rightarrow> (http_error, unit) result" where
  "enforce_tenant_scope_binding p tid =
     (if (case principal_tenant_id p of None \<Rightarrow> False | Some pin \<Rightarrow> pin \<noteq> tid)
      then Inl (HTTPException 403 ''tenant_scope_mismatch'')
      else if \<not> tenant_scope_matches (principal_scopes p) tid
      then Inl (HTTPException 403 ''tenant_scope_mismatch'')
      else Inr ())"

definition require_tenant_scope :: "ident \<Rightarrow> principal \<Rightarrow> (http_error, principal) result" where
  "require_tenant_scope tid p =
     (if \<not> principal_allows p SCOPE_ADMIN (Some tid) then Inl (HTTPException 403 ''scope_required'') else Inr p)"

section \<open>The resolver of the service\<close>

text \<open>\<^verbatim>\<open>get_jwt_resolver\<close>: the configured issuers (\<open>issuers\<close>) and, with the authorization server enabled, the
  service itself.\<close>

definition build_jwt_resolver ::
  "settings \<Rightarrow> issuer_config list \<Rightarrow> signing_service \<Rightarrow> (authz_error, jwt_resolver option) result" where
  "build_jwt_resolver st issuers keys =
     (let self = (if cfg_oauth_as_enabled st \<and> cfg_oauth_issuer st \<noteq> '''' then Some (cfg_oauth_issuer st) else None);
          issuers' = (case self of
             None \<Rightarrow> issuers
           | Some i \<Rightarrow> if list_ex (\<lambda>c. ic_issuer c = i) issuers then issuers
               else issuers @ [\<lparr>ic_issuer = i,
                   ic_audience = [if cfg_oauth_audience st \<noteq> '''' then cfg_oauth_audience st else cfg_oauth_issuer st],
                   ic_jwks_url = None, ic_algorithms = [''RS256''], ic_leeway_seconds = 30,
                   ic_scope_claim = ''scope'', ic_scope_separator = Some CHR '' '', ic_scope_map = [],
                   ic_tenant_claim = Some ''tenant_id'', ic_tenant_prefix = ''''\<rparr>]) in
      if issuers' = [] then Inr None
      else res_bind (jwt_resolver_init issuers' (1000000 * cfg_oauth_jwks_cache_ttl_seconds st) self
             (map_option (\<lambda>_. keys) self)) (\<lambda>r. Inr (Some r)))"

section \<open>Lemmas\<close>

lemma resolve_api_key_Some:
  assumes "resolve_api_key hash st keys now v = (Some r, ks)"
  shows "v \<in> set (cfg_api_keys st) \<and> r = builtin_key ''env'' ''env-bootstrap-key'' (take 8 v) \<or>
    (\<exists>row \<in> set keys. ak_key_hash row = hash v \<and> ak_status row = ''active'' \<and>
       (\<forall>e. ak_expires_at row = Some e \<longrightarrow> now \<le> e) \<and> r = ak_to_record (row\<lparr>ak_last_used_at := Some now\<rparr>))"
  using assms
  by (auto simp: resolve_api_key_def env_key_record_def ak_find_active_def row_usable_def Let_def
      not_less split: if_splits option.splits dest!: tbl_get_Some)

lemma resolve_session_Some:
  assumes "resolve_session ss now rq = (Some p, ss')"
  shows "\<exists>row \<in> set (sn_sessions ss). dict_get (rq_cookies rq) SESSION_COOKIE_NAME = Some (asr_id row) \<and>
    now \<le> asr_expires_at row \<and> sp_scopes p = parse_scopes (asr_scopes row) \<and>
    sp_subject p = asr_subject row \<and> sp_csrf_token p = asr_csrf_token row"
  using assms
  by (auto simp: resolve_session_def lookup_session_def session_to_principal_def not_less
      split: if_splits option.splits dest!: tbl_get_Some)

lemma enforce_csrf_Inr:
  "enforce_csrf rq p = Inr u \<longleftrightarrow>
     (rq_method rq \<in> MUTATING_METHODS \<longrightarrow>
        dict_get_default (rq_headers rq) ''X-CSRF-Token'' '''' = sp_csrf_token p)"
  by (auto simp: enforce_csrf_def)

lemma dev_bypass_conditions:
  "dev_bypass_active st keys resolver \<longleftrightarrow>
     cfg_dev_mode st \<and> cfg_api_keys st = [] \<and> (\<forall>row \<in> set keys. ak_status row \<noteq> ''active'') \<and>
     (\<forall>r. resolver = Some r \<longrightarrow> jr_configs r = []) \<and> \<not> oauth_resource_is_enabled st \<and>
     \<not> admin_oidc_is_enabled st"
  by (auto simp: dev_bypass_active_def has_any_db_key_def ak_list_keys_def ak_to_record_def list_ex_iff
      split: option.splits)

lemma load_settings_dev_mode:
  assumes "load_settings environ = Inr st" and "cfg_dev_mode st"
  shows "\<exists>v. dict_get environ ''AUTHZ_DEV_MODE'' = Some v \<and> lower v = ''true''"
proof -
  have "env_flag environ ''AUTHZ_DEV_MODE'' ''false''"
    using assms by (auto simp: load_settings_def res_bind_eq_Inr)
  moreover have "lower ''false'' \<noteq> ''true''" by (simp add: lower_def lower_char_def)
  ultimately show ?thesis
    by (auto simp: env_flag_def dict_get_default_def split: option.splits)
qed

section \<open>Properties\<close>


definition sample_env :: "(unit, unit) auth_env" where
  "sample_env =
     \<lparr>ae_hash = (\<lambda>x. x), ae_repr = (\<lambda>_. []),
      ae_lib = \<lparr>jl_header = (\<lambda>_. None), jl_peek = (\<lambda>_. None), jl_key = (\<lambda>_. None),
                jl_decode = (\<lambda>_ _ _ _ _ _ _. InvalidToken)\<rparr>,
      ae_http = (\<lambda>net _. (None, net)), ae_rsa = (\<lambda>_. Inl PemError)\<rparr>"

definition sample_key :: api_key_row where
  "sample_key =
     \<lparr>ak_id = ''k1'', ak_name = ''ci'', ak_key_hash = ''secret'', ak_key_prefix = ''sec'', ak_scopes = ''runtime'',
      ak_tenant_id = None, ak_status = ''active'', ak_expires_at = Some 9, ak_last_used_at = None,
      ak_rotates = None\<rparr>"

definition sample_auth :: "unit auth_state" where
  "sample_auth =
     \<lparr>au_keys = [sample_key], au_sessions = \<lparr>sn_attempts = [], sn_sessions = []\<rparr>, au_resolver = None,
      au_net = ()\<rparr>"

definition sample_request :: http_request where
  "sample_request =
     \<lparr>rq_method = ''POST'', rq_path = ''/v1/authorize'', rq_headers = [(''X-API-Key'', ''secret'')],
      rq_cookies = [], rq_client = None\<rparr>"

lemma sample_caller:
  assumes "\<not> cfg_dev_mode st" "cfg_api_keys st = []"
  shows "\<exists>au'. require_caller sample_env st 5 sample_request sample_auth =
     (Inr (KeyPrincipal (ak_to_record (sample_key\<lparr>ak_last_used_at := Some 5\<rparr>))), au')"
  using assms
  by (simp add: require_caller_def dev_bypass_active_def sample_request_def sample_auth_def sample_env_def
      extract_credential_def resolve_api_key_def env_key_record_def ak_find_active_def tbl_get_def
      row_usable_def sample_key_def Let_def)


end
