(* ===== verification/Engine.thy ===== *)
theory Engine
  imports Policies
begin

text \<open>
  The policy decision point, \<^verbatim>\<open>authzkit/rbac/checker.py\<close>, over the protocol of its repository,
  \<^verbatim>\<open>authzkit/rbac/repository.py\<close>. The protocol is a record of functions, one per method the engine
  may call, so that the same engine runs on every store; the locale \<open>rbac_contract\<close> states what a
  store promises, and the facts that follow from the promises are proved in it once.

  \<^verbatim>\<open>set[str] | AuthorizeDecision\<close> is a sum: \<open>Inl\<close> a denial, \<open>Inr\<close> a set of permission names.
\<close>

section \<open>The repository protocol\<close>

record rbac_repository =
  repo_get_role :: "ident \<Rightarrow> role option"
  repo_get_role_by_name :: "ident option \<Rightarrow> ident option \<Rightarrow> string \<Rightarrow> role option"
  repo_list_role_permissions :: "ident \<Rightarrow> permission list"
  repo_list_application_permissions :: "ident option \<Rightarrow> permission list"
  repo_resolve_user_permissions :: "ident \<Rightarrow> ident \<Rightarrow> ident \<Rightarrow> string set"
  repo_resolve_agent_permissions :: "ident \<Rightarrow> ident \<Rightarrow> ident \<Rightarrow> string set"
  repo_resolve_tenant_permissions :: "ident \<Rightarrow> ident \<Rightarrow> string set"
  repo_get_tenant_feature_flags :: "ident \<Rightarrow> ident option \<Rightarrow> pydict"
  repo_is_tenant_active :: "ident \<Rightarrow> bool"
  repo_is_application_active :: "ident \<Rightarrow> bool"
  repo_is_user_membership_active :: "ident \<Rightarrow> ident \<Rightarrow> ident \<Rightarrow> bool"
  repo_is_agent_active :: "ident \<Rightarrow> ident \<Rightarrow> ident \<Rightarrow> bool"

section \<open>Decisions\<close>

definition SUBJECT_USER :: string where
  "SUBJECT_USER = ''user''"

definition SUBJECT_AGENT :: string where
  "SUBJECT_AGENT = ''agent''"

record authorize_decision =
  dec_allowed :: bool
  dec_decision :: string
  dec_reason :: string
  dec_required :: string
  dec_matched :: "string set"

definition allow :: "string \<Rightarrow> string set \<Rightarrow> authorize_decision" where
  "allow required matched =
     \<lparr>dec_allowed = True, dec_decision = ''allow'', dec_reason = ''permission_granted'',
      dec_required = required, dec_matched = (if matched = {} then {required} else matched)\<rparr>"

definition deny :: "string \<Rightarrow> string \<Rightarrow> authorize_decision" where
  "deny reason required =
     \<lparr>dec_allowed = False, dec_decision = ''deny'', dec_reason = reason,
      dec_required = required, dec_matched = {}\<rparr>"

record bulk_authorize_request =
  bulk_tenant_id :: ident
  bulk_application_id :: ident
  bulk_subject :: subject
  bulk_checks :: "(string \<times> string) list"
  bulk_context :: pydict
  bulk_delegated :: "string set option"
  bulk_references :: "resolved_references option"

section \<open>Activity checks\<close>

definition inactive ::
  "rbac_repository \<Rightarrow> ident \<Rightarrow> ident \<Rightarrow> resolved_references option \<Rightarrow> string option" where
  "inactive repo t a refs =
     (case refs of
        None \<Rightarrow>
          if \<not> repo_is_tenant_active repo t then Some ''tenant_not_active''
          else if \<not> repo_is_application_active repo a then Some ''application_not_active''
          else None
      | Some r \<Rightarrow>
          if ref_tenant_status r \<noteq> Some ''active'' then Some ''tenant_not_active''
          else if ref_application_status r \<noteq> Some ''active'' then Some ''application_not_active''
          else None)"

definition user_missing :: "resolved_references option \<Rightarrow> bool" where
  "user_missing refs = (case refs of None \<Rightarrow> False | Some r \<Rightarrow> ref_user_missing r)"

definition agent_missing :: "resolved_references option \<Rightarrow> bool" where
  "agent_missing refs = (case refs of None \<Rightarrow> False | Some r \<Rightarrow> ref_agent_missing r)"

definition membership_active ::
  "rbac_repository \<Rightarrow> ident \<Rightarrow> ident \<Rightarrow> ident \<Rightarrow> resolved_references option \<Rightarrow> bool" where
  "membership_active repo t a u refs =
     (if user_missing refs then False else repo_is_user_membership_active repo t a u)"

definition agent_active ::
  "rbac_repository \<Rightarrow> ident \<Rightarrow> ident \<Rightarrow> ident \<Rightarrow> resolved_references option \<Rightarrow> bool" where
  "agent_active repo t a g refs =
     (if agent_missing refs then False
      else (case refs of
          Some r \<Rightarrow>
            if ref_agent_status r \<noteq> None \<and> Some g = ref_agent_id r
            then ref_agent_status r = Some ''active''
            else repo_is_agent_active repo t a g
        | None \<Rightarrow> repo_is_agent_active repo t a g))"

section \<open>Resolving the subject\<close>

definition resolve_user ::
  "rbac_repository \<Rightarrow> authorize_request \<Rightarrow> authorize_decision + string set" where
  "resolve_user repo req =
     (let required = required_permission req; refs = req_references req;
          t = req_tenant_id req; a = req_application_id req in
      case subj_user_id (req_subject req) of
        None \<Rightarrow>
          if \<not> user_missing refs then Inl (deny ''invalid_subject'' required)
          else Inl (deny ''no_active_membership'' required)
      | Some u \<Rightarrow>
          if \<not> membership_active repo t a u refs then Inl (deny ''no_active_membership'' required)
          else if agent_missing refs then Inl (deny ''agent_not_active'' required)
          else Inr (repo_resolve_user_permissions repo t a u))"

definition resolve_agent ::
  "rbac_repository \<Rightarrow> authorize_request \<Rightarrow> authorize_decision + string set" where
  "resolve_agent repo req =
     (let required = required_permission req; refs = req_references req;
          t = req_tenant_id req; a = req_application_id req;
          user_id = subj_user_id (req_subject req); agent_id = subj_agent_id (req_subject req) in
      if (user_id = None \<and> \<not> user_missing refs) \<or> (agent_id = None \<and> \<not> agent_missing refs)
      then Inl (deny ''invalid_subject'' required)
      else (case user_id of
          None \<Rightarrow> Inl (deny ''no_active_user_membership'' required)
        | Some u \<Rightarrow>
            if \<not> membership_active repo t a u refs
            then Inl (deny ''no_active_user_membership'' required)
            else (case agent_id of
                None \<Rightarrow> Inl (deny ''agent_not_active'' required)
              | Some g \<Rightarrow>
                  if \<not> agent_active repo t a g refs then Inl (deny ''agent_not_active'' required)
                  else Inr (repo_resolve_user_permissions repo t a u \<inter>
                            repo_resolve_agent_permissions repo t a g))))"

section \<open>Decisions on one check and on many\<close>

definition apply_mask :: "string set \<Rightarrow> string set \<Rightarrow> string set" where
  "apply_mask tmask permissions = (if tmask \<noteq> {} then permissions \<inter> tmask else permissions)"

definition apply_delegated :: "string set option \<Rightarrow> string set \<Rightarrow> string set" where
  "apply_delegated delegated permissions =
     (case delegated of None \<Rightarrow> permissions | Some d \<Rightarrow> permissions \<inter> d)"

definition authorize ::
  "rbac_repository \<Rightarrow> policy_engine \<Rightarrow> authorize_request \<Rightarrow>
     (authz_error, authorize_decision) result" where
  "authorize repo pe req =
     (let required = required_permission req in
      case inactive repo (req_tenant_id req) (req_application_id req) (req_references req) of
        Some reason \<Rightarrow> Inr (deny reason required)
      | None \<Rightarrow>
          (case
             (if subj_type (req_subject req) = SUBJECT_USER then resolve_user repo req
              else if subj_type (req_subject req) = SUBJECT_AGENT then resolve_agent repo req
              else Inl (deny ''invalid_subject'' required)) of
             Inl denial \<Rightarrow> Inr denial
           | Inr permissions \<Rightarrow>
               (let tenant_permissions =
                      repo_resolve_tenant_permissions repo (req_tenant_id req)
                        (req_application_id req);
                    undelegated = apply_mask tenant_permissions permissions;
                    effective = apply_delegated (req_delegated req) undelegated in
                if required \<notin> effective then
                  if required \<in> undelegated then Inr (deny ''not_delegated'' required)
                  else if tenant_permissions \<noteq> {} \<and> required \<in> permissions \<and>
                          required \<notin> tenant_permissions
                  then Inr (deny ''tenant_feature_disabled'' required)
                  else Inr (deny ''missing_permission'' required)
                else (case evaluate pe req of
                    Inl e \<Rightarrow> Inl e
                  | Inr ok \<Rightarrow>
                      if \<not> ok then Inr (deny ''policy_condition_failed'' required)
                      else Inr (allow required {required})))))"

definition subject_permissions_or_deny ::
  "rbac_repository \<Rightarrow> subject \<Rightarrow> bulk_authorize_request \<Rightarrow> authorize_decision + string set" where
  "subject_permissions_or_deny repo subject request =
     (let marker = \<lparr>req_tenant_id = bulk_tenant_id request,
                    req_application_id = bulk_application_id request, req_subject = subject,
                    req_resource = ''_bulk'', req_action = ''_marker'', req_context = [],
                    req_delegated = None, req_references = bulk_references request\<rparr> in
      if subj_type subject = SUBJECT_USER then resolve_user repo marker
      else if subj_type subject = SUBJECT_AGENT then resolve_agent repo marker
      else Inl (deny ''invalid_subject'' ''_bulk._marker''))"

definition bulk_authorize ::
  "rbac_repository \<Rightarrow> policy_engine \<Rightarrow> bulk_authorize_request \<Rightarrow>
     (authz_error, authorize_decision list) result" where
  "bulk_authorize repo pe request =
     (case inactive repo (bulk_tenant_id request) (bulk_application_id request)
             (bulk_references request) of
        Some reason \<Rightarrow> Inr (map (\<lambda>(r, a). deny reason (join_dot r a)) (bulk_checks request))
      | None \<Rightarrow>
          (case subject_permissions_or_deny repo (bulk_subject request) request of
             Inl denial \<Rightarrow>
               Inr (map (\<lambda>(r, a). deny (dec_reason denial) (join_dot r a)) (bulk_checks request))
           | Inr subject_perms \<Rightarrow>
               (let tenant_permissions =
                      repo_resolve_tenant_permissions repo (bulk_tenant_id request)
                        (bulk_application_id request);
                    undelegated = apply_mask tenant_permissions subject_perms;
                    effective = apply_delegated (bulk_delegated request) undelegated in
                res_map (\<lambda>(resource, action).
                    let required = join_dot resource action in
                    if required \<in> effective then
                      (case evaluate pe
                          \<lparr>req_tenant_id = bulk_tenant_id request,
                           req_application_id = bulk_application_id request,
                           req_subject = bulk_subject request, req_resource = resource,
                           req_action = action, req_context = bulk_context request,
                           req_delegated = None, req_references = None\<rparr> of
                         Inl e \<Rightarrow> Inl e
                       | Inr ok \<Rightarrow>
                           if \<not> ok then Inr (deny ''policy_condition_failed'' required)
                           else Inr (allow required {required}))
                    else if required \<in> undelegated then Inr (deny ''not_delegated'' required)
                    else if tenant_permissions \<noteq> {} \<and> required \<in> subject_perms \<and>
                            required \<notin> tenant_permissions
                    then Inr (deny ''tenant_feature_disabled'' required)
                    else Inr (deny ''missing_permission'' required))
                  (bulk_checks request))))"

section \<open>The effective set\<close>

definition effective_permissions_undelegated ::
  "rbac_repository \<Rightarrow> ident \<Rightarrow> ident \<Rightarrow> subject \<Rightarrow> resolved_references option \<Rightarrow> string set" where
  "effective_permissions_undelegated repo t a subject refs =
     (if inactive repo t a refs \<noteq> None then {}
      else if subj_type subject = SUBJECT_USER then
        (case subj_user_id subject of
           None \<Rightarrow> {}
         | Some u \<Rightarrow>
             if \<not> membership_active repo t a u refs then {}
             else apply_mask (repo_resolve_tenant_permissions repo t a)
                    (repo_resolve_user_permissions repo t a u))
      else if subj_type subject = SUBJECT_AGENT then
        (case (subj_user_id subject, subj_agent_id subject) of
           (Some u, Some g) \<Rightarrow>
             if \<not> membership_active repo t a u refs then {}
             else if \<not> agent_active repo t a g refs then {}
             else apply_mask (repo_resolve_tenant_permissions repo t a)
                    (repo_resolve_user_permissions repo t a u \<inter>
                     repo_resolve_agent_permissions repo t a g)
         | _ \<Rightarrow> {})
      else {})"

definition effective_permissions ::
  "rbac_repository \<Rightarrow> ident \<Rightarrow> ident \<Rightarrow> subject \<Rightarrow> string set option \<Rightarrow>
     resolved_references option \<Rightarrow> string set" where
  "effective_permissions repo t a subject delegated refs =
     (let permissions = effective_permissions_undelegated repo t a subject refs in
      case delegated of None \<Rightarrow> permissions | Some d \<Rightarrow> permissions \<inter> d)"

section \<open>Lemmas\<close>

lemma allow_simps [simp]:
  "dec_allowed (allow r m)" "dec_decision (allow r m) = ''allow''"
  "dec_reason (allow r m) = ''permission_granted''" "dec_required (allow r m) = r"
  by (simp_all add: allow_def)

lemma deny_simps [simp]:
  "\<not> dec_allowed (deny e r)" "dec_decision (deny e r) = ''deny''"
  "dec_reason (deny e r) = e" "dec_required (deny e r) = r" "dec_matched (deny e r) = {}"
  by (simp_all add: deny_def)

lemma allow_neq_deny [simp]: "allow r m \<noteq> deny e r'" "deny e r' \<noteq> allow r m"
  by (simp_all add: allow_def deny_def)

lemma deny_inject [simp]: "deny e r = deny e' r' \<longleftrightarrow> e = e' \<and> r = r'"
  by (auto simp: deny_def)

lemma apply_mask_subset: "apply_mask m P \<subseteq> P"
  by (auto simp: apply_mask_def)

lemma apply_mask_mono: "P \<subseteq> Q \<Longrightarrow> apply_mask m P \<subseteq> apply_mask m Q"
  by (auto simp: apply_mask_def)

lemma apply_delegated_None [simp]: "apply_delegated None P = P"
  by (simp add: apply_delegated_def)

lemma apply_delegated_Some [simp]: "apply_delegated (Some d) P = P \<inter> d"
  by (simp add: apply_delegated_def)

lemma apply_delegated_empty [simp]: "apply_delegated d {} = {}"
  by (simp add: apply_delegated_def split: option.split)

lemma subject_kinds_distinct [simp]: "SUBJECT_USER \<noteq> SUBJECT_AGENT" "SUBJECT_AGENT \<noteq> SUBJECT_USER"
  by (simp_all add: SUBJECT_USER_def SUBJECT_AGENT_def)

text \<open>The outcome of resolving a subject, separated from the permission the denial quotes.\<close>

definition subject_outcome ::
  "rbac_repository \<Rightarrow> ident \<Rightarrow> ident \<Rightarrow> subject \<Rightarrow> resolved_references option \<Rightarrow>
     string + string set" where
  "subject_outcome repo t a subject refs =
     (let req = \<lparr>req_tenant_id = t, req_application_id = a, req_subject = subject,
                 req_resource = [], req_action = [], req_context = [], req_delegated = None,
                 req_references = refs\<rparr> in
      map_sum dec_reason id
        (if subj_type subject = SUBJECT_USER then resolve_user repo req
         else if subj_type subject = SUBJECT_AGENT then resolve_agent repo req
         else Inl (deny ''invalid_subject'' [])))"

lemma resolve_user_outcome:
  "subj_type (req_subject req) = SUBJECT_USER \<Longrightarrow>
     resolve_user repo req =
       map_sum (\<lambda>reason. deny reason (required_permission req)) id
         (subject_outcome repo (req_tenant_id req) (req_application_id req) (req_subject req)
            (req_references req))"
  by (simp add: subject_outcome_def resolve_user_def Let_def split: option.split)

lemma resolve_agent_outcome:
  "subj_type (req_subject req) = SUBJECT_AGENT \<Longrightarrow>
     resolve_agent repo req =
       map_sum (\<lambda>reason. deny reason (required_permission req)) id
         (subject_outcome repo (req_tenant_id req) (req_application_id req) (req_subject req)
            (req_references req))"
  by (simp add: subject_outcome_def resolve_agent_def Let_def split: option.split)

lemma resolve_subject_outcome:
  "(if subj_type (req_subject req) = SUBJECT_USER then resolve_user repo req
    else if subj_type (req_subject req) = SUBJECT_AGENT then resolve_agent repo req
    else Inl (deny ''invalid_subject'' (required_permission req))) =
   map_sum (\<lambda>reason. deny reason (required_permission req)) id
     (subject_outcome repo (req_tenant_id req) (req_application_id req) (req_subject req)
        (req_references req))"
  using resolve_user_outcome [of req repo] resolve_agent_outcome [of req repo]
  by (auto simp: subject_outcome_def Let_def)

text \<open>The decision on one required permission once the subject's set is known.\<close>

definition decide ::
  "string set \<Rightarrow> string set option \<Rightarrow> string set \<Rightarrow> string \<Rightarrow> (authz_error, bool) result \<Rightarrow>
     (authz_error, authorize_decision) result" where
  "decide tmask delegated permissions required verdict =
     (let undelegated = apply_mask tmask permissions;
          effective = apply_delegated delegated undelegated in
      if required \<notin> effective then
        if required \<in> undelegated then Inr (deny ''not_delegated'' required)
        else if tmask \<noteq> {} \<and> required \<in> permissions \<and> required \<notin> tmask
        then Inr (deny ''tenant_feature_disabled'' required)
        else Inr (deny ''missing_permission'' required)
      else (case verdict of
          Inl e \<Rightarrow> Inl e
        | Inr ok \<Rightarrow>
            if \<not> ok then Inr (deny ''policy_condition_failed'' required)
            else Inr (allow required {required})))"

lemma authorize_decide:
  "authorize repo pe req =
     (case inactive repo (req_tenant_id req) (req_application_id req) (req_references req) of
        Some reason \<Rightarrow> Inr (deny reason (required_permission req))
      | None \<Rightarrow>
          (case subject_outcome repo (req_tenant_id req) (req_application_id req)
                  (req_subject req) (req_references req) of
             Inl reason \<Rightarrow> Inr (deny reason (required_permission req))
           | Inr permissions \<Rightarrow>
               decide (repo_resolve_tenant_permissions repo (req_tenant_id req)
                   (req_application_id req))
                 (req_delegated req) permissions (required_permission req) (evaluate pe req)))"
proof (cases "subject_outcome repo (req_tenant_id req) (req_application_id req)
    (req_subject req) (req_references req)")
  case (Inl reason)
  then show ?thesis
    unfolding authorize_def Let_def resolve_subject_outcome by (simp split: option.split)
next
  case (Inr permissions)
  then show ?thesis
    unfolding authorize_def Let_def resolve_subject_outcome
    by (simp add: decide_def split: option.split)
qed

lemma decide_allow_iff:
  "decide tmask delegated permissions required verdict = Inr (allow required {required}) \<longleftrightarrow>
     required \<in> apply_delegated delegated (apply_mask tmask permissions) \<and> verdict = Inr True"
  by (auto simp: decide_def Let_def split: sum.splits if_splits)

lemma decide_allowed:
  "\<lbrakk>decide tmask delegated permissions required verdict = Inr d; dec_allowed d\<rbrakk> \<Longrightarrow>
     d = allow required {required}"
  by (auto simp: decide_def Let_def split: sum.splits if_splits)

lemma effective_undelegated_outcome:
  "\<not> (subj_type subject = SUBJECT_USER \<and> agent_missing refs) \<Longrightarrow>
   effective_permissions_undelegated repo t a subject refs =
     (if inactive repo t a refs \<noteq> None then {}
      else (case subject_outcome repo t a subject refs of
          Inl _ \<Rightarrow> {}
        | Inr P \<Rightarrow> apply_mask (repo_resolve_tenant_permissions repo t a) P))"
  by (auto simp: effective_permissions_undelegated_def subject_outcome_def resolve_user_def
      resolve_agent_def Let_def split: option.splits)

lemma subject_outcome_user_agent_missing:
  "\<lbrakk>subj_type subject = SUBJECT_USER; agent_missing refs\<rbrakk> \<Longrightarrow>
     \<exists>reason. subject_outcome repo t a subject refs = Inl reason"
  by (auto simp: subject_outcome_def resolve_user_def Let_def split: option.splits)

lemma authorize_allow_iff:
  "authorize repo pe req = Inr (allow (required_permission req) {required_permission req}) \<longleftrightarrow>
     required_permission req \<in>
       effective_permissions repo (req_tenant_id req) (req_application_id req) (req_subject req)
         (req_delegated req) (req_references req) \<and>
     evaluate pe req = Inr True \<and>
     \<not> (subj_type (req_subject req) = SUBJECT_USER \<and> agent_missing (req_references req))"
proof (cases "subj_type (req_subject req) = SUBJECT_USER \<and> agent_missing (req_references req)")
  case True
  then obtain reason where
    "subject_outcome repo (req_tenant_id req) (req_application_id req) (req_subject req)
       (req_references req) = Inl reason"
    using subject_outcome_user_agent_missing by blast
  with True show ?thesis by (simp add: authorize_decide split: option.split)
next
  case False
  then show ?thesis
    by (simp add: effective_permissions_def effective_undelegated_outcome authorize_decide
        apply_delegated_def [symmetric] decide_allow_iff Let_def split: option.split sum.split)
qed

lemma authorize_allowed_is_allow:
  "\<lbrakk>authorize repo pe req = Inr d; dec_allowed d\<rbrakk> \<Longrightarrow>
     d = allow (required_permission req) {required_permission req}"
  by (auto simp: authorize_decide split: option.splits sum.splits dest: decide_allowed)

lemma authorize_allowed_iff:
  "(\<exists>d. authorize repo pe req = Inr d \<and> dec_allowed d) \<longleftrightarrow>
     authorize repo pe req = Inr (allow (required_permission req) {required_permission req})"
  by (metis authorize_allowed_is_allow allow_simps(1))

lemma effective_subset_undelegated:
  "effective_permissions repo t a subject delegated refs \<subseteq>
     effective_permissions repo t a subject None refs"
  by (auto simp: effective_permissions_def Let_def split: option.splits)

lemma inactive_complete:
  "inactive repo t a (Some r) = None \<Longrightarrow> ref_tenant_status r \<noteq> None \<and> ref_application_status r \<noteq> None"
  by (auto simp: inactive_def split: if_splits)

lemma subject_outcome_missing:
  "user_missing refs \<or> agent_missing refs \<Longrightarrow>
     \<exists>reason \<in> {''invalid_subject'', ''no_active_membership'', ''no_active_user_membership'',
        ''agent_not_active''}. subject_outcome repo t a subject refs = Inl reason"
  by (auto simp: subject_outcome_def resolve_user_def resolve_agent_def membership_active_def
      agent_active_def Let_def split: option.splits)

lemma effective_agent_subset_user:
  assumes "subj_type agent = SUBJECT_AGENT" "subj_type usr = SUBJECT_USER"
    and "subj_user_id agent = subj_user_id usr"
  shows "effective_permissions_undelegated repo t a agent refs \<subseteq>
         effective_permissions_undelegated repo t a usr refs"
  using assms apply_mask_mono [of "X \<inter> Y" X m for X Y m]
  by (auto simp: effective_permissions_undelegated_def split: option.splits)

lemma effective_agent_subset_grants:
  assumes "subj_type agent = SUBJECT_AGENT" "subj_agent_id agent = Some g"
    "subj_user_id agent = Some u"
  shows "effective_permissions_undelegated repo t a agent refs \<subseteq>
         repo_resolve_user_permissions repo t a u \<inter> repo_resolve_agent_permissions repo t a g"
  using assms by (auto simp: effective_permissions_undelegated_def apply_mask_def split: if_splits)

lemma effective_within_mask:
  assumes "repo_resolve_tenant_permissions repo t a \<noteq> {}"
  shows "effective_permissions repo t a subject d refs \<subseteq> repo_resolve_tenant_permissions repo t a"
  using assms
  by (auto simp: effective_permissions_def effective_permissions_undelegated_def apply_mask_def
      Let_def split: option.splits if_splits)

text \<open>Two repositories that answer every query about a tenant alike make the same decisions in it.\<close>

definition agree_on :: "ident \<Rightarrow> rbac_repository \<Rightarrow> rbac_repository \<Rightarrow> bool" where
  "agree_on t r r' \<longleftrightarrow>
     repo_is_tenant_active r t = repo_is_tenant_active r' t \<and>
     repo_is_application_active r = repo_is_application_active r' \<and>
     repo_is_user_membership_active r t = repo_is_user_membership_active r' t \<and>
     repo_is_agent_active r t = repo_is_agent_active r' t \<and>
     repo_resolve_user_permissions r t = repo_resolve_user_permissions r' t \<and>
     repo_resolve_agent_permissions r t = repo_resolve_agent_permissions r' t \<and>
     repo_resolve_tenant_permissions r t = repo_resolve_tenant_permissions r' t"

lemma agree_on_parts:
  assumes "agree_on t r r'"
  shows "inactive r t = inactive r' t" and "membership_active r t = membership_active r' t"
    and "agent_active r t = agent_active r' t"
    and "repo_resolve_user_permissions r t = repo_resolve_user_permissions r' t"
    and "repo_resolve_agent_permissions r t = repo_resolve_agent_permissions r' t"
    and "repo_resolve_tenant_permissions r t = repo_resolve_tenant_permissions r' t"
  using assms by (auto simp: agree_on_def inactive_def membership_active_def agent_active_def
      fun_eq_iff split: option.split)

lemma agree_on_authorize:
  assumes "agree_on t r r'" and "req_tenant_id req = t"
  shows "authorize r pe req = authorize r' pe req"
proof -
  note parts = agree_on_parts [OF assms(1)]
  have "resolve_user r req = resolve_user r' req" "resolve_agent r req = resolve_agent r' req"
    by (simp_all only: resolve_user_def resolve_agent_def assms(2) parts Let_def)
  then show ?thesis by (simp only: authorize_def assms(2) parts Let_def)
qed

lemma agree_on_effective:
  "agree_on t r r' \<Longrightarrow> effective_permissions r t a s d refs = effective_permissions r' t a s d refs"
  by (simp only: effective_permissions_def effective_permissions_undelegated_def agree_on_parts
      Let_def)

section \<open>The contract of a repository\<close>

text \<open>
  What \<^verbatim>\<open>RBACRepository\<close> promises its client beyond the types: permissions resolved for a user come
  from the active catalog of the application asked about (or are platform permissions), and an
  agent is registered in one tenant and one application. The engine never looks a permission up
  in the catalog and never checks where an agent lives: the following facts are what it gets from
  any store that keeps the contract.
\<close>

definition active_catalog :: "rbac_repository \<Rightarrow> ident \<Rightarrow> string set" where
  "active_catalog repo a =
     perm_name ` {p \<in> set (repo_list_application_permissions repo (Some a)) \<union>
                      set (repo_list_application_permissions repo None). perm_active p}"

locale rbac_contract =
  fixes repo :: rbac_repository
  assumes user_catalog:
      "p \<in> repo_resolve_user_permissions repo t a u \<Longrightarrow> p \<in> active_catalog repo a"
    and agent_home:
      "\<lbrakk>repo_is_agent_active repo t a g; repo_is_agent_active repo t' a' g\<rbrakk> \<Longrightarrow> t' = t \<and> a' = a"
    and agent_grants_home:
      "\<lbrakk>p \<in> repo_resolve_agent_permissions repo t a g;
        q \<in> repo_resolve_agent_permissions repo t' a' g\<rbrakk> \<Longrightarrow> t' = t \<and> a' = a"
begin

lemma effective_in_catalog:
  "p \<in> effective_permissions repo t a subject d refs \<Longrightarrow> p \<in> active_catalog repo a"
  using user_catalog apply_mask_subset
  by (fastforce simp: effective_permissions_def effective_permissions_undelegated_def Let_def
      split: option.splits if_splits)

lemma allowed_in_catalog:
  assumes "authorize repo pe req = Inr d" "dec_allowed d"
  shows "required_permission req \<in> active_catalog repo (req_application_id req)"
proof -
  have "authorize repo pe req = Inr (allow (required_permission req) {required_permission req})"
    using assms authorize_allowed_is_allow by metis
  then show ?thesis using authorize_allow_iff effective_in_catalog by blast
qed

lemma agent_effective_home:
  assumes "p \<in> effective_permissions repo t a s d refs" "subj_type s = SUBJECT_AGENT"
    and "q \<in> effective_permissions repo t' a' s' d' refs'" "subj_type s' = SUBJECT_AGENT"
    and "subj_agent_id s' = subj_agent_id s"
  shows "t' = t \<and> a' = a"
proof -
  have "p \<in> effective_permissions_undelegated repo t a s refs"
    and "q \<in> effective_permissions_undelegated repo t' a' s' refs'"
    using assms(1,3) effective_subset_undelegated
    by (fastforce simp: effective_permissions_def)+
  then obtain g where "subj_agent_id s = Some g"
    and "p \<in> repo_resolve_agent_permissions repo t a g"
    and "q \<in> repo_resolve_agent_permissions repo t' a' g"
    using assms(2,4,5) apply_mask_subset
    by (fastforce simp: effective_permissions_undelegated_def split: option.splits if_splits)
  then show ?thesis using agent_grants_home by blast
qed

end

section \<open>One check and many\<close>

lemma bulk_authorize_map:
  "bulk_authorize repo pe breq =
     res_map (\<lambda>(resource, action). authorize repo pe
        \<lparr>req_tenant_id = bulk_tenant_id breq, req_application_id = bulk_application_id breq,
         req_subject = bulk_subject breq, req_resource = resource, req_action = action,
         req_context = bulk_context breq, req_delegated = bulk_delegated breq,
         req_references = bulk_references breq\<rparr>) (bulk_checks breq)"
  (is "_ = res_map (\<lambda>(r, a). authorize repo pe (?single r a)) _")
proof -
  let ?t = "bulk_tenant_id breq" and ?a = "bulk_application_id breq"
    and ?refs = "bulk_references breq"
  let ?out = "subject_outcome repo ?t ?a (bulk_subject breq) ?refs"
  have marker: "subject_permissions_or_deny repo (bulk_subject breq) breq =
      map_sum (\<lambda>reason. deny reason ''_bulk._marker'') id ?out"
    using resolve_subject_outcome [of "\<lparr>req_tenant_id = ?t, req_application_id = ?a,
        req_subject = bulk_subject breq, req_resource = ''_bulk'', req_action = ''_marker'',
        req_context = [], req_delegated = None, req_references = ?refs\<rparr>" repo]
    by (simp add: subject_permissions_or_deny_def required_permission_def join_dot_def Let_def
        cong: if_cong)
  have ev: "evaluate pe \<lparr>req_tenant_id = ?t, req_application_id = ?a,
      req_subject = bulk_subject breq, req_resource = r, req_action = c,
      req_context = bulk_context breq, req_delegated = None, req_references = None\<rparr> =
      evaluate pe (?single r c)" for r c
    using evaluate_frame(1) [of pe None "(?single r c)\<lparr>req_references := None\<rparr>"]
      evaluate_frame(2) [of pe None "?single r c"] by simp
  show ?thesis
  proof (cases "inactive repo ?t ?a ?refs")
    case (Some reason)
    then show ?thesis
      by (auto simp: bulk_authorize_def authorize_decide required_permission_def
          intro!: res_map_eq_map [symmetric])
  next
    case None
    show ?thesis
    proof (cases ?out)
      case (Inl reason)
      with None show ?thesis
        by (auto simp: bulk_authorize_def marker authorize_decide required_permission_def
            intro!: res_map_eq_map [symmetric])
    next
      case (Inr P)
      with None show ?thesis
        by (auto simp: bulk_authorize_def marker authorize_decide required_permission_def
            decide_def Let_def ev intro!: res_map_cong)
    qed
  qed
qed

lemma authorize_decision:
  "authorize repo pe req = Inr d \<Longrightarrow>
     (dec_decision d = ''allow'' \<longleftrightarrow> dec_allowed d) \<and> dec_required d = required_permission req"
  by (auto simp: authorize_decide decide_def Let_def split: option.splits sum.splits if_splits)

section \<open>Properties\<close>

text \<open>Bulk authorization is the single decision applied to every check. Resolving the subject
  and the tenant mask once (with a marker permission) and reusing them gives, for every list of
  checks, the same list of decisions, reasons and required permissions as authorizing each check on
  its own with the same subject, context, delegation and references, and raises exactly when the
  first of those single calls that raises does.\<close>

theorem bulk_authorize_eq_map_authorize:
  "bulk_authorize repo pe breq =
     res_map (\<lambda>(resource, action). authorize repo pe
        \<lparr>req_tenant_id = bulk_tenant_id breq, req_application_id = bulk_application_id breq,
         req_subject = bulk_subject breq, req_resource = resource, req_action = action,
         req_context = bulk_context breq, req_delegated = bulk_delegated breq,
         req_references = bulk_references breq\<rparr>) (bulk_checks breq)"
  by (rule bulk_authorize_map)

text \<open>C3: the decision agrees with the effective set. A request is allowed exactly when the required
  permission is in the set that \<^verbatim>\<open>effective_permissions\<close> returns for the same tenant, application,
  subject, delegation and references, and the attribute rules pass; with the one exception the code
  makes, a user subject whose request also names an agent that does not exist, which
  \<^verbatim>\<open>authorize\<close> denies.\<close>

theorem authorize_iff_effective_permissions:
  "(\<exists>d. authorize repo pe req = Inr d \<and> dec_allowed d) \<longleftrightarrow>
     required_permission req \<in>
       effective_permissions repo (req_tenant_id req) (req_application_id req) (req_subject req)
         (req_delegated req) (req_references req) \<and>
     evaluate pe req = Inr True \<and>
     \<not> (subj_type (req_subject req) = SUBJECT_USER \<and> agent_missing (req_references req))"
  by (simp only: authorize_allowed_iff authorize_allow_iff)

text \<open>C6: an agent never gets more than the user it acts for. In every repository, whatever the agent
  may do for a user (under any delegation) is in the user's own effective set, in the permissions of
  the agent's roles, and, where the tenant has a mask, in the mask.\<close>

theorem agent_bounded_by_user:
  assumes "subj_type agent = SUBJECT_AGENT" and "subj_agent_id agent = Some g"
    and "subj_user_id agent = Some u"
    and "subj_type usr = SUBJECT_USER" and "subj_user_id usr = Some u"
  shows "effective_permissions repo t a agent d refs \<subseteq>
           effective_permissions repo t a usr None refs \<inter>
           repo_resolve_agent_permissions repo t a g \<and>
         (repo_resolve_tenant_permissions repo t a \<noteq> {} \<longrightarrow>
           effective_permissions repo t a agent d refs \<subseteq> repo_resolve_tenant_permissions repo t a)"
proof -
  have "effective_permissions repo t a agent d refs \<subseteq>
      effective_permissions_undelegated repo t a agent refs"
    by (auto simp: effective_permissions_def Let_def split: option.splits)
  moreover have "effective_permissions_undelegated repo t a agent refs \<subseteq>
      effective_permissions repo t a usr None refs"
    using effective_agent_subset_user [of agent usr] assms by (simp add: effective_permissions_def)
  moreover have "effective_permissions_undelegated repo t a agent refs \<subseteq>
      repo_resolve_agent_permissions repo t a g"
    using effective_agent_subset_grants [of agent g u] assms by fastforce
  ultimately show ?thesis using effective_within_mask [of repo t a agent d refs] by blast
qed

theorem agent_bounded_by_user_witness:
  "subj_type \<lparr>subj_type = SUBJECT_AGENT, subj_user_id = Some ''u'', subj_agent_id = Some ''g'',
      subj_service_account_id = None\<rparr> = SUBJECT_AGENT \<and>
   (\<forall>repo. effective_permissions repo ''t'' ''a''
      \<lparr>subj_type = SUBJECT_AGENT, subj_user_id = Some ''u'', subj_agent_id = Some ''g'',
       subj_service_account_id = None\<rparr> (Some {''docs.read''}) None \<subseteq>
      effective_permissions repo ''t'' ''a''
      \<lparr>subj_type = SUBJECT_USER, subj_user_id = Some ''u'', subj_agent_id = None,
       subj_service_account_id = None\<rparr> None None)"
  using agent_bounded_by_user
    [of "\<lparr>subj_type = SUBJECT_AGENT, subj_user_id = Some ''u'', subj_agent_id = Some ''g'',
         subj_service_account_id = None\<rparr>" "''g''" "''u''"
        "\<lparr>subj_type = SUBJECT_USER, subj_user_id = Some ''u'', subj_agent_id = None,
         subj_service_account_id = None\<rparr>" _ "''t''" "''a''" "Some {''docs.read''}" None]
  by simp

text \<open>C13: a delegation grant only narrows. With a grant in play a request is allowed exactly when it
  is allowed without one and the grant names the permission; a request that would be allowed
  without the grant and is not covered by it is denied with the reason \<^verbatim>\<open>not_delegated\<close>; and the
  effective set is the undelegated one intersected with the grant.\<close>

theorem delegation_only_narrows:
  assumes "req_delegated req = None"
  shows "((\<exists>d. authorize repo pe (req\<lparr>req_delegated := Some G\<rparr>) = Inr d \<and> dec_allowed d) \<longleftrightarrow>
           (\<exists>d. authorize repo pe req = Inr d \<and> dec_allowed d) \<and> required_permission req \<in> G) \<and>
         ((\<exists>d. authorize repo pe req = Inr d \<and> dec_allowed d) \<longrightarrow> required_permission req \<notin> G \<longrightarrow>
           authorize repo pe (req\<lparr>req_delegated := Some G\<rparr>) =
             Inr (deny ''not_delegated'' (required_permission req))) \<and>
         effective_permissions repo t a s (Some G) refs =
           effective_permissions repo t a s None refs \<inter> G"
proof -
  have r: "required_permission (req\<lparr>req_delegated := Some G\<rparr>) = required_permission req"
    by (simp add: required_permission_def)
  have narrow: "(\<exists>d. authorize repo pe (req\<lparr>req_delegated := Some G\<rparr>) = Inr d \<and> dec_allowed d) \<longleftrightarrow>
      (\<exists>d. authorize repo pe req = Inr d \<and> dec_allowed d) \<and> required_permission req \<in> G"
    unfolding authorize_allowed_iff authorize_allow_iff
    using assms by (auto simp: r effective_permissions_def)
  have reason: "authorize repo pe (req\<lparr>req_delegated := Some G\<rparr>) =
      Inr (deny ''not_delegated'' (required_permission req))"
    if "authorize repo pe req = Inr (allow (required_permission req) {required_permission req})"
      and "required_permission req \<notin> G"
  proof -
    let ?tmask = "repo_resolve_tenant_permissions repo (req_tenant_id req) (req_application_id req)"
    from that(1) obtain P where
      "inactive repo (req_tenant_id req) (req_application_id req) (req_references req) = None"
      "subject_outcome repo (req_tenant_id req) (req_application_id req) (req_subject req)
         (req_references req) = Inr P" "required_permission req \<in> apply_mask ?tmask P"
      using assms by (auto simp: authorize_decide decide_allow_iff split: option.splits sum.splits)
    then show ?thesis using that(2) by (simp add: authorize_decide r decide_def Let_def)
  qed
  show ?thesis
    using narrow reason by (auto simp: authorize_allowed_iff effective_permissions_def)
qed

definition one_user_repository :: rbac_repository where
  "one_user_repository =
     \<lparr>repo_get_role = (\<lambda>_. None), repo_get_role_by_name = (\<lambda>_ _ _. None),
      repo_list_role_permissions = (\<lambda>_. []), repo_list_application_permissions = (\<lambda>_. []),
      repo_resolve_user_permissions = (\<lambda>_ _ _. {''docs.read''}),
      repo_resolve_agent_permissions = (\<lambda>_ _ _. {}),
      repo_resolve_tenant_permissions = (\<lambda>_ _. {}),
      repo_get_tenant_feature_flags = (\<lambda>_ _. []), repo_is_tenant_active = (\<lambda>_. True),
      repo_is_application_active = (\<lambda>_. True),
      repo_is_user_membership_active = (\<lambda>_ _ _. True), repo_is_agent_active = (\<lambda>_ _ _. False)\<rparr>"

definition read_request :: authorize_request where
  "read_request =
     \<lparr>req_tenant_id = ''t'', req_application_id = ''a'',
      req_subject = \<lparr>subj_type = SUBJECT_USER, subj_user_id = Some ''u'', subj_agent_id = None,
        subj_service_account_id = None\<rparr>,
      req_resource = ''docs'', req_action = ''read'', req_context = [], req_delegated = None,
      req_references = None\<rparr>"

lemma read_request_allowed:
  "authorize one_user_repository \<lparr>pe_rules = [], pe_attr = (\<lambda>_ _. PNone)\<rparr> read_request =
     Inr (allow ''docs.read'' {''docs.read''})"
  by (simp add: authorize_def one_user_repository_def read_request_def required_permission_def
      join_dot_def inactive_def resolve_user_def membership_active_def user_missing_def
      agent_missing_def apply_mask_def SUBJECT_USER_def Let_def)

theorem delegation_only_narrows_witness:
  "req_delegated read_request = None \<and>
   authorize one_user_repository \<lparr>pe_rules = [], pe_attr = (\<lambda>_ _. PNone)\<rparr>
     (read_request\<lparr>req_delegated := Some {''docs.write''}\<rparr>) =
     Inr (deny ''not_delegated'' ''docs.read'')"
proof -
  have n: "req_delegated read_request = None" by (simp add: read_request_def)
  have r: "required_permission read_request = ''docs.read''"
    by (simp add: read_request_def required_permission_def join_dot_def)
  show ?thesis
    using delegation_only_narrows [OF n, of one_user_repository
        "\<lparr>pe_rules = [], pe_attr = (\<lambda>_ _. PNone)\<rparr>" "{''docs.write''}"] read_request_allowed n
    by (auto simp: r)
qed

text \<open>Unknown references fail closed. When the request carries resolved references and one of them
  matched no row (tenant, application, user or agent), the decision is a denial with one of the
  activity reasons, whatever the subject, the repository, the delegation and the rules; nothing is
  raised and no attribute rule is evaluated.\<close>

theorem incomplete_references_denied:
  assumes "req_references req = Some r" and "\<not> refs_complete r"
  shows "\<exists>reason \<in> {''tenant_not_active'', ''application_not_active'', ''invalid_subject'',
             ''no_active_membership'', ''no_active_user_membership'', ''agent_not_active''}.
           authorize repo pe req = Inr (deny reason (required_permission req))"
proof (cases "inactive repo (req_tenant_id req) (req_application_id req) (Some r)")
  case None
  then have "user_missing (Some r) \<or> agent_missing (Some r)"
    using inactive_complete [OF None] assms(2)
    by (auto simp: refs_complete_def user_missing_def agent_missing_def)
  from subject_outcome_missing [OF this, of repo "req_tenant_id req" "req_application_id req"
      "req_subject req"]
  show ?thesis using None assms(1) by (auto simp: authorize_decide)
next
  case (Some reason)
  then have "reason \<in> {''tenant_not_active'', ''application_not_active''}"
    by (auto simp: inactive_def split: if_splits)
  then show ?thesis using Some assms(1) by (auto simp: authorize_decide)
qed

theorem incomplete_references_denied_witness:
  "\<exists>reason. authorize one_user_repository \<lparr>pe_rules = [], pe_attr = (\<lambda>_ _. PNone)\<rparr>
     (read_request\<lparr>req_references := Some
        \<lparr>ref_tenant_id = ''t'', ref_application_id = ''a'', ref_tenant_status = Some ''active'',
         ref_application_status = Some ''active'', ref_user_id = None, ref_user_missing = True,
         ref_agent_id = None, ref_agent_status = None, ref_agent_missing = False\<rparr>\<rparr>) =
     Inr (deny reason ''docs.read'')"
proof -
  let ?r = "\<lparr>ref_tenant_id = ''t'', ref_application_id = ''a'', ref_tenant_status = Some ''active'',
         ref_application_status = Some ''active'', ref_user_id = None, ref_user_missing = True,
         ref_agent_id = None, ref_agent_status = None, ref_agent_missing = False\<rparr>"
  have s: "req_references (read_request\<lparr>req_references := Some ?r\<rparr>) = Some ?r" by simp
  have c: "\<not> refs_complete ?r" by (simp add: refs_complete_def)
  have q: "required_permission (read_request\<lparr>req_references := Some ?r\<rparr>) = ''docs.read''"
    by (simp add: read_request_def required_permission_def join_dot_def)
  show ?thesis
    using incomplete_references_denied [OF s c, of one_user_repository
        "\<lparr>pe_rules = [], pe_attr = (\<lambda>_ _. PNone)\<rparr>"] unfolding q by blast
qed

text \<open>The two reasons for a missing permission are told apart correctly. For a request that
  reaches the permission check without a delegation, the reason is \<^verbatim>\<open>tenant_feature_disabled\<close>
  exactly when the subject holds the permission and a non-empty tenant mask does not, and
  \<^verbatim>\<open>missing_permission\<close> exactly when the subject does not hold it.\<close>

theorem missing_permission_reasons:
  assumes "inactive repo (req_tenant_id req) (req_application_id req) (req_references req) = None"
    and "req_delegated req = None"
    and "(if subj_type (req_subject req) = SUBJECT_USER then resolve_user repo req
          else if subj_type (req_subject req) = SUBJECT_AGENT then resolve_agent repo req
          else Inl (deny ''invalid_subject'' (required_permission req))) = Inr permissions"
    and "tmask = repo_resolve_tenant_permissions repo (req_tenant_id req) (req_application_id req)"
  shows "(authorize repo pe req = Inr (deny ''tenant_feature_disabled'' (required_permission req)) \<longleftrightarrow>
            required_permission req \<in> permissions \<and> tmask \<noteq> {} \<and>
            required_permission req \<notin> tmask) \<and>
         (authorize repo pe req = Inr (deny ''missing_permission'' (required_permission req)) \<longleftrightarrow>
            required_permission req \<notin> permissions)"
proof -
  have "subject_outcome repo (req_tenant_id req) (req_application_id req) (req_subject req)
      (req_references req) = Inr permissions"
    using assms(3) unfolding resolve_subject_outcome
    by (cases "subject_outcome repo (req_tenant_id req) (req_application_id req)
        (req_subject req) (req_references req)") auto
  then show ?thesis
    using assms(1,2,4)
    by (auto simp: authorize_decide decide_def apply_mask_def Let_def split: sum.splits if_splits)
qed

theorem missing_permission_reasons_witness:
  "authorize one_user_repository \<lparr>pe_rules = [], pe_attr = (\<lambda>_ _. PNone)\<rparr>
     (read_request\<lparr>req_action := ''write''\<rparr>) = Inr (deny ''missing_permission'' ''docs.write'')"
proof -
  let ?req = "read_request\<lparr>req_action := ''write''\<rparr>"
  have q: "required_permission ?req = ''docs.write''"
    by (simp add: read_request_def required_permission_def join_dot_def)
  have i: "inactive one_user_repository (req_tenant_id ?req) (req_application_id ?req)
      (req_references ?req) = None" and d: "req_delegated ?req = None"
    by (simp_all add: read_request_def one_user_repository_def inactive_def)
  have p: "(if subj_type (req_subject ?req) = SUBJECT_USER
      then resolve_user one_user_repository ?req
      else if subj_type (req_subject ?req) = SUBJECT_AGENT
      then resolve_agent one_user_repository ?req
      else Inl (deny ''invalid_subject'' (required_permission ?req))) = Inr {''docs.read''}"
    by (simp add: read_request_def one_user_repository_def resolve_user_def membership_active_def
        user_missing_def agent_missing_def SUBJECT_USER_def)
  show ?thesis
    using missing_permission_reasons [OF i d p refl, of "\<lparr>pe_rules = [], pe_attr = (\<lambda>_ _. PNone)\<rparr>"]
    by (simp add: q)
qed

end
