(* ===== verification/Memory_Store.thy ===== *)
theory Memory_Store
  imports Engine
begin

text \<open>
  The in-memory store, \<^verbatim>\<open>authzkit/storage/memory.py\<close>: fourteen dictionaries and one operation per
  method. A method that draws identifiers (\<^verbatim>\<open>_new_id\<close>) takes them as arguments, a method that
  changes the store returns the new one, a method that may raise returns a result.
\<close>

section \<open>State\<close>

record memory_store =
  st_tenants :: "(ident, tenant) dict"
  st_applications :: "(ident, application) dict"
  st_users :: "(ident, user) dict"
  st_external_identities :: "(ident, external_identity) dict"
  st_tenant_identity_mappings :: "(ident, tenant_identity_mapping) dict"
  st_memberships :: "(ident, membership) dict"
  st_roles :: "(ident, role) dict"
  st_permissions :: "(ident, permission) dict"
  st_role_permissions :: "(ident, ident set) dict"
  st_membership_roles :: "(ident, ident set) dict"
  st_agents :: "(ident, agent) dict"
  st_agent_roles :: "(ident, ident set) dict"
  st_tenant_feature_flags :: "(ident \<times> ident option, pydict) dict"
  st_tenant_permission_masks :: "(ident \<times> ident, string set) dict"

definition empty_store :: memory_store where
  "empty_store =
     \<lparr>st_tenants = [], st_applications = [], st_users = [], st_external_identities = [],
      st_tenant_identity_mappings = [], st_memberships = [], st_roles = [], st_permissions = [],
      st_role_permissions = [], st_membership_roles = [], st_agents = [], st_agent_roles = [],
      st_tenant_feature_flags = [], st_tenant_permission_masks = []\<rparr>"

section \<open>Tenants\<close>

definition create_tenant ::
  "memory_store \<Rightarrow> ident \<Rightarrow> string \<Rightarrow> string \<Rightarrow> string \<Rightarrow> tenant \<times> memory_store" where
  "create_tenant s nid slug name status =
     (let t = \<lparr>tenant_id = nid, tenant_slug = slug, tenant_name = name, tenant_status = status\<rparr> in
      (t, s\<lparr>st_tenants := dict_set nid t (st_tenants s)\<rparr>))"

definition get_tenant :: "memory_store \<Rightarrow> ident \<Rightarrow> tenant option" where
  "get_tenant s tid = dict_get (st_tenants s) tid"

definition get_tenant_by_slug :: "memory_store \<Rightarrow> string \<Rightarrow> tenant option" where
  "get_tenant_by_slug s slug = List.find (\<lambda>t. tenant_slug t = slug) (dict_values (st_tenants s))"

definition is_tenant_active :: "memory_store \<Rightarrow> ident \<Rightarrow> bool" where
  "is_tenant_active s tid =
     (case dict_get (st_tenants s) tid of None \<Rightarrow> False | Some t \<Rightarrow> tenant_status t = ''active'')"

section \<open>Applications\<close>

definition create_application ::
  "memory_store \<Rightarrow> ident \<Rightarrow> string \<Rightarrow> string \<Rightarrow> string \<Rightarrow> string option \<Rightarrow>
     application \<times> memory_store" where
  "create_application s nid slug name status managed_by =
     (let a = \<lparr>app_id = nid, app_slug = slug, app_name = name, app_status = status,
               app_managed_by = managed_by\<rparr> in
      (a, s\<lparr>st_applications := dict_set nid a (st_applications s)\<rparr>))"

definition get_application :: "memory_store \<Rightarrow> ident \<Rightarrow> application option" where
  "get_application s aid = dict_get (st_applications s) aid"

definition get_application_by_slug :: "memory_store \<Rightarrow> string \<Rightarrow> application option" where
  "get_application_by_slug s slug =
     List.find (\<lambda>a. app_slug a = slug) (dict_values (st_applications s))"

definition is_application_active :: "memory_store \<Rightarrow> ident \<Rightarrow> bool" where
  "is_application_active s aid =
     (case dict_get (st_applications s) aid of None \<Rightarrow> False | Some a \<Rightarrow> app_status a = ''active'')"

definition set_application_managed_by ::
  "memory_store \<Rightarrow> ident \<Rightarrow> string option \<Rightarrow> memory_store" where
  "set_application_managed_by s aid managed_by =
     (case dict_get (st_applications s) aid of
        None \<Rightarrow> s
      | Some a \<Rightarrow>
          s\<lparr>st_applications :=
              dict_set aid (a\<lparr>app_managed_by := managed_by\<rparr>) (st_applications s)\<rparr>)"

section \<open>Users and identities\<close>

definition get_user :: "memory_store \<Rightarrow> ident \<Rightarrow> user option" where
  "get_user s uid = dict_get (st_users s) uid"

definition same_identity :: "string \<Rightarrow> string \<Rightarrow> string \<Rightarrow> external_identity \<Rightarrow> bool" where
  "same_identity provider issuer subj i \<longleftrightarrow>
     xid_provider i = provider \<and> xid_issuer i = issuer \<and> xid_subject i = subj"

definition find_user_by_external_identity ::
  "memory_store \<Rightarrow> string \<Rightarrow> string \<Rightarrow> string \<Rightarrow> user option" where
  "find_user_by_external_identity s provider issuer subj =
     (case List.find (same_identity provider issuer subj)
             (dict_values (st_external_identities s)) of
        None \<Rightarrow> None
      | Some i \<Rightarrow> dict_get (st_users s) (xid_user_id i))"

definition upsert_user_from_identity ::
  "memory_store \<Rightarrow> ident \<Rightarrow> ident \<Rightarrow> string \<Rightarrow> string \<Rightarrow> string \<Rightarrow> string option \<Rightarrow>
     string option \<Rightarrow> string option \<Rightarrow>
     (authz_error, (user \<times> external_identity) \<times> memory_store) result" where
  "upsert_user_from_identity s uid xid provider issuer subj email ext_tenant display_name =
     (case find_user_by_external_identity s provider issuer subj of
        Some existing \<Rightarrow>
          (case List.find (same_identity provider issuer subj)
                  (dict_values (st_external_identities s)) of
             None \<Rightarrow> Inl StopIteration
           | Some i \<Rightarrow> Inr ((existing, i), s))
      | None \<Rightarrow>
          (let u = \<lparr>user_id = uid, user_display_name = display_name, user_email = email,
                    user_status = ''active''\<rparr>;
               i = \<lparr>xid_id = xid, xid_user_id = uid, xid_provider = provider,
                    xid_issuer = issuer, xid_subject = subj,
                    xid_external_tenant_id = ext_tenant, xid_email = email\<rparr> in
           Inr ((u, i),
             s\<lparr>st_users := dict_set uid u (st_users s),
               st_external_identities := dict_set xid i (st_external_identities s)\<rparr>)))"

section \<open>Tenant identity mapping\<close>

definition find_tenant_by_external ::
  "memory_store \<Rightarrow> string \<Rightarrow> string \<Rightarrow> string \<Rightarrow> tenant option" where
  "find_tenant_by_external s provider issuer ext =
     (case List.find (\<lambda>m. tim_provider m = provider \<and> tim_issuer m = issuer \<and>
               tim_external_tenant_id m = ext)
             (dict_values (st_tenant_identity_mappings s)) of
        None \<Rightarrow> None
      | Some m \<Rightarrow> dict_get (st_tenants s) (tim_tenant_id m))"

definition create_tenant_identity_mapping ::
  "memory_store \<Rightarrow> ident \<Rightarrow> ident \<Rightarrow> string \<Rightarrow> string \<Rightarrow> string \<Rightarrow>
     tenant_identity_mapping \<times> memory_store" where
  "create_tenant_identity_mapping s nid tid provider issuer ext =
     (let m = \<lparr>tim_id = nid, tim_tenant_id = tid, tim_provider = provider, tim_issuer = issuer,
               tim_external_tenant_id = ext\<rparr> in
      (m, s\<lparr>st_tenant_identity_mappings := dict_set nid m (st_tenant_identity_mappings s)\<rparr>))"

section \<open>Role lookup\<close>

text \<open>The loop of \<^verbatim>\<open>find_assignable_roles\<close>: over the roles in insertion order, with the dictionary
  found so far.\<close>

fun assignable_loop ::
  "ident option \<Rightarrow> ident option \<Rightarrow> string set \<Rightarrow> role list \<Rightarrow> (string, role) dict \<Rightarrow>
     (string, role) dict" where
  "assignable_loop tid aid wanted [] found = found"
| "assignable_loop tid aid wanted (r # rs) found =
     assignable_loop tid aid wanted rs
       (if role_name r \<in> wanted \<and> role_application_id r = aid \<and> role_agent_id r = None \<and>
           (role_tenant_id r = None \<or> role_tenant_id r = tid) \<and>
           (role_tenant_id r \<noteq> None \<or> dict_get found (role_name r) = None)
        then dict_set (role_name r) r found else found)"

definition find_assignable_roles ::
  "memory_store \<Rightarrow> ident \<Rightarrow> ident option \<Rightarrow> string set \<Rightarrow> (string, role) dict" where
  "find_assignable_roles s tid aid names =
     assignable_loop (Some tid) aid names (dict_values (st_roles s)) []"

text \<open>What one linked role id contributes in \<^verbatim>\<open>_effective_role_ids\<close>.\<close>

definition effective_role_id :: "memory_store \<Rightarrow> ident \<Rightarrow> ident \<Rightarrow> ident option" where
  "effective_role_id s tid rid =
     (case dict_get (st_roles s) rid of
        None \<Rightarrow> None
      | Some r \<Rightarrow>
          if \<not> (role_tenant_id r = None \<or> role_tenant_id r = Some tid) then None
          else if role_tenant_id r = None \<and> role_agent_id r = None then
            (case List.find (\<lambda>p. role_tenant_id p = Some tid \<and> role_agent_id p = None \<and>
                      role_application_id p = role_application_id r \<and> role_name p = role_name r)
                    (dict_values (st_roles s)) of
               None \<Rightarrow> Some (role_id r)
             | Some override \<Rightarrow> Some (role_id override))
          else Some (role_id r))"

definition effective_role_ids :: "memory_store \<Rightarrow> ident \<Rightarrow> ident set \<Rightarrow> ident set" where
  "effective_role_ids s tid role_ids = (\<Union>rid \<in> role_ids. set_option (effective_role_id s tid rid))"

section \<open>Memberships\<close>

definition linked_ids :: "(string, role) dict \<Rightarrow> ident set" where
  "linked_ids found = role_id ` set (dict_values found)"

definition create_membership ::
  "memory_store \<Rightarrow> ident \<Rightarrow> ident \<Rightarrow> ident option \<Rightarrow> ident \<Rightarrow> string \<Rightarrow> string set \<Rightarrow>
     membership \<times> memory_store" where
  "create_membership s nid tid aid uid status roles =
     (let m = \<lparr>mem_id = nid, mem_tenant_id = tid, mem_user_id = uid, mem_application_id = aid,
               mem_roles = roles, mem_status = status\<rparr>;
          s' = s\<lparr>st_memberships := dict_set nid m (st_memberships s)\<rparr> in
      (m, s'\<lparr>st_membership_roles :=
               dict_set nid (linked_ids (find_assignable_roles s' tid aid roles))
                 (st_membership_roles s')\<rparr>))"

definition get_membership ::
  "memory_store \<Rightarrow> ident \<Rightarrow> ident option \<Rightarrow> ident \<Rightarrow> membership option" where
  "get_membership s tid aid uid =
     List.find (\<lambda>m. mem_tenant_id m = tid \<and> mem_application_id m = aid \<and> mem_user_id m = uid)
       (dict_values (st_memberships s))"

definition list_memberships_for_user :: "memory_store \<Rightarrow> ident \<Rightarrow> membership list" where
  "list_memberships_for_user s uid =
     filter (\<lambda>m. mem_user_id m = uid) (dict_values (st_memberships s))"

definition set_membership_roles ::
  "memory_store \<Rightarrow> ident \<Rightarrow> string set \<Rightarrow> (authz_error, memory_store) result" where
  "set_membership_roles s mid role_names =
     (case dict_get (st_memberships s) mid of
        None \<Rightarrow> Inl KeyError
      | Some m \<Rightarrow>
          Inr (s\<lparr>st_membership_roles :=
                   dict_set mid
                     (linked_ids (find_assignable_roles s (mem_tenant_id m)
                        (mem_application_id m) role_names))
                     (st_membership_roles s),
                 st_memberships :=
                   dict_set mid (m\<lparr>mem_roles := role_names\<rparr>) (st_memberships s)\<rparr>))"

definition is_user_membership_active :: "memory_store \<Rightarrow> ident \<Rightarrow> ident \<Rightarrow> ident \<Rightarrow> bool" where
  "is_user_membership_active s tid aid uid =
     (let m = (case get_membership s tid (Some aid) uid of
                 None \<Rightarrow> get_membership s tid None uid
               | Some m \<Rightarrow> Some m) in
      case m of None \<Rightarrow> False | Some m \<Rightarrow> mem_status m = MEMBERSHIP_STATUS_ACTIVE)"

section \<open>Roles and permissions\<close>

definition create_role ::
  "memory_store \<Rightarrow> ident \<Rightarrow> string \<Rightarrow> role_scope \<Rightarrow> ident option \<Rightarrow> ident option \<Rightarrow>
     string option \<Rightarrow> role \<times> memory_store" where
  "create_role s nid name scope aid tid description =
     (let r = \<lparr>role_id = nid, role_name = name, role_scope = scope, role_tenant_id = tid,
               role_application_id = aid, role_description = description,
               role_is_system = False, role_agent_id = None\<rparr> in
      (r, s\<lparr>st_roles := dict_set nid r (st_roles s),
            st_role_permissions := dict_setdefault nid {} (st_role_permissions s)\<rparr>))"

definition get_role :: "memory_store \<Rightarrow> ident \<Rightarrow> role option" where
  "get_role s rid = dict_get (st_roles s) rid"

definition get_role_by_name ::
  "memory_store \<Rightarrow> ident option \<Rightarrow> ident option \<Rightarrow> string \<Rightarrow> role option" where
  "get_role_by_name s aid tid name =
     List.find (\<lambda>r. role_name r = name \<and> role_application_id r = aid \<and> role_tenant_id r = tid)
       (dict_values (st_roles s))"

definition create_permission ::
  "memory_store \<Rightarrow> string \<Rightarrow> ident option \<Rightarrow> (authz_error, permission \<times> memory_store) result" where
  "create_permission s name aid =
     res_bind (from_name name None aid)
       (\<lambda>p. Inr (p, s\<lparr>st_permissions := dict_set (perm_id p) p (st_permissions s)\<rparr>))"

definition list_application_permissions :: "memory_store \<Rightarrow> ident option \<Rightarrow> permission list" where
  "list_application_permissions s aid =
     filter (\<lambda>p. perm_application_id p = aid) (dict_values (st_permissions s))"

definition list_role_permissions :: "memory_store \<Rightarrow> ident \<Rightarrow> permission list" where
  "list_role_permissions s rid =
     (let ids = dict_get_default (st_role_permissions s) rid {} in
      map snd (filter (\<lambda>(pid, p). pid \<in> ids) (st_permissions s)))"

text \<open>The dictionary \<^verbatim>\<open>{p.name: p.id ...}\<close> of \<^verbatim>\<open>set_role_permissions\<close>: a later permission of the same
  name replaces an earlier one.\<close>

definition permission_ids_by_name :: "permission list \<Rightarrow> (string, ident) dict" where
  "permission_ids_by_name ps = fold (\<lambda>p d. dict_set (perm_name p) (perm_id p) d) ps []"

definition set_role_permissions ::
  "memory_store \<Rightarrow> ident \<Rightarrow> string set \<Rightarrow> (authz_error, memory_store) result" where
  "set_role_permissions s rid permission_names =
     (case dict_get (st_roles s) rid of
        None \<Rightarrow> Inr s
      | Some r \<Rightarrow>
          (let found = permission_ids_by_name
                 (filter (\<lambda>p. perm_active p \<and> perm_name p \<in> permission_names)
                    (list_application_permissions s (role_application_id r))) in
           res_bind (check_names ''permission'' permission_names (set (map fst found)))
             (\<lambda>_. Inr (s\<lparr>st_role_permissions :=
                dict_set rid (set (dict_values found)) (st_role_permissions s)\<rparr>))))"

section \<open>Aggregated permission resolution\<close>

definition eligible_memberships ::
  "memory_store \<Rightarrow> ident \<Rightarrow> ident \<Rightarrow> ident \<Rightarrow> membership list" where
  "eligible_memberships s tid aid uid =
     filter (\<lambda>m. mem_tenant_id m = tid \<and> mem_user_id m = uid \<and>
         mem_status m = MEMBERSHIP_STATUS_ACTIVE \<and>
         (mem_application_id m = Some aid \<or> mem_application_id m = None))
       (dict_values (st_memberships s))"

definition resolve_user_permissions ::
  "memory_store \<Rightarrow> ident \<Rightarrow> ident \<Rightarrow> ident \<Rightarrow> string set" where
  "resolve_user_permissions s tid aid uid =
     (\<Union>m \<in> set (eligible_memberships s tid aid uid).
        \<Union>rid \<in> effective_role_ids s tid (dict_get_default (st_membership_roles s) (mem_id m) {}).
          perm_name ` set (filter
            (\<lambda>p. (perm_application_id p = Some aid \<or> perm_application_id p = None) \<and> perm_active p)
            (list_role_permissions s rid)))"

definition resolve_agent_permissions ::
  "memory_store \<Rightarrow> ident \<Rightarrow> ident \<Rightarrow> ident \<Rightarrow> string set" where
  "resolve_agent_permissions s tid aid gid =
     (case dict_get (st_agents s) gid of
        None \<Rightarrow> {}
      | Some g \<Rightarrow>
          if agent_tenant_id g \<noteq> tid \<or> agent_application_id g \<noteq> aid then {}
          else (\<Union>rid \<in> effective_role_ids s tid (dict_get_default (st_agent_roles s) gid {}).
                  perm_name ` set (filter perm_active (list_role_permissions s rid))))"

definition resolve_tenant_permissions :: "memory_store \<Rightarrow> ident \<Rightarrow> ident \<Rightarrow> string set" where
  "resolve_tenant_permissions s tid aid =
     dict_get_default (st_tenant_permission_masks s) (tid, aid) {}"

definition set_tenant_permission_mask ::
  "memory_store \<Rightarrow> ident \<Rightarrow> ident \<Rightarrow> string set \<Rightarrow> memory_store" where
  "set_tenant_permission_mask s tid aid permissions =
     s\<lparr>st_tenant_permission_masks :=
         dict_set (tid, aid) permissions (st_tenant_permission_masks s)\<rparr>"

definition get_tenant_feature_flags :: "memory_store \<Rightarrow> ident \<Rightarrow> ident option \<Rightarrow> pydict" where
  "get_tenant_feature_flags s tid aid = dict_get_default (st_tenant_feature_flags s) (tid, aid) []"

definition set_tenant_feature_flag ::
  "memory_store \<Rightarrow> ident \<Rightarrow> ident option \<Rightarrow> string \<Rightarrow> pyval \<Rightarrow> memory_store" where
  "set_tenant_feature_flag s tid aid key val =
     (let flags = dict_setdefault (tid, aid) [] (st_tenant_feature_flags s);
          bucket = dict_get_default flags (tid, aid) [] in
      s\<lparr>st_tenant_feature_flags := dict_set (tid, aid) (dict_set key val bucket) flags\<rparr>)"

section \<open>Agents\<close>

definition create_agent ::
  "memory_store \<Rightarrow> ident \<Rightarrow> ident \<Rightarrow> ident \<Rightarrow> string \<Rightarrow> string \<Rightarrow> string \<Rightarrow> ident option \<Rightarrow>
     string option \<Rightarrow> agent \<times> memory_store" where
  "create_agent s nid tid aid name role_label status created_by display_name =
     (let g = \<lparr>agent_id = nid, agent_tenant_id = tid, agent_application_id = aid,
               agent_name = name, agent_role = role_label, agent_status = status,
               agent_created_by_user_id = created_by, agent_display_name = display_name\<rparr> in
      (g, s\<lparr>st_agents := dict_set nid g (st_agents s),
            st_agent_roles := dict_setdefault nid {} (st_agent_roles s)\<rparr>))"

definition get_agent :: "memory_store \<Rightarrow> ident \<Rightarrow> ident \<Rightarrow> ident \<Rightarrow> agent option" where
  "get_agent s tid aid gid =
     (case dict_get (st_agents s) gid of
        None \<Rightarrow> None
      | Some g \<Rightarrow>
          if agent_tenant_id g \<noteq> tid \<or> agent_application_id g \<noteq> aid then None else Some g)"

definition get_agent_by_id :: "memory_store \<Rightarrow> ident \<Rightarrow> agent option" where
  "get_agent_by_id s gid = dict_get (st_agents s) gid"

definition find_agent_by_name :: "memory_store \<Rightarrow> ident \<Rightarrow> ident \<Rightarrow> string \<Rightarrow> agent option" where
  "find_agent_by_name s tid aid name =
     List.find (\<lambda>g. agent_tenant_id g = tid \<and> agent_application_id g = aid \<and> agent_name g = name)
       (dict_values (st_agents s))"

definition is_agent_active :: "memory_store \<Rightarrow> ident \<Rightarrow> ident \<Rightarrow> ident \<Rightarrow> bool" where
  "is_agent_active s tid aid gid =
     (case get_agent s tid aid gid of None \<Rightarrow> False | Some g \<Rightarrow> agent_status g = ''active'')"

definition set_agent_roles ::
  "memory_store \<Rightarrow> ident \<Rightarrow> string set \<Rightarrow> (authz_error, memory_store) result" where
  "set_agent_roles s gid role_names =
     (case dict_get (st_agents s) gid of
        None \<Rightarrow> Inr s
      | Some g \<Rightarrow>
          (let found = find_assignable_roles s (agent_tenant_id g)
                 (Some (agent_application_id g)) role_names in
           res_bind (check_names ''role'' role_names (set (map fst found)))
             (\<lambda>_. Inr (s\<lparr>st_agent_roles := dict_set gid (linked_ids found) (st_agent_roles s)\<rparr>))))"

section \<open>The store as a repository\<close>

definition memory_repository :: "memory_store \<Rightarrow> rbac_repository" where
  "memory_repository s =
     \<lparr>repo_get_role = get_role s,
      repo_get_role_by_name = get_role_by_name s,
      repo_list_role_permissions = list_role_permissions s,
      repo_list_application_permissions = list_application_permissions s,
      repo_resolve_user_permissions = resolve_user_permissions s,
      repo_resolve_agent_permissions = resolve_agent_permissions s,
      repo_resolve_tenant_permissions = resolve_tenant_permissions s,
      repo_get_tenant_feature_flags = get_tenant_feature_flags s,
      repo_is_tenant_active = is_tenant_active s,
      repo_is_application_active = is_application_active s,
      repo_is_user_membership_active = is_user_membership_active s,
      repo_is_agent_active = is_agent_active s\<rparr>"

end
