(* ===== verification/Sql_Store.thy ===== *)
theory Sql_Store
  imports Memory_Store Tables
begin

text \<open>
  \<^verbatim>\<open>authzkit/storage/sqlalchemy.py\<close>, the database-backed store: the tables of \<^verbatim>\<open>storage/orm.py\<close> with their
  primary keys and unique constraints, and one operation per method. Each public method is one
  transaction: a raised exception rolls everything back, so a result \<^const>\<open>Inl\<close> carries no new
  database.

  A table is the list of its rows in insertion order, which is the order a select without an order
  clause is taken to return them in; a link table (two keys, both primary) is a set of pairs. A unique
  constraint over a nullable column does not compare rows where that column is null, as in SQL.
  Timestamps and foreign keys are left out: the code never reads the first, and the second are not
  enforced by the SQLite configuration the store creates. Generated identifiers are arguments.
\<close>

section \<open>Tables\<close>

record membership_row =
  ms_id :: ident
  ms_tenant_id :: ident
  ms_application_id :: "ident option"
  ms_user_id :: ident
  ms_status :: string

record flag_row =
  ff_tenant_id :: ident
  ff_application_id :: "ident option"
  ff_key :: string
  ff_value :: pyval

record audit_entry =
  ae_decision :: string
  ae_reason :: string
  ae_resource :: string
  ae_action :: string
  ae_tenant_id :: "ident option"
  ae_application_id :: "ident option"
  ae_user_id :: "ident option"
  ae_agent_id :: "ident option"
  ae_request :: pydict
  ae_response :: pydict
  ae_request_id :: "string option"
  ae_created_at :: instant

text \<open>A row of the audit log has the columns of an entry; the time of a row is the database's own, not the
  one of the entry.\<close>

record audit_row =
  al_id :: ident
  al_entry :: audit_entry

record sql_db =
  db_tenants :: "tenant list"
  db_applications :: "application list"
  db_users :: "user list"
  db_identities :: "external_identity list"
  db_mappings :: "tenant_identity_mapping list"
  db_memberships :: "membership_row list"
  db_roles :: "role list"
  db_permissions :: "permission list"
  db_membership_roles :: "(ident \<times> ident) set"
  db_role_permissions :: "(ident \<times> ident) set"
  db_agents :: "agent list"
  db_agent_roles :: "(ident \<times> ident) set"
  db_flags :: "flag_row list"
  db_masks :: "(ident \<times> ident \<times> string) set"
  db_audit :: "audit_row list"

definition empty_db :: sql_db where
  "empty_db =
     \<lparr>db_tenants = [], db_applications = [], db_users = [], db_identities = [], db_mappings = [],
      db_memberships = [], db_roles = [], db_permissions = [], db_membership_roles = {},
      db_role_permissions = {}, db_agents = [], db_agent_roles = {}, db_flags = [], db_masks = {},
      db_audit = []\<rparr>"

text \<open>Which present row an insert collides with.\<close>

definition tenant_clash :: "tenant \<Rightarrow> tenant \<Rightarrow> bool" where
  "tenant_clash new r \<longleftrightarrow> tenant_id r = tenant_id new \<or> tenant_slug r = tenant_slug new"

definition application_clash :: "application \<Rightarrow> application \<Rightarrow> bool" where
  "application_clash new r \<longleftrightarrow> app_id r = app_id new \<or> app_slug r = app_slug new"

definition user_clash :: "user \<Rightarrow> user \<Rightarrow> bool" where
  "user_clash new r \<longleftrightarrow> user_id r = user_id new"

definition identity_clash :: "external_identity \<Rightarrow> external_identity \<Rightarrow> bool" where
  "identity_clash new r \<longleftrightarrow> xid_id r = xid_id new \<or>
     same_identity (xid_provider new) (xid_issuer new) (xid_subject new) r"

definition mapping_clash :: "tenant_identity_mapping \<Rightarrow> tenant_identity_mapping \<Rightarrow> bool" where
  "mapping_clash new r \<longleftrightarrow> tim_id r = tim_id new \<or>
     tim_provider r = tim_provider new \<and> tim_issuer r = tim_issuer new \<and>
     tim_external_tenant_id r = tim_external_tenant_id new"

definition membership_clash :: "membership_row \<Rightarrow> membership_row \<Rightarrow> bool" where
  "membership_clash new r \<longleftrightarrow> ms_id r = ms_id new \<or>
     ms_tenant_id r = ms_tenant_id new \<and> ms_user_id r = ms_user_id new \<and>
     ms_application_id new \<noteq> None \<and> ms_application_id r = ms_application_id new"

definition role_clash :: "role \<Rightarrow> role \<Rightarrow> bool" where
  "role_clash new r \<longleftrightarrow> role_id r = role_id new \<or>
     role_name r = role_name new \<and>
     role_tenant_id new \<noteq> None \<and> role_tenant_id r = role_tenant_id new \<and>
     role_application_id new \<noteq> None \<and> role_application_id r = role_application_id new"

definition permission_clash :: "permission \<Rightarrow> permission \<Rightarrow> bool" where
  "permission_clash new r \<longleftrightarrow> perm_id r = perm_id new \<or>
     perm_application_id new \<noteq> None \<and> perm_application_id r = perm_application_id new \<and>
     (perm_name r = perm_name new \<or>
      perm_resource r = perm_resource new \<and> perm_action r = perm_action new)"

definition agent_clash :: "agent \<Rightarrow> agent \<Rightarrow> bool" where
  "agent_clash new r \<longleftrightarrow> agent_id r = agent_id new \<or>
     agent_tenant_id r = agent_tenant_id new \<and> agent_application_id r = agent_application_id new \<and>
     agent_name r = agent_name new"

definition flag_clash :: "flag_row \<Rightarrow> flag_row \<Rightarrow> bool" where
  "flag_clash new r \<longleftrightarrow>
     ff_application_id new \<noteq> None \<and> ff_tenant_id r = ff_tenant_id new \<and>
     ff_application_id r = ff_application_id new \<and> ff_key r = ff_key new"

section \<open>Link tables\<close>

definition link_set :: "(ident \<times> ident) set \<Rightarrow> ident \<Rightarrow> ident set" where
  "link_set table owner = {x. (owner, x) \<in> table}"

text \<open>\<^verbatim>\<open>_links\<close>: the links of several owners.\<close>

definition links :: "(ident \<times> ident) set \<Rightarrow> ident list \<Rightarrow> (ident, ident set) dict" where
  "links table owners =
     map (\<lambda>i. (i, link_set table i)) (filter (\<lambda>i. link_set table i \<noteq> {}) (remdups owners))"

text \<open>\<^verbatim>\<open>_replace_links\<close>: delete what is not wanted, insert what is missing; inserting a pair that is there
  violates the primary key, which happens when \<open>current\<close> was passed and is not what the table holds.\<close>

definition replace_links ::
  "(ident \<times> ident) set \<Rightarrow> ident \<Rightarrow> ident set \<Rightarrow> ident set option \<Rightarrow>
     (authz_error, bool \<times> (ident \<times> ident) set) result" where
  "replace_links table owner ids current =
     (let cur = (case current of None \<Rightarrow> link_set table owner | Some c \<Rightarrow> c) in
      if cur = ids then Inr (False, table)
      else (let t1 = table - {owner} \<times> (cur - ids) in
        if ids - cur \<noteq> {} \<and> (\<exists>i \<in> ids - cur. (owner, i) \<in> t1) then Inl IntegrityError
        else Inr (True, t1 \<union> {owner} \<times> (ids - cur))))"

section \<open>Tenants\<close>

definition sql_create_tenant ::
  "sql_db \<Rightarrow> ident \<Rightarrow> string \<Rightarrow> string \<Rightarrow> string \<Rightarrow> (authz_error, tenant \<times> sql_db) result" where
  "sql_create_tenant db nid slug name status =
     (let row = \<lparr>tenant_id = nid, tenant_slug = slug, tenant_name = name, tenant_status = status\<rparr> in
      res_bind (tbl_insert tenant_clash row (db_tenants db)) (\<lambda>ts. Inr (row, db\<lparr>db_tenants := ts\<rparr>)))"

definition sql_get_tenant :: "sql_db \<Rightarrow> ident \<Rightarrow> tenant option" where
  "sql_get_tenant db tid = tbl_get tenant_id (db_tenants db) tid"

definition sql_get_tenant_by_slug :: "sql_db \<Rightarrow> string \<Rightarrow> tenant option" where
  "sql_get_tenant_by_slug db slug = tbl_get tenant_slug (db_tenants db) slug"

text \<open>\<^verbatim>\<open>uuid.UUID(ref)\<close> of the standard library: it drops \<^verbatim>\<open>urn:\<close>, \<^verbatim>\<open>uuid:\<close>, braces at the ends and dashes,
  and reads the 32 characters that must remain as a hexadecimal \<^verbatim>\<open>int\<close>, which also accepts surrounding
  blanks, a plus sign, a \<^verbatim>\<open>0x\<close> prefix and single underscores between digits.\<close>

function remove_sub :: "string \<Rightarrow> string \<Rightarrow> string" where
  "remove_sub p s =
     (if p = [] \<or> s = [] then s
      else if starts_with p s then remove_sub p (drop (length p) s)
      else hd s # remove_sub p (tl s))"
  by auto
termination
  by (relation "measure (\<lambda>(p, s). length s)") auto

declare remove_sub.simps [simp del]

definition strip_chars :: "char set \<Rightarrow> string \<Rightarrow> string" where
  "strip_chars cs s = rev (dropWhile (\<lambda>c. c \<in> cs) (rev (dropWhile (\<lambda>c. c \<in> cs) s)))"

definition is_hex :: "char \<Rightarrow> bool" where
  "is_hex c \<longleftrightarrow> (let n = (of_char c :: nat) in 48 \<le> n \<and> n \<le> 57 \<or> 65 \<le> n \<and> n \<le> 70 \<or> 97 \<le> n \<and> n \<le> 102)"

fun hex_digits :: "bool \<Rightarrow> string \<Rightarrow> bool" where
  "hex_digits p [] = p"
| "hex_digits p (c # cs) = (if is_hex c then hex_digits True cs else c = CHR ''_'' \<and> p \<and> hex_digits False cs)"

definition int16_ok :: "string \<Rightarrow> bool" where
  "int16_ok s =
     (let t = strip s;
          u = (case t of c # r \<Rightarrow> if c = CHR ''+'' \<or> c = CHR ''-'' then r else t | [] \<Rightarrow> t) in
      if starts_with ''0x'' u \<or> starts_with ''0X'' u then drop 2 u \<noteq> [] \<and> hex_digits True (drop 2 u)
      else hex_digits False u)"

definition is_uuid :: "string \<Rightarrow> bool" where
  "is_uuid ref =
     (let h = filter (\<lambda>c. c \<noteq> CHR ''-'')
                (strip_chars {CHR ''{'', CHR ''}''} (remove_sub ''uuid:'' (remove_sub ''urn:'' ref))) in
      length h = 32 \<and> int16_ok h)"

text \<open>\<^verbatim>\<open>_by_id_or_slug\<close>, for tenants and for applications.\<close>

definition by_id_or_slug :: "('r \<Rightarrow> ident) \<Rightarrow> ('r \<Rightarrow> string) \<Rightarrow> 'r list \<Rightarrow> string \<Rightarrow> 'r option" where
  "by_id_or_slug rid slug rows ref =
     (let hits = filter (\<lambda>r. is_uuid ref \<and> rid r = ref \<or> slug r = ref) rows in
      case List.find (\<lambda>r. rid r = ref) hits of
        Some r \<Rightarrow> Some r
      | None \<Rightarrow> (case hits of [] \<Rightarrow> None | r # _ \<Rightarrow> Some r))"

definition sql_find_tenant :: "sql_db \<Rightarrow> string \<Rightarrow> tenant option" where
  "sql_find_tenant db ref = by_id_or_slug tenant_id tenant_slug (db_tenants db) ref"

definition sql_is_tenant_active :: "sql_db \<Rightarrow> ident \<Rightarrow> bool" where
  "sql_is_tenant_active db tid =
     (case tbl_get tenant_id (db_tenants db) tid of None \<Rightarrow> False | Some t \<Rightarrow> tenant_status t = ''active'')"

section \<open>Applications\<close>

definition sql_create_application ::
  "sql_db \<Rightarrow> ident \<Rightarrow> string \<Rightarrow> string \<Rightarrow> string \<Rightarrow> string option \<Rightarrow>
     (authz_error, application \<times> sql_db) result" where
  "sql_create_application db nid slug name status managed_by =
     (let row = \<lparr>app_id = nid, app_slug = slug, app_name = name, app_status = status,
                 app_managed_by = managed_by\<rparr> in
      res_bind (tbl_insert application_clash row (db_applications db))
        (\<lambda>as. Inr (row, db\<lparr>db_applications := as\<rparr>)))"

definition sql_get_application :: "sql_db \<Rightarrow> ident \<Rightarrow> application option" where
  "sql_get_application db aid = tbl_get app_id (db_applications db) aid"

definition sql_get_application_by_slug :: "sql_db \<Rightarrow> string \<Rightarrow> application option" where
  "sql_get_application_by_slug db slug = tbl_get app_slug (db_applications db) slug"

definition sql_find_application :: "sql_db \<Rightarrow> string \<Rightarrow> application option" where
  "sql_find_application db ref = by_id_or_slug app_id app_slug (db_applications db) ref"

definition sql_is_application_active :: "sql_db \<Rightarrow> ident \<Rightarrow> bool" where
  "sql_is_application_active db aid =
     (case tbl_get app_id (db_applications db) aid of None \<Rightarrow> False | Some a \<Rightarrow> app_status a = ''active'')"

definition sql_set_application_managed_by :: "sql_db \<Rightarrow> ident \<Rightarrow> string option \<Rightarrow> sql_db" where
  "sql_set_application_managed_by db aid managed_by =
     db\<lparr>db_applications := tbl_update app_id aid (\<lambda>a. a\<lparr>app_managed_by := managed_by\<rparr>) (db_applications db)\<rparr>"

text \<open>\<^verbatim>\<open>claim_application_management\<close>: one conditional update, then a read of the manager.\<close>

definition sql_claim_application_management :: "sql_db \<Rightarrow> ident \<Rightarrow> string \<Rightarrow> string option \<times> sql_db" where
  "sql_claim_application_management db aid managed_by =
     (let as = map (\<lambda>a. if app_id a = aid \<and> app_managed_by a = None
                  then a\<lparr>app_managed_by := Some managed_by\<rparr> else a) (db_applications db) in
      (case tbl_get app_id as aid of None \<Rightarrow> None | Some a \<Rightarrow> app_managed_by a,
       db\<lparr>db_applications := as\<rparr>))"

section \<open>Users and identities\<close>

definition sql_get_user :: "sql_db \<Rightarrow> ident \<Rightarrow> user option" where
  "sql_get_user db uid = tbl_get user_id (db_users db) uid"

definition sql_find_identity :: "sql_db \<Rightarrow> string \<Rightarrow> string \<Rightarrow> string \<Rightarrow> external_identity option" where
  "sql_find_identity db provider issuer subj =
     List.find (same_identity provider issuer subj) (db_identities db)"

definition sql_find_user_by_external_identity :: "sql_db \<Rightarrow> string \<Rightarrow> string \<Rightarrow> string \<Rightarrow> user option" where
  "sql_find_user_by_external_identity db provider issuer subj =
     (case sql_find_identity db provider issuer subj of
        None \<Rightarrow> None | Some i \<Rightarrow> tbl_get user_id (db_users db) (xid_user_id i))"

text \<open>\<^verbatim>\<open>_upsert_identity\<close>: \<^verbatim>\<open>get_one\<close> raises when the user row is gone.\<close>

definition upsert_identity ::
  "sql_db \<Rightarrow> ident \<Rightarrow> ident \<Rightarrow> external_identity option \<Rightarrow> string \<times> string \<times> string \<Rightarrow> string option \<Rightarrow>
     string option \<Rightarrow> string option \<Rightarrow> (authz_error, (user \<times> external_identity) \<times> sql_db) result" where
  "upsert_identity db uid xid existing ref email ext_tenant display_name =
     (case existing of
        Some i \<Rightarrow> (case tbl_get user_id (db_users db) (xid_user_id i) of
                    None \<Rightarrow> Inl KeyError | Some u \<Rightarrow> Inr ((u, i), db))
      | None \<Rightarrow>
          (let u = \<lparr>user_id = uid, user_display_name = display_name, user_email = email,
                    user_status = ''active''\<rparr>;
               i = \<lparr>xid_id = xid, xid_user_id = uid, xid_provider = fst ref, xid_issuer = fst (snd ref),
                    xid_subject = snd (snd ref), xid_external_tenant_id = ext_tenant, xid_email = email\<rparr> in
           res_bind (tbl_insert user_clash u (db_users db)) (\<lambda>us.
           res_bind (tbl_insert identity_clash i (db_identities db)) (\<lambda>is.
             Inr ((u, i), db\<lparr>db_users := us, db_identities := is\<rparr>)))))"

definition sql_upsert_user_from_identity ::
  "sql_db \<Rightarrow> ident \<Rightarrow> ident \<Rightarrow> string \<Rightarrow> string \<Rightarrow> string \<Rightarrow> string option \<Rightarrow> string option \<Rightarrow>
     string option \<Rightarrow> (authz_error, (user \<times> external_identity) \<times> sql_db) result" where
  "sql_upsert_user_from_identity db uid xid provider issuer subj email ext_tenant display_name =
     upsert_identity db uid xid (sql_find_identity db provider issuer subj) (provider, issuer, subj)
       email ext_tenant display_name"

definition sql_find_tenant_by_external :: "sql_db \<Rightarrow> string \<Rightarrow> string \<Rightarrow> string \<Rightarrow> tenant option" where
  "sql_find_tenant_by_external db provider issuer ext =
     (case List.find (\<lambda>m. tim_provider m = provider \<and> tim_issuer m = issuer \<and>
               tim_external_tenant_id m = ext) (db_mappings db) of
        None \<Rightarrow> None
      | Some m \<Rightarrow> tbl_get tenant_id (db_tenants db) (tim_tenant_id m))"

definition sql_create_tenant_identity_mapping ::
  "sql_db \<Rightarrow> ident \<Rightarrow> ident \<Rightarrow> string \<Rightarrow> string \<Rightarrow> string \<Rightarrow>
     (authz_error, tenant_identity_mapping \<times> sql_db) result" where
  "sql_create_tenant_identity_mapping db nid tid provider issuer ext =
     (let row = \<lparr>tim_id = nid, tim_tenant_id = tid, tim_provider = provider, tim_issuer = issuer,
                 tim_external_tenant_id = ext\<rparr> in
      res_bind (tbl_insert mapping_clash row (db_mappings db)) (\<lambda>ms. Inr (row, db\<lparr>db_mappings := ms\<rparr>)))"

section \<open>Role names\<close>

text \<open>\<^verbatim>\<open>_assignable_roles\<close>: the query selects, the loop keeps the first application-wide role of a name
  and lets a tenant role replace it. With \<open>tid = None\<close> (a tenant not created yet) the clause
  \<^verbatim>\<open>tenant_id == None\<close> is \<^verbatim>\<open>IS NULL\<close>.\<close>

definition sql_assignable_roles ::
  "sql_db \<Rightarrow> ident option \<Rightarrow> ident option \<Rightarrow> string set \<Rightarrow> (string, role) dict" where
  "sql_assignable_roles db tid aid names =
     fold (\<lambda>r found. if role_tenant_id r \<noteq> None \<or> dict_get found (role_name r) = None
                     then dict_set (role_name r) r found else found)
       (filter (\<lambda>r. role_application_id r = aid \<and> role_name r \<in> names \<and> role_agent_id r = None \<and>
            (role_tenant_id r = tid \<or> role_tenant_id r = None)) (db_roles db)) []"

definition sql_find_assignable_roles ::
  "sql_db \<Rightarrow> ident \<Rightarrow> ident option \<Rightarrow> string set \<Rightarrow> (string, role) dict" where
  "sql_find_assignable_roles db tid aid names = sql_assignable_roles db (Some tid) aid names"

text \<open>\<^verbatim>\<open>_effective_role_ids\<close>, over the linked role rows.\<close>

definition role_overrides :: "sql_db \<Rightarrow> ident \<Rightarrow> string set \<Rightarrow> (ident option \<times> string, ident) dict" where
  "role_overrides db tid names =
     fold (\<lambda>p d. dict_set (role_application_id p, role_name p) (role_id p) d)
       (filter (\<lambda>p. role_tenant_id p = Some tid \<and> role_agent_id p = None \<and> role_name p \<in> names)
          (db_roles db)) []"

definition sql_effective_role_ids :: "sql_db \<Rightarrow> ident \<Rightarrow> role list \<Rightarrow> ident set" where
  "sql_effective_role_ids db tid linked =
     (let own = filter (\<lambda>r. role_tenant_id r = None \<or> role_tenant_id r = Some tid) linked;
          names = role_name ` set (filter (\<lambda>r. role_tenant_id r = None \<and> role_agent_id r = None) own);
          overrides = role_overrides db tid names in
      (\<lambda>r. if role_tenant_id r = None \<and> role_agent_id r = None
           then dict_get_default overrides (role_application_id r, role_name r) (role_id r)
           else role_id r) ` set own)"

section \<open>Memberships\<close>

definition membership_role_names :: "sql_db \<Rightarrow> ident \<Rightarrow> string set" where
  "membership_role_names db mid =
     role_name ` set (filter (\<lambda>r. (mid, role_id r) \<in> db_membership_roles db) (db_roles db))"

definition to_membership :: "sql_db \<Rightarrow> membership_row \<Rightarrow> membership" where
  "to_membership db row =
     \<lparr>mem_id = ms_id row, mem_tenant_id = ms_tenant_id row, mem_user_id = ms_user_id row,
      mem_application_id = ms_application_id row, mem_roles = membership_role_names db (ms_id row),
      mem_status = ms_status row\<rparr>"

definition sql_create_membership ::
  "sql_db \<Rightarrow> ident \<Rightarrow> ident \<Rightarrow> ident option \<Rightarrow> ident \<Rightarrow> string \<Rightarrow> string set \<Rightarrow>
     (authz_error, membership \<times> sql_db) result" where
  "sql_create_membership db nid tid aid uid status roles =
     (let row = \<lparr>ms_id = nid, ms_tenant_id = tid, ms_application_id = aid, ms_user_id = uid,
                 ms_status = status\<rparr> in
      res_bind (tbl_insert membership_clash row (db_memberships db)) (\<lambda>ms.
      res_bind (if roles = {} then Inr (False, db_membership_roles db)
                else replace_links (db_membership_roles db) nid
                       (linked_ids (sql_assignable_roles db (Some tid) aid roles)) (Some {}))
        (\<lambda>(_, ls). let db' = db\<lparr>db_memberships := ms, db_membership_roles := ls\<rparr> in
           Inr (to_membership db' row, db'))))"

definition sql_find_membership :: "sql_db \<Rightarrow> ident \<Rightarrow> ident option \<Rightarrow> ident \<Rightarrow> membership_row option" where
  "sql_find_membership db tid aid uid =
     List.find (\<lambda>m. ms_tenant_id m = tid \<and> ms_user_id m = uid \<and> ms_application_id m = aid) (db_memberships db)"

definition sql_get_membership :: "sql_db \<Rightarrow> ident \<Rightarrow> ident option \<Rightarrow> ident \<Rightarrow> membership option" where
  "sql_get_membership db tid aid uid = map_option (to_membership db) (sql_find_membership db tid aid uid)"

definition sql_get_membership_by_id :: "sql_db \<Rightarrow> ident \<Rightarrow> membership option" where
  "sql_get_membership_by_id db mid = map_option (to_membership db) (tbl_get ms_id (db_memberships db) mid)"

definition sql_list_memberships_for_user :: "sql_db \<Rightarrow> ident \<Rightarrow> membership list" where
  "sql_list_memberships_for_user db uid =
     map (to_membership db) (filter (\<lambda>m. ms_user_id m = uid) (db_memberships db))"

definition sql_set_membership_roles :: "sql_db \<Rightarrow> ident \<Rightarrow> string set \<Rightarrow> (authz_error, sql_db) result" where
  "sql_set_membership_roles db mid role_names =
     (case tbl_get ms_id (db_memberships db) mid of
        None \<Rightarrow> Inr db
      | Some m \<Rightarrow>
          res_bind (replace_links (db_membership_roles db) mid
              (linked_ids (sql_assignable_roles db (Some (ms_tenant_id m)) (ms_application_id m) role_names)) None)
            (\<lambda>(_, ls). Inr (db\<lparr>db_membership_roles := ls\<rparr>)))"

definition sql_is_user_membership_active :: "sql_db \<Rightarrow> ident \<Rightarrow> ident \<Rightarrow> ident \<Rightarrow> bool" where
  "sql_is_user_membership_active db tid aid uid =
     (let row = (case sql_find_membership db tid (Some aid) uid of
                   None \<Rightarrow> sql_find_membership db tid None uid | Some m \<Rightarrow> Some m) in
      case row of None \<Rightarrow> False | Some m \<Rightarrow> ms_status m = MEMBERSHIP_STATUS_ACTIVE)"

section \<open>Roles and permissions\<close>

definition sql_create_role ::
  "sql_db \<Rightarrow> ident \<Rightarrow> string \<Rightarrow> role_scope \<Rightarrow> ident option \<Rightarrow> ident option \<Rightarrow> string option \<Rightarrow>
     (authz_error, role \<times> sql_db) result" where
  "sql_create_role db nid name scope aid tid description =
     (let row = \<lparr>role_id = nid, role_name = name, role_scope = scope, role_tenant_id = tid,
                 role_application_id = aid, role_description = description, role_is_system = False,
                 role_agent_id = None\<rparr> in
      res_bind (tbl_insert role_clash row (db_roles db)) (\<lambda>rs. Inr (row, db\<lparr>db_roles := rs\<rparr>)))"

definition sql_get_role :: "sql_db \<Rightarrow> ident \<Rightarrow> role option" where
  "sql_get_role db rid = tbl_get role_id (db_roles db) rid"

definition named_roles :: "sql_db \<Rightarrow> ident option \<Rightarrow> ident option \<Rightarrow> role list" where
  "named_roles db aid tid =
     filter (\<lambda>r. role_application_id r = aid \<and> role_tenant_id r = tid \<and> role_agent_id r = None) (db_roles db)"

definition role_by_name :: "sql_db \<Rightarrow> ident option \<Rightarrow> ident option \<Rightarrow> string \<Rightarrow> role option" where
  "role_by_name db aid tid name = List.find (\<lambda>r. role_name r = name) (named_roles db aid tid)"

definition sql_get_role_by_name :: "sql_db \<Rightarrow> ident option \<Rightarrow> ident option \<Rightarrow> string \<Rightarrow> role option" where
  "sql_get_role_by_name db aid tid name = role_by_name db aid tid name"

definition sql_list_roles_for_application :: "sql_db \<Rightarrow> ident \<Rightarrow> role list" where
  "sql_list_roles_for_application db aid = filter (\<lambda>r. role_application_id r = Some aid) (db_roles db)"

definition sql_create_permission ::
  "sql_db \<Rightarrow> ident \<Rightarrow> string \<Rightarrow> ident option \<Rightarrow> string option \<Rightarrow> (authz_error, permission \<times> sql_db) result" where
  "sql_create_permission db nid name aid description =
     res_bind (from_name name None aid) (\<lambda>parsed.
       let row = \<lparr>perm_id = nid, perm_name = name, perm_resource = perm_resource parsed,
                  perm_action = perm_action parsed, perm_application_id = aid,
                  perm_description = description, perm_deprecated = False, perm_critical = False\<rparr> in
       res_bind (tbl_insert permission_clash row (db_permissions db))
         (\<lambda>ps. Inr (row, db\<lparr>db_permissions := ps\<rparr>)))"

definition sql_list_application_permissions :: "sql_db \<Rightarrow> ident option \<Rightarrow> permission list" where
  "sql_list_application_permissions db aid = filter (\<lambda>p. perm_application_id p = aid) (db_permissions db)"

definition sql_list_role_permissions :: "sql_db \<Rightarrow> ident \<Rightarrow> permission list" where
  "sql_list_role_permissions db rid =
     filter (\<lambda>p. (rid, perm_id p) \<in> db_role_permissions db) (db_permissions db)"

text \<open>\<^verbatim>\<open>_active_permissions\<close>: by name, a later row replacing an earlier one.\<close>

definition active_permissions ::
  "sql_db \<Rightarrow> ident option \<Rightarrow> string set option \<Rightarrow> (string, permission) dict" where
  "active_permissions db aid names =
     fold (\<lambda>p d. dict_set (perm_name p) p d)
       (filter (\<lambda>p. perm_application_id p = aid \<and> perm_active p \<and>
            (case names of None \<Rightarrow> True | Some ns \<Rightarrow> perm_name p \<in> ns)) (db_permissions db)) []"

definition sql_set_role_permissions :: "sql_db \<Rightarrow> ident \<Rightarrow> string set \<Rightarrow> (authz_error, sql_db) result" where
  "sql_set_role_permissions db rid permission_names =
     (case tbl_get role_id (db_roles db) rid of
        None \<Rightarrow> Inr db
      | Some r \<Rightarrow>
          (let rows = active_permissions db (role_application_id r) (Some permission_names) in
           res_bind (check_names ''permission'' permission_names (set (map fst rows))) (\<lambda>_.
           res_bind (replace_links (db_role_permissions db) rid (perm_id ` set (dict_values rows)) None)
             (\<lambda>(_, ls). Inr (db\<lparr>db_role_permissions := ls\<rparr>)))))"

section \<open>Aggregated permission resolution\<close>

definition sql_linked_roles :: "sql_db \<Rightarrow> (ident \<times> ident) set \<Rightarrow> ident list \<Rightarrow> role list" where
  "sql_linked_roles db table owners =
     filter (\<lambda>r. \<exists>o' \<in> set owners. (o', role_id r) \<in> table) (db_roles db)"

definition sql_eligible_memberships :: "sql_db \<Rightarrow> ident \<Rightarrow> ident \<Rightarrow> ident \<Rightarrow> membership_row list" where
  "sql_eligible_memberships db tid aid uid =
     filter (\<lambda>m. ms_tenant_id m = tid \<and> ms_user_id m = uid \<and> ms_status m = MEMBERSHIP_STATUS_ACTIVE \<and>
         (ms_application_id m = Some aid \<or> ms_application_id m = None)) (db_memberships db)"

definition sql_resolve_user_permissions :: "sql_db \<Rightarrow> ident \<Rightarrow> ident \<Rightarrow> ident \<Rightarrow> string set" where
  "sql_resolve_user_permissions db tid aid uid =
     (let ids = map ms_id (sql_eligible_memberships db tid aid uid) in
      if ids = [] then {}
      else (let role_ids = sql_effective_role_ids db tid (sql_linked_roles db (db_membership_roles db) ids) in
        if role_ids = {} then {}
        else perm_name ` set (filter (\<lambda>p. (\<exists>rid \<in> role_ids. (rid, perm_id p) \<in> db_role_permissions db) \<and>
               perm_active p \<and> (perm_application_id p = Some aid \<or> perm_application_id p = None))
             (db_permissions db))))"

definition sql_resolve_agent_permissions :: "sql_db \<Rightarrow> ident \<Rightarrow> ident \<Rightarrow> ident \<Rightarrow> string set" where
  "sql_resolve_agent_permissions db tid aid gid =
     (case tbl_get agent_id (db_agents db) gid of
        None \<Rightarrow> {}
      | Some g \<Rightarrow>
          if agent_tenant_id g \<noteq> tid \<or> agent_application_id g \<noteq> aid then {}
          else (let role_ids = sql_effective_role_ids db tid (sql_linked_roles db (db_agent_roles db) [gid]) in
            if role_ids = {} then {}
            else perm_name ` set (filter (\<lambda>p. (\<exists>rid \<in> role_ids. (rid, perm_id p) \<in> db_role_permissions db) \<and>
                   perm_active p) (db_permissions db))))"

definition sql_resolve_tenant_permissions :: "sql_db \<Rightarrow> ident \<Rightarrow> ident \<Rightarrow> string set" where
  "sql_resolve_tenant_permissions db tid aid = {n. (tid, aid, n) \<in> db_masks db}"

definition sql_set_tenant_permission_mask :: "sql_db \<Rightarrow> ident \<Rightarrow> ident \<Rightarrow> string set \<Rightarrow> sql_db" where
  "sql_set_tenant_permission_mask db tid aid permissions =
     db\<lparr>db_masks := (db_masks db - {tid} \<times> {aid} \<times> UNIV) \<union> {tid} \<times> {aid} \<times> permissions\<rparr>"

definition sql_get_tenant_feature_flags :: "sql_db \<Rightarrow> ident \<Rightarrow> ident option \<Rightarrow> pydict" where
  "sql_get_tenant_feature_flags db tid aid =
     fold (\<lambda>f d. dict_set (ff_key f) (ff_value f) d)
       (filter (\<lambda>f. ff_tenant_id f = tid \<and> ff_application_id f = aid) (db_flags db)) []"

fun update_first :: "('a \<Rightarrow> bool) \<Rightarrow> ('a \<Rightarrow> 'a) \<Rightarrow> 'a list \<Rightarrow> 'a list" where
  "update_first P f [] = []"
| "update_first P f (x # xs) = (if P x then f x # xs else x # update_first P f xs)"

definition sql_set_tenant_feature_flag ::
  "sql_db \<Rightarrow> ident \<Rightarrow> ident option \<Rightarrow> string \<Rightarrow> pyval \<Rightarrow> (authz_error, sql_db) result" where
  "sql_set_tenant_feature_flag db tid aid key val =
     (let same = (\<lambda>f. ff_tenant_id f = tid \<and> ff_application_id f = aid \<and> ff_key f = key) in
      if list_ex same (db_flags db) then
        Inr (db\<lparr>db_flags := update_first same (\<lambda>f. f\<lparr>ff_value := val\<rparr>) (db_flags db)\<rparr>)
      else
        res_bind (tbl_insert flag_clash
            \<lparr>ff_tenant_id = tid, ff_application_id = aid, ff_key = key, ff_value = val\<rparr> (db_flags db))
          (\<lambda>fs. Inr (db\<lparr>db_flags := fs\<rparr>)))"

section \<open>Agents\<close>

definition sql_create_agent ::
  "sql_db \<Rightarrow> ident \<Rightarrow> ident \<Rightarrow> ident \<Rightarrow> string \<Rightarrow> string \<Rightarrow> string \<Rightarrow> ident option \<Rightarrow> string option \<Rightarrow>
     (authz_error, agent \<times> sql_db) result" where
  "sql_create_agent db nid tid aid name role_label status created_by display_name =
     (let row = \<lparr>agent_id = nid, agent_tenant_id = tid, agent_application_id = aid, agent_name = name,
                 agent_role = role_label, agent_status = status,
                 agent_created_by_user_id = created_by, agent_display_name = display_name\<rparr> in
      res_bind (tbl_insert agent_clash row (db_agents db)) (\<lambda>gs. Inr (row, db\<lparr>db_agents := gs\<rparr>)))"

definition sql_get_agent :: "sql_db \<Rightarrow> ident \<Rightarrow> ident \<Rightarrow> ident \<Rightarrow> agent option" where
  "sql_get_agent db tid aid gid =
     (case tbl_get agent_id (db_agents db) gid of
        None \<Rightarrow> None
      | Some g \<Rightarrow> if agent_tenant_id g \<noteq> tid \<or> agent_application_id g \<noteq> aid then None else Some g)"

definition sql_get_agent_by_id :: "sql_db \<Rightarrow> ident \<Rightarrow> agent option" where
  "sql_get_agent_by_id db gid = tbl_get agent_id (db_agents db) gid"

definition sql_find_agent_by_name :: "sql_db \<Rightarrow> ident \<Rightarrow> ident \<Rightarrow> string \<Rightarrow> agent option" where
  "sql_find_agent_by_name db tid aid name =
     List.find (\<lambda>g. agent_tenant_id g = tid \<and> agent_application_id g = aid \<and> agent_name g = name) (db_agents db)"

definition sql_is_agent_active :: "sql_db \<Rightarrow> ident \<Rightarrow> ident \<Rightarrow> ident \<Rightarrow> bool" where
  "sql_is_agent_active db tid aid gid =
     (case sql_get_agent db tid aid gid of None \<Rightarrow> False | Some g \<Rightarrow> agent_status g = ''active'')"

definition sql_set_agent_roles :: "sql_db \<Rightarrow> ident \<Rightarrow> string set \<Rightarrow> (authz_error, sql_db) result" where
  "sql_set_agent_roles db gid role_names =
     (case tbl_get agent_id (db_agents db) gid of
        None \<Rightarrow> Inr db
      | Some g \<Rightarrow>
          (let rows = sql_assignable_roles db (Some (agent_tenant_id g)) (Some (agent_application_id g)) role_names in
           res_bind (check_names ''role'' role_names (set (map fst rows))) (\<lambda>_.
           res_bind (replace_links (db_agent_roles db) gid (linked_ids rows) None)
             (\<lambda>(_, ls). Inr (db\<lparr>db_agent_roles := ls\<rparr>)))))"

definition sql_list_agents :: "sql_db \<Rightarrow> ident \<Rightarrow> ident \<Rightarrow> agent list" where
  "sql_list_agents db tid aid =
     filter (\<lambda>g. agent_tenant_id g = tid \<and> agent_application_id g = aid) (db_agents db)"

section \<open>References of a decision\<close>

text \<open>\<^verbatim>\<open>resolve_references\<close>: the references of a decision request, one lookup each.\<close>

definition resolve_references ::
  "sql_db \<Rightarrow> string \<Rightarrow> string \<Rightarrow> ident option \<Rightarrow> (string \<times> string \<times> string) option \<Rightarrow> ident option \<Rightarrow>
     string option \<Rightarrow> resolved_references" where
  "resolve_references db tref aref uid user_ref agid agname =
     (let t = sql_find_tenant db tref; a = sql_find_application db aref;
          uid' = (case user_ref of
                    None \<Rightarrow> uid
                  | Some (p, i, sb) \<Rightarrow> map_option xid_user_id (sql_find_identity db p i sb));
          (agid', status) = (case agname of
                    None \<Rightarrow> (agid, None)
                  | Some n \<Rightarrow>
                      (case (t, a) of
                         (Some t', Some a') \<Rightarrow>
                           (case sql_find_agent_by_name db (tenant_id t') (app_id a') n of
                              Some g \<Rightarrow> (Some (agent_id g), Some (agent_status g))
                            | None \<Rightarrow> (None, None))
                       | _ \<Rightarrow> (None, None))) in
      \<lparr>ref_tenant_id = (case t of Some t' \<Rightarrow> tenant_id t' | None \<Rightarrow> tref),
       ref_application_id = (case a of Some a' \<Rightarrow> app_id a' | None \<Rightarrow> aref),
       ref_tenant_status = map_option tenant_status t,
       ref_application_status = map_option app_status a,
       ref_user_id = uid',
       ref_user_missing = (user_ref \<noteq> None \<and> uid' = None),
       ref_agent_id = agid',
       ref_agent_status = status,
       ref_agent_missing = (agname \<noteq> None \<and> agid' = None)\<rparr>)"

section \<open>Audit\<close>

definition write_audit ::
  "sql_db \<Rightarrow> ident \<Rightarrow> instant \<Rightarrow> audit_entry \<Rightarrow> string option \<Rightarrow> (authz_error, sql_db) result" where
  "write_audit db nid now entry request_id =
     (let row = \<lparr>al_id = nid,
                 al_entry = entry\<lparr>ae_created_at := now, ae_request_id :=
                   (case request_id of None \<Rightarrow> ae_request_id entry
                    | Some r \<Rightarrow> if r = '''' then ae_request_id entry else Some r)\<rparr>\<rparr> in
      res_bind (tbl_insert (\<lambda>new r. al_id r = al_id new) row (db_audit db))
        (\<lambda>rs. Inr (db\<lparr>db_audit := rs\<rparr>)))"

section \<open>The store as a repository\<close>

definition sql_repository :: "sql_db \<Rightarrow> rbac_repository" where
  "sql_repository db =
     \<lparr>repo_get_role = sql_get_role db,
      repo_get_role_by_name = sql_get_role_by_name db,
      repo_list_role_permissions = sql_list_role_permissions db,
      repo_list_application_permissions = sql_list_application_permissions db,
      repo_resolve_user_permissions = sql_resolve_user_permissions db,
      repo_resolve_agent_permissions = sql_resolve_agent_permissions db,
      repo_resolve_tenant_permissions = sql_resolve_tenant_permissions db,
      repo_get_tenant_feature_flags = sql_get_tenant_feature_flags db,
      repo_is_tenant_active = sql_is_tenant_active db,
      repo_is_application_active = sql_is_application_active db,
      repo_is_user_membership_active = sql_is_user_membership_active db,
      repo_is_agent_active = sql_is_agent_active db\<rparr>"

end
