(* ===== verification/Memory_Invariants.thy ===== *)
theory Memory_Invariants
  imports Memory_Store
begin

text \<open>
  What the in-memory store keeps: the contract of a repository, the tenant-first resolution of
  role names, an invariant of every store reachable by its operations, and what follows from it
  (who can grant a permission to whom, and that a tenant's data never affects a decision in
  another tenant).
\<close>

section \<open>The repository contract\<close>

lemma list_role_permissions_subset:
  "p \<in> set (list_role_permissions s rid) \<Longrightarrow> p \<in> set (dict_values (st_permissions s))"
  by (force simp: list_role_permissions_def dict_values_def Let_def)

lemma resolve_user_permissions_catalog:
  "name \<in> resolve_user_permissions s t a u \<Longrightarrow>
     \<exists>p \<in> set (list_application_permissions s (Some a)) \<union>
          set (list_application_permissions s None). perm_active p \<and> perm_name p = name"
  by (fastforce simp: resolve_user_permissions_def list_application_permissions_def
      dest: list_role_permissions_subset)

interpretation memory: rbac_contract "memory_repository s" for s
proof unfold_locales
  fix p t a u
  assume "p \<in> repo_resolve_user_permissions (memory_repository s) t a u"
  then show "p \<in> active_catalog (memory_repository s) a"
    using resolve_user_permissions_catalog
    by (fastforce simp: memory_repository_def active_catalog_def)
qed (auto simp: memory_repository_def is_agent_active_def get_agent_def
    resolve_agent_permissions_def split: option.splits if_splits)

section \<open>Tenant-first resolution of role names\<close>

definition assignable :: "ident option \<Rightarrow> ident option \<Rightarrow> role \<Rightarrow> bool" where
  "assignable tid aid r \<longleftrightarrow>
     role_application_id r = aid \<and> role_agent_id r = None \<and>
     (role_tenant_id r = None \<or> role_tenant_id r = tid)"

text \<open>The meaning of a role name in a tenant: the tenant's own role of that name (the last one
  created), else the application-wide one (the first one created).\<close>

definition tenant_first :: "ident option \<Rightarrow> ident option \<Rightarrow> role list \<Rightarrow> string \<Rightarrow> role option" where
  "tenant_first tid aid rs name =
     (let own = filter (\<lambda>r. assignable tid aid r \<and> role_name r = name \<and> role_tenant_id r \<noteq> None) rs
      in if own \<noteq> [] then Some (last own)
         else List.find (\<lambda>r. assignable tid aid r \<and> role_name r = name \<and> role_tenant_id r = None) rs)"

lemma assignable_loop_get:
  "dict_get (assignable_loop tid aid wanted rs found) n =
     (if n \<notin> wanted then dict_get found n
      else (let own = filter (\<lambda>r. assignable tid aid r \<and> role_name r = n \<and> role_tenant_id r \<noteq> None) rs
        in if own \<noteq> [] then Some (last own)
           else (case dict_get found n of
               Some r \<Rightarrow> Some r
             | None \<Rightarrow>
                 List.find (\<lambda>r. assignable tid aid r \<and> role_name r = n \<and> role_tenant_id r = None) rs)))"
proof (induction rs arbitrary: found)
  case Nil
  then show ?case by (simp split: option.split)
next
  case (Cons r rs)
  show ?case
    unfolding assignable_loop.simps Cons.IH
    by (auto simp: assignable_def Let_def split: option.splits)
qed

lemma find_assignable_roles_get:
  "dict_get (find_assignable_roles s t aid names) n =
     (if n \<in> names then tenant_first (Some t) aid (dict_values (st_roles s)) n else None)"
  by (simp add: find_assignable_roles_def assignable_loop_get tenant_first_def Let_def)

lemma tenant_first_Some:
  "tenant_first tid aid rs n = Some r \<Longrightarrow> r \<in> set rs \<and> assignable tid aid r \<and> role_name r = n"
proof -
  let ?P = "\<lambda>r. assignable tid aid r \<and> role_name r = n \<and> role_tenant_id r \<noteq> None"
  assume a: "tenant_first tid aid rs n = Some r"
  show ?thesis
  proof (cases "filter ?P rs = []")
    case True
    then show ?thesis using a find_Some_set [of _ rs r] by (auto simp: tenant_first_def Let_def)
  next
    case False
    then have "r = last (filter ?P rs)" using a by (simp add: tenant_first_def Let_def)
    then have "r \<in> set (filter ?P rs)" using False last_in_set by metis
    then show ?thesis by simp
  qed
qed

lemma assignable_loop_ok: "dict_ok found \<Longrightarrow> dict_ok (assignable_loop tid aid wanted rs found)"
  by (induction rs arbitrary: found) auto

lemma find_assignable_roles_ok: "dict_ok (find_assignable_roles s t aid names)"
  by (simp add: find_assignable_roles_def assignable_loop_ok)

lemma find_assignable_roles_values:
  assumes "r \<in> set (dict_values (find_assignable_roles s t aid names))"
  shows "r \<in> set (dict_values (st_roles s))" "assignable (Some t) aid r"
    "role_name r \<in> names"
  using assms dict_values_iff [OF find_assignable_roles_ok [of s t aid names]]
  by (auto simp: find_assignable_roles_get split: if_splits dest: tenant_first_Some)

section \<open>Reachable stores\<close>

text \<open>One rule per operation that changes the store. An identifier drawn by \<^verbatim>\<open>_new_id\<close> is one no table
  uses yet.\<close>

inductive mem_step :: "memory_store \<Rightarrow> memory_store \<Rightarrow> bool" where
  tenant: "dict_get (st_tenants s) nid = None \<Longrightarrow>
     mem_step s (snd (create_tenant s nid slug name status))"
| application: "dict_get (st_applications s) nid = None \<Longrightarrow>
     mem_step s (snd (create_application s nid slug name status managed_by))"
| managed: "mem_step s (set_application_managed_by s aid managed_by)"
| upsert: "\<lbrakk>dict_get (st_users s) uid = None; dict_get (st_external_identities s) xid = None;
     upsert_user_from_identity s uid xid provider issuer subj email ext dn = Inr (res, s')\<rbrakk> \<Longrightarrow>
     mem_step s s'"
| mapping: "dict_get (st_tenant_identity_mappings s) nid = None \<Longrightarrow>
     mem_step s (snd (create_tenant_identity_mapping s nid tid provider issuer ext))"
| membership: "dict_get (st_memberships s) nid = None \<Longrightarrow>
     mem_step s (snd (create_membership s nid tid aid' uid status roles))"
| membership_roles: "set_membership_roles s mid names = Inr s' \<Longrightarrow> mem_step s s'"
| role: "dict_get (st_roles s) nid = None \<Longrightarrow>
     mem_step s (snd (create_role s nid name scope aid' tid' description))"
| permission: "create_permission s name aid' = Inr (p, s') \<Longrightarrow> mem_step s s'"
| role_permissions: "set_role_permissions s rid names = Inr s' \<Longrightarrow> mem_step s s'"
| tenant_mask: "mem_step s (set_tenant_permission_mask s tid aid permissions)"
| feature_flag: "mem_step s (set_tenant_feature_flag s tid aid' key val)"
| agent: "dict_get (st_agents s) nid = None \<Longrightarrow>
     mem_step s (snd (create_agent s nid tid aid name label status created_by dn))"
| agent_roles: "set_agent_roles s gid names = Inr s' \<Longrightarrow> mem_step s s'"

inductive mem_reachable :: "memory_store \<Rightarrow> bool" where
  start: "mem_reachable empty_store"
| step: "\<lbrakk>mem_reachable s; mem_step s s'\<rbrakk> \<Longrightarrow> mem_reachable s'"

section \<open>The invariant\<close>

definition tables_ok :: "memory_store \<Rightarrow> bool" where
  "tables_ok s \<longleftrightarrow>
     keyed_by tenant_id (st_tenants s) \<and> keyed_by app_id (st_applications s) \<and>
     keyed_by user_id (st_users s) \<and> keyed_by xid_id (st_external_identities s) \<and>
     keyed_by tim_id (st_tenant_identity_mappings s) \<and> keyed_by mem_id (st_memberships s) \<and>
     keyed_by role_id (st_roles s) \<and> keyed_by agent_id (st_agents s) \<and>
     keyed_by perm_name (st_permissions s) \<and>
     (\<forall>r \<in> set (dict_values (st_roles s)). role_agent_id r = None)"

text \<open>Every role linked to a membership or an agent exists, is a named role of the same application
  and is the tenant's own or application-wide.\<close>

definition membership_links_ok :: "memory_store \<Rightarrow> bool" where
  "membership_links_ok s \<longleftrightarrow>
     (\<forall>mid rids rid. dict_get (st_membership_roles s) mid = Some rids \<longrightarrow> rid \<in> rids \<longrightarrow>
        (\<exists>m r. dict_get (st_memberships s) mid = Some m \<and> dict_get (st_roles s) rid = Some r \<and>
           assignable (Some (mem_tenant_id m)) (mem_application_id m) r))"

definition agent_links_ok :: "memory_store \<Rightarrow> bool" where
  "agent_links_ok s \<longleftrightarrow>
     (\<forall>gid rids rid. dict_get (st_agent_roles s) gid = Some rids \<longrightarrow> rid \<in> rids \<longrightarrow>
        (\<exists>g r. dict_get (st_agents s) gid = Some g \<and> dict_get (st_roles s) rid = Some r \<and>
           assignable (Some (agent_tenant_id g)) (Some (agent_application_id g)) r))"

definition store_inv :: "memory_store \<Rightarrow> bool" where
  "store_inv s \<longleftrightarrow> tables_ok s \<and> membership_links_ok s \<and> agent_links_ok s"

lemma store_inv_empty: "store_inv empty_store"
  by (simp add: store_inv_def tables_ok_def membership_links_ok_def agent_links_ok_def
      empty_store_def dict_values_def)

lemma linked_ids_assignable:
  assumes "rid \<in> linked_ids (find_assignable_roles s t aid names)" "keyed_by role_id (st_roles s)"
  shows "\<exists>r. dict_get (st_roles s) rid = Some r \<and> assignable (Some t) aid r"
  using assms find_assignable_roles_values [of _ s t aid names] keyed_by_values [of role_id]
  by (fastforce simp: linked_ids_def)

lemma find_assignable_roles_frame [simp]:
  "find_assignable_roles (s\<lparr>st_memberships := ms\<rparr>) t aid names = find_assignable_roles s t aid names"
  by (simp add: find_assignable_roles_def)

lemmas mem_op_defs =
  create_tenant_def create_application_def set_application_managed_by_def
  create_tenant_identity_mapping_def create_membership_def set_membership_roles_def
  create_role_def create_permission_def set_role_permissions_def set_tenant_permission_mask_def
  set_tenant_feature_flag_def create_agent_def set_agent_roles_def upsert_user_from_identity_def

lemma dict_values_set_in:
  "v' \<in> set (dict_values (dict_set k v d)) \<Longrightarrow> v' = v \<or> v' \<in> set (dict_values d)"
  using dict_values_set_subset [of k v d] by blast

lemma from_name_id: "from_name name None aid = Inr p \<Longrightarrow> perm_id p = name \<and> perm_name p = name"
  by (auto simp: from_name_def Let_def split: if_splits prod.splits)

lemma mem_step_tables: "\<lbrakk>mem_step s s'; tables_ok s\<rbrakk> \<Longrightarrow> tables_ok s'"
proof (induction rule: mem_step.induct)
  case (membership_roles s mid names s')
  then obtain m where m: "dict_get (st_memberships s) mid = Some m"
    by (auto simp: set_membership_roles_def split: option.splits)
  then have "mem_id m = mid"
    using membership_roles keyed_by_get [of mem_id "st_memberships s" mid m]
    by (simp add: tables_ok_def)
  then show ?case
    using membership_roles m by (auto simp: set_membership_roles_def tables_ok_def intro!: keyed_by_set)
next
  case (managed s aid managed_by)
  then show ?case
    using keyed_by_get [of app_id "st_applications s" aid]
    by (auto simp: set_application_managed_by_def tables_ok_def split: option.splits
        intro!: keyed_by_set)
qed (auto simp: mem_op_defs tables_ok_def Let_def res_bind_eq_Inr
    split: option.splits dest: from_name_id dict_values_set_in intro!: keyed_by_set)

lemma mem_step_membership_links:
  "\<lbrakk>mem_step s s'; tables_ok s; membership_links_ok s\<rbrakk> \<Longrightarrow> membership_links_ok s'"
proof (induction rule: mem_step.induct)
  case (membership s nid tid aid' uid status roles)
  then show ?case
    using linked_ids_assignable [of _ s tid aid' roles]
    by (fastforce simp: create_membership_def membership_links_ok_def tables_ok_def Let_def
        split: if_splits)
next
  case (membership_roles s mid names s')
  then show ?case
    using linked_ids_assignable [of _ s _ _ names]
    by (fastforce simp: set_membership_roles_def membership_links_ok_def tables_ok_def
        split: option.splits if_splits)
next
  case (role s nid name scope aid' tid' description)
  then show ?case
    by (fastforce simp: create_role_def membership_links_ok_def Let_def)
qed (auto simp: mem_op_defs membership_links_ok_def Let_def res_bind_eq_Inr split: option.splits)

lemma mem_step_agent_links:
  "\<lbrakk>mem_step s s'; tables_ok s; agent_links_ok s\<rbrakk> \<Longrightarrow> agent_links_ok s'"
proof (induction rule: mem_step.induct)
  case (agent s nid tid aid name label status created_by dn)
  then show ?case
    by (fastforce simp: create_agent_def agent_links_ok_def Let_def split: if_splits)
next
  case (agent_roles s gid names s')
  then show ?case
    using linked_ids_assignable [of _ s _ _ names]
    by (fastforce simp: set_agent_roles_def agent_links_ok_def tables_ok_def Let_def
        res_bind_eq_Inr split: option.splits if_splits)
next
  case (role s nid name scope aid' tid' description)
  then show ?case
    by (fastforce simp: create_role_def agent_links_ok_def Let_def)
qed (auto simp: mem_op_defs agent_links_ok_def Let_def res_bind_eq_Inr split: option.splits)

lemma mem_step_inv: "\<lbrakk>mem_step s s'; store_inv s\<rbrakk> \<Longrightarrow> store_inv s'"
  using mem_step_tables mem_step_membership_links mem_step_agent_links
  by (auto simp: store_inv_def)

lemma reachable_inv: "mem_reachable s \<Longrightarrow> store_inv s"
  by (induction rule: mem_reachable.induct) (auto intro: store_inv_empty mem_step_inv)

section \<open>Who grants a permission\<close>

lemma effective_role_id_cases:
  assumes "effective_role_id s t rid = Some rid'" "keyed_by role_id (st_roles s)"
    and "dict_get (st_roles s) rid = Some r" "role_agent_id r = None"
  shows "\<exists>r'. dict_get (st_roles s) rid' = Some r' \<and>
     role_application_id r' = role_application_id r \<and> role_name r' = role_name r \<and>
     (role_tenant_id r' = None \<or> role_tenant_id r' = Some t)"
proof -
  let ?P = "\<lambda>p. role_tenant_id p = Some t \<and> role_agent_id p = None \<and>
      role_application_id p = role_application_id r \<and> role_name p = role_name r"
  have rid: "role_id r = rid" using keyed_by_get [OF assms(2,3)] .
  show ?thesis
  proof (cases "role_tenant_id r = None")
    case False
    then show ?thesis using assms rid by (auto simp: effective_role_id_def split: if_splits)
  next
    case True
    show ?thesis
    proof (cases "List.find ?P (dict_values (st_roles s))")
      case None
      then show ?thesis using True assms rid by (auto simp: effective_role_id_def)
    next
      case (Some ov)
      then have ov: "ov \<in> set (dict_values (st_roles s))" "?P ov"
        using find_Some_set [OF Some] by auto
      then have "dict_get (st_roles s) (role_id ov) = Some ov"
        using keyed_by_values [OF assms(2)] by blast
      moreover have "rid' = role_id ov" using Some True assms by (simp add: effective_role_id_def)
      ultimately show ?thesis using ov by auto
    qed
  qed
qed

lemma effective_role_id_tenant:
  assumes "effective_role_id s t rid = Some rid'" "keyed_by role_id (st_roles s)"
  shows "\<exists>r'. dict_get (st_roles s) rid' = Some r' \<and>
     (role_tenant_id r' = None \<or> role_tenant_id r' = Some t)"
proof -
  obtain r where r: "dict_get (st_roles s) rid = Some r"
    using assms(1) by (auto simp: effective_role_id_def split: option.splits)
  show ?thesis
  proof (cases "role_agent_id r = None")
    case True
    then show ?thesis using effective_role_id_cases [OF assms r] by blast
  next
    case False
    then show ?thesis
      using assms r keyed_by_get [OF assms(2) r]
      by (auto simp: effective_role_id_def split: if_splits)
  qed
qed

lemma user_grant_path:
  assumes "store_inv s" "name \<in> resolve_user_permissions s t a u"
  shows "\<exists>m r p. m \<in> set (dict_values (st_memberships s)) \<and> mem_user_id m = u \<and>
     mem_tenant_id m = t \<and> mem_status m = ''active'' \<and>
     (mem_application_id m = Some a \<or> mem_application_id m = None) \<and>
     r \<in> set (dict_values (st_roles s)) \<and> role_application_id r = mem_application_id m \<and>
     (role_tenant_id r = None \<or> role_tenant_id r = Some t) \<and>
     p \<in> set (list_role_permissions s (role_id r)) \<and> perm_name p = name \<and> perm_active p \<and>
     (perm_application_id p = Some a \<or> perm_application_id p = None)"
proof -
  from assms(2) obtain m lid rid p where
    m: "m \<in> set (eligible_memberships s t a u)"
    and l: "lid \<in> dict_get_default (st_membership_roles s) (mem_id m) {}"
    and e: "effective_role_id s t lid = Some rid"
    and p: "p \<in> set (list_role_permissions s rid)" "perm_name p = name" "perm_active p"
      "perm_application_id p = Some a \<or> perm_application_id p = None"
    by (auto simp: resolve_user_permissions_def effective_role_ids_def)
  have inv: "keyed_by role_id (st_roles s)" "keyed_by mem_id (st_memberships s)"
    "membership_links_ok s"
    using assms(1) by (auto simp: store_inv_def tables_ok_def)
  have mem: "dict_get (st_memberships s) (mem_id m) = Some m"
    using m keyed_by_values [OF inv(2)] by (auto simp: eligible_memberships_def)
  then obtain r where r: "dict_get (st_roles s) lid = Some r"
    "assignable (Some (mem_tenant_id m)) (mem_application_id m) r"
    using l inv(3)
    by (fastforce simp: membership_links_ok_def dict_get_default_def split: option.splits)
  obtain r' where r': "dict_get (st_roles s) rid = Some r'"
    "role_application_id r' = role_application_id r"
    "role_tenant_id r' = None \<or> role_tenant_id r' = Some t"
    using effective_role_id_cases [OF e inv(1) r(1)] r(2) by (auto simp: assignable_def)
  then have "r' \<in> set (dict_values (st_roles s))" "role_id r' = rid"
    using dict_get_in_values keyed_by_get [OF inv(1)] by metis+
  then show ?thesis
    using m r(2) r' p by (intro exI [of _ m] exI [of _ r'] exI [of _ p])
      (auto simp: eligible_memberships_def assignable_def MEMBERSHIP_STATUS_ACTIVE_def)
qed

section \<open>Other tenants\<close>

text \<open>The operations on another tenant's data: its memberships, roles, agents and mask, and the
  permissions of its roles.\<close>

inductive other_tenant_step :: "ident \<Rightarrow> memory_store \<Rightarrow> memory_store \<Rightarrow> bool" where
  "\<lbrakk>dict_get (st_tenants s) nid = None; nid \<noteq> t\<rbrakk> \<Longrightarrow>
     other_tenant_step t s (snd (create_tenant s nid slug name status))"
| "\<lbrakk>dict_get (st_memberships s) nid = None; tid \<noteq> t\<rbrakk> \<Longrightarrow>
     other_tenant_step t s (snd (create_membership s nid tid aid' uid status roles))"
| "\<lbrakk>dict_get (st_memberships s) mid = Some m; mem_tenant_id m \<noteq> t;
     set_membership_roles s mid names = Inr s'\<rbrakk> \<Longrightarrow> other_tenant_step t s s'"
| "\<lbrakk>dict_get (st_roles s) nid = None; tid \<noteq> t\<rbrakk> \<Longrightarrow>
     other_tenant_step t s (snd (create_role s nid name scope aid' (Some tid) description))"
| "\<lbrakk>dict_get (st_roles s) rid = Some r; role_tenant_id r = Some tid; tid \<noteq> t;
     set_role_permissions s rid names = Inr s'\<rbrakk> \<Longrightarrow> other_tenant_step t s s'"
| "tid \<noteq> t \<Longrightarrow> other_tenant_step t s (set_tenant_permission_mask s tid aid permissions)"
| "\<lbrakk>dict_get (st_agents s) nid = None; tid \<noteq> t\<rbrakk> \<Longrightarrow>
     other_tenant_step t s (snd (create_agent s nid tid aid name label status created_by dn))"
| "\<lbrakk>dict_get (st_agents s) gid = Some g; agent_tenant_id g \<noteq> t;
     set_agent_roles s gid names = Inr s'\<rbrakk> \<Longrightarrow> other_tenant_step t s s'"

text \<open>Stores that agree on what a tenant's queries read.\<close>

definition same_for :: "ident \<Rightarrow> memory_store \<Rightarrow> memory_store \<Rightarrow> bool" where
  "same_for t s s' \<longleftrightarrow>
     dict_get (st_tenants s) t = dict_get (st_tenants s') t \<and>
     st_applications s = st_applications s' \<and> st_permissions s = st_permissions s' \<and>
     filter (\<lambda>m. mem_tenant_id m = t) (dict_values (st_memberships s)) =
       filter (\<lambda>m. mem_tenant_id m = t) (dict_values (st_memberships s')) \<and>
     (\<forall>m \<in> set (dict_values (st_memberships s)). mem_tenant_id m = t \<longrightarrow>
        dict_get_default (st_membership_roles s) (mem_id m) {} =
        dict_get_default (st_membership_roles s') (mem_id m) {}) \<and>
     effective_role_id s t = effective_role_id s' t \<and>
     (\<forall>rid lid. effective_role_id s t lid = Some rid \<longrightarrow>
        dict_get_default (st_role_permissions s) rid {} =
        dict_get_default (st_role_permissions s') rid {}) \<and>
     (\<forall>g a. get_agent s t a g = get_agent s' t a g) \<and>
     (\<forall>a g x. get_agent s t a g = Some x \<longrightarrow>
        dict_get_default (st_agent_roles s) g {} = dict_get_default (st_agent_roles s') g {}) \<and>
     (\<forall>a. resolve_tenant_permissions s t a = resolve_tenant_permissions s' t a)"

lemma find_as_filter: "List.find P xs = (case filter P xs of [] \<Rightarrow> None | x # _ \<Rightarrow> Some x)"
  by (induction xs) auto

lemma find_filter_eq:
  assumes "filter P xs = filter P ys" and "\<And>x. Q x \<Longrightarrow> P x"
  shows "List.find Q xs = List.find Q ys" and "filter Q xs = filter Q ys"
proof -
  have "filter Q xs = filter Q (filter P xs)" "filter Q ys = filter Q (filter P ys)"
    using assms(2) by (auto simp: filter_filter intro: filter_cong)
  then show "filter Q xs = filter Q ys" using assms(1) by simp
  then show "List.find Q xs = List.find Q ys" by (simp add: find_as_filter)
qed

lemma same_for_queries:
  assumes "same_for t s s'"
  shows "eligible_memberships s t a u = eligible_memberships s' t a u"
    and "get_membership s t aid u = get_membership s' t aid u"
proof -
  have f: "filter (\<lambda>m. mem_tenant_id m = t) (dict_values (st_memberships s)) =
      filter (\<lambda>m. mem_tenant_id m = t) (dict_values (st_memberships s'))"
    using assms by (simp add: same_for_def)
  show "eligible_memberships s t a u = eligible_memberships s' t a u"
    unfolding eligible_memberships_def by (rule find_filter_eq(2) [OF f]) simp
  show "get_membership s t aid u = get_membership s' t aid u"
    unfolding get_membership_def by (rule find_filter_eq(1) [OF f]) simp
qed

lemma same_for_role_permissions:
  assumes "same_for t s s'" "rid \<in> effective_role_ids s t L"
  shows "list_role_permissions s rid = list_role_permissions s' rid"
proof -
  obtain lid where "effective_role_id s t lid = Some rid"
    using assms(2) by (auto simp: effective_role_ids_def)
  then have "dict_get_default (st_role_permissions s) rid {} =
      dict_get_default (st_role_permissions s') rid {}"
    using assms(1) unfolding same_for_def by blast
  then show ?thesis using assms(1) by (simp add: list_role_permissions_def same_for_def)
qed

lemma same_for_user_permissions:
  assumes "same_for t s s'"
  shows "resolve_user_permissions s t a u = resolve_user_permissions s' t a u"
proof -
  have roles: "effective_role_ids s t L = effective_role_ids s' t L" for L
    using assms by (simp add: same_for_def effective_role_ids_def)
  have links: "dict_get_default (st_membership_roles s) (mem_id m) {} =
      dict_get_default (st_membership_roles s') (mem_id m) {}"
    if "m \<in> set (eligible_memberships s t a u)" for m
    using that assms by (auto simp: same_for_def eligible_memberships_def)
  show ?thesis
    unfolding resolve_user_permissions_def same_for_queries(1) [OF assms, symmetric]
    using links roles same_for_role_permissions [OF assms] by (auto simp: roles)
qed

lemma same_for_agent_permissions:
  assumes "same_for t s s'"
  shows "resolve_agent_permissions s t a g = resolve_agent_permissions s' t a g"
proof -
  have alt: "resolve_agent_permissions z t a g =
      (case get_agent z t a g of None \<Rightarrow> {} | Some _ \<Rightarrow>
        (\<Union>rid \<in> effective_role_ids z t (dict_get_default (st_agent_roles z) g {}).
           perm_name ` set (filter perm_active (list_role_permissions z rid))))" for z
    by (simp add: resolve_agent_permissions_def get_agent_def split: option.split)
  have roles: "effective_role_ids s t L = effective_role_ids s' t L" for L
    using assms by (simp add: same_for_def effective_role_ids_def)
  have ga: "get_agent s t a g = get_agent s' t a g" using assms by (simp add: same_for_def)
  show ?thesis
  proof (cases "get_agent s t a g")
    case None
    then show ?thesis using ga by (simp add: alt)
  next
    case (Some x)
    then have "dict_get_default (st_agent_roles s) g {} = dict_get_default (st_agent_roles s') g {}"
      using assms unfolding same_for_def by blast
    then show ?thesis
      using Some ga same_for_role_permissions [OF assms] by (simp add: alt roles)
  qed
qed

lemma same_for_agree:
  assumes "same_for t s s'"
  shows "agree_on t (memory_repository s) (memory_repository s')"
proof -
  have "is_tenant_active s t = is_tenant_active s' t"
    and "is_application_active s = is_application_active s'"
    and "is_agent_active s t = is_agent_active s' t"
    and "resolve_tenant_permissions s t = resolve_tenant_permissions s' t"
    using assms by (auto simp: same_for_def is_tenant_active_def is_application_active_def
        is_agent_active_def fun_eq_iff)
  moreover have "is_user_membership_active s t = is_user_membership_active s' t"
    unfolding fun_eq_iff is_user_membership_active_def same_for_queries(2) [OF assms] by simp
  moreover have "resolve_user_permissions s t = resolve_user_permissions s' t"
    "resolve_agent_permissions s t = resolve_agent_permissions s' t"
    using same_for_user_permissions [OF assms] same_for_agent_permissions [OF assms]
    by (simp_all add: fun_eq_iff)
  ultimately show ?thesis by (simp add: agree_on_def memory_repository_def)
qed

lemma same_for_refl: "same_for t s s"
  by (simp add: same_for_def)

lemma effective_role_id_cong:
  "st_roles s' = st_roles s \<Longrightarrow> effective_role_id s' = effective_role_id s"
  by (intro ext) (simp only: effective_role_id_def)

lemma effective_role_id_frame [simp]:
  "effective_role_id (s\<lparr>st_tenants := x0\<rparr>) = effective_role_id s"
  "effective_role_id (s\<lparr>st_memberships := x1\<rparr>) = effective_role_id s"
  "effective_role_id (s\<lparr>st_membership_roles := x2\<rparr>) = effective_role_id s"
  "effective_role_id (s\<lparr>st_role_permissions := x3\<rparr>) = effective_role_id s"
  "effective_role_id (s\<lparr>st_agents := x4\<rparr>) = effective_role_id s"
  "effective_role_id (s\<lparr>st_agent_roles := x5\<rparr>) = effective_role_id s"
  "effective_role_id (s\<lparr>st_tenant_permission_masks := x6\<rparr>) = effective_role_id s"
  by (rule effective_role_id_cong; simp)+

lemma get_agent_frame [simp]:
  "get_agent (s\<lparr>st_tenants := x0\<rparr>) = get_agent s"
  "get_agent (s\<lparr>st_memberships := x1\<rparr>) = get_agent s"
  "get_agent (s\<lparr>st_membership_roles := x2\<rparr>) = get_agent s"
  "get_agent (s\<lparr>st_role_permissions := x3\<rparr>) = get_agent s"
  "get_agent (s\<lparr>st_agent_roles := x4\<rparr>) = get_agent s"
  "get_agent (s\<lparr>st_tenant_permission_masks := x5\<rparr>) = get_agent s"
  "get_agent (s\<lparr>st_roles := x6\<rparr>) = get_agent s"
  unfolding fun_eq_iff get_agent_def by simp_all

lemma resolve_tenant_permissions_frame [simp]:
  "resolve_tenant_permissions (s\<lparr>st_tenants := x0\<rparr>) = resolve_tenant_permissions s"
  "resolve_tenant_permissions (s\<lparr>st_memberships := x1\<rparr>) = resolve_tenant_permissions s"
  "resolve_tenant_permissions (s\<lparr>st_membership_roles := x2\<rparr>) = resolve_tenant_permissions s"
  "resolve_tenant_permissions (s\<lparr>st_role_permissions := x3\<rparr>) = resolve_tenant_permissions s"
  "resolve_tenant_permissions (s\<lparr>st_agents := x4\<rparr>) = resolve_tenant_permissions s"
  "resolve_tenant_permissions (s\<lparr>st_agent_roles := x5\<rparr>) = resolve_tenant_permissions s"
  "resolve_tenant_permissions (s\<lparr>st_roles := x6\<rparr>) = resolve_tenant_permissions s"
  unfolding fun_eq_iff resolve_tenant_permissions_def by simp_all

lemma effective_role_id_other_role:
  assumes "dict_get (st_roles s) nid = None" "role_tenant_id r = Some tid" "tid \<noteq> t"
  shows "effective_role_id (s\<lparr>st_roles := dict_set nid r (st_roles s)\<rparr>) t =
     effective_role_id s t"
proof
  fix rid
  have "List.find (\<lambda>p. role_tenant_id p = Some t \<and> role_agent_id p = None \<and>
            role_application_id p = a \<and> role_name p = n) (dict_values (dict_set nid r (st_roles s))) =
        List.find (\<lambda>p. role_tenant_id p = Some t \<and> role_agent_id p = None \<and>
            role_application_id p = a \<and> role_name p = n) (dict_values (st_roles s))" for a n
    using assms by (intro find_dict_set) auto
  then show "effective_role_id (s\<lparr>st_roles := dict_set nid r (st_roles s)\<rparr>)
      t rid = effective_role_id s t rid"
    using assms by (auto simp: effective_role_id_def split: option.split)
qed

lemma other_tenant_step_same_for:
  assumes "other_tenant_step t s s'" "store_inv s"
  shows "same_for t s s'"
  using assms
proof (induction rule: other_tenant_step.induct)
  case (1 s nid t slug name status)
  then show ?case by (simp add: create_tenant_def Let_def same_for_def)
next
  case (2 s nid tid t aid' uid status roles)
  then show ?case
    by (auto simp: create_membership_def Let_def same_for_def store_inv_def tables_ok_def
        keyed_by_values intro!: filter_dict_set [symmetric])
next
  case (3 s mid m t names s')
  then show ?case
    by (auto simp: set_membership_roles_def same_for_def store_inv_def tables_ok_def
        keyed_by_values split: if_splits intro!: filter_dict_set [symmetric])
next
  case (4 s nid tid t name scope aid' description)
  then show ?case
    by (auto simp: create_role_def Let_def same_for_def dict_get_default_def
        effective_role_id_other_role [symmetric])
next
  case (5 s rid r tid t names s')
  then have k: "keyed_by role_id (st_roles s)" by (simp add: store_inv_def tables_ok_def)
  have "rid' \<noteq> rid" if "effective_role_id s t lid = Some rid'" for lid rid'
    using effective_role_id_tenant [OF that k] 5(1-3) by auto
  then show ?case
    using 5 by (auto simp: set_role_permissions_def Let_def res_bind_eq_Inr same_for_def)
next
  case (6 tid t s aid permissions)
  then show ?case
    by (auto simp: set_tenant_permission_mask_def same_for_def
        resolve_tenant_permissions_def)
next
  case (7 s nid tid t aid name label status created_by dn)
  then show ?case
    by (auto simp: create_agent_def Let_def same_for_def get_agent_def
        dict_get_default_def split: option.splits)
next
  case (8 s gid g t names s')
  then show ?case
    by (auto simp: set_agent_roles_def Let_def res_bind_eq_Inr same_for_def get_agent_def
        split: if_splits)
qed

section \<open>A permission name used by two applications\<close>

text \<open>The store keys a permission by its name, so the second application to create a name takes it
  over.\<close>

lemma create_permission_takes_over:
  assumes "store_inv s" "create_permission s name (Some b) = Inr (p, s')" "a \<noteq> b"
  shows "name \<notin> resolve_user_permissions s' t a u"
proof
  assume "name \<in> resolve_user_permissions s' t a u"
  then obtain q where q: "q \<in> set (dict_values (st_permissions s'))" "perm_name q = name"
      "perm_application_id q = Some a \<or> perm_application_id q = None"
    using resolve_user_permissions_catalog [of name s' t a u]
    by (auto simp: list_application_permissions_def)
  have s': "s' = s\<lparr>st_permissions := dict_set name p (st_permissions s)\<rparr>"
    and p: "perm_name p = name" "perm_application_id p = Some b"
    using assms(2) from_name_id [of name "Some b"] from_name_cases [of name None "Some b"]
    by (auto simp: create_permission_def res_bind_eq_Inr)
  have "keyed_by perm_name (st_permissions s')"
    using assms(1) p by (auto simp: s' store_inv_def tables_ok_def)
  then have "dict_get (st_permissions s') name = Some q" using q keyed_by_values by metis
  then show False using q p assms(3) by (auto simp: s')
qed

section \<open>Properties\<close>

text \<open>C7: tenants are isolated in the in-memory store. In every store reachable by its operations, an
  operation on another tenant's data (creating the tenant, its memberships, roles or agents, setting
  their roles or permissions, or its mask) leaves every decision and every effective set in this
  tenant as it was.\<close>

theorem tenant_isolation:
  assumes "mem_reachable s" and "other_tenant_step t s s'" and "req_tenant_id req = t"
  shows "authorize (memory_repository s') pe req = authorize (memory_repository s) pe req \<and>
     effective_permissions (memory_repository s') t a subject d refs =
       effective_permissions (memory_repository s) t a subject d refs"
proof -
  have "agree_on t (memory_repository s) (memory_repository s')"
    by (rule same_for_agree [OF other_tenant_step_same_for [OF assms(2) reachable_inv [OF assms(1)]]])
  from agree_on_authorize [OF this assms(3), of pe] agree_on_effective [OF this, of a subject d refs]
  show ?thesis by simp
qed

theorem tenant_isolation_witness:
  "authorize (memory_repository
       (snd (create_membership empty_store ''m1'' ''other'' None ''u'' ''active'' {})))
     \<lparr>pe_rules = [], pe_attr = (\<lambda>_ _. PNone)\<rparr> read_request =
   authorize (memory_repository empty_store) \<lparr>pe_rules = [], pe_attr = (\<lambda>_ _. PNone)\<rparr> read_request"
proof -
  have "other_tenant_step ''t'' empty_store
      (snd (create_membership empty_store ''m1'' ''other'' None ''u'' ''active'' {}))"
    by (rule other_tenant_step.intros(2)) (simp_all add: empty_store_def)
  from tenant_isolation [OF mem_reachable.start this, of read_request]
  show ?thesis by (simp add: read_request_def)
qed

text \<open>What grants a permission. In every reachable store, a permission resolved for a user in a
  tenant and an application comes from an active membership of that user in that tenant, for that
  application or tenant-wide, through a role of the membership's own application that is the
  tenant's own or application-wide, and from an active permission of the application or of the
  platform.\<close>

theorem user_permission_provenance:
  assumes "mem_reachable s" and "name \<in> resolve_user_permissions s t a u"
  shows "\<exists>m r p. m \<in> set (dict_values (st_memberships s)) \<and> mem_user_id m = u \<and>
     mem_tenant_id m = t \<and> mem_status m = ''active'' \<and>
     (mem_application_id m = Some a \<or> mem_application_id m = None) \<and>
     r \<in> set (dict_values (st_roles s)) \<and> role_application_id r = mem_application_id m \<and>
     (role_tenant_id r = None \<or> role_tenant_id r = Some t) \<and>
     p \<in> set (list_role_permissions s (role_id r)) \<and> perm_name p = name \<and> perm_active p \<and>
     (perm_application_id p = Some a \<or> perm_application_id p = None)"
  by (rule user_grant_path [OF reachable_inv [OF assms(1)] assms(2)])

text \<open>A store in which user \<^verbatim>\<open>u\<close> holds \<^verbatim>\<open>docs.read\<close> in tenant \<^verbatim>\<open>t\<close> through the application-wide role
  \<^verbatim>\<open>reader\<close>.\<close>

definition reader_permission :: permission where
  "reader_permission =
     \<lparr>perm_id = ''docs.read'', perm_name = ''docs.read'', perm_resource = ''docs'',
      perm_action = ''read'', perm_application_id = Some ''a'', perm_description = None,
      perm_deprecated = False, perm_critical = False\<rparr>"

definition reader_store1 :: memory_store where
  "reader_store1 = empty_store\<lparr>st_permissions := [(''docs.read'', reader_permission)]\<rparr>"

definition reader_store2 :: memory_store where
  "reader_store2 = snd (create_role reader_store1 ''r1'' ''reader'' APPLICATION (Some ''a'') None None)"

definition reader_store3 :: memory_store where
  "reader_store3 =
     reader_store2\<lparr>st_role_permissions := dict_set ''r1'' {''docs.read''} (st_role_permissions reader_store2)\<rparr>"

definition reader_store :: memory_store where
  "reader_store = snd (create_membership reader_store3 ''m1'' ''t'' (Some ''a'') ''u'' ''active'' {''reader''})"

lemmas reader_defs = reader_store_def reader_store3_def reader_store2_def reader_store1_def
  empty_store_def reader_permission_def create_role_def create_membership_def Let_def

lemma reader_store_reachable: "mem_reachable reader_store"
proof -
  have 1: "mem_step empty_store reader_store1"
    by (rule mem_step.permission [of _ "''docs.read''" "Some ''a''" reader_permission])
      (simp add: create_permission_def from_name_def rpartition_def reader_defs)
  have 2: "mem_step reader_store1 reader_store2"
    unfolding reader_store2_def by (rule mem_step.role) (simp add: reader_store1_def empty_store_def)
  have 3: "mem_step reader_store2 reader_store3"
    by (rule mem_step.role_permissions [of _ "''r1''" "{''docs.read''}"])
      (simp add: set_role_permissions_def list_application_permissions_def dict_values_def
        permission_ids_by_name_def check_names_def perm_active_def reader_defs)
  have 4: "mem_step reader_store3 reader_store"
    unfolding reader_store_def by (rule mem_step.membership) (simp add: reader_defs)
  show ?thesis using mem_reachable.intros 1 2 3 4 by metis
qed

lemma reader_store_grants: "resolve_user_permissions reader_store ''t'' ''a'' ''u'' = {''docs.read''}"
  by (simp add: resolve_user_permissions_def eligible_memberships_def effective_role_ids_def
      effective_role_id_def list_role_permissions_def find_assignable_roles_def linked_ids_def
      dict_values_def dict_get_default_def dict_setdefault_def MEMBERSHIP_STATUS_ACTIVE_def
      perm_active_def reader_defs)

theorem user_permission_provenance_witness:
  "\<exists>m r. mem_user_id m = ''u'' \<and> mem_tenant_id m = ''t'' \<and> mem_status m = ''active'' \<and>
     m \<in> set (dict_values (st_memberships reader_store)) \<and>
     r \<in> set (dict_values (st_roles reader_store)) \<and>
     role_application_id r = mem_application_id m"
  using user_permission_provenance [OF reader_store_reachable, of "''docs.read''" "''t''" "''a''" "''u''"]
  unfolding reader_store_grants by blast

text \<open>Role names resolve tenant-first. After a membership is created with role names, the role a name
  links is the tenant's own role of that name in the membership's application if there is one, else
  the application-wide one, else nothing; an agent's role (one with an agent id) and a role of
  another application or another tenant are never linked.\<close>

theorem create_membership_links_tenant_first:
  "dict_get (st_membership_roles (snd (create_membership s mid t aid u status names))) mid =
     Some {role_id r | r n. n \<in> names \<and>
       tenant_first (Some t) aid (dict_values (st_roles s)) n = Some r} \<and>
   (\<forall>n r. tenant_first (Some t) aid (dict_values (st_roles s)) n = Some r \<longrightarrow>
      role_name r = n \<and> role_application_id r = aid \<and> role_agent_id r = None \<and>
      (role_tenant_id r = Some t \<or>
       role_tenant_id r = None \<and>
       (\<forall>q \<in> set (dict_values (st_roles s)). role_name q = n \<longrightarrow> role_application_id q = aid \<longrightarrow>
          role_agent_id q = None \<longrightarrow> role_tenant_id q \<noteq> Some t)))"
proof (intro conjI allI impI)
  have "linked_ids (find_assignable_roles s t aid names) =
      {role_id r | r n. n \<in> names \<and> tenant_first (Some t) aid (dict_values (st_roles s)) n = Some r}"
    using dict_values_iff [OF find_assignable_roles_ok [of s t aid names]]
    by (fastforce simp: linked_ids_def find_assignable_roles_get split: if_splits)
  then show "dict_get (st_membership_roles (snd (create_membership s mid t aid u status names))) mid =
     Some {role_id r | r n. n \<in> names \<and>
       tenant_first (Some t) aid (dict_values (st_roles s)) n = Some r}"
    by (simp add: create_membership_def Let_def)
next
  fix n r
  assume a: "tenant_first (Some t) aid (dict_values (st_roles s)) n = Some r"
  note r = tenant_first_Some [OF a]
  then show "role_name r = n" "role_application_id r = aid" "role_agent_id r = None"
    by (auto simp: assignable_def)
  show "role_tenant_id r = Some t \<or> role_tenant_id r = None \<and>
       (\<forall>q \<in> set (dict_values (st_roles s)). role_name q = n \<longrightarrow> role_application_id q = aid \<longrightarrow>
          role_agent_id q = None \<longrightarrow> role_tenant_id q \<noteq> Some t)"
  proof (cases "role_tenant_id r")
    case None
    then have "filter (\<lambda>r. assignable (Some t) aid r \<and> role_name r = n \<and> role_tenant_id r \<noteq> None)
        (dict_values (st_roles s)) = []"
      using a last_in_set [of "filter (\<lambda>r. assignable (Some t) aid r \<and> role_name r = n \<and>
          role_tenant_id r \<noteq> None) (dict_values (st_roles s))"]
      by (auto simp: tenant_first_def Let_def split: if_splits simp del: last_in_set)
    then show ?thesis using None by (fastforce simp: filter_empty_conv assignable_def)
  next
    case (Some x)
    then show ?thesis using r by (auto simp: assignable_def)
  qed
qed

theorem create_membership_links_tenant_first_witness:
  "dict_get (st_membership_roles
      (snd (create_membership reader_store3 ''m2'' ''t'' (Some ''a'') ''v'' ''active'' {''reader''})))
     ''m2'' = Some {''r1''}"
  using create_membership_links_tenant_first
    [of reader_store3 "''m2''" "''t''" "Some ''a''" "''v''" "''active''" "{''reader''}"]
  by (simp add: tenant_first_def assignable_def dict_values_def reader_defs)

text \<open>Only the active catalog is ever granted. Whatever the engine allows over the in-memory store,
  to a user or an agent, names an active permission of the application asked about or of the
  platform: a permission that is deprecated, or that no permission row has, is never granted.\<close>

theorem memory_allowed_in_catalog:
  assumes "authorize (memory_repository s) pe req = Inr d" and "dec_allowed d"
  shows "\<exists>p \<in> set (dict_values (st_permissions s)).
     perm_name p = required_permission req \<and> perm_active p \<and>
     (perm_application_id p = Some (req_application_id req) \<or> perm_application_id p = None)"
  using memory.allowed_in_catalog [OF assms]
  by (fastforce simp: active_catalog_def memory_repository_def list_application_permissions_def)

definition agent_store :: memory_store where
  "agent_store =
     (let s1 = snd (create_tenant reader_store ''t'' ''t'' ''T'' ''active'');
          s2 = snd (create_application s1 ''a'' ''a'' ''A'' ''active'' None);
          s3 = snd (create_agent s2 ''g'' ''t'' ''a'' ''helper'' ''assistant'' ''active'' None None) in
      s3\<lparr>st_agent_roles := [(''g'', {''r1''})]\<rparr>)"

lemma agent_store_fields:
  "is_tenant_active agent_store ''t''" "is_application_active agent_store ''a''"
  "is_user_membership_active agent_store ''t'' ''a'' ''u''"
  "is_agent_active agent_store ''t'' ''a'' ''g''"
  "resolve_user_permissions agent_store ''t'' ''a'' ''u'' = {''docs.read''}"
  "resolve_agent_permissions agent_store ''t'' ''a'' ''g'' = {''docs.read''}"
  "resolve_tenant_permissions agent_store ''t'' ''a'' = {}"
  by (simp_all add: agent_store_def create_tenant_def create_application_def create_agent_def
      is_tenant_active_def is_application_active_def is_user_membership_active_def
      get_membership_def is_agent_active_def get_agent_def resolve_user_permissions_def
      eligible_memberships_def effective_role_ids_def effective_role_id_def
      list_role_permissions_def find_assignable_roles_def linked_ids_def
      resolve_agent_permissions_def resolve_tenant_permissions_def
      dict_values_def dict_get_default_def dict_setdefault_def MEMBERSHIP_STATUS_ACTIVE_def
      perm_active_def reader_defs)

lemma agent_store_allows:
  "authorize (memory_repository agent_store) \<lparr>pe_rules = [], pe_attr = (\<lambda>_ _. PNone)\<rparr> read_request =
     Inr (allow ''docs.read'' {''docs.read''})"
  by (simp add: authorize_def memory_repository_def agent_store_fields read_request_def
      required_permission_def join_dot_def inactive_def resolve_user_def membership_active_def
      user_missing_def agent_missing_def apply_mask_def SUBJECT_USER_def Let_def)

theorem memory_allowed_in_catalog_witness:
  "\<exists>p \<in> set (dict_values (st_permissions agent_store)). perm_name p = ''docs.read'' \<and> perm_active p"
proof -
  have "required_permission read_request = ''docs.read''"
    by (simp add: read_request_def required_permission_def join_dot_def)
  then show ?thesis
    using memory_allowed_in_catalog [OF agent_store_allows] by (auto simp: allow_def)
qed

text \<open>An agent acts in one tenant and one application only. When an agent subject has a permission
  over the in-memory store in some tenant and application, it has none in any other.\<close>

theorem memory_agent_one_home:
  assumes "subj_type ag = SUBJECT_AGENT"
    and "effective_permissions (memory_repository s) t a ag d refs \<noteq> {}"
    and "effective_permissions (memory_repository s) t' a' ag d' refs' \<noteq> {}"
  shows "t' = t \<and> a' = a"
  using memory.agent_effective_home assms by blast

theorem memory_agent_one_home_witness:
  "effective_permissions (memory_repository agent_store) ''t'' ''a''
      \<lparr>subj_type = SUBJECT_AGENT, subj_user_id = Some ''u'', subj_agent_id = Some ''g'',
       subj_service_account_id = None\<rparr> None None = {''docs.read''} \<and>
   effective_permissions (memory_repository agent_store) ''t2'' ''a''
      \<lparr>subj_type = SUBJECT_AGENT, subj_user_id = Some ''u'', subj_agent_id = Some ''g'',
       subj_service_account_id = None\<rparr> None None = {}"
proof -
  let ?ag = "\<lparr>subj_type = SUBJECT_AGENT, subj_user_id = Some ''u'', subj_agent_id = Some ''g'',
       subj_service_account_id = None\<rparr>"
  have e: "effective_permissions (memory_repository agent_store) ''t'' ''a'' ?ag None None = {''docs.read''}"
    by (simp add: effective_permissions_def effective_permissions_undelegated_def
        memory_repository_def agent_store_fields inactive_def membership_active_def agent_active_def
        user_missing_def agent_missing_def apply_mask_def SUBJECT_USER_def SUBJECT_AGENT_def Let_def)
  have "subj_type ?ag = SUBJECT_AGENT" by simp
  from memory_agent_one_home [OF this, of agent_store "''t''" "''a''" None None "''t2''" "''a''" None None]
  show ?thesis using e by auto
qed

text \<open>The store keys a permission by its name. In every reachable store, once an application has
  created a permission, no user holds a permission of that name in any other application, whatever
  it granted before: the second application takes the name over.\<close>

theorem create_permission_revokes_elsewhere:
  assumes "mem_reachable s" and "create_permission s name (Some b) = Inr (p, s')" and "a \<noteq> b"
  shows "name \<notin> resolve_user_permissions s' t a u"
  by (rule create_permission_takes_over [OF reachable_inv [OF assms(1)] assms(2,3)])

theorem create_permission_revokes_elsewhere_witness:
  "''docs.read'' \<in> resolve_user_permissions reader_store ''t'' ''a'' ''u'' \<and>
   (\<exists>p s'. create_permission reader_store ''docs.read'' (Some ''b'') = Inr (p, s') \<and>
     ''docs.read'' \<notin> resolve_user_permissions s' ''t'' ''a'' ''u'')"
proof -
  obtain p s' where c: "create_permission reader_store ''docs.read'' (Some ''b'') = Inr (p, s')"
    by (simp add: create_permission_def from_name_def rpartition_def Let_def)
  have "''docs.read'' \<notin> resolve_user_permissions s' ''t'' ''a'' ''u''"
    by (rule create_permission_revokes_elsewhere [OF reader_store_reachable c]) simp
  then show ?thesis using c by (auto simp: reader_store_grants)
qed

end
