(* ===== verification/Sql_Refinement.thy ===== *)
theory Sql_Refinement
  imports Sql_Store Memory_Invariants
begin

text \<open>
  The database-backed store refines the in-memory one. A database represents a store when every table
  holds the same rows, the link tables hold the same links and permissions are named as the in-memory
  store keys them; the two then answer every query of a decision alike. Each operation that succeeds
  on the database is simulated by the same operation in memory, as long as no permission name is used
  by two applications (the in-memory store has no place for the second) and tenant roles belong to an
  application (the unique constraint does not compare null columns).
\<close>

section \<open>Tables as dictionaries\<close>

abbreviation keyed :: "('r \<Rightarrow> 'k) \<Rightarrow> 'r list \<Rightarrow> ('k, 'r) dict" where
  "keyed key rows \<equiv> map (\<lambda>r. (key r, r)) rows"

lemma dict_get_keyed [simp]: "dict_get (keyed key rows) k = tbl_get key rows k"
  by (induction rows) (auto simp: tbl_get_def)

lemma dict_values_keyed [simp]: "dict_values (keyed key rows) = rows"
  by (induction rows) (auto simp: dict_values_def)

lemma dict_set_keyed_fresh:
  "k \<notin> key ` set rows \<Longrightarrow> key r = k \<Longrightarrow> dict_set k r (keyed key rows) = keyed key (rows @ [r])"
  by (subst dict_set_fresh) (auto simp: tbl_get_None)

lemma dict_set_keyed_present:
  "\<lbrakk>unique_col key rows; tbl_get key rows k = Some r; key (f r) = k\<rbrakk> \<Longrightarrow>
   dict_set k (f r) (keyed key rows) = keyed key (tbl_update key k f rows)"
proof (induction rows)
  case (Cons a rows)
  show ?case
  proof (cases "key a = k")
    case True
    then have a: "a = r" using Cons.prems(2) by (simp add: tbl_get_def)
    have n: "k \<notin> key ` set rows" using Cons.prems(1) True by (auto simp: unique_col_def)
    have "map (\<lambda>q. if key q = k then f q else q) rows = map (\<lambda>q. q) rows"
      by (rule map_cong) (use n in auto)
    then show ?thesis using True a Cons.prems(3) by (simp add: tbl_update_def)
  next
    case False
    then show ?thesis using Cons by (auto simp: unique_col_def tbl_get_def tbl_update_def)
  qed
qed (simp add: tbl_get_def)

lemma find_append_iff:
  "List.find P (xs @ ys) = (case List.find P xs of Some x \<Rightarrow> Some x | None \<Rightarrow> List.find P ys)"
  by (induction xs) auto

lemma find_filter_iff: "List.find P (filter Q xs) = List.find (\<lambda>x. Q x \<and> P x) xs"
  by (induction xs) auto

lemma dict_get_fold_set:
  "dict_get (fold (\<lambda>p d. dict_set (k p) (v p) d) ps d0) x =
     (case List.find (\<lambda>p. k p = x) (rev ps) of Some p \<Rightarrow> Some (v p) | None \<Rightarrow> dict_get d0 x)"
proof (induction ps arbitrary: d0)
  case (Cons p ps)
  show ?case using Cons [of "dict_set (k p) (v p) d0"] by (auto simp: find_append_iff split: option.splits)
qed simp

lemma find_rev_unique:
  assumes "\<And>p q. \<lbrakk>p \<in> set ps; q \<in> set ps; P p; P q\<rbrakk> \<Longrightarrow> p = q"
  shows "List.find P (rev ps) = List.find P ps"
proof (cases "List.find P ps")
  case None
  then have "\<not> (\<exists>x. x \<in> set (rev ps) \<and> P x)" by (simp add: find_None_iff)
  then show ?thesis using None by (metis find_None_iff)
next
  case (Some p)
  then have "p \<in> set ps" "P p" by (auto dest: find_Some_set)
  then show ?thesis using Some assms by (metis find_unique set_rev)
qed

lemma find_map: "List.find P (map f xs) = map_option f (List.find (\<lambda>x. P (f x)) xs)"
  by (induction xs) auto

lemma fold_set_keys: "dict_get (fold (\<lambda>p d. dict_set (k p) (v p) d) ps []) x = None \<longleftrightarrow> x \<notin> k ` set ps"
  by (auto simp: dict_get_fold_set find_None_iff split: option.splits dest!: find_Some_set)

lemma dict_keys_get: "x \<in> set (map fst d) \<longleftrightarrow> dict_get d x \<noteq> None"
  by (simp add: map_of_eq_None_iff)

lemma link_mem: "(o', y) \<in> table \<longleftrightarrow> y \<in> link_set table o'"
  by (simp add: link_set_def)

lemma replace_links_exact:
  assumes "replace_links table owner ids current = Inr (b, table')"
    and "case current of None \<Rightarrow> True | Some c \<Rightarrow> c = link_set table owner"
  shows "link_set table' o' = (if o' = owner then ids else link_set table o')"
  using assms by (auto simp: replace_links_def link_set_def Let_def split: option.splits if_splits)

lemma replace_links_total:
  assumes "case current of None \<Rightarrow> True | Some c \<Rightarrow> c = link_set table owner"
  shows "\<exists>b table'. replace_links table owner ids current = Inr (b, table')"
proof -
  have "replace_links table owner ids current \<noteq> Inl e" for e
    using assms by (auto simp: replace_links_def link_set_def Let_def split: option.splits if_splits)
  then show ?thesis by (cases "replace_links table owner ids current") auto
qed

section \<open>Representation\<close>

definition mrow :: "membership \<Rightarrow> membership_row" where
  "mrow m = \<lparr>ms_id = mem_id m, ms_tenant_id = mem_tenant_id m, ms_application_id = mem_application_id m,
     ms_user_id = mem_user_id m, ms_status = mem_status m\<rparr>"

definition pabs :: "permission \<Rightarrow> permission" where
  "pabs p = p\<lparr>perm_id := perm_name p, perm_description := None\<rparr>"

lemma pabs_simps [simp]:
  "perm_id (pabs p) = perm_name p" "perm_name (pabs p) = perm_name p"
  "perm_application_id (pabs p) = perm_application_id p" "perm_active (pabs p) = perm_active p"
  by (simp_all add: pabs_def perm_active_def)

lemma mrow_simps [simp]:
  "ms_id (mrow m) = mem_id m" "ms_tenant_id (mrow m) = mem_tenant_id m"
  "ms_application_id (mrow m) = mem_application_id m" "ms_user_id (mrow m) = mem_user_id m"
  "ms_status (mrow m) = mem_status m"
  by (simp_all add: mrow_def)

definition flag_value :: "sql_db \<Rightarrow> ident \<Rightarrow> ident option \<Rightarrow> string \<Rightarrow> pyval option" where
  "flag_value db tid aid k =
     map_option ff_value (List.find (\<lambda>f. ff_tenant_id f = tid \<and> ff_application_id f = aid \<and> ff_key f = k) (db_flags db))"

definition represents :: "sql_db \<Rightarrow> memory_store \<Rightarrow> bool" where
  "represents db s \<longleftrightarrow>
     st_tenants s = keyed tenant_id (db_tenants db) \<and>
     st_applications s = keyed app_id (db_applications db) \<and>
     st_users s = keyed user_id (db_users db) \<and>
     st_external_identities s = keyed xid_id (db_identities db) \<and>
     st_tenant_identity_mappings s = keyed tim_id (db_mappings db) \<and>
     map (map_prod id mrow) (st_memberships s) = keyed ms_id (db_memberships db) \<and>
     st_roles s = keyed role_id (db_roles db) \<and>
     st_permissions s = map (\<lambda>p. (perm_name p, pabs p)) (db_permissions db) \<and>
     st_agents s = keyed agent_id (db_agents db) \<and>
     (\<forall>r. dict_get_default (st_role_permissions s) r {} =
        perm_name ` {p \<in> set (db_permissions db). (r, perm_id p) \<in> db_role_permissions db}) \<and>
     (\<forall>m. dict_get_default (st_membership_roles s) m {} = link_set (db_membership_roles db) m) \<and>
     (\<forall>g. dict_get_default (st_agent_roles s) g {} = link_set (db_agent_roles db) g) \<and>
     (\<forall>t a k. dict_get (get_tenant_feature_flags s t a) k = flag_value db t a k) \<and>
     (\<forall>t a. resolve_tenant_permissions s t a = sql_resolve_tenant_permissions db t a)"

text \<open>What the constraints of the schema and the two side conditions give.\<close>

definition tenant_roles_unique :: "role list \<Rightarrow> bool" where
  "tenant_roles_unique rs \<longleftrightarrow>
     (\<forall>r \<in> set rs. \<forall>q \<in> set rs.
        role_tenant_id r \<noteq> None \<and> role_tenant_id r = role_tenant_id q \<and> role_agent_id r = None \<and>
        role_agent_id q = None \<and> role_application_id r = role_application_id q \<and>
        role_name r = role_name q \<longrightarrow> r = q)"

definition db_ok :: "sql_db \<Rightarrow> bool" where
  "db_ok db \<longleftrightarrow>
     unique_col tenant_id (db_tenants db) \<and> unique_col app_id (db_applications db) \<and>
     unique_col user_id (db_users db) \<and> unique_col xid_id (db_identities db) \<and>
     unique_col tim_id (db_mappings db) \<and> unique_col ms_id (db_memberships db) \<and>
     unique_col role_id (db_roles db) \<and> unique_col agent_id (db_agents db) \<and>
     unique_col perm_id (db_permissions db) \<and> unique_col perm_name (db_permissions db) \<and>
     unique_col (\<lambda>f. (ff_tenant_id f, ff_application_id f, ff_key f)) (db_flags db) \<and>
     tenant_roles_unique (db_roles db) \<and>
     fst ` db_membership_roles db \<subseteq> ms_id ` set (db_memberships db) \<and>
     snd ` db_role_permissions db \<subseteq> perm_id ` set (db_permissions db)"

lemma represents_empty: "represents empty_db empty_store" "db_ok empty_db"
  by (auto simp: represents_def empty_db_def empty_store_def dict_get_default_def link_set_def
      get_tenant_feature_flags_def flag_value_def resolve_tenant_permissions_def
      sql_resolve_tenant_permissions_def db_ok_def tenant_roles_unique_def)

section \<open>Queries agree\<close>

lemma rep_memberships:
  assumes "represents db s"
  shows "map mrow (dict_values (st_memberships s)) = db_memberships db"
    and "(k, m) \<in> set (st_memberships s) \<Longrightarrow> k = mem_id m"
    and "dict_get (st_memberships s) k = Some m \<Longrightarrow> tbl_get ms_id (db_memberships db) k = Some (mrow m)"
    and "dict_get (st_memberships s) k = None \<longleftrightarrow> tbl_get ms_id (db_memberships db) k = None"
proof -
  have e: "map (map_prod id mrow) (st_memberships s) = keyed ms_id (db_memberships db)"
    using assms by (simp add: represents_def)
  have "map snd (map (map_prod id mrow) (st_memberships s)) = db_memberships db" unfolding e by (simp add: comp_def)
  then show "map mrow (dict_values (st_memberships s)) = db_memberships db"
    by (simp add: dict_values_def comp_def)
  show "k = mem_id m" if "(k, m) \<in> set (st_memberships s)"
  proof -
    have "(k, mrow m) \<in> set (map (map_prod id mrow) (st_memberships s))" using that by force
    then show ?thesis unfolding e by auto
  qed
  have g: "map_option mrow (dict_get (st_memberships s) k) = tbl_get ms_id (db_memberships db) k" for k
    using arg_cong [OF e, of "\<lambda>d. dict_get d k"] by (simp add: map_of_map map_prod_def id_def)
  show "tbl_get ms_id (db_memberships db) k = Some (mrow m)" if "dict_get (st_memberships s) k = Some m"
    using g [of k] that by simp
  show "dict_get (st_memberships s) k = None \<longleftrightarrow> tbl_get ms_id (db_memberships db) k = None"
    using g [of k] by (metis map_option_is_None)
qed

lemma rep_list_role_permissions:
  assumes "represents db s" "db_ok db"
  shows "list_role_permissions s rid = map pabs (sql_list_role_permissions db rid)"
proof -
  have u: "unique_col perm_name (db_permissions db)" using assms(2) by (simp add: db_ok_def)
  have "filter (\<lambda>p. perm_name p \<in> perm_name ` {p \<in> set (db_permissions db). (rid, perm_id p) \<in> db_role_permissions db})
      (db_permissions db) = sql_list_role_permissions db rid"
    unfolding sql_list_role_permissions_def
    by (rule filter_cong) (auto dest: unique_col_eq [OF u])
  then show ?thesis
    using assms(1) by (simp add: list_role_permissions_def represents_def Let_def filter_map comp_def)
qed

lemma rep_assignable:
  assumes "represents db s"
  shows "sql_assignable_roles db (Some tid) aid names = find_assignable_roles s tid aid names"
proof -
  have "fold (\<lambda>r found. if role_tenant_id r \<noteq> None \<or> dict_get found (role_name r) = None
            then dict_set (role_name r) r found else found)
          (filter (\<lambda>r. role_application_id r = aid \<and> role_name r \<in> names \<and> role_agent_id r = None \<and>
            (role_tenant_id r = Some tid \<or> role_tenant_id r = None)) rs) found =
        assignable_loop (Some tid) aid names rs found" for rs found
    by (induction rs arbitrary: found) auto
  then show ?thesis
    using assms by (simp add: sql_assignable_roles_def find_assignable_roles_def represents_def)
qed

lemma rep_effective:
  assumes "represents db s" "db_ok db" "set linked \<subseteq> set (db_roles db)"
  shows "sql_effective_role_ids db tid linked = effective_role_ids s tid (role_id ` set linked)"
proof -
  let ?own = "filter (\<lambda>r. role_tenant_id r = None \<or> role_tenant_id r = Some tid) linked"
  let ?names = "role_name ` set (filter (\<lambda>r. role_tenant_id r = None \<and> role_agent_id r = None) ?own)"
  let ?pick = "\<lambda>r. if role_tenant_id r = None \<and> role_agent_id r = None
           then dict_get_default (role_overrides db tid ?names) (role_application_id r, role_name r) (role_id r)
           else role_id r"
  have roles: "st_roles s = keyed role_id (db_roles db)" using assms(1) by (simp add: represents_def)
  have u: "unique_col role_id (db_roles db)" using assms(2) by (simp add: db_ok_def)
  have pick: "set_option (effective_role_id s tid (role_id r)) =
      (if role_tenant_id r = None \<or> role_tenant_id r = Some tid then {?pick r} else {})"
    if r: "r \<in> set linked" for r
  proof -
    have g: "dict_get (st_roles s) (role_id r) = Some r"
      using r assms(3) unfolding roles by (simp add: subset_iff tbl_get_unique [OF u])
    show ?thesis
    proof (cases "role_tenant_id r = None \<and> role_agent_id r = None")
      case True
      let ?P = "\<lambda>p. role_tenant_id p = Some tid \<and> role_agent_id p = None \<and>
        role_application_id p = role_application_id r \<and> role_name p = role_name r"
      have n: "role_name r \<in> ?names" using True r by auto
      have "List.find (\<lambda>p. (role_application_id p, role_name p) = (role_application_id r, role_name r))
          (rev (filter (\<lambda>p. role_tenant_id p = Some tid \<and> role_agent_id p = None \<and> role_name p \<in> ?names)
             (db_roles db))) = List.find ?P (rev (db_roles db))"
        unfolding rev_filter find_filter_iff by (rule find_cong_set) (use n in auto)
      also have "\<dots> = List.find ?P (db_roles db)"
        by (rule find_rev_unique) (use assms(2) in \<open>auto simp: db_ok_def tenant_roles_unique_def\<close>)
      finally have "dict_get (role_overrides db tid ?names) (role_application_id r, role_name r) =
          map_option role_id (List.find ?P (db_roles db))"
        unfolding role_overrides_def dict_get_fold_set by (auto split: option.splits)
      then show ?thesis
        using True g by (simp add: effective_role_id_def roles dict_get_default_def split: option.splits)
    next
      case False
      then show ?thesis using g by (auto simp: effective_role_id_def)
    qed
  qed
  have "effective_role_ids s tid (role_id ` set linked) =
      (\<Union>r \<in> set linked. set_option (effective_role_id s tid (role_id r)))"
    by (simp add: effective_role_ids_def)
  also have "\<dots> = (\<Union>r \<in> set linked. if role_tenant_id r = None \<or> role_tenant_id r = Some tid then {?pick r} else {})"
    using pick by simp
  also have "\<dots> = ?pick ` set ?own" by auto
  finally show ?thesis by (simp only: sql_effective_role_ids_def Let_def)
qed

lemma effective_role_ids_mem:
  "x \<in> effective_role_ids s tid ids \<longleftrightarrow> (\<exists>rid \<in> ids. effective_role_id s tid rid = Some x)"
  by (auto simp: effective_role_ids_def)

lemma rep_linked:
  assumes "represents db s" "db_ok db"
  shows "effective_role_ids s tid (role_id ` set (sql_linked_roles db table owners)) =
     (\<Union>o' \<in> set owners. effective_role_ids s tid (link_set table o'))"
proof -
  have roles: "st_roles s = keyed role_id (db_roles db)" using assms(1) by (simp add: represents_def)
  have none: "effective_role_id s tid x = None" if "x \<notin> role_id ` set (db_roles db)" for x
    using that by (simp add: effective_role_id_def roles tbl_get_None [symmetric])
  have "effective_role_ids s tid (link_set table o') =
      effective_role_ids s tid (link_set table o' \<inter> role_id ` set (db_roles db))" for o'
    using none unfolding set_eq_iff effective_role_ids_mem by (metis Int_iff option.distinct(1))
  moreover have "role_id ` set (sql_linked_roles db table owners) =
      (\<Union>o' \<in> set owners. link_set table o' \<inter> role_id ` set (db_roles db))"
    by (auto simp: sql_linked_roles_def link_set_def)
  ultimately show ?thesis by (simp add: effective_role_ids_def) blast
qed

lemma rep_user_permissions:
  assumes "represents db s" "db_ok db"
  shows "sql_resolve_user_permissions db t a u = resolve_user_permissions s t a u"
proof -
  let ?ids = "map ms_id (sql_eligible_memberships db t a u)"
  have el: "map mrow (eligible_memberships s t a u) = sql_eligible_memberships db t a u"
    unfolding eligible_memberships_def sql_eligible_memberships_def rep_memberships(1) [OF assms(1), symmetric]
    by (simp add: filter_map comp_def)
  have ids: "?ids = map mem_id (eligible_memberships s t a u)"
    unfolding el [symmetric] by simp
  have mr: "dict_get_default (st_membership_roles s) m {} = link_set (db_membership_roles db) m" for m
    using assms(1) by (simp add: represents_def)
  have eff: "sql_effective_role_ids db t (sql_linked_roles db (db_membership_roles db) ?ids) =
      (\<Union>m \<in> set (eligible_memberships s t a u).
         effective_role_ids s t (dict_get_default (st_membership_roles s) (mem_id m) {}))"
    unfolding mr using rep_effective [OF assms, of "sql_linked_roles db (db_membership_roles db) ?ids" t]
      rep_linked [OF assms, of t "db_membership_roles db" ?ids]
    by (simp add: ids) (auto simp: sql_linked_roles_def)
  have "resolve_user_permissions s t a u =
      (\<Union>rid \<in> sql_effective_role_ids db t (sql_linked_roles db (db_membership_roles db) ?ids).
         perm_name ` set (filter (\<lambda>p. (perm_application_id p = Some a \<or> perm_application_id p = None) \<and>
           perm_active p) (sql_list_role_permissions db rid)))"
    unfolding eff resolve_user_permissions_def rep_list_role_permissions [OF assms]
    by (simp add: filter_map comp_def image_image)
  also have "\<dots> = sql_resolve_user_permissions db t a u"
  proof (cases "?ids = []")
    case True
    then have "sql_effective_role_ids db t (sql_linked_roles db (db_membership_roles db) ?ids) = {}"
      by (simp add: sql_linked_roles_def sql_effective_role_ids_def)
    then show ?thesis using True by (simp add: sql_resolve_user_permissions_def)
  next
    case False
    then show ?thesis
      unfolding sql_resolve_user_permissions_def Let_def sql_list_role_permissions_def by auto
  qed
  finally show ?thesis ..
qed

lemma rep_agent_permissions:
  assumes "represents db s" "db_ok db"
  shows "sql_resolve_agent_permissions db t a g = resolve_agent_permissions s t a g"
proof -
  have ag: "dict_get (st_agents s) g = tbl_get agent_id (db_agents db) g"
    and gr: "dict_get_default (st_agent_roles s) g {} = link_set (db_agent_roles db) g"
    using assms(1) by (simp_all add: represents_def)
  have eff: "sql_effective_role_ids db t (sql_linked_roles db (db_agent_roles db) [g]) =
      effective_role_ids s t (link_set (db_agent_roles db) g)"
    using rep_effective [OF assms, of "sql_linked_roles db (db_agent_roles db) [g]" t]
      rep_linked [OF assms, of t "db_agent_roles db" "[g]"]
    by (simp add: sql_linked_roles_def)
  show ?thesis
    unfolding sql_resolve_agent_permissions_def resolve_agent_permissions_def ag gr eff Let_def
      rep_list_role_permissions [OF assms] sql_list_role_permissions_def
    by (auto simp: filter_map comp_def image_image split: option.splits)
qed

lemma rep_get_membership:
  assumes "represents db s"
  shows "sql_find_membership db t a u = map_option mrow (get_membership s t a u)"
  unfolding sql_find_membership_def get_membership_def rep_memberships(1) [OF assms, symmetric] find_map
  by (simp add: conj_commute conj_left_commute)

lemma rep_agree:
  assumes "represents db s" "db_ok db"
  shows "agree_on t (sql_repository db) (memory_repository s)"
proof -
  have "sql_is_tenant_active db x = is_tenant_active s x"
    "sql_is_application_active db x = is_application_active s x"
    "sql_is_agent_active db t a x = is_agent_active s t a x" for x a
    using assms(1)
    by (simp_all add: represents_def sql_is_tenant_active_def is_tenant_active_def
        sql_is_application_active_def is_application_active_def sql_is_agent_active_def
        is_agent_active_def sql_get_agent_def get_agent_def)
  moreover have "sql_is_user_membership_active db t a u = is_user_membership_active s t a u" for a u
    unfolding sql_is_user_membership_active_def is_user_membership_active_def rep_get_membership [OF assms(1)]
    by (auto simp: Let_def split: option.splits)
  moreover have "sql_resolve_tenant_permissions db t a = resolve_tenant_permissions s t a" for a
    using assms(1) by (simp add: represents_def)
  ultimately show ?thesis
    using rep_user_permissions [OF assms] rep_agent_permissions [OF assms]
    by (auto simp: agree_on_def sql_repository_def memory_repository_def fun_eq_iff)
qed

section \<open>Operations are simulated\<close>

text \<open>The operations of the database store that change what decisions read.\<close>

inductive sql_step :: "sql_db \<Rightarrow> sql_db \<Rightarrow> bool" where
  tenant: "sql_create_tenant db nid slug name status = Inr (x, db') \<Longrightarrow> sql_step db db'"
| application: "sql_create_application db nid slug name status managed_by = Inr (y, db') \<Longrightarrow> sql_step db db'"
| managed: "sql_step db (sql_set_application_managed_by db aid managed_by)"
| claim: "sql_step db (snd (sql_claim_application_management db aid manager))"
| upsert: "sql_upsert_user_from_identity db uid xid provider issuer subj email ext dn = Inr (z, db') \<Longrightarrow>
     sql_step db db'"
| mapping: "sql_create_tenant_identity_mapping db nid tid provider issuer ext = Inr (tm, db') \<Longrightarrow> sql_step db db'"
| membership: "sql_create_membership db nid tid aid' uid status roles = Inr (m, db') \<Longrightarrow> sql_step db db'"
| membership_roles: "sql_set_membership_roles db mid names = Inr db' \<Longrightarrow> sql_step db db'"
| role: "\<lbrakk>sql_create_role db nid name scope aid' tid' description = Inr (r, db'); tid' = None \<or> aid' \<noteq> None\<rbrakk> \<Longrightarrow>
     sql_step db db'"
| permission: "\<lbrakk>sql_create_permission db nid name aid' description = Inr (p, db');
     name \<notin> perm_name ` set (db_permissions db)\<rbrakk> \<Longrightarrow> sql_step db db'"
| role_permissions: "sql_set_role_permissions db rid names = Inr db' \<Longrightarrow> sql_step db db'"
| tenant_mask: "sql_step db (sql_set_tenant_permission_mask db tid aid permissions)"
| feature_flag: "sql_set_tenant_feature_flag db tid aid' key val = Inr db' \<Longrightarrow> sql_step db db'"
| agent: "sql_create_agent db nid tid aid name label status created_by dn = Inr (g, db') \<Longrightarrow> sql_step db db'"
| agent_roles: "sql_set_agent_roles db gid names = Inr db' \<Longrightarrow> sql_step db db'"

lemmas rep_defs = represents_def get_tenant_feature_flags_def flag_value_def
  resolve_tenant_permissions_def sql_resolve_tenant_permissions_def

lemma rep_create_tenant:
  assumes "represents db s" "db_ok db" "sql_create_tenant db nid slug name status = Inr (x, db')"
  shows "dict_get (st_tenants s) nid = None"
    and "represents db' (snd (create_tenant s nid slug name status))" and "db_ok db'"
proof -
  let ?row = "\<lparr>tenant_id = nid, tenant_slug = slug, tenant_name = name, tenant_status = status\<rparr>"
  have db': "db' = db\<lparr>db_tenants := db_tenants db @ [?row]\<rparr>" and n: "nid \<notin> tenant_id ` set (db_tenants db)"
    using assms(3) by (auto simp: sql_create_tenant_def Let_def res_simps tbl_insert_Inr tenant_clash_def)
  show "dict_get (st_tenants s) nid = None" using assms(1) n by (simp add: represents_def tbl_get_None)
  show "represents db' (snd (create_tenant s nid slug name status))"
    using assms(1) n by (simp add: db' rep_defs create_tenant_def Let_def dict_set_keyed_fresh)
  show "db_ok db'" using assms(2) n by (simp add: db' db_ok_def unique_col_append)
qed

lemma rep_create_application:
  assumes "represents db s" "db_ok db" "sql_create_application db nid slug name status manager = Inr (x, db')"
  shows "dict_get (st_applications s) nid = None"
    and "represents db' (snd (create_application s nid slug name status manager))" and "db_ok db'"
proof -
  let ?row = "\<lparr>app_id = nid, app_slug = slug, app_name = name, app_status = status, app_managed_by = manager\<rparr>"
  have db': "db' = db\<lparr>db_applications := db_applications db @ [?row]\<rparr>"
    and n: "nid \<notin> app_id ` set (db_applications db)"
    using assms(3) by (auto simp: sql_create_application_def Let_def res_simps tbl_insert_Inr application_clash_def)
  show "dict_get (st_applications s) nid = None" using assms(1) n by (simp add: represents_def tbl_get_None)
  show "represents db' (snd (create_application s nid slug name status manager))"
    using assms(1) n by (simp add: db' rep_defs create_application_def Let_def dict_set_keyed_fresh)
  show "db_ok db'" using assms(2) n by (simp add: db' db_ok_def unique_col_append)
qed

lemma tbl_update_absent: "tbl_get key rows k = None \<Longrightarrow> tbl_update key k f rows = rows"
  unfolding tbl_update_def tbl_get_None by (rule map_idI) auto

lemma rep_managed:
  assumes "represents db s" "db_ok db"
  shows "represents (sql_set_application_managed_by db aid manager) (set_application_managed_by s aid manager)"
    and "db_ok (sql_set_application_managed_by db aid manager)"
proof -
  have st: "st_applications s = keyed app_id (db_applications db)" using assms(1) by (simp add: represents_def)
  have u: "unique_col app_id (db_applications db)" using assms(2) by (simp add: db_ok_def)
  show "db_ok (sql_set_application_managed_by db aid manager)"
    using assms(2) unique_col_update [OF u, of "app_managed_by_update (\<lambda>_. manager)" app_id aid]
    by (simp add: sql_set_application_managed_by_def db_ok_def)
  show "represents (sql_set_application_managed_by db aid manager) (set_application_managed_by s aid manager)"
  proof (cases "tbl_get app_id (db_applications db) aid")
    case None
    then show ?thesis
      using assms(1) st by (simp add: sql_set_application_managed_by_def set_application_managed_by_def
          tbl_update_absent)
  next
    case (Some a)
    then have "app_id a = aid" by (auto dest: tbl_get_Some)
    then have "dict_set aid (a\<lparr>app_managed_by := manager\<rparr>) (keyed app_id (db_applications db)) =
        keyed app_id (tbl_update app_id aid (\<lambda>a. a\<lparr>app_managed_by := manager\<rparr>) (db_applications db))"
      using dict_set_keyed_present [OF u Some, of "app_managed_by_update (\<lambda>_. manager)"] by simp
    then show ?thesis
      using assms(1) Some by (simp add: rep_defs sql_set_application_managed_by_def set_application_managed_by_def)
  qed
qed

lemma rep_claim:
  assumes "represents db s" "db_ok db"
  shows "\<exists>s'. mem_step\<^sup>*\<^sup>* s s' \<and> represents (snd (sql_claim_application_management db aid manager)) s' \<and>
    db_ok (snd (sql_claim_application_management db aid manager))"
proof (cases "\<exists>a. tbl_get app_id (db_applications db) aid = Some a \<and> app_managed_by a = None")
  case True
  then obtain a where a: "tbl_get app_id (db_applications db) aid = Some a" "app_managed_by a = None" by blast
  have u: "unique_col app_id (db_applications db)" using assms(2) by (simp add: db_ok_def)
  have m: "app_managed_by b = None" if "b \<in> set (db_applications db)" "app_id b = aid" for b
    using tbl_get_unique [OF u that(1)] a that(2) by simp
  have "map (\<lambda>a. if app_id a = aid \<and> app_managed_by a = None then a\<lparr>app_managed_by := Some manager\<rparr> else a)
      (db_applications db) = tbl_update app_id aid (\<lambda>a. a\<lparr>app_managed_by := Some manager\<rparr>) (db_applications db)"
    unfolding tbl_update_def by (rule map_cong [OF refl]) (simp add: m)
  then have e: "snd (sql_claim_application_management db aid manager) =
      sql_set_application_managed_by db aid (Some manager)"
    by (simp add: sql_claim_application_management_def sql_set_application_managed_by_def Let_def)
  have "mem_step\<^sup>*\<^sup>* s (set_application_managed_by s aid (Some manager))"
    by (rule r_into_rtranclp) (rule mem_step.managed)
  then show ?thesis unfolding e using rep_managed [OF assms, of aid "Some manager"] by blast
next
  case False
  have "map (\<lambda>a. if app_id a = aid \<and> app_managed_by a = None then a\<lparr>app_managed_by := Some manager\<rparr> else a)
      (db_applications db) = db_applications db"
  proof (rule map_idI)
    fix a assume "a \<in> set (db_applications db)"
    then have "app_id a = aid \<Longrightarrow> tbl_get app_id (db_applications db) aid = Some a"
      using assms(2) tbl_get_unique [of app_id "db_applications db" a] by (simp add: db_ok_def)
    then show "(if app_id a = aid \<and> app_managed_by a = None then a\<lparr>app_managed_by := Some manager\<rparr> else a) = a"
      using False by auto
  qed
  then have "snd (sql_claim_application_management db aid manager) = db"
    by (simp add: sql_claim_application_management_def Let_def)
  then show ?thesis using assms by auto
qed

lemma rep_upsert:
  assumes "represents db s" "db_ok db"
    and "sql_upsert_user_from_identity db uid xid provider issuer subj email ext dn = Inr (z, db')"
  shows "\<exists>s'. mem_step\<^sup>*\<^sup>* s s' \<and> represents db' s' \<and> db_ok db'"
proof (cases "sql_find_identity db provider issuer subj")
  case (Some i)
  then have "db' = db"
    using assms(3) by (auto simp: sql_upsert_user_from_identity_def upsert_identity_def split: option.splits)
  then show ?thesis using assms(1,2) by blast
next
  case None
  let ?u = "\<lparr>user_id = uid, user_display_name = dn, user_email = email, user_status = ''active''\<rparr>"
  let ?i = "\<lparr>xid_id = xid, xid_user_id = uid, xid_provider = provider, xid_issuer = issuer,
    xid_subject = subj, xid_external_tenant_id = ext, xid_email = email\<rparr>"
  let ?s' = "s\<lparr>st_users := dict_set uid ?u (st_users s),
    st_external_identities := dict_set xid ?i (st_external_identities s)\<rparr>"
  have db': "db' = db\<lparr>db_users := db_users db @ [?u], db_identities := db_identities db @ [?i]\<rparr>"
    and n: "uid \<notin> user_id ` set (db_users db)" "xid \<notin> xid_id ` set (db_identities db)"
    using assms(3) None
    by (auto simp: sql_upsert_user_from_identity_def upsert_identity_def Let_def res_simps tbl_insert_Inr
        user_clash_def identity_clash_def)
  have st: "st_users s = keyed user_id (db_users db)" "st_external_identities s = keyed xid_id (db_identities db)"
    using assms(1) by (simp_all add: represents_def)
  have "find_user_by_external_identity s provider issuer subj = None"
    using None by (simp add: find_user_by_external_identity_def sql_find_identity_def st)
  then have "upsert_user_from_identity s uid xid provider issuer subj email ext dn = Inr ((?u, ?i), ?s')"
    by (simp add: upsert_user_from_identity_def Let_def)
  moreover have "dict_get (st_users s) uid = None" "dict_get (st_external_identities s) xid = None"
    using n by (simp_all add: st tbl_get_None)
  ultimately have "mem_step\<^sup>*\<^sup>* s ?s'" by (intro r_into_rtranclp mem_step.upsert)
  moreover have "represents db' ?s'"
    using assms(1) n by (simp add: db' rep_defs dict_set_keyed_fresh)
  moreover have "db_ok db'" using assms(2) n by (simp add: db' db_ok_def unique_col_append)
  ultimately show ?thesis by blast
qed

lemma rep_mapping:
  assumes "represents db s" "db_ok db"
    and "sql_create_tenant_identity_mapping db nid tid provider issuer ext = Inr (x, db')"
  shows "dict_get (st_tenant_identity_mappings s) nid = None"
    and "represents db' (snd (create_tenant_identity_mapping s nid tid provider issuer ext))" and "db_ok db'"
proof -
  let ?row = "\<lparr>tim_id = nid, tim_tenant_id = tid, tim_provider = provider, tim_issuer = issuer,
    tim_external_tenant_id = ext\<rparr>"
  have db': "db' = db\<lparr>db_mappings := db_mappings db @ [?row]\<rparr>" and n: "nid \<notin> tim_id ` set (db_mappings db)"
    using assms(3) by (auto simp: sql_create_tenant_identity_mapping_def Let_def res_simps tbl_insert_Inr mapping_clash_def)
  show "dict_get (st_tenant_identity_mappings s) nid = None"
    using assms(1) n by (simp add: represents_def tbl_get_None)
  show "represents db' (snd (create_tenant_identity_mapping s nid tid provider issuer ext))"
    using assms(1) n by (simp add: db' rep_defs create_tenant_identity_mapping_def Let_def dict_set_keyed_fresh)
  show "db_ok db'" using assms(2) n by (simp add: db' db_ok_def unique_col_append)
qed

lemma rep_create_role:
  assumes "represents db s" "db_ok db" "sql_create_role db nid name scope aid tid description = Inr (x, db')"
    and "tid = None \<or> aid \<noteq> None"
  shows "dict_get (st_roles s) nid = None"
    and "represents db' (snd (create_role s nid name scope aid tid description))" and "db_ok db'"
proof -
  let ?row = "\<lparr>role_id = nid, role_name = name, role_scope = scope, role_tenant_id = tid,
    role_application_id = aid, role_description = description, role_is_system = False, role_agent_id = None\<rparr>"
  have db': "db' = db\<lparr>db_roles := db_roles db @ [?row]\<rparr>" and c: "\<forall>r \<in> set (db_roles db). \<not> role_clash ?row r"
    using assms(3) by (auto simp: sql_create_role_def Let_def res_simps tbl_insert_Inr)
  have n: "nid \<notin> role_id ` set (db_roles db)" using c by (auto simp: role_clash_def)
  show "dict_get (st_roles s) nid = None" using assms(1) n by (simp add: represents_def tbl_get_None)
  have d: "dict_get_default (dict_setdefault nid {} d) r {} = dict_get_default d r {}" for d :: "(ident, ident set) dict" and r
    by (simp add: dict_get_default_def)
  show "represents db' (snd (create_role s nid name scope aid tid description))"
    using assms(1) n by (simp add: db' rep_defs create_role_def Let_def dict_set_keyed_fresh d)
  have "tenant_roles_unique (db_roles db @ [?row])"
    using assms(2,4) c by (auto simp: db_ok_def tenant_roles_unique_def role_clash_def)
  then show "db_ok db'" using assms(2) n by (simp add: db' db_ok_def unique_col_append)
qed

lemma rep_create_agent:
  assumes "represents db s" "db_ok db"
    and "sql_create_agent db nid tid aid name label status created_by dn = Inr (x, db')"
  shows "dict_get (st_agents s) nid = None"
    and "represents db' (snd (create_agent s nid tid aid name label status created_by dn))" and "db_ok db'"
proof -
  let ?row = "\<lparr>agent_id = nid, agent_tenant_id = tid, agent_application_id = aid, agent_name = name,
    agent_role = label, agent_status = status, agent_created_by_user_id = created_by, agent_display_name = dn\<rparr>"
  have db': "db' = db\<lparr>db_agents := db_agents db @ [?row]\<rparr>" and n: "nid \<notin> agent_id ` set (db_agents db)"
    using assms(3) by (auto simp: sql_create_agent_def Let_def res_simps tbl_insert_Inr agent_clash_def)
  show "dict_get (st_agents s) nid = None" using assms(1) n by (simp add: represents_def tbl_get_None)
  have d: "dict_get_default (dict_setdefault nid {} d) r {} = dict_get_default d r {}" for d :: "(ident, ident set) dict" and r
    by (simp add: dict_get_default_def)
  show "represents db' (snd (create_agent s nid tid aid name label status created_by dn))"
    using assms(1) n by (simp add: db' rep_defs create_agent_def Let_def dict_set_keyed_fresh d)
  show "db_ok db'" using assms(2) n by (simp add: db' db_ok_def unique_col_append)
qed

lemma rep_create_membership:
  assumes "represents db s" "db_ok db" "sql_create_membership db nid tid aid uid status roles = Inr (x, db')"
  shows "dict_get (st_memberships s) nid = None"
    and "represents db' (snd (create_membership s nid tid aid uid status roles))" and "db_ok db'"
proof -
  let ?row = "\<lparr>ms_id = nid, ms_tenant_id = tid, ms_application_id = aid, ms_user_id = uid, ms_status = status\<rparr>"
  let ?m = "\<lparr>mem_id = nid, mem_tenant_id = tid, mem_user_id = uid, mem_application_id = aid,
    mem_roles = roles, mem_status = status\<rparr>"
  let ?ids = "linked_ids (sql_assignable_roles db (Some tid) aid roles)"
  obtain b ls where r: "(if roles = {} then Inr (False, db_membership_roles db)
        else replace_links (db_membership_roles db) nid ?ids (Some {})) = Inr (b, ls)"
    and db': "db' = db\<lparr>db_memberships := db_memberships db @ [?row], db_membership_roles := ls\<rparr>"
    and n: "nid \<notin> ms_id ` set (db_memberships db)"
    using assms(3) by (auto simp: sql_create_membership_def Let_def res_simps tbl_insert_Inr membership_clash_def)
  have sub: "o' \<in> ms_id ` set (db_memberships db)" if "(o', y) \<in> db_membership_roles db" for o' y
  proof -
    have "fst ` db_membership_roles db \<subseteq> ms_id ` set (db_memberships db)" using assms(2) by (simp add: db_ok_def)
    moreover have "o' \<in> fst ` db_membership_roles db" using that by force
    ultimately show ?thesis by blast
  qed
  have free: "link_set (db_membership_roles db) nid = {}"
    using sub n by (auto simp only: link_set_def)
  have ids: "roles = {} \<Longrightarrow> ?ids = {}"
    by (simp add: sql_assignable_roles_def linked_ids_def dict_values_def)
  have l: "link_set ls o' = (if o' = nid then ?ids else link_set (db_membership_roles db) o')" for o'
    using r free ids replace_links_exact [of "db_membership_roles db" nid ?ids "Some {}" b ls o']
    by (cases "roles = {}") auto
  show fresh: "dict_get (st_memberships s) nid = None"
    using n rep_memberships(4) [OF assms(1)] by (simp add: tbl_get_None)
  have "map (map_prod id mrow) (dict_set nid ?m (st_memberships s)) = keyed ms_id (db_memberships db @ [?row])"
    using assms(1) fresh by (simp add: dict_set_fresh represents_def mrow_def)
  moreover have "?ids = linked_ids (find_assignable_roles s tid aid roles)"
    by (simp add: rep_assignable [OF assms(1)])
  ultimately show "represents db' (snd (create_membership s nid tid aid uid status roles))"
    using assms(1) by (simp add: db' rep_defs create_membership_def Let_def l)
  have "fst ` ls \<subseteq> ms_id ` set (db_memberships db @ [?row])"
  proof -
    have "o' = nid \<or> o' \<in> ms_id ` set (db_memberships db)" if "(o', y) \<in> ls" for o' y
    proof (cases "o' = nid")
      case False
      then have "(o', y) \<in> db_membership_roles db" using l [of o'] that unfolding link_set_def by auto
      then show ?thesis using sub by blast
    qed simp
    then have "\<forall>x \<in> ls. fst x \<in> ms_id ` set (db_memberships db @ [?row])" by fastforce
    then show ?thesis by blast
  qed
  then show "db_ok db'" using assms(2) n by (simp add: db' db_ok_def unique_col_append)
qed

lemma rep_set_membership_roles:
  assumes "represents db s" "db_ok db" "sql_set_membership_roles db mid names = Inr db'"
  shows "\<exists>s'. mem_step\<^sup>*\<^sup>* s s' \<and> represents db' s' \<and> db_ok db'"
proof (cases "dict_get (st_memberships s) mid")
  case None
  then have "db' = db" using assms(3) rep_memberships(4) [OF assms(1)] by (simp add: sql_set_membership_roles_def)
  then show ?thesis using assms(1,2) by blast
next
  case (Some m)
  note row = rep_memberships(3) [OF assms(1) Some]
  let ?ids = "linked_ids (find_assignable_roles s (mem_tenant_id m) (mem_application_id m) names)"
  obtain b ls where r: "replace_links (db_membership_roles db) mid ?ids None = Inr (b, ls)"
    and db': "db' = db\<lparr>db_membership_roles := ls\<rparr>"
    using assms(3) row by (auto simp: sql_set_membership_roles_def res_simps rep_assignable [OF assms(1)])
  have l: "link_set ls o' = (if o' = mid then ?ids else link_set (db_membership_roles db) o')" for o'
    using replace_links_exact [OF r] by simp
  let ?s' = "s\<lparr>st_membership_roles := dict_set mid ?ids (st_membership_roles s),
    st_memberships := dict_set mid (m\<lparr>mem_roles := names\<rparr>) (st_memberships s)\<rparr>"
  have "set_membership_roles s mid names = Inr ?s'" using Some by (simp add: set_membership_roles_def)
  then have step: "mem_step\<^sup>*\<^sup>* s ?s'" by (intro r_into_rtranclp mem_step.membership_roles)
  have a: "map (map_prod id mrow) (dict_set k v d) = dict_set k (mrow v) (map (map_prod id mrow) d)"
    for k v and d :: "(ident, membership) dict"
    by (induction d) auto
  have b: "mrow (m\<lparr>mem_roles := names\<rparr>) = mrow m" by (simp add: mrow_def)
  have c: "dict_set mid (mrow m) (keyed ms_id (db_memberships db)) = keyed ms_id (db_memberships db)"
  proof -
    have "dict_get d k = Some v \<Longrightarrow> dict_set k v d = d" for d :: "(ident, membership_row) dict" and k v
      by (induction d) (auto split: if_splits)
    then show ?thesis using row by simp
  qed
  have d: "map (map_prod id mrow) (st_memberships s) = keyed ms_id (db_memberships db)"
    using assms(1) by (simp add: represents_def)
  have "map (map_prod id mrow) (dict_set mid (m\<lparr>mem_roles := names\<rparr>) (st_memberships s)) =
      keyed ms_id (db_memberships db)"
    unfolding a b d c ..
  then have "represents db' ?s'" using assms(1) by (simp add: db' rep_defs l)
  moreover have "db_ok db'"
  proof -
    have mid: "mid \<in> ms_id ` set (db_memberships db)" using row by (metis tbl_get_None option.distinct(1))
    have "fst ` ls \<subseteq> insert mid (fst ` db_membership_roles db)"
    proof
      fix o' assume "o' \<in> fst ` ls"
      then obtain y where y: "y \<in> link_set ls o'" by (auto simp: link_set_def)
      show "o' \<in> insert mid (fst ` db_membership_roles db)"
      proof (cases "o' = mid")
        case False
        then have "(o', y) \<in> db_membership_roles db" using y l [of o'] by (simp add: link_mem)
        then show ?thesis by force
      qed simp
    qed
    then show ?thesis using assms(2) mid by (auto simp: db' db_ok_def)
  qed
  ultimately show ?thesis using step by blast
qed

lemma rep_set_agent_roles:
  assumes "represents db s" "db_ok db" "sql_set_agent_roles db gid names = Inr db'"
  shows "\<exists>s'. mem_step\<^sup>*\<^sup>* s s' \<and> represents db' s' \<and> db_ok db'"
proof (cases "tbl_get agent_id (db_agents db) gid")
  case None
  then have "db' = db" using assms(3) by (simp add: sql_set_agent_roles_def)
  then show ?thesis using assms(1,2) by blast
next
  case (Some g)
  let ?found = "find_assignable_roles s (agent_tenant_id g) (Some (agent_application_id g)) names"
  have st: "dict_get (st_agents s) gid = Some g" using assms(1) Some by (simp add: represents_def)
  obtain b ls where c: "check_names ''role'' names (set (map fst ?found)) = Inr ()"
    and r: "replace_links (db_agent_roles db) gid (linked_ids ?found) None = Inr (b, ls)"
    and db': "db' = db\<lparr>db_agent_roles := ls\<rparr>"
    using assms(3) Some
    by (auto simp: sql_set_agent_roles_def Let_def res_simps rep_assignable [OF assms(1)] simp del: check_names_ok)
  have l: "link_set ls o' = (if o' = gid then linked_ids ?found else link_set (db_agent_roles db) o')" for o'
    using replace_links_exact [OF r] by simp
  let ?s' = "s\<lparr>st_agent_roles := dict_set gid (linked_ids ?found) (st_agent_roles s)\<rparr>"
  have "set_agent_roles s gid names = Inr ?s'"
    using st c by (simp add: set_agent_roles_def Let_def del: check_names_ok)
  then have "mem_step\<^sup>*\<^sup>* s ?s'" by (intro r_into_rtranclp mem_step.agent_roles)
  moreover have "represents db' ?s'" using assms(1) by (simp add: db' rep_defs l)
  moreover have "db_ok db'" using assms(2) by (simp add: db' db_ok_def)
  ultimately show ?thesis by blast
qed

lemma rep_mask:
  assumes "represents db s" "db_ok db"
  shows "represents (sql_set_tenant_permission_mask db tid aid ps) (set_tenant_permission_mask s tid aid ps)"
    and "db_ok (sql_set_tenant_permission_mask db tid aid ps)"
  using assms by (auto simp: rep_defs sql_set_tenant_permission_mask_def set_tenant_permission_mask_def db_ok_def)

lemma rep_create_permission:
  assumes "represents db s" "db_ok db" "sql_create_permission db nid name aid description = Inr (x, db')"
    and "name \<notin> perm_name ` set (db_permissions db)"
  shows "\<exists>p s'. create_permission s name aid = Inr (p, s') \<and> represents db' s' \<and> db_ok db'"
proof -
  obtain parsed where pr: "from_name name None aid = Inr parsed"
    using assms(3) by (auto simp: sql_create_permission_def res_simps)
  let ?row = "\<lparr>perm_id = nid, perm_name = name, perm_resource = perm_resource parsed,
    perm_action = perm_action parsed, perm_application_id = aid, perm_description = description,
    perm_deprecated = False, perm_critical = False\<rparr>"
  have db': "db' = db\<lparr>db_permissions := db_permissions db @ [?row]\<rparr>"
    and n: "nid \<notin> perm_id ` set (db_permissions db)"
    using assms(3) pr
    by (auto simp: sql_create_permission_def Let_def res_simps tbl_insert_Inr permission_clash_def)
  have pa: "pabs ?row = parsed" and pid: "perm_id parsed = name"
    using pr by (auto simp: pabs_def from_name_def Let_def split: if_splits prod.splits)
  let ?s' = "s\<lparr>st_permissions := dict_set name parsed (st_permissions s)\<rparr>"
  have "create_permission s name aid = Inr (parsed, ?s')" using pr pid by (simp add: create_permission_def)
  moreover have "dict_get (st_permissions s) name = None"
    using assms(1,4) by (auto simp: represents_def map_of_eq_None_iff)
  then have "dict_set name parsed (st_permissions s) = map (\<lambda>p. (perm_name p, pabs p)) (db_permissions db @ [?row])"
    using assms(1) pa by (simp add: dict_set_fresh represents_def)
  moreover have "{p \<in> set (db_permissions db @ [?row]). (r, perm_id p) \<in> db_role_permissions db} =
      {p \<in> set (db_permissions db). (r, perm_id p) \<in> db_role_permissions db}" for r
  proof -
    have "snd ` db_role_permissions db \<subseteq> perm_id ` set (db_permissions db)" using assms(2) by (simp add: db_ok_def)
    then have "(r, nid) \<notin> db_role_permissions db" using n by force
    then show ?thesis by auto
  qed
  ultimately show ?thesis
    using assms(1,2,4) n by (auto simp: db' rep_defs db_ok_def unique_col_append)
qed

lemma dict_ok_fold_set: "dict_ok d \<Longrightarrow> dict_ok (fold (\<lambda>p d. dict_set (k p) (v p) d) ps d)"
  by (induction ps arbitrary: d) auto

lemma found_by_name:
  fixes aid :: "ident option" and names :: "string set"
  assumes "unique_col perm_name (db_permissions db)"
  defines "ps \<equiv> filter (\<lambda>p. perm_application_id p = aid \<and> perm_active p \<and> perm_name p \<in> names) (db_permissions db)"
  shows "set (map fst (active_permissions db aid (Some names))) = perm_name ` set ps"
    and "set (dict_values (active_permissions db aid (Some names))) = set ps"
proof -
  let ?d = "active_permissions db aid (Some names)"
  have ap: "?d = fold (\<lambda>p d. dict_set (perm_name p) p d) ps []"
    by (simp add: active_permissions_def ps_def)
  have u: "unique_col perm_name ps" unfolding ps_def using assms(1) by (rule unique_col_filter)
  have "List.find (\<lambda>p. perm_name p = x) (rev ps) = tbl_get perm_name ps x" for x
    unfolding tbl_get_def by (rule find_rev_unique) (auto dest: unique_col_eq [OF u])
  then have g: "dict_get ?d x = tbl_get perm_name ps x" for x
    unfolding ap dict_get_fold_set by (auto split: option.splits)
  show "set (map fst ?d) = perm_name ` set ps"
    by (rule set_eqI) (simp only: dict_keys_get g tbl_get_None not_not)
  have ok: "dict_ok ?d" unfolding ap by (rule dict_ok_fold_set) simp
  show "set (dict_values ?d) = set ps"
  proof (rule set_eqI)
    fix p
    show "p \<in> set (dict_values ?d) \<longleftrightarrow> p \<in> set ps"
      unfolding dict_values_iff [OF ok] g using tbl_get_unique [OF u] tbl_get_Some by metis
  qed
qed

lemma rep_set_role_permissions:
  assumes "represents db s" "db_ok db" "sql_set_role_permissions db rid names = Inr db'"
  shows "\<exists>s'. mem_step\<^sup>*\<^sup>* s s' \<and> represents db' s' \<and> db_ok db'"
proof (cases "tbl_get role_id (db_roles db) rid")
  case None
  then have "db' = db" using assms(3) by (simp add: sql_set_role_permissions_def)
  then show ?thesis using assms(1,2) by blast
next
  case (Some r)
  let ?ps = "filter (\<lambda>p. perm_application_id p = role_application_id r \<and> perm_active p \<and> perm_name p \<in> names) (db_permissions db)"
  have u: "unique_col perm_name (db_permissions db)" "unique_col perm_id (db_permissions db)"
    using assms(2) by (simp_all add: db_ok_def)
  note f = found_by_name [OF u(1), of "role_application_id r" names]
  have st: "dict_get (st_roles s) rid = Some r" using assms(1) Some by (simp add: represents_def)
  obtain b ls where c: "names \<subseteq> perm_name ` set ?ps"
    and rl: "replace_links (db_role_permissions db) rid (perm_id ` set ?ps) None = Inr (b, ls)"
    and db': "db' = db\<lparr>db_role_permissions := ls\<rparr>"
  proof -
    have "res_bind (check_names ''permission'' names (perm_name ` set ?ps)) (\<lambda>_.
        res_bind (replace_links (db_role_permissions db) rid (perm_id ` set ?ps) None)
          (\<lambda>(_, ls). Inr (db\<lparr>db_role_permissions := ls\<rparr>))) = Inr db'"
      using assms(3) unfolding sql_set_role_permissions_def Some option.case Let_def f .
    then show thesis using that unfolding res_bind_eq_Inr check_names_ok by force
  qed
  have l: "link_set ls o' = (if o' = rid then perm_id ` set ?ps else link_set (db_role_permissions db) o')" for o'
    using replace_links_exact [OF rl] by simp
  have names: "names = perm_name ` set ?ps" using c by auto
  let ?found = "permission_ids_by_name (filter (\<lambda>p. perm_active p \<and> perm_name p \<in> names)
      (list_application_permissions s (role_application_id r)))"
  have lap: "filter (\<lambda>p. perm_active p \<and> perm_name p \<in> names) (list_application_permissions s (role_application_id r)) =
      map pabs ?ps"
    using assms(1) by (auto simp: list_application_permissions_def represents_def dict_values_def
        filter_map comp_def intro!: filter_cong)
  have fd: "dict_get ?found x = (if x \<in> names then Some x else None)" for x
  proof -
    have "List.find (\<lambda>p. perm_name p = x) (rev (map pabs ?ps)) = Some p \<Longrightarrow> perm_id p = x" for p
      by (auto dest!: find_Some_set)
    moreover have "List.find (\<lambda>p. perm_name p = x) (rev (map pabs ?ps)) = None \<longleftrightarrow> x \<notin> perm_name ` set ?ps"
      unfolding find_None_iff by auto
    ultimately show ?thesis
      unfolding permission_ids_by_name_def lap dict_get_fold_set names [symmetric]
      by (cases "List.find (\<lambda>p. perm_name p = x) (rev (map pabs ?ps))") auto
  qed
  have ok: "dict_ok (permission_ids_by_name qs)" for qs
    unfolding permission_ids_by_name_def by (rule dict_ok_fold_set) simp
  have vals: "set (dict_values ?found) = names"
    by (rule set_eqI) (simp only: dict_values_iff [OF ok] fd, auto)
  have keys: "set (map fst ?found) = names"
    by (rule set_eqI) (simp only: dict_keys_get fd, simp)
  let ?s' = "s\<lparr>st_role_permissions := dict_set rid names (st_role_permissions s)\<rparr>"
  have "set_role_permissions s rid names = Inr ?s'"
    unfolding set_role_permissions_def st option.case Let_def vals keys check_names_def by simp
  then have "mem_step\<^sup>*\<^sup>* s ?s'" by (intro r_into_rtranclp mem_step.role_permissions)
  moreover have "perm_name ` {p \<in> set (db_permissions db). (q, perm_id p) \<in> ls} =
      (if q = rid then names else perm_name ` {p \<in> set (db_permissions db). (q, perm_id p) \<in> db_role_permissions db})" for q
  proof -
    have "{p \<in> set (db_permissions db). perm_id p \<in> perm_id ` set ?ps} = set ?ps"
      by (auto dest: unique_col_eq [OF u(2)])
    then show ?thesis unfolding link_mem l using names by (cases "q = rid") simp_all
  qed
  then have "represents db' ?s'" using assms(1) by (simp add: db' rep_defs)
  moreover have "db_ok db'"
  proof -
    have "snd ` ls \<subseteq> perm_id ` set (db_permissions db) \<union> snd ` db_role_permissions db"
    proof
      fix y assume "y \<in> snd ` ls"
      then obtain o' where y: "y \<in> link_set ls o'" by (auto simp: link_set_def)
      show "y \<in> perm_id ` set (db_permissions db) \<union> snd ` db_role_permissions db"
      proof (cases "o' = rid")
        case True
        then show ?thesis using y l [of o'] by auto
      next
        case False
        then have "(o', y) \<in> db_role_permissions db" using y l [of o'] by (simp add: link_mem)
        then show ?thesis by force
      qed
    qed
    moreover have "snd ` db_role_permissions db \<subseteq> perm_id ` set (db_permissions db)"
      using assms(2) by (simp add: db_ok_def)
    ultimately have "snd ` ls \<subseteq> perm_id ` set (db_permissions db)" by blast
    then show ?thesis using assms(2) by (simp add: db' db_ok_def)
  qed
  ultimately show ?thesis by blast
qed

lemma find_update_first:
  assumes "\<And>x. P x \<Longrightarrow> Q (f x) = Q x" "\<And>x. P x \<Longrightarrow> Q x \<Longrightarrow> v (f x) = w"
    and "\<And>x. Q x \<Longrightarrow> P x = c" "\<And>x. P x \<Longrightarrow> Q x = c"
  shows "map_option v (List.find Q (update_first P f xs)) =
    (if c \<and> list_ex Q xs then Some w else map_option v (List.find Q xs))"
  using assms by (induction xs) auto

lemma map_update_first: "(\<And>x. k (f x) = k x) \<Longrightarrow> map k (update_first P f xs) = map k xs"
  by (induction xs) auto

lemma rep_flag:
  assumes "represents db s" "db_ok db" "sql_set_tenant_feature_flag db tid aid key val = Inr db'"
  shows "represents db' (set_tenant_feature_flag s tid aid key val)" and "db_ok db'"
proof -
  let ?same = "\<lambda>f. ff_tenant_id f = tid \<and> ff_application_id f = aid \<and> ff_key f = key"
  let ?row = "\<lparr>ff_tenant_id = tid, ff_application_id = aid, ff_key = key, ff_value = val\<rparr>"
  let ?k = "\<lambda>f. (ff_tenant_id f, ff_application_id f, ff_key f)"
  have u: "unique_col ?k (db_flags db)" using assms(2) by (simp add: db_ok_def)
  obtain fs where db': "db' = db\<lparr>db_flags := fs\<rparr>" and uf: "unique_col ?k fs"
    and v: "\<And>t a k. map_option ff_value (List.find (\<lambda>f. ff_tenant_id f = t \<and> ff_application_id f = a \<and> ff_key f = k) fs) =
        (if (t, a, k) = (tid, aid, key) then Some val else flag_value db t a k)"
  proof (cases "list_ex ?same (db_flags db)")
    case True
    let ?fs = "update_first ?same (\<lambda>f. f\<lparr>ff_value := val\<rparr>) (db_flags db)"
    have "db' = db\<lparr>db_flags := ?fs\<rparr>" using assms(3) True by (simp add: sql_set_tenant_feature_flag_def Let_def)
    moreover have "unique_col ?k ?fs" using u by (simp add: unique_col_def map_update_first)
    moreover have "map_option ff_value (List.find (\<lambda>f. ff_tenant_id f = t \<and> ff_application_id f = a \<and> ff_key f = k) ?fs) =
        (if (t, a, k) = (tid, aid, key) then Some val else flag_value db t a k)" for t a k
      using True find_update_first [of ?same "\<lambda>f. ff_tenant_id f = t \<and> ff_application_id f = a \<and> ff_key f = k"
          "\<lambda>f. f\<lparr>ff_value := val\<rparr>" ff_value val "(t, a, k) = (tid, aid, key)" "db_flags db"]
      by (auto simp: flag_value_def)
    ultimately show thesis by (rule that)
  next
    case False
    have "db' = db\<lparr>db_flags := db_flags db @ [?row]\<rparr>"
      using assms(3) False by (auto simp: sql_set_tenant_feature_flag_def Let_def res_simps tbl_insert_Inr)
    moreover have "unique_col ?k (db_flags db @ [?row])"
      using u False by (auto simp: unique_col_append list_ex_iff)
    moreover have "List.find ?same (db_flags db) = None" using False by (auto simp: list_ex_iff find_None_iff)
    then have "map_option ff_value (List.find (\<lambda>f. ff_tenant_id f = t \<and> ff_application_id f = a \<and> ff_key f = k)
        (db_flags db @ [?row])) = (if (t, a, k) = (tid, aid, key) then Some val else flag_value db t a k)" for t a k
      by (auto simp: flag_value_def find_append_iff split: option.splits)
    ultimately show thesis by (rule that)
  qed
  have m: "dict_get (get_tenant_feature_flags (set_tenant_feature_flag s tid aid key val) t a) k =
      (if (t, a, k) = (tid, aid, key) then Some val else dict_get (get_tenant_feature_flags s t a) k)" for t a k
    by (auto simp: get_tenant_feature_flags_def set_tenant_feature_flag_def Let_def dict_get_default_def)
  have fl: "dict_get (get_tenant_feature_flags s t a) k = flag_value db t a k" for t a k
    using assms(1) by (simp add: represents_def)
  have "dict_get (get_tenant_feature_flags (set_tenant_feature_flag s tid aid key val) t a) k = flag_value db' t a k"
    for t a k unfolding m fl by (simp add: db' flag_value_def v [unfolded flag_value_def])
  then show "represents db' (set_tenant_feature_flag s tid aid key val)"
    using assms(1) by (simp add: represents_def db' set_tenant_feature_flag_def Let_def
        resolve_tenant_permissions_def sql_resolve_tenant_permissions_def)
  show "db_ok db'" using assms(2) uf by (simp add: db' db_ok_def)
qed

lemma sql_step_simulated:
  assumes "represents db s" "db_ok db" "sql_step db db'"
  shows "\<exists>s'. mem_step\<^sup>*\<^sup>* s s' \<and> represents db' s' \<and> db_ok db'"
  using assms(3)
proof cases
  case (tenant nid slug name status x)
  note r = rep_create_tenant [OF assms(1,2) tenant]
  show ?thesis using r mem_step.tenant [OF r(1)] by blast
next
  case (application nid slug name status managed_by y)
  note r = rep_create_application [OF assms(1,2) application]
  show ?thesis using r mem_step.application [OF r(1)] by blast
next
  case (managed aid managed_by)
  then show ?thesis using rep_managed [OF assms(1,2)] mem_step.managed by blast
next
  case (claim aid manager)
  then show ?thesis using rep_claim [OF assms(1,2)] by blast
next
  case upsert
  then show ?thesis using rep_upsert [OF assms(1,2)] by blast
next
  case mapping
  note r = rep_mapping [OF assms(1,2) mapping]
  show ?thesis using r mem_step.mapping [OF r(1)] by blast
next
  case membership
  note r = rep_create_membership [OF assms(1,2) membership]
  show ?thesis using r mem_step.membership [OF r(1)] by blast
next
  case membership_roles
  then show ?thesis by (rule rep_set_membership_roles [OF assms(1,2)])
next
  case role
  note r = rep_create_role [OF assms(1,2) role]
  show ?thesis using r mem_step.role [OF r(1)] by blast
next
  case permission
  then show ?thesis using rep_create_permission [OF assms(1,2) permission] mem_step.permission by blast
next
  case role_permissions
  then show ?thesis by (rule rep_set_role_permissions [OF assms(1,2)])
next
  case tenant_mask
  then show ?thesis using rep_mask [OF assms(1,2)] mem_step.tenant_mask by blast
next
  case feature_flag
  then show ?thesis using rep_flag [OF assms(1,2) feature_flag] mem_step.feature_flag by blast
next
  case agent
  note r = rep_create_agent [OF assms(1,2) agent]
  show ?thesis using r mem_step.agent [OF r(1)] by blast
next
  case agent_roles
  then show ?thesis by (rule rep_set_agent_roles [OF assms(1,2)])
qed

inductive sql_reachable :: "sql_db \<Rightarrow> bool" where
  start: "sql_reachable empty_db"
| step: "\<lbrakk>sql_reachable db; sql_step db db'\<rbrakk> \<Longrightarrow> sql_reachable db'"

lemma mem_reachable_steps: "\<lbrakk>mem_step\<^sup>*\<^sup>* s s'; mem_reachable s\<rbrakk> \<Longrightarrow> mem_reachable s'"
  by (induction rule: rtranclp_induct) (auto intro: mem_reachable.step)

lemma reachable_represented: "sql_reachable db \<Longrightarrow> \<exists>s. mem_reachable s \<and> represents db s \<and> db_ok db"
proof (induction rule: sql_reachable.induct)
  case start
  then show ?case using represents_empty mem_reachable.start by blast
next
  case (step db db')
  then obtain s where s: "mem_reachable s" "represents db s" "db_ok db" by blast
  then show ?case using sql_step_simulated [OF s(2,3) step.hyps(2)] mem_reachable_steps by blast
qed

section \<open>The contract of a repository\<close>

interpretation sql: rbac_contract "sql_repository db" for db
proof unfold_locales
  fix p t a u
  assume "p \<in> repo_resolve_user_permissions (sql_repository db) t a u"
  then show "p \<in> active_catalog (sql_repository db) a"
    by (auto simp: sql_repository_def active_catalog_def sql_resolve_user_permissions_def
        sql_list_application_permissions_def Let_def split: if_splits)
qed (auto simp: sql_repository_def sql_is_agent_active_def sql_get_agent_def
    sql_resolve_agent_permissions_def split: option.splits if_splits)

section \<open>Properties\<close>


definition sample_role :: role where
  "sample_role = \<lparr>role_id = ''r'', role_name = ''reader'', role_scope = APPLICATION, role_tenant_id = None,
     role_application_id = Some ''a'', role_description = None, role_is_system = False, role_agent_id = None\<rparr>"

definition sample_permission :: permission where
  "sample_permission = \<lparr>perm_id = ''p'', perm_name = ''docs.read'', perm_resource = ''docs'', perm_action = ''read'',
     perm_application_id = Some ''a'', perm_description = None, perm_deprecated = False, perm_critical = False\<rparr>"

definition sample_db :: sql_db where
  "sample_db = empty_db\<lparr>db_roles := [sample_role], db_permissions := [sample_permission],
     db_role_permissions := {(''r'', ''p'')},
     db_memberships := [\<lparr>ms_id = ''m'', ms_tenant_id = ''t'', ms_application_id = Some ''a'', ms_user_id = ''u'',
       ms_status = ''active''\<rparr>],
     db_membership_roles := {(''m'', ''r'')}\<rparr>"

lemma sample_db_reachable: "sql_reachable sample_db"
proof -
  let ?d1 = "empty_db\<lparr>db_roles := [sample_role]\<rparr>"
  let ?d2 = "?d1\<lparr>db_permissions := [sample_permission]\<rparr>"
  let ?d3 = "?d2\<lparr>db_role_permissions := {(''r'', ''p'')}\<rparr>"
  have "sql_create_role empty_db ''r'' ''reader'' APPLICATION (Some ''a'') None None = Inr (sample_role, ?d1)"
    by (simp add: sql_create_role_def tbl_insert_def empty_db_def sample_role_def Let_def)
  then have 1: "sql_reachable ?d1" by (blast intro: sql_reachable.intros sql_step.role)
  have "sql_create_permission ?d1 ''p'' ''docs.read'' (Some ''a'') None = Inr (sample_permission, ?d2)"
    by (simp add: sql_create_permission_def from_name_def rpartition_def tbl_insert_def empty_db_def
        sample_permission_def Let_def)
  then have 2: "sql_reachable ?d2"
    by (rule sql_reachable.step [OF 1 sql_step.permission]) (simp add: empty_db_def)
  have "sql_set_role_permissions ?d2 ''r'' {''docs.read''} = Inr ?d3"
    by (simp add: sql_set_role_permissions_def tbl_get_def sample_role_def sample_permission_def perm_active_def
        active_permissions_def check_names_def replace_links_def link_set_def dict_values_def empty_db_def Let_def)
  then have 3: "sql_reachable ?d3" by (rule sql_reachable.step [OF 2 sql_step.role_permissions])
  have "\<exists>m. sql_create_membership ?d3 ''m'' ''t'' (Some ''a'') ''u'' ''active'' {''reader''} = Inr (m, sample_db)"
    by (simp add: sql_create_membership_def tbl_insert_def sql_assignable_roles_def sample_role_def linked_ids_def
        dict_values_def replace_links_def sample_db_def empty_db_def Let_def)
  then show ?thesis using sql_reachable.step [OF 3 sql_step.membership] by blast
qed


text \<open>Every reachable database is well formed. Each row is the one its identifier finds, so rows never
  shadow each other; permission names and feature flags are unique in their scope and a tenant has at most one
  override of a role name per application; links start at existing memberships and end at existing
  permissions.\<close>

theorem sql_well_formed:
  assumes "sql_reachable db"
  shows "(\<forall>x \<in> set (db_tenants db). sql_get_tenant db (tenant_id x) = Some x) \<and>
    (\<forall>x \<in> set (db_applications db). sql_get_application db (app_id x) = Some x) \<and>
    (\<forall>x \<in> set (db_users db). sql_get_user db (user_id x) = Some x) \<and>
    (\<forall>x \<in> set (db_roles db). sql_get_role db (role_id x) = Some x) \<and>
    (\<forall>x \<in> set (db_agents db). sql_get_agent_by_id db (agent_id x) = Some x) \<and>
    (\<forall>x \<in> set (db_memberships db). sql_get_membership_by_id db (ms_id x) = Some (to_membership db x)) \<and>
    distinct (map perm_name (db_permissions db)) \<and>
    distinct (map (\<lambda>f. (ff_tenant_id f, ff_application_id f, ff_key f)) (db_flags db)) \<and>
    (\<forall>r \<in> set (db_roles db). \<forall>q \<in> set (db_roles db).
       role_tenant_id r \<noteq> None \<and> role_tenant_id r = role_tenant_id q \<and> role_agent_id r = None \<and>
       role_agent_id q = None \<and> role_application_id r = role_application_id q \<and> role_name r = role_name q \<longrightarrow> r = q) \<and>
    (\<forall>(m, r) \<in> db_membership_roles db. \<exists>x \<in> set (db_memberships db). ms_id x = m) \<and>
    (\<forall>(r, p) \<in> db_role_permissions db. \<exists>x \<in> set (db_permissions db). perm_id x = p)"
proof -
  have "db_ok db" using reachable_represented [OF assms] by blast
  then have ok: "unique_col tenant_id (db_tenants db)" "unique_col app_id (db_applications db)"
    "unique_col user_id (db_users db)" "unique_col role_id (db_roles db)" "unique_col agent_id (db_agents db)"
    "unique_col ms_id (db_memberships db)" "unique_col perm_name (db_permissions db)"
    "unique_col (\<lambda>f. (ff_tenant_id f, ff_application_id f, ff_key f)) (db_flags db)"
    "tenant_roles_unique (db_roles db)" "fst ` db_membership_roles db \<subseteq> ms_id ` set (db_memberships db)"
    "snd ` db_role_permissions db \<subseteq> perm_id ` set (db_permissions db)" by (simp_all add: db_ok_def)
  have "\<forall>x \<in> set (db_tenants db). sql_get_tenant db (tenant_id x) = Some x"
    using tbl_get_unique [OF ok(1)] by (simp add: sql_get_tenant_def)
  moreover have "\<forall>x \<in> set (db_applications db). sql_get_application db (app_id x) = Some x"
    using tbl_get_unique [OF ok(2)] by (simp add: sql_get_application_def)
  moreover have "\<forall>x \<in> set (db_users db). sql_get_user db (user_id x) = Some x"
    using tbl_get_unique [OF ok(3)] by (simp add: sql_get_user_def)
  moreover have "\<forall>x \<in> set (db_roles db). sql_get_role db (role_id x) = Some x"
    using tbl_get_unique [OF ok(4)] by (simp add: sql_get_role_def)
  moreover have "\<forall>x \<in> set (db_agents db). sql_get_agent_by_id db (agent_id x) = Some x"
    using tbl_get_unique [OF ok(5)] by (simp add: sql_get_agent_by_id_def)
  moreover have "\<forall>x \<in> set (db_memberships db). sql_get_membership_by_id db (ms_id x) = Some (to_membership db x)"
    using tbl_get_unique [OF ok(6)] by (simp add: sql_get_membership_by_id_def)
  moreover have "\<forall>(m, r) \<in> db_membership_roles db. \<exists>x \<in> set (db_memberships db). ms_id x = m" using ok(10) by force
  moreover have "\<forall>(r, p) \<in> db_role_permissions db. \<exists>x \<in> set (db_permissions db). perm_id x = p" using ok(11) by force
  ultimately show ?thesis
    using ok(7) ok(8) ok(9) unfolding unique_col_def tenant_roles_unique_def by (intro conjI)
qed

theorem sql_well_formed_witness:
  "sql_get_role sample_db ''r'' = Some sample_role \<and> distinct (map perm_name (db_permissions sample_db)) \<and>
   (\<forall>(m, r) \<in> db_membership_roles sample_db. \<exists>x \<in> set (db_memberships sample_db). ms_id x = m)"
proof -
  note wf = sql_well_formed [OF sample_db_reachable]
  have "\<forall>x \<in> set (db_roles sample_db). sql_get_role sample_db (role_id x) = Some x" using wf by (elim conjE)
  moreover have "sample_role \<in> set (db_roles sample_db)" "role_id sample_role = ''r''"
    by (simp_all add: sample_db_def sample_role_def)
  ultimately have "sql_get_role sample_db ''r'' = Some sample_role" by metis
  moreover have "distinct (map perm_name (db_permissions sample_db))" using wf by (elim conjE)
  moreover have "\<forall>(m, r) \<in> db_membership_roles sample_db. \<exists>x \<in> set (db_memberships sample_db). ms_id x = m"
    using wf by (elim conjE)
  ultimately show ?thesis by (intro conjI)
qed

end
