(* ===== verification/Provisioning.thy ===== *)
theory Provisioning
  imports Sql_Refinement
begin

text \<open>
  Declarative provisioning: the desired-state types of \<^verbatim>\<open>authzkit/provisioning.py\<close> and the operations of
  \<^verbatim>\<open>SqlAlchemyStore\<close> that make the database match them (\<^verbatim>\<open>apply_application_catalog\<close>,
  \<^verbatim>\<open>apply_tenant_state\<close>, the tenant role overrides). Each is one transaction: an error leaves the
  database as it was. Identifiers of new rows come from the argument \<open>new\<close>, a function of the kind of
  row and of its position in the request. The path and code of a validation issue are kept, its
  message is not.
\<close>

section \<open>Desired state\<close>

definition STATUS_ACTIVE :: string where
  "STATUS_ACTIVE = ''active''"

definition STATUS_DISABLED :: string where
  "STATUS_DISABLED = ''disabled''"

definition DESIRED_STATUSES :: "string set" where
  "DESIRED_STATUSES = {STATUS_ACTIVE, STATUS_DISABLED}"

definition agent_role_name :: "string \<Rightarrow> string" where
  "agent_role_name name = ''agent:'' @ name"

record provisioning_issue =
  pi_path :: string
  pi_code :: string

datatype provisioning_error = ProvisioningError "provisioning_issue list" | StoreError authz_error

record catalog_permission =
  cp_name :: string
  cp_description :: "string option"
  cp_critical :: bool

record catalog_role =
  cr_name :: string
  cr_description :: "string option"
  cr_permissions :: "string list"

record catalog_result =
  cres_application_id :: ident
  cres_permissions_created :: nat
  cres_permissions_deprecated :: nat
  cres_roles_created :: nat
  cres_roles_updated :: nat

type_synonym user_ref = "string \<times> string \<times> string"

record desired_member =
  dm_user_ref :: user_ref
  dm_roles :: "string list"
  dm_display_name :: "string option"
  dm_email :: "string option"
  dm_status :: string

record desired_agent =
  da_name :: string
  da_permissions :: "string list"
  da_display_name :: "string option"
  da_status :: string

record tenant_state =
  ts_name :: string
  ts_status :: string
  ts_members :: "desired_member list"
  ts_agents :: "desired_agent list"

record change_counts =
  cc_created :: nat
  cc_updated :: nat
  cc_disabled :: nat

record tenant_state_result =
  tsr_tenant_id :: ident
  tsr_members :: change_counts
  tsr_agents :: change_counts

record tenant_role_view =
  trv_name :: string
  trv_source :: string
  trv_permissions :: "string list"
  trv_default_permissions :: "string list"

definition lift_store :: "(authz_error, 'a) result \<Rightarrow> (provisioning_error, 'a) result" where
  "lift_store r = (case r of Inl e \<Rightarrow> Inl (StoreError e) | Inr x \<Rightarrow> Inr x)"

lemma lift_store_Inr [simp]: "lift_store r = Inr x \<longleftrightarrow> r = Inr x"
  by (cases r) (auto simp: lift_store_def)

text \<open>The paths of issues, e.g. \<^verbatim>\<open>members[0].roles[1]\<close>.\<close>

definition indexed :: "string \<Rightarrow> nat \<Rightarrow> string" where
  "indexed s i = s @ ''['' @ nat_str i @ '']''"

definition enumerated :: "'a list \<Rightarrow> (nat \<times> 'a) list" where
  "enumerated xs = zip [0..<length xs] xs"

text \<open>A loop over a list that threads a state and may raise.\<close>

fun res_fold :: "('a \<Rightarrow> 's \<Rightarrow> ('e, 's) result) \<Rightarrow> 'a list \<Rightarrow> 's \<Rightarrow> ('e, 's) result" where
  "res_fold f [] s = Inr s"
| "res_fold f (x # xs) s = (case f x s of Inl e \<Rightarrow> Inl e | Inr s' \<Rightarrow> res_fold f xs s')"

section \<open>Application catalog\<close>

definition catalog_issues :: "catalog_permission list \<Rightarrow> catalog_role list \<Rightarrow> provisioning_issue list" where
  "catalog_issues permissions default_roles =
     concat (map (\<lambda>(i, p). case from_name (cp_name p) None None of
         Inl _ \<Rightarrow> [\<lparr>pi_path = indexed ''permissions'' i @ ''.name'', pi_code = ''invalid_permission_name''\<rparr>]
       | Inr _ \<Rightarrow> []) (enumerated permissions)) @
     concat (map (\<lambda>(i, r). concat (map (\<lambda>(j, perm).
         if perm \<notin> cp_name ` set permissions
         then [\<lparr>pi_path = indexed (indexed ''default_roles'' i @ ''.permissions'') j,
                pi_code = ''unknown_permission''\<rparr>] else []) (enumerated (cr_permissions r))))
       (enumerated default_roles))"

text \<open>The dictionary \<^verbatim>\<open>{p.name: p ...}\<close>: a later entry of a name replaces an earlier one.\<close>

definition by_name :: "('a \<Rightarrow> string) \<Rightarrow> 'a list \<Rightarrow> (string, 'a) dict" where
  "by_name name xs = fold (\<lambda>x d. dict_set (name x) x d) xs []"

definition catalog_application_row ::
  "sql_db \<Rightarrow> ident \<Rightarrow> string \<Rightarrow> string \<Rightarrow> string option \<Rightarrow> (authz_error, ident \<times> sql_db) result" where
  "catalog_application_row db nid slug name managed_by =
     (case tbl_get app_slug (db_applications db) slug of
        None \<Rightarrow> res_bind (sql_create_application db nid slug name ''active'' managed_by)
                 (\<lambda>(a, db'). Inr (app_id a, db'))
      | Some a \<Rightarrow> Inr (app_id a, db\<lparr>db_applications :=
          tbl_update app_id (app_id a) (\<lambda>a. a\<lparr>app_name := name\<rparr>) (db_applications db)\<rparr>))"

text \<open>One listed permission: a new row, or the description, the critical mark and the deprecation of the
  one there is. The loop state is the table and the rows known by name.\<close>

definition catalog_permission_step ::
  "(string \<Rightarrow> ident) \<Rightarrow> ident \<Rightarrow> string \<times> catalog_permission \<Rightarrow> permission list \<times> (string, ident) dict \<times> nat \<Rightarrow>
     (authz_error, permission list \<times> (string, ident) dict \<times> nat) result" where
  "catalog_permission_step pid aid item st =
     (let (name, spec) = item; (rows, existing, created) = st in
      case dict_get existing name of
        None \<Rightarrow>
          res_bind (from_name name None None) (\<lambda>parsed.
          let row = \<lparr>perm_id = pid name, perm_name = name, perm_resource = perm_resource parsed,
                     perm_action = perm_action parsed, perm_application_id = Some aid,
                     perm_description = cp_description spec, perm_deprecated = False,
                     perm_critical = cp_critical spec\<rparr> in
          res_bind (tbl_insert permission_clash row rows)
            (\<lambda>rows'. Inr (rows', dict_set name (pid name) existing, Suc created)))
      | Some i \<Rightarrow>
          Inr (tbl_update perm_id i (\<lambda>p. p\<lparr>perm_description := cp_description spec,
                 perm_critical := cp_critical spec, perm_deprecated := False\<rparr>) rows,
               existing, created))"

text \<open>The rows known by name and not listed are deprecated.\<close>

definition deprecate_unlisted ::
  "(string, ident) dict \<Rightarrow> string set \<Rightarrow> permission list \<Rightarrow> nat \<times> permission list" where
  "deprecate_unlisted existing listed rows =
     (let gone = (\<lambda>p. (\<exists>(n, i) \<in> set existing. i = perm_id p \<and> n \<notin> listed) \<and> \<not> perm_deprecated p) in
      (length (filter gone rows), map (\<lambda>p. if gone p then p\<lparr>perm_deprecated := True\<rparr> else p) rows))"

definition catalog_role_step ::
  "(string \<Rightarrow> ident) \<Rightarrow> ident \<Rightarrow> catalog_role \<Rightarrow> role list \<times> (string, ident) dict \<times> nat \<times> nat \<Rightarrow>
     (authz_error, role list \<times> (string, ident) dict \<times> nat \<times> nat) result" where
  "catalog_role_step rid aid spec st =
     (let (rows, roles, created, updated) = st in
      case dict_get roles (cr_name spec) of
        None \<Rightarrow>
          res_bind (tbl_insert role_clash
              \<lparr>role_id = rid (cr_name spec), role_name = cr_name spec, role_scope = APPLICATION,
               role_tenant_id = None, role_application_id = Some aid,
               role_description = cr_description spec, role_is_system = False, role_agent_id = None\<rparr> rows)
            (\<lambda>rows'. Inr (rows', dict_set (cr_name spec) (rid (cr_name spec)) roles, Suc created, updated))
      | Some i \<Rightarrow>
          Inr (tbl_update role_id i (\<lambda>r. r\<lparr>role_description := cr_description spec\<rparr>) rows, roles,
               created, Suc updated))"

text \<open>The links of one default role; \<open>current\<close> was read before the loop.\<close>

definition catalog_links_step ::
  "(string, ident) dict \<Rightarrow> (string, ident) dict \<Rightarrow> (ident, ident set) dict \<Rightarrow> catalog_role \<Rightarrow>
     (ident \<times> ident) set \<Rightarrow> (authz_error, (ident \<times> ident) set) result" where
  "catalog_links_step existing roles current spec table =
     (case dict_get roles (cr_name spec) of
        None \<Rightarrow> Inl KeyError
      | Some rid \<Rightarrow>
          if \<not> set (cr_permissions spec) \<subseteq> set (map fst existing) then Inl KeyError
          else res_bind (replace_links table rid
              ((\<lambda>n. the (dict_get existing n)) ` set (cr_permissions spec))
              (Some (dict_get_default current rid {}))) (\<lambda>(_, t). Inr t))"

definition apply_application_catalog ::
  "sql_db \<Rightarrow> (string \<Rightarrow> string \<Rightarrow> ident) \<Rightarrow> string \<Rightarrow> string \<Rightarrow> catalog_permission list \<Rightarrow> catalog_role list \<Rightarrow>
     string option \<Rightarrow> (provisioning_error, catalog_result \<times> sql_db) result" where
  "apply_application_catalog db new slug name permissions default_roles managed_by =
     (if catalog_issues permissions default_roles \<noteq> [] then
        Inl (ProvisioningError (catalog_issues permissions default_roles))
      else lift_store (
        res_bind (catalog_application_row db (new ''application'' slug) slug name managed_by) (\<lambda>(aid, db1).
        let listed = by_name cp_name permissions;
            existing = map (\<lambda>(n, p). (n, perm_id p))
              (by_name perm_name (filter (\<lambda>p. perm_application_id p = Some aid) (db_permissions db1))) in
        res_bind (res_fold (catalog_permission_step (new ''permission'') aid) listed
            (db_permissions db1, existing, 0)) (\<lambda>(rows, existing', created).
        let (deprecated, rows') = deprecate_unlisted existing' (set (map fst listed)) rows;
            roles = map (\<lambda>(n, r). (n, role_id r)) (by_name role_name (named_roles db1 (Some aid) None));
            current = links (db_role_permissions db1) (dict_values roles) in
        res_bind (res_fold (catalog_role_step (new ''role'') aid) default_roles (db_roles db1, roles, 0, 0))
          (\<lambda>(role_rows, roles', roles_created, roles_updated).
        res_bind (res_fold (catalog_links_step existing' roles' current) default_roles (db_role_permissions db1))
          (\<lambda>table.
            Inr (\<lparr>cres_application_id = aid, cres_permissions_created = created,
                  cres_permissions_deprecated = deprecated, cres_roles_created = roles_created,
                  cres_roles_updated = roles_updated\<rparr>,
                 db1\<lparr>db_permissions := rows', db_roles := role_rows, db_role_permissions := table\<rparr>)))))))"

section \<open>Tenant state\<close>

definition member_issues ::
  "string set \<Rightarrow> user_ref set \<Rightarrow> nat \<times> desired_member \<Rightarrow> provisioning_issue list" where
  "member_issues known seen im =
     (let (i, m) = im; here = indexed ''members'' i in
      (if dm_user_ref m \<in> seen then [\<lparr>pi_path = here @ ''.user_ref'', pi_code = ''duplicate_member''\<rparr>] else []) @
      (if dm_status m \<notin> DESIRED_STATUSES then [\<lparr>pi_path = here @ ''.status'', pi_code = ''invalid_status''\<rparr>] else []) @
      concat (map (\<lambda>(j, r). if r \<notin> known
          then [\<lparr>pi_path = indexed (here @ ''.roles'') j, pi_code = ''unknown_role''\<rparr>] else [])
        (enumerated (dm_roles m))))"

definition agent_issues ::
  "string set \<Rightarrow> string set \<Rightarrow> nat \<times> desired_agent \<Rightarrow> provisioning_issue list" where
  "agent_issues known seen ia =
     (let (i, a) = ia; here = indexed ''agents'' i in
      (if da_name a \<in> seen then [\<lparr>pi_path = here @ ''.name'', pi_code = ''duplicate_agent''\<rparr>] else []) @
      (if da_status a \<notin> DESIRED_STATUSES then [\<lparr>pi_path = here @ ''.status'', pi_code = ''invalid_status''\<rparr>] else []) @
      concat (map (\<lambda>(j, p). if p \<notin> known
          then [\<lparr>pi_path = indexed (here @ ''.permissions'') j, pi_code = ''unknown_permission''\<rparr>] else [])
        (enumerated (da_permissions a))))"

text \<open>Each member (agent) is compared with the ones listed before it.\<close>

definition tenant_state_issues ::
  "tenant_state \<Rightarrow> (string, role) dict \<Rightarrow> (string, permission) dict \<Rightarrow> provisioning_issue list" where
  "tenant_state_issues st role_rows perm_rows =
     (if ts_status st \<noteq> STATUS_ACTIVE
      then [\<lparr>pi_path = ''status'', pi_code = ''tenant_status_not_managed''\<rparr>] else []) @
     concat (map (\<lambda>(i, m). member_issues (set (map fst role_rows))
         (dm_user_ref ` set (take i (ts_members st))) (i, m)) (enumerated (ts_members st))) @
     concat (map (\<lambda>(i, a). agent_issues (set (map fst perm_rows))
         (da_name ` set (take i (ts_agents st))) (i, a)) (enumerated (ts_agents st)))"

record members_loop =
  ml_db :: sql_db
  ml_desired :: "(ident \<times> ident set \<times> ident set) list"
  ml_users :: "ident set"
  ml_counts :: change_counts

definition identity_ref :: "external_identity \<Rightarrow> user_ref" where
  "identity_ref x = (xid_provider x, xid_issuer x, xid_subject x)"

definition apply_member ::
  "(string \<Rightarrow> nat \<Rightarrow> ident) \<Rightarrow> ident \<Rightarrow> ident \<Rightarrow> (string, role) dict \<Rightarrow> (user_ref, external_identity) dict \<Rightarrow>
   (ident, membership_row) dict \<Rightarrow> (ident, ident set) dict \<Rightarrow> (nat \<times> desired_member) \<Rightarrow> members_loop \<Rightarrow> (authz_error, members_loop) result" where
  "apply_member new tid aid role_rows identities memberships current_roles im st =
     (let (i, m) = im in
      res_bind (case dict_get identities (dm_user_ref m) of
          Some ident \<Rightarrow> Inr (ident, ml_db st)
        | None \<Rightarrow> res_bind (upsert_identity (ml_db st) (new ''user'' i) (new ''identity'' i) None
                    (dm_user_ref m) (dm_email m) None (dm_display_name m))
                  (\<lambda>((_, ident), db'). Inr (ident, db'))) (\<lambda>(ident, db1).
      let uid = xid_user_id ident in
      if \<not> set (dm_roles m) \<subseteq> set (map fst role_rows) then Inl KeyError
      else
        (let role_ids = (\<lambda>n. role_id (the (dict_get role_rows n))) ` set (dm_roles m) in
         case dict_get memberships uid of
           None \<Rightarrow>
             res_bind (tbl_insert membership_clash
                 \<lparr>ms_id = new ''membership'' i, ms_tenant_id = tid, ms_application_id = Some aid,
                  ms_user_id = uid, ms_status = dm_status m\<rparr> (db_memberships db1)) (\<lambda>ms.
               Inr \<lparr>ml_db = db1\<lparr>db_memberships := ms\<rparr>,
                    ml_desired = ml_desired st @ [(new ''membership'' i, role_ids, {})],
                    ml_users = insert uid (ml_users st),
                    ml_counts = (ml_counts st)\<lparr>cc_created := Suc (cc_created (ml_counts st))\<rparr>\<rparr>)
         | Some row \<Rightarrow>
             (let current = dict_get_default current_roles (ms_id row) {};
                  status = (case tbl_get ms_id (db_memberships db1) (ms_id row) of
                              None \<Rightarrow> ms_status row | Some r \<Rightarrow> ms_status r) in
              Inr \<lparr>ml_db = db1\<lparr>db_memberships :=
                      tbl_update ms_id (ms_id row) (\<lambda>r. r\<lparr>ms_status := dm_status m\<rparr>) (db_memberships db1)\<rparr>,
                   ml_desired = ml_desired st @ [(ms_id row, role_ids, current)],
                   ml_users = insert uid (ml_users st),
                   ml_counts = (if current \<noteq> role_ids \<or> status \<noteq> dm_status m
                     then (ml_counts st)\<lparr>cc_updated := Suc (cc_updated (ml_counts st))\<rparr>
                     else ml_counts st)\<rparr>))))"

definition apply_members ::
  "(string \<Rightarrow> nat \<Rightarrow> ident) \<Rightarrow> ident \<Rightarrow> ident \<Rightarrow> desired_member list \<Rightarrow> (string, role) dict \<Rightarrow> sql_db \<Rightarrow>
     (authz_error, change_counts \<times> sql_db) result" where
  "apply_members new tid aid members role_rows db =
     (let identities = fold (\<lambda>x d. dict_set (identity_ref x) x d)
            (filter (\<lambda>x. identity_ref x \<in> dm_user_ref ` set members) (db_identities db)) [];
          own = filter (\<lambda>m. ms_tenant_id m = tid \<and> ms_application_id m = Some aid) (db_memberships db);
          memberships = fold (\<lambda>m d. dict_set (ms_user_id m) m d) own [];
          current_roles = links (db_membership_roles db) (map ms_id (dict_values memberships)) in
      res_bind (res_fold (apply_member new tid aid role_rows identities memberships current_roles)
          (enumerated members)
          \<lparr>ml_db = db, ml_desired = [], ml_users = {},
           ml_counts = \<lparr>cc_created = 0, cc_updated = 0, cc_disabled = 0\<rparr>\<rparr>) (\<lambda>st.
      res_bind (res_fold (\<lambda>(mid, role_ids, current) table.
            res_bind (replace_links table mid role_ids (Some current)) (\<lambda>(_, t). Inr t))
          (ml_desired st) (db_membership_roles (ml_db st))) (\<lambda>table.
      let gone = (\<lambda>r. (\<exists>(u, m) \<in> set memberships. ms_id m = ms_id r \<and> u \<notin> ml_users st) \<and>
                     ms_status r \<noteq> MEMBERSHIP_STATUS_DISABLED) in
      Inr ((ml_counts st)\<lparr>cc_disabled := length (filter gone (db_memberships (ml_db st)))\<rparr>,
           (ml_db st)\<lparr>db_membership_roles := table,
             db_memberships := map (\<lambda>r. if gone r then r\<lparr>ms_status := MEMBERSHIP_STATUS_DISABLED\<rparr> else r)
               (db_memberships (ml_db st))\<rparr>))))"

record agent_plan =
  ap_agent :: ident
  ap_spec :: desired_agent
  ap_created :: bool
  ap_changed :: bool

text \<open>The first loop of \<^verbatim>\<open>_apply_agents\<close>: rows of new agents, status and display name of known ones.\<close>

definition apply_agent_row ::
  "(string \<Rightarrow> nat \<Rightarrow> ident) \<Rightarrow> ident \<Rightarrow> ident \<Rightarrow> (string, agent) dict \<Rightarrow> nat \<times> desired_agent \<Rightarrow>
     agent list \<times> agent_plan list \<Rightarrow> (authz_error, agent list \<times> agent_plan list) result" where
  "apply_agent_row new tid aid existing ia st =
     (let (i, a) = ia; (rows, plans) = st in
      case dict_get existing (da_name a) of
        None \<Rightarrow>
          res_bind (tbl_insert agent_clash
              \<lparr>agent_id = new ''agent'' i, agent_tenant_id = tid, agent_application_id = aid,
               agent_name = da_name a, agent_role = '''', agent_status = da_status a,
               agent_created_by_user_id = None, agent_display_name = da_display_name a\<rparr> rows)
            (\<lambda>rows'. Inr (rows', plans @ [\<lparr>ap_agent = new ''agent'' i, ap_spec = a, ap_created = True,
               ap_changed = False\<rparr>]))
      | Some g \<Rightarrow>
          (let differs = agent_status g \<noteq> da_status a \<or> agent_display_name g \<noteq> da_display_name a in
           Inr (tbl_update agent_id (agent_id g)
                  (\<lambda>r. r\<lparr>agent_status := da_status a, agent_display_name := da_display_name a\<rparr>) rows,
                plans @ [\<lparr>ap_agent = agent_id g, ap_spec = a, ap_created = False, ap_changed = differs\<rparr>])))"

text \<open>The second loop: the internal role of each agent.\<close>

definition apply_agent_role ::
  "(string \<Rightarrow> nat \<Rightarrow> ident) \<Rightarrow> ident \<Rightarrow> ident \<Rightarrow> (ident, ident) dict \<Rightarrow> nat \<times> agent_plan \<Rightarrow>
     role list \<times> (agent_plan \<times> ident) list \<Rightarrow> (authz_error, role list \<times> (agent_plan \<times> ident) list) result" where
  "apply_agent_role new tid aid internal ip st =
     (let (i, plan) = ip; (rows, planned) = st in
      case dict_get internal (ap_agent plan) of
        Some rid \<Rightarrow> Inr (rows, planned @ [(plan, rid)])
      | None \<Rightarrow>
          res_bind (tbl_insert role_clash
              \<lparr>role_id = new ''agent_role'' i, role_name = agent_role_name (da_name (ap_spec plan)),
               role_scope = AGENT, role_tenant_id = Some tid, role_application_id = Some aid,
               role_description = Some ''Internal: permissions of a provisioned agent'',
               role_is_system = True, role_agent_id = Some (ap_agent plan)\<rparr> rows)
            (\<lambda>rows'. Inr (rows', planned @ [(plan, new ''agent_role'' i)])))"

text \<open>The third loop: permissions of the internal role, the one link of the agent, the counts.\<close>

definition apply_agent_links ::
  "(string, permission) dict \<Rightarrow> (ident, ident set) dict \<Rightarrow> (ident, ident set) dict \<Rightarrow> agent_plan \<times> ident \<Rightarrow>
     (ident \<times> ident) set \<times> (ident \<times> ident) set \<times> change_counts \<Rightarrow>
     (authz_error, (ident \<times> ident) set \<times> (ident \<times> ident) set \<times> change_counts) result" where
  "apply_agent_links perm_rows current_perms current_links pr st =
     (let (plan, rid) = pr; (rp, ar, counts) = st in
      if \<not> set (da_permissions (ap_spec plan)) \<subseteq> set (map fst perm_rows) then Inl KeyError
      else
        res_bind (replace_links rp rid
            ((\<lambda>n. perm_id (the (dict_get perm_rows n))) ` set (da_permissions (ap_spec plan)))
            (Some (dict_get_default current_perms rid {}))) (\<lambda>(c1, rp').
        res_bind (replace_links ar (ap_agent plan) {rid}
            (Some (dict_get_default current_links (ap_agent plan) {}))) (\<lambda>(c2, ar').
          Inr (rp', ar',
            if ap_created plan then counts\<lparr>cc_created := Suc (cc_created counts)\<rparr>
            else if ap_changed plan \<or> c1 \<or> c2 then counts\<lparr>cc_updated := Suc (cc_updated counts)\<rparr>
            else counts))))"

definition apply_agents ::
  "(string \<Rightarrow> nat \<Rightarrow> ident) \<Rightarrow> ident \<Rightarrow> ident \<Rightarrow> desired_agent list \<Rightarrow> (string, permission) dict \<Rightarrow> sql_db \<Rightarrow>
     (authz_error, change_counts \<times> sql_db) result" where
  "apply_agents new tid aid agents perm_rows db =
     (let existing = by_name agent_name (sql_list_agents db tid aid);
          agent_ids = map agent_id (dict_values existing);
          internal = fold (\<lambda>r d. dict_set (the (role_agent_id r)) (role_id r) d)
            (filter (\<lambda>r. role_agent_id r \<in> Some ` set agent_ids) (db_roles db)) [];
          current_links = links (db_agent_roles db) agent_ids;
          current_perms = links (db_role_permissions db) (dict_values internal) in
      res_bind (res_fold (apply_agent_row new tid aid existing) (enumerated agents) (db_agents db, []))
        (\<lambda>(rows, plans).
      res_bind (res_fold (apply_agent_role new tid aid internal) (enumerated plans) (db_roles db, []))
        (\<lambda>(roles, planned).
      res_bind (res_fold (apply_agent_links perm_rows current_perms current_links) planned
          (db_role_permissions db, db_agent_roles db, \<lparr>cc_created = 0, cc_updated = 0, cc_disabled = 0\<rparr>))
        (\<lambda>(rp, ar, counts).
      let gone = (\<lambda>g. (\<exists>(n, e) \<in> set existing. agent_id e = agent_id g \<and> n \<notin> da_name ` set agents) \<and>
                     agent_status g \<noteq> STATUS_DISABLED) in
      Inr (counts\<lparr>cc_disabled := length (filter gone rows)\<rparr>,
           db\<lparr>db_agents := map (\<lambda>g. if gone g then g\<lparr>agent_status := STATUS_DISABLED\<rparr> else g) rows,
              db_roles := roles, db_role_permissions := rp, db_agent_roles := ar\<rparr>)))))"

definition apply_tenant_state ::
  "sql_db \<Rightarrow> (string \<Rightarrow> nat \<Rightarrow> ident) \<Rightarrow> ident \<Rightarrow> string \<Rightarrow> tenant_state \<Rightarrow>
     (provisioning_error, tenant_state_result \<times> sql_db) result" where
  "apply_tenant_state db new aid slug st =
     (let found = tbl_get tenant_slug (db_tenants db) slug;
          role_rows = sql_assignable_roles db (map_option tenant_id found) (Some aid)
            (set (concat (map dm_roles (ts_members st))));
          perm_rows = active_permissions db (Some aid)
            (Some (set (concat (map da_permissions (ts_agents st))))) in
      if tenant_state_issues st role_rows perm_rows \<noteq> [] then
        Inl (ProvisioningError (tenant_state_issues st role_rows perm_rows))
      else lift_store (
        res_bind (case found of
            Some t \<Rightarrow> Inr (tenant_id t, db)
          | None \<Rightarrow> res_bind (sql_create_tenant db (new ''tenant'' 0) slug (ts_name st) STATUS_ACTIVE)
                     (\<lambda>(t, db'). Inr (tenant_id t, db'))) (\<lambda>(tid, db1).
        res_bind (apply_members new tid aid (ts_members st) role_rows db1) (\<lambda>(members, db2).
        res_bind (apply_agents new tid aid (ts_agents st) perm_rows db2) (\<lambda>(agents, db3).
          Inr (\<lparr>tsr_tenant_id = tid, tsr_members = members, tsr_agents = agents\<rparr>, db3))))))"

section \<open>Tenant role overrides\<close>

definition active_names_of_role :: "sql_db \<Rightarrow> ident \<Rightarrow> string list" where
  "active_names_of_role db rid =
     sort (map perm_name (filter (\<lambda>p. (rid, perm_id p) \<in> db_role_permissions db \<and> perm_active p) (db_permissions db)))"

definition list_tenant_roles :: "sql_db \<Rightarrow> ident \<Rightarrow> ident \<Rightarrow> tenant_role_view list" where
  "list_tenant_roles db tid aid =
     (let overrides = by_name role_name (named_roles db (Some aid) (Some tid)) in
      map (\<lambda>d. \<lparr>trv_name = role_name d,
          trv_source = (case dict_get overrides (role_name d) of Some _ \<Rightarrow> ''tenant'' | None \<Rightarrow> ''application''),
          trv_permissions = (case dict_get overrides (role_name d) of
              Some r \<Rightarrow> active_names_of_role db (role_id r)
            | None \<Rightarrow> active_names_of_role db (role_id d)),
          trv_default_permissions = active_names_of_role db (role_id d)\<rparr>)
        (sort_key role_name (named_roles db (Some aid) None)))"

definition set_tenant_role_override ::
  "sql_db \<Rightarrow> ident \<Rightarrow> ident \<Rightarrow> ident \<Rightarrow> string \<Rightarrow> string set \<Rightarrow> (authz_error, sql_db) result" where
  "set_tenant_role_override db nid tid aid name permissions =
     (let perm_rows = active_permissions db (Some aid) (Some permissions) in
      res_bind (check_names ''permission'' permissions (set (map fst perm_rows))) (\<lambda>_.
      res_bind (case role_by_name db (Some aid) (Some tid) name of
          Some r \<Rightarrow> Inr (role_id r, db)
        | None \<Rightarrow>
            res_bind (tbl_insert role_clash
                \<lparr>role_id = nid, role_name = name, role_scope = TENANT, role_tenant_id = Some tid,
                 role_application_id = Some aid,
                 role_description = (case role_by_name db (Some aid) None name of
                    None \<Rightarrow> None | Some d \<Rightarrow> role_description d),
                 role_is_system = False, role_agent_id = None\<rparr> (db_roles db))
              (\<lambda>rs. Inr (nid, db\<lparr>db_roles := rs\<rparr>))) (\<lambda>(rid, db1).
      res_bind (replace_links (db_role_permissions db1) rid (perm_id ` set (dict_values perm_rows)) None)
        (\<lambda>(_, ls). Inr (db1\<lparr>db_role_permissions := ls\<rparr>)))))"

text \<open>The holders of the override in one link table get the default role, then lose the override.\<close>

definition hand_over :: "ident \<Rightarrow> ident option \<Rightarrow> (ident \<times> ident) set \<Rightarrow> (ident \<times> ident) set" where
  "hand_over override dflt table =
     (let holders = {h. (h, override) \<in> table};
          t1 = (case dflt of
                  None \<Rightarrow> table
                | Some d \<Rightarrow> table \<union> (holders - {h \<in> holders. (h, d) \<in> table}) \<times> {d}) in
      t1 - holders \<times> {override})"

definition delete_tenant_role_override :: "sql_db \<Rightarrow> ident \<Rightarrow> ident \<Rightarrow> string \<Rightarrow> sql_db" where
  "delete_tenant_role_override db tid aid name =
     (case role_by_name db (Some aid) (Some tid) name of
        None \<Rightarrow> db
      | Some override \<Rightarrow>
          (let dflt = map_option role_id (role_by_name db (Some aid) None name) in
           db\<lparr>db_membership_roles := hand_over (role_id override) dflt (db_membership_roles db),
              db_agent_roles := hand_over (role_id override) dflt (db_agent_roles db),
              db_role_permissions := {l \<in> db_role_permissions db. fst l \<noteq> role_id override},
              db_roles := tbl_delete role_id (role_id override) (db_roles db)\<rparr>))"

section \<open>Overrides come and go\<close>

text \<open>An override of a tenant's own does not exist yet, and nothing links the new role's identifier.\<close>

definition override_free :: "sql_db \<Rightarrow> ident \<Rightarrow> ident \<Rightarrow> ident \<Rightarrow> string \<Rightarrow> bool" where
  "override_free db nid tid aid name \<longleftrightarrow>
     role_by_name db (Some aid) (Some tid) name = None \<and> nid \<notin> fst ` db_role_permissions db \<and>
     nid \<notin> snd ` db_membership_roles db \<and> nid \<notin> snd ` db_agent_roles db"

lemma set_override_new:
  assumes "set_tenant_role_override db nid tid aid name permissions = Inr db'"
    and "override_free db nid tid aid name"
  defines "ids \<equiv> perm_id ` set (dict_values (active_permissions db (Some aid) (Some permissions)))"
  obtains r where
    "role_id r = nid" "role_name r = name" "role_tenant_id r = Some tid" "role_application_id r = Some aid"
    "role_agent_id r = None" "nid \<notin> role_id ` set (db_roles db)"
    "db' = db\<lparr>db_roles := db_roles db @ [r], db_role_permissions := db_role_permissions db \<union> {nid} \<times> ids\<rparr>"
    "permissions \<subseteq> set (map fst (active_permissions db (Some aid) (Some permissions)))"
proof -
  let ?r = "\<lparr>role_id = nid, role_name = name, role_scope = TENANT, role_tenant_id = Some tid,
    role_application_id = Some aid, role_description = (case role_by_name db (Some aid) None name of
       None \<Rightarrow> None | Some d \<Rightarrow> role_description d), role_is_system = False, role_agent_id = None\<rparr>"
  have none: "role_by_name db (Some aid) (Some tid) name = None" and nl: "link_set (db_role_permissions db) nid = {}"
    using assms(2) by (force simp: override_free_def link_set_def)+
  have rl: "\<exists>b. replace_links (db_role_permissions db) nid ids None = Inr (b, db_role_permissions db \<union> {nid} \<times> ids)"
    using nl by (auto simp: replace_links_def Let_def link_set_def)
  define found where "found = set (map fst (active_permissions db (Some aid) (Some permissions)))"
  define row where "row = ?r"
  have main: "res_bind (check_names ''permission'' permissions found) (\<lambda>_.
        res_bind (res_bind (tbl_insert role_clash row (db_roles db)) (\<lambda>rs. Inr (nid, db\<lparr>db_roles := rs\<rparr>)))
          (\<lambda>(rid, db1). res_bind (replace_links (db_role_permissions db1) rid ids None)
            (\<lambda>(_, ls). Inr (db1\<lparr>db_role_permissions := ls\<rparr>)))) = Inr db'"
    using assms(1) unfolding set_tenant_role_override_def Let_def none option.case ids_def found_def row_def .
  have c: "check_names ''permission'' permissions found = Inr ()"
    using main by (cases "check_names ''permission'' permissions found") simp_all
  obtain rs where i: "tbl_insert role_clash row (db_roles db) = Inr rs"
    using main c by (cases "tbl_insert role_clash row (db_roles db)") simp_all
  have d: "db' = db\<lparr>db_roles := rs, db_role_permissions := db_role_permissions db \<union> {nid} \<times> ids\<rparr>"
    using main rl unfolding c i by auto
  have rs: "rs = db_roles db @ [row]" "nid \<notin> role_id ` set (db_roles db)"
    using i by (auto simp: tbl_insert_Inr role_clash_def row_def)
  show thesis
    by (rule that [of row]) (use rs c d in \<open>simp_all add: row_def found_def\<close>)
qed

lemma role_by_name_append:
  assumes "role_by_name db aid tid name = None" "role_application_id r = aid" "role_tenant_id r = tid"
    and "role_agent_id r = None" "role_name r = name"
  shows "role_by_name (db\<lparr>db_roles := db_roles db @ [r], db_role_permissions := ls\<rparr>) aid tid name = Some r"
  using assms by (simp add: role_by_name_def named_roles_def find_append_iff)

lemma roundtrip_override:
  assumes "set_tenant_role_override db nid tid aid name permissions = Inr db'"
    and "override_free db nid tid aid name"
  shows "delete_tenant_role_override db' tid aid name = db"
proof (rule set_override_new [OF assms])
  fix r
  let ?ids = "perm_id ` set (dict_values (active_permissions db (Some aid) (Some permissions)))"
  assume r: "role_id r = nid" "role_name r = name" "role_tenant_id r = Some tid" "role_application_id r = Some aid"
    "role_agent_id r = None" and n: "nid \<notin> role_id ` set (db_roles db)"
    and db': "db' = db\<lparr>db_roles := db_roles db @ [r], db_role_permissions := db_role_permissions db \<union> {nid} \<times> ?ids\<rparr>"
  have free: "nid \<notin> fst ` db_role_permissions db" "nid \<notin> snd ` db_membership_roles db" "nid \<notin> snd ` db_agent_roles db"
    and none: "role_by_name db (Some aid) (Some tid) name = None"
    using assms(2) by (simp_all add: override_free_def)
  have o: "role_by_name db' (Some aid) (Some tid) name = Some r"
    unfolding db' by (rule role_by_name_append [OF none r(4,3,5,2)])
  have h: "hand_over nid d table = table" if "nid \<notin> snd ` table" for d table
  proof -
    have "{h. (h, nid) \<in> table} = {}" using that by force
    then show ?thesis by (simp add: hand_over_def split: option.splits)
  qed
  have rp: "{l \<in> db_role_permissions db \<union> {nid} \<times> ?ids. fst l \<noteq> nid} = db_role_permissions db"
    using free(1) by force
  have rs: "tbl_delete role_id nid (db_roles db @ [r]) = db_roles db"
  proof -
    have "\<forall>x \<in> set (db_roles db). role_id x \<noteq> nid" using n by (metis imageI)
    then show ?thesis using r(1) by (simp add: tbl_delete_def)
  qed
  show ?thesis
    unfolding delete_tenant_role_override_def o option.case Let_def r(1)
    using rp rs h [OF free(2)] h [OF free(3)] by (simp add: db')
qed

lemma role_overrides_append:
  "role_overrides (db\<lparr>db_roles := db_roles db @ [r], db_role_permissions := ls\<rparr>) tid names =
     (if role_tenant_id r = Some tid \<and> role_agent_id r = None \<and> role_name r \<in> names
      then dict_set (role_application_id r, role_name r) (role_id r) (role_overrides db tid names)
      else role_overrides db tid names)"
  by (simp add: role_overrides_def)

text \<open>A tenant role override replaces the default role for that tenant only, and deleting it restores
  the database. After the override of a default role is set with some permissions, a holder of the
  default role in the tenant is granted exactly those permissions, the default role counts in every
  other tenant as before, and deleting the override gives the database back as it was.\<close>

theorem tenant_role_override:
  assumes "set_tenant_role_override db nid tid aid name permissions = Inr db'"
    and "override_free db nid tid aid name" "db_ok db"
    and "role_tenant_id d = None" "role_agent_id d = None" "role_application_id d = Some aid" "role_name d = name"
  shows "sql_effective_role_ids db' tid [d] = {nid} \<and>
    perm_name ` set (sql_list_role_permissions db' nid) = permissions \<and>
    (\<forall>p \<in> set (sql_list_role_permissions db' nid). perm_active p \<and> perm_application_id p = Some aid) \<and>
    (t \<noteq> tid \<longrightarrow> sql_effective_role_ids db' t [d] = sql_effective_role_ids db t [d]) \<and>
    delete_tenant_role_override db' tid aid name = db"
proof (intro conjI impI)
  let ?ps = "filter (\<lambda>p. perm_application_id p = Some aid \<and> perm_active p \<and> perm_name p \<in> permissions) (db_permissions db)"
  have u: "unique_col perm_name (db_permissions db)" "unique_col perm_id (db_permissions db)"
    using assms(3) by (simp_all add: db_ok_def)
  note f = found_by_name [OF u(1), of "Some aid" permissions]
  obtain r where r: "role_id r = nid" "role_name r = name" "role_tenant_id r = Some tid"
      "role_application_id r = Some aid" "role_agent_id r = None"
    and db': "db' = db\<lparr>db_roles := db_roles db @ [r],
        db_role_permissions := db_role_permissions db \<union> {nid} \<times> perm_id ` set ?ps\<rparr>"
    and c: "permissions \<subseteq> perm_name ` set ?ps"
    by (rule set_override_new [OF assms(1,2), unfolded f]) (rule that; assumption)
  show "sql_effective_role_ids db' tid [d] = {nid}"
    using assms(4-7) r
    by (simp add: sql_effective_role_ids_def db' role_overrides_append dict_get_default_def Let_def)
  show "sql_effective_role_ids db' t [d] = sql_effective_role_ids db t [d]" if "t \<noteq> tid"
    using that assms(4-7) r by (simp add: sql_effective_role_ids_def db' role_overrides_append Let_def)
  have "nid \<notin> fst ` db_role_permissions db" using assms(2) by (simp add: override_free_def)
  then have "(nid, x) \<notin> db_role_permissions db" for x by force
  then have "set (sql_list_role_permissions db' nid) = {p \<in> set (db_permissions db). perm_id p \<in> perm_id ` set ?ps}"
    by (auto simp: sql_list_role_permissions_def db')
  also have "\<dots> = set ?ps" by (auto dest: unique_col_eq [OF u(2)])
  finally have l: "set (sql_list_role_permissions db' nid) = set ?ps" .
  show "perm_name ` set (sql_list_role_permissions db' nid) = permissions" unfolding l using c by auto
  show "\<forall>p \<in> set (sql_list_role_permissions db' nid). perm_active p \<and> perm_application_id p = Some aid"
    unfolding l by simp
  show "delete_tenant_role_override db' tid aid name = db" by (rule roundtrip_override [OF assms(1,2)])
qed

theorem tenant_role_override_witness:
  "\<exists>db'. set_tenant_role_override sample_db ''o'' ''t'' ''a'' ''reader'' {} = Inr db' \<and>
     sql_effective_role_ids db' ''t'' [sample_role] = {''o''} \<and>
     perm_name ` set (sql_list_role_permissions db' ''o'') = {} \<and>
     sql_effective_role_ids db' ''t2'' [sample_role] = {''r''} \<and>
     delete_tenant_role_override db' ''t'' ''a'' ''reader'' = sample_db"
proof -
  have free: "override_free sample_db ''o'' ''t'' ''a'' ''reader''"
    by (simp add: override_free_def role_by_name_def named_roles_def sample_db_def sample_role_def empty_db_def)
  obtain db' where d: "set_tenant_role_override sample_db ''o'' ''t'' ''a'' ''reader'' {} = Inr db'"
    by (simp add: set_tenant_role_override_def role_by_name_def named_roles_def sample_db_def sample_role_def
        empty_db_def active_permissions_def check_names_def tbl_insert_def role_clash_def replace_links_def
        link_set_def dict_values_def Let_def)
  have ok: "db_ok sample_db" using reachable_represented [OF sample_db_reachable] by blast
  have s: "role_tenant_id sample_role = None" "role_agent_id sample_role = None"
    "role_application_id sample_role = Some ''a''" "role_name sample_role = ''reader''"
    by (simp_all add: sample_role_def)
  note th = tenant_role_override [OF d free ok s]
  have "sql_effective_role_ids sample_db ''t2'' [sample_role] = {''r''}"
    by (simp add: sql_effective_role_ids_def role_overrides_def sample_db_def sample_role_def empty_db_def
        dict_get_default_def Let_def)
  then show ?thesis using d th [of "''t2''"] by simp
qed

end
