(* ===== verification/References.thy ===== *)
theory References
  imports Callers Provisioning
begin

text \<open>
  How a request names things and who may write them: the shared schemas of
  \<^verbatim>\<open>authzkit/service/schemas.py\<close>, the reference resolution of \<^verbatim>\<open>authz_service/references.py\<close> and the
  management guard of \<^verbatim>\<open>authz_service/management.py\<close>.
\<close>

section \<open>Request bodies\<close>

text \<open>\<^verbatim>\<open>one_form\<close>: a \<^verbatim>\<open>ValueError\<close> of a model validator, which the framework answers with status 422.\<close>

definition one_form :: "'a option \<Rightarrow> 'b option \<Rightarrow> bool \<Rightarrow> (http_error, unit) result" where
  "one_form a b required =
     (if a \<noteq> None \<and> b \<noteq> None then Inl (HTTPException 422 ''value_error'')
      else if required \<and> a = None \<and> b = None then Inl (HTTPException 422 ''value_error'')
      else Inr ())"

text \<open>The three fields of a \<^verbatim>\<open>UserRefSchema\<close> are not empty.\<close>

definition user_ref_valid :: "user_ref option \<Rightarrow> (http_error, unit) result" where
  "user_ref_valid r =
     (case r of
        None \<Rightarrow> Inr ()
      | Some (p, i, s) \<Rightarrow>
          if p = '''' \<or> i = '''' \<or> s = '''' then Inl (HTTPException 422 ''string_too_short'') else Inr ())"

record subject_schema =
  ss_type :: string
  ss_user_id :: "ident option"
  ss_user_ref :: "user_ref option"
  ss_agent_id :: "ident option"
  ss_agent_name :: "string option"
  ss_service_account_id :: "ident option"

definition subject_valid :: "subject_schema \<Rightarrow> (http_error, unit) result" where
  "subject_valid s =
     res_bind (user_ref_valid (ss_user_ref s)) (\<lambda>_.
     res_bind (one_form (ss_user_id s) (ss_user_ref s) False) (\<lambda>_.
     one_form (ss_agent_id s) (ss_agent_name s) False))"

section \<open>References\<close>

definition find_user_id :: "sql_db \<Rightarrow> user_ref \<Rightarrow> ident option" where
  "find_user_id db r =
     (case r of (p, i, s) \<Rightarrow> map_option user_id (sql_find_user_by_external_identity db p i s))"

definition find_agent_id :: "sql_db \<Rightarrow> ident \<Rightarrow> ident \<Rightarrow> string \<Rightarrow> ident option" where
  "find_agent_id db tid aid name = map_option agent_id (sql_find_agent_by_name db tid aid name)"

definition resolve_decision_refs ::
  "sql_db \<Rightarrow> string \<Rightarrow> string \<Rightarrow> subject_schema \<Rightarrow> resolved_references \<times> subject_schema" where
  "resolve_decision_refs db tref aref s =
     (let refs = resolve_references db tref aref (ss_user_id s) (ss_user_ref s) (ss_agent_id s)
            (ss_agent_name s) in
      (refs, s\<lparr>ss_user_id := ref_user_id refs, ss_agent_id := ref_agent_id refs,
              ss_user_ref := None, ss_agent_name := None\<rparr>))"

definition require_tenant :: "sql_db \<Rightarrow> string \<Rightarrow> (http_error, tenant) result" where
  "require_tenant db ref =
     (case sql_find_tenant db ref of
        None \<Rightarrow> Inl (HTTPException 404 ''tenant_not_found'') | Some t \<Rightarrow> Inr t)"

definition require_bound_tenant :: "sql_db \<Rightarrow> string \<Rightarrow> principal \<Rightarrow> (http_error, tenant) result" where
  "require_bound_tenant db ref p =
     (let found = sql_find_tenant db ref in
      res_bind (enforce_tenant_scope_binding p (case found of None \<Rightarrow> ref | Some t \<Rightarrow> tenant_id t)) (\<lambda>_.
      case found of None \<Rightarrow> Inl (HTTPException 404 ''tenant_not_found'') | Some t \<Rightarrow> Inr t))"

definition require_application :: "sql_db \<Rightarrow> string \<Rightarrow> (http_error, application) result" where
  "require_application db ref =
     (case sql_find_application db ref of
        None \<Rightarrow> Inl (HTTPException 404 ''application_not_found'') | Some a \<Rightarrow> Inr a)"

definition require_user_id :: "sql_db \<Rightarrow> user_ref \<Rightarrow> (http_error, ident) result" where
  "require_user_id db r =
     (case find_user_id db r of
        None \<Rightarrow> Inl (HTTPException 404 ''user_not_found'') | Some u \<Rightarrow> Inr u)"

definition require_agent_id :: "sql_db \<Rightarrow> ident \<Rightarrow> ident \<Rightarrow> string \<Rightarrow> (http_error, ident) result" where
  "require_agent_id db tid aid name =
     (case find_agent_id db tid aid name of
        None \<Rightarrow> Inl (HTTPException 404 ''agent_not_found'') | Some g \<Rightarrow> Inr g)"

section \<open>Management of applications\<close>

definition caller_label :: "principal \<Rightarrow> settings \<Rightarrow> string" where
  "caller_label p st =
     (case p of
        KeyPrincipal k \<Rightarrow> ''apikey:'' @ akr_id k
      | Session s \<Rightarrow> ''session:'' @ sp_subject s
      | Token t \<Rightarrow>
          (let client = (case tp_client_id t of None \<Rightarrow> '''' | Some c \<Rightarrow> c) in
           if client \<noteq> '''' \<and> cfg_oauth_issuer st \<noteq> '''' \<and> tp_issuer t = cfg_oauth_issuer st
           then ''client:'' @ client
           else ''token:'' @ tp_issuer t @ ''#'' @ (if client \<noteq> '''' then client else tp_subject t)))"

record management_guard =
  mg_store :: sql_db
  mg_caller :: string

definition management_guard_init :: "principal \<Rightarrow> sql_db \<Rightarrow> settings \<Rightarrow> (http_error, management_guard) result" where
  "management_guard_init p db st =
     res_bind (require_admin p) (\<lambda>p'. Inr \<lparr>mg_store = db, mg_caller = caller_label p' st\<rparr>)"

definition guard_check :: "management_guard \<Rightarrow> application \<Rightarrow> (http_error, application) result" where
  "guard_check g app =
     (case app_managed_by app of
        None \<Rightarrow> Inr app
      | Some m \<Rightarrow> if m \<noteq> mg_caller g then Inl (HTTPException 403 ''application_managed_externally'') else Inr app)"

definition guard_application :: "management_guard \<Rightarrow> string \<Rightarrow> (http_error, application) result" where
  "guard_application g ref = res_bind (require_application (mg_store g) ref) (guard_check g)"

definition guard_application_id :: "management_guard \<Rightarrow> ident option \<Rightarrow> (http_error, unit) result" where
  "guard_application_id g aid =
     (case aid of
        None \<Rightarrow> Inr ()
      | Some a \<Rightarrow>
          if a = '''' then Inr ()
          else (case sql_get_application (mg_store g) a of
                  None \<Rightarrow> Inr ()
                | Some app \<Rightarrow> res_bind (guard_check g app) (\<lambda>_. Inr ())))"

definition guard_manager_only :: "management_guard \<Rightarrow> string \<Rightarrow> (http_error, application) result" where
  "guard_manager_only g ref =
     res_bind (require_application (mg_store g) ref) (\<lambda>app.
       if app_managed_by app = None then Inl (HTTPException 403 ''application_not_managed'')
       else guard_check g app)"

definition managed_application :: "management_guard \<Rightarrow> string \<Rightarrow> (http_error, application) result" where
  "managed_application g ref = guard_application g ref"

definition manager_application :: "management_guard \<Rightarrow> string \<Rightarrow> (http_error, application) result" where
  "manager_application g ref = guard_manager_only g ref"

definition catalog_application :: "management_guard \<Rightarrow> string \<Rightarrow> (http_error, application option) result" where
  "catalog_application g ref =
     (case sql_find_application (mg_store g) ref of
        None \<Rightarrow> Inr None
      | Some app \<Rightarrow> res_bind (guard_check g app) (\<lambda>a. Inr (Some a)))"

definition managed_role :: "management_guard \<Rightarrow> ident \<Rightarrow> (http_error, role) result" where
  "managed_role g rid =
     (case sql_get_role (mg_store g) rid of
        None \<Rightarrow> Inl (HTTPException 404 ''role_not_found'')
      | Some r \<Rightarrow> res_bind (guard_application_id g (role_application_id r)) (\<lambda>_. Inr r))"

definition managed_agent :: "management_guard \<Rightarrow> ident \<Rightarrow> (http_error, agent) result" where
  "managed_agent g gid =
     (case sql_get_agent_by_id (mg_store g) gid of
        None \<Rightarrow> Inl (HTTPException 404 ''agent_not_found'')
      | Some a \<Rightarrow> res_bind (guard_application_id g (Some (agent_application_id a))) (\<lambda>_. Inr a))"

definition managed_membership :: "management_guard \<Rightarrow> ident \<Rightarrow> (http_error, membership) result" where
  "managed_membership g mid =
     (case sql_get_membership_by_id (mg_store g) mid of
        None \<Rightarrow> Inl (HTTPException 404 ''membership_not_found'')
      | Some m \<Rightarrow> res_bind (guard_application_id g (mem_application_id m)) (\<lambda>_. Inr m))"

section \<open>Lemmas\<close>

lemma by_id_or_slug_mem: "by_id_or_slug rid slug rows ref = Some r \<Longrightarrow> r \<in> set rows"
  by (auto simp: by_id_or_slug_def Let_def split: option.splits list.splits
      dest!: find_Some_set simp: filter_eq_Cons_iff)

lemma find_application_by_id:
  assumes "unique_col app_id (db_applications db)" and "sql_find_application db ref = Some app"
  shows "sql_get_application db (app_id app) = Some app"
  unfolding sql_get_application_def
  by (rule tbl_get_unique [OF assms(1) by_id_or_slug_mem]) (use assms(2) in \<open>simp add: sql_find_application_def\<close>)

lemma management_guard_init_Inr:
  "management_guard_init p db st = Inr g \<Longrightarrow>
     mg_store g = db \<and> mg_caller g = caller_label p st \<and> principal_allows p SCOPE_ADMIN None"
  by (auto simp: management_guard_init_def require_admin_def require_surface_def res_bind_eq_Inr
      split: if_splits)

lemma guard_application_id_refused:
  assumes "sql_get_application (mg_store g) a = Some app" "app_managed_by app = Some m" "mg_caller g \<noteq> m" "a \<noteq> ''''"
  shows "guard_application_id g (Some a) = Inl (HTTPException 403 ''application_managed_externally'')"
  using assms by (auto simp: guard_application_id_def guard_check_def)

lemma caller_label_client:
  "caller_label p st = ''client:'' @ c \<Longrightarrow>
     \<exists>t. p = Token t \<and> tp_client_id t = Some c \<and> tp_issuer t = cfg_oauth_issuer st \<and> c \<noteq> ''''"
  by (auto simp: caller_label_def Let_def split: principal.splits option.splits if_splits)

lemma caller_label_key: "caller_label p st = ''apikey:'' @ k \<longleftrightarrow> (\<exists>r. p = KeyPrincipal r \<and> akr_id r = k)"
  by (auto simp: caller_label_def Let_def split: principal.splits option.splits)

lemma caller_label_session: "caller_label p st = ''session:'' @ k \<longleftrightarrow> (\<exists>s. p = Session s \<and> sp_subject s = k)"
  by (auto simp: caller_label_def Let_def split: principal.splits option.splits)

section \<open>Properties\<close>

text \<open>C18: a managed application is written only by its manager. For an application managed by \<open>m\<close>, every
  dependency that hands an admin caller the application, or one of its roles, agents or memberships, for
  writing is refused with \<^verbatim>\<open>application_managed_externally\<close> unless the caller's label is \<open>m\<close>, and its manager
  gets it. The label names one caller: a label of an API key is that key's, one of a session that
  subject's, and one of a client belongs to tokens the service issued itself for that client, so no
  token of another issuer can have it.\<close>

theorem management_exclusive:
  assumes "management_guard_init p db st = Inr g"
    and "unique_col app_id (db_applications db)"
    and "sql_find_application db ref = Some app" and "app_managed_by app = Some m" and "app_id app \<noteq> ''''"
  shows "(caller_label p st = m \<longrightarrow>
            managed_application g ref = Inr app \<and> manager_application g ref = Inr app \<and>
            catalog_application g ref = Inr (Some app)) \<and>
         (caller_label p st \<noteq> m \<longrightarrow>
            (let refused = HTTPException 403 ''application_managed_externally'' in
             managed_application g ref = Inl refused \<and> manager_application g ref = Inl refused \<and>
             catalog_application g ref = Inl refused \<and>
             (\<forall>i r. sql_get_role db i = Some r \<longrightarrow> role_application_id r = Some (app_id app) \<longrightarrow>
                managed_role g i = Inl refused) \<and>
             (\<forall>i a. sql_get_agent_by_id db i = Some a \<longrightarrow> agent_application_id a = app_id app \<longrightarrow>
                managed_agent g i = Inl refused) \<and>
             (\<forall>i x. sql_get_membership_by_id db i = Some x \<longrightarrow> mem_application_id x = Some (app_id app) \<longrightarrow>
                managed_membership g i = Inl refused))) \<and>
         (\<forall>k. m = ''apikey:'' @ k \<longrightarrow> caller_label p st = m \<longrightarrow> (\<exists>r. p = KeyPrincipal r \<and> akr_id r = k)) \<and>
         (\<forall>k. m = ''session:'' @ k \<longrightarrow> caller_label p st = m \<longrightarrow> (\<exists>s. p = Session s \<and> sp_subject s = k)) \<and>
         (\<forall>c. m = ''client:'' @ c \<longrightarrow> caller_label p st = m \<longrightarrow>
            (\<exists>t. p = Token t \<and> tp_client_id t = Some c \<and> tp_issuer t = cfg_oauth_issuer st))"
proof -
  have g: "mg_store g = db" "mg_caller g = caller_label p st"
    using management_guard_init_Inr [OF assms(1)] by blast+
  have id: "sql_get_application db (app_id app) = Some app" by (rule find_application_by_id [OF assms(2, 3)])
  have 1: "managed_application g ref = Inr app \<and> manager_application g ref = Inr app \<and>
      catalog_application g ref = Inr (Some app)" if "caller_label p st = m"
    using that assms(3, 4) g
    by (simp add: managed_application_def guard_application_def manager_application_def guard_manager_only_def
        catalog_application_def require_application_def guard_check_def)
  have 2: "managed_application g ref = Inl (HTTPException 403 ''application_managed_externally'') \<and>
      manager_application g ref = Inl (HTTPException 403 ''application_managed_externally'') \<and>
      catalog_application g ref = Inl (HTTPException 403 ''application_managed_externally'')"
    if "caller_label p st \<noteq> m"
    using that assms(3, 4) g
    by (simp add: managed_application_def guard_application_def manager_application_def guard_manager_only_def
        catalog_application_def require_application_def guard_check_def)
  have 3: "guard_application_id g (Some (app_id app)) =
      Inl (HTTPException 403 ''application_managed_externally'')" if "caller_label p st \<noteq> m"
    by (rule guard_application_id_refused) (use that assms(4, 5) g id in auto)
  have 4: "managed_role g i = Inl (HTTPException 403 ''application_managed_externally'')"
    if "caller_label p st \<noteq> m" "sql_get_role db i = Some r" "role_application_id r = Some (app_id app)" for i r
    using 3 [OF that(1)] that(2, 3) by (simp add: managed_role_def g)
  have 5: "managed_agent g i = Inl (HTTPException 403 ''application_managed_externally'')"
    if "caller_label p st \<noteq> m" "sql_get_agent_by_id db i = Some a" "agent_application_id a = app_id app" for i a
    using 3 [OF that(1)] that(2, 3) by (simp add: managed_agent_def g)
  have 6: "managed_membership g i = Inl (HTTPException 403 ''application_managed_externally'')"
    if "caller_label p st \<noteq> m" "sql_get_membership_by_id db i = Some x" "mem_application_id x = Some (app_id app)"
    for i x
    using 3 [OF that(1)] that(2, 3) by (simp add: managed_membership_def g)
  have 7: "\<exists>t. p = Token t \<and> tp_client_id t = Some c \<and> tp_issuer t = cfg_oauth_issuer st"
    if "m = ''client:'' @ c" "caller_label p st = m" for c
    using caller_label_client [of p st c] that by blast
  show ?thesis
    unfolding Let_def
    using 1 2 4 5 6 7 caller_label_key [of p st] caller_label_session [of p st] by blast
qed

definition managed_db :: sql_db where
  "managed_db = sample_db\<lparr>
     db_tenants := [\<lparr>tenant_id = ''t'', tenant_slug = ''acme'', tenant_name = ''Acme'', tenant_status = ''active''\<rparr>],
     db_applications := [\<lparr>app_id = ''a'', app_slug = ''docs'', app_name = ''Docs'', app_status = ''active'',
       app_managed_by = Some ''client:docs''\<rparr>]\<rparr>"

definition sample_admin :: principal where
  "sample_admin = Session \<lparr>sp_subject = ''root'', sp_email = None, sp_scopes = [''admin''], sp_session_id = ''1'',
     sp_csrf_token = ''c'', sp_issuer = None\<rparr>"

theorem management_exclusive_witness:
  "\<exists>st g. load_settings [] = Inr st \<and> management_guard_init sample_admin managed_db st = Inr g \<and>
     managed_application g ''docs'' = Inl (HTTPException 403 ''application_managed_externally'') \<and>
     managed_role g ''r'' = Inl (HTTPException 403 ''application_managed_externally'')"
proof -
  obtain st where st: "load_settings [] = Inr st" using load_defaults by blast
  have p: "principal_allows sample_admin SCOPE_ADMIN None"
    by (simp add: sample_admin_def principal_allows_def scope_allows_def SCOPE_ADMIN_def)
  then obtain g where g: "management_guard_init sample_admin managed_db st = Inr g"
    by (simp add: management_guard_init_def require_admin_def require_surface_def)
  let ?app = "\<lparr>app_id = ''a'', app_slug = ''docs'', app_name = ''Docs'', app_status = ''active'',
    app_managed_by = Some ''client:docs''\<rparr>"
  have u: "unique_col app_id (db_applications managed_db)" by (simp add: managed_db_def unique_col_def)
  have f: "sql_find_application managed_db ''docs'' = Some ?app"
    by (simp add: sql_find_application_def by_id_or_slug_def managed_db_def)
  have l: "caller_label sample_admin st \<noteq> ''client:docs''" by (simp add: caller_label_def sample_admin_def)
  have r: "sql_get_role managed_db ''r'' = Some sample_role" "role_application_id sample_role = Some (app_id ?app)"
    by (simp_all add: sql_get_role_def tbl_get_def managed_db_def sample_db_def sample_role_def)
  from management_exclusive [OF g u f, of "''client:docs''"] l r show ?thesis
    using st g by (auto simp: Let_def)
qed

end
