(* ===== verification/Decisions_Api.thy ===== *)
theory Decisions_Api
  imports References
begin

text \<open>
  The decision endpoints of \<^verbatim>\<open>authz_service/api/authorize.py\<close> and the check of an optional delegation
  token they share (\<^verbatim>\<open>apply_delegation\<close> of \<^verbatim>\<open>authz_service/api/delegations.py\<close>). An endpoint is the
  composition the framework runs: the caller is authenticated and needs the runtime surface, then the
  body is validated, then the handler runs over the database and the delegation service.
\<close>

section \<open>Routes\<close>

definition http_of_error :: "authz_error \<Rightarrow> http_error" where
  "http_of_error e =
     (case e of UnknownNamesError kind names \<Rightarrow> HTTPException 422 (''unknown_'' @ kind) | _ \<Rightarrow> InternalError)"

text \<open>A route of the runtime surface (\<^verbatim>\<open>Depends(require_runtime)\<close>) and one of the admin surface.\<close>

definition surface_route ::
  "(principal \<Rightarrow> (http_error, principal) result) \<Rightarrow> ('key, 'net) auth_env \<Rightarrow> settings \<Rightarrow> instant \<Rightarrow> http_request \<Rightarrow>
     (http_error, unit) result \<Rightarrow> (principal \<Rightarrow> 's \<Rightarrow> (http_error, 'a \<times> 's) result) \<Rightarrow> 'net auth_state \<times> 's \<Rightarrow>
     (http_error, 'a) result \<times> 'net auth_state \<times> 's" where
  "surface_route require env st now rq valid handler w =
     (case w of (au, s) \<Rightarrow>
        (case require_caller env st now rq au of (r, au') \<Rightarrow>
           (case res_bind r require of
              Inl e \<Rightarrow> (Inl e, au', s)
            | Inr p \<Rightarrow>
                (case res_bind valid (\<lambda>_. handler p s) of
                   Inl e \<Rightarrow> (Inl e, au', s)
                 | Inr (x, s') \<Rightarrow> (Inr x, au', s')))))"

section \<open>Delegation tokens on a decision\<close>

record delegation_outcome =
  do_permissions :: "string set option"
  do_grant_id :: "ident option"
  do_deny_reason :: "string option"
  do_subject :: subject_schema

definition or_else :: "ident option \<Rightarrow> ident \<Rightarrow> ident option" where
  "or_else v w = (case v of None \<Rightarrow> Some w | Some x \<Rightarrow> if x = '''' then Some w else Some x)"

definition fill_subject :: "subject_schema \<Rightarrow> delegation_grant \<Rightarrow> subject_schema" where
  "fill_subject s g =
     s\<lparr>ss_user_id := or_else (ss_user_id s) (gr_user_id g),
       ss_agent_id := or_else (ss_agent_id s) (gr_agent_id g)\<rparr>"

definition apply_delegation ::
  "('key, 'net) auth_env \<Rightarrow> settings \<Rightarrow> instant \<Rightarrow> delegation_service \<Rightarrow> string option \<Rightarrow> ident \<Rightarrow> ident \<Rightarrow>
     subject_schema \<Rightarrow> (http_error, delegation_outcome) result" where
  "apply_delegation env st now ds token tid aid s =
     (if token = None \<or> token = Some '''' then
        Inr \<lparr>do_permissions = None, do_grant_id = None,
             do_deny_reason = (if cfg_delegation_required st \<and> ss_type s = SUBJECT_AGENT
               then Some (reason_code REASON_REQUIRED) else None),
             do_subject = s\<rparr>
      else
        (case delegation_verify (ae_repr env) (ae_lib env) (ae_hash env) (ae_rsa env) now ds (the token) of
           Inl (DelegationError reason) \<Rightarrow>
             Inr \<lparr>do_permissions = None, do_grant_id = None, do_deny_reason = Some (reason_code reason),
                  do_subject = s\<rparr>
         | Inl _ \<Rightarrow> Inl InternalError
         | Inr g \<Rightarrow>
             if ss_type s \<noteq> SUBJECT_AGENT then
               Inr \<lparr>do_permissions = None, do_grant_id = Some (gr_id g),
                    do_deny_reason = Some (reason_code REASON_MISMATCH), do_subject = s\<rparr>
             else
               (let filled = fill_subject s g in
                if tid \<noteq> gr_tenant_id g \<or> aid \<noteq> gr_application_id g \<or>
                   ss_user_id filled \<noteq> Some (gr_user_id g) \<or> ss_agent_id filled \<noteq> Some (gr_agent_id g)
                then Inr \<lparr>do_permissions = None, do_grant_id = Some (gr_id g),
                          do_deny_reason = Some (reason_code REASON_MISMATCH), do_subject = filled\<rparr>
                else Inr \<lparr>do_permissions = Some (gr_permissions g), do_grant_id = Some (gr_id g),
                          do_deny_reason = None, do_subject = filled\<rparr>)))"

definition delegation_deny :: "resolved_references \<Rightarrow> delegation_outcome \<Rightarrow> string option" where
  "delegation_deny refs d = (if refs_complete refs then do_deny_reason d else None)"

definition to_subject :: "subject_schema \<Rightarrow> subject" where
  "to_subject s =
     \<lparr>subj_type = ss_type s, subj_user_id = ss_user_id s, subj_agent_id = ss_agent_id s,
      subj_service_account_id = ss_service_account_id s\<rparr>"

section \<open>Audit\<close>

text \<open>\<^verbatim>\<open>AuditSink.write\<close>: denials always, the rest when all decisions are audited. \<open>nid\<close> is the row's
  generated id.\<close>

definition audit_sink_write ::
  "settings \<Rightarrow> ident \<Rightarrow> instant \<Rightarrow> audit_entry \<Rightarrow> string option \<Rightarrow> sql_db \<Rightarrow> (http_error, sql_db) result" where
  "audit_sink_write st nid now entry request_id db =
     (if ae_decision entry \<noteq> ''allow'' \<or> cfg_audit_all_decisions st
      then map_sum http_of_error id (write_audit db nid now entry request_id)
      else Inr db)"

definition opt_val :: "string option \<Rightarrow> pyval" where
  "opt_val v = (case v of None \<Rightarrow> PNone | Some s \<Rightarrow> PStr s)"

definition subject_dump :: "subject_schema \<Rightarrow> pyval" where
  "subject_dump s = PDict
     [(''type'', PStr (ss_type s)), (''user_id'', opt_val (ss_user_id s)),
      (''user_ref'', case ss_user_ref s of None \<Rightarrow> PNone
         | Some (p, i, sb) \<Rightarrow> PDict [(''provider'', PStr p), (''issuer'', PStr i), (''subject'', PStr sb)]),
      (''agent_id'', opt_val (ss_agent_id s)), (''agent_name'', opt_val (ss_agent_name s)),
      (''service_account_id'', opt_val (ss_service_account_id s))]"

definition audit_payload :: "pydict \<Rightarrow> ident option \<Rightarrow> pydict" where
  "audit_payload dump grant_id =
     (case grant_id of None \<Rightarrow> dump | Some g \<Rightarrow> dict_set ''delegation_id'' (PStr g) dump)"

section \<open>POST /v1/authorize\<close>

record authorize_body =
  ab_tenant_id :: string
  ab_application_id :: string
  ab_subject :: subject_schema
  ab_resource :: string
  ab_action :: string
  ab_context :: pydict

record authorize_response =
  rsp_allowed :: bool
  rsp_decision :: string
  rsp_reason :: string
  rsp_required :: string
  rsp_matched :: "string list"

definition authorize_dump :: "authorize_body \<Rightarrow> pydict" where
  "authorize_dump b =
     [(''tenant_id'', PStr (ab_tenant_id b)), (''application_id'', PStr (ab_application_id b)),
      (''subject'', subject_dump (ab_subject b)), (''resource'', PStr (ab_resource b)),
      (''action'', PStr (ab_action b)), (''context'', PDict (ab_context b))]"

definition response_of :: "authorize_decision \<Rightarrow> authorize_response" where
  "response_of d =
     \<lparr>rsp_allowed = dec_allowed d, rsp_decision = dec_decision d, rsp_reason = dec_reason d,
      rsp_required = dec_required d, rsp_matched = sorted_list_of_set (dec_matched d)\<rparr>"

definition response_dump :: "authorize_response \<Rightarrow> pydict" where
  "response_dump r =
     [(''allowed'', PBool (rsp_allowed r)), (''decision'', PStr (rsp_decision r)),
      (''reason'', PStr (rsp_reason r)), (''required_permission'', PStr (rsp_required r)),
      (''matched_permissions'', PList (map PStr (rsp_matched r)))]"

text \<open>\<^verbatim>\<open>get_authorization_engine\<close> builds the engine over the store with no attribute rules.\<close>

definition no_rules :: policy_engine where
  "no_rules = \<lparr>pe_rules = [], pe_attr = (\<lambda>_ _. PNone)\<rparr>"

definition authorize_handler ::
  "('key, 'net) auth_env \<Rightarrow> settings \<Rightarrow> instant \<Rightarrow> ident \<Rightarrow> string \<Rightarrow> string option \<Rightarrow> string option \<Rightarrow>
     authorize_body \<Rightarrow> delegation_service \<Rightarrow> principal \<Rightarrow> sql_db \<Rightarrow>
     (http_error, authorize_response \<times> sql_db) result" where
  "authorize_handler env st now nid uuid request_id token b ds p db =
     (case resolve_decision_refs db (ab_tenant_id b) (ab_application_id b) (ab_subject b) of
        (refs, s) \<Rightarrow>
          res_bind (enforce_tenant_scope_binding p (ref_tenant_id refs)) (\<lambda>_.
          res_bind (apply_delegation env st now ds token (ref_tenant_id refs) (ref_application_id refs) s) (\<lambda>dl.
          res_bind
            (case delegation_deny refs dl of
               Some reason \<Rightarrow> Inr (deny reason (join_dot (ab_resource b) (ab_action b)))
             | None \<Rightarrow> map_sum http_of_error id (authorize (sql_repository db) no_rules
                 \<lparr>req_tenant_id = ref_tenant_id refs, req_application_id = ref_application_id refs,
                  req_subject = to_subject (do_subject dl), req_resource = ab_resource b,
                  req_action = ab_action b, req_context = ab_context b,
                  req_delegated = do_permissions dl, req_references = Some refs\<rparr>)) (\<lambda>d.
          res_bind (audit_sink_write st nid now
              \<lparr>ae_decision = dec_decision d, ae_reason = dec_reason d, ae_resource = ab_resource b,
               ae_action = ab_action b, ae_tenant_id = Some (ref_tenant_id refs),
               ae_application_id = Some (ref_application_id refs),
               ae_user_id = ss_user_id (do_subject dl), ae_agent_id = ss_agent_id (do_subject dl),
               ae_request = audit_payload (authorize_dump b) (do_grant_id dl),
               ae_response = response_dump (response_of d),
               ae_request_id = or_else request_id uuid, ae_created_at = now\<rparr> request_id db) (\<lambda>db'.
          Inr (response_of d, db'))))))"

definition authorize_endpoint ::
  "('key, 'net) auth_env \<Rightarrow> settings \<Rightarrow> instant \<Rightarrow> ident \<Rightarrow> string \<Rightarrow> http_request \<Rightarrow> authorize_body \<Rightarrow>
     delegation_service \<Rightarrow> 'net auth_state \<times> sql_db \<Rightarrow>
     (http_error, authorize_response) result \<times> 'net auth_state \<times> sql_db" where
  "authorize_endpoint env st now nid uuid rq b ds =
     surface_route require_runtime env st now rq (subject_valid (ab_subject b))
       (authorize_handler env st now nid uuid (dict_get (rq_headers rq) ''X-Request-Id'')
          (dict_get (rq_headers rq) ''X-Delegation-Token'') b ds)"

section \<open>POST /v1/bulk-authorize\<close>

record bulk_body =
  bb_tenant_id :: string
  bb_application_id :: string
  bb_subject :: subject_schema
  bb_checks :: "(string \<times> string) list"
  bb_context :: pydict

record bulk_result =
  br_resource :: string
  br_action :: string
  br_allowed :: bool
  br_reason :: string

definition bulk_dump :: "bulk_body \<Rightarrow> pydict" where
  "bulk_dump b =
     [(''tenant_id'', PStr (bb_tenant_id b)), (''application_id'', PStr (bb_application_id b)),
      (''subject'', subject_dump (bb_subject b)),
      (''checks'', PList (map (\<lambda>(r, a). PDict [(''resource'', PStr r), (''action'', PStr a)]) (bb_checks b))),
      (''context'', PDict (bb_context b))]"

definition bulk_result_of :: "string \<times> string \<Rightarrow> authorize_decision \<Rightarrow> bulk_result" where
  "bulk_result_of c d =
     \<lparr>br_resource = fst c, br_action = snd c, br_allowed = dec_allowed d, br_reason = dec_reason d\<rparr>"

definition bulk_result_dump :: "bulk_result \<Rightarrow> pydict" where
  "bulk_result_dump r =
     [(''resource'', PStr (br_resource r)), (''action'', PStr (br_action r)),
      (''allowed'', PBool (br_allowed r)), (''reason'', PStr (br_reason r))]"

definition bulk_authorize_handler ::
  "('key, 'net) auth_env \<Rightarrow> settings \<Rightarrow> instant \<Rightarrow> (nat \<Rightarrow> ident) \<Rightarrow> string option \<Rightarrow> string option \<Rightarrow>
     bulk_body \<Rightarrow> delegation_service \<Rightarrow> principal \<Rightarrow> sql_db \<Rightarrow>
     (http_error, bulk_result list \<times> sql_db) result" where
  "bulk_authorize_handler env st now new request_id token b ds p db =
     (case resolve_decision_refs db (bb_tenant_id b) (bb_application_id b) (bb_subject b) of
        (refs, s) \<Rightarrow>
          res_bind (enforce_tenant_scope_binding p (ref_tenant_id refs)) (\<lambda>_.
          res_bind (apply_delegation env st now ds token (ref_tenant_id refs) (ref_application_id refs) s) (\<lambda>dl.
          res_bind
            (case delegation_deny refs dl of
               Some reason \<Rightarrow> Inr (map (\<lambda>(r, a). deny reason (join_dot r a)) (bb_checks b))
             | None \<Rightarrow> map_sum http_of_error id (bulk_authorize (sql_repository db) no_rules
                 \<lparr>bulk_tenant_id = ref_tenant_id refs, bulk_application_id = ref_application_id refs,
                  bulk_subject = to_subject (do_subject dl), bulk_checks = bb_checks b,
                  bulk_context = bb_context b, bulk_delegated = do_permissions dl,
                  bulk_references = Some refs\<rparr>)) (\<lambda>ds'.
          res_bind (res_fold (\<lambda>(i, c, d) db'. audit_sink_write st (new i) now
                \<lparr>ae_decision = dec_decision d, ae_reason = dec_reason d, ae_resource = fst c,
                 ae_action = snd c, ae_tenant_id = Some (ref_tenant_id refs),
                 ae_application_id = Some (ref_application_id refs),
                 ae_user_id = ss_user_id (do_subject dl), ae_agent_id = ss_agent_id (do_subject dl),
                 ae_request = audit_payload (bulk_dump b) (do_grant_id dl),
                 ae_response = bulk_result_dump (bulk_result_of c d),
                 ae_request_id = request_id, ae_created_at = now\<rparr> request_id db')
              (enumerated (zip (bb_checks b) ds')) db) (\<lambda>db'.
          Inr (map (\<lambda>(c, d). bulk_result_of c d) (zip (bb_checks b) ds'), db'))))))"

definition bulk_authorize_endpoint ::
  "('key, 'net) auth_env \<Rightarrow> settings \<Rightarrow> instant \<Rightarrow> (nat \<Rightarrow> ident) \<Rightarrow> http_request \<Rightarrow> bulk_body \<Rightarrow>
     delegation_service \<Rightarrow> 'net auth_state \<times> sql_db \<Rightarrow>
     (http_error, bulk_result list) result \<times> 'net auth_state \<times> sql_db" where
  "bulk_authorize_endpoint env st now new rq b ds =
     surface_route require_runtime env st now rq (subject_valid (bb_subject b))
       (bulk_authorize_handler env st now new (dict_get (rq_headers rq) ''X-Request-Id'')
          (dict_get (rq_headers rq) ''X-Delegation-Token'') b ds)"

section \<open>POST /v1/effective-permissions\<close>

record effective_response =
  er_tenant_id :: ident
  er_application_id :: ident
  er_subject :: subject_schema
  er_permissions :: "string list"

definition effective_permissions_handler ::
  "('key, 'net) auth_env \<Rightarrow> settings \<Rightarrow> instant \<Rightarrow> string option \<Rightarrow> string \<Rightarrow> string \<Rightarrow> subject_schema \<Rightarrow>
     delegation_service \<Rightarrow> principal \<Rightarrow> sql_db \<Rightarrow> (http_error, effective_response \<times> sql_db) result" where
  "effective_permissions_handler env st now token tref aref subj ds p db =
     (case resolve_decision_refs db tref aref subj of
        (refs, s) \<Rightarrow>
          res_bind (enforce_tenant_scope_binding p (ref_tenant_id refs)) (\<lambda>_.
          if \<not> refs_complete refs then
            Inr (\<lparr>er_tenant_id = ref_tenant_id refs, er_application_id = ref_application_id refs,
                  er_subject = s, er_permissions = []\<rparr>, db)
          else
            res_bind (apply_delegation env st now ds token (ref_tenant_id refs) (ref_application_id refs) s)
              (\<lambda>dl. case do_deny_reason dl of
                 Some reason \<Rightarrow> Inl (HTTPException 403 reason)
               | None \<Rightarrow>
                   Inr (\<lparr>er_tenant_id = ref_tenant_id refs, er_application_id = ref_application_id refs,
                         er_subject = do_subject dl,
                         er_permissions = sorted_list_of_set (effective_permissions (sql_repository db)
                           (ref_tenant_id refs) (ref_application_id refs) (to_subject (do_subject dl))
                           (do_permissions dl) (Some refs))\<rparr>, db))))"

definition effective_permissions_endpoint ::
  "('key, 'net) auth_env \<Rightarrow> settings \<Rightarrow> instant \<Rightarrow> http_request \<Rightarrow> string \<Rightarrow> string \<Rightarrow> subject_schema \<Rightarrow>
     delegation_service \<Rightarrow> 'net auth_state \<times> sql_db \<Rightarrow>
     (http_error, effective_response) result \<times> 'net auth_state \<times> sql_db" where
  "effective_permissions_endpoint env st now rq tref aref subj ds =
     surface_route require_runtime env st now rq (subject_valid subj)
       (effective_permissions_handler env st now (dict_get (rq_headers rq) ''X-Delegation-Token'')
          tref aref subj ds)"

section \<open>Lemmas\<close>

lemma surface_route_Inr:
  assumes "surface_route require env st now rq valid h (au, s) = (Inr x, au', s')"
  shows "\<exists>p q. require_caller env st now rq au = (Inr p, au') \<and> require p = Inr q \<and> valid = Inr () \<and>
    h q s = Inr (x, s')"
  using assms
  by (auto simp: surface_route_def res_bind_eq_Inr split: prod.splits sum.splits)

lemma require_runtime_Inr: "require_runtime p = Inr q \<longleftrightarrow> q = p \<and> principal_allows p SCOPE_RUNTIME None"
  by (auto simp: require_runtime_def require_surface_def)

lemma binding_Inr:
  "enforce_tenant_scope_binding p t = Inr u \<longleftrightarrow>
     (\<forall>pin. principal_tenant_id p = Some pin \<longrightarrow> pin = t) \<and> principal_tenant_matches p t"
  by (auto simp: enforce_tenant_scope_binding_def principal_tenant_matches_def split: option.splits)

lemma binding_cases:
  "enforce_tenant_scope_binding p t = Inr () \<or>
   enforce_tenant_scope_binding p t = Inl (HTTPException 403 ''tenant_scope_mismatch'')"
  by (auto simp: enforce_tenant_scope_binding_def)

lemma evaluate_service_rules [simp]: "evaluate no_rules req = Inr True"
  by (simp add: evaluate_def no_rules_def)

lemma apply_delegation_no_deny:
  assumes "apply_delegation env st now ds token t a s = Inr dl" and "do_deny_reason dl = None"
  shows "(token = None \<or> token = Some '''') \<and> \<not> (cfg_delegation_required st \<and> ss_type s = SUBJECT_AGENT) \<and>
      do_permissions dl = None \<and> do_subject dl = s \<or>
    (\<exists>tok g. token = Some tok \<and> tok \<noteq> [] \<and>
      delegation_verify (ae_repr env) (ae_lib env) (ae_hash env) (ae_rsa env) now ds tok = Inr g \<and>
      ss_type s = SUBJECT_AGENT \<and> gr_tenant_id g = t \<and> gr_application_id g = a \<and>
      do_permissions dl = Some (gr_permissions g) \<and> do_subject dl = fill_subject s g \<and>
      ss_user_id (do_subject dl) = Some (gr_user_id g) \<and> ss_agent_id (do_subject dl) = Some (gr_agent_id g))"
  using assms
  by (auto simp: apply_delegation_def Let_def split: if_splits sum.splits delegation_error.splits)

lemma write_audit_Inr:
  "write_audit db nid now e rid = Inr db' \<Longrightarrow>
     \<exists>row. db' = db\<lparr>db_audit := db_audit db @ [row]\<rparr> \<and> al_id row = nid \<and>
       ae_decision (al_entry row) = ae_decision e \<and> ae_reason (al_entry row) = ae_reason e \<and>
       ae_resource (al_entry row) = ae_resource e \<and> ae_action (al_entry row) = ae_action e \<and>
       ae_tenant_id (al_entry row) = ae_tenant_id e \<and> ae_application_id (al_entry row) = ae_application_id e \<and>
       ae_user_id (al_entry row) = ae_user_id e \<and> ae_agent_id (al_entry row) = ae_agent_id e"
  by (auto simp: write_audit_def tbl_insert_def Let_def split: if_splits)

lemma map_sum_Inr_iff: "map_sum f id r = Inr x \<longleftrightarrow> r = Inr x"
  by (cases r) auto

definition decision_request ::
  "resolved_references \<Rightarrow> authorize_body \<Rightarrow> delegation_outcome \<Rightarrow> authorize_request" where
  "decision_request refs b dl =
     \<lparr>req_tenant_id = ref_tenant_id refs, req_application_id = ref_application_id refs,
      req_subject = to_subject (do_subject dl), req_resource = ab_resource b, req_action = ab_action b,
      req_context = ab_context b, req_delegated = do_permissions dl, req_references = Some refs\<rparr>"

lemma authorize_handler_Inr:
  assumes "authorize_handler env st now nid uuid rid token b ds p db = Inr (r, db')"
    and "(refs, s) = resolve_decision_refs db (ab_tenant_id b) (ab_application_id b) (ab_subject b)"
  obtains dl d entry where "enforce_tenant_scope_binding p (ref_tenant_id refs) = Inr ()"
    and "apply_delegation env st now ds token (ref_tenant_id refs) (ref_application_id refs) s = Inr dl"
    and "(case delegation_deny refs dl of Some reason \<Rightarrow> Inr (deny reason (join_dot (ab_resource b) (ab_action b)))
        | None \<Rightarrow> authorize (sql_repository db) no_rules (decision_request refs b dl)) = Inr d"
    and "r = response_of d" and "audit_sink_write st nid now entry rid db = Inr db'"
    and "ae_decision entry = dec_decision d" "ae_reason entry = dec_reason d" "ae_resource entry = ab_resource b"
      "ae_action entry = ab_action b" "ae_tenant_id entry = Some (ref_tenant_id refs)"
      "ae_application_id entry = Some (ref_application_id refs)"
proof -
  let ?entry = "\<lambda>dl d. \<lparr>ae_decision = dec_decision d, ae_reason = dec_reason d, ae_resource = ab_resource b,
     ae_action = ab_action b, ae_tenant_id = Some (ref_tenant_id refs),
     ae_application_id = Some (ref_application_id refs),
     ae_user_id = ss_user_id (do_subject dl), ae_agent_id = ss_agent_id (do_subject dl),
     ae_request = audit_payload (authorize_dump b) (do_grant_id dl),
     ae_response = response_dump (response_of d), ae_request_id = or_else rid uuid, ae_created_at = now\<rparr>"
  from assms(1) [unfolded authorize_handler_def assms(2) [symmetric] prod.case res_bind_eq_Inr]
  obtain dl d where 1: "enforce_tenant_scope_binding p (ref_tenant_id refs) = Inr ()"
    and 2: "apply_delegation env st now ds token (ref_tenant_id refs) (ref_application_id refs) s = Inr dl"
    and d: "(case delegation_deny refs dl of Some reason \<Rightarrow> Inr (deny reason (join_dot (ab_resource b) (ab_action b)))
        | None \<Rightarrow> map_sum http_of_error id (authorize (sql_repository db) no_rules (decision_request refs b dl))) = Inr d"
    and 3: "r = response_of d" and 4: "audit_sink_write st nid now (?entry dl d) rid db = Inr db'"
    unfolding decision_request_def by auto
  have 5: "(case delegation_deny refs dl of Some reason \<Rightarrow> Inr (deny reason (join_dot (ab_resource b) (ab_action b)))
      | None \<Rightarrow> authorize (sql_repository db) no_rules (decision_request refs b dl)) = Inr d"
    using d by (auto simp: map_sum_Inr_iff split: option.splits)
  show ?thesis by (rule that [OF 1 2 5 3 4]) simp_all
qed

text \<open>A request the engine allows had every reference resolved and active.\<close>

lemma allowed_refs_complete:
  assumes "authorize repo pe req = Inr d" "dec_allowed d" "req_references req = Some refs"
  shows "ref_tenant_status refs = Some ''active'' \<and> ref_application_status refs = Some ''active'' \<and> refs_complete refs"
proof -
  have act: "ref_tenant_status refs = Some ''active''" "ref_application_status refs = Some ''active''"
    using assms by (auto simp: authorize_decide inactive_def split: if_splits)
  have "\<not> ref_user_missing refs \<and> \<not> ref_agent_missing refs"
    using assms subject_outcome_missing [of "Some refs" repo "req_tenant_id req" "req_application_id req" "req_subject req"]
    by (auto simp: authorize_decide user_missing_def agent_missing_def split: option.splits)
  then show ?thesis using act by (simp add: refs_complete_def)
qed

lemma allowed_in_effective:
  assumes "authorize repo pe req = Inr d" "dec_allowed d"
  shows "required_permission req \<in> effective_permissions repo (req_tenant_id req) (req_application_id req)
    (req_subject req) (req_delegated req) (req_references req)"
  using assms authorize_allowed_is_allow [OF assms] authorize_allow_iff by metis

subsection \<open>Many checks\<close>

definition single_body :: "bulk_body \<Rightarrow> string \<times> string \<Rightarrow> authorize_body" where
  "single_body b c =
     \<lparr>ab_tenant_id = bb_tenant_id b, ab_application_id = bb_application_id b, ab_subject = bb_subject b,
      ab_resource = fst c, ab_action = snd c, ab_context = bb_context b\<rparr>"

text \<open>The decision on one check once the delegation was applied.\<close>

definition decide_check ::
  "sql_db \<Rightarrow> resolved_references \<Rightarrow> delegation_outcome \<Rightarrow> authorize_body \<Rightarrow> (authz_error, authorize_decision) result" where
  "decide_check db refs dl b =
     (case delegation_deny refs dl of
        Some reason \<Rightarrow> Inr (deny reason (join_dot (ab_resource b) (ab_action b)))
      | None \<Rightarrow> authorize (sql_repository db) no_rules (decision_request refs b dl))"

lemma decide_check_decision:
  "decide_check db refs dl b = Inr d \<Longrightarrow> dec_decision d = ''allow'' \<longleftrightarrow> dec_allowed d"
  using authorize_decision by (auto simp: decide_check_def split: option.splits)

lemma audit_sink_write_fresh:
  "nid \<notin> al_id ` set (db_audit db) \<Longrightarrow> \<exists>db'. audit_sink_write st nid now e rid db = Inr db'"
  by (auto simp: audit_sink_write_def write_audit_def tbl_insert_def list_ex_iff Let_def)

lemma audit_sink_write_Inr:
  assumes "audit_sink_write st nid now e rid db = Inr db'"
  shows "\<exists>rows. db' = db\<lparr>db_audit := db_audit db @ rows\<rparr> \<and>
    map (\<lambda>r. (ae_resource (al_entry r), ae_action (al_entry r), ae_reason (al_entry r), ae_tenant_id (al_entry r))) rows =
      (if ae_decision e \<noteq> ''allow'' \<or> cfg_audit_all_decisions st
       then [(ae_resource e, ae_action e, ae_reason e, ae_tenant_id e)] else [])"
proof (cases "ae_decision e \<noteq> ''allow'' \<or> cfg_audit_all_decisions st")
  case True
  then have "write_audit db nid now e rid = Inr db'" using assms by (simp add: audit_sink_write_def map_sum_Inr_iff)
  from write_audit_Inr [OF this] obtain row where "db' = db\<lparr>db_audit := db_audit db @ [row]\<rparr>"
    "ae_reason (al_entry row) = ae_reason e" "ae_resource (al_entry row) = ae_resource e"
    "ae_action (al_entry row) = ae_action e" "ae_tenant_id (al_entry row) = ae_tenant_id e" by blast
  then show ?thesis using True by (intro exI [of _ "[row]"]) simp
next
  case False
  then show ?thesis using assms by (intro exI [of _ "[]"]) (auto simp: audit_sink_write_def)
qed

lemma authorize_handler_decides:
  assumes "enforce_tenant_scope_binding p (ref_tenant_id refs) = Inr ()"
    and "apply_delegation env st now ds token (ref_tenant_id refs) (ref_application_id refs) s = Inr dl"
    and "(refs, s) = resolve_decision_refs db (ab_tenant_id b) (ab_application_id b) (ab_subject b)"
    and "decide_check db refs dl b = Inr d" and "nid \<notin> al_id ` set (db_audit db)"
  shows "\<exists>db'. authorize_handler env st now nid uuid rid token b ds p db = Inr (response_of d, db')"
proof -
  have d: "(case delegation_deny refs dl of Some reason \<Rightarrow> Inr (deny reason (join_dot (ab_resource b) (ab_action b)))
      | None \<Rightarrow> map_sum http_of_error id (authorize (sql_repository db) no_rules (decision_request refs b dl))) = Inr d"
    using assms(4) by (auto simp: decide_check_def map_sum_Inr_iff split: option.splits)
  note step = authorize_handler_def assms(3) [symmetric] prod.case assms(1, 2) res_bind_Inr
  show ?thesis
    unfolding step d [unfolded decision_request_def]
    using audit_sink_write_fresh [OF assms(5)] by (metis (no_types, lifting) res_bind_Inr)
qed

lemma bulk_authorize_handler_Inr:
  assumes "bulk_authorize_handler env st now new rid token b ds p db = Inr (rs, db')"
    and "(refs, s) = resolve_decision_refs db (bb_tenant_id b) (bb_application_id b) (bb_subject b)"
  obtains dl ds' entry where "enforce_tenant_scope_binding p (ref_tenant_id refs) = Inr ()"
    and "apply_delegation env st now ds token (ref_tenant_id refs) (ref_application_id refs) s = Inr dl"
    and "res_map (\<lambda>c. decide_check db refs dl (single_body b c)) (bb_checks b) = Inr ds'"
    and "rs = map (\<lambda>(c, d). bulk_result_of c d) (zip (bb_checks b) ds')"
    and "res_fold (\<lambda>(i, c, d). audit_sink_write st (new i) now (entry c d) rid) (enumerated (zip (bb_checks b) ds')) db
      = Inr db'"
    and "\<And>c d. ae_decision (entry c d) = dec_decision d \<and> ae_reason (entry c d) = dec_reason d \<and>
      ae_resource (entry c d) = fst c \<and> ae_action (entry c d) = snd c \<and>
      ae_tenant_id (entry c d) = Some (ref_tenant_id refs)"
proof -
  let ?entry = "\<lambda>dl c d. \<lparr>ae_decision = dec_decision d, ae_reason = dec_reason d, ae_resource = fst c,
     ae_action = snd c, ae_tenant_id = Some (ref_tenant_id refs), ae_application_id = Some (ref_application_id refs),
     ae_user_id = ss_user_id (do_subject dl), ae_agent_id = ss_agent_id (do_subject dl),
     ae_request = audit_payload (bulk_dump b) (do_grant_id dl),
     ae_response = bulk_result_dump (bulk_result_of c d), ae_request_id = rid, ae_created_at = now\<rparr>"
  let ?breq = "\<lambda>dl. \<lparr>bulk_tenant_id = ref_tenant_id refs, bulk_application_id = ref_application_id refs,
     bulk_subject = to_subject (do_subject dl), bulk_checks = bb_checks b,
     bulk_context = bb_context b, bulk_delegated = do_permissions dl, bulk_references = Some refs\<rparr>"
  from assms(1) [unfolded bulk_authorize_handler_def assms(2) [symmetric] prod.case res_bind_eq_Inr]
  obtain dl ds' where 1: "enforce_tenant_scope_binding p (ref_tenant_id refs) = Inr ()"
    and 2: "apply_delegation env st now ds token (ref_tenant_id refs) (ref_application_id refs) s = Inr dl"
    and d: "(case delegation_deny refs dl of
        Some reason \<Rightarrow> Inr (map (\<lambda>(r, a). deny reason (join_dot r a)) (bb_checks b))
      | None \<Rightarrow> map_sum http_of_error id (bulk_authorize (sql_repository db) no_rules (?breq dl))) = Inr ds'"
    and 4: "rs = map (\<lambda>(c, d). bulk_result_of c d) (zip (bb_checks b) ds')"
    and f: "res_fold (\<lambda>(i, c, d). audit_sink_write st (new i) now (?entry dl c d) rid)
        (enumerated (zip (bb_checks b) ds')) db = Inr db'"
    by auto
  have 3: "res_map (\<lambda>c. decide_check db refs dl (single_body b c)) (bb_checks b) = Inr ds'"
  proof (cases "delegation_deny refs dl")
    case None
    then have "res_map (\<lambda>c. decide_check db refs dl (single_body b c)) (bb_checks b) =
        bulk_authorize (sql_repository db) no_rules (?breq dl)"
      by (auto simp: bulk_authorize_map decide_check_def decision_request_def single_body_def intro!: res_map_cong)
    then show ?thesis using d None by (simp add: map_sum_Inr_iff)
  next
    case (Some reason)
    have "res_map (\<lambda>c. decide_check db refs dl (single_body b c)) (bb_checks b) =
        Inr (map (\<lambda>(r, a). deny reason (join_dot r a)) (bb_checks b))"
      by (rule res_map_eq_map) (simp add: decide_check_def Some single_body_def case_prod_beta)
    then show ?thesis using d Some by simp
  qed
  show ?thesis by (rule that [OF 1 2 3 4 f]) simp
qed

lemma audit_loop:
  assumes "\<And>c d. ae_decision (entry c d) = dec_decision d \<and> ae_reason (entry c d) = dec_reason d \<and>
      ae_resource (entry c d) = fst c \<and> ae_action (entry c d) = snd c \<and> ae_tenant_id (entry c d) = Some t"
    and "\<forall>(i, c, d) \<in> set xs. dec_decision d = ''allow'' \<longleftrightarrow> dec_allowed d"
    and "res_fold (\<lambda>(i, c, d). audit_sink_write st (new i) now (entry c d) rid) xs db = Inr db'"
  shows "\<exists>rows. db' = db\<lparr>db_audit := db_audit db @ rows\<rparr> \<and>
    map (\<lambda>r. (ae_resource (al_entry r), ae_action (al_entry r), ae_reason (al_entry r), ae_tenant_id (al_entry r))) rows =
    map (\<lambda>(i, c, d). (fst c, snd c, dec_reason d, Some t))
      (filter (\<lambda>(i, c, d). \<not> dec_allowed d \<or> cfg_audit_all_decisions st) xs)"
  using assms(2, 3)
proof (induction xs arbitrary: db)
  case Nil
  then show ?case by (intro exI [of _ "[]"]) simp
next
  case (Cons x xs)
  obtain i c d where x: "x = (i, c, d)" by (cases x)
  from Cons.prems(2) obtain db1 where 1: "audit_sink_write st (new i) now (entry c d) rid db = Inr db1"
    and 2: "res_fold (\<lambda>(i, c, d). audit_sink_write st (new i) now (entry c d) rid) xs db1 = Inr db'"
    by (auto simp: x split: sum.splits)
  have dd: "dec_decision d = ''allow'' \<longleftrightarrow> dec_allowed d" using Cons.prems(1) x by auto
  let ?key = "\<lambda>r. (ae_resource (al_entry r), ae_action (al_entry r), ae_reason (al_entry r), ae_tenant_id (al_entry r))"
  from audit_sink_write_Inr [OF 1] obtain r1 where r1: "db1 = db\<lparr>db_audit := db_audit db @ r1\<rparr>"
    "map ?key r1 = (if \<not> dec_allowed d \<or> cfg_audit_all_decisions st then [(fst c, snd c, dec_reason d, Some t)] else [])"
    using assms(1) [of c d] dd by auto
  from Cons.IH [OF _ 2] Cons.prems(1) obtain r2 where r2: "db' = db1\<lparr>db_audit := db_audit db1 @ r2\<rparr>"
    "map ?key r2 = map (\<lambda>(i, c, d). (fst c, snd c, dec_reason d, Some t))
      (filter (\<lambda>(i, c, d). \<not> dec_allowed d \<or> cfg_audit_all_decisions st) xs)" by auto
  have "db' = db\<lparr>db_audit := db_audit db @ (r1 @ r2)\<rparr>" using r1(1) r2(1) by simp
  moreover have "map ?key (r1 @ r2) = map (\<lambda>(i, c, d). (fst c, snd c, dec_reason d, Some t))
      (filter (\<lambda>(i, c, d). \<not> dec_allowed d \<or> cfg_audit_all_decisions st) (x # xs))"
    unfolding map_append r1(2) r2(2) by (simp add: x)
  ultimately show ?case by blast
qed

lemma enumerated_results:
  "map (\<lambda>(i, c, d). (fst c, snd c, dec_reason d, t)) (filter (\<lambda>(i, c, d). \<not> dec_allowed d \<or> all) (enumerated xs)) =
   map (\<lambda>r. (br_resource r, br_action r, br_reason r, t))
     (filter (\<lambda>r. \<not> br_allowed r \<or> all) (map (\<lambda>(c, d). bulk_result_of c d) xs))"
proof -
  have "map (\<lambda>(i, c, d). (fst c, snd c, dec_reason d, t)) (filter (\<lambda>(i, c, d). \<not> dec_allowed d \<or> all) (zip ns xs)) =
   map (\<lambda>r. (br_resource r, br_action r, br_reason r, t))
     (filter (\<lambda>r. \<not> br_allowed r \<or> all) (map (\<lambda>(c, d). bulk_result_of c d) xs))"
    if "length ns = length xs" for ns :: "nat list"
    using that by (induction ns xs rule: list_induct2) (auto simp: bulk_result_of_def)
  then show ?thesis by (simp add: enumerated_def)
qed

text \<open>The grounds of an allowing answer.\<close>

lemma allowing_answer:
  assumes "authorize_endpoint env st now nid uuid rq b ds (au, db) = (Inr r, au', db')" and "rsp_allowed r"
    and "(refs, s) = resolve_decision_refs db (ab_tenant_id b) (ab_application_id b) (ab_subject b)"
    and "token = dict_get (rq_headers rq) ''X-Delegation-Token''"
    and "perm = join_dot (ab_resource b) (ab_action b)"
  shows "\<exists>p s'. require_caller env st now rq au = (Inr p, au') \<and> principal_allows p SCOPE_RUNTIME None \<and>
     principal_tenant_matches p (ref_tenant_id refs) \<and>
     (\<forall>pin. principal_tenant_id p = Some pin \<longrightarrow> pin = ref_tenant_id refs) \<and>
     ref_tenant_status refs = Some ''active'' \<and> ref_application_status refs = Some ''active'' \<and>
     perm \<in> effective_permissions (sql_repository db) (ref_tenant_id refs) (ref_application_id refs)
        (to_subject s') None (Some refs) \<and>
     (if token = None \<or> token = Some ''''
      then s' = s \<and> \<not> (cfg_delegation_required st \<and> ss_type s = SUBJECT_AGENT)
      else (\<exists>g. delegation_verify (ae_repr env) (ae_lib env) (ae_hash env) (ae_rsa env) now ds (the token) = Inr g \<and>
        ss_type s = SUBJECT_AGENT \<and> s' = fill_subject s g \<and> perm \<in> gr_permissions g \<and>
        gr_tenant_id g = ref_tenant_id refs \<and> gr_application_id g = ref_application_id refs \<and>
        ss_user_id s' = Some (gr_user_id g) \<and> ss_agent_id s' = Some (gr_agent_id g)))"
proof -
  obtain p q where c: "require_caller env st now rq au = (Inr p, au')" and q: "require_runtime p = Inr q"
    and h: "authorize_handler env st now nid uuid (dict_get (rq_headers rq) ''X-Request-Id'') token b ds q db =
      Inr (r, db')"
    using surface_route_Inr [OF assms(1) [unfolded authorize_endpoint_def]] assms(4) by blast
  have p: "q = p" "principal_allows p SCOPE_RUNTIME None" using q unfolding require_runtime_Inr by blast+
  from authorize_handler_Inr [OF h assms(3)] obtain dl d
    where bind: "enforce_tenant_scope_binding p (ref_tenant_id refs) = Inr ()"
    and dl: "apply_delegation env st now ds token (ref_tenant_id refs) (ref_application_id refs) s = Inr dl"
    and d: "(case delegation_deny refs dl of Some reason \<Rightarrow> Inr (deny reason perm)
        | None \<Rightarrow> authorize (sql_repository db) no_rules (decision_request refs b dl)) = Inr d"
    and r: "r = response_of d"
    unfolding p assms(5) by blast
  have a: "dec_allowed d" using assms(2) r by (simp add: response_of_def)
  then have n: "delegation_deny refs dl = None" using d by (auto split: option.splits)
  then have au: "authorize (sql_repository db) no_rules (decision_request refs b dl) = Inr d" using d by simp
  have act: "ref_tenant_status refs = Some ''active''" "ref_application_status refs = Some ''active''"
    and no: "do_deny_reason dl = None"
    using allowed_refs_complete [OF au a] n by (auto simp: decision_request_def delegation_deny_def)
  have eff: "perm \<in> effective_permissions (sql_repository db) (ref_tenant_id refs) (ref_application_id refs)
      (to_subject (do_subject dl)) (do_permissions dl) (Some refs)"
    using allowed_in_effective [OF au a] by (simp add: decision_request_def required_permission_def assms(5))
  then have grant: "perm \<in> G" if "do_permissions dl = Some G" for G
    using that by (simp add: effective_permissions_def Let_def)
  have tok: "if token = None \<or> token = Some ''''
      then do_subject dl = s \<and> \<not> (cfg_delegation_required st \<and> ss_type s = SUBJECT_AGENT)
      else (\<exists>g. delegation_verify (ae_repr env) (ae_lib env) (ae_hash env) (ae_rsa env) now ds (the token) = Inr g \<and>
        ss_type s = SUBJECT_AGENT \<and> do_subject dl = fill_subject s g \<and> perm \<in> gr_permissions g \<and>
        gr_tenant_id g = ref_tenant_id refs \<and> gr_application_id g = ref_application_id refs \<and>
        ss_user_id (do_subject dl) = Some (gr_user_id g) \<and> ss_agent_id (do_subject dl) = Some (gr_agent_id g))"
    using apply_delegation_no_deny [OF dl no] grant by auto
  show ?thesis
    using c p(2) bind act subsetD [OF effective_subset_undelegated eff] tok unfolding binding_Inr by blast
qed

section \<open>Properties\<close>

text \<open>C1: what an allowing answer of \<^verbatim>\<open>POST /v1/authorize\<close> guarantees. The caller was authenticated, has the
  runtime surface and is bound to no tenant other than the resolved one; tenant and application exist
  and are active; the permission asked for is in the effective set of the subject, computed over the
  database with the references resolved in it; and when a delegation token was sent, it verified to a
  live grant of the same tenant, application, user and agent which contains the permission. Without a
  token, an agent subject is allowed only if the service does not require delegations.\<close>

theorem decision_endpoint_sound:
  assumes "authorize_endpoint env st now nid uuid rq b ds (au, db) = (Inr r, au', db')" and "rsp_allowed r"
    and "(refs, s) = resolve_decision_refs db (ab_tenant_id b) (ab_application_id b) (ab_subject b)"
    and "token = dict_get (rq_headers rq) ''X-Delegation-Token''"
    and "perm = join_dot (ab_resource b) (ab_action b)"
  shows "\<exists>p s'. require_caller env st now rq au = (Inr p, au') \<and> principal_allows p SCOPE_RUNTIME None \<and>
     principal_tenant_matches p (ref_tenant_id refs) \<and>
     (\<forall>pin. principal_tenant_id p = Some pin \<longrightarrow> pin = ref_tenant_id refs) \<and>
     ref_tenant_status refs = Some ''active'' \<and> ref_application_status refs = Some ''active'' \<and>
     perm \<in> effective_permissions (sql_repository db) (ref_tenant_id refs) (ref_application_id refs)
        (to_subject s') None (Some refs) \<and>
     (if token = None \<or> token = Some ''''
      then s' = s \<and> \<not> (cfg_delegation_required st \<and> ss_type s = SUBJECT_AGENT)
      else (\<exists>g. delegation_verify (ae_repr env) (ae_lib env) (ae_hash env) (ae_rsa env) now ds (the token) = Inr g \<and>
        ss_type s = SUBJECT_AGENT \<and> s' = fill_subject s g \<and> perm \<in> gr_permissions g \<and>
        gr_tenant_id g = ref_tenant_id refs \<and> gr_application_id g = ref_application_id refs \<and>
        ss_user_id s' = Some (gr_user_id g) \<and> ss_agent_id s' = Some (gr_agent_id g)))"
  by (rule allowing_answer [OF assms])

definition sample_body :: authorize_body where
  "sample_body =
     \<lparr>ab_tenant_id = ''acme'', ab_application_id = ''docs'',
      ab_subject = \<lparr>ss_type = ''user'', ss_user_id = Some ''u'', ss_user_ref = None, ss_agent_id = None,
        ss_agent_name = None, ss_service_account_id = None\<rparr>,
      ab_resource = ''docs'', ab_action = ''read'', ab_context = []\<rparr>"

definition no_delegations :: delegation_service where
  "no_delegations = delegation_service_init [] (signing_service_init [] '''' False '''') '''' 30"

definition sample_refs :: resolved_references where
  "sample_refs =
     \<lparr>ref_tenant_id = ''t'', ref_application_id = ''a'', ref_tenant_status = Some ''active'',
      ref_application_status = Some ''active'', ref_user_id = Some ''u'', ref_user_missing = False,
      ref_agent_id = None, ref_agent_status = None, ref_agent_missing = False\<rparr>"

lemma sample_resolved:
  "resolve_decision_refs managed_db (ab_tenant_id sample_body) (ab_application_id sample_body)
     (ab_subject sample_body) = (sample_refs, ab_subject sample_body)"
  by (simp add: resolve_decision_refs_def resolve_references_def sql_find_tenant_def sql_find_application_def
      by_id_or_slug_def managed_db_def sample_body_def sample_refs_def Let_def)

lemma sample_user_permissions: "sql_resolve_user_permissions managed_db ''t'' ''a'' ''u'' = {''docs.read''}"
  by (simp add: sql_resolve_user_permissions_def sql_eligible_memberships_def sql_linked_roles_def
      sql_effective_role_ids_def role_overrides_def managed_db_def sample_db_def sample_role_def
      sample_permission_def empty_db_def MEMBERSHIP_STATUS_ACTIVE_def perm_active_def dict_get_default_def Let_def)

lemma sample_decision:
  "authorize (sql_repository managed_db) no_rules
     \<lparr>req_tenant_id = ''t'', req_application_id = ''a'', req_subject = to_subject (ab_subject sample_body),
      req_resource = ''docs'', req_action = ''read'', req_context = [], req_delegated = None,
      req_references = Some sample_refs\<rparr> = Inr (allow ''docs.read'' {''docs.read''})"
proof -
  have m: "sql_is_user_membership_active managed_db ''t'' ''a'' ''u''"
    by (simp add: sql_is_user_membership_active_def sql_find_membership_def managed_db_def sample_db_def empty_db_def
        MEMBERSHIP_STATUS_ACTIVE_def)
  have k: "sql_resolve_tenant_permissions managed_db ''t'' ''a'' = {}"
    by (simp add: sql_resolve_tenant_permissions_def managed_db_def sample_db_def empty_db_def)
  show ?thesis
    by (simp add: authorize_def inactive_def sample_refs_def resolve_user_def membership_active_def user_missing_def
        agent_missing_def sql_repository_def m k sample_user_permissions to_subject_def sample_body_def SUBJECT_USER_def
        required_permission_def join_dot_def apply_mask_def Let_def)
qed

lemma sample_principal:
  "require_runtime (KeyPrincipal (ak_to_record (sample_key\<lparr>ak_last_used_at := Some 5\<rparr>))) =
     Inr (KeyPrincipal (ak_to_record (sample_key\<lparr>ak_last_used_at := Some 5\<rparr>)))"
  "enforce_tenant_scope_binding (KeyPrincipal (ak_to_record (sample_key\<lparr>ak_last_used_at := Some 5\<rparr>))) ''t'' = Inr ()"
proof -
  have scopes: "parse_scopes ''runtime'' = [''runtime'']" by (simp add: parse_scopes_def strip_def is_space_def)
  show "require_runtime (KeyPrincipal (ak_to_record (sample_key\<lparr>ak_last_used_at := Some 5\<rparr>))) =
     Inr (KeyPrincipal (ak_to_record (sample_key\<lparr>ak_last_used_at := Some 5\<rparr>)))"
    by (simp add: require_runtime_Inr principal_allows_def scope_allows_def ak_to_record_def sample_key_def
        scopes SCOPE_RUNTIME_def SCOPE_ADMIN_def)
  show "enforce_tenant_scope_binding (KeyPrincipal (ak_to_record (sample_key\<lparr>ak_last_used_at := Some 5\<rparr>))) ''t'' = Inr ()"
    by (simp add: binding_Inr principal_tenant_matches_def tenant_scope_matches_def ak_to_record_def sample_key_def
        scopes SCOPE_RUNTIME_def)
qed

lemma sample_no_delegation:
  "\<not> cfg_delegation_required st \<Longrightarrow>
     apply_delegation sample_env st 5 no_delegations None ''t'' ''a'' (ab_subject sample_body) =
       Inr \<lparr>do_permissions = None, do_grant_id = None, do_deny_reason = None, do_subject = ab_subject sample_body\<rparr>"
  by (simp add: apply_delegation_def)

lemma sample_authorized:
  assumes "\<not> cfg_dev_mode st" "cfg_api_keys st = []" "\<not> cfg_audit_all_decisions st" "\<not> cfg_delegation_required st"
  shows "\<exists>au'. authorize_endpoint sample_env st 5 ''n'' ''x'' sample_request sample_body no_delegations
     (sample_auth, managed_db) = (Inr (response_of (allow ''docs.read'' {''docs.read''})), au', managed_db)"
proof -
  let ?p = "KeyPrincipal (ak_to_record (sample_key\<lparr>ak_last_used_at := Some 5\<rparr>))"
  obtain au' where c: "require_caller sample_env st 5 sample_request sample_auth = (Inr ?p, au')"
    using sample_caller [OF assms(1, 2)] by blast
  have h: "authorize_handler sample_env st 5 ''n'' ''x'' None None sample_body no_delegations ?p managed_db =
      Inr (response_of (allow ''docs.read'' {''docs.read''}), managed_db)"
    unfolding authorize_handler_def sample_resolved prod.case
    using sample_principal(2) sample_no_delegation [OF assms(4)] sample_decision
    by (simp add: sample_refs_def delegation_deny_def sample_body_def audit_sink_write_def assms(3))
  show ?thesis
    using c sample_principal(1) h
    by (simp add: authorize_endpoint_def surface_route_def subject_valid_def user_ref_valid_def one_form_def
        sample_body_def sample_request_def)
qed

theorem decision_endpoint_sound_witness:
  "\<exists>st r p s'. load_settings [] = Inr st \<and>
     fst (authorize_endpoint sample_env st 5 ''n'' ''x'' sample_request sample_body no_delegations
       (sample_auth, managed_db)) = Inr r \<and> rsp_allowed r \<and>
     fst (require_caller sample_env st 5 sample_request sample_auth) = Inr p \<and> principal_allows p SCOPE_RUNTIME None \<and>
     ''docs.read'' \<in> effective_permissions (sql_repository managed_db) ''t'' ''a'' (to_subject s') None (Some sample_refs)"
proof -
  obtain st where st: "load_settings [] = Inr st" and o: "\<not> cfg_dev_mode st" "cfg_api_keys st = []"
    "\<not> cfg_audit_all_decisions st" "\<not> cfg_delegation_required st" using load_defaults by blast
  let ?r = "response_of (allow ''docs.read'' {''docs.read''})"
  obtain au' where e: "authorize_endpoint sample_env st 5 ''n'' ''x'' sample_request sample_body no_delegations
     (sample_auth, managed_db) = (Inr ?r, au', managed_db)" using sample_authorized [OF o] by blast
  have a: "rsp_allowed ?r" by (simp add: response_of_def)
  have q: "join_dot (ab_resource sample_body) (ab_action sample_body) = ''docs.read''"
    by (simp add: sample_body_def join_dot_def)
  have t: "ref_tenant_id sample_refs = ''t''" "ref_application_id sample_refs = ''a''"
    by (simp_all add: sample_refs_def)
  from decision_endpoint_sound [OF e a sample_resolved [symmetric] refl refl, unfolded q t]
  obtain p s' where "fst (require_caller sample_env st 5 sample_request sample_auth) = Inr p"
    "principal_allows p SCOPE_RUNTIME None"
    "''docs.read'' \<in> effective_permissions (sql_repository managed_db) ''t'' ''a'' (to_subject s') None (Some sample_refs)"
    by auto
  then show ?thesis using st e a by fastforce
qed

text \<open>C17: the bulk endpoint answers and audits like the single one. When \<^verbatim>\<open>POST /v1/bulk-authorize\<close> answers, it
  has one result per check, in order, and each is what \<^verbatim>\<open>POST /v1/authorize\<close> answers the same caller for
  that check alone; the only change to the database is that exactly the denials (every decision, when
  all are audited) were appended to the audit log, with their reason and the resolved tenant.\<close>

theorem bulk_endpoint_agrees:
  assumes "bulk_authorize_endpoint env st now new rq b ds (au, db) = (Inr rs, au', db')"
    and "nid \<notin> al_id ` set (db_audit db)"
    and "(refs, s) = resolve_decision_refs db (bb_tenant_id b) (bb_application_id b) (bb_subject b)"
  shows "length rs = length (bb_checks b) \<and>
    (\<forall>i < length rs. (br_resource (rs ! i), br_action (rs ! i)) = bb_checks b ! i \<and>
       (\<exists>r db1. authorize_endpoint env st now nid uuid rq
            \<lparr>ab_tenant_id = bb_tenant_id b, ab_application_id = bb_application_id b, ab_subject = bb_subject b,
             ab_resource = br_resource (rs ! i), ab_action = br_action (rs ! i), ab_context = bb_context b\<rparr>
            ds (au, db) = (Inr r, au', db1) \<and>
          rsp_allowed r = br_allowed (rs ! i) \<and> rsp_reason r = br_reason (rs ! i))) \<and>
    (\<exists>rows. db' = db\<lparr>db_audit := db_audit db @ rows\<rparr> \<and>
       map (\<lambda>r. (ae_resource (al_entry r), ae_action (al_entry r), ae_reason (al_entry r), ae_tenant_id (al_entry r))) rows =
       map (\<lambda>r. (br_resource r, br_action r, br_reason r, Some (ref_tenant_id refs)))
         (filter (\<lambda>r. \<not> br_allowed r \<or> cfg_audit_all_decisions st) rs))"
proof -
  let ?rid = "dict_get (rq_headers rq) ''X-Request-Id''" and ?tok = "dict_get (rq_headers rq) ''X-Delegation-Token''"
  obtain p q where c: "require_caller env st now rq au = (Inr p, au')" "require_runtime p = Inr q"
    and v: "subject_valid (bb_subject b) = Inr ()"
    and h: "bulk_authorize_handler env st now new ?rid ?tok b ds q db = Inr (rs, db')"
    using surface_route_Inr [OF assms(1) [unfolded bulk_authorize_endpoint_def]] by blast
  from bulk_authorize_handler_Inr [OF h assms(3)] obtain dl dd entry
    where 1: "enforce_tenant_scope_binding q (ref_tenant_id refs) = Inr ()"
    and 2: "apply_delegation env st now ds ?tok (ref_tenant_id refs) (ref_application_id refs) s = Inr dl"
    and 3: "res_map (\<lambda>c. decide_check db refs dl (single_body b c)) (bb_checks b) = Inr dd"
    and 4: "rs = map (\<lambda>(c, d). bulk_result_of c d) (zip (bb_checks b) dd)"
    and 5: "res_fold (\<lambda>(i, c, d). audit_sink_write st (new i) now (entry c d) ?rid)
        (enumerated (zip (bb_checks b) dd)) db = Inr db'"
    and 6: "\<And>c d. ae_decision (entry c d) = dec_decision d \<and> ae_reason (entry c d) = dec_reason d \<and>
      ae_resource (entry c d) = fst c \<and> ae_action (entry c d) = snd c \<and>
      ae_tenant_id (entry c d) = Some (ref_tenant_id refs)" by blast
  have len: "length dd = length (bb_checks b)" by (rule res_map_length [OF 3])
  have nth: "decide_check db refs dl (single_body b (bb_checks b ! i)) = Inr (dd ! i)" if "i < length dd" for i
    using res_map_nth [OF 3] that len by simp
  have dec: "\<forall>(i, c, d) \<in> set (enumerated (zip (bb_checks b) dd)). dec_decision d = ''allow'' \<longleftrightarrow> dec_allowed d"
    using nth decide_check_decision by (fastforce simp: enumerated_def set_zip)
  have rs: "rs ! i = bulk_result_of (bb_checks b ! i) (dd ! i)" if "i < length dd" for i
    using that len by (simp add: 4)
  have each: "(br_resource (rs ! i), br_action (rs ! i)) = bb_checks b ! i \<and>
      (\<exists>r db1. authorize_endpoint env st now nid uuid rq
          \<lparr>ab_tenant_id = bb_tenant_id b, ab_application_id = bb_application_id b, ab_subject = bb_subject b,
           ab_resource = br_resource (rs ! i), ab_action = br_action (rs ! i), ab_context = bb_context b\<rparr>
          ds (au, db) = (Inr r, au', db1) \<and>
        rsp_allowed r = br_allowed (rs ! i) \<and> rsp_reason r = br_reason (rs ! i))" if "i < length rs" for i
  proof -
    have i: "i < length dd" using that len by (simp add: 4)
    let ?b = "single_body b (bb_checks b ! i)"
    have r: "(refs, s) = resolve_decision_refs db (ab_tenant_id ?b) (ab_application_id ?b) (ab_subject ?b)"
      using assms(3) by (simp add: single_body_def)
    obtain db1 where "authorize_handler env st now nid uuid ?rid ?tok ?b ds q db = Inr (response_of (dd ! i), db1)"
      using authorize_handler_decides [OF 1 2 r nth [OF i] assms(2)] by blast
    then have "authorize_endpoint env st now nid uuid rq ?b ds (au, db) = (Inr (response_of (dd ! i)), au', db1)"
      using c v by (simp add: authorize_endpoint_def surface_route_def single_body_def)
    then show ?thesis
      by (simp add: rs [OF i] bulk_result_of_def single_body_def response_of_def)
  qed
  have keys: "map (\<lambda>(i, c, d). (fst c, snd c, dec_reason d, Some (ref_tenant_id refs)))
      (filter (\<lambda>(i, c, d). \<not> dec_allowed d \<or> cfg_audit_all_decisions st) (enumerated xs)) =
    map (\<lambda>r. (br_resource r, br_action r, br_reason r, Some (ref_tenant_id refs)))
      (filter (\<lambda>r. \<not> br_allowed r \<or> cfg_audit_all_decisions st) (map (\<lambda>(c, d). bulk_result_of c d) xs))" for xs
    by (rule enumerated_results)
  show ?thesis
    using audit_loop [OF 6 dec 5] each len unfolding keys by (auto simp: 4)
qed

definition sample_bulk :: bulk_body where
  "sample_bulk =
     \<lparr>bb_tenant_id = ''acme'', bb_application_id = ''docs'', bb_subject = ab_subject sample_body,
      bb_checks = [(''docs'', ''read''), (''docs'', ''write'')], bb_context = []\<rparr>"

lemma sample_bulk_decisions:
  "bulk_authorize (sql_repository managed_db) no_rules
     \<lparr>bulk_tenant_id = ''t'', bulk_application_id = ''a'', bulk_subject = to_subject (ab_subject sample_body),
      bulk_checks = [(''docs'', ''read''), (''docs'', ''write'')], bulk_context = [], bulk_delegated = None,
      bulk_references = Some sample_refs\<rparr> =
     Inr [allow ''docs.read'' {''docs.read''}, deny ''missing_permission'' ''docs.write'']"
proof -
  have m: "sql_is_user_membership_active managed_db ''t'' ''a'' ''u''"
    by (simp add: sql_is_user_membership_active_def sql_find_membership_def managed_db_def sample_db_def
        empty_db_def MEMBERSHIP_STATUS_ACTIVE_def)
  have k: "sql_resolve_tenant_permissions managed_db ''t'' ''a'' = {}"
    by (simp add: sql_resolve_tenant_permissions_def managed_db_def sample_db_def empty_db_def)
  show ?thesis
    unfolding bulk_authorize_map
    by (simp add: authorize_def inactive_def sample_refs_def resolve_user_def membership_active_def user_missing_def
        agent_missing_def sql_repository_def m k sample_user_permissions to_subject_def sample_body_def SUBJECT_USER_def
        required_permission_def join_dot_def apply_mask_def Let_def)
qed

lemma sample_bulk_answer:
  assumes "\<not> cfg_dev_mode st" "cfg_api_keys st = []" "\<not> cfg_audit_all_decisions st" "\<not> cfg_delegation_required st"
  shows "\<exists>au' db'. bulk_authorize_endpoint sample_env st 5 (\<lambda>_. ''n'') sample_request sample_bulk no_delegations
     (sample_auth, managed_db) =
     (Inr [bulk_result_of (''docs'', ''read'') (allow ''docs.read'' {''docs.read''}),
           bulk_result_of (''docs'', ''write'') (deny ''missing_permission'' ''docs.write'')], au', db')"
proof -
  let ?p = "KeyPrincipal (ak_to_record (sample_key\<lparr>ak_last_used_at := Some 5\<rparr>))"
  obtain au' where c: "require_caller sample_env st 5 sample_request sample_auth = (Inr ?p, au')"
    using sample_caller [OF assms(1, 2)] by blast
  have h: "\<exists>db'. bulk_authorize_handler sample_env st 5 (\<lambda>_. ''n'') None None sample_bulk no_delegations ?p managed_db =
      Inr ([bulk_result_of (''docs'', ''read'') (allow ''docs.read'' {''docs.read''}),
        bulk_result_of (''docs'', ''write'') (deny ''missing_permission'' ''docs.write'')], db')"
    using sample_principal(2) sample_no_delegation [OF assms(4)] sample_bulk_decisions sample_resolved
    by (simp add: bulk_authorize_handler_def sample_bulk_def sample_body_def sample_refs_def delegation_deny_def
        audit_sink_write_def write_audit_def assms(3) enumerated_def tbl_insert_def managed_db_def sample_db_def
        empty_db_def upt_rec Let_def)
  then show ?thesis
    using c sample_principal(1)
    by (auto simp: bulk_authorize_endpoint_def surface_route_def subject_valid_def user_ref_valid_def one_form_def
        sample_bulk_def sample_body_def sample_request_def)
qed

theorem bulk_endpoint_agrees_witness:
  "\<exists>st rs db'. load_settings [] = Inr st \<and>
     (\<exists>au'. bulk_authorize_endpoint sample_env st 5 (\<lambda>_. ''n'') sample_request sample_bulk no_delegations
       (sample_auth, managed_db) = (Inr rs, au', db')) \<and> length rs = 2 \<and>
     map (ae_reason \<circ> al_entry) (db_audit db') = [''missing_permission'']"
proof -
  obtain st where st: "load_settings [] = Inr st" and o: "\<not> cfg_dev_mode st" "cfg_api_keys st = []"
    "\<not> cfg_audit_all_decisions st" "\<not> cfg_delegation_required st" using load_defaults by blast
  let ?rs = "[bulk_result_of (''docs'', ''read'') (allow ''docs.read'' {''docs.read''}),
     bulk_result_of (''docs'', ''write'') (deny ''missing_permission'' ''docs.write'')]"
  obtain au' db' where e: "bulk_authorize_endpoint sample_env st 5 (\<lambda>_. ''n'') sample_request sample_bulk
     no_delegations (sample_auth, managed_db) = (Inr ?rs, au', db')" using sample_bulk_answer [OF o] by blast
  have n: "''x'' \<notin> al_id ` set (db_audit managed_db)" "db_audit managed_db = []"
    by (simp_all add: managed_db_def sample_db_def empty_db_def)
  have r: "(sample_refs, ab_subject sample_body) =
      resolve_decision_refs managed_db (bb_tenant_id sample_bulk) (bb_application_id sample_bulk) (bb_subject sample_bulk)"
    using sample_resolved by (simp add: sample_bulk_def sample_body_def)
  from conjunct2 [OF conjunct2 [OF bulk_endpoint_agrees [where uuid = "''y''", OF e n(1) r]]] obtain rows where
    "db' = managed_db\<lparr>db_audit := db_audit managed_db @ rows\<rparr>" and
    "map (\<lambda>r. (ae_resource (al_entry r), ae_action (al_entry r), ae_reason (al_entry r), ae_tenant_id (al_entry r))) rows =
      [(''docs'', ''write'', ''missing_permission'', Some ''t'')]"
    by (auto simp: bulk_result_of_def o(3) sample_refs_def)
  then have "map (ae_reason \<circ> al_entry) (db_audit db') = [''missing_permission'']" using n(2) by auto
  then show ?thesis using st e by (auto simp: numeral_2_eq_2)
qed

text \<open>The callers of one tenant: pinned to it, or with tenant scopes of no other tenant and no wider scope.\<close>

definition confined_to :: "principal \<Rightarrow> ident \<Rightarrow> bool" where
  "confined_to p T \<longleftrightarrow>
     principal_tenant_id p = Some T \<or>
     SCOPE_ADMIN \<notin> set (principal_scopes p) \<and> SCOPE_RUNTIME \<notin> set (principal_scopes p) \<and>
     (\<forall>t. tenant_scope t \<in> set (principal_scopes p) \<longrightarrow> t = T)"

lemma confined_binding:
  "\<lbrakk>confined_to p T; t \<noteq> T\<rbrakk> \<Longrightarrow>
     enforce_tenant_scope_binding p t = Inl (HTTPException 403 ''tenant_scope_mismatch'')"
  by (auto simp: confined_to_def enforce_tenant_scope_binding_def tenant_scope_matches_def split: option.splits)

text \<open>C14: a caller of one tenant cannot probe for others. Whatever reference it sends that does not name its
  own tenant, existing or not, \<^verbatim>\<open>require_bound_tenant\<close> and the three decision handlers answer
  \<^verbatim>\<open>tenant_scope_mismatch\<close>: the answer is the same for any two databases, so it carries no information
  about the tenants, users and agents in them, and nothing is written.\<close>

theorem no_tenant_probe:
  assumes "confined_to p T" and "ref \<noteq> T"
    and "\<forall>t. sql_find_tenant db ref = Some t \<longrightarrow> tenant_id t \<noteq> T"
    and "ab_tenant_id b = ref" and "bb_tenant_id bb = ref"
  shows "let refused = HTTPException 403 ''tenant_scope_mismatch'' in
    require_bound_tenant db ref p = Inl refused \<and>
    authorize_handler env st now nid uuid rid token b ds p db = Inl refused \<and>
    bulk_authorize_handler env st now new rid token bb ds p db = Inl refused \<and>
    effective_permissions_handler env st now token ref aref subj ds p db = Inl refused"
proof -
  let ?t = "case sql_find_tenant db ref of None \<Rightarrow> ref | Some t \<Rightarrow> tenant_id t"
  have b: "enforce_tenant_scope_binding p ?t = Inl (HTTPException 403 ''tenant_scope_mismatch'')"
    using assms(1-3) by (intro confined_binding) (auto split: option.splits)
  have r: "ref_tenant_id (fst (resolve_decision_refs db ref a s)) = ?t" for a s
    by (simp add: resolve_decision_refs_def resolve_references_def Let_def split: prod.splits)
  have "enforce_tenant_scope_binding p (ref_tenant_id refs) = Inl (HTTPException 403 ''tenant_scope_mismatch'')"
    if "resolve_decision_refs db ref a s = (refs, s')" for a s refs s'
    using that b r [of a s] by simp
  then show ?thesis
    using b assms(4, 5)
    by (simp add: require_bound_tenant_def authorize_handler_def bulk_authorize_handler_def
        effective_permissions_handler_def Let_def split: prod.splits)
qed

definition tenant_caller :: principal where
  "tenant_caller = Session \<lparr>sp_subject = ''s'', sp_email = None, sp_scopes = [''tenant:other''], sp_session_id = ''1'',
     sp_csrf_token = ''c'', sp_issuer = None\<rparr>"

theorem no_tenant_probe_witness:
  "require_bound_tenant managed_db ''acme'' tenant_caller = Inl (HTTPException 403 ''tenant_scope_mismatch'') \<and>
   require_bound_tenant managed_db ''nobody'' tenant_caller = Inl (HTTPException 403 ''tenant_scope_mismatch'')"
proof -
  have c: "confined_to tenant_caller ''other''"
    by (simp add: confined_to_def tenant_caller_def tenant_scope_def SCOPE_ADMIN_def SCOPE_RUNTIME_def)
  have f: "\<forall>t. sql_find_tenant managed_db ''acme'' = Some t \<longrightarrow> tenant_id t \<noteq> ''other''"
    "\<forall>t. sql_find_tenant managed_db ''nobody'' = Some t \<longrightarrow> tenant_id t \<noteq> ''other''"
    by (simp_all add: sql_find_tenant_def by_id_or_slug_def managed_db_def)
  have d: "''acme'' \<noteq> ''other''" "''nobody'' \<noteq> ''other''" by simp_all
  have n: "ab_tenant_id (sample_body\<lparr>ab_tenant_id := x\<rparr>) = x" "bb_tenant_id (sample_bulk\<lparr>bb_tenant_id := x\<rparr>) = x" for x
    by simp_all
  show ?thesis
    using conjunct1 [OF no_tenant_probe [OF c d(1) f(1) n(1) n(2), unfolded Let_def]]
      conjunct1 [OF no_tenant_probe [OF c d(2) f(2) n(1) n(2), unfolded Let_def]] by (rule conjI)
qed

end
