(* ===== verification/Delegations_Api.thy ===== *)
theory Delegations_Api
  imports Decisions_Api
begin

text \<open>
  The delegation endpoints of \<^verbatim>\<open>authz_service/api/delegations.py\<close>: issuing a grant for what an agent may do
  for a user, listing, reading, introspecting and revoking grants. The handlers read the database and
  change the delegation service; a generated grant id and the key pair a generation would draw are
  arguments.
\<close>

section \<open>Bodies\<close>

record delegation_in =
  di_tenant_id :: string
  di_application_id :: string
  di_user_id :: "ident option"
  di_user_ref :: "user_ref option"
  di_agent_id :: "ident option"
  di_agent_name :: "string option"
  di_permissions :: "string list option"
  di_ttl_seconds :: "int option"
  di_purpose :: "string option"

definition delegation_in_valid :: "delegation_in \<Rightarrow> (http_error, unit) result" where
  "delegation_in_valid b =
     (if (case di_ttl_seconds b of None \<Rightarrow> False | Some t \<Rightarrow> t < 1) then Inl (HTTPException 422 ''greater_than_equal'')
      else if (case di_purpose b of None \<Rightarrow> False | Some p \<Rightarrow> 1024 < length p)
      then Inl (HTTPException 422 ''string_too_long'')
      else res_bind (user_ref_valid (di_user_ref b)) (\<lambda>_.
           res_bind (one_form (di_user_id b) (di_user_ref b) True) (\<lambda>_.
           one_form (di_agent_id b) (di_agent_name b) True)))"

record revoke_in =
  ri_tenant_id :: string
  ri_application_id :: "string option"
  ri_user_id :: "ident option"
  ri_user_ref :: "user_ref option"
  ri_agent_id :: "ident option"
  ri_agent_name :: "string option"

definition revoke_in_valid :: "revoke_in \<Rightarrow> (http_error, unit) result" where
  "revoke_in_valid b =
     res_bind (user_ref_valid (ri_user_ref b)) (\<lambda>_.
     res_bind (one_form (ri_user_id b) (ri_user_ref b) False) (\<lambda>_.
     res_bind (one_form (ri_agent_id b) (ri_agent_name b) False) (\<lambda>_.
     if ri_agent_name b \<noteq> None \<and> ri_application_id b = None then Inl (HTTPException 422 ''value_error'') else Inr ())))"

record delegation_out =
  out_id :: ident
  out_tenant_id :: ident
  out_application_id :: ident
  out_user_id :: ident
  out_agent_id :: ident
  out_permissions :: "string list"
  out_purpose :: "string option"
  out_issued_by :: "string option"
  out_status :: string
  out_active :: bool
  out_expires_at :: instant
  out_revoked_at :: "instant option"
  out_created_at :: "instant option"

definition grant_out :: "instant \<Rightarrow> delegation_grant \<Rightarrow> delegation_out" where
  "grant_out now g =
     \<lparr>out_id = gr_id g, out_tenant_id = gr_tenant_id g, out_application_id = gr_application_id g,
      out_user_id = gr_user_id g, out_agent_id = gr_agent_id g,
      out_permissions = sorted_list_of_set (gr_permissions g), out_purpose = gr_purpose g,
      out_issued_by = gr_issued_by g, out_status = gr_status g, out_active = grant_active g now,
      out_expires_at = gr_expires_at g, out_revoked_at = gr_revoked_at g, out_created_at = gr_created_at g\<rparr>"

section \<open>POST /v1/delegations\<close>

text \<open>The parties of a grant, in the order of the checks: agent, then the user's membership, then the
  agent's status.\<close>

definition grant_parties ::
  "sql_db \<Rightarrow> principal \<Rightarrow> delegation_in \<Rightarrow> (http_error, ident \<times> ident \<times> ident \<times> ident) result" where
  "grant_parties db p b =
     res_bind (require_bound_tenant db (di_tenant_id b) p) (\<lambda>t.
     res_bind (require_application db (di_application_id b)) (\<lambda>a.
     res_bind (case di_user_ref b of None \<Rightarrow> Inr (di_user_id b)
               | Some r \<Rightarrow> res_bind (require_user_id db r) (\<lambda>u. Inr (Some u))) (\<lambda>uid.
     res_bind (case di_agent_name b of None \<Rightarrow> Inr (di_agent_id b)
               | Some n \<Rightarrow> res_bind (require_agent_id db (tenant_id t) (app_id a) n) (\<lambda>g. Inr (Some g))) (\<lambda>agid.
     case agid of
       None \<Rightarrow> Inl (HTTPException 404 ''agent_not_found'')
     | Some gid \<Rightarrow>
         (case sql_get_agent db (tenant_id t) (app_id a) gid of
            None \<Rightarrow> Inl (HTTPException 404 ''agent_not_found'')
          | Some g \<Rightarrow>
              (case uid of
                 None \<Rightarrow> Inl (HTTPException 409 ''no_active_user_membership'')
               | Some u \<Rightarrow>
                   if \<not> sql_is_user_membership_active db (tenant_id t) (app_id a) u
                   then Inl (HTTPException 409 ''no_active_user_membership'')
                   else if agent_status g \<noteq> ''active'' then Inl (HTTPException 409 ''agent_not_active'')
                   else Inr (tenant_id t, app_id a, u, gid)))))))"

definition grant_ttl :: "settings \<Rightarrow> delegation_in \<Rightarrow> (http_error, int) result" where
  "grant_ttl st b =
     (let ttl = (case di_ttl_seconds b of None \<Rightarrow> cfg_delegation_default_ttl_seconds st
                 | Some t \<Rightarrow> if t = 0 then cfg_delegation_default_ttl_seconds st else t) in
      if cfg_delegation_max_ttl_seconds st < ttl then Inl (HTTPException 400 ''ttl_too_long'') else Inr ttl)"

definition grant_permissions :: "sql_db \<Rightarrow> ident \<Rightarrow> ident \<Rightarrow> ident \<Rightarrow> ident \<Rightarrow> delegation_in \<Rightarrow> (http_error, string set) result" where
  "grant_permissions db tid aid uid agid b =
     (let available = effective_permissions (sql_repository db) tid aid
            \<lparr>subj_type = SUBJECT_AGENT, subj_user_id = Some uid, subj_agent_id = Some agid,
             subj_service_account_id = None\<rparr> None None in
      case di_permissions b of
        None \<Rightarrow> Inr available
      | Some ps \<Rightarrow>
          if set ps - available \<noteq> {} then Inl (HTTPException 403 ''permissions_not_delegable'') else Inr (set ps))"

definition create_delegation ::
  "('key, 'net) auth_env \<Rightarrow> string jwt_encode \<Rightarrow> string \<times> (string \<times> string) \<Rightarrow> settings \<Rightarrow> instant \<Rightarrow> ident \<Rightarrow>
     delegation_in \<Rightarrow> sql_db \<Rightarrow> principal \<Rightarrow> delegation_service \<Rightarrow>
     (http_error, (delegation_out \<times> string) \<times> delegation_service) result" where
  "create_delegation env enc gen st now gid b db p ds =
     res_bind (grant_parties db p b) (\<lambda>(tid, aid, uid, agid).
     res_bind (grant_ttl st b) (\<lambda>ttl.
     res_bind (grant_permissions db tid aid uid agid b) (\<lambda>requested.
       let issue = (\<lambda>ds'. delegation_issue enc (ae_hash env) (ae_rsa env) gen now ds' gid tid aid uid agid
             (sorted_list_of_set requested) (ttl * 1000000) (di_purpose b) (Some (principal_subject_label p)));
           answer = (\<lambda>r. case r of Inl _ \<Rightarrow> Inl InternalError
             | Inr ((g, token), ds') \<Rightarrow> Inr ((grant_out now g, token), ds')) in
       case issue ds of
         Inl (SigningFailed SigningKeyError) \<Rightarrow>
           if \<not> starts_with ''sqlite'' (cfg_database_url st) then Inl (HTTPException 503 ''signing_key_unavailable'')
           else (case generate_if_missing (ae_hash env) (ae_rsa env) gen now (ds_keys ds) of
                   Inl _ \<Rightarrow> Inl InternalError
                 | Inr (_, keys) \<Rightarrow> answer (issue (ds\<lparr>ds_keys := keys\<rparr>)))
       | r \<Rightarrow> answer r)))"

definition create_delegation_endpoint ::
  "('key, 'net) auth_env \<Rightarrow> string jwt_encode \<Rightarrow> string \<times> (string \<times> string) \<Rightarrow> settings \<Rightarrow> instant \<Rightarrow> ident \<Rightarrow>
     http_request \<Rightarrow> delegation_in \<Rightarrow> sql_db \<Rightarrow> 'net auth_state \<times> delegation_service \<Rightarrow>
     (http_error, delegation_out \<times> string) result \<times> 'net auth_state \<times> delegation_service" where
  "create_delegation_endpoint env enc gen st now gid rq b db =
     surface_route require_runtime env st now rq (delegation_in_valid b)
       (create_delegation env enc gen st now gid b db)"

section \<open>GET /v1/delegations\<close>

record delegation_query =
  dq_tenant_id :: "string option"
  dq_user_id :: "ident option"
  dq_user_provider :: "string option"
  dq_user_issuer :: "string option"
  dq_user_subject :: "string option"
  dq_application_id :: "string option"
  dq_agent_id :: "ident option"
  dq_agent_name :: "string option"
  dq_active_only :: bool
  dq_page :: int
  dq_page_size :: int

text \<open>The user reference of a query: none, complete, or an error. The schema it is built into refuses
  empty fields outside of a request body, which no handler catches.\<close>

definition query_user_ref :: "delegation_query \<Rightarrow> (http_error, user_ref option) result" where
  "query_user_ref q =
     (case (dq_user_provider q, dq_user_issuer q, dq_user_subject q) of
        (None, None, None) \<Rightarrow> Inr None
      | (Some pr, Some i, Some s) \<Rightarrow>
          if dq_user_id q \<noteq> None then Inl (HTTPException 422 ''invalid_user_ref'')
          else if pr = '''' \<or> i = '''' \<or> s = '''' then Inl InternalError
          else Inr (Some (pr, i, s))
      | _ \<Rightarrow> Inl (HTTPException 422 ''invalid_user_ref''))"

definition query_agent_ref :: "delegation_query \<Rightarrow> (http_error, (string \<times> string) option) result" where
  "query_agent_ref q =
     (case dq_agent_name q of
        None \<Rightarrow> Inr None
      | Some n \<Rightarrow>
          (case (dq_agent_id q, dq_tenant_id q, dq_application_id q) of
             (None, Some _, Some a) \<Rightarrow> Inr (Some (a, n))
           | _ \<Rightarrow> Inl (HTTPException 422 ''invalid_agent_ref'')))"

definition list_delegations ::
  "instant \<Rightarrow> delegation_query \<Rightarrow> sql_db \<Rightarrow> delegation_service \<Rightarrow> (http_error, delegation_out list) result" where
  "list_delegations now q db ds =
     res_bind (query_user_ref q) (\<lambda>uref.
     res_bind (query_agent_ref q) (\<lambda>gref.
     res_bind (case dq_tenant_id q of None \<Rightarrow> Inr None
               | Some r \<Rightarrow> if r = '''' then Inr None else res_bind (require_tenant db r) (\<lambda>t. Inr (Some t))) (\<lambda>tn.
       let uid = (case uref of None \<Rightarrow> dq_user_id q | Some r \<Rightarrow> find_user_id db r);
           agid = (case gref of None \<Rightarrow> dq_agent_id q
             | Some (aref, n) \<Rightarrow>
                 (case (sql_find_application db aref, tn) of
                    (Some a, Some t) \<Rightarrow> find_agent_id db (tenant_id t) (app_id a) n
                  | _ \<Rightarrow> None)) in
       if uref \<noteq> None \<and> uid = None then Inr []
       else if gref \<noteq> None \<and> agid = None then Inr []
       else (let (offset, limit) = paginate_params (dq_page q) (dq_page_size q) in
             Inr (map (grant_out now) (delegation_list ds now (map_option tenant_id tn) uid agid
               (dq_active_only q) (nat offset) (nat limit)))))))"

section \<open>Revocation, introspection and reading\<close>

definition revoke_delegations ::
  "instant \<Rightarrow> revoke_in \<Rightarrow> sql_db \<Rightarrow> principal \<Rightarrow> delegation_service \<Rightarrow> (http_error, nat \<times> delegation_service) result" where
  "revoke_delegations now b db p ds =
     res_bind (require_bound_tenant db (ri_tenant_id b) p) (\<lambda>t.
     res_bind (case ri_user_ref b of None \<Rightarrow> Inr (ri_user_id b)
               | Some r \<Rightarrow> res_bind (require_user_id db r) (\<lambda>u. Inr (Some u))) (\<lambda>uid.
     res_bind (case ri_agent_name b of None \<Rightarrow> Inr (ri_agent_id b)
               | Some n \<Rightarrow>
                   (case ri_application_id b of
                      None \<Rightarrow> Inl InternalError
                    | Some aref \<Rightarrow> res_bind (require_application db aref) (\<lambda>a.
                        res_bind (require_agent_id db (tenant_id t) (app_id a) n) (\<lambda>g. Inr (Some g))))) (\<lambda>agid.
     Inr (delegation_revoke_matching ds now (tenant_id t) uid agid))))"

text \<open>The answer to an introspection: inactive with a reason, or the grant.\<close>

definition introspect_delegation ::
  "('key, 'net) auth_env \<Rightarrow> instant \<Rightarrow> string \<Rightarrow> principal \<Rightarrow> delegation_service \<Rightarrow>
     (http_error, string + delegation_out) result" where
  "introspect_delegation env now token p ds =
     (case delegation_verify (ae_repr env) (ae_lib env) (ae_hash env) (ae_rsa env) now ds token of
        Inl (DelegationError reason) \<Rightarrow> Inr (Inl (reason_code reason))
      | Inl _ \<Rightarrow> Inl InternalError
      | Inr g \<Rightarrow> res_bind (enforce_tenant_scope_binding p (gr_tenant_id g)) (\<lambda>_. Inr (Inr (grant_out now g))))"

definition grant_for_caller :: "ident \<Rightarrow> principal \<Rightarrow> delegation_service \<Rightarrow> (http_error, delegation_grant) result" where
  "grant_for_caller gid p ds =
     (case delegation_get ds gid of
        None \<Rightarrow> Inl (HTTPException 404 ''delegation_not_found'')
      | Some g \<Rightarrow> res_bind (enforce_tenant_scope_binding p (gr_tenant_id g)) (\<lambda>_. Inr g))"

definition get_delegation ::
  "instant \<Rightarrow> ident \<Rightarrow> principal \<Rightarrow> delegation_service \<Rightarrow> (http_error, delegation_out) result" where
  "get_delegation now gid p ds = res_bind (grant_for_caller gid p ds) (\<lambda>g. Inr (grant_out now g))"

definition revoke_delegation ::
  "instant \<Rightarrow> ident \<Rightarrow> principal \<Rightarrow> delegation_service \<Rightarrow> (http_error, unit \<times> delegation_service) result" where
  "revoke_delegation now gid p ds =
     res_bind (grant_for_caller gid p ds) (\<lambda>_. Inr ((), snd (delegation_revoke ds now gid)))"

definition delegation_jwks ::
  "('key, 'net) auth_env \<Rightarrow> delegation_service \<Rightarrow> (http_error, pydict list) result" where
  "delegation_jwks env ds =
     (case all_public_jwks (ae_hash env) (ae_rsa env) (ds_keys ds) of Inl _ \<Rightarrow> Inl InternalError | Inr ks \<Rightarrow> Inr ks)"

section \<open>Lemmas\<close>

lemma require_bound_tenant_Inr:
  "require_bound_tenant db ref p = Inr t \<longleftrightarrow>
     sql_find_tenant db ref = Some t \<and> enforce_tenant_scope_binding p (tenant_id t) = Inr ()"
  by (auto simp: require_bound_tenant_def res_bind_eq_Inr Let_def split: option.splits)

lemma grant_parties_Inr:
  assumes "grant_parties db p b = Inr (tid, aid, uid, agid)"
  shows "enforce_tenant_scope_binding p tid = Inr () \<and> sql_is_user_membership_active db tid aid uid \<and>
    sql_is_agent_active db tid aid agid \<and>
    (\<exists>t a. sql_find_tenant db (di_tenant_id b) = Some t \<and> tenant_id t = tid \<and>
       sql_find_application db (di_application_id b) = Some a \<and> app_id a = aid)"
proof -
  from assms [unfolded grant_parties_def res_bind_eq_Inr]
  obtain t a uid' agid' where t: "require_bound_tenant db (di_tenant_id b) p = Inr t"
    and a: "require_application db (di_application_id b) = Inr a"
    and r: "(case agid' of None \<Rightarrow> Inl (HTTPException 404 ''agent_not_found'')
      | Some gid \<Rightarrow> (case sql_get_agent db (tenant_id t) (app_id a) gid of
            None \<Rightarrow> Inl (HTTPException 404 ''agent_not_found'')
          | Some g \<Rightarrow> (case uid' of None \<Rightarrow> Inl (HTTPException 409 ''no_active_user_membership'')
               | Some u \<Rightarrow>
                   if \<not> sql_is_user_membership_active db (tenant_id t) (app_id a) u
                   then Inl (HTTPException 409 ''no_active_user_membership'')
                   else if agent_status g \<noteq> ''active'' then Inl (HTTPException 409 ''agent_not_active'')
                   else Inr (tenant_id t, app_id a, u, gid)))) = Inr (tid, aid, uid, agid)"
    by blast
  have "tenant_id t = tid \<and> app_id a = aid \<and> sql_is_user_membership_active db tid aid uid \<and>
      sql_is_agent_active db tid aid agid"
    using r by (auto simp: sql_is_agent_active_def split: option.splits if_splits)
  moreover have "sql_find_application db (di_application_id b) = Some a"
    using a by (auto simp: require_application_def split: option.splits)
  ultimately show ?thesis using t unfolding require_bound_tenant_Inr by blast
qed

lemma grant_ttl_Inr: "grant_ttl st b = Inr ttl \<Longrightarrow> ttl \<le> cfg_delegation_max_ttl_seconds st"
  by (auto simp: grant_ttl_def Let_def split: if_splits option.splits)

lemma finite_sql_effective: "finite (effective_permissions (sql_repository db) t a s d refs)"
proof -
  have "finite (sql_resolve_user_permissions db t a u)" for u
    by (simp add: sql_resolve_user_permissions_def Let_def)
  then have "finite (effective_permissions_undelegated (sql_repository db) t a s refs)"
    using finite_subset [OF apply_mask_subset]
    by (auto simp: effective_permissions_undelegated_def sql_repository_def split: option.splits)
  then show ?thesis
    using finite_subset [OF effective_subset_undelegated] by (simp add: effective_permissions_def)
qed

lemma create_delegation_Inr:
  assumes "create_delegation env enc gen st now gid b db p ds = Inr ((out, token), ds')"
  obtains tid aid uid agid ttl requested ds1 g where "grant_parties db p b = Inr (tid, aid, uid, agid)"
    and "grant_ttl st b = Inr ttl" and "grant_permissions db tid aid uid agid b = Inr requested"
    and "delegation_issue enc (ae_hash env) (ae_rsa env) gen now ds1 gid tid aid uid agid
      (sorted_list_of_set requested) (ttl * 1000000) (di_purpose b) (Some (principal_subject_label p)) =
      Inr ((g, token), ds')"
    and "ds_rows ds1 = ds_rows ds" and "out = grant_out now g"
proof -
  from assms [unfolded create_delegation_def res_bind_eq_Inr]
  obtain tid aid uid agid ttl requested where 1: "grant_parties db p b = Inr (tid, aid, uid, agid)"
    "grant_ttl st b = Inr ttl" "grant_permissions db tid aid uid agid b = Inr requested"
    and c: "create_delegation env enc gen st now gid b db p ds = Inr ((out, token), ds')"
    using assms by (auto simp: res_bind_eq_Inr)
  let ?issue = "\<lambda>ds'. delegation_issue enc (ae_hash env) (ae_rsa env) gen now ds' gid tid aid uid agid
    (sorted_list_of_set requested) (ttl * 1000000) (di_purpose b) (Some (principal_subject_label p))"
  have "\<exists>g ds1. ?issue ds1 = Inr ((g, token), ds') \<and> ds_rows ds1 = ds_rows ds \<and> out = grant_out now g"
    using c 1
    by (auto simp: create_delegation_def Let_def split: sum.splits delegation_error.splits signing_error.splits
        if_splits prod.splits) (intro exI conjI, assumption, simp_all)
  then show ?thesis using that 1 by blast
qed

section \<open>Properties\<close>

text \<open>C15: a grant never exceeds what the agent may do for the user at that moment. When
  \<^verbatim>\<open>POST /v1/delegations\<close> answers, the caller has the runtime surface and is bound to no other tenant, the
  user's membership and the agent are active in the resolved tenant and application, the granted
  permissions are those asked for and all of them effective for the agent acting for that user (all the
  effective ones when none were listed), the lifetime is within the configured maximum, and exactly one
  row, the grant's, was added.\<close>

theorem create_delegation_sound:
  assumes "create_delegation_endpoint env enc gen st now gid rq b db (au, ds) = (Inr (out, token), au', ds')"
    and "available = effective_permissions (sql_repository db) (out_tenant_id out) (out_application_id out)
       \<lparr>subj_type = SUBJECT_AGENT, subj_user_id = Some (out_user_id out), subj_agent_id = Some (out_agent_id out),
        subj_service_account_id = None\<rparr> None None"
  shows "(\<exists>p. require_caller env st now rq au = (Inr p, au') \<and> principal_allows p SCOPE_RUNTIME None \<and>
       principal_tenant_matches p (out_tenant_id out) \<and>
       (\<forall>pin. principal_tenant_id p = Some pin \<longrightarrow> pin = out_tenant_id out)) \<and>
    sql_is_user_membership_active db (out_tenant_id out) (out_application_id out) (out_user_id out) \<and>
    sql_is_agent_active db (out_tenant_id out) (out_application_id out) (out_agent_id out) \<and>
    set (out_permissions out) \<subseteq> available \<and>
    set (out_permissions out) = (case di_permissions b of None \<Rightarrow> available | Some ps \<Rightarrow> set ps) \<and>
    out_expires_at out \<le> now + cfg_delegation_max_ttl_seconds st * 1000000 \<and>
    (\<exists>row. ds_rows ds' = ds_rows ds @ [row] \<and> dg_id row = out_id out \<and> dg_status row = ''active'' \<and>
       set (dg_permissions row) = set (out_permissions out))"
proof -
  obtain p q where c: "require_caller env st now rq au = (Inr p, au')" and q: "require_runtime p = Inr q"
    and h: "create_delegation env enc gen st now gid b db q ds = Inr ((out, token), ds')"
    using surface_route_Inr [OF assms(1) [unfolded create_delegation_endpoint_def]] by blast
  have p: "q = p" "principal_allows p SCOPE_RUNTIME None" using q unfolding require_runtime_Inr by blast+
  from create_delegation_Inr [OF h] obtain tid aid uid agid ttl requested ds1 g
    where g1: "grant_parties db p b = Inr (tid, aid, uid, agid)" and g2: "grant_ttl st b = Inr ttl"
    and g3: "grant_permissions db tid aid uid agid b = Inr requested"
    and i: "delegation_issue enc (ae_hash env) (ae_rsa env) gen now ds1 gid tid aid uid agid
      (sorted_list_of_set requested) (ttl * 1000000) (di_purpose b) (Some (principal_subject_label p)) =
      Inr ((g, token), ds')" and d: "ds_rows ds1 = ds_rows ds" and o: "out = grant_out now g"
    unfolding p by blast
  from delegation_issue_Inr [OF i] obtain row where r: "ds_rows ds' = ds_rows ds @ [row]" "g = to_grant row"
    "dg_id row = gid" "dg_status row = ''active''" "dg_user_id row = uid" "dg_agent_id row = agid"
    "dg_tenant_id row = tid" "dg_application_id row = aid"
    "dg_expires_at row = whole_seconds now * 1000000 + ttl * 1000000"
    "set (dg_permissions row) = set (sorted_list_of_set requested)" unfolding d by blast
  have out: "out_tenant_id out = tid" "out_application_id out = aid" "out_user_id out = uid" "out_agent_id out = agid"
    "out_id out = dg_id row" "out_expires_at out = dg_expires_at row"
    "set (out_permissions out) = set (dg_permissions row)"
    using r by (simp_all add: o grant_out_def to_grant_def)
  have a: "finite available" unfolding assms(2) by (rule finite_sql_effective)
  have req: "requested \<subseteq> available" "requested = (case di_permissions b of None \<Rightarrow> available | Some ps \<Rightarrow> set ps)"
    using g3 unfolding assms(2) out by (auto simp: grant_permissions_def Let_def split: option.splits if_splits)
  then have s: "set (out_permissions out) = requested" using r(10) out(7) finite_subset [OF req(1) a] by simp
  have t: "out_expires_at out \<le> now + cfg_delegation_max_ttl_seconds st * 1000000"
    using grant_ttl_Inr [OF g2] by (simp add: out r(9) whole_seconds_def)
  show ?thesis
    using c p(2) grant_parties_Inr [OF g1] req s t r(1, 4) out unfolding binding_Inr by auto
qed

definition agent_db :: sql_db where
  "agent_db = managed_db\<lparr>
     db_agents := [\<lparr>agent_id = ''g'', agent_tenant_id = ''t'', agent_application_id = ''a'', agent_name = ''bot'',
       agent_role = ''reader'', agent_status = ''active'', agent_created_by_user_id = None,
       agent_display_name = None\<rparr>],
     db_agent_roles := {(''g'', ''r'')}\<rparr>"

definition sample_delegation_in :: delegation_in where
  "sample_delegation_in =
     \<lparr>di_tenant_id = ''acme'', di_application_id = ''docs'', di_user_id = Some ''u'', di_user_ref = None,
      di_agent_id = None, di_agent_name = Some ''bot'', di_permissions = None, di_ttl_seconds = Some 60,
      di_purpose = None\<rparr>"

lemma agent_db_parties: "enforce_tenant_scope_binding p ''t'' = Inr () \<Longrightarrow>
    grant_parties agent_db p sample_delegation_in = Inr (''t'', ''a'', ''u'', ''g'')"
  by (simp add: grant_parties_def sample_delegation_in_def require_bound_tenant_def require_application_def
      require_agent_id_def find_agent_id_def sql_find_agent_by_name_def sql_find_tenant_def sql_find_application_def
      by_id_or_slug_def sql_get_agent_def tbl_get_def sql_is_user_membership_active_def sql_find_membership_def
      agent_db_def managed_db_def sample_db_def empty_db_def MEMBERSHIP_STATUS_ACTIVE_def Let_def)

lemma agent_db_answers:
  "sql_resolve_user_permissions agent_db ''t'' ''a'' ''u'' = {''docs.read''}"
  "sql_resolve_agent_permissions agent_db ''t'' ''a'' ''g'' = {''docs.read''}"
  "sql_resolve_tenant_permissions agent_db ''t'' ''a'' = {}"
  "sql_is_tenant_active agent_db ''t''" "sql_is_application_active agent_db ''a''"
  "sql_is_agent_active agent_db ''t'' ''a'' ''g''" "sql_is_user_membership_active agent_db ''t'' ''a'' ''u''"
proof -
  note db = agent_db_def managed_db_def sample_db_def sample_role_def sample_permission_def empty_db_def
  show "sql_resolve_user_permissions agent_db ''t'' ''a'' ''u'' = {''docs.read''}"
    by (simp add: sql_resolve_user_permissions_def sql_eligible_memberships_def sql_linked_roles_def
        sql_effective_role_ids_def role_overrides_def db MEMBERSHIP_STATUS_ACTIVE_def perm_active_def
        dict_get_default_def Let_def)
  show "sql_resolve_agent_permissions agent_db ''t'' ''a'' ''g'' = {''docs.read''}"
    by (simp add: sql_resolve_agent_permissions_def sql_linked_roles_def tbl_get_def
        sql_effective_role_ids_def role_overrides_def db perm_active_def dict_get_default_def Let_def)
  show "sql_resolve_tenant_permissions agent_db ''t'' ''a'' = {}"
    "sql_is_tenant_active agent_db ''t''" "sql_is_application_active agent_db ''a''"
    "sql_is_agent_active agent_db ''t'' ''a'' ''g''" "sql_is_user_membership_active agent_db ''t'' ''a'' ''u''"
    by (simp_all add: sql_resolve_tenant_permissions_def sql_is_tenant_active_def sql_is_application_active_def
        sql_is_agent_active_def sql_get_agent_def sql_is_user_membership_active_def sql_find_membership_def tbl_get_def
        db MEMBERSHIP_STATUS_ACTIVE_def)
qed

lemma agent_db_effective:
  "effective_permissions (sql_repository agent_db) ''t'' ''a''
     \<lparr>subj_type = SUBJECT_AGENT, subj_user_id = Some ''u'', subj_agent_id = Some ''g'', subj_service_account_id = None\<rparr>
     None None = {''docs.read''}"
  by (simp add: effective_permissions_def effective_permissions_undelegated_def inactive_def membership_active_def
      agent_active_def user_missing_def agent_missing_def sql_repository_def agent_db_answers apply_mask_def Let_def)

lemma sample_created:
  assumes "\<not> cfg_dev_mode st" "cfg_api_keys st = []" "cfg_delegation_max_ttl_seconds st = 86400"
  shows "\<exists>out au' ds'. create_delegation_endpoint sample_env (\<lambda>_ _ _ _. ''tok'') (''p'', (''n'', ''e'')) st 5 ''d1''
     sample_request sample_delegation_in agent_db (sample_auth, sample_delegations) = (Inr (out, ''tok''), au', ds') \<and>
     out_tenant_id out = ''t'' \<and> out_application_id out = ''a'' \<and> out_user_id out = ''u'' \<and> out_agent_id out = ''g''"
proof -
  let ?p = "KeyPrincipal (ak_to_record (sample_key\<lparr>ak_last_used_at := Some 5\<rparr>))"
  obtain au' where c: "require_caller sample_env st 5 sample_request sample_auth = (Inr ?p, au')"
    using sample_caller [OF assms(1, 2)] by blast
  have k: "active_signing_key (\<lambda>x. x) (\<lambda>_. Inl PemError) (''p'', (''n'', ''e'')) 5 sample_service =
      Inr (row_to_signing_key sample_key_row, sample_service\<lparr>ss_cached := Some (row_to_signing_key sample_key_row)\<rparr>)"
    by (rule active_key_after) (simp_all add: key_rows_ok_def unique_col_def sample_service_def sample_key_row_def)
  have r: "grant_permissions agent_db ''t'' ''a'' ''u'' ''g'' sample_delegation_in = Inr {''docs.read''}"
    by (simp add: grant_permissions_def agent_db_effective sample_delegation_in_def)
  have t: "grant_ttl st sample_delegation_in = Inr 60" using assms(3) by (simp add: grant_ttl_def sample_delegation_in_def)
  have v: "delegation_in_valid sample_delegation_in = Inr ()"
    by (simp add: delegation_in_valid_def sample_delegation_in_def user_ref_valid_def one_form_def)
  have "\<exists>out ds'. create_delegation sample_env (\<lambda>_ _ _ _. ''tok'') (''p'', (''n'', ''e'')) st 5 ''d1'' sample_delegation_in
      agent_db ?p sample_delegations = Inr ((out, ''tok''), ds') \<and> out_tenant_id out = ''t'' \<and>
      out_application_id out = ''a'' \<and> out_user_id out = ''u'' \<and> out_agent_id out = ''g''"
    unfolding create_delegation_def agent_db_parties [OF sample_principal(2)] res_bind_Inr prod.case t r Let_def
    by (simp add: delegation_issue_def sign_typed_def sample_env_def sample_delegations_def delegation_service_init_def k
        tbl_insert_def grant_out_def to_grant_def Let_def)
  then show ?thesis
    using c sample_principal(1) v by (auto simp: create_delegation_endpoint_def surface_route_def)
qed

theorem create_delegation_sound_witness:
  "\<exists>st out. load_settings [] = Inr st \<and>
     fst (create_delegation_endpoint sample_env (\<lambda>_ _ _ _. ''tok'') (''p'', (''n'', ''e'')) st 5 ''d1'' sample_request
       sample_delegation_in agent_db (sample_auth, sample_delegations)) = Inr (out, ''tok'') \<and>
     set (out_permissions out) = {''docs.read''} \<and> out_expires_at out \<le> 5 + 86400000000"
proof -
  obtain st where st: "load_settings [] = Inr st" and o: "\<not> cfg_dev_mode st" "cfg_api_keys st = []"
    "cfg_delegation_max_ttl_seconds st = 86400" using load_defaults by blast
  obtain out au' ds' where e: "create_delegation_endpoint sample_env (\<lambda>_ _ _ _. ''tok'') (''p'', (''n'', ''e'')) st 5 ''d1''
     sample_request sample_delegation_in agent_db (sample_auth, sample_delegations) = (Inr (out, ''tok''), au', ds')"
    and i: "out_tenant_id out = ''t''" "out_application_id out = ''a''" "out_user_id out = ''u''" "out_agent_id out = ''g''"
    using sample_created [OF o] by blast
  from create_delegation_sound [OF e refl, unfolded i agent_db_effective] have
    "set (out_permissions out) = {''docs.read''}" "out_expires_at out \<le> 5 + 86400000000"
    using o(3) by (auto simp: sample_delegation_in_def)
  then show ?thesis using st e by auto
qed

end
