(* ===== verification/Sdk_Client.thy ===== *)
theory Sdk_Client
  imports Delegations_Api
begin

text \<open>
  The Python client of \<^verbatim>\<open>authz_sdk/client.py\<close>: the request loop with its retries, the least-recently-used
  cache of effective permissions, and the calls. The transport (\<^verbatim>\<open>httpx\<close>) is a parameter: from its state and
  a request it gives a reply or an \<^verbatim>\<open>HTTPError\<close>. Times and back-off are in one unit, and the sleeps of a call
  are returned with its result.
\<close>

section \<open>Errors and messages\<close>

datatype sdk_error =
    AuthzServiceError nat pyval
  | AuthzClientError
  | JSONDecodeError
  | SdkRaised authz_error

record reply =
  rp_status :: nat
  rp_json :: "pyval option"
  rp_text :: string

record sdk_request =
  sr_method :: string
  sr_path :: string
  sr_body :: "pydict option"
  sr_headers :: "(string, string) dict"
  sr_params :: "pydict option"

type_synonym 'net transport = "'net \<Rightarrow> sdk_request \<Rightarrow> reply option \<times> 'net"

section \<open>The request loop\<close>

text \<open>What the loop does with a reply it does not retry.\<close>

definition finish_reply :: "reply \<Rightarrow> (sdk_error, pyval) result" where
  "finish_reply r =
     (if 400 \<le> rp_status r then
        Inl (AuthzServiceError (rp_status r) (case rp_json r of Some v \<Rightarrow> v | None \<Rightarrow> PStr (rp_text r)))
      else if rp_status r = 204 then Inr PNone
      else (case rp_json r of Some v \<Rightarrow> Inr v | None \<Rightarrow> Inl JSONDecodeError))"

text \<open>The \<^verbatim>\<open>while\<close> loop of \<^verbatim>\<open>_request\<close> from \<open>attempts\<close> on: the result, the state of the transport and the
  sleeps.\<close>

function request_loop ::
  "'net transport \<Rightarrow> int \<Rightarrow> int \<Rightarrow> sdk_request \<Rightarrow> nat \<Rightarrow> 'net \<Rightarrow> (sdk_error, pyval) result \<times> 'net \<times> int list" where
  "request_loop http max_retries backoff rq attempts net =
     (if \<not> int attempts \<le> max_retries then (Inl AuthzClientError, net, [])
      else (case http net rq of
          (None, net') \<Rightarrow>
            if max_retries < int (attempts + 1) then (Inl AuthzClientError, net', [])
            else (case request_loop http max_retries backoff rq (attempts + 1) net' of
                (r, net'', sleeps) \<Rightarrow> (r, net'', backoff * 2 ^ attempts # sleeps))
        | (Some r, net') \<Rightarrow>
            if 500 \<le> rp_status r \<and> int attempts < max_retries then
              (case request_loop http max_retries backoff rq (attempts + 1) net' of
                (x, net'', sleeps) \<Rightarrow> (x, net'', backoff * 2 ^ attempts # sleeps))
            else (finish_reply r, net', [])))"
  by pat_completeness auto

termination by (relation "measure (\<lambda>(_, m, _, _, n, _). nat (m + 1 - int n))") auto

declare request_loop.simps [simp del]

section \<open>The cache\<close>

type_synonym lru_key = "string \<times> string \<times> string"
type_synonym 'p lru = "(lru_key, 'p \<times> instant) dict"

record 'p sdk_client =
  cl_cache_ttl :: int
  cl_cache_max :: int
  cl_cache :: "'p lru"
  cl_max_retries :: int
  cl_backoff :: int

definition move_to_end :: "'k \<Rightarrow> ('k, 'v) dict \<Rightarrow> ('k, 'v) dict" where
  "move_to_end k d = (case dict_get d k of None \<Rightarrow> d | Some v \<Rightarrow> dict_pop k d @ [(k, v)])"

definition cache_get :: "'p sdk_client \<Rightarrow> instant \<Rightarrow> lru_key \<Rightarrow> 'p option \<times> 'p sdk_client" where
  "cache_get cl now key =
     (case dict_get (cl_cache cl) key of
        None \<Rightarrow> (None, cl)
      | Some (ps, expires_at) \<Rightarrow>
          if expires_at \<le> now then (None, cl\<lparr>cl_cache := dict_pop key (cl_cache cl)\<rparr>)
          else (Some ps, cl\<lparr>cl_cache := move_to_end key (cl_cache cl)\<rparr>))"

text \<open>The \<^verbatim>\<open>while\<close> loop of \<^verbatim>\<open>_cache_put\<close>: \<^verbatim>\<open>popitem(last=False)\<close> drops the oldest entry, and raises on an
  empty cache.\<close>

fun cache_trim :: "int \<Rightarrow> 'e list \<Rightarrow> (authz_error, 'e list) result" where
  "cache_trim m [] = (if m < 0 then Inl KeyError else Inr [])"
| "cache_trim m (x # xs) = (if m < int (length (x # xs)) then cache_trim m xs else Inr (x # xs))"

definition cache_put ::
  "'p sdk_client \<Rightarrow> instant \<Rightarrow> lru_key \<Rightarrow> 'p \<Rightarrow> (authz_error, unit) result \<times> 'p sdk_client" where
  "cache_put cl now key ps =
     (case cache_trim (cl_cache_max cl)
             (move_to_end key (dict_set key (ps, now + cl_cache_ttl cl) (cl_cache cl))) of
        Inl e \<Rightarrow> (Inl e, cl\<lparr>cl_cache := []\<rparr>)
      | Inr c \<Rightarrow> (Inr (), cl\<lparr>cl_cache := c\<rparr>))"

definition key_matches :: "string option \<Rightarrow> string option \<Rightarrow> lru_key \<Rightarrow> bool" where
  "key_matches tid aid k =
     ((case tid of None \<Rightarrow> True | Some t \<Rightarrow> fst k = t) \<and>
      (case aid of None \<Rightarrow> True | Some a \<Rightarrow> fst (snd k) = a))"

definition cache_invalidate :: "'p sdk_client \<Rightarrow> string option \<Rightarrow> string option \<Rightarrow> 'p sdk_client" where
  "cache_invalidate cl tid aid =
     cl\<lparr>cl_cache := fold (\<lambda>k d. if key_matches tid aid k then dict_pop k d else d)
          (map fst (cl_cache cl)) (cl_cache cl)\<rparr>"

section \<open>Subjects\<close>

record sdk_subject =
  sj_type :: string
  sj_user_id :: "ident option"
  sj_agent_id :: "ident option"
  sj_service_account_id :: "ident option"
  sj_user_ref :: "user_ref option"
  sj_agent_name :: "string option"

definition user_ref_dict :: "user_ref \<Rightarrow> pyval" where
  "user_ref_dict r =
     (case r of (p, i, s) \<Rightarrow> PDict [(''provider'', PStr p), (''issuer'', PStr i), (''subject'', PStr s)])"

definition opt_field :: "string \<Rightarrow> string option \<Rightarrow> pydict" where
  "opt_field k v = (case v of None \<Rightarrow> [] | Some x \<Rightarrow> [(k, PStr x)])"

definition subject_to_dict :: "sdk_subject \<Rightarrow> pydict" where
  "subject_to_dict s =
     [(''type'', PStr (sj_type s))] @ opt_field ''user_id'' (sj_user_id s) @
     opt_field ''agent_id'' (sj_agent_id s) @ opt_field ''service_account_id'' (sj_service_account_id s) @
     (case sj_user_ref s of None \<Rightarrow> [] | Some r \<Rightarrow> [(''user_ref'', user_ref_dict r)]) @
     opt_field ''agent_name'' (sj_agent_name s)"

definition delegation_headers :: "string option \<Rightarrow> (string, string) dict" where
  "delegation_headers token =
     (case token of None \<Rightarrow> [] | Some t \<Rightarrow> if t = '''' then [] else [(''X-Delegation-Token'', t)])"

section \<open>Calls\<close>

definition post ::
  "'net transport \<Rightarrow> 'p sdk_client \<Rightarrow> 'net \<Rightarrow> string \<Rightarrow> pydict \<Rightarrow> (string, string) dict \<Rightarrow>
     (sdk_error, pyval) result \<times> 'net" where
  "post http cl net path body headers =
     (case request_loop http (cl_max_retries cl) (cl_backoff cl)
             \<lparr>sr_method = ''POST'', sr_path = path, sr_body = Some body, sr_headers = headers, sr_params = None\<rparr> 0 net of
        (r, net', _) \<Rightarrow> (r, net'))"

definition lift_raise :: "(authz_error, 'a) result \<Rightarrow> (sdk_error, 'a) result" where
  "lift_raise r = map_sum SdkRaised id r"

text \<open>\<^verbatim>\<open>data[k]\<close>, \<^verbatim>\<open>data.get(k)\<close> and \<^verbatim>\<open>data.get(k, default)\<close> on a decoded body.\<close>

definition body_item :: "pyval \<Rightarrow> string \<Rightarrow> (authz_error, pyval) result" where
  "body_item v k =
     (case v of PDict d \<Rightarrow> (case dict_get d k of None \<Rightarrow> Inl KeyError | Some x \<Rightarrow> Inr x) | _ \<Rightarrow> Inl TypeError)"

definition body_get :: "pyval \<Rightarrow> string \<Rightarrow> pyval \<Rightarrow> (authz_error, pyval) result" where
  "body_get v k dflt = (case v of PDict d \<Rightarrow> Inr (dict_get_default d k dflt) | _ \<Rightarrow> Inl AttributeError)"

record authorize_result =
  ar_allowed :: bool
  ar_decision :: string
  ar_reason :: string
  ar_required :: string
  ar_matched :: "pyval set"

definition authorize_result_of ::
  "(pyval \<Rightarrow> string) \<Rightarrow> string \<Rightarrow> pyval \<Rightarrow> (authz_error, authorize_result) result" where
  "authorize_result_of repr perm data =
     res_bind (body_get data ''allowed'' PNone) (\<lambda>al.
     res_bind (body_get data ''decision'' (PStr ''deny'')) (\<lambda>de.
     res_bind (body_get data ''reason'' (PStr '''')) (\<lambda>re.
     res_bind (body_get data ''required_permission'' (PStr perm)) (\<lambda>rq.
     res_bind (body_get data ''matched_permissions'' PNone) (\<lambda>ma.
     res_bind (frozenset_of ma) (\<lambda>ms.
     Inr \<lparr>ar_allowed = py_truthy al, ar_decision = py_str repr de, ar_reason = py_str repr re,
          ar_required = py_str repr rq, ar_matched = ms\<rparr>))))))"

definition client_authorize_decision ::
  "'net transport \<Rightarrow> (pyval \<Rightarrow> string) \<Rightarrow> 'p sdk_client \<Rightarrow> 'net \<Rightarrow> ident \<Rightarrow> ident \<Rightarrow> sdk_subject \<Rightarrow> string \<Rightarrow> string \<Rightarrow>
     pydict \<Rightarrow> string option \<Rightarrow> (sdk_error, authorize_result) result \<times> 'net" where
  "client_authorize_decision http repr cl net tid aid s resource action ctxt token =
     (case post http cl net ''v1/authorize''
             [(''tenant_id'', PStr tid), (''application_id'', PStr aid), (''subject'', PDict (subject_to_dict s)),
              (''resource'', PStr resource), (''action'', PStr action), (''context'', PDict ctxt)]
             (delegation_headers token) of
        (r, net') \<Rightarrow>
          (res_bind r (\<lambda>data. lift_raise (authorize_result_of repr (join_dot resource action) data)), net'))"

definition client_authorize ::
  "'net transport \<Rightarrow> (pyval \<Rightarrow> string) \<Rightarrow> 'p sdk_client \<Rightarrow> 'net \<Rightarrow> ident \<Rightarrow> ident \<Rightarrow> sdk_subject \<Rightarrow> string \<Rightarrow> string \<Rightarrow>
     pydict \<Rightarrow> string option \<Rightarrow> (sdk_error, bool) result \<times> 'net" where
  "client_authorize http repr cl net tid aid s resource action ctxt token =
     (case client_authorize_decision http repr cl net tid aid s resource action ctxt token of
        (r, net') \<Rightarrow> (res_bind r (\<lambda>x. Inr (ar_allowed x)), net'))"

definition client_require ::
  "'net transport \<Rightarrow> (pyval \<Rightarrow> string) \<Rightarrow> 'p sdk_client \<Rightarrow> 'net \<Rightarrow> ident \<Rightarrow> ident \<Rightarrow> sdk_subject \<Rightarrow> string \<Rightarrow> string \<Rightarrow>
     pydict \<Rightarrow> string option \<Rightarrow> (sdk_error, unit) result \<times> 'net" where
  "client_require http repr cl net tid aid s resource action ctxt token =
     (case client_authorize_decision http repr cl net tid aid s resource action ctxt token of
        (r, net') \<Rightarrow>
          (res_bind r (\<lambda>x. if \<not> ar_allowed x then Inl (SdkRaised (PermissionDeniedError (ar_required x)))
             else Inr ()), net'))"

text \<open>The \<^verbatim>\<open>require_permission\<close> dependency of \<^verbatim>\<open>fastapi_dependency.py\<close>: a denial becomes a 403 with the
  permission, other errors pass through.\<close>

definition enforce_permission ::
  "'net transport \<Rightarrow> (pyval \<Rightarrow> string) \<Rightarrow> 'p sdk_client \<Rightarrow> 'net \<Rightarrow> ident \<Rightarrow> ident \<Rightarrow> ident \<Rightarrow> string \<Rightarrow> string \<Rightarrow>
     (http_error + sdk_error, unit) result \<times> 'net" where
  "enforce_permission http repr cl net tid aid uid resource action =
     (case client_require http repr cl net tid aid
             \<lparr>sj_type = ''user'', sj_user_id = Some uid, sj_agent_id = None, sj_service_account_id = None,
              sj_user_ref = None, sj_agent_name = None\<rparr> resource action [] None of
        (Inl (SdkRaised (PermissionDeniedError _)), net') \<Rightarrow> (Inl (Inl (HTTPException 403 ''missing_permission'')), net')
      | (Inl e, net') \<Rightarrow> (Inl (Inr e), net')
      | (Inr u, net') \<Rightarrow> (Inr u, net'))"

record sdk_bulk_result =
  sb_resource :: pyval
  sb_action :: pyval
  sb_allowed :: bool
  sb_reason :: pyval

definition bulk_result_item :: "pyval \<Rightarrow> (authz_error, sdk_bulk_result) result" where
  "bulk_result_item v =
     res_bind (body_item v ''resource'') (\<lambda>r.
     res_bind (body_item v ''action'') (\<lambda>a.
     res_bind (body_item v ''allowed'') (\<lambda>al.
     res_bind (body_item v ''reason'') (\<lambda>re.
     Inr \<lparr>sb_resource = r, sb_action = a, sb_allowed = py_truthy al, sb_reason = re\<rparr>))))"

definition client_bulk_authorize ::
  "'net transport \<Rightarrow> 'p sdk_client \<Rightarrow> 'net \<Rightarrow> ident \<Rightarrow> ident \<Rightarrow> sdk_subject \<Rightarrow> (string \<times> string) list \<Rightarrow> pydict \<Rightarrow>
     string option \<Rightarrow> (sdk_error, sdk_bulk_result list) result \<times> 'net" where
  "client_bulk_authorize http cl net tid aid s checks ctxt token =
     (case post http cl net ''v1/bulk-authorize''
             [(''tenant_id'', PStr tid), (''application_id'', PStr aid), (''subject'', PDict (subject_to_dict s)),
              (''checks'', PList (map (\<lambda>(r, a). PDict [(''resource'', PStr r), (''action'', PStr a)]) checks)),
              (''context'', PDict ctxt)] (delegation_headers token) of
        (r, net') \<Rightarrow>
          (res_bind r (\<lambda>data. lift_raise
             (res_bind (body_get data ''results'' (PList [])) (\<lambda>v.
              res_bind (py_iter v) (res_map bulk_result_item)))), net'))"

section \<open>Effective permissions\<close>

text \<open>An f-string field: \<^verbatim>\<open>None\<close> prints as \<^verbatim>\<open>None\<close>; a user reference prints as its \<^verbatim>\<open>repr\<close> (\<open>show_ref\<close>).\<close>

definition fmt :: "string option \<Rightarrow> string" where
  "fmt v = (case v of None \<Rightarrow> ''None'' | Some s \<Rightarrow> s)"

definition effective_cache_key ::
  "(string \<Rightarrow> string) \<Rightarrow> (user_ref \<Rightarrow> string) \<Rightarrow> ident \<Rightarrow> ident \<Rightarrow> sdk_subject \<Rightarrow> string option \<Rightarrow> lru_key" where
  "effective_cache_key sha show_ref tid aid s token =
     (tid, aid,
      sj_type s @ '':'' @ fmt (sj_user_id s) @ '':'' @ fmt (sj_agent_id s) @ '':'' @ fmt (sj_service_account_id s) @
      '':'' @ (case sj_user_ref s of None \<Rightarrow> ''None'' | Some r \<Rightarrow> show_ref r) @ '':'' @ fmt (sj_agent_name s) @
      (case token of None \<Rightarrow> '''' | Some t \<Rightarrow> if t = '''' then '''' else '':d='' @ take 24 (sha t)))"

definition fetch_permissions ::
  "'net transport \<Rightarrow> 'p sdk_client \<Rightarrow> 'net \<Rightarrow> ident \<Rightarrow> ident \<Rightarrow> sdk_subject \<Rightarrow> string option \<Rightarrow>
     (sdk_error, pyval set) result \<times> 'net" where
  "fetch_permissions http cl net tid aid s token =
     (case post http cl net ''v1/effective-permissions''
             [(''tenant_id'', PStr tid), (''application_id'', PStr aid), (''subject'', PDict (subject_to_dict s))]
             (delegation_headers token) of
        (r, net') \<Rightarrow>
          (res_bind r (\<lambda>data. lift_raise (res_bind (body_get data ''permissions'' PNone) frozenset_of)), net'))"

text \<open>The call reads the clock at the lookup (\<open>now\<close>) and again when it stores (\<open>later\<close>).\<close>

definition get_effective_permissions ::
  "'net transport \<Rightarrow> (string \<Rightarrow> string) \<Rightarrow> (user_ref \<Rightarrow> string) \<Rightarrow> pyval set sdk_client \<Rightarrow> 'net \<Rightarrow> instant \<Rightarrow> instant \<Rightarrow>
     ident \<Rightarrow> ident \<Rightarrow> sdk_subject \<Rightarrow> bool \<Rightarrow> string option \<Rightarrow>
     (sdk_error, pyval set) result \<times> pyval set sdk_client \<times> 'net" where
  "get_effective_permissions http sha show_ref cl net now later tid aid s bypass token =
     (let key = effective_cache_key sha show_ref tid aid s token;
          (hit, cl1) = (if 0 < cl_cache_ttl cl \<and> \<not> bypass then cache_get cl now key else (None, cl)) in
      case hit of
        Some ps \<Rightarrow> (Inr ps, cl1, net)
      | None \<Rightarrow>
          (case fetch_permissions http cl1 net tid aid s token of
             (Inl e, net') \<Rightarrow> (Inl e, cl1, net')
           | (Inr ps, net') \<Rightarrow>
               if 0 < cl_cache_ttl cl1 then
                 (case cache_put cl1 later key ps of
                    (Inl e, cl2) \<Rightarrow> (Inl (SdkRaised e), cl2, net')
                  | (Inr _, cl2) \<Rightarrow> (Inr ps, cl2, net'))
               else (Inr ps, cl1, net')))"

section \<open>Lemmas on the request loop\<close>

text \<open>The transport after some requests, and its next reply.\<close>

fun after :: "'net transport \<Rightarrow> sdk_request \<Rightarrow> nat \<Rightarrow> 'net \<Rightarrow> 'net" where
  "after http rq 0 net = net"
| "after http rq (Suc k) net = after http rq k (snd (http net rq))"

definition nth_reply :: "'net transport \<Rightarrow> sdk_request \<Rightarrow> 'net \<Rightarrow> nat \<Rightarrow> reply option" where
  "nth_reply http rq net k = fst (http (after http rq k net) rq)"

definition retryable :: "reply option \<Rightarrow> bool" where
  "retryable r = (case r of None \<Rightarrow> True | Some x \<Rightarrow> 500 \<le> rp_status x)"

definition answer_of :: "reply option \<Rightarrow> (sdk_error, pyval) result" where
  "answer_of r = (case r of None \<Rightarrow> Inl AuthzClientError | Some x \<Rightarrow> finish_reply x)"

lemma nth_reply_Suc: "nth_reply http rq net (Suc k) = nth_reply http rq (snd (http net rq)) k"
  by (simp add: nth_reply_def)

lemma nth_reply_0: "nth_reply http rq net 0 = fst (http net rq)"
  by (simp add: nth_reply_def)

lemma request_loop_stops:
  assumes "\<forall>j < k. retryable (nth_reply http rq net j)" and "attempts + k \<le> m"
    and "\<not> retryable (nth_reply http rq net k) \<or> attempts + k = m"
  shows "request_loop http (int m) backoff rq attempts net =
    (answer_of (nth_reply http rq net k), after http rq (Suc k) net, map (\<lambda>i. backoff * 2 ^ i) [attempts..<attempts + k])"
  using assms
proof (induction k arbitrary: attempts net)
  case 0
  obtain r net' where h: "http net rq = (r, net')" by (cases "http net rq")
  then show ?case
    using 0 by (cases r) (auto simp: request_loop.simps nth_reply_0 retryable_def answer_of_def)
next
  case (Suc k)
  obtain r net' where h: "http net rq = (r, net')" by (cases "http net rq")
  have r: "retryable r" using Suc.prems(1) h by (auto simp: nth_reply_0 dest: spec [of _ 0])
  have j: "\<forall>j < k. retryable (nth_reply http rq net' j)" using Suc.prems(1) h by (auto simp: nth_reply_Suc)
  have loop: "request_loop http (int m) backoff rq (Suc attempts) net' =
    (answer_of (nth_reply http rq net' k), after http rq (Suc k) net',
     map (\<lambda>i. backoff * 2 ^ i) [Suc attempts..<Suc attempts + k])"
    by (rule Suc.IH) (use Suc.prems j h in \<open>auto simp: nth_reply_Suc\<close>)
  have "[attempts..<attempts + Suc k] = attempts # [Suc attempts..<Suc attempts + k]"
    by (simp add: upt_rec)
  then show ?case
    using r Suc.prems(2) loop h
    by (cases r) (auto simp: request_loop.simps [of http "int m" backoff rq attempts] nth_reply_Suc retryable_def)
qed

lemma stop_exists:
  "\<exists>k \<le> m. (\<forall>j < k. retryable (nth_reply http rq net j)) \<and> (\<not> retryable (nth_reply http rq net k) \<or> k = m)"
proof (cases "\<exists>k \<le> m. \<not> retryable (nth_reply http rq net k)")
  case True
  then obtain k where "k \<le> m" "\<not> retryable (nth_reply http rq net k)" by blast
  moreover define l where "l = (LEAST k. \<not> retryable (nth_reply http rq net k))"
  ultimately have "\<not> retryable (nth_reply http rq net l)" "l \<le> m" "\<forall>j < l. retryable (nth_reply http rq net j)"
    using LeastI [of "\<lambda>k. \<not> retryable (nth_reply http rq net k)"]
      Least_le [of "\<lambda>k. \<not> retryable (nth_reply http rq net k)"] not_less_Least
    by (auto simp: l_def intro: order_trans)
  then show ?thesis by blast
qed auto

lemma sum_backoff: "(\<Sum>i\<leftarrow>[0..<k]. b * 2 ^ i) = (b :: int) * (2 ^ k - 1)"
  by (induction k) (auto simp: algebra_simps)

section \<open>Lemmas on the cache\<close>

lemma cache_trim_Inr: "cache_trim m xs = Inr ys \<Longrightarrow> (\<exists>zs. xs = zs @ ys) \<and> int (length ys) \<le> m"
proof (induction xs)
  case (Cons x xs)
  then show ?case by (auto split: if_splits intro: exI [of _ "[]"] exI [of _ "x # _"])
qed (auto split: if_splits)

lemma set_move_to_end: "dict_ok d \<Longrightarrow> set (move_to_end k d) = set d"
  by (auto simp: move_to_end_def dict_ok_get_iff AList.delete_eq dict_ok_def eq_key_imp_eq_value split: option.splits)

lemma dict_ok_move: "dict_ok d \<Longrightarrow> dict_ok (move_to_end k d)"
  by (auto simp: move_to_end_def dict_ok_def AList.delete_eq distinct_map_filter split: option.splits)

lemma length_dict_pop_le: "length (dict_pop k d) \<le> length d"
  by (rule AList.length_delete_le)

lemma set_dict_pop: "set (dict_pop k d) \<subseteq> set d"
  by (auto simp: AList.delete_eq)

lemma length_move: "length (move_to_end k d) \<le> length d"
proof (cases "dict_get d k")
  case (Some v)
  then show ?thesis using length_dict_pop_less [OF Some] by (simp add: move_to_end_def)
qed (simp add: move_to_end_def)

lemma trim_append: "\<lbrakk>cache_trim m (xs @ [x]) = Inr ys; 0 < m\<rbrakk> \<Longrightarrow> x \<in> set ys"
proof (induction xs)
  case (Cons a xs)
  then show ?case by (cases "m < int (length (a # xs @ [x]))") auto
qed (auto split: if_splits)

lemma trim_keeps_last:
  assumes "cache_trim m (move_to_end k (dict_set k v d)) = Inr c" "dict_ok d" "0 < m"
  shows "dict_get c k = Some v"
proof -
  have e: "move_to_end k (dict_set k v d) = dict_pop k (dict_set k v d) @ [(k, v)]" by (simp add: move_to_end_def)
  have "(k, v) \<in> set c" using trim_append assms(1, 3) unfolding e by metis
  moreover have "dict_ok c"
    using cache_trim_Inr [OF assms(1)] dict_ok_move [OF dict_ok_set [OF assms(2)], of k k v] by (auto simp: dict_ok_def)
  ultimately show ?thesis by (simp add: dict_ok_get_iff)
qed

lemma invalidate_fold:
  "fold (\<lambda>k d. if P k then dict_pop k d else d) ks d = filter (\<lambda>e. \<not> (P (fst e) \<and> fst e \<in> set ks)) d"
proof (induction ks arbitrary: d)
  case (Cons k ks)
  then show ?case by (auto simp: AList.delete_eq intro!: filter_cong)
qed simp

lemma cache_invalidate_filter:
  "cl_cache (cache_invalidate cl tid aid) = filter (\<lambda>e. \<not> key_matches tid aid (fst e)) (cl_cache cl)"
  unfolding cache_invalidate_def invalidate_fold by (auto intro: filter_cong)

section \<open>Runs of a client\<close>

text \<open>What happened to a cache, newest first: answers of the service that were stored, and invalidations.\<close>

datatype 'p client_event = Fetched lru_key instant 'p | Invalidated "string option" "string option"

inductive client_run :: "int \<Rightarrow> int \<Rightarrow> instant \<Rightarrow> 'p sdk_client \<Rightarrow> 'p client_event list \<Rightarrow> bool" for ttl m where
  start: "\<lbrakk>cl_cache cl = []; cl_cache_ttl cl = ttl; cl_cache_max cl = m\<rbrakk> \<Longrightarrow> client_run ttl m now cl []"
| lookup: "\<lbrakk>client_run ttl m now cl es; now \<le> t\<rbrakk> \<Longrightarrow> client_run ttl m t (snd (cache_get cl t key)) es"
| store: "\<lbrakk>client_run ttl m now cl es; now \<le> t; cache_put cl t key ps = (Inr (), cl')\<rbrakk> \<Longrightarrow>
    client_run ttl m t cl' (Fetched key t ps # es)"
| invalidate: "client_run ttl m now cl es \<Longrightarrow>
    client_run ttl m now (cache_invalidate cl tid aid) (Invalidated tid aid # es)"

fun supersedes :: "'p client_event \<Rightarrow> lru_key \<Rightarrow> bool" where
  "supersedes (Fetched k' _ _) k = (k' = k)"
| "supersedes (Invalidated tid aid) k = key_matches tid aid k"

text \<open>An entry is justified by the newest stored answer for its key, with no invalidation since.\<close>

definition justified :: "int \<Rightarrow> 'p client_event list \<Rightarrow> lru_key \<Rightarrow> 'p \<Rightarrow> instant \<Rightarrow> bool" where
  "justified ttl es k ps e \<longleftrightarrow>
     (\<exists>newer t older. es = newer @ Fetched k t ps # older \<and> e = t + ttl \<and> (\<forall>ev \<in> set newer. \<not> supersedes ev k))"

lemma justified_Cons:
  "\<lbrakk>justified ttl es k ps e; \<not> supersedes ev k\<rbrakk> \<Longrightarrow> justified ttl (ev # es) k ps e"
  unfolding justified_def by (metis append_Cons set_ConsD)

lemma justified_new: "justified ttl (Fetched k t ps # es) k ps (t + ttl)"
  unfolding justified_def by (intro exI [of _ "[]"]) simp

definition cache_ok :: "int \<Rightarrow> int \<Rightarrow> 'p sdk_client \<Rightarrow> 'p client_event list \<Rightarrow> bool" where
  "cache_ok ttl m cl es \<longleftrightarrow>
     cl_cache_ttl cl = ttl \<and> cl_cache_max cl = m \<and> dict_ok (cl_cache cl) \<and>
     (cl_cache cl \<noteq> [] \<longrightarrow> int (length (cl_cache cl)) \<le> m) \<and>
     (\<forall>k ps e. (k, ps, e) \<in> set (cl_cache cl) \<longrightarrow> justified ttl es k ps e)"

lemma cache_get_subset:
  assumes "dict_ok (cl_cache cl)"
  shows "set (cl_cache (snd (cache_get cl t key))) \<subseteq> set (cl_cache cl) \<and>
    dict_ok (cl_cache (snd (cache_get cl t key))) \<and>
    length (cl_cache (snd (cache_get cl t key))) \<le> length (cl_cache cl) \<and>
    cl_cache_ttl (snd (cache_get cl t key)) = cl_cache_ttl cl \<and> cl_cache_max (snd (cache_get cl t key)) = cl_cache_max cl"
  using assms set_move_to_end [OF assms, of key] dict_ok_pop [OF assms, of key]
    length_dict_pop_le [of key "cl_cache cl"] set_dict_pop [of key "cl_cache cl"] dict_ok_move [OF assms, of key] length_move [of key "cl_cache cl"]
  by (auto simp: cache_get_def split: option.splits prod.splits)

lemma cache_put_ok:
  assumes "cache_ok ttl m cl es" and "cache_put cl t key ps = (Inr (), cl')"
  shows "cache_ok ttl m cl' (Fetched key t ps # es)"
proof -
  let ?d = "dict_set key (ps, t + ttl) (cl_cache cl)"
  have ok: "dict_ok (cl_cache cl)" "cl_cache_ttl cl = ttl" "cl_cache_max cl = m" using assms(1) by (auto simp: cache_ok_def)
  obtain c where c: "cache_trim m (move_to_end key ?d) = Inr c" and cl': "cl' = cl\<lparr>cl_cache := c\<rparr>"
    using assms(2) ok by (auto simp: cache_put_def split: sum.splits)
  obtain zs where z: "move_to_end key ?d = zs @ c" and l: "int (length c) \<le> m" using cache_trim_Inr [OF c] by blast
  have d: "dict_ok (zs @ c)" unfolding z [symmetric] by (intro dict_ok_move dict_ok_set ok)
  have s: "set c \<subseteq> set ?d" using set_move_to_end [of ?d key] ok(1) unfolding z by auto
  have j: "justified ttl (Fetched key t ps # es) k q e" if "(k, q, e) \<in> set c" for k q e
  proof (cases "k = key")
    case True
    have "(key, q, e) \<in> set ?d" using that s True by auto
    then have "dict_get ?d key = Some (q, e)" unfolding dict_ok_get_iff [OF dict_ok_set [OF ok(1)]] .
    then show ?thesis using True justified_new [of ttl key t ps es] by simp
  next
    case False
    have "(k, q, e) \<in> set (cl_cache cl)" using that s False set_update_subset [of key "(ps, t + ttl)" "cl_cache cl"] by auto
    then have "justified ttl es k q e" using assms(1) unfolding cache_ok_def by blast
    then show ?thesis using False by (intro justified_Cons) auto
  qed
  show ?thesis using d l j ok by (auto simp: cache_ok_def cl' dict_ok_def)
qed

lemma client_run_ok: "client_run ttl m now cl es \<Longrightarrow> cache_ok ttl m cl es"
proof (induction rule: client_run.induct)
  case (start cl now)
  then show ?case by (simp add: cache_ok_def)
next
  case (lookup now cl es t key)
  then have "dict_ok (cl_cache cl)" by (simp add: cache_ok_def)
  from cache_get_subset [OF this, of t key] lookup(3) show ?case
    by (auto simp: cache_ok_def)
next
  case (store now cl es t key ps cl')
  show ?case by (rule cache_put_ok [OF store.IH store.hyps(3)])
next
  case (invalidate now cl es tid aid)
  have f: "cl_cache_ttl (cache_invalidate cl tid aid) = cl_cache_ttl cl"
    "cl_cache_max (cache_invalidate cl tid aid) = cl_cache_max cl" by (simp_all add: cache_invalidate_def)
  have j: "justified ttl (Invalidated tid aid # es) k ps e"
    if "(k, ps, e) \<in> set (cl_cache (cache_invalidate cl tid aid))" for k ps e
    using that invalidate.IH unfolding cache_invalidate_filter cache_ok_def
    by (intro justified_Cons) (auto simp del: split_paired_All)
  have d: "dict_ok (cl_cache (cache_invalidate cl tid aid))"
    using invalidate.IH by (simp add: cache_ok_def cache_invalidate_filter dict_ok_def distinct_map_filter)
  have "int (length (cl_cache (cache_invalidate cl tid aid))) \<le> m"
    if "cl_cache (cache_invalidate cl tid aid) \<noteq> []"
  proof -
    have "cl_cache cl \<noteq> []" using that by (auto simp: cache_invalidate_filter)
    then have "int (length (cl_cache cl)) \<le> m" using invalidate.IH by (simp add: cache_ok_def)
    moreover have "length (cl_cache (cache_invalidate cl tid aid)) \<le> length (cl_cache cl)"
      by (simp add: cache_invalidate_filter)
    ultimately show ?thesis by linarith
  qed
  then show ?case using invalidate.IH f j d unfolding cache_ok_def by blast
qed

section \<open>Properties\<close>

text \<open>C29: a call of the client ends. With \<open>n\<close> retries it sends at least one and at most \<open>n + 1\<close> requests: it
  stops at the first reply that is neither a transport error nor a server error, or at the last attempt,
  its result is decided by that reply alone, and its sleeps are the doubling back-off, in total
  \<open>backoff * (2 ^ k - 1)\<close> after \<open>k\<close> retries. With a negative number of retries nothing is sent and the call fails.\<close>

theorem request_terminates:
  "(0 \<le> max_retries \<longrightarrow>
     (\<exists>k \<le> nat max_retries. request_loop http max_retries backoff rq 0 net =
        (answer_of (nth_reply http rq net k), after http rq (Suc k) net, map (\<lambda>i. backoff * 2 ^ i) [0..<k]) \<and>
        (\<forall>j < k. retryable (nth_reply http rq net j)) \<and>
        (\<not> retryable (nth_reply http rq net k) \<or> k = nat max_retries) \<and>
        sum_list (snd (snd (request_loop http max_retries backoff rq 0 net))) = backoff * (2 ^ k - 1))) \<and>
   (max_retries < 0 \<longrightarrow> request_loop http max_retries backoff rq 0 net = (Inl AuthzClientError, net, []))"
proof (intro conjI impI)
  assume m: "0 \<le> max_retries"
  obtain k where k: "k \<le> nat max_retries" "\<forall>j < k. retryable (nth_reply http rq net j)"
    "\<not> retryable (nth_reply http rq net k) \<or> k = nat max_retries" using stop_exists [of "nat max_retries" http rq net] by blast
  have "request_loop http (int (nat max_retries)) backoff rq 0 net =
      (answer_of (nth_reply http rq net k), after http rq (Suc k) net, map (\<lambda>i. backoff * 2 ^ i) [0..<0 + k])"
    by (rule request_loop_stops) (use k in simp_all)
  then have l: "request_loop http max_retries backoff rq 0 net =
      (answer_of (nth_reply http rq net k), after http rq (Suc k) net, map (\<lambda>i. backoff * 2 ^ i) [0..<k])"
    using m by simp
  show "\<exists>k \<le> nat max_retries. request_loop http max_retries backoff rq 0 net =
        (answer_of (nth_reply http rq net k), after http rq (Suc k) net, map (\<lambda>i. backoff * 2 ^ i) [0..<k]) \<and>
        (\<forall>j < k. retryable (nth_reply http rq net j)) \<and>
        (\<not> retryable (nth_reply http rq net k) \<or> k = nat max_retries) \<and>
        sum_list (snd (snd (request_loop http max_retries backoff rq 0 net))) = backoff * (2 ^ k - 1)"
    unfolding l by (rule exI [of _ k]) (use k sum_backoff [of backoff k] in simp)
qed (subst request_loop.simps, simp)

text \<open>A transport that fails twice, with a lost connection and then a server error, before it answers.\<close>

definition flaky :: "nat transport" where
  "flaky n _ =
     (if n = 0 then None
      else if n = 1 then Some \<lparr>rp_status = 503, rp_json = None, rp_text = ''busy''\<rparr>
      else Some \<lparr>rp_status = 200, rp_json = Some (PDict [(''allowed'', PBool True)]), rp_text = ''''\<rparr>, n + 1)"

definition plain_request :: sdk_request where
  "plain_request = \<lparr>sr_method = ''GET'', sr_path = ''v1/x'', sr_body = None, sr_headers = [], sr_params = None\<rparr>"

theorem request_terminates_witness:
  "\<exists>k \<le> 2. fst (snd (request_loop flaky 2 10 plain_request 0 0)) = after flaky plain_request (Suc k) 0 \<and>
     sum_list (snd (snd (request_loop flaky 2 10 plain_request 0 0))) = 10 * (2 ^ k - 1)"
  using conjunct1 [OF request_terminates [of 2 flaky 10 plain_request 0]] by (auto simp: numeral_2_eq_2)

text \<open>C30: the client rides out a transient failure. If one of the first \<open>n + 1\<close> replies is not a server error
  or a lost connection, then the call returns what the first such reply says: its JSON body when it is a
  success, the service's error when it is a client error. It never returns a value when no reply was a
  success.\<close>

theorem request_recovers:
  assumes "k \<le> n" and "nth_reply http rq net k = Some r" and "rp_status r < 500"
    and "\<forall>j < k. retryable (nth_reply http rq net j)"
  shows "fst (request_loop http (int n) backoff rq 0 net) = finish_reply r \<and>
    (rp_status r < 400 \<and> rp_status r \<noteq> 204 \<and> rp_json r = Some v \<longrightarrow>
       fst (request_loop http (int n) backoff rq 0 net) = Inr v) \<and>
    (fst (request_loop http (int n) backoff rq 0 net) = Inr w \<longrightarrow> rp_status r < 400)"
proof -
  have "request_loop http (int n) backoff rq 0 net =
      (answer_of (nth_reply http rq net k), after http rq (Suc k) net, map (\<lambda>i. backoff * 2 ^ i) [0..<0 + k])"
    by (rule request_loop_stops) (use assms in \<open>auto simp: retryable_def\<close>)
  then have "fst (request_loop http (int n) backoff rq 0 net) = finish_reply r"
    using assms(2) by (simp add: answer_of_def)
  then show ?thesis by (auto simp: finish_reply_def split: if_splits)
qed

theorem request_recovers_witness:
  "fst (request_loop flaky (int 2) 10 plain_request 0 0) = Inr (PDict [(''allowed'', PBool True)])"
proof -
  let ?v = "PDict [(''allowed'', PBool True)]"
  have r: "nth_reply flaky plain_request 0 2 = Some \<lparr>rp_status = 200, rp_json = Some ?v, rp_text = ''''\<rparr>"
    by (simp add: nth_reply_def flaky_def numeral_2_eq_2)
  have j: "\<forall>j < 2. retryable (nth_reply flaky plain_request 0 j)"
    by (auto simp: nth_reply_def flaky_def numeral_2_eq_2 retryable_def less_Suc_eq)
  show ?thesis using request_recovers [OF _ r _ j, of 2 10 ?v ?v] by (simp add: finish_reply_def)
qed

text \<open>C31: a cached answer is fresh and the newest one. In every run of lookups, stores and invalidations of a
  client whose clock does not go back, the cache holds each key once and at most the configured number of
  entries, a store keeps its own entry (if there is room for one), and whatever a lookup returns at time
  \<open>t\<close> is the answer the service last gave for that key, stored less than the time to live ago, with no
  invalidation of its tenant and application since.\<close>

theorem client_cache_sound:
  assumes "client_run ttl m now cl es"
  shows "distinct (map fst (cl_cache cl)) \<and> (cl_cache cl \<noteq> [] \<longrightarrow> int (length (cl_cache cl)) \<le> m) \<and>
    (\<forall>t key ps. fst (cache_get cl t key) = Some ps \<longrightarrow>
       (\<exists>newer t0 older. es = newer @ Fetched key t0 ps # older \<and> t < t0 + ttl \<and>
          (\<forall>ev \<in> set newer. \<not> supersedes ev key))) \<and>
    (\<forall>t key ps cl'. cache_put cl t key ps = (Inr (), cl') \<longrightarrow> 0 < m \<longrightarrow>
       dict_get (cl_cache cl') key = Some (ps, t + ttl))"
proof -
  note ok = client_run_ok [OF assms]
  have d: "dict_ok (cl_cache cl)" "cl_cache_ttl cl = ttl" "cl_cache_max cl = m" using ok by (auto simp: cache_ok_def)
  have hit: "\<exists>newer t0 older. es = newer @ Fetched key t0 ps # older \<and> t < t0 + ttl \<and>
      (\<forall>ev \<in> set newer. \<not> supersedes ev key)" if h: "fst (cache_get cl t key) = Some ps" for t key ps
  proof -
    obtain e where g: "dict_get (cl_cache cl) key = Some (ps, e)" and t: "t < e"
      using h by (auto simp: cache_get_def not_le split: option.splits if_splits)
    then have "(key, ps, e) \<in> set (cl_cache cl)" by (simp add: map_of_SomeD)
    then have "justified ttl es key ps e" using ok unfolding cache_ok_def by blast
    then show ?thesis using t unfolding justified_def by auto
  qed
  have put: "dict_get (cl_cache cl') key = Some (ps, t + ttl)"
    if "cache_put cl t key ps = (Inr (), cl')" "0 < m" for t key ps cl'
    using that d by (auto simp: cache_put_def split: sum.splits intro: trim_keeps_last)
  show ?thesis using ok d hit put by (auto simp: cache_ok_def dict_ok_def)
qed

definition sample_client :: "string set sdk_client" where
  "sample_client = \<lparr>cl_cache_ttl = 10, cl_cache_max = 2, cl_cache = [], cl_max_retries = 2, cl_backoff = 1\<rparr>"

theorem client_cache_sound_witness:
  "\<exists>cl. cache_put sample_client 5 (''t'', ''a'', ''user:u'') {''docs.read''} = (Inr (), cl) \<and>
     fst (cache_get cl 14 (''t'', ''a'', ''user:u'')) = Some {''docs.read''} \<and>
     (\<exists>t0. 14 < t0 + 10 \<and> Fetched (''t'', ''a'', ''user:u'') t0 {''docs.read''} \<in>
        set [Fetched (''t'', ''a'', ''user:u'') 5 {''docs.read''}])"
proof -
  let ?k = "(''t'', ''a'', ''user:u'')" and ?ps = "{''docs.read''}"
  obtain cl where p: "cache_put sample_client 5 ?k ?ps = (Inr (), cl)" and c: "cl_cache cl = [(?k, ?ps, 15)]"
    by (simp add: cache_put_def sample_client_def move_to_end_def)
  have "client_run 10 2 0 sample_client []" by (rule client_run.start) (simp_all add: sample_client_def)
  from client_run.store [OF this _ p] have r: "client_run 10 2 5 cl [Fetched ?k 5 ?ps]" by simp
  have g: "fst (cache_get cl 14 ?k) = Some ?ps" by (simp add: cache_get_def c)
  from client_cache_sound [OF r] g obtain newer t0 older where
    "[Fetched ?k 5 ?ps] = newer @ Fetched ?k t0 ?ps # older" "14 < t0 + 10" by blast
  then show ?thesis using p g by (metis in_set_conv_decomp)
qed

lemma post_Inr:
  assumes "post http cl net path body headers = (Inr v, net')"
    and "rq = \<lparr>sr_method = ''POST'', sr_path = path, sr_body = Some body, sr_headers = headers, sr_params = None\<rparr>"
  shows "\<exists>k r. k \<le> nat (cl_max_retries cl) \<and> nth_reply http rq net k = Some r \<and> finish_reply r = Inr v"
proof (cases "0 \<le> cl_max_retries cl")
  case True
  obtain k where k: "k \<le> nat (cl_max_retries cl)" "\<forall>j < k. retryable (nth_reply http rq net j)"
    "\<not> retryable (nth_reply http rq net k) \<or> k = nat (cl_max_retries cl)"
    using stop_exists [of "nat (cl_max_retries cl)" http rq net] by blast
  have "request_loop http (int (nat (cl_max_retries cl))) (cl_backoff cl) rq 0 net =
      (answer_of (nth_reply http rq net k), after http rq (Suc k) net, map (\<lambda>i. cl_backoff cl * 2 ^ i) [0..<0 + k])"
    by (rule request_loop_stops) (use k in simp_all)
  then have "answer_of (nth_reply http rq net k) = Inr v"
    using assms True by (auto simp: post_def)
  then show ?thesis using k(1) by (auto simp: answer_of_def split: option.splits)
next
  case False
  then have "request_loop http (cl_max_retries cl) (cl_backoff cl) rq 0 net = (Inl AuthzClientError, net, [])"
    by (subst request_loop.simps) simp
  then show ?thesis using assms by (simp add: post_def)
qed

lemma authorize_result_allowed:
  "\<lbrakk>authorize_result_of repr perm v = Inr x; ar_allowed x\<rbrakk> \<Longrightarrow>
     \<exists>d a. v = PDict d \<and> dict_get d ''allowed'' = Some a \<and> py_truthy a"
  by (auto simp: authorize_result_of_def res_bind_eq_Inr body_get_def dict_get_default_def split: pyval.splits option.splits)

lemma authorize_result_roundtrip:
  "authorize_result_of repr perm (PDict (response_dump r)) =
     Inr \<lparr>ar_allowed = rsp_allowed r, ar_decision = rsp_decision r, ar_reason = rsp_reason r,
          ar_required = rsp_required r, ar_matched = PStr ` set (rsp_matched r)\<rparr>"
  by (cases "rsp_matched r")
    (auto simp: authorize_result_of_def body_get_def response_dump_def dict_get_default_def frozenset_of_def list_all_iff)

text \<open>The client fails closed and agrees with the service. \<^verbatim>\<open>require\<close> returns only if one of the replies was
  a success whose body says \<^verbatim>\<open>allowed\<close>; a lost connection, an error status or a body of another shape raises.
  When the service answers at once with its decision, \<^verbatim>\<open>authorize_decision\<close> decodes to that decision, and
  \<^verbatim>\<open>require\<close> returns if it allows and raises \<^verbatim>\<open>PermissionDeniedError\<close> with the required permission if not.\<close>

theorem client_require_fail_closed:
  assumes "rq = \<lparr>sr_method = ''POST'', sr_path = ''v1/authorize'',
      sr_body = Some [(''tenant_id'', PStr tid), (''application_id'', PStr aid), (''subject'', PDict (subject_to_dict s)),
        (''resource'', PStr resource), (''action'', PStr action), (''context'', PDict ctxt)],
      sr_headers = delegation_headers token, sr_params = None\<rparr>"
  shows "(fst (client_require http repr cl net tid aid s resource action ctxt token) = Inr () \<longrightarrow>
      (\<exists>k r d v. k \<le> nat (cl_max_retries cl) \<and> nth_reply http rq net k = Some r \<and> rp_status r < 400 \<and>
         rp_json r = Some (PDict d) \<and> dict_get d ''allowed'' = Some v \<and> py_truthy v)) \<and>
    (0 \<le> cl_max_retries cl \<and>
     nth_reply http rq net 0 = Some \<lparr>rp_status = 200, rp_json = Some (PDict (response_dump resp)), rp_text = txt\<rparr> \<longrightarrow>
      fst (client_require http repr cl net tid aid s resource action ctxt token) =
        (if rsp_allowed resp then Inr () else Inl (SdkRaised (PermissionDeniedError (rsp_required resp)))))"
proof (intro conjI impI)
  let ?body = "[(''tenant_id'', PStr tid), (''application_id'', PStr aid), (''subject'', PDict (subject_to_dict s)),
    (''resource'', PStr resource), (''action'', PStr action), (''context'', PDict ctxt)]"
  let ?r = "client_require http repr cl net tid aid s resource action ctxt token"
  obtain p net' where p: "post http cl net ''v1/authorize'' ?body (delegation_headers token) = (p, net')"
    by (cases "post http cl net ''v1/authorize'' ?body (delegation_headers token)")
  have r: "fst ?r = res_bind p (\<lambda>v. res_bind (lift_raise (authorize_result_of repr (join_dot resource action) v))
      (\<lambda>x. if \<not> ar_allowed x then Inl (SdkRaised (PermissionDeniedError (ar_required x))) else Inr ()))"
    by (cases p) (auto simp: client_require_def client_authorize_decision_def p)
  {
    assume "fst ?r = Inr ()"
    then obtain v x where v: "p = Inr v" and x: "authorize_result_of repr (join_dot resource action) v = Inr x" "ar_allowed x"
      unfolding r by (auto simp: res_bind_eq_Inr lift_raise_def map_sum_Inr_iff split: if_splits)
    obtain k y where k: "k \<le> nat (cl_max_retries cl)" "nth_reply http rq net k = Some y" "finish_reply y = Inr v"
      using post_Inr [OF p [unfolded v] assms] by blast
    obtain d a where d: "v = PDict d" "dict_get d ''allowed'' = Some a" "py_truthy a"
      using authorize_result_allowed [OF x] by blast
    have "rp_status y < 400 \<and> rp_json y = Some (PDict d)"
      using k(3) d(1) by (auto simp: finish_reply_def split: if_splits option.splits)
    then show "\<exists>k r d v. k \<le> nat (cl_max_retries cl) \<and> nth_reply http rq net k = Some r \<and> rp_status r < 400 \<and>
         rp_json r = Some (PDict d) \<and> dict_get d ''allowed'' = Some v \<and> py_truthy v"
      using k(1, 2) d(2, 3) by blast
  }
  assume h: "0 \<le> cl_max_retries cl \<and>
     nth_reply http rq net 0 = Some \<lparr>rp_status = 200, rp_json = Some (PDict (response_dump resp)), rp_text = txt\<rparr>"
  have "request_loop http (int (nat (cl_max_retries cl))) (cl_backoff cl) rq 0 net =
      (answer_of (nth_reply http rq net 0), after http rq (Suc 0) net, map (\<lambda>i. cl_backoff cl * 2 ^ i) [0..<0 + 0])"
    by (rule request_loop_stops) (use h in \<open>simp_all add: retryable_def\<close>)
  then have "p = Inr (PDict (response_dump resp))"
    using p h assms by (auto simp: post_def answer_of_def finish_reply_def)
  then show "fst ?r = (if rsp_allowed resp then Inr () else Inl (SdkRaised (PermissionDeniedError (rsp_required resp))))"
    unfolding r by (simp add: authorize_result_roundtrip lift_raise_def)
qed

theorem client_require_fail_closed_witness:
  "\<exists>k r. k \<le> 2 \<and> nth_reply flaky \<lparr>sr_method = ''POST'', sr_path = ''v1/authorize'',
      sr_body = Some [(''tenant_id'', PStr ''t''), (''application_id'', PStr ''a''),
        (''subject'', PDict (subject_to_dict (\<lparr>sj_type = ''user'', sj_user_id = Some ''u'', sj_agent_id = None,
           sj_service_account_id = None, sj_user_ref = None, sj_agent_name = None\<rparr>))),
        (''resource'', PStr ''docs''), (''action'', PStr ''read''), (''context'', PDict [])],
      sr_headers = delegation_headers None, sr_params = None\<rparr> 0 k = Some r \<and> rp_status r < 400"
proof -
  let ?s = "\<lparr>sj_type = ''user'', sj_user_id = Some ''u'', sj_agent_id = None, sj_service_account_id = None,
    sj_user_ref = None, sj_agent_name = None\<rparr>"
  let ?rq = "\<lparr>sr_method = ''POST'', sr_path = ''v1/authorize'',
      sr_body = Some [(''tenant_id'', PStr ''t''), (''application_id'', PStr ''a''), (''subject'', PDict (subject_to_dict ?s)),
        (''resource'', PStr ''docs''), (''action'', PStr ''read''), (''context'', PDict [])],
      sr_headers = delegation_headers None, sr_params = None\<rparr>"
  have "request_loop flaky (int 2) 1 ?rq 0 0 = (answer_of (nth_reply flaky ?rq 0 2), after flaky ?rq (Suc 2) 0,
      map (\<lambda>i. 1 * 2 ^ i) [0..<0 + 2])"
    by (rule request_loop_stops)
      (auto simp: nth_reply_def flaky_def numeral_2_eq_2 retryable_def less_Suc_eq)
  then have "fst (client_require flaky (\<lambda>_. []) sample_client 0 ''t'' ''a'' ?s ''docs'' ''read'' [] None) = Inr ()"
    by (simp add: client_require_def client_authorize_decision_def post_def sample_client_def nth_reply_def flaky_def
        numeral_2_eq_2 answer_of_def finish_reply_def authorize_result_of_def body_get_def dict_get_default_def
        frozenset_of_def lift_raise_def)
  from mp [OF conjunct1 [OF client_require_fail_closed [OF refl]] this] show ?thesis
    by (auto simp: sample_client_def)
qed

end
