(* ===== verification/Context_Api.thy ===== *)
theory Context_Api
  imports Decisions_Api
begin

text \<open>
  From an external identity to a tenant, a membership and its permissions: \<^verbatim>\<open>TenantContextResolver\<close> of
  \<^verbatim>\<open>authzkit/tenancy/resolver.py\<close>, \<^verbatim>\<open>PermissionResolver\<close> of \<^verbatim>\<open>authzkit/rbac/resolver.py\<close> and the endpoint
  \<^verbatim>\<open>POST /v1/resolve-context\<close> of \<^verbatim>\<open>authz_service/api/context.py\<close>.
\<close>

section \<open>The permission resolver\<close>

definition resolve_membership_permissions :: "rbac_repository \<Rightarrow> membership \<Rightarrow> string set" where
  "resolve_membership_permissions repo m =
     (case mem_application_id m of
        None \<Rightarrow> {}
      | Some a \<Rightarrow> repo_resolve_user_permissions repo (mem_tenant_id m) a (mem_user_id m))"

section \<open>The tenant context resolver\<close>

record user_context =
  uc_tenant_id :: ident
  uc_application_id :: ident
  uc_user_id :: ident
  uc_roles :: "string set"
  uc_permissions :: "string set"

text \<open>\<^verbatim>\<open>_resolve_user\<close>; each store call commits by itself, so the database of a later failure keeps the user
  made here. \<open>uid\<close> and \<open>xid\<close> are the generated ids.\<close>

definition context_user ::
  "bool \<Rightarrow> ident \<Rightarrow> ident \<Rightarrow> string option identity_principal \<Rightarrow> sql_db \<Rightarrow>
     (authz_error, user) result \<times> sql_db" where
  "context_user allow_auto_provision uid xid p db =
     (case sql_find_user_by_external_identity db (ip_provider p) (ip_issuer p) (ip_subject p) of
        Some u \<Rightarrow> (Inr u, db)
      | None \<Rightarrow>
          if \<not> allow_auto_provision then (Inl NoActiveMembershipError, db)
          else (case sql_upsert_user_from_identity db uid xid (ip_provider p) (ip_issuer p) (ip_subject p)
                    (ip_email p) (ip_external_tenant_id p) None of
                  Inl e \<Rightarrow> (Inl e, db)
                | Inr ((u, _), db') \<Rightarrow> (Inr u, db')))"

definition truthy_str :: "string option \<Rightarrow> bool" where
  "truthy_str v \<longleftrightarrow> v \<noteq> None \<and> v \<noteq> Some ''''"

text \<open>The last rule of \<^verbatim>\<open>_resolve_tenant\<close>: the only tenant the user is an active member of.\<close>

definition sole_tenant :: "sql_db \<Rightarrow> string option identity_principal \<Rightarrow> (authz_error, tenant) result" where
  "sole_tenant db p =
     (case sql_find_user_by_external_identity db (ip_provider p) (ip_issuer p) (ip_subject p) of
        None \<Rightarrow> Inl NoActiveMembershipError
      | Some u \<Rightarrow>
          (case remdups (map mem_tenant_id (filter (\<lambda>m. mem_status m = MEMBERSHIP_STATUS_ACTIVE)
                   (sql_list_memberships_for_user db (user_id u)))) of
             [tid] \<Rightarrow> (case sql_get_tenant db tid of
                         None \<Rightarrow> Inl NoActiveMembershipError | Some t \<Rightarrow> Inr t)
           | _ \<Rightarrow> Inl NoActiveMembershipError))"

definition mapped_tenant :: "sql_db \<Rightarrow> string option identity_principal \<Rightarrow> tenant option" where
  "mapped_tenant db p =
     (if truthy_str (ip_external_tenant_id p)
      then sql_find_tenant_by_external db (ip_provider p) (ip_issuer p) (the (ip_external_tenant_id p))
      else None)"

definition context_tenant ::
  "sql_db \<Rightarrow> string option identity_principal \<Rightarrow> string option \<Rightarrow> (authz_error, tenant) result" where
  "context_tenant db p explicit =
     (if truthy_str explicit then
        (case sql_get_tenant db (the explicit) of
           None \<Rightarrow> Inl (InvalidRequestError (''unknown tenant: '' @ the explicit)) | Some t \<Rightarrow> Inr t)
      else (case mapped_tenant db p of
              Some t \<Rightarrow> Inr t
            | None \<Rightarrow> sole_tenant db p))"

text \<open>The application-scoped membership wins over the tenant-wide one.\<close>

definition context_membership :: "sql_db \<Rightarrow> ident \<Rightarrow> ident \<Rightarrow> ident \<Rightarrow> membership option" where
  "context_membership db tid aid uid =
     (case sql_get_membership db tid (Some aid) uid of
        None \<Rightarrow> sql_get_membership db tid None uid
      | Some m \<Rightarrow> Some m)"

definition resolve_identity ::
  "bool \<Rightarrow> ident \<Rightarrow> ident \<Rightarrow> string option identity_principal \<Rightarrow> string \<Rightarrow> string option \<Rightarrow> sql_db \<Rightarrow>
     (authz_error, user_context) result \<times> sql_db" where
  "resolve_identity allow_auto_provision uid xid p slug explicit db =
     (case sql_get_application_by_slug db slug of
        None \<Rightarrow> (Inl (InvalidRequestError (''unknown application: '' @ slug)), db)
      | Some app \<Rightarrow>
          (case context_user allow_auto_provision uid xid p db of
             (Inl e, db') \<Rightarrow> (Inl e, db')
           | (Inr u, db') \<Rightarrow>
               (res_bind (context_tenant db' p explicit) (\<lambda>t.
                if tenant_status t \<noteq> TENANT_STATUS_ACTIVE then Inl (TenantNotActiveError (tenant_id t))
                else (case context_membership db' (tenant_id t) (app_id app) (user_id u) of
                        None \<Rightarrow> Inl NoActiveMembershipError
                      | Some m \<Rightarrow>
                          if mem_status m \<noteq> MEMBERSHIP_STATUS_ACTIVE then Inl NoActiveMembershipError
                          else Inr \<lparr>uc_tenant_id = tenant_id t, uc_application_id = app_id app,
                                    uc_user_id = user_id u, uc_roles = mem_roles m,
                                    uc_permissions = resolve_membership_permissions (sql_repository db') m\<rparr>)),
                db')))"

section \<open>POST /v1/resolve-context\<close>

record context_body =
  cb_application_id :: string
  cb_provider :: string
  cb_issuer :: string
  cb_subject :: string
  cb_email :: "string option"
  cb_external_tenant_id :: "string option"
  cb_explicit_tenant_id :: "string option"
  cb_claims :: pydict

record context_response =
  cr_tenant_id :: ident
  cr_application_id :: ident
  cr_user_id :: ident
  cr_roles :: "string list"
  cr_permission_names :: "string list"

definition identity_of_body :: "context_body \<Rightarrow> string option identity_principal" where
  "identity_of_body b =
     \<lparr>ip_provider = cb_provider b, ip_issuer = cb_issuer b, ip_subject = cb_subject b, ip_email = cb_email b,
      ip_external_tenant_id = cb_external_tenant_id b, ip_claims = cb_claims b\<rparr>"

definition context_error :: "authz_error \<Rightarrow> http_error" where
  "context_error e =
     (case e of
        TenantNotActiveError _ \<Rightarrow> HTTPException 404 ''tenant_not_active''
      | NoActiveMembershipError \<Rightarrow> HTTPException 404 ''no_active_membership''
      | InvalidRequestError _ \<Rightarrow> HTTPException 400 ''invalid_request''
      | _ \<Rightarrow> http_of_error e)"

definition resolve_context_handler ::
  "settings \<Rightarrow> ident \<Rightarrow> ident \<Rightarrow> context_body \<Rightarrow> principal \<Rightarrow> sql_db \<Rightarrow>
     (http_error, context_response) result \<times> sql_db" where
  "resolve_context_handler st uid xid b p db =
     (case resolve_identity (cfg_auto_provision_user st) uid xid (identity_of_body b) (cb_application_id b)
             (cb_explicit_tenant_id b) db of
        (Inl e, db') \<Rightarrow> (Inl (context_error e), db')
      | (Inr ctx, db') \<Rightarrow>
          (res_bind (enforce_tenant_scope_binding p (uc_tenant_id ctx)) (\<lambda>_.
             Inr \<lparr>cr_tenant_id = uc_tenant_id ctx, cr_application_id = uc_application_id ctx,
                  cr_user_id = uc_user_id ctx, cr_roles = sorted_list_of_set (uc_roles ctx),
                  cr_permission_names = sorted_list_of_set (uc_permissions ctx)\<rparr>), db'))"

text \<open>A route whose handler may have changed the state when it fails.\<close>

definition effect_route ::
  "(principal \<Rightarrow> (http_error, principal) result) \<Rightarrow> ('key, 'net) auth_env \<Rightarrow> settings \<Rightarrow> instant \<Rightarrow> http_request \<Rightarrow>
     (http_error, unit) result \<Rightarrow> (principal \<Rightarrow> 's \<Rightarrow> (http_error, 'a) result \<times> 's) \<Rightarrow> 'net auth_state \<times> 's \<Rightarrow>
     (http_error, 'a) result \<times> 'net auth_state \<times> 's" where
  "effect_route require env st now rq valid handler w =
     (case w of (au, s) \<Rightarrow>
        (case require_caller env st now rq au of (r, au') \<Rightarrow>
           (case res_bind r (\<lambda>p. res_bind (require p) (\<lambda>q. res_bind valid (\<lambda>_. Inr q))) of
              Inl e \<Rightarrow> (Inl e, au', s)
            | Inr p \<Rightarrow> (case handler p s of (x, s') \<Rightarrow> (x, au', s')))))"

definition resolve_context_endpoint ::
  "('key, 'net) auth_env \<Rightarrow> settings \<Rightarrow> instant \<Rightarrow> ident \<Rightarrow> ident \<Rightarrow> http_request \<Rightarrow> context_body \<Rightarrow>
     'net auth_state \<times> sql_db \<Rightarrow> (http_error, context_response) result \<times> 'net auth_state \<times> sql_db" where
  "resolve_context_endpoint env st now uid xid rq b =
     effect_route require_runtime env st now rq (Inr ()) (resolve_context_handler st uid xid b)"

section \<open>Lemmas\<close>

lemma effect_route_Inr:
  assumes "effect_route require env st now rq valid h (au, s) = (Inr x, au', s')"
  shows "\<exists>p q. require_caller env st now rq au = (Inr p, au') \<and> require p = Inr q \<and> valid = Inr () \<and>
    h q s = (Inr x, s')"
  using assms
  by (auto simp: effect_route_def res_bind_eq_Inr split: prod.splits sum.splits)

text \<open>The user of an identity, found or made; a user made is the only change.\<close>

definition provisioned :: "user \<Rightarrow> sql_db \<Rightarrow> sql_db \<Rightarrow> bool" where
  "provisioned u db db' \<longleftrightarrow>
     (\<exists>i. db' = db\<lparr>db_users := db_users db @ [u], db_identities := db_identities db @ [i]\<rparr> \<and>
          xid_user_id i = user_id u)"

lemma upsert_fresh:
  assumes "upsert_identity db uid xid None (p, i, sb) email ext dn = Inr ((u, x), db')"
    and "sql_find_identity db p i sb = None"
  shows "sql_find_user_by_external_identity db' p i sb = Some u \<and> provisioned u db db' \<and> user_id u = uid \<and>
    uid \<notin> user_id ` set (db_users db)"
proof -
  from assms(1) have f: "\<forall>r \<in> set (db_users db). user_id r \<noteq> uid" and x: "xid_user_id x = uid" "same_identity p i sb x"
    and u: "user_id u = uid"
    and db': "db' = db\<lparr>db_users := db_users db @ [u], db_identities := db_identities db @ [x]\<rparr>"
    by (auto simp: upsert_identity_def Let_def res_bind_eq_Inr tbl_insert_Inr user_clash_def same_identity_def)
  have "tbl_get user_id (db_users db) uid = None" using f by (auto simp: tbl_get_None)
  then have "sql_find_user_by_external_identity db' p i sb = Some u"
    using assms(2) x u by (simp add: sql_find_user_by_external_identity_def sql_find_identity_def db' find_append_iff
        tbl_get_append)
  then show ?thesis using f x u by (auto simp: provisioned_def db')
qed

lemma context_user_Inr:
  assumes "context_user auto uid xid p db = (Inr u, db')"
  shows "sql_find_user_by_external_identity db' (ip_provider p) (ip_issuer p) (ip_subject p) = Some u \<and>
    (db' = db \<or> auto \<and> provisioned u db db' \<and> user_id u = uid \<and> uid \<notin> user_id ` set (db_users db))"
proof (cases "sql_find_user_by_external_identity db (ip_provider p) (ip_issuer p) (ip_subject p)")
  case (Some v)
  then show ?thesis using assms by (simp add: context_user_def)
next
  case None
  with assms obtain i where a: auto
    and up: "upsert_identity db uid xid (sql_find_identity db (ip_provider p) (ip_issuer p) (ip_subject p))
      (ip_provider p, ip_issuer p, ip_subject p) (ip_email p) (ip_external_tenant_id p) None = Inr ((u, i), db')"
    by (auto simp: context_user_def sql_upsert_user_from_identity_def split: if_splits sum.splits)
  have n: "sql_find_identity db (ip_provider p) (ip_issuer p) (ip_subject p) = None"
  proof (rule ccontr)
    assume "sql_find_identity db (ip_provider p) (ip_issuer p) (ip_subject p) \<noteq> None"
    then show False
      using None up by (auto simp: sql_find_user_by_external_identity_def upsert_identity_def split: option.splits)
  qed
  from upsert_fresh [OF up [unfolded n] n] a show ?thesis by blast
qed

lemma sorted_set_permissions [simp]:
  "set (sorted_list_of_set (resolve_membership_permissions (sql_repository db) m)) =
     resolve_membership_permissions (sql_repository db) m"
  by (rule set_sorted_list_of_set)
    (simp add: resolve_membership_permissions_def sql_repository_def sql_resolve_user_permissions_def Let_def
      split: option.split)

lemma context_membership_Some:
  assumes "context_membership db t a u = Some m"
  shows "mem_tenant_id m = t \<and> mem_user_id m = u \<and> (mem_application_id m = Some a \<or> mem_application_id m = None) \<and>
    sql_is_user_membership_active db t a u = (mem_status m = MEMBERSHIP_STATUS_ACTIVE)"
  using assms
  by (auto simp: context_membership_def sql_get_membership_def sql_find_membership_def to_membership_def
      sql_is_user_membership_active_def Let_def split: option.splits dest: find_Some_set)

text \<open>What a resolved context rests on.\<close>

definition context_grounds :: "sql_db \<Rightarrow> context_body \<Rightarrow> context_response \<Rightarrow> application \<Rightarrow> user \<Rightarrow> tenant \<Rightarrow> membership \<Rightarrow> bool" where
  "context_grounds db b r app u t m \<longleftrightarrow>
     sql_get_application_by_slug db (cb_application_id b) = Some app \<and>
     sql_find_user_by_external_identity db (cb_provider b) (cb_issuer b) (cb_subject b) = Some u \<and>
     context_tenant db (identity_of_body b) (cb_explicit_tenant_id b) = Inr t \<and> tenant_status t = ''active'' \<and>
     context_membership db (tenant_id t) (app_id app) (user_id u) = Some m \<and> mem_status m = ''active'' \<and>
     r = \<lparr>cr_tenant_id = tenant_id t, cr_application_id = app_id app, cr_user_id = user_id u,
          cr_roles = sorted_list_of_set (mem_roles m),
          cr_permission_names = sorted_list_of_set (resolve_membership_permissions (sql_repository db) m)\<rparr>"

lemma resolve_context_handler_Inr:
  assumes "resolve_context_handler st uid xid b p db = (Inr r, db')"
  shows "\<exists>app u t m. context_grounds db' b r app u t m \<and> enforce_tenant_scope_binding p (tenant_id t) = Inr () \<and>
    (db' = db \<or> cfg_auto_provision_user st \<and> provisioned u db db')"
proof -
  let ?i = "identity_of_body b"
  from assms obtain ctx where ctx: "resolve_identity (cfg_auto_provision_user st) uid xid ?i (cb_application_id b)
      (cb_explicit_tenant_id b) db = (Inr ctx, db')"
    and bind: "enforce_tenant_scope_binding p (uc_tenant_id ctx) = Inr ()"
    and r: "r = \<lparr>cr_tenant_id = uc_tenant_id ctx, cr_application_id = uc_application_id ctx,
        cr_user_id = uc_user_id ctx, cr_roles = sorted_list_of_set (uc_roles ctx),
        cr_permission_names = sorted_list_of_set (uc_permissions ctx)\<rparr>"
    by (auto simp: resolve_context_handler_def res_bind_eq_Inr split: prod.splits sum.splits)
  from ctx obtain app u where app: "sql_get_application_by_slug db (cb_application_id b) = Some app"
    and u: "context_user (cfg_auto_provision_user st) uid xid ?i db = (Inr u, db')"
    by (auto simp: resolve_identity_def split: option.splits prod.splits sum.splits)
  from ctx app u obtain t m where t: "context_tenant db' ?i (cb_explicit_tenant_id b) = Inr t" "tenant_status t = ''active''"
    and m: "context_membership db' (tenant_id t) (app_id app) (user_id u) = Some m" "mem_status m = ''active''"
    and c: "ctx = \<lparr>uc_tenant_id = tenant_id t, uc_application_id = app_id app, uc_user_id = user_id u,
        uc_roles = mem_roles m, uc_permissions = resolve_membership_permissions (sql_repository db') m\<rparr>"
    by (auto simp: resolve_identity_def res_bind_eq_Inr TENANT_STATUS_ACTIVE_def MEMBERSHIP_STATUS_ACTIVE_def
        split: option.splits if_splits)
  note cu = context_user_Inr [OF u]
  then have "sql_get_application_by_slug db' (cb_application_id b) = Some app"
    using app by (auto simp: provisioned_def sql_get_application_by_slug_def)
  then have "context_grounds db' b r app u t m"
    using t m cu by (simp add: context_grounds_def r c identity_of_body_def)
  then show ?thesis using cu bind c by auto
qed

lemma context_tenant_active:
  assumes "context_tenant db p explicit = Inr t" and "tenant_status t = ''active''"
  shows "sql_is_tenant_active db (tenant_id t)"
proof -
  have "\<exists>k. tbl_get tenant_id (db_tenants db) k = Some t"
    using assms(1)
    by (auto simp: context_tenant_def mapped_tenant_def sole_tenant_def sql_find_tenant_by_external_def
        sql_get_tenant_def split: if_splits option.splits list.splits)
  then have "tbl_get tenant_id (db_tenants db) (tenant_id t) = Some t" using tbl_get_Some by fastforce
  then show ?thesis using assms(2) by (simp add: sql_is_tenant_active_def)
qed

section \<open>Properties\<close>


definition context_db :: sql_db where
  "context_db = managed_db\<lparr>
     db_users := [\<lparr>user_id = ''u'', user_display_name = None, user_email = None, user_status = ''active''\<rparr>],
     db_identities := [\<lparr>xid_id = ''x'', xid_user_id = ''u'', xid_provider = ''p'', xid_issuer = ''i'',
       xid_subject = ''s'', xid_external_tenant_id = None, xid_email = None\<rparr>]\<rparr>"

definition context_request :: context_body where
  "context_request =
     \<lparr>cb_application_id = ''docs'', cb_provider = ''p'', cb_issuer = ''i'', cb_subject = ''s'', cb_email = None,
      cb_external_tenant_id = None, cb_explicit_tenant_id = None, cb_claims = []\<rparr>"

lemmas context_eval =
  resolve_context_handler_def resolve_identity_def context_user_def context_tenant_def mapped_tenant_def
  sole_tenant_def context_membership_def truthy_str_def identity_of_body_def context_request_def context_db_def
  managed_db_def sample_db_def empty_db_def sql_get_application_by_slug_def sql_find_user_by_external_identity_def
  sql_find_identity_def same_identity_def sql_list_memberships_for_user_def sql_get_membership_def
  sql_find_membership_def to_membership_def sql_get_tenant_def tbl_get_def MEMBERSHIP_STATUS_ACTIVE_def
  TENANT_STATUS_ACTIVE_def

lemma context_sample:
  assumes "enforce_tenant_scope_binding p ''t'' = Inr ()"
  shows "\<exists>r. resolve_context_handler st uid xid context_request p context_db = (Inr r, context_db) \<and>
    cr_tenant_id r = ''t'' \<and> cr_application_id r = ''a'' \<and> cr_user_id r = ''u''"
  using assms by (simp add: context_eval)


definition user_subject :: "ident \<Rightarrow> subject" where
  "user_subject u =
     \<lparr>subj_type = SUBJECT_USER, subj_user_id = Some u, subj_agent_id = None, subj_service_account_id = None\<rparr>"

text \<open>C34: the permissions of a context are the engine's. For a context the endpoint hands out in an active
  application, the permissions the engine would grant that user are exactly the context's, cut down by the
  tenant's mask, whenever the membership belongs to the application; for a tenant-wide membership the
  context shows none, although the engine may grant some.\<close>

theorem context_agrees_with_engine:
  assumes "resolve_context_handler st uid xid b p db = (Inr r, db')"
    and "sql_is_application_active db' (cr_application_id r)"
  shows "\<exists>m. context_membership db' (cr_tenant_id r) (cr_application_id r) (cr_user_id r) = Some m \<and>
    (let granted = effective_permissions (sql_repository db') (cr_tenant_id r) (cr_application_id r)
           (user_subject (cr_user_id r)) None None;
         cut = apply_mask (sql_resolve_tenant_permissions db' (cr_tenant_id r) (cr_application_id r)) in
     if mem_application_id m = Some (cr_application_id r) then granted = cut (set (cr_permission_names r))
     else mem_application_id m = None \<and> cr_permission_names r = [] \<and>
       granted = cut (sql_resolve_user_permissions db' (cr_tenant_id r) (cr_application_id r) (cr_user_id r)))"
proof -
  from resolve_context_handler_Inr [OF assms(1)] obtain app u t m where g: "context_grounds db' b r app u t m" by blast
  then have r: "cr_tenant_id r = tenant_id t" "cr_application_id r = app_id app" "cr_user_id r = user_id u"
    "cr_permission_names r = sorted_list_of_set (resolve_membership_permissions (sql_repository db') m)"
    by (simp_all add: context_grounds_def)
  have m: "context_membership db' (tenant_id t) (app_id app) (user_id u) = Some m" "mem_status m = ''active''"
    using g by (simp_all add: context_grounds_def)
  note mm = context_membership_Some [OF m(1)]
  have a: "sql_is_tenant_active db' (tenant_id t)"
    using g context_tenant_active by (auto simp: context_grounds_def)
  have e: "effective_permissions (sql_repository db') (tenant_id t) (app_id app) (user_subject (user_id u)) None None =
    apply_mask (sql_resolve_tenant_permissions db' (tenant_id t) (app_id app))
      (sql_resolve_user_permissions db' (tenant_id t) (app_id app) (user_id u))"
    using a assms(2) mm m(2)
    by (simp add: effective_permissions_def effective_permissions_undelegated_def inactive_def user_subject_def
        membership_active_def user_missing_def sql_repository_def r MEMBERSHIP_STATUS_ACTIVE_def)
  show ?thesis
  proof (cases "mem_application_id m")
    case None
    then have "resolve_membership_permissions (sql_repository db') m = {}"
      by (simp add: resolve_membership_permissions_def)
    then show ?thesis unfolding Let_def r e using m None by simp
  next
    case (Some x)
    then have "resolve_membership_permissions (sql_repository db') m =
        sql_resolve_user_permissions db' (tenant_id t) (app_id app) (user_id u)" and x: "x = app_id app"
      using mm by (simp_all add: resolve_membership_permissions_def sql_repository_def)
    then show ?thesis
      unfolding Let_def r e using m Some sorted_set_permissions [of db' m] by simp
  qed
qed

theorem context_agrees_with_engine_witness:
  "\<forall>st. (\<exists>r. resolve_context_handler st ''n'' ''n'' context_request sample_admin context_db = (Inr r, context_db) \<and>
     effective_permissions (sql_repository context_db) ''t'' ''a'' (user_subject ''u'') None None = set (cr_permission_names r))" (is "\<forall>st. ?P st")
proof (intro allI)
  fix st
  have b: "enforce_tenant_scope_binding sample_admin ''t'' = Inr ()"
    by (simp add: enforce_tenant_scope_binding_def tenant_scope_matches_def sample_admin_def SCOPE_ADMIN_def)
  obtain r where h: "resolve_context_handler st ''n'' ''n'' context_request sample_admin context_db = (Inr r, context_db)"
    and r: "cr_tenant_id r = ''t''" "cr_application_id r = ''a''" "cr_user_id r = ''u''"
    using context_sample [OF b] by blast
  have a: "sql_is_application_active context_db (cr_application_id r)"
    by (simp add: r sql_is_application_active_def context_eval)
  have m: "mem_application_id m = Some ''a''" if "context_membership context_db ''t'' ''a'' ''u'' = Some m" for m
    using that by (simp add: context_eval) force
  have k: "sql_resolve_tenant_permissions context_db ''t'' ''a'' = {}"
    by (simp add: sql_resolve_tenant_permissions_def context_eval)
  from context_agrees_with_engine [OF h a] show "?P st"
    unfolding Let_def r k apply_mask_def using h m by auto
qed

text \<open>C35: what the endpoint answers about a tenant named explicitly. For a known application and a known user
  the answer is decided in this order: 400 for a tenant that does not exist, 404 for one that is not active,
  404 for one without an active membership, and only then 403 for a caller bound elsewhere. So a caller
  that may not act in a tenant still learns from the answer whether the tenant exists, whether it is active
  and whether the user is a member.\<close>

theorem context_error_order:
  assumes "cb_explicit_tenant_id b = Some tid" and "tid \<noteq> ''''"
    and "sql_get_application_by_slug db (cb_application_id b) = Some app"
    and "sql_find_user_by_external_identity db (cb_provider b) (cb_issuer b) (cb_subject b) = Some u"
    and "enforce_tenant_scope_binding p tid = Inl refused"
  shows "resolve_context_handler st uid xid b p db =
    (Inl (case sql_get_tenant db tid of
            None \<Rightarrow> HTTPException 400 ''invalid_request''
          | Some t \<Rightarrow>
              if tenant_status t \<noteq> ''active'' then HTTPException 404 ''tenant_not_active''
              else if \<not> sql_is_user_membership_active db tid (app_id app) (user_id u)
              then HTTPException 404 ''no_active_membership''
              else HTTPException 403 ''tenant_scope_mismatch''), db)"
proof -
  have refused: "refused = HTTPException 403 ''tenant_scope_mismatch''"
    using assms(5) binding_cases [of p tid] by auto
  have u: "context_user (cfg_auto_provision_user st) uid xid (identity_of_body b) db = (Inr u, db)"
    using assms(4) by (simp add: context_user_def identity_of_body_def)
  have t: "context_tenant db (identity_of_body b) (Some tid) =
      (case sql_get_tenant db tid of None \<Rightarrow> Inl (InvalidRequestError (''unknown tenant: '' @ tid)) | Some t \<Rightarrow> Inr t)"
    using assms(2) by (simp add: context_tenant_def truthy_str_def split: option.split)
  have id: "tenant_id t = tid" if "sql_get_tenant db tid = Some t" for t
    using that tbl_get_Some by (fastforce simp: sql_get_tenant_def)
  have none: "\<not> sql_is_user_membership_active db tid (app_id app) (user_id u)"
    if "context_membership db tid (app_id app) (user_id u) = None"
    using that by (auto simp: context_membership_def sql_get_membership_def sql_is_user_membership_active_def
        split: option.splits)
  show ?thesis
    unfolding resolve_context_handler_def resolve_identity_def assms(1,3) option.case u prod.case sum.case t
    using id none context_membership_Some [of db tid "app_id app" "user_id u"] assms(5)
    by (auto simp: context_error_def TENANT_STATUS_ACTIVE_def MEMBERSHIP_STATUS_ACTIVE_def refused
        split: option.splits)
qed

theorem context_error_order_witness:
  "\<forall>st. (let b = context_request\<lparr>cb_explicit_tenant_id := Some ''nobody''\<rparr>; b' = context_request\<lparr>cb_explicit_tenant_id := Some ''t''\<rparr> in
   fst (resolve_context_handler st ''n'' ''n'' b tenant_caller context_db) = Inl (HTTPException 400 ''invalid_request'') \<and>
   fst (resolve_context_handler st ''n'' ''n'' b' tenant_caller context_db) = Inl (HTTPException 403 ''tenant_scope_mismatch''))" (is "\<forall>st. ?P st")
proof (intro allI)
  fix st
  have a: "sql_get_application_by_slug context_db ''docs'' = Some (hd (db_applications context_db))"
    by (simp add: context_eval)
  have u: "sql_find_user_by_external_identity context_db ''p'' ''i'' ''s'' = Some (hd (db_users context_db))"
    by (simp add: context_eval)
  have n: "enforce_tenant_scope_binding tenant_caller x = Inl (HTTPException 403 ''tenant_scope_mismatch'')"
    if "x \<noteq> ''other''" for x
    using that by (simp add: enforce_tenant_scope_binding_def tenant_scope_matches_def tenant_caller_def tenant_scope_def
        SCOPE_ADMIN_def SCOPE_RUNTIME_def)
  have b: "cb_application_id (context_request\<lparr>cb_explicit_tenant_id := z\<rparr>) = ''docs''"
    "cb_provider (context_request\<lparr>cb_explicit_tenant_id := z\<rparr>) = ''p''"
    "cb_issuer (context_request\<lparr>cb_explicit_tenant_id := z\<rparr>) = ''i''"
    "cb_subject (context_request\<lparr>cb_explicit_tenant_id := z\<rparr>) = ''s''"
    "cb_explicit_tenant_id (context_request\<lparr>cb_explicit_tenant_id := z\<rparr>) = z" for z
    by (simp_all add: context_request_def)
  have t: "sql_get_tenant context_db ''nobody'' = None" "sql_get_tenant context_db ''t'' = Some (hd (db_tenants context_db))"
    "tenant_status (hd (db_tenants context_db)) = ''active''"
    "sql_is_user_membership_active context_db ''t'' (app_id (hd (db_applications context_db))) (user_id (hd (db_users context_db)))"
    by (simp_all add: context_eval sql_is_user_membership_active_def)
  note th = context_error_order [OF b(5), unfolded b, OF _ a u n]
  show "?P st" unfolding Let_def using t by (simp add: th)
qed

end
