(* ===== verification/Agents.thy ===== *)
theory Agents
  imports Memory_Invariants
begin

text \<open>
  Agent runs: \<^verbatim>\<open>authzkit/agents/resolver.py\<close> builds the snapshot an agent works with,
  \<^verbatim>\<open>agents/guard.py\<close>, \<^verbatim>\<open>tools/guard.py\<close> and \<^verbatim>\<open>mcp/guard.py\<close> enforce it in the agent's process, and
  \<^verbatim>\<open>tools/registry.py\<close> and \<^verbatim>\<open>mcp/models.py\<close> describe the tools. The three guards keep one contract, a
  locale here; the facts proved in it tie a guard to the decision engine.
\<close>

section \<open>The agent context\<close>

text \<open>\<^verbatim>\<open>AgentContextResolver.resolve\<close>: the agent repository is its one method.\<close>

definition resolve_agent_context ::
  "rbac_repository \<Rightarrow> (ident \<Rightarrow> ident \<Rightarrow> ident \<Rightarrow> agent option) \<Rightarrow> ident \<Rightarrow> ident \<Rightarrow> ident \<Rightarrow> ident \<Rightarrow>
     (authz_error, agent_context) result" where
  "resolve_agent_context rbac agents t a u g =
     (if \<not> repo_is_tenant_active rbac t then Inl (TenantNotActiveError t)
      else if \<not> repo_is_user_membership_active rbac t a u then Inl NoActiveMembershipError
      else (case agents t a g of
          None \<Rightarrow> Inl (AgentNotFoundError g)
        | Some ag \<Rightarrow>
            if agent_status ag \<noteq> ''active'' then Inl (AgentNotActiveError g)
            else (let user_perms = repo_resolve_user_permissions rbac t a u;
                      agent_perms = repo_resolve_agent_permissions rbac t a g;
                      tenant_perms = repo_resolve_tenant_permissions rbac t a;
                      effective = user_perms \<inter> agent_perms;
                      effective = (if tenant_perms \<noteq> {} then effective \<inter> tenant_perms else effective) in
              Inr \<lparr>ac_tenant_id = t, ac_application_id = a, ac_user_id = u, ac_user_roles = {},
                   ac_user_permissions = user_perms, ac_agent_id = g, ac_agent_role = agent_role ag,
                   ac_agent_permissions = agent_perms, ac_effective_permissions = effective\<rparr>)))"

section \<open>Guards\<close>

record agent_guard =
  ag_context :: agent_context
  ag_permissions :: "string set"
  ag_critical_actions :: "string set"
  ag_revalidate :: "(agent_context \<Rightarrow> string \<Rightarrow> string \<Rightarrow> (authz_error, bool) result) option"

definition agent_guard_init ::
  "agent_context \<Rightarrow> string set option \<Rightarrow>
     (agent_context \<Rightarrow> string \<Rightarrow> string \<Rightarrow> (authz_error, bool) result) option \<Rightarrow> agent_guard" where
  "agent_guard_init ctx critical revalidate =
     \<lparr>ag_context = ctx, ag_permissions = ac_effective_permissions ctx,
      ag_critical_actions = (case critical of None \<Rightarrow> {} | Some c \<Rightarrow> c),
      ag_revalidate = revalidate\<rparr>"

definition agent_guard_is_allowed :: "agent_guard \<Rightarrow> string \<Rightarrow> string \<Rightarrow> bool" where
  "agent_guard_is_allowed g resource action \<longleftrightarrow> join_dot resource action \<in> ag_permissions g"

definition agent_guard_require ::
  "agent_guard \<Rightarrow> bool \<Rightarrow> string \<Rightarrow> string \<Rightarrow> (authz_error, unit) result" where
  "agent_guard_require g critical resource action =
     (let permission = join_dot resource action in
      if permission \<notin> ag_permissions g then Inl (PermissionDeniedError permission)
      else (case ag_revalidate g of
          None \<Rightarrow> Inr ()
        | Some check \<Rightarrow>
            if critical \<or> permission \<in> ag_critical_actions g
            then res_bind (check (ag_context g) resource action)
                   (\<lambda>allowed. if \<not> allowed then Inl (PermissionDeniedError permission) else Inr ())
            else Inr ()))"

text \<open>\<^verbatim>\<open>ToolGuard\<close> and \<^verbatim>\<open>MCPGuard\<close> hold only a permission set.\<close>

definition tool_guard_is_allowed :: "string set \<Rightarrow> string \<Rightarrow> string \<Rightarrow> bool" where
  "tool_guard_is_allowed permissions resource action \<longleftrightarrow> join_dot resource action \<in> permissions"

definition tool_guard_require ::
  "string set \<Rightarrow> string \<Rightarrow> string \<Rightarrow> (authz_error, unit) result" where
  "tool_guard_require permissions resource action =
     (let permission = join_dot resource action in
      if permission \<notin> permissions then Inl (PermissionDeniedError permission) else Inr ())"

definition tool_guard_filter_allowed ::
  "string set \<Rightarrow> (string \<times> string) list \<Rightarrow> (string \<times> string) list" where
  "tool_guard_filter_allowed permissions checks =
     filter (\<lambda>(r, a). join_dot r a \<in> permissions) checks"

definition MCP_NAMESPACE :: string where
  "MCP_NAMESPACE = ''mcp''"

definition mcp_name :: "string \<Rightarrow> string \<Rightarrow> string" where
  "mcp_name server action = join_dot (join_dot MCP_NAMESPACE server) action"

definition mcp_guard_is_allowed :: "string set \<Rightarrow> string \<Rightarrow> string \<Rightarrow> bool" where
  "mcp_guard_is_allowed permissions server action \<longleftrightarrow> mcp_name server action \<in> permissions"

definition mcp_guard_require ::
  "string set \<Rightarrow> string \<Rightarrow> string \<Rightarrow> (authz_error, unit) result" where
  "mcp_guard_require permissions server action =
     (let permission = mcp_name server action in
      if permission \<notin> permissions then Inl (PermissionDeniedError permission) else Inr ())"

text \<open>The list that \<^verbatim>\<open>allowed_tools\<close> returns has the order of a Python set; it is a set here.\<close>

definition mcp_guard_allowed_tools :: "string set \<Rightarrow> string \<Rightarrow> string set" where
  "mcp_guard_allowed_tools permissions server =
     (let prefix = mcp_name server '''' in
      (\<lambda>p. drop (length prefix) p) ` {p \<in> permissions. starts_with prefix p})"

section \<open>Tools\<close>

record mcp_tool =
  mt_server :: string
  mt_action :: string
  mt_description :: "string option"

definition mcp_tool_permission :: "mcp_tool \<Rightarrow> string" where
  "mcp_tool_permission t = mcp_name (mt_server t) (mt_action t)"

record mcp_server =
  ms_name :: string
  ms_tools :: "mcp_tool set"
  ms_description :: "string option"

definition mcp_server_permissions :: "mcp_server \<Rightarrow> string set" where
  "mcp_server_permissions s = mcp_tool_permission ` ms_tools s"

record tool_descriptor =
  td_name :: string
  td_namespace :: string
  td_actions :: "string set"
  td_description :: "string option"

definition permission_for :: "tool_descriptor \<Rightarrow> string \<Rightarrow> string" where
  "permission_for d action = join_dot (join_dot (td_namespace d) (td_name d)) action"

type_synonym tool_registry = "(string, tool_descriptor) dict"

definition registry_register :: "tool_registry \<Rightarrow> tool_descriptor \<Rightarrow> tool_registry" where
  "registry_register reg d = dict_set (join_dot (td_namespace d) (td_name d)) d reg"

definition registry_get :: "tool_registry \<Rightarrow> string \<Rightarrow> string \<Rightarrow> tool_descriptor option" where
  "registry_get reg namespace name = dict_get reg (join_dot namespace name)"

definition registry_all :: "tool_registry \<Rightarrow> tool_descriptor list" where
  "registry_all reg = dict_values reg"

section \<open>The contract of a guard\<close>

text \<open>A guard built from a permission set: it knows how a call names its permission, and refuses
  exactly the calls whose permission is not in the set.\<close>

locale permission_guard =
  fixes name :: "string \<Rightarrow> string \<Rightarrow> string"
    and is_allowed :: "string set \<Rightarrow> string \<Rightarrow> string \<Rightarrow> bool"
    and require :: "string set \<Rightarrow> string \<Rightarrow> string \<Rightarrow> (authz_error, unit) result"
  assumes is_allowed_iff: "is_allowed P r a \<longleftrightarrow> name r a \<in> P"
    and require_ok: "require P r a = Inr () \<longleftrightarrow> is_allowed P r a"
    and require_error: "require P r a = Inl e \<Longrightarrow> e = PermissionDeniedError (name r a)"
begin

lemma require_mono: "\<lbrakk>require P r a = Inr (); P \<subseteq> Q\<rbrakk> \<Longrightarrow> require Q r a = Inr ()"
  using is_allowed_iff require_ok by blast

lemma require_inter:
  "require (P \<inter> Q) r a = Inr () \<longleftrightarrow> require P r a = Inr () \<and> require Q r a = Inr ()"
  using is_allowed_iff require_ok by simp

text \<open>A guard holding the effective set of a subject lets through what the engine would allow when
  no attribute rule is configured.\<close>

lemma require_iff_authorize:
  assumes "name r a = required_permission req" and "evaluate pe req = Inr True"
    and "\<not> (subj_type (req_subject req) = SUBJECT_USER \<and> agent_missing (req_references req))"
  shows "require (effective_permissions repo (req_tenant_id req) (req_application_id req)
      (req_subject req) (req_delegated req) (req_references req)) r a = Inr () \<longleftrightarrow>
    (\<exists>d. authorize repo pe req = Inr d \<and> dec_allowed d)"
  unfolding authorize_allowed_iff authorize_allow_iff require_ok is_allowed_iff
  using assms by simp

end

interpretation tool: permission_guard join_dot tool_guard_is_allowed tool_guard_require
  by unfold_locales
    (auto simp: tool_guard_is_allowed_def tool_guard_require_def Let_def split: if_splits)

interpretation mcp: permission_guard mcp_name mcp_guard_is_allowed mcp_guard_require
  by unfold_locales
    (auto simp: mcp_guard_is_allowed_def mcp_guard_require_def Let_def split: if_splits)

text \<open>An agent guard without a revalidation hook is a guard over its snapshot.\<close>

definition snapshot_guard :: "agent_context \<Rightarrow> string set \<Rightarrow> agent_guard" where
  "snapshot_guard ctx P = (agent_guard_init ctx None None)\<lparr>ag_permissions := P\<rparr>"

interpretation snapshot: permission_guard join_dot
    "\<lambda>P. agent_guard_is_allowed (snapshot_guard ctx P)"
    "\<lambda>P. agent_guard_require (snapshot_guard ctx P) critical"
  for ctx critical
  by unfold_locales
    (auto simp: agent_guard_is_allowed_def agent_guard_require_def snapshot_guard_def
      agent_guard_init_def Let_def split: if_splits)

section \<open>Lemmas\<close>

lemma mcp_allowed_tools_iff:
  "action \<in> mcp_guard_allowed_tools P server \<longleftrightarrow> mcp_guard_is_allowed P server action"
  by (force simp: mcp_guard_allowed_tools_def mcp_guard_is_allowed_def mcp_name_def join_dot_def
      starts_with_iff Let_def)

lemma resolve_agent_context_effective:
  assumes "\<And>g. repo_is_agent_active rbac t a g \<longleftrightarrow>
      (\<exists>ag. agents t a g = Some ag \<and> agent_status ag = ''active'')"
  shows "effective_permissions rbac t a
      \<lparr>subj_type = SUBJECT_AGENT, subj_user_id = Some u, subj_agent_id = Some g,
       subj_service_account_id = None\<rparr> None None =
    (if repo_is_application_active rbac a
     then (case resolve_agent_context rbac agents t a u g of
             Inl _ \<Rightarrow> {} | Inr c \<Rightarrow> ac_effective_permissions c)
     else {})"
  using assms [of g]
  by (auto simp: effective_permissions_def effective_permissions_undelegated_def inactive_def
      membership_active_def agent_active_def resolve_agent_context_def user_missing_def
      agent_missing_def apply_mask_def Let_def split: option.splits)

section \<open>Properties\<close>

text \<open>The agent snapshot is the engine's effective set. Over the in-memory store the context an
  agent works with carries exactly the effective set the decision engine computes for the agent
  acting for the user, and resolving fails exactly where that set is empty for a reason of activity;
  but the resolver does not look at the application's status, so for an inactive application the
  engine grants nothing while the snapshot keeps its permissions.\<close>

theorem agent_snapshot_is_effective_set:
  "effective_permissions (memory_repository s) t a
      \<lparr>subj_type = SUBJECT_AGENT, subj_user_id = Some u, subj_agent_id = Some g,
       subj_service_account_id = None\<rparr> None None =
     (if is_application_active s a
      then (case resolve_agent_context (memory_repository s) (get_agent s) t a u g of
              Inl _ \<Rightarrow> {} | Inr c \<Rightarrow> ac_effective_permissions c)
      else {}) \<and>
   ((\<exists>c. resolve_agent_context (memory_repository s) (get_agent s) t a u g = Inr c) \<longleftrightarrow>
      is_tenant_active s t \<and> is_user_membership_active s t a u \<and> is_agent_active s t a g)"
proof -
  have "repo_is_agent_active (memory_repository s) t a g \<longleftrightarrow>
      (\<exists>ag. get_agent s t a g = Some ag \<and> agent_status ag = ''active'')" for g
    by (auto simp: memory_repository_def is_agent_active_def split: option.splits)
  note effective = resolve_agent_context_effective
    [of "memory_repository s" t a "get_agent s", OF this, of u g]
  show ?thesis
    unfolding effective
    by (auto simp: memory_repository_def resolve_agent_context_def is_agent_active_def Let_def
        split: option.splits)
qed

text \<open>The guards enforce the decisions of the engine. A tool guard, an MCP guard and an agent
  guard without revalidation that hold the effective set of a subject let a call through exactly
  when the engine allows the request with the same permission name, whenever the attribute rules
  pass for the request; otherwise they raise the denial that names the permission.\<close>

theorem guards_agree_with_engine:
  fixes repo req
  defines "P \<equiv> effective_permissions repo (req_tenant_id req) (req_application_id req)
      (req_subject req) (req_delegated req) (req_references req)"
  assumes "evaluate pe req = Inr True"
    and "\<not> (subj_type (req_subject req) = SUBJECT_USER \<and> agent_missing (req_references req))"
    and "required_permission req = mcp_name server action"
  shows "(tool_guard_require P (req_resource req) (req_action req) = Inr () \<longleftrightarrow>
           (\<exists>d. authorize repo pe req = Inr d \<and> dec_allowed d)) \<and>
         (mcp_guard_require P server action = Inr () \<longleftrightarrow>
           (\<exists>d. authorize repo pe req = Inr d \<and> dec_allowed d)) \<and>
         (agent_guard_require (snapshot_guard ctx P) critical (req_resource req) (req_action req) =
             Inr () \<longleftrightarrow>
           (\<exists>d. authorize repo pe req = Inr d \<and> dec_allowed d)) \<and>
         (action \<in> mcp_guard_allowed_tools P server \<longleftrightarrow>
           (\<exists>d. authorize repo pe req = Inr d \<and> dec_allowed d))"
proof -
  have n: "join_dot (req_resource req) (req_action req) = required_permission req"
    by (simp add: required_permission_def)
  show ?thesis
    unfolding mcp_allowed_tools_iff mcp.require_ok [symmetric] P_def
      tool.require_iff_authorize [OF n assms(2,3)]
      mcp.require_iff_authorize [OF assms(4) [symmetric] assms(2,3)]
      snapshot.require_iff_authorize [OF n assms(2,3)] by simp
qed

theorem guards_agree_with_engine_witness:
  "mcp_guard_require (effective_permissions one_user_repository ''t'' ''a''
       (req_subject read_request) None None) ''github'' ''read'' =
     Inl (PermissionDeniedError ''mcp.github.read'') \<and>
   \<not> (\<exists>d. authorize one_user_repository \<lparr>pe_rules = [], pe_attr = (\<lambda>_ _. PNone)\<rparr>
       (read_request\<lparr>req_resource := ''mcp.github''\<rparr>) = Inr d \<and> dec_allowed d)"
proof -
  let ?req = "read_request\<lparr>req_resource := ''mcp.github''\<rparr>"
  let ?pe = "\<lparr>pe_rules = [], pe_attr = (\<lambda>_ _. PNone)\<rparr>"
  have e: "evaluate ?pe ?req = Inr True" by (simp add: evaluate_def)
  have m: "\<not> (subj_type (req_subject ?req) = SUBJECT_USER \<and> agent_missing (req_references ?req))"
    by (simp add: read_request_def agent_missing_def)
  have n: "required_permission ?req = mcp_name ''github'' ''read''"
    by (simp add: read_request_def required_permission_def mcp_name_def join_dot_def
        MCP_NAMESPACE_def)
  have p: "mcp_guard_require (effective_permissions one_user_repository ''t'' ''a''
       (req_subject read_request) None None) ''github'' ''read'' =
     Inl (PermissionDeniedError ''mcp.github.read'')"
    by (simp add: mcp_guard_require_def effective_permissions_def mcp_name_def join_dot_def
        effective_permissions_undelegated_def one_user_repository_def read_request_def inactive_def
        membership_active_def user_missing_def agent_missing_def apply_mask_def MCP_NAMESPACE_def)
  show ?thesis
    using guards_agree_with_engine [OF e m n, of one_user_repository] p
    by (simp add: read_request_def)
qed

end
