(* ===== verification/Sdk_Calls.thy ===== *)
theory Sdk_Calls
  imports Sdk_Client Context_Api Agents
begin

text \<open>
  The rest of the client: resolving a context and the calls on delegation grants (\<^verbatim>\<open>authz_sdk/client.py\<close>),
  and agent runs over it (\<^verbatim>\<open>authz_sdk/agent_session.py\<close>), which load the effective permissions once, guard
  every call with them and ask the service again for critical actions. As in \<^verbatim>\<open>Sdk_Client\<close> the transport is
  a parameter; so is the parser of ISO dates.
\<close>

section \<open>Requests\<close>

text \<open>\<^verbatim>\<open>_request\<close> without a body; \<open>post\<close> is the case with one.\<close>

definition bare_request ::
  "'net transport \<Rightarrow> 'p sdk_client \<Rightarrow> 'net \<Rightarrow> string \<Rightarrow> string \<Rightarrow> (sdk_error, pyval) result \<times> 'net" where
  "bare_request http cl net method path =
     (case request_loop http (cl_max_retries cl) (cl_backoff cl)
             \<lparr>sr_method = method, sr_path = path, sr_body = None, sr_headers = [], sr_params = None\<rparr> 0 net of
        (r, net', _) \<Rightarrow> (r, net'))"

text \<open>\<^verbatim>\<open>int(v)\<close> and \<^verbatim>\<open>dict(v)\<close> of a decoded value; a list of pairs, which \<^verbatim>\<open>dict\<close> would take as well, counts as
  an error.\<close>

definition int_of :: "pyval \<Rightarrow> (authz_error, int) result" where
  "int_of v =
     (case v of PInt i \<Rightarrow> Inr i | PBool b \<Rightarrow> Inr (if b then 1 else 0) | PStr s \<Rightarrow> py_int s | _ \<Rightarrow> Inl TypeError)"

definition dict_of :: "pyval \<Rightarrow> (authz_error, pydict) result" where
  "dict_of v =
     (case v of PDict d \<Rightarrow> Inr d | PList [] \<Rightarrow> Inr [] | PStr [] \<Rightarrow> Inr [] | _ \<Rightarrow> Inl TypeError)"

section \<open>Contexts\<close>

record resolved_context =
  rc_tenant_id :: pyval
  rc_application_id :: pyval
  rc_user_id :: pyval
  rc_roles :: "pyval set"
  rc_permissions :: "pyval set"

definition resolved_context_of :: "pyval \<Rightarrow> (authz_error, resolved_context) result" where
  "resolved_context_of data =
     res_bind (body_item data ''tenant_id'') (\<lambda>t.
     res_bind (body_item data ''application_id'') (\<lambda>a.
     res_bind (body_item data ''user_id'') (\<lambda>u.
     res_bind (res_bind (body_get data ''roles'' PNone) frozenset_of) (\<lambda>rs.
     res_bind (res_bind (body_get data ''permissions'' PNone) frozenset_of) (\<lambda>ps.
     Inr \<lparr>rc_tenant_id = t, rc_application_id = a, rc_user_id = u, rc_roles = rs, rc_permissions = ps\<rparr>)))))"

definition context_request_body :: "context_body \<Rightarrow> pydict" where
  "context_request_body b =
     [(''application_id'', PStr (cb_application_id b)), (''provider'', PStr (cb_provider b)),
      (''issuer'', PStr (cb_issuer b)), (''subject'', PStr (cb_subject b)), (''email'', opt_val (cb_email b)),
      (''external_tenant_id'', opt_val (cb_external_tenant_id b)),
      (''explicit_tenant_id'', opt_val (cb_explicit_tenant_id b)), (''claims'', PDict (cb_claims b))]"

text \<open>The keyword arguments of \<^verbatim>\<open>resolve_context\<close> are the fields of the schema's body.\<close>

definition client_resolve_context ::
  "'net transport \<Rightarrow> 'p sdk_client \<Rightarrow> 'net \<Rightarrow> context_body \<Rightarrow> (sdk_error, resolved_context) result \<times> 'net" where
  "client_resolve_context http cl net b =
     (case post http cl net ''v1/resolve-context'' (context_request_body b) [] of
        (r, net') \<Rightarrow> (res_bind r (\<lambda>data. lift_raise (resolved_context_of data)), net'))"

section \<open>Delegation grants\<close>

record sdk_delegation =
  sd_id :: pyval
  sd_tenant_id :: pyval
  sd_application_id :: pyval
  sd_user_id :: pyval
  sd_agent_id :: pyval
  sd_permissions :: "pyval set"
  sd_status :: pyval
  sd_active :: bool
  sd_expires_at :: instant
  sd_purpose :: pyval
  sd_token :: pyval

definition replace_z :: "string \<Rightarrow> string" where
  "replace_z s = concat (map (\<lambda>c. if c = CHR ''Z'' then ''+00:00'' else [c]) s)"

text \<open>\<^verbatim>\<open>Delegation.from_dict\<close>; \<open>parse_iso\<close> is \<^verbatim>\<open>datetime.fromisoformat\<close>.\<close>

definition sdk_delegation_of ::
  "(string \<Rightarrow> instant option) \<Rightarrow> (pyval \<Rightarrow> string) \<Rightarrow> pyval \<Rightarrow> (authz_error, sdk_delegation) result" where
  "sdk_delegation_of parse_iso repr data =
     res_bind (body_item data ''id'') (\<lambda>i.
     res_bind (body_item data ''tenant_id'') (\<lambda>t.
     res_bind (body_item data ''application_id'') (\<lambda>a.
     res_bind (body_item data ''user_id'') (\<lambda>u.
     res_bind (body_item data ''agent_id'') (\<lambda>g.
     res_bind (res_bind (body_get data ''permissions'' PNone) frozenset_of) (\<lambda>ps.
     res_bind (body_get data ''status'' (PStr ''active'')) (\<lambda>st.
     res_bind (body_get data ''active'' (PBool True)) (\<lambda>ac.
     res_bind (body_item data ''expires_at'') (\<lambda>ex.
     res_bind (case parse_iso (replace_z (py_str repr ex)) of None \<Rightarrow> Inl ValueError | Some e \<Rightarrow> Inr e) (\<lambda>e.
     res_bind (body_get data ''purpose'' PNone) (\<lambda>pu.
     res_bind (body_get data ''token'' PNone) (\<lambda>to.
     Inr \<lparr>sd_id = i, sd_tenant_id = t, sd_application_id = a, sd_user_id = u, sd_agent_id = g,
          sd_permissions = ps, sd_status = st, sd_active = py_truthy ac, sd_expires_at = e,
          sd_purpose = pu, sd_token = to\<rparr>))))))))))))"

definition opt_ref :: "user_ref option \<Rightarrow> pydict" where
  "opt_ref r = (case r of None \<Rightarrow> [] | Some x \<Rightarrow> [(''user_ref'', user_ref_dict x)])"

definition create_delegation_body :: "delegation_in \<Rightarrow> pydict" where
  "create_delegation_body d =
     [(''tenant_id'', PStr (di_tenant_id d)), (''application_id'', PStr (di_application_id d))] @
     opt_field ''user_id'' (di_user_id d) @ opt_ref (di_user_ref d) @
     opt_field ''agent_id'' (di_agent_id d) @ opt_field ''agent_name'' (di_agent_name d) @
     (case di_permissions d of None \<Rightarrow> [] | Some ps \<Rightarrow> [(''permissions'', PList (map PStr (sort ps)))]) @
     (case di_ttl_seconds d of None \<Rightarrow> [] | Some t \<Rightarrow> [(''ttl_seconds'', PInt t)]) @
     opt_field ''purpose'' (di_purpose d)"

text \<open>The keyword arguments of \<^verbatim>\<open>create_delegation\<close> are the fields of the endpoint's body.\<close>

definition client_create_delegation ::
  "'net transport \<Rightarrow> (string \<Rightarrow> instant option) \<Rightarrow> (pyval \<Rightarrow> string) \<Rightarrow> 'p sdk_client \<Rightarrow> 'net \<Rightarrow> delegation_in \<Rightarrow>
     (sdk_error, sdk_delegation) result \<times> 'net" where
  "client_create_delegation http parse_iso repr cl net d =
     (case post http cl net ''v1/delegations'' (create_delegation_body d) [] of
        (r, net') \<Rightarrow> (res_bind r (\<lambda>data. lift_raise (sdk_delegation_of parse_iso repr data)), net'))"

definition client_get_delegation ::
  "'net transport \<Rightarrow> (string \<Rightarrow> instant option) \<Rightarrow> (pyval \<Rightarrow> string) \<Rightarrow> 'p sdk_client \<Rightarrow> 'net \<Rightarrow> ident \<Rightarrow>
     (sdk_error, sdk_delegation) result \<times> 'net" where
  "client_get_delegation http parse_iso repr cl net gid =
     (case bare_request http cl net ''GET'' (''v1/delegations/'' @ gid) of
        (r, net') \<Rightarrow> (res_bind r (\<lambda>data. lift_raise (sdk_delegation_of parse_iso repr data)), net'))"

definition client_revoke_delegation ::
  "'net transport \<Rightarrow> 'p sdk_client \<Rightarrow> 'net \<Rightarrow> ident \<Rightarrow> (sdk_error, unit) result \<times> 'net" where
  "client_revoke_delegation http cl net gid =
     (case bare_request http cl net ''DELETE'' (''v1/delegations/'' @ gid) of
        (r, net') \<Rightarrow> (res_bind r (\<lambda>_. Inr ()), net'))"

definition given_field :: "string \<Rightarrow> string option \<Rightarrow> pydict" where
  "given_field k v = (case v of None \<Rightarrow> [] | Some x \<Rightarrow> if x = '''' then [] else [(k, PStr x)])"

definition revoke_delegations_body :: "revoke_in \<Rightarrow> pydict" where
  "revoke_delegations_body r =
     [(''tenant_id'', PStr (ri_tenant_id r))] @ given_field ''user_id'' (ri_user_id r) @
     given_field ''agent_id'' (ri_agent_id r) @ opt_ref (ri_user_ref r) @
     opt_field ''agent_name'' (ri_agent_name r) @ opt_field ''application_id'' (ri_application_id r)"

definition client_revoke_delegations ::
  "'net transport \<Rightarrow> 'p sdk_client \<Rightarrow> 'net \<Rightarrow> revoke_in \<Rightarrow> (sdk_error, int) result \<times> 'net" where
  "client_revoke_delegations http cl net r =
     (case post http cl net ''v1/delegations/revoke'' (revoke_delegations_body r) [] of
        (x, net') \<Rightarrow>
          (res_bind x (\<lambda>data. lift_raise (res_bind (body_item data ''revoked'') int_of)), net'))"

definition client_introspect_delegation ::
  "'net transport \<Rightarrow> 'p sdk_client \<Rightarrow> 'net \<Rightarrow> string \<Rightarrow> (sdk_error, pydict) result \<times> 'net" where
  "client_introspect_delegation http cl net token =
     (case post http cl net ''v1/delegations/introspect'' [(''token'', PStr token)] [] of
        (r, net') \<Rightarrow> (res_bind r (\<lambda>data. lift_raise (dict_of data)), net'))"

section \<open>Agent runs\<close>

text \<open>What \<^verbatim>\<open>start_agent_session\<close> returns: the context with the preloaded permissions, and what its
  \<^verbatim>\<open>revalidate\<close> closure holds on to. JSON values that are no strings are never equal to a permission.\<close>

record agent_session =
  as_context :: agent_context
  as_critical :: "string set"
  as_subject :: sdk_subject
  as_token :: "string option"

definition agent_run_subject :: "ident \<Rightarrow> ident \<Rightarrow> sdk_subject" where
  "agent_run_subject uid gid =
     \<lparr>sj_type = ''agent'', sj_user_id = Some uid, sj_agent_id = Some gid, sj_service_account_id = None,
      sj_user_ref = None, sj_agent_name = None\<rparr>"

fun string_of :: "pyval \<Rightarrow> string option" where
  "string_of (PStr s) = Some s"
| "string_of _ = None"

definition strings_in :: "pyval set \<Rightarrow> string set" where
  "strings_in vs = \<Union> ((\<lambda>v. set_option (string_of v)) ` vs)"

definition start_agent_session ::
  "'net transport \<Rightarrow> (string \<Rightarrow> string) \<Rightarrow> (user_ref \<Rightarrow> string) \<Rightarrow> pyval set sdk_client \<Rightarrow> 'net \<Rightarrow> instant \<Rightarrow> instant \<Rightarrow>
     ident \<Rightarrow> ident \<Rightarrow> ident \<Rightarrow> ident \<Rightarrow> string \<Rightarrow> string set option \<Rightarrow> string option \<Rightarrow>
     (sdk_error, agent_session) result \<times> pyval set sdk_client \<times> 'net" where
  "start_agent_session http sha show_ref cl net now later tid aid uid gid role critical token =
     (let subject = agent_run_subject uid gid in
      case get_effective_permissions http sha show_ref cl net now later tid aid subject False token of
        (Inl e, cl', net') \<Rightarrow> (Inl e, cl', net')
      | (Inr permissions, cl', net') \<Rightarrow>
          (Inr \<lparr>as_context = \<lparr>ac_tenant_id = tid, ac_application_id = aid, ac_user_id = uid, ac_user_roles = {},
                  ac_user_permissions = {}, ac_agent_id = gid, ac_agent_role = role, ac_agent_permissions = {},
                  ac_effective_permissions = strings_in permissions\<rparr>,
                as_critical = (case critical of None \<Rightarrow> {} | Some c \<Rightarrow> c), as_subject = subject, as_token = token\<rparr>,
           cl', net'))"

text \<open>The \<^verbatim>\<open>require\<close> of the guard over the session: \<^verbatim>\<open>AgentGuard.require\<close> with the closure as its hook, which sends
  a request and so moves the transport.\<close>

definition session_require ::
  "'net transport \<Rightarrow> (pyval \<Rightarrow> string) \<Rightarrow> 'p sdk_client \<Rightarrow> 'net \<Rightarrow> agent_session \<Rightarrow> bool \<Rightarrow> string \<Rightarrow> string \<Rightarrow>
     (sdk_error, unit) result \<times> 'net" where
  "session_require http repr cl net s critical resource action =
     (let permission = join_dot resource action in
      if permission \<notin> ac_effective_permissions (as_context s) then (Inl (SdkRaised (PermissionDeniedError permission)), net)
      else if critical \<or> permission \<in> as_critical s then
        (case client_authorize http repr cl net (ac_tenant_id (as_context s)) (ac_application_id (as_context s))
                (as_subject s) resource action [] (as_token s) of
           (r, net') \<Rightarrow>
             (res_bind r (\<lambda>allowed. if \<not> allowed then Inl (SdkRaised (PermissionDeniedError permission)) else Inr ()), net'))
      else (Inr (), net))"

text \<open>\<^verbatim>\<open>delegation_claims\<close>: the claims of a token, read without verifying it.\<close>

record delegation_routing =
  dr_delegation_id :: pyval
  dr_tenant_id :: pyval
  dr_application_id :: pyval
  dr_user_id :: pyval
  dr_agent_id :: pyval
  dr_permissions :: "pyval list"
  dr_purpose :: pyval
  dr_expires_at :: pyval

definition list_of :: "pyval \<Rightarrow> (authz_error, pyval list) result" where
  "list_of v = (if py_truthy v then py_iter v else Inr [])"

definition sdk_delegation_claims :: "pydict \<Rightarrow> (authz_error, delegation_routing) result" where
  "sdk_delegation_claims claims =
     (let body = py_or (py_get claims ''authz'') (PDict []); act = py_or (py_get claims ''act'') (PDict []) in
      res_bind (body_get body ''tenant_id'' PNone) (\<lambda>t.
      res_bind (body_get body ''application_id'' PNone) (\<lambda>a.
      res_bind (body_get act ''sub'' PNone) (\<lambda>g.
      res_bind (res_bind (body_get body ''permissions'' PNone) list_of) (\<lambda>ps.
      res_bind (body_get body ''purpose'' PNone) (\<lambda>pu.
      Inr \<lparr>dr_delegation_id = py_get claims ''jti'', dr_tenant_id = t, dr_application_id = a,
           dr_user_id = py_get claims ''sub'', dr_agent_id = g, dr_permissions = ps, dr_purpose = pu,
           dr_expires_at = py_get claims ''exp''\<rparr>))))))"

definition routing_ids :: "delegation_routing \<Rightarrow> (ident \<times> ident \<times> ident \<times> ident) option" where
  "routing_ids r =
     (case (string_of (dr_tenant_id r), string_of (dr_application_id r), string_of (dr_user_id r), string_of (dr_agent_id r)) of
        (Some t, Some a, Some u, Some g) \<Rightarrow> Some (t, a, u, g)
      | _ \<Rightarrow> None)"

text \<open>\<^verbatim>\<open>start_delegated_agent_session\<close> for a token that decodes to claims whose four identifiers are strings; for
  others (\<open>None\<close>) the call sends what it finds, or raises, and is not followed further.\<close>

definition start_delegated_agent_session ::
  "'net transport \<Rightarrow> (string \<Rightarrow> pydict option) \<Rightarrow> (string \<Rightarrow> string) \<Rightarrow> (user_ref \<Rightarrow> string) \<Rightarrow> pyval set sdk_client \<Rightarrow> 'net \<Rightarrow>
     instant \<Rightarrow> instant \<Rightarrow> string \<Rightarrow> string \<Rightarrow> string set option \<Rightarrow>
     ((sdk_error, agent_session) result \<times> pyval set sdk_client \<times> 'net) option" where
  "start_delegated_agent_session http peek sha show_ref cl net now later token role critical =
     (case peek token of
        None \<Rightarrow> None
      | Some claims \<Rightarrow>
          (case sdk_delegation_claims claims of
             Inl _ \<Rightarrow> None
           | Inr r \<Rightarrow>
               (case routing_ids r of
                  None \<Rightarrow> None
                | Some (t, a, u, g) \<Rightarrow>
                    Some (start_agent_session http sha show_ref cl net now later t a u g role critical (Some token)))))"

section \<open>Lemmas\<close>

lemma strings_in_iff: "s \<in> strings_in vs \<longleftrightarrow> PStr s \<in> vs"
proof -
  have "string_of v = Some s \<longleftrightarrow> v = PStr s" for v by (cases v) auto
  then show ?thesis by (auto simp: strings_in_def elem_set)
qed

text \<open>When the hook answers \<open>x\<close>, the session decides as the guard of \<^verbatim>\<open>AgentGuard\<close> over the same context.\<close>

lemma session_require_guard:
  assumes "fst (client_authorize http repr cl net (ac_tenant_id (as_context s)) (ac_application_id (as_context s))
      (as_subject s) resource action [] (as_token s)) = lift_raise x"
  shows "fst (session_require http repr cl net s critical resource action) =
    lift_raise (agent_guard_require (agent_guard_init (as_context s) (Some (as_critical s)) (Some (\<lambda>_ _ _. x)))
      critical resource action)"
  using assms
  by (cases x)
    (auto simp: session_require_def agent_guard_require_def agent_guard_init_def Let_def lift_raise_def split: prod.splits)

text \<open>What a session may do was in its snapshot, and for a critical action the service said so again.\<close>

lemma session_require_Inr:
  assumes "session_require http repr cl net s critical resource action = (Inr (), net')"
  shows "join_dot resource action \<in> ac_effective_permissions (as_context s) \<and>
    (if critical \<or> join_dot resource action \<in> as_critical s
     then client_authorize http repr cl net (ac_tenant_id (as_context s)) (ac_application_id (as_context s))
       (as_subject s) resource action [] (as_token s) = (Inr True, net')
     else net' = net)"
  using assms by (auto simp: session_require_def Let_def res_bind_eq_Inr split: if_splits prod.splits)

lemma start_agent_session_Inr:
  assumes "start_agent_session http sha show_ref cl net now later tid aid uid gid role critical token = (Inr s, cl', net')"
  shows "\<exists>ps. get_effective_permissions http sha show_ref cl net now later tid aid (agent_run_subject uid gid) False token =
      (Inr ps, cl', net') \<and> ac_effective_permissions (as_context s) = strings_in ps \<and>
    ac_tenant_id (as_context s) = tid \<and> ac_application_id (as_context s) = aid \<and>
    as_subject s = agent_run_subject uid gid \<and> as_token s = token \<and>
    as_critical s = (case critical of None \<Rightarrow> {} | Some c \<Rightarrow> c)"
  using assms by (auto simp: start_agent_session_def Let_def split: prod.splits sum.splits)

end
