(* ===== verification/Sdk_Service.thy ===== *)
theory Sdk_Service
  imports Sdk_Calls
begin

text \<open>
  The client and the service together. The transport may lose or delay requests, answer with errors of its
  own and let other requests in between; what it must not do is invent a success: a reply to a decision or an
  effective-permissions request with a status below 400 carries the answer the endpoint gave at some moment
  to the request the client sent. Under that contract, what the endpoints guarantee reaches the code that
  called the client: \<^verbatim>\<open>require\<close>, and the guard of a delegated agent run.
\<close>

section \<open>Requests as the service reads them\<close>

definition subject_schema_of :: "sdk_subject \<Rightarrow> subject_schema" where
  "subject_schema_of s =
     \<lparr>ss_type = sj_type s, ss_user_id = sj_user_id s, ss_user_ref = sj_user_ref s, ss_agent_id = sj_agent_id s,
      ss_agent_name = sj_agent_name s, ss_service_account_id = sj_service_account_id s\<rparr>"

definition post_request :: "string \<Rightarrow> pydict \<Rightarrow> string option \<Rightarrow> sdk_request" where
  "post_request path body token =
     \<lparr>sr_method = ''POST'', sr_path = path, sr_body = Some body, sr_headers = delegation_headers token, sr_params = None\<rparr>"

definition authorize_request_body ::
  "ident \<Rightarrow> ident \<Rightarrow> sdk_subject \<Rightarrow> string \<Rightarrow> string \<Rightarrow> pydict \<Rightarrow> pydict" where
  "authorize_request_body tid aid s resource action ctxt =
     [(''tenant_id'', PStr tid), (''application_id'', PStr aid), (''subject'', PDict (subject_to_dict s)),
      (''resource'', PStr resource), (''action'', PStr action), (''context'', PDict ctxt)]"

definition authorize_body_of :: "ident \<Rightarrow> ident \<Rightarrow> sdk_subject \<Rightarrow> string \<Rightarrow> string \<Rightarrow> pydict \<Rightarrow> authorize_body" where
  "authorize_body_of tid aid s resource action ctxt =
     \<lparr>ab_tenant_id = tid, ab_application_id = aid, ab_subject = subject_schema_of s, ab_resource = resource,
      ab_action = action, ab_context = ctxt\<rparr>"

definition effective_request_body :: "ident \<Rightarrow> ident \<Rightarrow> sdk_subject \<Rightarrow> pydict" where
  "effective_request_body tid aid s =
     [(''tenant_id'', PStr tid), (''application_id'', PStr aid), (''subject'', PDict (subject_to_dict s))]"

definition effective_dump :: "effective_response \<Rightarrow> pydict" where
  "effective_dump r =
     [(''tenant_id'', PStr (er_tenant_id r)), (''application_id'', PStr (er_application_id r)),
      (''subject'', subject_dump (er_subject r)), (''permissions'', PList (map PStr (er_permissions r)))]"

section \<open>The contract of the transport\<close>

text \<open>What the service is at the moment it handles a request.\<close>

record 'net moment =
  mo_now :: instant
  mo_id :: ident
  mo_uuid :: string
  mo_request :: http_request
  mo_auth :: "'net auth_state"
  mo_db :: sql_db
  mo_grants :: delegation_service

definition authorized_at ::
  "('key, 'w) auth_env \<Rightarrow> settings \<Rightarrow> string option \<Rightarrow> authorize_body \<Rightarrow> authorize_response \<Rightarrow> 'w moment \<Rightarrow> bool" where
  "authorized_at env st token b rsp w \<longleftrightarrow>
     dict_get (rq_headers (mo_request w)) ''X-Delegation-Token'' = dict_get (delegation_headers token) ''X-Delegation-Token'' \<and>
     fst (authorize_endpoint env st (mo_now w) (mo_id w) (mo_uuid w) (mo_request w) b (mo_grants w)
       (mo_auth w, mo_db w)) = Inr rsp"

definition effective_at ::
  "('key, 'w) auth_env \<Rightarrow> settings \<Rightarrow> string option \<Rightarrow> ident \<Rightarrow> ident \<Rightarrow> subject_schema \<Rightarrow> effective_response \<Rightarrow> 'w moment \<Rightarrow> bool" where
  "effective_at env st token tid aid s rsp w \<longleftrightarrow>
     dict_get (rq_headers (mo_request w)) ''X-Delegation-Token'' = dict_get (delegation_headers token) ''X-Delegation-Token'' \<and>
     fst (effective_permissions_endpoint env st (mo_now w) (mo_request w) tid aid s (mo_grants w)
       (mo_auth w, mo_db w)) = Inr rsp"

definition serves :: "('key, 'w) auth_env \<Rightarrow> settings \<Rightarrow> 'net transport \<Rightarrow> bool" where
  "serves env st http \<longleftrightarrow>
     (\<forall>net r. rp_status r < 400 \<longrightarrow>
       (\<forall>tid aid s resource action ctxt token.
          fst (http net (post_request ''v1/authorize'' (authorize_request_body tid aid s resource action ctxt) token)) = Some r \<longrightarrow>
          (\<exists>w rsp. authorized_at env st token (authorize_body_of tid aid s resource action ctxt) rsp w \<and>
             rp_json r = Some (PDict (response_dump rsp)))) \<and>
       (\<forall>tid aid s token.
          fst (http net (post_request ''v1/effective-permissions'' (effective_request_body tid aid s) token)) = Some r \<longrightarrow>
          (\<exists>w rsp. effective_at env st token tid aid (subject_schema_of s) rsp w \<and>
             rp_json r = Some (PDict (effective_dump rsp)))))"

lemma servesD:
  assumes "serves env st http" "nth_reply http (post_request path body token) net k = Some r" "rp_status r < 400"
  shows "\<lbrakk>path = ''v1/authorize''; body = authorize_request_body tid aid s resource action ctxt\<rbrakk> \<Longrightarrow>
      \<exists>w rsp. authorized_at env st token (authorize_body_of tid aid s resource action ctxt) rsp w \<and>
        rp_json r = Some (PDict (response_dump rsp))"
    and "\<lbrakk>path = ''v1/effective-permissions''; body = effective_request_body tid aid s\<rbrakk> \<Longrightarrow>
      \<exists>w rsp. effective_at env st token tid aid (subject_schema_of s) rsp w \<and> rp_json r = Some (PDict (effective_dump rsp))"
  using assms unfolding serves_def nth_reply_def by blast+

section \<open>Lemmas\<close>

lemma delegation_header_get:
  "dict_get (delegation_headers token) ''X-Delegation-Token'' =
     (case token of None \<Rightarrow> None | Some t \<Rightarrow> if t = '''' then None else Some t)"
  by (auto simp: delegation_headers_def split: option.split)

text \<open>A call whose result decodes an allowing reply.\<close>

lemma client_authorize_allowed:
  assumes "serves env st http"
    and "client_authorize http repr cl net tid aid s resource action ctxt token = (Inr True, net')"
  shows "\<exists>w rsp. authorized_at env st token (authorize_body_of tid aid s resource action ctxt) rsp w \<and> rsp_allowed rsp"
proof -
  let ?body = "authorize_request_body tid aid s resource action ctxt"
  obtain v x net1 where p: "post http cl net ''v1/authorize'' ?body (delegation_headers token) = (Inr v, net1)"
    and x: "authorize_result_of repr (join_dot resource action) v = Inr x" "ar_allowed x"
    using assms(2)
    by (auto simp: client_authorize_def client_authorize_decision_def authorize_request_body_def res_bind_eq_Inr lift_raise_def
        map_sum_Inr_iff split: prod.splits)
  obtain k r where k: "nth_reply http (post_request ''v1/authorize'' ?body token) net k = Some r" "finish_reply r = Inr v"
    using post_Inr [OF p refl] unfolding post_request_def by blast
  obtain d a where d: "v = PDict d" "dict_get d ''allowed'' = Some a" "py_truthy a"
    using authorize_result_allowed [OF x] by blast
  then have r: "rp_status r < 400" "rp_json r = Some v" using k(2) by (auto simp: finish_reply_def split: if_splits option.splits)
  from servesD(1) [OF assms(1) k(1) r(1) refl refl] obtain w rsp where
    w: "authorized_at env st token (authorize_body_of tid aid s resource action ctxt) rsp w"
    and j: "rp_json r = Some (PDict (response_dump rsp))" by blast
  have "d = response_dump rsp" using j r(2) d(1) by simp
  then have "rsp_allowed rsp" using d(2,3) by (auto simp: response_dump_def)
  then show ?thesis using w by blast
qed

lemma client_require_authorizes:
  "fst (client_require http repr cl net tid aid s resource action ctxt token) = Inr () \<longleftrightarrow>
     fst (client_authorize http repr cl net tid aid s resource action ctxt token) = Inr True"
  by (auto simp: client_require_def client_authorize_def res_bind_eq_Inr split: prod.splits if_splits)

text \<open>A permission in the answer of the effective-permissions endpoint to a request with a grant.\<close>

lemma effective_grant:
  assumes "effective_permissions_handler env st now (Some tok) tid aid s ds p db = Inr (rsp, db')" and "tok \<noteq> ''''"
    and "perm \<in> set (er_permissions rsp)" and "(refs, s') = resolve_decision_refs db tid aid s"
  shows "\<exists>g. delegation_verify (ae_repr env) (ae_lib env) (ae_hash env) (ae_rsa env) now ds tok = Inr g \<and>
    ss_type s' = SUBJECT_AGENT \<and> perm \<in> gr_permissions g \<and> gr_tenant_id g = ref_tenant_id refs \<and>
    gr_application_id g = ref_application_id refs \<and>
    ss_user_id (fill_subject s' g) = Some (gr_user_id g) \<and> ss_agent_id (fill_subject s' g) = Some (gr_agent_id g) \<and>
    perm \<in> effective_permissions (sql_repository db) (gr_tenant_id g) (gr_application_id g)
      (to_subject (fill_subject s' g)) None (Some refs)"
proof -
  note h = assms(1) [unfolded effective_permissions_handler_def assms(4) [symmetric] prod.case]
  have c: "refs_complete refs" using h assms(3) by (auto simp: res_bind_eq_Inr split: if_splits)
  obtain dl where dl: "apply_delegation env st now ds (Some tok) (ref_tenant_id refs) (ref_application_id refs) s' = Inr dl"
    and no: "do_deny_reason dl = None"
    and e: "er_permissions rsp = sorted_list_of_set (effective_permissions (sql_repository db)
       (ref_tenant_id refs) (ref_application_id refs) (to_subject (do_subject dl)) (do_permissions dl) (Some refs))"
    using h c by (auto simp: res_bind_eq_Inr split: option.splits)
  let ?E = "\<lambda>G. effective_permissions (sql_repository db) (ref_tenant_id refs) (ref_application_id refs)
    (to_subject (do_subject dl)) G (Some refs)"
  have p: "perm \<in> ?E (do_permissions dl)"
    using assms(3) unfolding e by (cases "finite (?E (do_permissions dl))") (simp_all add: sorted_list_of_set.fold_insort_key.infinite)
  then have grant: "perm \<in> G" if "do_permissions dl = Some G" for G
    using that by (simp add: effective_permissions_def Let_def)
  show ?thesis
    using apply_delegation_no_deny [OF dl no] assms(2) grant subsetD [OF effective_subset_undelegated p] by auto
qed

text \<open>What a verified grant allows at a moment.\<close>

definition grant_allows ::
  "('key, 'w) auth_env \<Rightarrow> string \<Rightarrow> ident \<Rightarrow> ident \<Rightarrow> sdk_subject \<Rightarrow> string \<Rightarrow> 'w moment \<Rightarrow> delegation_grant \<Rightarrow> bool" where
  "grant_allows env tok tid aid s perm w g \<longleftrightarrow>
     (case resolve_decision_refs (mo_db w) tid aid (subject_schema_of s) of
        (refs, s') \<Rightarrow>
          delegation_verify (ae_repr env) (ae_lib env) (ae_hash env) (ae_rsa env) (mo_now w) (mo_grants w) tok = Inr g \<and>
          perm \<in> gr_permissions g \<and> gr_tenant_id g = ref_tenant_id refs \<and> gr_application_id g = ref_application_id refs \<and>
          ss_user_id (fill_subject s' g) = Some (gr_user_id g) \<and> ss_agent_id (fill_subject s' g) = Some (gr_agent_id g) \<and>
          perm \<in> effective_permissions (sql_repository (mo_db w)) (gr_tenant_id g) (gr_application_id g)
            (to_subject (fill_subject s' g)) None (Some refs))"

lemma effective_at_grant:
  assumes "effective_at env st (Some tok) tid aid (subject_schema_of s) rsp w" "tok \<noteq> ''''" "perm \<in> set (er_permissions rsp)"
  shows "\<exists>g. grant_allows env tok tid aid s perm w g"
proof -
  obtain au db' where e: "effective_permissions_endpoint env st (mo_now w) (mo_request w) tid aid (subject_schema_of s)
      (mo_grants w) (mo_auth w, mo_db w) = (Inr rsp, au, db')"
    using assms(1) unfolding effective_at_def by (metis prod.collapse)
  have t: "dict_get (rq_headers (mo_request w)) ''X-Delegation-Token'' = Some tok"
    using assms(1,2) by (simp add: effective_at_def delegation_header_get)
  obtain refs s' where r: "(refs, s') = resolve_decision_refs (mo_db w) tid aid (subject_schema_of s)" by (metis surj_pair)
  from surface_route_Inr [OF e [unfolded effective_permissions_endpoint_def t]] obtain q where
    "effective_permissions_handler env st (mo_now w) (Some tok) tid aid (subject_schema_of s) (mo_grants w) q (mo_db w) =
      Inr (rsp, db')" by blast
  from effective_grant [OF this assms(2,3) r] show ?thesis
    unfolding grant_allows_def r [symmetric] prod.case by blast
qed

lemma authorized_at_grant:
  assumes "authorized_at env st (Some tok) (authorize_body_of tid aid s resource action ctxt) rsp w" "tok \<noteq> ''''"
    and "rsp_allowed rsp"
  shows "\<exists>g. grant_allows env tok tid aid s (join_dot resource action) w g"
proof -
  let ?b = "authorize_body_of tid aid s resource action ctxt"
  obtain au db' where e: "authorize_endpoint env st (mo_now w) (mo_id w) (mo_uuid w) (mo_request w) ?b (mo_grants w)
      (mo_auth w, mo_db w) = (Inr rsp, au, db')"
    using assms(1) unfolding authorized_at_def by (metis prod.collapse)
  have t: "Some tok = dict_get (rq_headers (mo_request w)) ''X-Delegation-Token''"
    using assms(1,2) by (simp add: authorized_at_def delegation_header_get)
  obtain refs s' where r: "(refs, s') = resolve_decision_refs (mo_db w) tid aid (subject_schema_of s)" by (metis surj_pair)
  have b: "ab_tenant_id ?b = tid" "ab_application_id ?b = aid" "ab_subject ?b = subject_schema_of s"
    "ab_resource ?b = resource" "ab_action ?b = action" by (simp_all add: authorize_body_of_def)
  have r': "(refs, s') = resolve_decision_refs (mo_db w) (ab_tenant_id ?b) (ab_application_id ?b) (ab_subject ?b)"
    by (simp only: b r)
  from allowing_answer [OF e assms(3) r' t refl] show ?thesis
    using assms(2) unfolding grant_allows_def r [symmetric] prod.case b by auto
qed

text \<open>A snapshot of a client that keeps no cache is the permissions of one reply.\<close>

lemma snapshot_served:
  assumes "serves env st http" "cl_cache_ttl cl \<le> 0"
    and "get_effective_permissions http sha show_ref cl net now later tid aid s False token = (Inr ps, cl', net')"
  shows "\<exists>w rsp. effective_at env st token tid aid (subject_schema_of s) rsp w \<and> ps = PStr ` set (er_permissions rsp)"
proof -
  obtain net1 where f: "fetch_permissions http cl net tid aid s token = (Inr ps, net1)"
    using assms(2,3) by (auto simp: get_effective_permissions_def Let_def split: prod.splits sum.splits)
  let ?body = "effective_request_body tid aid s"
  obtain v where p: "post http cl net ''v1/effective-permissions'' ?body (delegation_headers token) = (Inr v, net1)"
    and v: "res_bind (body_get v ''permissions'' PNone) frozenset_of = Inr ps"
    using f by (auto simp: fetch_permissions_def effective_request_body_def res_bind_eq_Inr lift_raise_def map_sum_Inr_iff
        split: prod.splits)
  obtain k r where k: "nth_reply http (post_request ''v1/effective-permissions'' ?body token) net k = Some r" "finish_reply r = Inr v"
    using post_Inr [OF p refl] unfolding post_request_def by blast
  obtain d where d: "v = PDict d" using v by (cases v) (auto simp: body_get_def)
  then have r: "rp_status r < 400" "rp_json r = Some v" using k(2) by (auto simp: finish_reply_def split: if_splits option.splits)
  from servesD(2) [OF assms(1) k(1) r(1) refl refl] obtain w rsp where
    w: "effective_at env st token tid aid (subject_schema_of s) rsp w" and j: "rp_json r = Some (PDict (effective_dump rsp))"
    by blast
  have "v = PDict (effective_dump rsp)" using j r(2) by simp
  then have "ps = PStr ` set (er_permissions rsp)"
    using v by (cases "er_permissions rsp")
      (auto simp: body_get_def effective_dump_def dict_get_default_def frozenset_of_def list_all_iff)
  then show ?thesis using w by blast
qed

text \<open>A request determines what was asked.\<close>

lemma subject_to_dict_inject: "subject_to_dict s = subject_to_dict s' \<longleftrightarrow> s = s'"
proof
  assume e: "subject_to_dict s = subject_to_dict s'"
  have g: "dict_get (subject_to_dict x) ''type'' = Some (PStr (sj_type x))"
    "dict_get (subject_to_dict x) ''user_id'' = map_option PStr (sj_user_id x)"
    "dict_get (subject_to_dict x) ''agent_id'' = map_option PStr (sj_agent_id x)"
    "dict_get (subject_to_dict x) ''service_account_id'' = map_option PStr (sj_service_account_id x)"
    "dict_get (subject_to_dict x) ''user_ref'' = map_option user_ref_dict (sj_user_ref x)"
    "dict_get (subject_to_dict x) ''agent_name'' = map_option PStr (sj_agent_name x)" for x
    by (auto simp: subject_to_dict_def opt_field_def split: option.split)
  have i: "inj PStr" "inj user_ref_dict" by (auto simp: inj_on_def user_ref_dict_def)
  note eq = g [of s', folded e, unfolded g]
  have o: "inj (map_option PStr)" "inj (map_option user_ref_dict)" using i by (simp_all add: option.inj_map)
  have "sj_type s = sj_type s'" "sj_user_id s = sj_user_id s'" "sj_agent_id s = sj_agent_id s'"
    "sj_service_account_id s = sj_service_account_id s'" "sj_user_ref s = sj_user_ref s'" "sj_agent_name s = sj_agent_name s'"
    using eq(1) injD [OF o(1) eq(2)] injD [OF o(1) eq(3)] injD [OF o(1) eq(4)] injD [OF o(2) eq(5)] injD [OF o(1) eq(6)]
    by simp_all
  then show "s = s'" by simp
qed simp

lemma grant_allows_ids:
  assumes "grant_allows env tok tid aid (agent_run_subject uid gid) perm w g"
  shows "(uid \<noteq> '''' \<longrightarrow> gr_user_id g = uid) \<and> (gid \<noteq> '''' \<longrightarrow> gr_agent_id g = gid)"
  using assms
  by (auto simp: grant_allows_def resolve_decision_refs_def resolve_references_def subject_schema_of_def
      agent_run_subject_def fill_subject_def or_else_def Let_def split: if_splits prod.splits)

lemma token_requests:
  "post_request path body token = post_request path' body' token' \<Longrightarrow>
     path = path' \<and> body = body' \<and> delegation_headers token = delegation_headers token'"
  by (simp add: post_request_def)

section \<open>Properties\<close>

text \<open>C5: a call of \<^verbatim>\<open>require\<close> that returns was authorized by the service, whatever happened to the requests on
  the way. There was a moment at which the caller was authenticated with the runtime scope and the right to act
  in the tenant the reference resolves to, tenant and application were active, the permission was in the
  effective set of the subject over the database of that moment, and a delegation token, when the call carries
  one, verified to a live grant of the same tenant, application, user and agent that contains the permission.\<close>

theorem client_service_sound:
  assumes "serves env st http"
    and "fst (client_require http repr cl net tid aid s resource action ctxt token) = Inr ()"
  shows "\<exists>w p refs s' t. fst (require_caller env st (mo_now w) (mo_request w) (mo_auth w)) = Inr p \<and>
     principal_allows p SCOPE_RUNTIME None \<and> principal_tenant_matches p (ref_tenant_id refs) \<and>
     refs = fst (resolve_decision_refs (mo_db w) tid aid (subject_schema_of s)) \<and>
     ref_tenant_status refs = Some ''active'' \<and> ref_application_status refs = Some ''active'' \<and>
     join_dot resource action \<in> effective_permissions (sql_repository (mo_db w)) (ref_tenant_id refs)
       (ref_application_id refs) (to_subject s') None (Some refs) \<and>
     (if token = None \<or> token = Some ''''
      then s' = snd (resolve_decision_refs (mo_db w) tid aid (subject_schema_of s)) \<and>
        \<not> (cfg_delegation_required st \<and> sj_type s = SUBJECT_AGENT)
      else token = Some t \<and> (\<exists>g. grant_allows env t tid aid s (join_dot resource action) w g))"
proof -
  obtain net' where "client_authorize http repr cl net tid aid s resource action ctxt token = (Inr True, net')"
    using assms(2) unfolding client_require_authorizes by (metis prod.collapse)
  from client_authorize_allowed [OF assms(1) this] obtain w rsp where
    w: "authorized_at env st token (authorize_body_of tid aid s resource action ctxt) rsp w" and a: "rsp_allowed rsp" by blast
  let ?b = "authorize_body_of tid aid s resource action ctxt"
  obtain au db' where e: "authorize_endpoint env st (mo_now w) (mo_id w) (mo_uuid w) (mo_request w) ?b (mo_grants w)
      (mo_auth w, mo_db w) = (Inr rsp, au, db')"
    using w unfolding authorized_at_def by (metis prod.collapse)
  obtain refs s0 where r: "(refs, s0) = resolve_decision_refs (mo_db w) tid aid (subject_schema_of s)" by (metis surj_pair)
  have b: "ab_tenant_id ?b = tid" "ab_application_id ?b = aid" "ab_subject ?b = subject_schema_of s"
    "ab_resource ?b = resource" "ab_action ?b = action" by (simp_all add: authorize_body_of_def)
  have t: "dict_get (rq_headers (mo_request w)) ''X-Delegation-Token'' =
      (case token of None \<Rightarrow> None | Some t \<Rightarrow> if t = '''' then None else Some t)"
    using w by (simp add: authorized_at_def delegation_header_get)
  have ty: "ss_type s0 = sj_type s" using r by (simp add: resolve_decision_refs_def subject_schema_of_def Let_def)
  have r': "(refs, s0) = resolve_decision_refs (mo_db w) (ab_tenant_id ?b) (ab_application_id ?b) (ab_subject ?b)"
    by (simp only: b r)
  from allowing_answer [OF e a r' refl refl, unfolded t b] obtain p s' where
    c: "require_caller env st (mo_now w) (mo_request w) (mo_auth w) = (Inr p, au)" "principal_allows p SCOPE_RUNTIME None"
      "principal_tenant_matches p (ref_tenant_id refs)" "ref_tenant_status refs = Some ''active''"
      "ref_application_status refs = Some ''active''"
      "join_dot resource action \<in> effective_permissions (sql_repository (mo_db w)) (ref_tenant_id refs)
       (ref_application_id refs) (to_subject s') None (Some refs)"
    and u: "(token = None \<or> token = Some '''') \<longrightarrow> s' = s0 \<and> \<not> (cfg_delegation_required st \<and> ss_type s0 = SUBJECT_AGENT)"
    by (auto split: option.splits if_splits)
  have g: "\<exists>t. token = Some t \<and> (\<exists>g. grant_allows env t tid aid s (join_dot resource action) w g)"
    if "\<not> (token = None \<or> token = Some '''')"
    using that authorized_at_grant [of env st _ tid aid s resource action ctxt rsp w] w a by auto
  have refs: "refs = fst (resolve_decision_refs (mo_db w) tid aid (subject_schema_of s))"
    "s0 = snd (resolve_decision_refs (mo_db w) tid aid (subject_schema_of s))" using r by (metis fst_conv snd_conv)+
  have c': "fst (require_caller env st (mo_now w) (mo_request w) (mo_auth w)) = Inr p" using c(1) by simp
  show ?thesis
  proof (cases "token = None \<or> token = Some ''''")
    case True
    then show ?thesis using c' c(2-) u ty refs by auto
  next
    case False
    then obtain t where "token = Some t \<and> (\<exists>g. grant_allows env t tid aid s (join_dot resource action) w g)" using g by blast
    then show ?thesis using c' c(2-) False refs(1) by (auto simp del: split_paired_Ex)
  qed
qed



section \<open>Witnesses\<close>

definition acme_subject :: sdk_subject where
  "acme_subject =
     \<lparr>sj_type = ''user'', sj_user_id = Some ''u'', sj_agent_id = None, sj_service_account_id = None,
      sj_user_ref = None, sj_agent_name = None\<rparr>"

text \<open>A network that delivers one request, answers it with what the endpoint says, and loses the others.\<close>

definition acme_http :: "unit transport" where
  "acme_http net q =
     (if q = post_request ''v1/authorize''
          (authorize_request_body ''acme'' ''docs'' acme_subject ''docs'' ''read'' []) None
      then Some \<lparr>rp_status = 200, rp_json = Some (PDict (response_dump (response_of (allow ''docs.read'' {''docs.read''})))),
        rp_text = ''''\<rparr>
      else None, net)"

lemma acme_http_serves:
  assumes "\<not> cfg_dev_mode st" "cfg_api_keys st = []" "\<not> cfg_audit_all_decisions st" "\<not> cfg_delegation_required st"
  shows "serves sample_env st acme_http"
proof -
  let ?w = "\<lparr>mo_now = 5, mo_id = ''n'', mo_uuid = ''x'', mo_request = sample_request, mo_auth = sample_auth,
    mo_db = managed_db, mo_grants = no_delegations\<rparr>"
  let ?r = "response_of (allow ''docs.read'' {''docs.read''})"
  have b: "authorize_body_of ''acme'' ''docs'' acme_subject ''docs'' ''read'' [] = sample_body"
    by (simp add: authorize_body_of_def sample_body_def subject_schema_of_def acme_subject_def)
  have w: "authorized_at sample_env st token (authorize_body_of ''acme'' ''docs'' acme_subject ''docs'' ''read'' []) ?r ?w"
    if "delegation_headers token = delegation_headers None" for token
    using sample_authorized [OF assms] that
    by (auto simp: authorized_at_def b sample_request_def delegation_headers_def)
  have q: "authorize_body_of tid aid s resource action ctxt =
      authorize_body_of ''acme'' ''docs'' acme_subject ''docs'' ''read'' [] \<and> delegation_headers token = delegation_headers None"
    if "post_request ''v1/authorize'' (authorize_request_body tid aid s resource action ctxt) token =
      post_request ''v1/authorize'' (authorize_request_body ''acme'' ''docs'' acme_subject ''docs'' ''read'' []) None"
    for tid aid s resource action ctxt token
    using token_requests [OF that] by (auto simp: authorize_request_body_def subject_to_dict_inject)
  show ?thesis
    unfolding serves_def
  proof (intro allI impI conjI)
    fix net r tid aid s resource action ctxt token
    assume "fst (acme_http net (post_request ''v1/authorize'' (authorize_request_body tid aid s resource action ctxt) token)) = Some r"
    then have "post_request ''v1/authorize'' (authorize_request_body tid aid s resource action ctxt) token =
      post_request ''v1/authorize'' (authorize_request_body ''acme'' ''docs'' acme_subject ''docs'' ''read'' []) None"
      and j: "rp_json r = Some (PDict (response_dump ?r))"
      by (auto simp: acme_http_def split: if_splits)
    from q [OF this(1)] w j show "\<exists>w rsp. authorized_at sample_env st token (authorize_body_of tid aid s resource action ctxt) rsp w \<and>
        rp_json r = Some (PDict (response_dump rsp))" by metis
  next
    fix net r tid aid s token
    assume "fst (acme_http net (post_request ''v1/effective-permissions'' (effective_request_body tid aid s) token)) = Some r"
    then show "\<exists>w rsp. effective_at sample_env st token tid aid (subject_schema_of s) rsp w \<and>
        rp_json r = Some (PDict (effective_dump rsp))"
      by (simp add: acme_http_def post_request_def)
  qed
qed

theorem client_service_sound_witness:
  "\<exists>st (w :: unit moment) p. load_settings [] = Inr st \<and>
     fst (client_require acme_http (\<lambda>_. []) sample_client () ''acme'' ''docs'' acme_subject ''docs'' ''read'' [] None) = Inr () \<and>
     fst (require_caller sample_env st (mo_now w) (mo_request w) (mo_auth w)) = Inr p \<and>
     principal_allows p SCOPE_RUNTIME None"
proof -
  obtain st where st: "load_settings [] = Inr st" and o: "\<not> cfg_dev_mode st" "cfg_api_keys st = []"
    "\<not> cfg_audit_all_decisions st" "\<not> cfg_delegation_required st" using load_defaults by blast
  have r: "fst (client_require acme_http (\<lambda>_. []) sample_client () ''acme'' ''docs'' acme_subject ''docs'' ''read'' [] None) = Inr ()"
    by (simp add: client_require_def client_authorize_decision_def post_def request_loop.simps sample_client_def acme_http_def
        post_request_def authorize_request_body_def finish_reply_def authorize_result_roundtrip lift_raise_def)
      (simp add: response_of_def)
  from client_service_sound [OF acme_http_serves [OF o] r] obtain w :: "unit moment" and p where
    "fst (require_caller sample_env st (mo_now w) (mo_request w) (mo_auth w)) = Inr p" "principal_allows p SCOPE_RUNTIME None"
    by (elim exE conjE) (rule that; assumption)
  with st r show ?thesis by blast
qed

text \<open>A run over a grant of one permission, from a token that decodes to the grant's claims.\<close>

definition run_claims :: pydict where
  "run_claims = delegation_claims ''me'' 0 60000000 ''d1'' ''t'' ''a'' ''u'' ''g'' [''docs.read''] None"

definition run_env :: "(unit, unit) auth_env" where
  "run_env = sample_env\<lparr>ae_lib := \<lparr>jl_header = (\<lambda>_. Some [(''typ'', PStr DELEGATION_TOKEN_TYPE), (''kid'', PStr ''k0'')]),
     jl_peek = (\<lambda>_. None), jl_key = (\<lambda>_. Some ()), jl_decode = (\<lambda>_ _ _ _ _ _ _. Decoded run_claims)\<rparr>\<rparr>"

definition run_grants :: delegation_service where
  "run_grants =
     \<lparr>ds_rows = [\<lparr>dg_id = ''d1'', dg_tenant_id = ''t'', dg_application_id = ''a'', dg_user_id = ''u'', dg_agent_id = ''g'',
        dg_permissions = [''docs.read''], dg_purpose = None, dg_issued_by = None, dg_status = ''active'',
        dg_expires_at = 60000000, dg_revoked_at = None, dg_created_at = 0\<rparr>],
      ds_keys = sample_service, ds_issuer = ''me'', ds_leeway = 30\<rparr>"

definition run_request :: http_request where
  "run_request = sample_request\<lparr>rq_headers := [(''X-API-Key'', ''secret''), (''X-Delegation-Token'', ''tok'')]\<rparr>"

lemma run_verified:
  "delegation_verify (ae_repr run_env) (ae_lib run_env) (ae_hash run_env) (ae_rsa run_env) 5 run_grants tok =
     Inr (to_grant (hd (ds_rows run_grants)))"
  by (simp add: delegation_verify_def run_env_def sample_env_def run_grants_def all_public_jwks_def sample_service_def
      sample_key_row_def py_get_def check_grant_def run_claims_def delegation_claims_def delegation_get_def tbl_get_def
      to_grant_def claims_match_def py_or_def obj_get_def frozenset_of_def Let_def)

definition run_subject :: sdk_subject where
  "run_subject = agent_run_subject ''u'' ''g''"

definition run_refs :: resolved_references where
  "run_refs =
     \<lparr>ref_tenant_id = ''t'', ref_application_id = ''a'', ref_tenant_status = Some ''active'',
      ref_application_status = Some ''active'', ref_user_id = Some ''u'', ref_user_missing = False,
      ref_agent_id = Some ''g'', ref_agent_status = None, ref_agent_missing = False\<rparr>"

lemma run_resolved:
  "resolve_decision_refs agent_db ''acme'' ''docs'' (subject_schema_of run_subject) = (run_refs, subject_schema_of run_subject)"
  by (simp add: resolve_decision_refs_def resolve_references_def sql_find_tenant_def sql_find_application_def
      by_id_or_slug_def agent_db_def managed_db_def run_refs_def run_subject_def agent_run_subject_def subject_schema_of_def
      Let_def)

lemma run_effective:
  "effective_permissions (sql_repository agent_db) ''t'' ''a'' (to_subject (subject_schema_of run_subject))
     (Some {''docs.read''}) (Some run_refs) = {''docs.read''}"
  by (simp add: effective_permissions_def effective_permissions_undelegated_def inactive_def membership_active_def
      agent_active_def user_missing_def agent_missing_def sql_repository_def agent_db_answers apply_mask_def Let_def
      run_refs_def to_subject_def subject_schema_of_def run_subject_def agent_run_subject_def SUBJECT_AGENT_def)

lemma run_applied:
  "apply_delegation run_env st 5 run_grants (Some ''tok'') ''t'' ''a'' (subject_schema_of run_subject) =
     Inr \<lparr>do_permissions = Some {''docs.read''}, do_grant_id = Some ''d1'', do_deny_reason = None,
          do_subject = subject_schema_of run_subject\<rparr>"
  unfolding apply_delegation_def option.sel run_verified
  by (simp add: run_grants_def to_grant_def subject_schema_of_def run_subject_def agent_run_subject_def SUBJECT_AGENT_def
      fill_subject_def or_else_def Let_def)

lemma run_caller:
  assumes "\<not> cfg_dev_mode st" "cfg_api_keys st = []"
  shows "\<exists>au'. require_caller run_env st 5 run_request sample_auth =
     (Inr (KeyPrincipal (ak_to_record (sample_key\<lparr>ak_last_used_at := Some 5\<rparr>))), au')"
  using assms
  by (simp add: require_caller_def dev_bypass_active_def run_request_def sample_request_def sample_auth_def run_env_def
      sample_env_def extract_credential_def resolve_api_key_def env_key_record_def ak_find_active_def tbl_get_def
      row_usable_def sample_key_def Let_def)

definition run_permissions :: effective_response where
  "run_permissions =
     \<lparr>er_tenant_id = ''t'', er_application_id = ''a'', er_subject = subject_schema_of run_subject,
      er_permissions = [''docs.read'']\<rparr>"

definition run_moment :: "unit moment" where
  "run_moment =
     \<lparr>mo_now = 5, mo_id = ''n'', mo_uuid = ''x'', mo_request = run_request, mo_auth = sample_auth, mo_db = agent_db,
      mo_grants = run_grants\<rparr>"

lemma run_header: "dict_get (rq_headers run_request) ''X-Delegation-Token'' = Some ''tok''"
  "dict_get (rq_headers run_request) ''X-Request-Id'' = None"
  by (simp_all add: run_request_def sample_request_def)

lemma run_valid: "subject_valid (subject_schema_of run_subject) = Inr ()"
  by (simp add: subject_valid_def user_ref_valid_def one_form_def subject_schema_of_def run_subject_def agent_run_subject_def)

lemma run_effective_at:
  assumes "\<not> cfg_dev_mode st" "cfg_api_keys st = []"
  shows "effective_at run_env st (Some ''tok'') ''acme'' ''docs'' (subject_schema_of run_subject) run_permissions run_moment"
proof -
  let ?p = "KeyPrincipal (ak_to_record (sample_key\<lparr>ak_last_used_at := Some 5\<rparr>))"
  obtain au' where c: "require_caller run_env st 5 run_request sample_auth = (Inr ?p, au')"
    using run_caller [OF assms] by blast
  have h: "effective_permissions_handler run_env st 5 (Some ''tok'') ''acme'' ''docs'' (subject_schema_of run_subject) run_grants
      ?p agent_db = Inr (run_permissions, agent_db)"
    using sample_principal(2) run_applied run_effective
    by (simp add: effective_permissions_handler_def run_resolved run_refs_def refs_complete_def run_permissions_def)
  show ?thesis
    using c h sample_principal(1)
    by (simp add: effective_at_def effective_permissions_endpoint_def surface_route_def run_moment_def run_header run_valid
        delegation_header_get)
qed

lemma run_authorized_at:
  assumes "\<not> cfg_dev_mode st" "cfg_api_keys st = []" "\<not> cfg_audit_all_decisions st"
  shows "authorized_at run_env st (Some ''tok'') (authorize_body_of ''acme'' ''docs'' run_subject ''docs'' ''read'' [])
    (response_of (allow ''docs.read'' {''docs.read''})) run_moment"
proof -
  let ?p = "KeyPrincipal (ak_to_record (sample_key\<lparr>ak_last_used_at := Some 5\<rparr>))"
  let ?b = "authorize_body_of ''acme'' ''docs'' run_subject ''docs'' ''read'' []"
  obtain au' where c: "require_caller run_env st 5 run_request sample_auth = (Inr ?p, au')"
    using run_caller [OF assms(1,2)] by blast
  have d: "authorize (sql_repository agent_db) no_rules
      \<lparr>req_tenant_id = ''t'', req_application_id = ''a'', req_subject = to_subject (subject_schema_of run_subject),
       req_resource = ''docs'', req_action = ''read'', req_context = [], req_delegated = Some {''docs.read''},
       req_references = Some run_refs\<rparr> = Inr (allow ''docs.read'' {''docs.read''})"
    (is "authorize _ _ ?req = _")
  proof -
    have q: "required_permission ?req = ''docs.read''" by (simp add: required_permission_def join_dot_def)
    have t: "subj_type (to_subject (subject_schema_of run_subject)) = ''agent''"
      by (simp add: to_subject_def subject_schema_of_def run_subject_def agent_run_subject_def)
    have "authorize (sql_repository agent_db) no_rules ?req = Inr (allow (required_permission ?req) {required_permission ?req})"
      by (rule iffD2 [OF authorize_allow_iff]) (simp add: q run_effective t SUBJECT_USER_def)
    then show ?thesis unfolding q .
  qed
  have h: "authorize_handler run_env st 5 ''n'' ''x'' None (Some ''tok'') ?b run_grants ?p agent_db =
      Inr (response_of (allow ''docs.read'' {''docs.read''}), agent_db)"
    unfolding authorize_handler_def authorize_body_of_def authorize_body.simps run_resolved prod.case
    using sample_principal(2) run_applied d assms(3)
    by (simp add: run_refs_def delegation_deny_def audit_sink_write_def allow_def)
  show ?thesis
    using c h sample_principal(1)
    by (simp add: authorized_at_def authorize_endpoint_def surface_route_def run_moment_def run_header delegation_header_get
        authorize_body_of_def run_valid)
qed

definition run_http :: "unit transport" where
  "run_http net q =
     (if q = post_request ''v1/effective-permissions'' (effective_request_body ''acme'' ''docs'' run_subject) (Some ''tok'')
      then Some \<lparr>rp_status = 200, rp_json = Some (PDict (effective_dump run_permissions)), rp_text = ''''\<rparr>
      else if q = post_request ''v1/authorize''
          (authorize_request_body ''acme'' ''docs'' run_subject ''docs'' ''read'' []) (Some ''tok'')
      then Some \<lparr>rp_status = 200, rp_json = Some (PDict (response_dump (response_of (allow ''docs.read'' {''docs.read''})))),
        rp_text = ''''\<rparr>
      else None, net)"

lemma run_http_serves:
  assumes "\<not> cfg_dev_mode st" "cfg_api_keys st = []" "\<not> cfg_audit_all_decisions st"
  shows "serves run_env st run_http"
  unfolding serves_def
proof (intro allI impI conjI)
  fix net r tid aid s resource action ctxt token
  assume h: "fst (run_http net (post_request ''v1/authorize'' (authorize_request_body tid aid s resource action ctxt) token)) = Some r"
  then have q: "post_request ''v1/authorize'' (authorize_request_body tid aid s resource action ctxt) token =
      post_request ''v1/authorize'' (authorize_request_body ''acme'' ''docs'' run_subject ''docs'' ''read'' []) (Some ''tok'')"
    by (auto simp: run_http_def post_request_def split: if_splits)
  then have e: "tid = ''acme''" "aid = ''docs''" "s = run_subject" "resource = ''docs''" "action = ''read''" "ctxt = []"
    "token = Some ''tok''"
    using token_requests [OF q]
    by (auto simp: authorize_request_body_def subject_to_dict_inject delegation_headers_def split: option.splits if_splits)
  have "rp_json r = Some (PDict (response_dump (response_of (allow ''docs.read'' {''docs.read''}))))"
    using h by (auto simp: run_http_def post_request_def split: if_splits)
  then show "\<exists>w rsp. authorized_at run_env st token (authorize_body_of tid aid s resource action ctxt) rsp w \<and>
      rp_json r = Some (PDict (response_dump rsp))"
    unfolding e using run_authorized_at [OF assms] by blast
next
  fix net r tid aid s token
  assume h: "fst (run_http net (post_request ''v1/effective-permissions'' (effective_request_body tid aid s) token)) = Some r"
  then have q: "post_request ''v1/effective-permissions'' (effective_request_body tid aid s) token =
      post_request ''v1/effective-permissions'' (effective_request_body ''acme'' ''docs'' run_subject) (Some ''tok'')"
    by (auto simp: run_http_def post_request_def split: if_splits)
  then have e: "tid = ''acme''" "aid = ''docs''" "s = run_subject" "token = Some ''tok''"
    using token_requests [OF q]
    by (auto simp: effective_request_body_def subject_to_dict_inject delegation_headers_def split: option.splits if_splits)
  have "rp_json r = Some (PDict (effective_dump run_permissions))"
    using h by (auto simp: run_http_def post_request_def split: if_splits)
  then show "\<exists>w rsp. effective_at run_env st token tid aid (subject_schema_of s) rsp w \<and>
      rp_json r = Some (PDict (effective_dump rsp))"
    unfolding e using run_effective_at [OF assms(1,2)] by blast
qed

definition uncached_client :: "pyval set sdk_client" where
  "uncached_client = \<lparr>cl_cache_ttl = 0, cl_cache_max = 2, cl_cache = [], cl_max_retries = 2, cl_backoff = 1\<rparr>"

definition run_peek :: "string \<Rightarrow> pydict option" where
  "run_peek token = Some (delegation_claims ''me'' 0 60000000 ''d1'' ''acme'' ''docs'' ''u'' ''g'' [''docs.read''] None)"


end
