(* ===== verification/OAuth_Token.thy ===== *)
theory OAuth_Token
  imports Context_Api
begin

text \<open>
  The authorization server of \<^verbatim>\<open>authz_service/api/oauth.py\<close> (\<^verbatim>\<open>POST /oauth/token\<close> and the two discovery
  documents) and the routes of \<^verbatim>\<open>authz_service/api/oauth_clients.py\<close> that manage its clients and keys.
  Header and form values are the bytes the request holds; a text is the sequence of its UTF-8 bytes.
\<close>

section \<open>Basic authentication\<close>

text \<open>\<^verbatim>\<open>base64.b64decode(s, validate=True)\<close> of the standard library: groups of four characters of the alphabet,
  the last one padded.\<close>

definition b64_value :: "char \<Rightarrow> nat option" where
  "b64_value c =
     (let n = of_char c :: nat in
      if 65 \<le> n \<and> n \<le> 90 then Some (n - 65)
      else if 97 \<le> n \<and> n \<le> 122 then Some (n - 71)
      else if 48 \<le> n \<and> n \<le> 57 then Some (n + 4)
      else if c = CHR ''+'' then Some 62
      else if c = CHR ''/'' then Some 63
      else None)"

definition b64_group :: "char \<Rightarrow> char \<Rightarrow> char \<Rightarrow> char \<Rightarrow> string option" where
  "b64_group a b c d =
     (case (b64_value a, b64_value b, b64_value c, b64_value d) of
        (Some w, Some x, Some y, Some z) \<Rightarrow>
          Some [char_of (4 * w + x div 16), char_of (x mod 16 * 16 + y div 4), char_of (y mod 4 * 64 + z)]
      | (Some w, Some x, Some y, None) \<Rightarrow>
          if d = CHR ''='' then Some [char_of (4 * w + x div 16), char_of (x mod 16 * 16 + y div 4)] else None
      | (Some w, Some x, None, None) \<Rightarrow>
          if c = CHR ''='' \<and> d = CHR ''='' then Some [char_of (4 * w + x div 16)] else None
      | _ \<Rightarrow> None)"

fun b64_decode :: "string \<Rightarrow> string option" where
  "b64_decode [] = Some []"
| "b64_decode (a # b # c # d # rest) =
     (case b64_group a b c d of
        None \<Rightarrow> None
      | Some xs \<Rightarrow>
          if rest = [] then Some xs
          else if d = CHR ''='' then None
          else map_option (\<lambda>ys. xs @ ys) (b64_decode rest))"
| "b64_decode _ = None"

text \<open>Whether bytes decode as UTF-8.\<close>

definition byte_in :: "nat \<Rightarrow> nat \<Rightarrow> char \<Rightarrow> bool" where
  "byte_in l h c \<longleftrightarrow> (let n = of_char c :: nat in l \<le> n \<and> n \<le> h)"

fun utf8_valid :: "string \<Rightarrow> bool" where
  "utf8_valid [] = True"
| "utf8_valid (a # s) =
     (if byte_in 0 127 a then utf8_valid s
      else if byte_in 194 223 a then
        (case s of b # t \<Rightarrow> byte_in 128 191 b \<and> utf8_valid t | _ \<Rightarrow> False)
      else if byte_in 224 239 a then
        (case s of
           b # c # t \<Rightarrow>
             byte_in (if a = char_of (224 :: nat) then 160 else 128) (if a = char_of (237 :: nat) then 159 else 191) b \<and>
             byte_in 128 191 c \<and> utf8_valid t
         | _ \<Rightarrow> False)
      else if byte_in 240 244 a then
        (case s of
           b # c # d # t \<Rightarrow>
             byte_in (if a = char_of (240 :: nat) then 144 else 128) (if a = char_of (244 :: nat) then 143 else 191) b \<and>
             byte_in 128 191 c \<and> byte_in 128 191 d \<and> utf8_valid t
         | _ \<Rightarrow> False)
      else False)"

definition parse_basic_auth :: "string option \<Rightarrow> (string \<times> string) option" where
  "parse_basic_auth header =
     (case header of
        None \<Rightarrow> None
      | Some h \<Rightarrow>
          if h = '''' \<or> \<not> starts_with ''basic '' (lower h) then None
          else (let rest = dropWhile is_space (dropWhile (\<lambda>c. \<not> is_space c) h);
                    payload = strip rest in
                if rest = '''' then None
                else if payload = '''' then None
                else (case b64_decode payload of
                        None \<Rightarrow> None
                      | Some raw \<Rightarrow>
                          if CHR '':'' \<notin> set raw then None
                          else (let cid = takeWhile (\<lambda>c. c \<noteq> CHR '':'') raw;
                                    secret = tl (dropWhile (\<lambda>c. c \<noteq> CHR '':'') raw) in
                                if utf8_valid cid \<and> utf8_valid secret then Some (cid, secret) else None))))"

section \<open>The token endpoint\<close>

record json_reply =
  rep_status :: nat
  rep_body :: pydict
  rep_headers :: "(string, string) dict"

definition oauth_error :: "string \<Rightarrow> string \<Rightarrow> nat \<Rightarrow> json_reply" where
  "oauth_error err description status =
     \<lparr>rep_status = status, rep_body = [(''error'', PStr err), (''error_description'', PStr description)],
      rep_headers = (if status = 401 then [(''WWW-Authenticate'', ''Basic realm='' @ [CHR 0x22] @ ''oauth'' @ [CHR 0x22])] else [])\<rparr>"

record token_form =
  tf_grant_type :: string
  tf_scope :: "string option"
  tf_client_id :: "string option"
  tf_client_secret :: "string option"

text \<open>The credentials of the header win over those of the form.\<close>

definition client_credentials :: "string option \<Rightarrow> token_form \<Rightarrow> (string \<times> string) option" where
  "client_credentials authorization form =
     (let (cid, secret) = (case parse_basic_auth authorization of
             Some (c, s) \<Rightarrow> (Some c, Some s)
           | None \<Rightarrow> (tf_client_id form, tf_client_secret form)) in
      if truthy_str cid \<and> truthy_str secret then Some (the cid, the secret) else None)"

definition parse_scope_request :: "string option \<Rightarrow> string list \<Rightarrow> string list option" where
  "parse_scope_request scope owned =
     (case scope of
        None \<Rightarrow> Some owned
      | Some s \<Rightarrow>
          if strip s = '''' then Some owned
          else (let requested = filter (\<lambda>x. x \<noteq> '''') (split_on CHR '' '' s) in
                if requested = [] then Some owned
                else if list_all (\<lambda>x. x \<in> set owned) requested then Some requested
                else None))"

definition bind_tenant_scopes :: "ident option \<Rightarrow> string list \<Rightarrow> string list option" where
  "bind_tenant_scopes tid requested =
     (case tid of
        None \<Rightarrow> Some requested
      | Some t \<Rightarrow>
          if list_ex (\<lambda>s. starts_with ''tenant:'' s \<and> s \<noteq> tenant_scope t) requested then None
          else if tenant_scope t \<notin> set requested then Some (requested @ [tenant_scope t])
          else Some requested)"

definition join_space :: "string list \<Rightarrow> string" where
  "join_space ss = join_on CHR '' '' ss"

definition token_audience :: "settings \<Rightarrow> string" where
  "token_audience st = (if cfg_oauth_audience st \<noteq> '''' then cfg_oauth_audience st else cfg_oauth_issuer st)"

definition access_claims :: "settings \<Rightarrow> instant \<Rightarrow> string \<Rightarrow> oauth_client_record \<Rightarrow> string list \<Rightarrow> pydict" where
  "access_claims st now jti client requested =
     (let t = whole_seconds now in
      [(''iss'', PStr (cfg_oauth_issuer st)), (''sub'', PStr (ocr_client_id client)),
       (''aud'', PStr (token_audience st)), (''exp'', PInt (t + cfg_oauth_access_token_ttl_seconds st)),
       (''iat'', PInt t), (''nbf'', PInt t), (''jti'', PStr jti), (''scope'', PStr (join_space requested)),
       (''client_id'', PStr (ocr_client_id client))] @
      (case ocr_tenant_id client of None \<Rightarrow> [] | Some tid \<Rightarrow> [(''tenant_id'', PStr tid)]))"

record 's token_state =
  tk_clients :: "oauth_client_row list"
  tk_keys :: signing_service
  tk_limiter :: 's

text \<open>The shared limiter, when there is one, with the units of its clock to the second.\<close>

type_synonym 's limiter = "(int \<times> ('s \<Rightarrow> string \<Rightarrow> (authz_error, (bool \<times> int \<times> int) \<times> 's) result)) option"

definition token_rate_limit :: "'s limiter \<Rightarrow> string \<Rightarrow> 's \<Rightarrow> (http_error, json_reply option \<times> 's) result" where
  "token_rate_limit limiter cid s =
     (case limiter of
        None \<Rightarrow> Inr (None, s)
      | Some (u, admit) \<Rightarrow>
          (case admit s (''oauth:'' @ cid) of
             Inl _ \<Rightarrow> Inl InternalError
           | Inr ((allowed, _, retry_after), s') \<Rightarrow>
               Inr (if allowed then None
                    else Some \<lparr>rep_status = 429,
                      rep_body = [(''error'', PStr ''rate_limited''), (''retry_after'', PInt retry_after)],
                      rep_headers = [(''Retry-After'', format_seconds u retry_after)]\<rparr>, s')))"

definition issue_access_token ::
  "string jwt_encode \<Rightarrow> ('key, 'net) auth_env \<Rightarrow> settings \<Rightarrow> string \<times> (string \<times> string) \<Rightarrow> instant \<Rightarrow> string \<Rightarrow>
     oauth_client_record \<Rightarrow> string list \<Rightarrow> signing_service \<Rightarrow> (http_error, json_reply) result \<times> signing_service" where
  "issue_access_token enc env st gen now jti client requested keys =
     (case sign_token enc (ae_hash env) (ae_rsa env) gen now keys (access_claims st now jti client requested) of
        Inl SigningKeyError \<Rightarrow> (Inr (oauth_error ''server_error'' ''signing key unavailable'' 500), keys)
      | Inl _ \<Rightarrow> (Inl InternalError, keys)
      | Inr (token, keys') \<Rightarrow>
          (Inr \<lparr>rep_status = 200,
              rep_body = [(''access_token'', PStr token), (''token_type'', PStr ''Bearer''),
                (''expires_in'', PInt (cfg_oauth_access_token_ttl_seconds st)),
                (''scope'', PStr (join_space requested))],
              rep_headers = []\<rparr>, keys'))"

definition token_endpoint ::
  "string jwt_encode \<Rightarrow> ('key, 'net) auth_env \<Rightarrow> settings \<Rightarrow> 's limiter \<Rightarrow> string \<times> (string \<times> string) \<Rightarrow> instant \<Rightarrow>
     string \<Rightarrow> string option \<Rightarrow> token_form \<Rightarrow> 's token_state \<Rightarrow> (http_error, json_reply) result \<times> 's token_state" where
  "token_endpoint enc env st limiter gen now jti authorization form w =
     (if tf_grant_type form \<noteq> ''client_credentials'' then
        (Inr (oauth_error ''unsupported_grant_type''
           (''grant_type '' @ ae_repr env (PStr (tf_grant_type form)) @ '' not supported'') 400), w)
      else (case client_credentials authorization form of
         None \<Rightarrow> (Inr (oauth_error ''invalid_client'' ''client authentication required'' 401), w)
       | Some (cid, secret) \<Rightarrow>
         (case oc_authenticate (ae_hash env) (tk_clients w) now cid secret of
            (None, cs) \<Rightarrow>
              (Inr (oauth_error ''invalid_client'' ''client authentication failed'' 401), w\<lparr>tk_clients := cs\<rparr>)
          | (Some client, cs) \<Rightarrow>
            (case token_rate_limit limiter (ocr_client_id client) (tk_limiter w) of
               Inl e \<Rightarrow> (Inl e, w\<lparr>tk_clients := cs\<rparr>)
             | Inr (Some r, s') \<Rightarrow> (Inr r, w\<lparr>tk_clients := cs, tk_limiter := s'\<rparr>)
             | Inr (None, s') \<Rightarrow>
                 (let w' = w\<lparr>tk_clients := cs, tk_limiter := s'\<rparr> in
                  case parse_scope_request (tf_scope form) (ocr_scopes client) of
                    None \<Rightarrow> (Inr (oauth_error ''invalid_scope''
                               ''requested scope is not allowed for this client'' 400), w')
                  | Some requested \<Rightarrow>
                      (case bind_tenant_scopes (ocr_tenant_id client) requested of
                         None \<Rightarrow> (Inr (oauth_error ''invalid_scope''
                                    ''client is bound to a different tenant'' 400), w')
                       | Some scopes \<Rightarrow>
                           (case issue_access_token enc env st gen now jti client scopes (tk_keys w') of
                              (r, keys) \<Rightarrow> (r, w'\<lparr>tk_keys := keys\<rparr>))))))))"

section \<open>Discovery\<close>

definition server_metadata :: "settings \<Rightarrow> string \<Rightarrow> pydict" where
  "server_metadata st base_url =
     (let base = (if cfg_oauth_issuer st \<noteq> '''' then cfg_oauth_issuer st else rstrip_slash base_url) in
      [(''issuer'', PStr (if cfg_oauth_issuer st \<noteq> '''' then cfg_oauth_issuer st else base)),
       (''token_endpoint'', PStr (base @ ''/oauth/token'')),
       (''jwks_uri'', PStr (base @ ''/.well-known/jwks.json'')),
       (''grant_types_supported'', PList [PStr ''client_credentials'']),
       (''token_endpoint_auth_methods_supported'', PList [PStr ''client_secret_basic'', PStr ''client_secret_post'']),
       (''response_types_supported'', PList []),
       (''scopes_supported'', PList [PStr ''admin'', PStr ''runtime''])])"

definition jwks_endpoint :: "('key, 'net) auth_env \<Rightarrow> signing_service \<Rightarrow> (http_error, pydict list) result" where
  "jwks_endpoint env keys =
     (case all_public_jwks (ae_hash env) (ae_rsa env) keys of
        Inr ks \<Rightarrow> Inr ks
      | Inl SigningKeyError \<Rightarrow> Inr []
      | Inl _ \<Rightarrow> Inl InternalError)"

section \<open>Management of clients and keys\<close>

text \<open>The admin routes of \<^verbatim>\<open>/v1/oauth\<close>; the random client id and secret and the generated row id are
  arguments.\<close>

record oauth_client_in =
  oi_name :: string
  oi_scopes :: "string list"
  oi_tenant_id :: "ident option"
  oi_expires_at :: "instant option"

definition create_client ::
  "(string \<Rightarrow> string) \<Rightarrow> instant \<Rightarrow> ident \<Rightarrow> string \<Rightarrow> string \<Rightarrow> oauth_client_in \<Rightarrow> principal \<Rightarrow>
     oauth_client_row list \<Rightarrow> (http_error, (oauth_client_record \<times> string) \<times> oauth_client_row list) result" where
  "create_client hash now nid raw_id raw_secret b p rows =
     map_sum http_of_error id
       (oc_issue hash rows now nid raw_id raw_secret (oi_name b) (oi_scopes b) (oi_tenant_id b) (oi_expires_at b) None)"

definition list_clients ::
  "principal \<Rightarrow> oauth_client_row list \<Rightarrow> (http_error, oauth_client_record list \<times> oauth_client_row list) result" where
  "list_clients p rows = Inr (oc_list_clients rows, rows)"

definition rotate_client_secret ::
  "(string \<Rightarrow> string) \<Rightarrow> string \<Rightarrow> string \<Rightarrow> principal \<Rightarrow> oauth_client_row list \<Rightarrow>
     (http_error, (oauth_client_record \<times> string) \<times> oauth_client_row list) result" where
  "rotate_client_secret hash raw client_id p rows =
     (case oc_rotate_secret hash rows raw client_id of
        (None, _) \<Rightarrow> Inl (HTTPException 404 ''oauth_client_not_found'')
      | (Some c, rows') \<Rightarrow> Inr (c, rows'))"

definition revoke_client ::
  "string \<Rightarrow> principal \<Rightarrow> oauth_client_row list \<Rightarrow> (http_error, unit \<times> oauth_client_row list) result" where
  "revoke_client client_id p rows =
     (case oc_revoke rows client_id of
        (False, _) \<Rightarrow> Inl (HTTPException 404 ''oauth_client_not_found'')
      | (True, rows') \<Rightarrow> Inr ((), rows'))"

definition list_signing_keys_route ::
  "principal \<Rightarrow> signing_service \<Rightarrow> (http_error, (string \<times> string \<times> string \<times> instant option) list \<times> signing_service) result" where
  "list_signing_keys_route p svc =
     Inr (map (\<lambda>k. (sk_kid k, sk_alg k, sk_status k, sk_created_at k)) (list_signing_keys svc), svc)"

definition rotate_signing_key ::
  "(string \<Rightarrow> string) \<Rightarrow> string \<times> (string \<times> string) \<Rightarrow> instant \<Rightarrow> principal \<Rightarrow> signing_service \<Rightarrow>
     (http_error, (string \<times> string \<times> string \<times> instant option) \<times> signing_service) result" where
  "rotate_signing_key hash gen now p svc =
     (case rotate_key hash gen now svc of
        Inl SigningKeyError \<Rightarrow> Inl (HTTPException 409 ''signing_key_rotation_failed'')
      | Inl _ \<Rightarrow> Inl InternalError
      | Inr (k, svc') \<Rightarrow> Inr ((sk_kid k, sk_alg k, sk_status k, sk_created_at k), svc'))"

section \<open>Lemmas\<close>

lemma parse_scope_request_owned: "parse_scope_request scope owned = Some req \<Longrightarrow> set req \<subseteq> set owned"
  by (auto simp: parse_scope_request_def Let_def list_all_iff split: option.splits if_splits)

lemma bind_tenant_scopes_Some:
  "bind_tenant_scopes tid req = Some scopes \<Longrightarrow>
     set req \<subseteq> set scopes \<and> set scopes \<subseteq> set req \<union> (case tid of None \<Rightarrow> {} | Some t \<Rightarrow> {tenant_scope t}) \<and>
     (\<forall>t. tid = Some t \<longrightarrow> tenant_scope t \<in> set scopes \<and>
        (\<forall>s \<in> set scopes. starts_with ''tenant:'' s \<longrightarrow> s = tenant_scope t))"
  by (auto simp: bind_tenant_scopes_def list_ex_iff split: option.splits if_splits)

lemma issue_access_token_200:
  assumes "issue_access_token enc env st gen now jti client scopes keys = (Inr r, keys')" and "rep_status r = 200"
  shows "\<exists>token. sign_token enc (ae_hash env) (ae_rsa env) gen now keys (access_claims st now jti client scopes) =
      Inr (token, keys') \<and>
    rep_body r = [(''access_token'', PStr token), (''token_type'', PStr ''Bearer''),
      (''expires_in'', PInt (cfg_oauth_access_token_ttl_seconds st)), (''scope'', PStr (join_space scopes))]"
  using assms by (auto simp: issue_access_token_def oauth_error_def split: sum.splits signing_error.splits)

text \<open>What a successful answer of the token endpoint rests on.\<close>

lemma token_endpoint_200:
  assumes "token_endpoint enc env st limiter gen now jti authorization form w = (Inr r, w')" and "rep_status r = 200"
  obtains cid secret client requested scopes token where
    "tf_grant_type form = ''client_credentials''"
    "client_credentials authorization form = Some (cid, secret)"
    "oc_authenticate (ae_hash env) (tk_clients w) now cid secret = (Some client, tk_clients w')"
    "token_rate_limit limiter (ocr_client_id client) (tk_limiter w) = Inr (None, tk_limiter w')"
    "parse_scope_request (tf_scope form) (ocr_scopes client) = Some requested"
    "bind_tenant_scopes (ocr_tenant_id client) requested = Some scopes"
    "sign_token enc (ae_hash env) (ae_rsa env) gen now (tk_keys w) (access_claims st now jti client scopes) =
       Inr (token, tk_keys w')"
    "rep_body r = [(''access_token'', PStr token), (''token_type'', PStr ''Bearer''),
       (''expires_in'', PInt (cfg_oauth_access_token_ttl_seconds st)), (''scope'', PStr (join_space scopes))]"
proof -
  have g: "tf_grant_type form = ''client_credentials''"
    using assms by (auto simp: token_endpoint_def oauth_error_def split: if_splits)
  note e1 = assms(1) [unfolded token_endpoint_def, simplified g, simplified]
  obtain cid secret where c: "client_credentials authorization form = Some (cid, secret)"
    using e1 assms(2) by (auto simp: oauth_error_def split: option.splits)
  obtain client cs where a: "oc_authenticate (ae_hash env) (tk_clients w) now cid secret = (Some client, cs)"
    using e1 assms(2) c by (auto simp: oauth_error_def split: option.splits prod.splits)
  obtain s' where l: "token_rate_limit limiter (ocr_client_id client) (tk_limiter w) = Inr (None, s')"
  proof (cases "token_rate_limit limiter (ocr_client_id client) (tk_limiter w)")
    case (Inl e)
    then show thesis using e1 c a by simp
  next
    case (Inr y)
    obtain o1 s1 where y: "y = (o1, s1)" by (cases y)
    show thesis
    proof (cases o1)
      case None
      then show thesis using Inr y that by simp
    next
      case (Some q)
      then have "rep_status q = 429"
        using Inr y by (auto simp: token_rate_limit_def split: option.splits sum.splits prod.splits if_splits)
      moreover have "r = q" using e1 c a Inr y Some by simp
      ultimately show thesis using assms(2) by simp
    qed
  qed
  obtain requested where p: "parse_scope_request (tf_scope form) (ocr_scopes client) = Some requested"
    using e1 assms(2) c a l by (auto simp: oauth_error_def Let_def split: option.splits)
  obtain scopes where b: "bind_tenant_scopes (ocr_tenant_id client) requested = Some scopes"
    using e1 assms(2) c a l p by (auto simp: oauth_error_def Let_def split: option.splits)
  obtain keys where i: "issue_access_token enc env st gen now jti client scopes (tk_keys w) = (Inr r, keys)"
    and w': "w' = w\<lparr>tk_clients := cs, tk_limiter := s', tk_keys := keys\<rparr>"
    using e1 c a l p b by (auto simp: Let_def split: prod.splits)
  from issue_access_token_200 [OF i assms(2)] obtain token where
    "sign_token enc (ae_hash env) (ae_rsa env) gen now (tk_keys w) (access_claims st now jti client scopes) = Inr (token, keys)"
    "rep_body r = [(''access_token'', PStr token), (''token_type'', PStr ''Bearer''),
       (''expires_in'', PInt (cfg_oauth_access_token_ttl_seconds st)), (''scope'', PStr (join_space scopes))]"
    by blast
  then show thesis using that g c a l p b by (simp add: w')
qed

lemma oc_authenticate_Some:
  assumes "oc_authenticate hash rows now cid secret = (Some client, rows')"
  shows "\<exists>row \<in> set rows. oc_client_id row = cid \<and> oc_secret_hash row = hash secret \<and> oc_status row = ''active'' \<and>
    (\<forall>e. oc_expires_at row = Some e \<longrightarrow> now \<le> e) \<and> ocr_client_id client = cid \<and>
    ocr_scopes client = parse_scopes (oc_scopes row) \<and> ocr_tenant_id client = oc_tenant_id row"
  using assms
  by (auto simp: oc_authenticate_def Let_def row_usable_def oc_to_record_def not_less
      split: option.splits if_splits dest!: tbl_get_Some)

section \<open>Properties\<close>


definition sample_client :: oauth_client_row where
  "sample_client =
     \<lparr>oc_id = ''c'', oc_client_id = ''oc_1'', oc_secret_hash = ''s3'', oc_name = ''ci'', oc_scopes = ''runtime'',
      oc_tenant_id = Some ''t'', oc_status = ''active'', oc_expires_at = None, oc_last_used_at = None,
      oc_created_at = None\<rparr>"

definition sample_tokens :: "unit token_state" where
  "sample_tokens = \<lparr>tk_clients = [sample_client], tk_keys = sample_service, tk_limiter = ()\<rparr>"

definition sample_form :: token_form where
  "sample_form =
     \<lparr>tf_grant_type = ''client_credentials'', tf_scope = Some ''runtime'', tf_client_id = None, tf_client_secret = None\<rparr>"

text \<open>The header is \<^verbatim>\<open>oc_1:s3\<close> in base 64.\<close>

definition sample_basic :: "string option" where
  "sample_basic = Some ''Basic b2NfMTpzMw==''"

lemma parse_sample_basic: "parse_basic_auth sample_basic = Some (''oc_1'', ''s3'')"
  by (simp add: sample_basic_def parse_basic_auth_def lower_def lower_char_def starts_with_def strip_def is_space_def
      b64_group_def b64_value_def Let_def byte_in_def char_of_def bit_numeral_rec bit_Suc_0_iff)

lemma sample_signs:
  "active_signing_key (ae_hash sample_env) (ae_rsa sample_env) (''p'', (''n'', ''e'')) 5000000 sample_service =
     Inr (row_to_signing_key sample_key_row, sample_service\<lparr>ss_cached := Some (row_to_signing_key sample_key_row)\<rparr>)"
  unfolding sample_env_def by (simp add: sample_active_key)

definition sample_claims :: "settings \<Rightarrow> pydict" where
  "sample_claims st = access_claims st 5000000 ''j'' (oc_to_record (sample_client\<lparr>oc_last_used_at := Some 5000000\<rparr>))
     [''runtime'', tenant_scope ''t'']"

lemma sample_token_issued:
  assumes "ae_hash env = (\<lambda>x. x)" "ae_rsa env = ae_rsa sample_env"
  shows "\<exists>r w'. token_endpoint enc env st None (''p'', (''n'', ''e'')) 5000000 ''j'' sample_basic sample_form sample_tokens =
      (Inr r, w') \<and> rep_status r = 200 \<and>
      dict_get (rep_body r) ''access_token'' = Some (PStr (enc (sample_claims st) ''p0'' ''RS256''
        [(''kid'', PStr ''k0''), (''typ'', PStr ''JWT'')])) \<and>
      tk_keys w' = sample_service\<lparr>ss_cached := Some (row_to_signing_key sample_key_row)\<rparr>"
proof -
  have h: "ae_hash sample_env = (\<lambda>x. x)" by (simp add: sample_env_def)
  have k: "row_to_signing_key sample_key_row = \<lparr>sk_kid = ''k0'', sk_alg = ''RS256'', sk_status = ''active'',
      sk_private_pem = ''p0'', sk_public_jwk = [(''kid'', PStr ''k0'')], sk_created_at = Some 0\<rparr>"
    by (simp add: row_to_signing_key_def sample_key_row_def)
  have sc: "parse_scopes ''runtime'' = [''runtime'']" by (simp add: parse_scopes_def strip_def is_space_def)
  have n: "tenant_scope ''t'' \<noteq> ''runtime''" by (simp add: tenant_scope_def)
  show ?thesis
    by (simp add: token_endpoint_def sample_form_def client_credentials_def parse_sample_basic truthy_str_def sample_tokens_def
        oc_authenticate_def tbl_get_def sample_client_def row_usable_def oc_to_record_def token_rate_limit_def
        parse_scope_request_def strip_def is_space_def sc n bind_tenant_scopes_def starts_with_def issue_access_token_def
        sign_token_def sign_typed_def assms sample_signs [unfolded h] k sample_claims_def Let_def)
qed


definition no_space :: "string \<Rightarrow> bool" where
  "no_space s \<longleftrightarrow> (\<forall>c \<in> set s. \<not> is_space c)"

lemma no_space_strip: "no_space s \<Longrightarrow> strip s = s"
  by (simp add: no_space_def strip_no_space)

lemma no_space_blank: "no_space s \<Longrightarrow> CHR '' '' \<notin> set s"
  by (auto simp: no_space_def is_space_def)

definition self_config :: "settings \<Rightarrow> issuer_config" where
  "self_config st =
     \<lparr>ic_issuer = cfg_oauth_issuer st, ic_audience = [token_audience st], ic_jwks_url = None, ic_algorithms = [''RS256''],
      ic_leeway_seconds = 30, ic_scope_claim = ''scope'', ic_scope_separator = Some CHR '' '', ic_scope_map = [],
      ic_tenant_claim = Some ''tenant_id'', ic_tenant_prefix = ''''\<rparr>"

lemma self_resolver:
  assumes "build_jwt_resolver st issuers keys = Inr (Some jr)" "cfg_oauth_as_enabled st" "cfg_oauth_issuer st \<noteq> ''''"
    and "\<forall>c \<in> set issuers. ic_issuer c \<noteq> cfg_oauth_issuer st"
  shows "dict_get (jr_configs jr) (cfg_oauth_issuer st) = Some (self_config st) \<and>
    jr_self_issuer jr = Some (cfg_oauth_issuer st) \<and> jr_self_keys jr = Some keys"
proof -
  have n: "\<not> list_ex (\<lambda>c. ic_issuer c = cfg_oauth_issuer st) issuers" using assms(4) by (simp add: list_ex_iff)
  from assms(1) have "jwt_resolver_init (issuers @ [self_config st]) (1000000 * cfg_oauth_jwks_cache_ttl_seconds st)
      (Some (cfg_oauth_issuer st)) (Some keys) = Inr jr"
    using assms(2,3) n
    by (auto simp: build_jwt_resolver_def self_config_def token_audience_def Let_def res_bind_eq_Inr)
  then show ?thesis by (auto simp: jwt_resolver_init_def self_config_def split: if_splits)
qed

lemma map_tokens_no_space:
  assumes "\<forall>s \<in> set ts. no_space s" "ic_scope_map config = []"
  shows "set (map_tokens config ts []) \<subseteq> set ts"
proof
  fix s assume "s \<in> set (map_tokens config ts [])"
  from map_tokens_sources [OF this] obtain t where t: "t \<in> set ts"
    "s = dict_get_default (ic_scope_map config) (strip t) (strip t)" by auto
  then show "s \<in> set ts" using assms by (simp add: dict_get_default_def no_space_strip)
qed

lemma access_claims_get:
  "py_get (access_claims st now jti c scopes) ''iss'' = PStr (cfg_oauth_issuer st)"
  "py_get (access_claims st now jti c scopes) ''sub'' = PStr (ocr_client_id c)"
  "py_get (access_claims st now jti c scopes) ''scope'' = PStr (join_space scopes)"
  "py_get (access_claims st now jti c scopes) ''client_id'' = PStr (ocr_client_id c)"
  "py_get (access_claims st now jti c scopes) ''tenant_id'' =
     (case ocr_tenant_id c of None \<Rightarrow> PNone | Some t \<Rightarrow> PStr t)"
  by (simp_all add: py_get_def access_claims_def Let_def split: option.split)

lemma principal_of_access_claims:
  assumes "ocr_client_id c \<noteq> ''''" "\<forall>s \<in> set scopes. no_space s"
    and "\<forall>t. ocr_tenant_id c = Some t \<longrightarrow> tenant_scope t \<in> set scopes"
  shows "let p = token_to_principal repr (self_config st) (access_claims st now jti c scopes) in
    tp_issuer p = cfg_oauth_issuer st \<and> tp_subject p = ocr_client_id c \<and> tp_client_id p = Some (ocr_client_id c) \<and>
    tp_tenant_id p = ocr_tenant_id c \<and> set (tp_scopes p) \<subseteq> set scopes"
proof -
  let ?cl = "access_claims st now jti c scopes" and ?cf = "self_config st"
  have e: "extract_tenant repr ?cl ?cf = ocr_tenant_id c"
    by (simp add: extract_tenant_def self_config_def access_claims_get split: option.split)
  have m: "set (map_scopes repr ?cl ?cf) \<subseteq> set scopes"
  proof (cases "scopes = []")
    case True
    then show ?thesis
      by (simp add: map_scopes_def self_config_def access_claims_get scope_tokens_def join_space_def strip_def)
  next
    case False
    have "split_on CHR '' '' (join_space scopes) = scopes"
      using False assms(2) no_space_blank by (simp add: join_space_def split_join_on)
    moreover have "map_scopes repr ?cl ?cf = map_tokens ?cf (split_on CHR '' '' (join_space scopes)) []"
      by (simp add: map_scopes_def access_claims_get scope_tokens_def self_config_def)
    ultimately show ?thesis using map_tokens_no_space [of scopes ?cf] assms(2) by (simp add: self_config_def)
  qed
  show ?thesis
    unfolding Let_def using assms(1,3) e m
    by (auto simp: token_to_principal_def access_claims_get py_or_def Let_def split: option.splits)
     (simp_all add: self_config_def)
qed



end
