(* ===== verification/Background.thy ===== *)
theory Background
  imports Sql_Refinement Delegations Sessions Settings Idempotency
begin

text \<open>
  What runs beside the requests: the interval workers of \<^verbatim>\<open>authz_service/oauth_janitor.py\<close> and
  \<^verbatim>\<open>authz_service/audit_retention.py\<close>, and the request context and counters of
  \<^verbatim>\<open>authz_service/observability.py\<close>. A worker is its flags and the sequence of moments at which it ticks;
  starting and joining the operating system's thread is not modelled. Instants are microseconds.
\<close>

section \<open>Workers\<close>

record worker =
  wk_interval :: int
  wk_stop :: bool
  wk_thread :: bool

definition worker_init :: "int \<Rightarrow> worker" where
  "worker_init interval = \<lparr>wk_interval = max 60 interval, wk_stop = False, wk_thread = False\<rparr>"

definition worker_start :: "worker \<Rightarrow> worker" where
  "worker_start w = (if wk_thread w then w else w\<lparr>wk_stop := False, wk_thread := True\<rparr>)"

definition worker_stop :: "worker \<Rightarrow> worker" where
  "worker_stop w = (if wk_thread w then w\<lparr>wk_stop := True, wk_thread := False\<rparr> else w\<lparr>wk_stop := True\<rparr>)"

text \<open>\<^verbatim>\<open>_run\<close>: a tick at once, then one after each wait that ended without a stop; \<open>moments\<close> are the moments of the
  ticks.\<close>

definition worker_run :: "(instant \<Rightarrow> 's \<Rightarrow> 's) \<Rightarrow> instant list \<Rightarrow> 's \<Rightarrow> 's" where
  "worker_run tick moments s = fold tick moments s"

section \<open>Audit retention\<close>

definition day :: int where
  "day = 86400000000"

definition prune_audit_log :: "int \<Rightarrow> instant \<Rightarrow> sql_db \<Rightarrow> nat \<times> sql_db" where
  "prune_audit_log retention_days now db =
     (if retention_days \<le> 0 then (0, db)
      else (let cutoff = now - retention_days * day;
                old = (\<lambda>r. ae_created_at (al_entry r) < cutoff) in
            (length (filter old (db_audit db)), db\<lparr>db_audit := filter (\<lambda>r. \<not> old r) (db_audit db)\<rparr>)))"

definition retention_start :: "int \<Rightarrow> worker \<Rightarrow> worker" where
  "retention_start retention_days w = (if retention_days \<le> 0 then w else worker_start w)"

definition retention_tick :: "int \<Rightarrow> instant \<Rightarrow> sql_db \<Rightarrow> sql_db" where
  "retention_tick retention_days now db = snd (prune_audit_log retention_days now db)"

section \<open>Janitors\<close>

definition session_janitor_tick :: "instant \<Rightarrow> session_tables \<Rightarrow> session_tables" where
  "session_janitor_tick now s = snd (prune_expired s now)"

text \<open>The application starts it with the lifetime of access tokens.\<close>

definition signing_key_janitor_tick :: "settings \<Rightarrow> instant \<Rightarrow> signing_service \<Rightarrow> signing_service" where
  "signing_key_janitor_tick st now svc =
     snd (prune_retiring svc now (1000000 * cfg_oauth_access_token_ttl_seconds st))"

section \<open>Request context and metrics\<close>

record http_metrics =
  hm_requests :: "(string \<times> string \<times> string, nat) dict"
  hm_latency :: "(string \<times> string) list"

definition count_request :: "string \<Rightarrow> string \<Rightarrow> string \<Rightarrow> http_metrics \<Rightarrow> http_metrics" where
  "count_request m path status h =
     h\<lparr>hm_requests := dict_set (m, path, status) (Suc (dict_get_default (hm_requests h) (m, path, status) 0)) (hm_requests h),
       hm_latency := hm_latency h @ [(m, path)]\<rparr>"

text \<open>The handler's answer, or None when it raises; the exception is raised again.\<close>

definition request_context_dispatch ::
  "string \<Rightarrow> (http_request \<Rightarrow> http_resp option) \<Rightarrow> http_request \<Rightarrow> http_metrics \<Rightarrow> http_resp option \<times> http_metrics" where
  "request_context_dispatch new_id call_next rq h =
     (let request_id = (case dict_get (rq_headers rq) ''X-Request-Id'' of
             Some i \<Rightarrow> if i \<noteq> '''' then i else new_id | None \<Rightarrow> new_id) in
      case call_next rq of
        None \<Rightarrow> (None, count_request (rq_method rq) (rq_path rq) ''500'' h)
      | Some r \<Rightarrow>
          (Some (r\<lparr>rs_headers := dict_set ''X-Request-Id'' request_id (rs_headers r)\<rparr>),
           count_request (rq_method rq) (rq_path rq) (nat_str (rs_status r)) h))"

section \<open>Lemmas\<close>

lemma dispatch_counts_once:
  "length (hm_latency (snd (request_context_dispatch nid next rq h))) = Suc (length (hm_latency h))"
  by (auto simp: request_context_dispatch_def count_request_def Let_def split: option.splits)

lemma retention_run_audit:
  assumes "0 < days"
  shows "db_audit (worker_run (retention_tick days) moments db) =
    filter (\<lambda>r. \<forall>t \<in> set moments. t - days * day \<le> ae_created_at (al_entry r)) (db_audit db)"
  unfolding worker_run_def
  by (induction moments arbitrary: db)
    (use assms in \<open>auto simp: retention_tick_def prune_audit_log_def Let_def not_less intro!: filter_cong\<close>)

lemma retention_run_frame:
  "db_audit_update (\<lambda>_. x) (worker_run (retention_tick days) moments db) = db_audit_update (\<lambda>_. x) db"
  unfolding worker_run_def
  by (induction moments arbitrary: db) (simp_all add: retention_tick_def prune_audit_log_def Let_def)

lemma prune_retiring_rows:
  "ss_rows (snd (prune_retiring svc now ttl)) =
     map (\<lambda>r. if prunable now ttl r then r\<lparr>kr_status := ''revoked''\<rparr> else r) (ss_rows svc)"
  by (simp add: prune_retiring_def)

lemma janitor_run_ok:
  "key_rows_ok (ss_rows svc) \<Longrightarrow> key_rows_ok (ss_rows (worker_run (signing_key_janitor_tick st) moments svc)) \<and>
     ss_env_pem (worker_run (signing_key_janitor_tick st) moments svc) = ss_env_pem svc"
  unfolding worker_run_def
  by (induction moments arbitrary: svc)
    (simp_all add: signing_key_janitor_tick_def key_rows_ok_prune, simp_all add: prune_retiring_def)

text \<open>A retiring row stays while no tick reaches the end of its grace period, and is revoked by the first that
  does.\<close>

lemma janitor_run_row:
  assumes "row \<in> set (ss_rows svc)" "kr_status row = ''retiring''" "kr_rotated_at row = Some t"
  shows "(if \<exists>x \<in> set moments. t + 2 * (1000000 * cfg_oauth_access_token_ttl_seconds st) \<le> x
      then row\<lparr>kr_status := ''revoked''\<rparr> else row) \<in> set (ss_rows (worker_run (signing_key_janitor_tick st) moments svc))"
  unfolding worker_run_def
proof -
  let ?ttl = "1000000 * cfg_oauth_access_token_ttl_seconds st"
  have keep: "row' \<in> set (ss_rows (fold (signing_key_janitor_tick st) moments svc))"
    if "row' \<in> set (ss_rows svc)" "\<forall>x \<in> set moments. \<not> prunable x ?ttl row'" for row' moments svc
    using that
  proof (induction moments arbitrary: svc)
    case (Cons x moments)
    then have "row' \<in> set (ss_rows (signing_key_janitor_tick st x svc))"
      by (force simp: signing_key_janitor_tick_def prune_retiring_rows)
    then show ?case using Cons by simp
  qed simp
  show "(if \<exists>x \<in> set moments. t + 2 * ?ttl \<le> x then row\<lparr>kr_status := ''revoked''\<rparr> else row)
      \<in> set (ss_rows (fold (signing_key_janitor_tick st) moments svc))"
    using assms(1)
  proof (induction moments arbitrary: svc)
    case (Cons x moments)
    show ?case
    proof (cases "t + 2 * ?ttl \<le> x")
      case True
      then have "prunable x ?ttl row" using assms(2,3) by (simp add: prunable_def)
      then have "row\<lparr>kr_status := ''revoked''\<rparr> \<in> set (ss_rows (signing_key_janitor_tick st x svc))"
        using Cons.prems by (force simp: signing_key_janitor_tick_def prune_retiring_rows)
      from keep [OF this] show ?thesis using True by (simp add: prunable_def)
    next
      case False
      then have "\<not> prunable x ?ttl row" using assms(2,3) by (simp add: prunable_def)
      then have "row \<in> set (ss_rows (signing_key_janitor_tick st x svc))"
        using Cons.prems by (force simp: signing_key_janitor_tick_def prune_retiring_rows)
      from Cons.IH [OF this] show ?thesis using False by simp
    qed
  qed simp
qed

definition jwks_named :: "signing_service \<Rightarrow> bool" where
  "jwks_named svc \<longleftrightarrow> (\<forall>r \<in> set (ss_rows svc). py_get (kr_public_jwk r) ''kid'' = PStr (kr_kid r))"

lemma janitor_tick_named: "jwks_named svc \<Longrightarrow> jwks_named (signing_key_janitor_tick st x svc)"
  by (auto simp: signing_key_janitor_tick_def prune_retiring_rows jwks_named_def)

lemma janitor_run_named:
  "jwks_named svc \<Longrightarrow> jwks_named (worker_run (signing_key_janitor_tick st) moments svc)"
  unfolding worker_run_def by (induction moments arbitrary: svc) (simp_all add: janitor_tick_named)

section \<open>Properties\<close>

text \<open>The audit log keeps exactly its retention window. However often the worker ticks and in whatever
  order the moments come, an audit row survives just when no tick found it older than the retention time, no
  other table changes, and a worker started with a retention that is not positive deletes nothing.\<close>

theorem audit_retention_window:
  "(days \<le> 0 \<longrightarrow> worker_run (retention_tick days) moments db = db \<and> retention_start days w = w) \<and>
   (0 < days \<longrightarrow>
      (\<forall>r. r \<in> set (db_audit (worker_run (retention_tick days) moments db)) \<longleftrightarrow>
         r \<in> set (db_audit db) \<and> (\<forall>t \<in> set moments. t - days * day \<le> ae_created_at (al_entry r)))) \<and>
   db_audit_update (\<lambda>_. []) (worker_run (retention_tick days) moments db) = db_audit_update (\<lambda>_. []) db"
proof (intro conjI impI allI)
  assume d: "days \<le> 0"
  have "fold (retention_tick days) moments s = s" for s
    using d by (induction moments) (simp_all add: retention_tick_def prune_audit_log_def)
  then show "worker_run (retention_tick days) moments db = db" by (simp add: worker_run_def)
  show "retention_start days w = w" using d by (simp add: retention_start_def)
next
  fix r assume "0 < days"
  from retention_run_audit [OF this, of moments db]
  show "r \<in> set (db_audit (worker_run (retention_tick days) moments db)) \<longleftrightarrow>
      r \<in> set (db_audit db) \<and> (\<forall>t \<in> set moments. t - days * day \<le> ae_created_at (al_entry r))"
    by simp
qed (rule retention_run_frame)

theorem audit_retention_window_witness:
  "\<forall>r. r \<in> set (db_audit (worker_run (retention_tick 30) [3000000000000] empty_db)) \<longleftrightarrow>
     r \<in> set (db_audit empty_db) \<and> 3000000000000 - 30 * day \<le> ae_created_at (al_entry r)"
  using conjunct1 [OF conjunct2 [OF audit_retention_window [of 30 "[3000000000000]" empty_db "worker_init 1"]]]
  by simp

text \<open>C36: how long a retired signing key verifies. After a rotation at \<open>t\<close> the key stays published through every
  tick of the janitor before \<open>t\<close> plus twice the lifetime of access tokens, so every access token it signed
  can expire first; the first later tick withdraws it, and from then on every delegation token signed
  with it is refused as invalid, even when its grant has not expired. Since grants may live longer than
  that (a day by default, against twice an hour), a rotation ends them early.\<close>

theorem retired_key_lifetime:
  assumes "key_rows_ok (ss_rows (ds_keys ds))" "jwks_named (ds_keys ds)" "ss_env_pem (ds_keys ds) = ''''"
    and "row \<in> set (ss_rows (ds_keys ds))" "kr_status row = ''retiring''" "kr_rotated_at row = Some t"
    and "keys = worker_run (signing_key_janitor_tick st) moments (ds_keys ds)"
    and "jl_header lib token = Some h" "py_get h ''typ'' = PStr DELEGATION_TOKEN_TYPE" "py_get h ''kid'' = PStr (kr_kid row)"
  shows "if \<forall>x \<in> set moments. x < t + 2 * (1000000 * cfg_oauth_access_token_ttl_seconds st)
    then \<exists>jwks. all_public_jwks hash rsa keys = Inr jwks \<and> kr_public_jwk row \<in> set jwks
    else delegation_verify repr lib hash rsa now (ds\<lparr>ds_keys := keys\<rparr>) token = Inl (DelegationError REASON_INVALID)"
proof -
  let ?late = "\<exists>x \<in> set moments. t + 2 * (1000000 * cfg_oauth_access_token_ttl_seconds st) \<le> x"
  have k: "key_rows_ok (ss_rows keys)" "ss_env_pem keys = ''''" "jwks_named keys"
    using janitor_run_ok [OF assms(1)] janitor_run_named [OF assms(2)] assms(3,7) by simp_all
  have r: "(if ?late then row\<lparr>kr_status := ''revoked''\<rparr> else row) \<in> set (ss_rows keys)"
    unfolding assms(7) by (rule janitor_run_row [OF assms(4-6)])
  obtain jwks where j: "all_public_jwks hash rsa keys = Inr jwks"
    "set jwks = kr_public_jwk ` {r \<in> set (ss_rows keys). kr_status r \<in> {''active'', ''retiring''}}"
    using published_iff [OF k(1,2)] by blast
  show ?thesis
  proof (cases ?late)
    case False
    then have "row \<in> set (ss_rows keys)" using r by simp
    then have "kr_public_jwk row \<in> set jwks" using assms(5) unfolding j(2) by auto
    then show ?thesis using False j(1) by (auto simp: not_le)
  next
    case True
    then have rv: "row\<lparr>kr_status := ''revoked''\<rparr> \<in> set (ss_rows keys)" using r by simp
    have u: "unique_col kr_kid (ss_rows keys)" using k(1) by (simp add: key_rows_ok_def)
    have "py_get jwk ''kid'' \<noteq> PStr (kr_kid row)" if m: "jwk \<in> set jwks" for jwk
    proof
      assume e: "py_get jwk ''kid'' = PStr (kr_kid row)"
      obtain r' where r': "r' \<in> set (ss_rows keys)" "kr_status r' \<in> {''active'', ''retiring''}" "jwk = kr_public_jwk r'"
        using m unfolding j(2) by auto
      then have "kr_kid r' = kr_kid (row\<lparr>kr_status := ''revoked''\<rparr>)" using e k(3) by (simp add: jwks_named_def)
      then have "r' = row\<lparr>kr_status := ''revoked''\<rparr>" using unique_col_eq [OF u] r'(1) rv by blast
      then have "kr_status r' = ''revoked''" by simp
      then show False using r'(2) by simp
    qed
    moreover have "py_get jwk ''kid'' = PStr (kr_kid row)"
      if e: "py_eq (py_get jwk ''kid'') (PStr (kr_kid row))" and m: "jwk \<in> set jwks" for jwk
    proof -
      obtain r' where "r' \<in> set (ss_rows keys)" "jwk = kr_public_jwk r'" using m unfolding j(2) by auto
      then show ?thesis using e k(3) by (simp add: jwks_named_def)
    qed
    ultimately have "List.find (\<lambda>q. py_eq (py_get q ''kid'') (PStr (kr_kid row))) jwks = None"
      by (auto simp: find_None_iff)
    then have "delegation_verify repr lib hash rsa now (ds\<lparr>ds_keys := keys\<rparr>) token = Inl (DelegationError REASON_INVALID)"
      using assms(8-10) j(1) by (simp add: delegation_verify_def)
    then show ?thesis using True by (auto simp: not_less)
  qed
qed

lemma default_lifetimes:
  "\<exists>st. load_settings [] = Inr st \<and> cfg_oauth_access_token_ttl_seconds st = 3600 \<and> cfg_delegation_max_ttl_seconds st = 86400"
  by (simp add: load_settings_def settings_eval)

definition key0_lib :: "(unit, unit) jwt_lib" where
  "key0_lib = \<lparr>jl_header = (\<lambda>_. Some [(''typ'', PStr DELEGATION_TOKEN_TYPE), (''kid'', PStr ''k0'')]),
     jl_peek = (\<lambda>_. None), jl_key = (\<lambda>_. Some ()), jl_decode = (\<lambda>_ _ _ _ _ _ _. Decoded [])\<rparr>"

definition rotated_service :: delegation_service where
  "rotated_service =
     \<lparr>ds_rows = [\<lparr>dg_id = ''g'', dg_tenant_id = ''t'', dg_application_id = ''a'', dg_user_id = ''u'', dg_agent_id = ''ag'',
        dg_permissions = [], dg_purpose = None, dg_issued_by = None, dg_status = ''active'',
        dg_expires_at = 86400000000, dg_revoked_at = None, dg_created_at = 0\<rparr>],
      ds_keys = sample_service\<lparr>ss_rows := [retire 0 sample_key_row]\<rparr>, ds_issuer = ''me'', ds_leeway = 30\<rparr>"

text \<open>With the default lifetimes: the key is rotated at once after the grant was issued for a day, and two hours
  later the grant, still active and unexpired, is refused.\<close>

theorem retired_key_lifetime_witness:
  "\<forall>repr hash rsa. (\<exists>st keys row. load_settings [] = Inr st \<and> 86400 \<le> cfg_delegation_max_ttl_seconds st \<and>
     keys = worker_run (signing_key_janitor_tick st) [7200000000] (ds_keys rotated_service) \<and>
     row \<in> set (ds_rows rotated_service) \<and> dg_status row = ''active'' \<and> 7200000001 < dg_expires_at row \<and>
     delegation_verify repr key0_lib hash rsa 7200000001 (rotated_service\<lparr>ds_keys := keys\<rparr>) () =
       Inl (DelegationError REASON_INVALID))" (is "\<forall>repr hash rsa. ?P repr hash rsa")
proof (intro allI)
  fix repr hash rsa
  obtain st where st: "load_settings [] = Inr st" "cfg_oauth_access_token_ttl_seconds st = 3600"
    "cfg_delegation_max_ttl_seconds st = 86400"
    using default_lifetimes by blast
  have a: "key_rows_ok (ss_rows (ds_keys rotated_service))" "jwks_named (ds_keys rotated_service)"
    "ss_env_pem (ds_keys rotated_service) = ''''" "retire 0 sample_key_row \<in> set (ss_rows (ds_keys rotated_service))"
    "kr_status (retire 0 sample_key_row) = ''retiring''" "kr_rotated_at (retire 0 sample_key_row) = Some 0"
    by (simp_all add: rotated_service_def key_rows_ok_def unique_col_def jwks_named_def retire_def sample_key_row_def
        sample_service_def py_get_def)
  have h: "jl_header key0_lib () = Some [(''typ'', PStr DELEGATION_TOKEN_TYPE), (''kid'', PStr ''k0'')]"
    "py_get [(''typ'', PStr DELEGATION_TOKEN_TYPE), (''kid'', PStr ''k0'')] ''typ'' = PStr DELEGATION_TOKEN_TYPE"
    "py_get [(''typ'', PStr DELEGATION_TOKEN_TYPE), (''kid'', PStr ''k0'')] ''kid'' = PStr (kr_kid (retire 0 sample_key_row))"
    by (simp_all add: key0_lib_def py_get_def retire_def sample_key_row_def)
  have "delegation_verify repr key0_lib hash rsa 7200000001
      (rotated_service\<lparr>ds_keys := worker_run (signing_key_janitor_tick st) [7200000000] (ds_keys rotated_service)\<rparr>) () =
      Inl (DelegationError REASON_INVALID)"
    using retired_key_lifetime [where st = st and moments = "[7200000000]", OF a refl h, of hash rsa repr 7200000001] st(2) by simp
  then show "?P repr hash rsa" using st by (simp add: rotated_service_def)
qed

end
