(* ===== verification/Startup.thy ===== *)
theory Startup
  imports Sdk_Calls OAuth_Token Background
begin

text \<open>
  The start of the service: the issuers an operator configures (\<^verbatim>\<open>authz_service/oauth_config.py\<close>), and what
  \<^verbatim>\<open>create_app\<close> of \<^verbatim>\<open>authz_service/main.py\<close> assembles from the settings: middlewares, CORS, routers, the meta
  endpoints and the background workers. The JSON parser and the file system are parameters.
\<close>

section \<open>Issuer configuration\<close>

text \<open>\<^verbatim>\<open>Unchecked\<close> stands for a field whose JSON type the code does not check and the record of the model has no
  place for: the program keeps such a value and fails, if at all, where it uses it.\<close>

datatype config_error = OAuthConfigError | ConfigRaised authz_error | Unchecked string

definition config_raise :: "(authz_error, 'a) result \<Rightarrow> (config_error, 'a) result" where
  "config_raise r = map_sum ConfigRaised id r"

definition audience_values :: "(pyval \<Rightarrow> string) \<Rightarrow> pyval \<Rightarrow> string list" where
  "audience_values repr v = (case v of PList xs \<Rightarrow> map (py_str repr) xs | _ \<Rightarrow> [py_str repr v])"

definition algorithm_values :: "(pyval \<Rightarrow> string) \<Rightarrow> pyval \<Rightarrow> (authz_error, string list) result" where
  "algorithm_values repr v =
     (if \<not> py_truthy v then Inr [''RS256'']
      else (case v of PStr s \<Rightarrow> Inr [s] | _ \<Rightarrow> map_sum id (map (py_str repr)) (py_iter v)))"

definition opt_string :: "string \<Rightarrow> pyval \<Rightarrow> (config_error, string option) result" where
  "opt_string field v = (case v of PNone \<Rightarrow> Inr None | PStr s \<Rightarrow> Inr (Some s) | _ \<Rightarrow> Inl (Unchecked field))"

definition separator_value :: "pyval \<Rightarrow> (config_error, char option) result" where
  "separator_value v =
     (case v of PNone \<Rightarrow> Inr None | PStr [c] \<Rightarrow> Inr (Some c) | _ \<Rightarrow> Inl (Unchecked ''scope_separator''))"

fun string_items :: "pydict \<Rightarrow> (config_error, (string, string) dict) result" where
  "string_items [] = Inr []"
| "string_items ((k, v) # d) =
     (case v of PStr s \<Rightarrow> res_bind (string_items d) (\<lambda>rest. Inr ((k, s) # rest)) | _ \<Rightarrow> Inl (Unchecked ''scope_map''))"

definition scope_map_value :: "pyval \<Rightarrow> (config_error, (string, string) dict) result" where
  "scope_map_value v = res_bind (config_raise (dict_of (py_or v (PDict [])))) string_items"

definition build_issuer :: "(pyval \<Rightarrow> string) \<Rightarrow> pydict \<Rightarrow> (config_error, issuer_config) result" where
  "build_issuer repr entry =
     (let issuer = py_get entry ''issuer''; audience = py_get entry ''audience'' in
      case issuer of
        PStr i \<Rightarrow>
          if i = '''' then Inl OAuthConfigError
          else if audience = PNone then Inl OAuthConfigError
          else
            res_bind (config_raise (algorithm_values repr (py_get entry ''algorithms''))) (\<lambda>algorithms.
            res_bind (opt_string ''jwks_url'' (py_get entry ''jwks_url'')) (\<lambda>url.
            res_bind (config_raise (int_of (dict_get_default entry ''leeway_seconds'' (PInt 30)))) (\<lambda>leeway.
            res_bind (separator_value (dict_get_default entry ''scope_separator'' (PStr '' ''))) (\<lambda>separator.
            res_bind (scope_map_value (py_get entry ''scope_map'')) (\<lambda>scopes.
            res_bind (opt_string ''tenant_claim'' (dict_get_default entry ''tenant_claim'' (PStr ''tid''))) (\<lambda>claim.
            Inr \<lparr>ic_issuer = i, ic_audience = audience_values repr audience, ic_jwks_url = url,
                 ic_algorithms = algorithms, ic_leeway_seconds = leeway,
                 ic_scope_claim = py_str repr (dict_get_default entry ''scope_claim'' (PStr ''scope'')),
                 ic_scope_separator = separator, ic_scope_map = scopes, ic_tenant_claim = claim,
                 ic_tenant_prefix = py_str repr (dict_get_default entry ''tenant_prefix'' (PStr ''''))\<rparr>))))))
      | _ \<Rightarrow> Inl OAuthConfigError)"

text \<open>\<open>read_file\<close> is \<^verbatim>\<open>Path.read_text\<close> of an existing file, \<open>loads\<close> is \<^verbatim>\<open>json.loads\<close> (\<open>None\<close>: it does not parse).\<close>

definition issuer_source :: "(string \<Rightarrow> string option) \<Rightarrow> settings \<Rightarrow> (config_error, string) result" where
  "issuer_source read_file st =
     (let raw = strip (cfg_oauth_resource_issuers_json st) in
      case cfg_oauth_resource_issuers_file st of
        Some f \<Rightarrow>
          if raw = '''' \<and> f \<noteq> '''' then
            (case read_file f of None \<Rightarrow> Inl OAuthConfigError | Some text \<Rightarrow> Inr (strip text))
          else Inr raw
      | None \<Rightarrow> Inr raw)"

definition load_issuer_configs ::
  "(string \<Rightarrow> string option) \<Rightarrow> (string \<Rightarrow> pyval option) \<Rightarrow> (pyval \<Rightarrow> string) \<Rightarrow> settings \<Rightarrow>
     (config_error, issuer_config list) result" where
  "load_issuer_configs read_file loads repr st =
     res_bind (issuer_source read_file st) (\<lambda>raw.
       if raw = '''' then Inr []
       else (case loads raw of
           Some (PList entries) \<Rightarrow>
             res_map (\<lambda>e. case e of PDict d \<Rightarrow> build_issuer repr d | _ \<Rightarrow> Inl OAuthConfigError) entries
         | _ \<Rightarrow> Inl OAuthConfigError))"

section \<open>The application\<close>

datatype router =
    AuthorizeRouter | ContextRouter | TenantsRouter | ApplicationsRouter | ProvisioningRouter | MembershipsRouter
  | RolesRouter | PermissionsRouter | AgentsRouter | ApiKeysRouter | InvitationsRouter | AdminRouter
  | DelegationsRouter | OAuthAsRouter | OAuthClientsRouter | OAuthAdminRouter

record cors_policy =
  cp_origins :: "string list"
  cp_methods :: "string list"
  cp_headers :: "string list"
  cp_credentials :: bool

definition cors_of :: "settings \<Rightarrow> cors_policy" where
  "cors_of st =
     \<lparr>cp_origins = cfg_cors_allow_origins st,
      cp_methods = (if cfg_dev_mode st then [''*''] else [''GET'', ''POST'', ''PUT'', ''PATCH'', ''DELETE'', ''OPTIONS'']),
      cp_headers = (if cfg_dev_mode st then [''*'']
        else [''Authorization'', ''Content-Type'', ''Idempotency-Key'', ''X-API-Key'', ''X-CSRF-Token'', ''X-Request-Id'']),
      cp_credentials = admin_oidc_is_enabled st\<rparr>"

definition routers_of :: "settings \<Rightarrow> router list" where
  "routers_of st =
     [AuthorizeRouter, ContextRouter, TenantsRouter, ApplicationsRouter, ProvisioningRouter, MembershipsRouter,
      RolesRouter, PermissionsRouter, AgentsRouter, ApiKeysRouter, InvitationsRouter, AdminRouter, DelegationsRouter] @
     (if cfg_oauth_as_enabled st then [OAuthAsRouter, OAuthClientsRouter] else []) @
     (if admin_oidc_is_enabled st then [OAuthAdminRouter] else [])"

text \<open>The layers a request passes, the outermost first: Starlette runs the middleware added last first.\<close>

datatype middleware_layer = CorsLayer | IdempotencyLayer | RateLimitLayer | RequestContextLayer

record application_parts =
  ap_middlewares :: "middleware_layer list"
  ap_limiter :: limiter_backend
  ap_replay :: idempotency_backend
  ap_cors :: cors_policy
  ap_routers :: "router list"

definition create_app ::
  "settings \<Rightarrow> bool \<Rightarrow> redis_hashes \<Rightarrow> (startup_error, application_parts) result" where
  "create_app st redis_installed server =
     res_bind (enforce_startup_safety st) (\<lambda>_.
       Inr \<lparr>ap_middlewares = [CorsLayer, IdempotencyLayer, RateLimitLayer, RequestContextLayer],
            ap_limiter = build_rate_limiter (cfg_rate_limit_per_minute st) (cfg_redis_url st) redis_installed,
            ap_replay = build_idempotency_store (cfg_redis_url st) redis_installed server,
            ap_cors = cors_of st, ap_routers = routers_of st\<rparr>)"

text \<open>The meta endpoints; \<open>probe\<close> is the result of \<^verbatim>\<open>SELECT 1\<close> (an error has its text).\<close>

definition healthz :: "string option \<Rightarrow> nat \<times> pydict" where
  "healthz probe =
     (case probe of
        None \<Rightarrow> (200, [(''status'', PStr ''ok''), (''database'', PStr ''ok'')])
      | Some e \<Rightarrow> (503, [(''status'', PStr ''degraded''), (''database'', PStr (''error: '' @ e))]))"

definition readyz :: "string option \<Rightarrow> (http_error, pydict) result" where
  "readyz probe = (case probe of None \<Rightarrow> Inr [(''status'', PStr ''ready'')] | Some _ \<Rightarrow> Inl InternalError)"

definition root_document :: "settings \<Rightarrow> pydict" where
  "root_document st =
     [(''service'', PStr ''authz''), (''version'', PStr ''0.2.0''),
      (''endpoints'', PList (map PStr
        ([''/v1/resolve-context'', ''/v1/authorize'', ''/v1/bulk-authorize'', ''/v1/effective-permissions'',
          ''/healthz'', ''/readyz'', ''/metrics'', ''/admin''] @
         (if cfg_oauth_as_enabled st
          then [''/oauth/token'', ''/.well-known/oauth-authorization-server'', ''/.well-known/jwks.json''] else []) @
         (if admin_oidc_is_enabled st
          then [''/oauth/login'', ''/oauth/callback'', ''/oauth/logout'', ''/admin/session''] else []))))]"

section \<open>Workers\<close>

record app_workers =
  aw_retention :: "worker option"
  aw_sessions :: "worker option"
  aw_signing_keys :: "worker option"

definition no_workers :: app_workers where
  "no_workers = \<lparr>aw_retention = None, aw_sessions = None, aw_signing_keys = None\<rparr>"

definition start_workers :: "settings \<Rightarrow> app_workers" where
  "start_workers st =
     \<lparr>aw_retention = (if 0 < cfg_audit_retention_days st
        then Some (retention_start (cfg_audit_retention_days st) (worker_init (cfg_audit_prune_interval_seconds st)))
        else None),
      aw_sessions = (if admin_oidc_is_enabled st then Some (worker_start (worker_init 3600)) else None),
      aw_signing_keys = (if cfg_oauth_as_enabled st then Some (worker_start (worker_init 3600)) else None)\<rparr>"

definition stop_workers :: "app_workers \<Rightarrow> app_workers" where
  "stop_workers w =
     \<lparr>aw_retention = map_option worker_stop (aw_retention w), aw_sessions = map_option worker_stop (aw_sessions w),
      aw_signing_keys = map_option worker_stop (aw_signing_keys w)\<rparr>"

section \<open>Lemmas\<close>

lemma build_issuer_Inr:
  assumes "build_issuer repr d = Inr c"
  shows "ic_issuer c \<noteq> '''' \<and> dict_get d ''issuer'' = Some (PStr (ic_issuer c)) \<and>
    (\<exists>a. dict_get d ''audience'' = Some a \<and> a \<noteq> PNone \<and> ic_audience c = audience_values repr a)"
proof -
  obtain i where i: "py_get d ''issuer'' = PStr i" "i \<noteq> ''''" "ic_issuer c = i"
    and a: "py_get d ''audience'' \<noteq> PNone" "ic_audience c = audience_values repr (py_get d ''audience'')"
    using assms
    by (auto simp: build_issuer_def Let_def res_bind_eq_Inr split: pyval.splits if_splits)
  have g: "dict_get d k = Some (py_get d k)" if "py_get d k \<noteq> PNone" for k
    using that by (simp add: py_get_def split: option.splits)
  show ?thesis using i a g [of "''issuer''"] g [of "''audience''"] by simp
qed

text \<open>The objects of the configuration, one for each issuer loaded.\<close>

lemma load_issuer_configs_Inr:
  assumes "load_issuer_configs read_file loads repr st = Inr cs" "c \<in> set cs"
  shows "\<exists>raw entries d. issuer_source read_file st = Inr raw \<and> loads raw = Some (PList entries) \<and>
    PDict d \<in> set entries \<and> build_issuer repr d = Inr c"
proof -
  let ?b = "\<lambda>e. case e of PDict d \<Rightarrow> build_issuer repr d | _ \<Rightarrow> Inl OAuthConfigError"
  obtain raw entries where r: "issuer_source read_file st = Inr raw" "loads raw = Some (PList entries)"
    and m: "res_map ?b entries = Inr cs"
    using assms by (auto simp: load_issuer_configs_def res_bind_eq_Inr split: if_splits option.splits pyval.splits)
  obtain k where k: "k < length cs" "cs ! k = c" using assms(2) by (auto simp: in_set_conv_nth)
  have "?b (entries ! k) = Inr c" using res_map_nth [OF m] res_map_length [OF m] k by auto
  then obtain d where "entries ! k = PDict d" "build_issuer repr d = Inr c" by (auto split: pyval.splits)
  moreover have "entries ! k \<in> set entries" using k(1) res_map_length [OF m] by simp
  ultimately show ?thesis using r by metis
qed

lemma fold_dict_set_get:
  "dict_get (fold (\<lambda>c d. dict_set (f c) c d) cs d0) k = Some c \<Longrightarrow> (c \<in> set cs \<and> f c = k) \<or> dict_get d0 k = Some c"
proof (induction cs arbitrary: d0)
  case (Cons x cs)
  then show ?case by (fastforce simp: dict_get_set split: if_splits)
qed simp

lemma build_jwt_resolver_configs:
  assumes "build_jwt_resolver st issuers keys = Inr (Some jr)"
  shows "\<exists>cs. jr_configs jr = fold (\<lambda>c d. dict_set (ic_issuer c) c d) cs [] \<and>
    set cs \<subseteq> set issuers \<union> (if cfg_oauth_as_enabled st \<and> cfg_oauth_issuer st \<noteq> '''' then {self_config st} else {})"
proof -
  let ?on = "cfg_oauth_as_enabled st \<and> cfg_oauth_issuer st \<noteq> ''''"
  let ?cs = "if ?on \<and> \<not> list_ex (\<lambda>c. ic_issuer c = cfg_oauth_issuer st) issuers then issuers @ [self_config st] else issuers"
  have "\<exists>ttl self ks. jwt_resolver_init ?cs ttl self ks = Inr jr"
    using assms
    by (cases ?on; cases "list_ex (\<lambda>c. ic_issuer c = cfg_oauth_issuer st) issuers")
      (auto simp: build_jwt_resolver_def self_config_def token_audience_def Let_def res_bind_eq_Inr split: if_splits)
  then have "jr_configs jr = fold (\<lambda>c d. dict_set (ic_issuer c) c d) ?cs []"
    by (auto simp: jwt_resolver_init_def split: if_splits)
  then show ?thesis by (rule exI [of _ ?cs, OF conjI]) auto
qed

text \<open>The switch \<^verbatim>\<open>AUTHZ_OAUTH_RESOURCE_ENABLED\<close> has no part in what is loaded.\<close>

lemma resource_switch_ignored:
  "load_issuer_configs read_file loads repr (st\<lparr>cfg_oauth_resource_enabled := v\<rparr>) =
     load_issuer_configs read_file loads repr st \<and>
   build_jwt_resolver (st\<lparr>cfg_oauth_resource_enabled := v\<rparr>) issuers keys = build_jwt_resolver st issuers keys"
  by (simp add: load_issuer_configs_def issuer_source_def build_jwt_resolver_def)

section \<open>Properties\<close>

text \<open>C23: a bearer token is only ever accepted from an issuer the operator named. The issuer of an accepted
  token, in any later state of the resolver built at the start, is the one of an object of the configured JSON
  array that has an audience as well, or it is this service's own when the authorization server is on.\<close>

theorem trusted_issuers:
  assumes "load_issuer_configs read_file loads repr st = Inr issuers"
    and "build_jwt_resolver st issuers keys = Inr (Some jr)" and "jr_configs jr' = jr_configs jr"
    and "fst (resolve_token repr lib http_get hash rsa now jr' net token) = Inr p"
  shows "(\<exists>raw entries d a. issuer_source read_file st = Inr raw \<and> loads raw = Some (PList entries) \<and>
       PDict d \<in> set entries \<and> dict_get d ''issuer'' = Some (PStr (tp_issuer p)) \<and> tp_issuer p \<noteq> '''' \<and>
       dict_get d ''audience'' = Some a \<and> a \<noteq> PNone) \<or>
    cfg_oauth_as_enabled st \<and> tp_issuer p = cfg_oauth_issuer st \<and> cfg_oauth_issuer st \<noteq> ''''"
proof -
  obtain jr2 net2 where "resolve_token repr lib http_get hash rsa now jr' net token = (Inr p, jr2, net2)"
    using assms(4) by (metis prod.collapse)
  from resolve_token_Inr [OF this] obtain config claims i where
    c: "dict_get (jr_configs jr) i = Some config" and p: "tp_issuer p = ic_issuer config"
    unfolding assms(3) by (auto simp: token_to_principal_def Let_def)
  from build_jwt_resolver_configs [OF assms(2)] obtain cs where
    "jr_configs jr = fold (\<lambda>c d. dict_set (ic_issuer c) c d) cs []"
    and own: "set cs \<subseteq> set issuers \<union> (if cfg_oauth_as_enabled st \<and> cfg_oauth_issuer st \<noteq> '''' then {self_config st} else {})"
    by blast
  then have "config \<in> set cs" using c fold_dict_set_get [of ic_issuer cs "[]" i config] by auto
  then consider "config \<in> set issuers" | "cfg_oauth_as_enabled st" "cfg_oauth_issuer st \<noteq> ''''" "config = self_config st"
    using own by (auto split: if_splits)
  then show ?thesis
  proof cases
    case 1
    from load_issuer_configs_Inr [OF assms(1) this] obtain raw entries d where
      l: "issuer_source read_file st = Inr raw" "loads raw = Some (PList entries)" "PDict d \<in> set entries"
      and b: "build_issuer repr d = Inr config" by blast
    from build_issuer_Inr [OF b] obtain a where
      "dict_get d ''issuer'' = Some (PStr (tp_issuer p))" "tp_issuer p \<noteq> ''''" "dict_get d ''audience'' = Some a"
      "a \<noteq> PNone" unfolding p by blast
    with l have "\<exists>raw entries d a. issuer_source read_file st = Inr raw \<and> loads raw = Some (PList entries) \<and>
      PDict d \<in> set entries \<and> dict_get d ''issuer'' = Some (PStr (tp_issuer p)) \<and> tp_issuer p \<noteq> '''' \<and>
      dict_get d ''audience'' = Some a \<and> a \<noteq> PNone" by blast
    then show ?thesis by (rule disjI1)
  next
    case 2
    then show ?thesis using p by (simp add: self_config_def)
  qed
qed

text \<open>The witness has the switch off: the issuer of the array is trusted all the same.\<close>

definition iss_entry :: pydict where
  "iss_entry = [(''issuer'', PStr ''iss''), (''audience'', PStr ''api''), (''scope_map'', PDict [(''AuthZ.Admin'', PStr ''admin'')])]"

theorem trusted_issuers_witness:
  "\<exists>st issuers jr p. cfg_oauth_resource_enabled st = ''false'' \<and> \<not> oauth_resource_is_enabled st \<and>
     load_issuer_configs (\<lambda>_. None) (\<lambda>_. Some (PList [PDict iss_entry])) (\<lambda>_. []) st = Inr issuers \<and>
     build_jwt_resolver st issuers sample_service = Inr (Some jr) \<and> jr_configs sample_resolver = jr_configs jr \<and>
     fst (resolve_token (\<lambda>_. []) plain_lib (\<lambda>net _. (None, net)) (\<lambda>x. x) (\<lambda>_. Inl PemError) 5 sample_resolver () sample_token) = Inr p \<and>
     dict_get iss_entry ''issuer'' = Some (PStr (tp_issuer p))"
proof -
  obtain st0 where "load_settings [] = Inr st0" using load_defaults by blast
  define st where "st = st0\<lparr>cfg_oauth_resource_enabled := ''false'', cfg_oauth_resource_issuers_json := ''J'',
    cfg_oauth_resource_issuers_file := None, cfg_oauth_as_enabled := False\<rparr>"
  have off: "cfg_oauth_resource_enabled st = ''false''" "\<not> oauth_resource_is_enabled st"
    by (simp_all add: st_def oauth_resource_is_enabled_def lower_def lower_char_def Let_def)
  have l: "load_issuer_configs (\<lambda>_. None) (\<lambda>_. Some (PList [PDict iss_entry])) (\<lambda>_. []) st = Inr [sample_issuer]"
    by (simp add: load_issuer_configs_def issuer_source_def st_def strip_def is_space_def iss_entry_def build_issuer_def py_get_def
        algorithm_values_def config_raise_def opt_string_def int_of_def dict_get_default_def separator_value_def
        scope_map_value_def dict_of_def py_or_def audience_values_def sample_issuer_def Let_def)
  obtain jr where b: "build_jwt_resolver st [sample_issuer] sample_service = Inr (Some jr)"
    and j: "jr_configs sample_resolver = jr_configs jr"
    by (atomize_elim, simp add: build_jwt_resolver_def jwt_resolver_init_def st_def sample_resolver_def sample_issuer_def Let_def)
  obtain p where r: "fst (resolve_token (\<lambda>_. []) plain_lib (\<lambda>net _. (None, net)) (\<lambda>x. x) (\<lambda>_. Inl PemError) 5 sample_resolver ()
      sample_token) = Inr p" using sample_token_resolves by (metis fst_conv)
  from trusted_issuers [OF l b j r] have "dict_get iss_entry ''issuer'' = Some (PStr (tp_issuer p))"
    by (auto simp: st_def)
  then show ?thesis using off l b j r by blast
qed

end
