(* ===== verification/Admin_Login.thy ===== *)
theory Admin_Login
  imports OAuth_Token
begin

text \<open>
  The admin login of \<^verbatim>\<open>authz_service/api/oauth.py\<close>: \<^verbatim>\<open>/oauth/login\<close>, \<^verbatim>\<open>/oauth/callback\<close>, \<^verbatim>\<open>/oauth/logout\<close> and
  \<^verbatim>\<open>/admin/session\<close>, with the caches of the module (discovery documents and validators) as state. The HTTP
  client, the JWT library, SHA-256 and the random tokens are arguments; the monotonic clock of the
  discovery cache and the wall clock are two arguments, in microseconds.
\<close>

section \<open>PKCE and query strings\<close>

definition b64url_char :: "nat \<Rightarrow> char" where
  "b64url_char n =
     (if n < 26 then char_of (n + 65)
      else if n < 52 then char_of (n + 71)
      else if n < 62 then char_of (n - 4)
      else if n = 62 then CHR ''-'' else CHR ''_'')"

text \<open>\<^verbatim>\<open>urlsafe_b64encode(...).rstrip(b"=")\<close>.\<close>

fun b64url_encode :: "string \<Rightarrow> string" where
  "b64url_encode [] = []"
| "b64url_encode [a] = (let x = of_char a :: nat in [b64url_char (x div 4), b64url_char (x mod 4 * 16)])"
| "b64url_encode [a, b] =
     (let x = of_char a :: nat; y = of_char b :: nat in
      [b64url_char (x div 4), b64url_char (x mod 4 * 16 + y div 16), b64url_char (y mod 16 * 4)])"
| "b64url_encode (a # b # c # s) =
     (let x = of_char a :: nat; y = of_char b :: nat; z = of_char c :: nat in
      b64url_char (x div 4) # b64url_char (x mod 4 * 16 + y div 16) # b64url_char (y mod 16 * 4 + z div 64) #
      b64url_char (z mod 64) # b64url_encode s)"

text \<open>The verifier is the random token.\<close>

definition pkce_pair :: "(string \<Rightarrow> string) \<Rightarrow> string \<Rightarrow> string \<times> string" where
  "pkce_pair sha256 verifier = (verifier, b64url_encode (sha256 verifier))"

definition hex_char :: "nat \<Rightarrow> char" where
  "hex_char n = (if n < 10 then char_of (n + 48) else char_of (n + 55))"

definition unreserved :: "char \<Rightarrow> bool" where
  "unreserved c \<longleftrightarrow>
     (let n = of_char c :: nat in
      65 \<le> n \<and> n \<le> 90 \<or> 97 \<le> n \<and> n \<le> 122 \<or> 48 \<le> n \<and> n \<le> 57 \<or> c \<in> {CHR ''_'', CHR ''.'', CHR ''-'', CHR ''~''})"

text \<open>\<^verbatim>\<open>quote_plus\<close> and \<^verbatim>\<open>urlencode\<close> of the standard library.\<close>

definition quote_plus :: "string \<Rightarrow> string" where
  "quote_plus s =
     concat (map (\<lambda>c. if unreserved c then [c] else if c = CHR '' '' then ''+''
       else (let n = of_char c :: nat in [CHR ''%'', hex_char (n div 16), hex_char (n mod 16)])) s)"

definition urlencode :: "(string \<times> string) list \<Rightarrow> string" where
  "urlencode params = join_on CHR ''&'' (map (\<lambda>(k, v). quote_plus k @ ''='' @ quote_plus v) params)"

section \<open>Where a login may return to\<close>

text \<open>\<^verbatim>\<open>urlparse\<close> of a text that begins with a slash (so that it has no scheme): tabs and line ends are removed,
  and two slashes introduce the network location, up to the next delimiter. The validation of a network
  location, which raises \<^verbatim>\<open>ValueError\<close>, is the argument \<open>bad_netloc\<close>.\<close>

definition url_unsafe :: "char set" where
  "url_unsafe = {char_of (9 :: nat), char_of (10 :: nat), char_of (13 :: nat)}"

definition drop_unsafe :: "string \<Rightarrow> string" where
  "drop_unsafe s = filter (\<lambda>c. c \<notin> url_unsafe) s"

definition rooted_netloc :: "(string \<Rightarrow> bool) \<Rightarrow> string \<Rightarrow> (http_error, string) result" where
  "rooted_netloc bad_netloc target =
     (let url = drop_unsafe target in
      if starts_with ''//'' url then
        (let netloc = takeWhile (\<lambda>c. c \<notin> {CHR ''/'', CHR ''?'', CHR ''#''}) (drop 2 url) in
         if bad_netloc netloc then Inl InternalError else Inr netloc)
      else Inr '''')"

definition is_safe_return_to :: "(string \<Rightarrow> bool) \<Rightarrow> string \<Rightarrow> (http_error, bool) result" where
  "is_safe_return_to bad_netloc target =
     (if target = '''' \<or> \<not> starts_with ''/'' target then Inr False
      else if starts_with ''//'' target \<or> starts_with [CHR ''/'', CHR 0x5C] target then Inr False
      else res_bind (rooted_netloc bad_netloc target) (\<lambda>netloc. Inr (netloc = '''')))"

section \<open>Discovery\<close>

record 'net login_state =
  ls_sessions :: session_tables
  ls_discovery :: "(string, pydict \<times> instant) dict"
  ls_validators :: "(string \<times> string, jwt_validator) dict"
  ls_net :: 'net

text \<open>What the login uses outside the repository. A value bound to a text column is what the driver makes of
  it, if it accepts it.\<close>

record ('key, 'net) oidc_env =
  oe_get :: "'net http_get"
  oe_post :: "'net \<Rightarrow> string \<Rightarrow> (string \<times> string) list \<Rightarrow> http_response option \<times> 'net"
  oe_lib :: "(pyval, 'key) jwt_lib"
  oe_sha256 :: "string \<Rightarrow> string"
  oe_repr :: "pyval \<Rightarrow> string"
  oe_bad_netloc :: "string \<Rightarrow> bool"
  oe_text :: "pyval \<Rightarrow> string option option"

definition oidc_fetch ::
  "('key, 'net) oidc_env \<Rightarrow> instant \<Rightarrow> string \<Rightarrow> 'net login_state \<Rightarrow> (http_error, pydict) result \<times> 'net login_state" where
  "oidc_fetch env clock issuer s =
     (case oe_get env (ls_net s) (rstrip_slash issuer @ ''/.well-known/openid-configuration'') of
        (None, net) \<Rightarrow> (Inl InternalError, s\<lparr>ls_net := net\<rparr>)
      | (Some resp, net) \<Rightarrow>
          if 400 \<le> http_status resp then (Inl (HTTPException 502 ''oidc_discovery_failed''), s\<lparr>ls_net := net\<rparr>)
          else (case http_json resp of
                  None \<Rightarrow> (Inl InternalError, s\<lparr>ls_net := net\<rparr>)
                | Some (PDict doc) \<Rightarrow>
                    (Inr doc, s\<lparr>ls_net := net,
                       ls_discovery := dict_set issuer (doc, clock + 3600000000) (ls_discovery s)\<rparr>)
                | Some _ \<Rightarrow> (Inl (HTTPException 502 ''oidc_discovery_invalid''), s\<lparr>ls_net := net\<rparr>)))"

definition oidc_discover ::
  "('key, 'net) oidc_env \<Rightarrow> instant \<Rightarrow> string \<Rightarrow> 'net login_state \<Rightarrow> (http_error, pydict) result \<times> 'net login_state" where
  "oidc_discover env clock issuer s =
     (case dict_get (ls_discovery s) issuer of
        Some (doc, until) \<Rightarrow> if clock < until then (Inr doc, s) else oidc_fetch env clock issuer s
      | None \<Rightarrow> oidc_fetch env clock issuer s)"

section \<open>GET /oauth/login\<close>

definition admin_oidc_configured :: "settings \<Rightarrow> bool" where
  "admin_oidc_configured st \<longleftrightarrow>
     cfg_admin_oidc_issuer st \<noteq> '''' \<and> cfg_admin_oidc_client_id st \<noteq> '''' \<and>
     cfg_admin_oidc_client_secret st \<noteq> '''' \<and> cfg_admin_oidc_redirect_uri st \<noteq> ''''"

record cookie =
  ck_name :: string
  ck_value :: string
  ck_max_age :: int
  ck_secure :: bool

record redirect =
  rd_location :: string
  rd_cookies :: "cookie list"
  rd_deleted :: "string list"

definition LOGIN_COOKIE_NAME :: string where
  "LOGIN_COOKIE_NAME = ''authz_login_id''"

text \<open>The random tokens of one login: state, nonce, verifier and the id of the attempt.\<close>

record login_tokens =
  lt_state :: string
  lt_nonce :: string
  lt_verifier :: string
  lt_cookie_id :: string

definition login_params :: "settings \<Rightarrow> login_tokens \<Rightarrow> string \<Rightarrow> (string \<times> string) list" where
  "login_params st tk challenge =
     [(''response_type'', ''code''), (''client_id'', cfg_admin_oidc_client_id st),
      (''redirect_uri'', cfg_admin_oidc_redirect_uri st), (''scope'', cfg_admin_oidc_scopes st),
      (''state'', lt_state tk), (''nonce'', lt_nonce tk), (''code_challenge'', challenge),
      (''code_challenge_method'', ''S256'')]"

text \<open>The endpoint a discovery document names, printed into the URL; the attempt lives ten minutes.\<close>

definition start_login ::
  "('key, 'net) oidc_env \<Rightarrow> settings \<Rightarrow> instant \<Rightarrow> login_tokens \<Rightarrow> string \<Rightarrow> pyval \<Rightarrow> 'net login_state \<Rightarrow>
     (http_error, redirect) result \<times> 'net login_state" where
  "start_login env st now tk return_to auth_url s =
     (let (verifier, challenge) = pkce_pair (oe_sha256 env) (lt_verifier tk) in
      case create_login_attempt (ls_sessions s) 600000000 now (lt_cookie_id tk) (lt_state tk) verifier (lt_nonce tk)
             return_to of
        Inl _ \<Rightarrow> (Inl InternalError, s)
      | Inr (a, ss) \<Rightarrow>
          (Inr \<lparr>rd_location = py_str (oe_repr env) auth_url @ ''?'' @ urlencode (login_params st tk challenge),
               rd_cookies = [\<lparr>ck_name = LOGIN_COOKIE_NAME, ck_value = la_id a, ck_max_age = 600,
                              ck_secure = (\<not> cfg_dev_mode st)\<rparr>],
               rd_deleted = []\<rparr>, s\<lparr>ls_sessions := ss\<rparr>))"

definition oidc_login ::
  "('key, 'net) oidc_env \<Rightarrow> settings \<Rightarrow> instant \<Rightarrow> instant \<Rightarrow> login_tokens \<Rightarrow> string \<Rightarrow> 'net login_state \<Rightarrow>
     (http_error, redirect) result \<times> 'net login_state" where
  "oidc_login env st clock now tk return_to s =
     (if \<not> admin_oidc_configured st then (Inl (HTTPException 503 ''admin_oidc_not_configured''), s)
      else (case is_safe_return_to (oe_bad_netloc env) return_to of
         Inl e \<Rightarrow> (Inl e, s)
       | Inr safe \<Rightarrow>
           (let target = (if safe then return_to else ''/admin/'') in
            case oidc_discover env clock (cfg_admin_oidc_issuer st) s of
              (Inl e, s') \<Rightarrow> (Inl e, s')
            | (Inr doc, s') \<Rightarrow>
                (let auth_url = py_get doc ''authorization_endpoint'' in
                 if \<not> py_truthy auth_url then (Inl (HTTPException 502 ''no_authorization_endpoint''), s')
                 else start_login env st now tk target auth_url s'))))"

section \<open>GET /oauth/callback\<close>

text \<open>\<^verbatim>\<open>_exchange_code\<close>: the token endpoint is the text the request is sent to.\<close>

definition exchange_code ::
  "('key, 'net) oidc_env \<Rightarrow> settings \<Rightarrow> string \<Rightarrow> string \<Rightarrow> string \<Rightarrow> 'net login_state \<Rightarrow>
     (http_error, pydict) result \<times> 'net login_state" where
  "exchange_code env st token_url code verifier s =
     (case oe_post env (ls_net s) token_url
             [(''grant_type'', ''authorization_code''), (''code'', code),
              (''redirect_uri'', cfg_admin_oidc_redirect_uri st), (''client_id'', cfg_admin_oidc_client_id st),
              (''client_secret'', cfg_admin_oidc_client_secret st), (''code_verifier'', verifier)] of
        (None, net) \<Rightarrow> (Inl InternalError, s\<lparr>ls_net := net\<rparr>)
      | (Some resp, net) \<Rightarrow>
          (if 400 \<le> http_status resp then Inl (HTTPException 400 ''token_exchange_failed'')
           else (case http_json resp of
                   None \<Rightarrow> Inl InternalError
                 | Some (PDict d) \<Rightarrow> Inr d
                 | Some _ \<Rightarrow> Inl (HTTPException 502 ''token_exchange_invalid'')),
           s\<lparr>ls_net := net\<rparr>))"

definition admin_validator :: "string \<Rightarrow> string \<Rightarrow> (string \<times> string, jwt_validator) dict \<Rightarrow> jwt_validator" where
  "admin_validator issuer audience cache =
     (case dict_get cache (issuer, audience) of
        Some v \<Rightarrow> v
      | None \<Rightarrow> jwt_validator_init
          [\<lparr>jc_issuer = issuer, jc_audience = Some [audience], jc_jwks_url = None,
            jc_algorithms = [''RS256'', ''ES256''], jc_leeway_seconds = 30\<rparr>] 600000000)"

definition validate_admin_id_token ::
  "('key, 'net) oidc_env \<Rightarrow> settings \<Rightarrow> instant \<Rightarrow> pyval \<Rightarrow> string \<Rightarrow> 'net login_state \<Rightarrow>
     (http_error, pydict) result \<times> 'net login_state" where
  "validate_admin_id_token env st now id_token nonce s =
     (let issuer = cfg_admin_oidc_issuer st; audience = cfg_admin_oidc_client_id st in
      case validate (oe_lib env) (oe_get env) now (admin_validator issuer audience (ls_validators s)) (ls_net s)
             id_token (Some issuer) of
        (r, v, net) \<Rightarrow>
          (case r of
             Inl JWTValidationError \<Rightarrow> Inl (HTTPException 400 ''invalid_id_token'')
           | Inl _ \<Rightarrow> Inl InternalError
           | Inr claims \<Rightarrow>
               if py_get claims ''nonce'' \<noteq> PStr nonce then Inl (HTTPException 400 ''nonce_mismatch'') else Inr claims,
           s\<lparr>ls_net := net, ls_validators := dict_set (issuer, audience) v (ls_validators s)\<rparr>))"

text \<open>\<^verbatim>\<open>any(g in admin_groups for g in raw_groups)\<close>: a list or a mapping in a set raises, as does iterating over a
  number.\<close>

definition in_admin_groups :: "string list \<Rightarrow> pyval \<Rightarrow> (http_error, bool) result" where
  "in_admin_groups groups g =
     (case g of
        PStr s \<Rightarrow> Inr (s \<in> set groups)
      | PList _ \<Rightarrow> Inl InternalError
      | PDict _ \<Rightarrow> Inl InternalError
      | _ \<Rightarrow> Inr False)"

definition any_admin_group :: "string list \<Rightarrow> pyval \<Rightarrow> (http_error, bool) result" where
  "any_admin_group groups raw =
     (case raw of
        PStr s \<Rightarrow> Inr (s \<noteq> '''' \<and> s \<in> set groups)
      | PList gs \<Rightarrow> res_any (in_admin_groups groups) gs
      | PDict d \<Rightarrow> Inr (list_ex (\<lambda>(k, _). k \<in> set groups) d)
      | PNone \<Rightarrow> Inr False
      | v \<Rightarrow> if py_truthy v then Inl InternalError else Inr False)"

definition admin_scopes_from_claims :: "pydict \<Rightarrow> settings \<Rightarrow> (http_error, string list) result" where
  "admin_scopes_from_claims claims st =
     res_bind (any_admin_group (cfg_admin_oidc_admin_groups st) (py_get claims (cfg_admin_oidc_groups_claim st)))
       (\<lambda>member. if member then Inr [SCOPE_ADMIN]
          else (let email = py_get claims ''email'' in
                if py_truthy email \<and> py_get claims ''email_verified'' = PBool True then
                  (case email of
                     PStr e \<Rightarrow>
                       Inr (if lower e \<in> set (map lower (cfg_admin_oidc_email_allowlist st)) then [SCOPE_ADMIN] else [])
                   | _ \<Rightarrow> Inl InternalError)
                else Inr []))"

definition finish_login ::
  "('key, 'net) oidc_env \<Rightarrow> settings \<Rightarrow> instant \<Rightarrow> string \<Rightarrow> string \<Rightarrow> login_attempt \<Rightarrow> pydict \<Rightarrow> string list \<Rightarrow>
     'net login_state \<Rightarrow> (http_error, redirect) result \<times> 'net login_state" where
  "finish_login env st now sid csrf attempt claims scopes s =
     (case oe_text env (py_get claims ''email'') of
        None \<Rightarrow> (Inl InternalError, s)
      | Some email \<Rightarrow>
          (case create_session (ls_sessions s) (1000000 * cfg_admin_oidc_session_ttl_seconds st) now sid csrf
                  (py_str (oe_repr env) (case dict_get claims ''sub'' of None \<Rightarrow> PStr '''' | Some v \<Rightarrow> v))
                  email (cfg_admin_oidc_issuer st) scopes claims of
             Inl _ \<Rightarrow> (Inl InternalError, s)
           | Inr (session, ss) \<Rightarrow>
               (Inr \<lparr>rd_location = la_return_to attempt,
                    rd_cookies = [\<lparr>ck_name = SESSION_COOKIE_NAME, ck_value = as_id session,
                                   ck_max_age = cfg_admin_oidc_session_ttl_seconds st,
                                   ck_secure = (\<not> cfg_dev_mode st)\<rparr>],
                    rd_deleted = [LOGIN_COOKIE_NAME]\<rparr>, s\<lparr>ls_sessions := ss\<rparr>)))"

record callback_query =
  cq_code :: "string option"
  cq_state :: "string option"
  cq_error :: "string option"

text \<open>The part of the callback after the attempt was consumed.\<close>

definition complete_callback ::
  "('key, 'net) oidc_env \<Rightarrow> settings \<Rightarrow> instant \<Rightarrow> instant \<Rightarrow> string \<Rightarrow> string \<Rightarrow> string \<Rightarrow> login_attempt \<Rightarrow>
     'net login_state \<Rightarrow> (http_error, redirect) result \<times> 'net login_state" where
  "complete_callback env st clock now sid csrf code attempt s =
     (case oidc_discover env clock (cfg_admin_oidc_issuer st) s of
        (Inl e, s1) \<Rightarrow> (Inl e, s1)
      | (Inr doc, s1) \<Rightarrow>
          (let token_url = py_get doc ''token_endpoint'' in
           if \<not> py_truthy token_url then (Inl (HTTPException 502 ''no_token_endpoint''), s1)
           else (case exchange_code env st (py_str (oe_repr env) token_url) code (la_code_verifier attempt) s1 of
              (Inl e, s2) \<Rightarrow> (Inl e, s2)
            | (Inr tokens, s2) \<Rightarrow>
                (let id_token = py_get tokens ''id_token'' in
                 if \<not> py_truthy id_token then (Inl (HTTPException 502 ''no_id_token''), s2)
                 else (case validate_admin_id_token env st now id_token (la_nonce attempt) s2 of
                    (Inl e, s3) \<Rightarrow> (Inl e, s3)
                  | (Inr claims, s3) \<Rightarrow>
                      (case admin_scopes_from_claims claims st of
                         Inl e \<Rightarrow> (Inl e, s3)
                       | Inr scopes \<Rightarrow>
                           if scopes = [] then (Inl (HTTPException 403 ''admin_access_denied''), s3)
                           else finish_login env st now sid csrf attempt claims scopes s3))))))"

definition oidc_callback ::
  "('key, 'net) oidc_env \<Rightarrow> settings \<Rightarrow> instant \<Rightarrow> instant \<Rightarrow> string \<Rightarrow> string \<Rightarrow> http_request \<Rightarrow> callback_query \<Rightarrow>
     'net login_state \<Rightarrow> (http_error, redirect) result \<times> 'net login_state" where
  "oidc_callback env st clock now sid csrf rq q s =
     (if \<not> admin_oidc_configured st then (Inl (HTTPException 503 ''admin_oidc_not_configured''), s)
      else if truthy_str (cq_error q) then (Inl (HTTPException 400 (the (cq_error q))), s)
      else if \<not> truthy_str (cq_code q) \<or> \<not> truthy_str (cq_state q)
      then (Inl (HTTPException 400 ''missing_code_or_state''), s)
      else (let cookie_id = dict_get (rq_cookies rq) LOGIN_COOKIE_NAME in
        if \<not> truthy_str cookie_id then (Inl (HTTPException 400 ''missing_login_cookie''), s)
        else (case consume_login_attempt (ls_sessions s) now (the cookie_id) (the (cq_state q)) of
           (None, ss) \<Rightarrow> (Inl (HTTPException 400 ''invalid_state''), s\<lparr>ls_sessions := ss\<rparr>)
         | (Some attempt, ss) \<Rightarrow>
             complete_callback env st clock now sid csrf (the (cq_code q)) attempt (s\<lparr>ls_sessions := ss\<rparr>))))"

section \<open>POST /oauth/logout and GET /admin/session\<close>

definition oidc_logout :: "http_request \<Rightarrow> principal \<Rightarrow> session_tables \<Rightarrow> session_tables" where
  "oidc_logout rq p ss =
     (case p of
        Session s \<Rightarrow> snd (delete_session ss (sp_session_id s))
      | _ \<Rightarrow> (case dict_get (rq_cookies rq) SESSION_COOKIE_NAME of
               None \<Rightarrow> ss
             | Some sid \<Rightarrow> if sid = '''' then ss else snd (delete_session ss sid)))"

definition oidc_logout_endpoint ::
  "('key, 'net) auth_env \<Rightarrow> settings \<Rightarrow> instant \<Rightarrow> http_request \<Rightarrow> 'net auth_state \<Rightarrow>
     (http_error, pydict) result \<times> 'net auth_state" where
  "oidc_logout_endpoint env st now rq au =
     (case require_caller env st now rq au of
        (Inl e, au') \<Rightarrow> (Inl e, au')
      | (Inr p, au') \<Rightarrow>
          (Inr [(''status'', PStr ''logged_out'')], au'\<lparr>au_sessions := oidc_logout rq p (au_sessions au')\<rparr>))"

definition session_probe :: "principal \<Rightarrow> pydict" where
  "session_probe p =
     (let scopes = (''scopes'', PList (map PStr (principal_scopes p)));
          admin = (''is_admin'', PBool (principal_allows p SCOPE_ADMIN None)) in
      case p of
        Session s \<Rightarrow>
          [(''authenticated'', PBool True), (''kind'', PStr ''session''), (''subject'', PStr (sp_subject s)),
           (''email'', opt_val (sp_email s)), scopes, (''csrf_token'', PStr (sp_csrf_token s)), admin]
      | KeyPrincipal _ \<Rightarrow> [(''authenticated'', PBool True), (''kind'', PStr ''apikey''), scopes, admin]
      | Token _ \<Rightarrow> [(''authenticated'', PBool True), (''kind'', PStr ''token''), scopes, admin])"

section \<open>Lemmas\<close>

lemma oidc_fetch_frame: "oidc_fetch env clock i s = (r, s') \<Longrightarrow> ls_sessions s' = ls_sessions s"
  by (auto simp: oidc_fetch_def split: prod.splits option.splits if_splits pyval.splits)

lemma oidc_discover_frame: "oidc_discover env clock i s = (r, s') \<Longrightarrow> ls_sessions s' = ls_sessions s"
  by (auto simp: oidc_discover_def split: option.splits prod.splits if_splits dest: oidc_fetch_frame)

lemma exchange_code_frame: "exchange_code env st url c v s = (r, s') \<Longrightarrow> ls_sessions s' = ls_sessions s"
  by (auto simp: exchange_code_def split: prod.splits option.splits)

lemma validate_admin_id_token_frame:
  "validate_admin_id_token env st now t n s = (r, s') \<Longrightarrow> ls_sessions s' = ls_sessions s"
  by (auto simp: validate_admin_id_token_def Let_def split: prod.splits)

lemma validate_admin_id_token_Inr:
  assumes "validate_admin_id_token env st now t n s = (Inr claims, s')"
  shows "py_get claims ''nonce'' = PStr n \<and>
    fst (validate (oe_lib env) (oe_get env) now
      (admin_validator (cfg_admin_oidc_issuer st) (cfg_admin_oidc_client_id st) (ls_validators s)) (ls_net s) t
      (Some (cfg_admin_oidc_issuer st))) = Inr claims"
  using assms
  by (auto simp: validate_admin_id_token_def Let_def split: prod.splits sum.splits jwt_error.splits if_splits)

text \<open>Admin rights come from a group or from a verified, listed email.\<close>

definition group_member :: "settings \<Rightarrow> pydict \<Rightarrow> bool" where
  "group_member st claims \<longleftrightarrow>
     (case py_get claims (cfg_admin_oidc_groups_claim st) of
        PStr s \<Rightarrow> s \<in> set (cfg_admin_oidc_admin_groups st)
      | PList gs \<Rightarrow> \<exists>s. PStr s \<in> set gs \<and> s \<in> set (cfg_admin_oidc_admin_groups st)
      | PDict d \<Rightarrow> \<exists>(k, v) \<in> set d. k \<in> set (cfg_admin_oidc_admin_groups st)
      | _ \<Rightarrow> False)"

definition verified_email :: "settings \<Rightarrow> pydict \<Rightarrow> bool" where
  "verified_email st claims \<longleftrightarrow>
     py_get claims ''email_verified'' = PBool True \<and>
     (\<exists>e a. py_get claims ''email'' = PStr e \<and> e \<noteq> '''' \<and> a \<in> set (cfg_admin_oidc_email_allowlist st) \<and>
        lower e = lower a)"

lemma any_list_group: "res_any (in_admin_groups groups) gs = Inr True \<Longrightarrow> \<exists>s. PStr s \<in> set gs \<and> s \<in> set groups"
  by (induction gs) (auto simp: in_admin_groups_def split: pyval.splits if_splits)

lemma any_admin_group_True: "any_admin_group (cfg_admin_oidc_admin_groups st) (py_get claims (cfg_admin_oidc_groups_claim st)) =
    Inr True \<Longrightarrow> group_member st claims"
  by (auto simp: any_admin_group_def group_member_def list_ex_iff split: pyval.splits if_splits dest: any_list_group)

lemma admin_scopes_from_claims_Inr:
  assumes "admin_scopes_from_claims claims st = Inr scopes" "scopes \<noteq> []"
  shows "scopes = [SCOPE_ADMIN] \<and> (group_member st claims \<or> verified_email st claims)"
proof -
  obtain member where m: "any_admin_group (cfg_admin_oidc_admin_groups st) (py_get claims (cfg_admin_oidc_groups_claim st)) =
      Inr member"
    using assms(1) by (auto simp: admin_scopes_from_claims_def res_bind_eq_Inr)
  show ?thesis
  proof (cases member)
    case True
    then show ?thesis using assms m any_admin_group_True by (simp add: admin_scopes_from_claims_def)
  next
    case False
    then show ?thesis
      using assms m
      by (auto simp: admin_scopes_from_claims_def verified_email_def Let_def split: if_splits pyval.splits)
  qed
qed

lemma consume_attempts:
  assumes "consume_login_attempt ss now cid st = (r, ss')"
  shows "sn_sessions ss' = sn_sessions ss \<and> set (sn_attempts ss') \<subseteq> set (sn_attempts ss) \<and>
    (\<forall>a. r = Some a \<longrightarrow> a \<in> set (sn_attempts ss) \<and> la_id a = cid \<and> la_state a = st \<and> now \<le> la_expires_at a \<and>
       cid \<notin> la_id ` set (sn_attempts ss'))"
  using assms
  by (auto simp: consume_login_attempt_def tbl_delete_def Let_def split: option.splits if_splits dest: tbl_get_Some)

lemma finish_login_Inr:
  assumes "finish_login env st now sid csrf attempt claims scopes s = (Inr rd, s')"
  shows "\<exists>row. sn_sessions (ls_sessions s') = sn_sessions (ls_sessions s) @ [row] \<and> asr_id row = sid \<and>
    asr_csrf_token row = csrf \<and> asr_scopes row = join_on CHR '','' scopes \<and> asr_raw_claims row = claims \<and>
    asr_issuer row = cfg_admin_oidc_issuer st \<and>
    asr_expires_at row = now + 1000000 * cfg_admin_oidc_session_ttl_seconds st \<and>
    sn_attempts (ls_sessions s') = sn_attempts (ls_sessions s) \<and> rd_location rd = la_return_to attempt \<and>
    rd_deleted rd = [LOGIN_COOKIE_NAME] \<and> map ck_value (rd_cookies rd) = [sid]"
  using assms
  by (auto simp: finish_login_def create_session_def res_bind_eq_Inr tbl_insert_Inr Let_def
      split: option.splits sum.splits prod.splits)

lemma finish_login_Inl:
  "finish_login env st now sid csrf attempt claims scopes s = (Inl e, s') \<Longrightarrow> s' = s"
  by (auto simp: finish_login_def split: option.splits sum.splits prod.splits)

lemma complete_callback_Inr:
  assumes "complete_callback env st clock now sid csrf code attempt s = (Inr rd, s')"
  obtains s2 s3 id_token claims scopes where
    "validate_admin_id_token env st now id_token (la_nonce attempt) s2 = (Inr claims, s3)"
    "admin_scopes_from_claims claims st = Inr scopes" "scopes \<noteq> []"
    "finish_login env st now sid csrf attempt claims scopes s3 = (Inr rd, s')" "ls_sessions s3 = ls_sessions s"
proof -
  obtain doc s1 where d: "oidc_discover env clock (cfg_admin_oidc_issuer st) s = (Inr doc, s1)"
    using assms by (auto simp: complete_callback_def split: prod.splits sum.splits)
  note a1 = assms [unfolded complete_callback_def d prod.case sum.case Let_def]
  then have t: "py_truthy (py_get doc ''token_endpoint'')" by (auto split: if_splits)
  note a2 = a1 [simplified t, simplified]
  obtain tokens s2 where e: "exchange_code env st (py_str (oe_repr env) (py_get doc ''token_endpoint'')) code
      (la_code_verifier attempt) s1 = (Inr tokens, s2)"
    using a2 by (auto split: prod.splits sum.splits)
  note a3 = a2 [unfolded e prod.case sum.case]
  then have i: "py_truthy (py_get tokens ''id_token'')" by (auto split: if_splits)
  note a4 = a3 [simplified i, simplified]
  obtain claims s3 where v: "validate_admin_id_token env st now (py_get tokens ''id_token'') (la_nonce attempt) s2 =
      (Inr claims, s3)"
    using a4 by (auto split: prod.splits sum.splits)
  obtain scopes where sc: "admin_scopes_from_claims claims st = Inr scopes" "scopes \<noteq> []"
    and f: "finish_login env st now sid csrf attempt claims scopes s3 = (Inr rd, s')"
    using a4 [unfolded v prod.case sum.case] by (auto split: sum.splits if_splits)
  have "ls_sessions s3 = ls_sessions s"
    using oidc_discover_frame [OF d] exchange_code_frame [OF e] validate_admin_id_token_frame [OF v] by simp
  then show thesis using that v sc f by blast
qed

lemma complete_callback_Inl:
  assumes "complete_callback env st clock now sid csrf code attempt s = (Inl e, s')"
  shows "ls_sessions s' = ls_sessions s"
  using assms
  by (auto simp: complete_callback_def Let_def split: prod.splits sum.splits if_splits
      dest!: oidc_discover_frame exchange_code_frame validate_admin_id_token_frame finish_login_Inl)

lemma oidc_callback_consumed:
  assumes "oidc_callback env st clock now sid csrf rq q s = (r, s')"
  shows "ls_sessions s' = ls_sessions s \<and> (\<exists>e. r = Inl e) \<or>
    (\<exists>cid state o1 ss. dict_get (rq_cookies rq) LOGIN_COOKIE_NAME = Some cid \<and> cq_state q = Some state \<and>
       consume_login_attempt (ls_sessions s) now cid state = (o1, ss) \<and>
       (case o1 of None \<Rightarrow> (\<exists>e. r = Inl e) \<and> ls_sessions s' = ss
        | Some attempt \<Rightarrow>
            complete_callback env st clock now sid csrf (the (cq_code q)) attempt (s\<lparr>ls_sessions := ss\<rparr>) = (r, s')))"
  using assms
  by (auto simp: oidc_callback_def truthy_str_def Let_def split: if_splits option.splits prod.splits)

lemma oidc_callback_attempts:
  assumes "oidc_callback env st clock now sid csrf rq q s = (r, s')"
  shows "set (sn_attempts (ls_sessions s')) \<subseteq> set (sn_attempts (ls_sessions s))"
  using oidc_callback_consumed [OF assms]
proof (elim disjE exE conjE)
  fix cid state o1 ss
  assume c: "consume_login_attempt (ls_sessions s) now cid state = (o1, ss)"
    and k: "case o1 of None \<Rightarrow> (\<exists>e. r = Inl e) \<and> ls_sessions s' = ss
      | Some attempt \<Rightarrow>
          complete_callback env st clock now sid csrf (the (cq_code q)) attempt (s\<lparr>ls_sessions := ss\<rparr>) = (r, s')"
  have "sn_attempts (ls_sessions s') = sn_attempts ss"
  proof (cases o1)
    case (Some attempt)
    then have cc: "complete_callback env st clock now sid csrf (the (cq_code q)) attempt (s\<lparr>ls_sessions := ss\<rparr>) = (r, s')"
      using k by simp
    show ?thesis
    proof (cases r)
      case (Inl e)
      then show ?thesis using complete_callback_Inl cc by fastforce
    next
      case (Inr rd)
      obtain s2 s3 id_token claims scopes where
        f: "finish_login env st now sid csrf attempt claims scopes s3 = (Inr rd, s')"
        and s3: "ls_sessions s3 = ls_sessions (s\<lparr>ls_sessions := ss\<rparr>)"
        by (rule complete_callback_Inr [OF cc [unfolded Inr]]) (rule that; assumption)
      show ?thesis using finish_login_Inr [OF f] s3 by auto
    qed
  qed (use k in simp)
  then show ?thesis using consume_attempts [OF c] by simp
qed simp

lemma oidc_callback_Inr:
  assumes "oidc_callback env st clock now sid csrf rq q s = (Inr rd, s')"
  obtains cid state attempt ss where
    "dict_get (rq_cookies rq) LOGIN_COOKIE_NAME = Some cid" "cq_state q = Some state"
    "consume_login_attempt (ls_sessions s) now cid state = (Some attempt, ss)"
    "complete_callback env st clock now sid csrf (the (cq_code q)) attempt (s\<lparr>ls_sessions := ss\<rparr>) = (Inr rd, s')"
  using oidc_callback_consumed [OF assms] by (auto split: option.splits)

lemma oidc_callback_location:
  assumes "oidc_callback env st clock now sid csrf rq q s = (Inr rd, s')"
  shows "\<exists>attempt \<in> set (sn_attempts (ls_sessions s)). rd_location rd = la_return_to attempt"
proof -
  obtain cid state attempt ss where
    c: "consume_login_attempt (ls_sessions s) now cid state = (Some attempt, ss)"
    and cc: "complete_callback env st clock now sid csrf (the (cq_code q)) attempt (s\<lparr>ls_sessions := ss\<rparr>) = (Inr rd, s')"
    by (rule oidc_callback_Inr [OF assms]) (rule that; assumption)
  from complete_callback_Inr [OF cc] obtain s3 claims scopes where
    f: "finish_login env st now sid csrf attempt claims scopes s3 = (Inr rd, s')" by metis
  have "rd_location rd = la_return_to attempt" using finish_login_Inr [OF f] by blast
  then show ?thesis using consume_attempts [OF c] by blast
qed

section \<open>Properties\<close>


text \<open>A path of this origin: rooted, and neither a second slash nor a backslash follows.\<close>

definition home_path :: "string \<Rightarrow> bool" where
  "home_path t \<longleftrightarrow> starts_with ''/'' t \<and> \<not> starts_with ''//'' t \<and> \<not> starts_with [CHR ''/'', CHR 0x5C] t"

lemma safe_home_path: "is_safe_return_to bad t = Inr True \<Longrightarrow> home_path t"
  by (auto simp: is_safe_return_to_def home_path_def split: if_splits)

lemma admin_home_path: "home_path ''/admin/''"
  by (simp add: home_path_def starts_with_def)

text \<open>The admin login never redirects off this origin. Whatever a login is asked to return to, every
  pending login holds a rooted path that is not protocol-relative (an invariant of logins and callbacks), and
  that is where the callback sends the browser.\<close>

theorem login_return_confined:
  assumes "\<forall>a \<in> set (sn_attempts (ls_sessions s)). home_path (la_return_to a)"
  shows "(oidc_login env st clock now tk return_to s = (r, s1) \<longrightarrow>
       (\<forall>a \<in> set (sn_attempts (ls_sessions s1)). home_path (la_return_to a))) \<and>
    (oidc_callback env st clock now sid csrf rq q s = (r', s2) \<longrightarrow>
       (\<forall>a \<in> set (sn_attempts (ls_sessions s2)). home_path (la_return_to a)) \<and>
       (\<forall>rd. r' = Inr rd \<longrightarrow> home_path (rd_location rd)))"
proof (intro conjI impI)
  assume l: "oidc_login env st clock now tk return_to s = (r, s1)"
  show "\<forall>a \<in> set (sn_attempts (ls_sessions s1)). home_path (la_return_to a)"
  proof (cases "ls_sessions s1 = ls_sessions s")
    case True
    then show ?thesis using assms by simp
  next
    case False
    then obtain safe doc s0 where u: "is_safe_return_to (oe_bad_netloc env) return_to = Inr safe"
      and d: "oidc_discover env clock (cfg_admin_oidc_issuer st) s = (Inr doc, s0)"
      and g: "start_login env st now tk (if safe then return_to else ''/admin/'') (py_get doc ''authorization_endpoint'') s0 =
        (r, s1)"
      using l by (auto simp: oidc_login_def Let_def split: if_splits sum.splits prod.splits dest: oidc_discover_frame)
    have t: "home_path (if safe then return_to else ''/admin/'')" using u safe_home_path admin_home_path by auto
    show ?thesis
      using g t assms oidc_discover_frame [OF d]
      by (auto simp: start_login_def create_login_attempt_def res_bind_eq_Inr tbl_insert_Inr Let_def
          split: prod.splits sum.splits)
  qed
next
  assume c: "oidc_callback env st clock now sid csrf rq q s = (r', s2)"
  show "\<forall>rd. r' = Inr rd \<longrightarrow> home_path (rd_location rd)"
    using oidc_callback_location c assms by fastforce
  show "\<forall>a \<in> set (sn_attempts (ls_sessions s2)). home_path (la_return_to a)"
    using oidc_callback_attempts [OF c] assms by blast
qed

definition login_claims :: pydict where
  "login_claims = [(''sub'', PStr ''u''), (''nonce'', PStr ''n''), (''groups'', PList [PInt 7, PStr ''ops''])]"

definition login_env :: "(unit, unit) oidc_env" where
  "login_env =
     \<lparr>oe_get = (\<lambda>net _. (None, net)),
      oe_post = (\<lambda>net _ _. (Some (Response 200 (Some (PDict [(''id_token'', PStr ''jwt'')]))), net)),
      oe_lib = \<lparr>jl_header = (\<lambda>_. Some [(''kid'', PStr ''k'')]), jl_peek = (\<lambda>_. None), jl_key = (\<lambda>_. Some ()),
        jl_decode = (\<lambda>_ _ _ _ _ _ _. Decoded login_claims)\<rparr>,
      oe_sha256 = (\<lambda>x. x), oe_repr = (\<lambda>_. []), oe_bad_netloc = (\<lambda>_. False),
      oe_text = (\<lambda>v. case v of PStr x \<Rightarrow> Some (Some x) | PNone \<Rightarrow> Some None | _ \<Rightarrow> None)\<rparr>"

definition login_settings :: "settings \<Rightarrow> settings" where
  "login_settings st =
     st\<lparr>cfg_admin_oidc_issuer := ''iss'', cfg_admin_oidc_client_id := ''c'', cfg_admin_oidc_client_secret := ''x'',
        cfg_admin_oidc_redirect_uri := ''r'', cfg_admin_oidc_groups_claim := ''groups'',
        cfg_admin_oidc_admin_groups := [''ops'']\<rparr>"

definition login_world :: "unit login_state" where
  "login_world =
     \<lparr>ls_sessions = \<lparr>sn_attempts = [\<lparr>la_id = ''cid'', la_state = ''s'', la_code_verifier = ''v'', la_nonce = ''n'',
          la_return_to = ''/admin/'', la_expires_at = 9\<rparr>], sn_sessions = []\<rparr>,
      ls_discovery = [(''iss'', ([(''authorization_endpoint'', PStr ''https://idp/auth''),
          (''token_endpoint'', PStr ''https://idp/token'')], 100))],
      ls_validators = [((''iss'', ''c''), sample_validator)], ls_net = ()\<rparr>"

definition callback_request :: http_request where
  "callback_request =
     \<lparr>rq_method = ''GET'', rq_path = ''/oauth/callback'', rq_headers = [], rq_cookies = [(''authz_login_id'', ''cid'')],
      rq_client = None\<rparr>"


text \<open>A tab in front of the second slash passes the check, although a browser drops the tab and reads what
  follows as another host.\<close>

lemma return_to_control_characters:
  assumes "\<not> bad_netloc ''''"
  shows "is_safe_return_to bad_netloc ([CHR ''/'', char_of (9 :: nat)] @ ''//evil.com'') = Inr True \<and>
    starts_with ''//'' (drop_unsafe ([CHR ''/'', char_of (9 :: nat)] @ ''//evil.com''))"
  using assms
  by (simp add: is_safe_return_to_def rooted_netloc_def drop_unsafe_def url_unsafe_def starts_with_def Let_def char_of_def bit_numeral_rec
      bit_Suc_0_iff)

theorem login_return_confined_witness:
  "\<forall>st. (\<exists>r s' a. oidc_login login_env (login_settings st) 5 5
      \<lparr>lt_state = ''s2'', lt_nonce = ''n2'', lt_verifier = ''v2'', lt_cookie_id = ''cid2''\<rparr> ''//evil.com'' login_world = (r, s') \<and>
    a \<in> set (sn_attempts (ls_sessions s')) \<and> la_id a = ''cid2'' \<and> home_path (la_return_to a))" (is "\<forall>st. ?P st")
proof (intro allI)
  fix st
  let ?tk = "\<lparr>lt_state = ''s2'', lt_nonce = ''n2'', lt_verifier = ''v2'', lt_cookie_id = ''cid2''\<rparr>"
  have i: "\<forall>a \<in> set (sn_attempts (ls_sessions login_world)). home_path (la_return_to a)"
    by (simp add: login_world_def admin_home_path)
  let ?l = "oidc_login login_env (login_settings st) 5 5 ?tk ''//evil.com'' login_world"
  have m: "\<exists>a \<in> set (sn_attempts (ls_sessions (snd ?l))). la_id a = ''cid2''"
    by (simp add: oidc_login_def admin_oidc_configured_def login_settings_def is_safe_return_to_def starts_with_def
        oidc_discover_def login_world_def py_get_def start_login_def pkce_pair_def create_login_attempt_def
        tbl_insert_def la_clash_def Let_def)
  obtain r s' where l: "?l = (r, s')" by (cases ?l)
  with m obtain a where a: "a \<in> set (sn_attempts (ls_sessions s'))" "la_id a = ''cid2''" by auto
  have "\<forall>a \<in> set (sn_attempts (ls_sessions s')). home_path (la_return_to a)"
    using conjunct1 [OF login_return_confined [OF i]] l by blast
  then show "?P st" using l a by blast
qed

end
