(* ===== verification/Admin_Routes.thy ===== *)
theory Admin_Routes
  imports Context_Api Idempotency
begin

text \<open>
  The administration surface over the domain: the handlers of \<^verbatim>\<open>authz_service/api/tenants.py\<close>,
  \<^verbatim>\<open>applications.py\<close>, \<^verbatim>\<open>roles.py\<close>, \<^verbatim>\<open>permissions.py\<close>, \<^verbatim>\<open>policies.py\<close>, \<^verbatim>\<open>agents.py\<close>, \<^verbatim>\<open>admin.py\<close> and
  \<^verbatim>\<open>provisioning.py\<close>. A handler gets the caller that passed \<^verbatim>\<open>require_admin\<close> and the database; a result
  \<^const>\<open>Inl\<close> leaves the database as it was, except for \<^verbatim>\<open>update_membership\<close>, which commits twice and
  therefore returns the database in both cases. Identifiers of new rows are arguments. A body is a record
  with the fields of its pydantic model; a response that copies a row is that row.

  The second half follows one application through any sequence of these requests: who may change what
  belongs to it, and how its manager changes.
\<close>

section \<open>Answers in pages\<close>

definition page_of :: "int \<Rightarrow> int \<Rightarrow> 'a list \<Rightarrow> 'a list" where
  "page_of page page_size xs =
     (let (start, limit) = paginate_params page page_size in take (nat limit) (drop (nat start) xs))"

text \<open>A dependency that is the management guard: the guard is built from the caller, then the dependency
  runs, then the body is validated.\<close>

definition guarded ::
  "settings \<Rightarrow> (management_guard \<Rightarrow> (http_error, 'g) result) \<Rightarrow> (http_error, unit) result \<Rightarrow>
     ('g \<Rightarrow> management_guard \<Rightarrow> (http_error, 'a) result) \<Rightarrow> principal \<Rightarrow> sql_db \<Rightarrow> (http_error, 'a) result" where
  "guarded st dependency valid handler p db =
     res_bind (management_guard_init p db st) (\<lambda>g.
     res_bind (dependency g) (\<lambda>x.
     res_bind valid (\<lambda>_. handler x g)))"

definition stored :: "(authz_error, 'a) result \<Rightarrow> (http_error, 'a) result" where
  "stored r = map_sum http_of_error id r"

section \<open>Tenants\<close>

record tenant_in =
  ti_slug :: string
  ti_name :: string
  ti_status :: string

record tenant_patch =
  tpt_name :: "string option"
  tpt_status :: "string option"

record tenant_mapping_in =
  tmi_provider :: string
  tmi_issuer :: string
  tmi_external_tenant_id :: string

record feature_flag_in =
  ffi_application_id :: "string option"
  ffi_key :: string
  ffi_value :: pyval

definition create_tenant_route ::
  "ident \<Rightarrow> tenant_in \<Rightarrow> principal \<Rightarrow> sql_db \<Rightarrow> (http_error, tenant \<times> sql_db) result" where
  "create_tenant_route nid b p db = stored (sql_create_tenant db nid (ti_slug b) (ti_name b) (ti_status b))"

definition list_tenants_route ::
  "int \<Rightarrow> int \<Rightarrow> principal \<Rightarrow> sql_db \<Rightarrow> (http_error, tenant list \<times> sql_db) result" where
  "list_tenants_route page page_size p db =
     Inr (page_of page page_size (sort_key tenant_slug (db_tenants db)), db)"

definition get_tenant_route :: "string \<Rightarrow> principal \<Rightarrow> sql_db \<Rightarrow> (http_error, tenant \<times> sql_db) result" where
  "get_tenant_route ref p db = res_bind (require_tenant db ref) (\<lambda>t. Inr (t, db))"

definition patch_tenant :: "tenant_patch \<Rightarrow> tenant \<Rightarrow> tenant" where
  "patch_tenant b t =
     t\<lparr>tenant_name := (case tpt_name b of None \<Rightarrow> tenant_name t | Some n \<Rightarrow> n),
       tenant_status := (case tpt_status b of None \<Rightarrow> tenant_status t | Some s \<Rightarrow> s)\<rparr>"

definition update_tenant_route ::
  "string \<Rightarrow> tenant_patch \<Rightarrow> principal \<Rightarrow> sql_db \<Rightarrow> (http_error, tenant \<times> sql_db) result" where
  "update_tenant_route ref b p db =
     res_bind (require_tenant db ref) (\<lambda>t.
       Inr (patch_tenant b t,
            db\<lparr>db_tenants := tbl_update tenant_id (tenant_id t) (patch_tenant b) (db_tenants db)\<rparr>))"

definition list_tenant_mappings_route ::
  "string \<Rightarrow> principal \<Rightarrow> sql_db \<Rightarrow> (http_error, tenant_identity_mapping list \<times> sql_db) result" where
  "list_tenant_mappings_route ref p db =
     res_bind (require_tenant db ref) (\<lambda>t.
       Inr (filter (\<lambda>m. tim_tenant_id m = tenant_id t) (db_mappings db), db))"

definition create_tenant_mapping_route ::
  "ident \<Rightarrow> string \<Rightarrow> tenant_mapping_in \<Rightarrow> principal \<Rightarrow> sql_db \<Rightarrow>
     (http_error, tenant_identity_mapping \<times> sql_db) result" where
  "create_tenant_mapping_route nid ref b p db =
     res_bind (require_tenant db ref) (\<lambda>t.
       stored (sql_create_tenant_identity_mapping db nid (tenant_id t) (tmi_provider b) (tmi_issuer b)
         (tmi_external_tenant_id b)))"

text \<open>An application id that is missing or empty means a flag for all applications.\<close>

definition optional_application ::
  "sql_db \<Rightarrow> string option \<Rightarrow> (http_error, ident option) result" where
  "optional_application db ref =
     (case ref of
        None \<Rightarrow> Inr None
      | Some r \<Rightarrow> if r = '''' then Inr None else res_bind (require_application db r) (\<lambda>a. Inr (Some (app_id a))))"

definition set_feature_flag_route ::
  "string \<Rightarrow> feature_flag_in \<Rightarrow> principal \<Rightarrow> sql_db \<Rightarrow> (http_error, unit \<times> sql_db) result" where
  "set_feature_flag_route ref b p db =
     res_bind (require_tenant db ref) (\<lambda>t.
     res_bind (optional_application db (ffi_application_id b)) (\<lambda>aid.
     res_bind (stored (sql_set_tenant_feature_flag db (tenant_id t) aid (ffi_key b) (ffi_value b))) (\<lambda>db'.
       Inr ((), db'))))"

definition list_feature_flags_route ::
  "string \<Rightarrow> string option \<Rightarrow> principal \<Rightarrow> sql_db \<Rightarrow>
     (http_error, (ident \<times> ident option \<times> pydict) \<times> sql_db) result" where
  "list_feature_flags_route ref application_id p db =
     res_bind (require_tenant db ref) (\<lambda>t.
     res_bind (optional_application db application_id) (\<lambda>aid.
       Inr ((tenant_id t, aid, sql_get_tenant_feature_flags db (tenant_id t) aid), db)))"

definition get_permission_mask_route ::
  "string \<Rightarrow> string \<Rightarrow> principal \<Rightarrow> sql_db \<Rightarrow> (http_error, (ident \<times> ident \<times> string list) \<times> sql_db) result" where
  "get_permission_mask_route ref application_id p db =
     res_bind (require_tenant db ref) (\<lambda>t.
     res_bind (require_application db application_id) (\<lambda>a.
       Inr ((tenant_id t, app_id a,
             sorted_list_of_set (sql_resolve_tenant_permissions db (tenant_id t) (app_id a))), db)))"

definition set_permission_mask_route ::
  "string \<Rightarrow> string \<Rightarrow> string list \<Rightarrow> principal \<Rightarrow> sql_db \<Rightarrow>
     (http_error, (ident \<times> ident \<times> string list) \<times> sql_db) result" where
  "set_permission_mask_route ref application_id permissions p db =
     res_bind (require_tenant db ref) (\<lambda>t.
     res_bind (require_application db application_id) (\<lambda>a.
       Inr ((tenant_id t, app_id a, sorted_list_of_set (set permissions)),
            sql_set_tenant_permission_mask db (tenant_id t) (app_id a) (set permissions))))"

section \<open>Applications\<close>

record application_in =
  ai_slug :: string
  ai_name :: string
  ai_status :: string

record application_patch =
  apt_name :: "string option"
  apt_status :: "string option"

definition create_application_route ::
  "ident \<Rightarrow> application_in \<Rightarrow> principal \<Rightarrow> sql_db \<Rightarrow> (http_error, application \<times> sql_db) result" where
  "create_application_route nid b p db =
     stored (sql_create_application db nid (ai_slug b) (ai_name b) (ai_status b) None)"

definition list_applications_route ::
  "int \<Rightarrow> int \<Rightarrow> principal \<Rightarrow> sql_db \<Rightarrow> (http_error, application list \<times> sql_db) result" where
  "list_applications_route page page_size p db =
     Inr (page_of page page_size (sort_key app_slug (db_applications db)), db)"

definition get_application_route ::
  "string \<Rightarrow> principal \<Rightarrow> sql_db \<Rightarrow> (http_error, application \<times> sql_db) result" where
  "get_application_route ref p db = res_bind (require_application db ref) (\<lambda>a. Inr (a, db))"

definition patch_application :: "application_patch \<Rightarrow> application \<Rightarrow> application" where
  "patch_application b a =
     a\<lparr>app_name := (case apt_name b of None \<Rightarrow> app_name a | Some n \<Rightarrow> n),
       app_status := (case apt_status b of None \<Rightarrow> app_status a | Some s \<Rightarrow> s)\<rparr>"

definition update_application_route ::
  "string \<Rightarrow> application_patch \<Rightarrow> principal \<Rightarrow> sql_db \<Rightarrow> (http_error, application \<times> sql_db) result" where
  "update_application_route ref b p db =
     res_bind (require_application db ref) (\<lambda>a.
       Inr (patch_application b a,
            db\<lparr>db_applications := tbl_update app_id (app_id a) (patch_application b) (db_applications db)\<rparr>))"

text \<open>The entry both management routes write.\<close>

definition management_entry :: "string \<Rightarrow> string \<Rightarrow> ident \<Rightarrow> pydict \<Rightarrow> pydict \<Rightarrow> audit_entry" where
  "management_entry reason act aid request response =
     \<lparr>ae_decision = ''admin'', ae_reason = reason, ae_resource = ''application.management'', ae_action = act,
      ae_tenant_id = None, ae_application_id = Some aid, ae_user_id = None, ae_agent_id = None,
      ae_request = request, ae_response = response, ae_request_id = None, ae_created_at = 0\<rparr>"

text \<open>Both routes commit the manager first and the audit entry after it, so the database is returned in any case.\<close>

definition release_management_route ::
  "settings \<Rightarrow> ident \<Rightarrow> instant \<Rightarrow> string option \<Rightarrow> string \<Rightarrow> principal \<Rightarrow> sql_db \<Rightarrow>
     (http_error, application) result \<times> sql_db" where
  "release_management_route st nid now request_id ref p db =
     (case require_application db ref of
        Inl e \<Rightarrow> (Inl e, db)
      | Inr a \<Rightarrow>
          (let db1 = sql_set_application_managed_by db (app_id a) None in
           case stored (write_audit db1 nid now
               (management_entry ''management_released'' ''release'' (app_id a)
                 [(''managed_by'', opt_val (app_managed_by a)), (''released_by'', PStr (caller_label p st))]
                 [(''managed_by'', PNone)]) request_id) of
             Inl e \<Rightarrow> (Inl e, db1)
           | Inr db2 \<Rightarrow> (Inr (a\<lparr>app_managed_by := None\<rparr>), db2)))"

text \<open>The answer of a claim, once the manager is known.\<close>

definition claim_outcome :: "application \<Rightarrow> string \<Rightarrow> string option \<Rightarrow> (http_error, application) result" where
  "claim_outcome a claimed_by m =
     (if m \<noteq> Some claimed_by then Inl (HTTPException 409 ''application_managed_externally'')
      else Inr (a\<lparr>app_managed_by := m\<rparr>))"

definition claim_management_route ::
  "settings \<Rightarrow> ident \<Rightarrow> instant \<Rightarrow> string option \<Rightarrow> string \<Rightarrow> principal \<Rightarrow> sql_db \<Rightarrow>
     (http_error, application) result \<times> sql_db" where
  "claim_management_route st nid now request_id ref p db =
     (case require_application db ref of
        Inl e \<Rightarrow> (Inl e, db)
      | Inr a \<Rightarrow>
          (let claimed_by = caller_label p st in
           case app_managed_by a of
             Some m \<Rightarrow> (claim_outcome a claimed_by (Some m), db)
           | None \<Rightarrow>
               (let (m, db1) = sql_claim_application_management db (app_id a) claimed_by in
                if m \<noteq> Some claimed_by then (claim_outcome a claimed_by m, db1)
                else (case stored (write_audit db1 nid now
                    (management_entry ''management_claimed'' ''claim'' (app_id a)
                      [(''claimed_by'', PStr claimed_by)] [(''managed_by'', PStr claimed_by)]) request_id) of
                   Inl e \<Rightarrow> (Inl e, db1)
                 | Inr db2 \<Rightarrow> (claim_outcome a claimed_by m, db2)))))"

section \<open>Roles and permissions\<close>

record role_in =
  ri_name :: string
  ri_scope :: string
  ri_description :: "string option"
  ri_tenant_id :: "ident option"

record permission_in =
  pin_name :: string
  pin_description :: "string option"

text \<open>The enumeration \<^verbatim>\<open>RoleScope\<close> by value.\<close>

definition role_scope_of :: "string \<Rightarrow> role_scope option" where
  "role_scope_of s =
     (if s = ''platform'' then Some PLATFORM else if s = ''application'' then Some APPLICATION
      else if s = ''tenant'' then Some TENANT else if s = ''agent'' then Some AGENT else None)"

definition create_role_route ::
  "settings \<Rightarrow> ident \<Rightarrow> string \<Rightarrow> role_in \<Rightarrow> principal \<Rightarrow> sql_db \<Rightarrow> (http_error, role \<times> sql_db) result" where
  "create_role_route st nid application_id b p db =
     guarded st (\<lambda>g. managed_application g application_id) (Inr ()) (\<lambda>a _.
       case role_scope_of (ri_scope b) of
         None \<Rightarrow> Inl (HTTPException 400 ''invalid_scope'')
       | Some scope \<Rightarrow>
           stored (sql_create_role db nid (ri_name b) scope (Some (app_id a)) (ri_tenant_id b) (ri_description b)))
       p db"

definition list_roles_route ::
  "string \<Rightarrow> principal \<Rightarrow> sql_db \<Rightarrow> (http_error, role list \<times> sql_db) result" where
  "list_roles_route application_id p db =
     res_bind (require_application db application_id) (\<lambda>a.
       Inr (sql_list_roles_for_application db (app_id a), db))"

definition sorted_permission_names :: "sql_db \<Rightarrow> ident \<Rightarrow> string list" where
  "sorted_permission_names db rid = sort (map perm_name (sql_list_role_permissions db rid))"

definition set_role_permissions_route ::
  "settings \<Rightarrow> ident \<Rightarrow> string list \<Rightarrow> principal \<Rightarrow> sql_db \<Rightarrow>
     (http_error, (ident \<times> string list) \<times> sql_db) result" where
  "set_role_permissions_route st rid permissions p db =
     guarded st (\<lambda>g. managed_role g rid) (Inr ()) (\<lambda>_ _.
       res_bind (stored (sql_set_role_permissions db rid (set permissions))) (\<lambda>db'.
         Inr ((rid, sorted_permission_names db' rid), db'))) p db"

definition get_role_permissions_route ::
  "ident \<Rightarrow> principal \<Rightarrow> sql_db \<Rightarrow> (http_error, (ident \<times> string list) \<times> sql_db) result" where
  "get_role_permissions_route rid p db =
     (case sql_get_role db rid of
        None \<Rightarrow> Inl (HTTPException 404 ''role_not_found'')
      | Some _ \<Rightarrow> Inr ((rid, sorted_permission_names db rid), db))"

definition create_permission_route ::
  "settings \<Rightarrow> ident \<Rightarrow> string \<Rightarrow> permission_in \<Rightarrow> principal \<Rightarrow> sql_db \<Rightarrow>
     (http_error, permission \<times> sql_db) result" where
  "create_permission_route st nid application_id b p db =
     guarded st (\<lambda>g. managed_application g application_id) (Inr ()) (\<lambda>a _.
       stored (sql_create_permission db nid (pin_name b) (Some (app_id a)) (pin_description b))) p db"

definition list_permissions_route ::
  "string \<Rightarrow> principal \<Rightarrow> sql_db \<Rightarrow> (http_error, permission list \<times> sql_db) result" where
  "list_permissions_route application_id p db =
     res_bind (require_application db application_id) (\<lambda>a.
       Inr (sql_list_application_permissions db (Some (app_id a)), db))"

end
