(* ===== verification/Member_Routes.thy ===== *)
theory Member_Routes
  imports Admin_Routes Invitations
begin

text \<open>
  The routes over people, agents and desired state: \<^verbatim>\<open>authz_service/api/policies.py\<close> (memberships),
  \<^verbatim>\<open>agents.py\<close>, \<^verbatim>\<open>admin.py\<close> (users and the audit log), \<^verbatim>\<open>invitations.py\<close>, \<^verbatim>\<open>api_keys.py\<close> and
  \<^verbatim>\<open>provisioning.py\<close>, in the style of \<open>Admin_Routes\<close>.
\<close>

section \<open>Memberships\<close>

record membership_in =
  mi_user_id :: ident
  mi_application_id :: "string option"
  mi_roles :: "string list"
  mi_status :: string

record membership_patch =
  mp_roles :: "string list option"
  mp_status :: "string option"

text \<open>\<^verbatim>\<open>_membership_application\<close> and \<^verbatim>\<open>_invitation_application\<close>: no application for a body that names none.\<close>

definition body_application ::
  "management_guard \<Rightarrow> string option \<Rightarrow> (http_error, application option) result" where
  "body_application g ref =
     (case ref of
        None \<Rightarrow> Inr None
      | Some r \<Rightarrow> if r = '''' then Inr None else map_sum id Some (guard_application g r))"

definition create_membership_route ::
  "settings \<Rightarrow> ident \<Rightarrow> string \<Rightarrow> membership_in \<Rightarrow> principal \<Rightarrow> sql_db \<Rightarrow>
     (http_error, membership \<times> sql_db) result" where
  "create_membership_route st nid ref b p db =
     guarded st (\<lambda>g. body_application g (mi_application_id b)) (Inr ()) (\<lambda>a _.
       res_bind (require_tenant db ref) (\<lambda>t.
         stored (sql_create_membership db nid (tenant_id t) (map_option app_id a) (mi_user_id b) (mi_status b)
           (set (mi_roles b))))) p db"

definition list_memberships_route ::
  "string \<Rightarrow> int \<Rightarrow> int \<Rightarrow> principal \<Rightarrow> sql_db \<Rightarrow> (http_error, membership list \<times> sql_db) result" where
  "list_memberships_route ref page page_size p db =
     res_bind (require_tenant db ref) (\<lambda>t.
       Inr (map (to_membership db)
              (page_of page page_size (filter (\<lambda>m. ms_tenant_id m = tenant_id t) (db_memberships db))), db))"

text \<open>The status is committed before the roles are set; a failure of the second leaves the first.\<close>

definition patch_membership_status :: "sql_db \<Rightarrow> ident \<Rightarrow> string option \<Rightarrow> sql_db" where
  "patch_membership_status db mid status =
     (case status of
        None \<Rightarrow> db
      | Some s \<Rightarrow> db\<lparr>db_memberships := tbl_update ms_id mid (\<lambda>m. m\<lparr>ms_status := s\<rparr>) (db_memberships db)\<rparr>)"

definition update_membership_route ::
  "settings \<Rightarrow> ident \<Rightarrow> membership_patch \<Rightarrow> principal \<Rightarrow> sql_db \<Rightarrow>
     (http_error, membership) result \<times> sql_db" where
  "update_membership_route st mid b p db =
     (case guarded st (\<lambda>g. managed_membership g mid) (Inr ()) (\<lambda>m _. Inr m) p db of
        Inl e \<Rightarrow> (Inl e, db)
      | Inr _ \<Rightarrow>
          (let db1 = patch_membership_status db mid (mp_status b) in
           case (case mp_roles b of None \<Rightarrow> Inr db1 | Some rs \<Rightarrow> stored (sql_set_membership_roles db1 mid (set rs))) of
             Inl e \<Rightarrow> (Inl e, db1)
           | Inr db2 \<Rightarrow>
               (case sql_get_membership_by_id db2 mid of
                  None \<Rightarrow> (Inl InternalError, db2)
                | Some m \<Rightarrow> (Inr m, db2))))"

section \<open>Agents\<close>

record agent_in =
  gi_name :: string
  gi_display_name :: "string option"
  gi_role :: string
  gi_status :: string
  gi_created_by_user_id :: "ident option"

text \<open>A violated constraint is answered with a conflict.\<close>

definition name_taken :: "(authz_error, 'a) result \<Rightarrow> (http_error, 'a) result" where
  "name_taken r =
     (case r of
        Inl e \<Rightarrow> Inl (if e = IntegrityError then HTTPException 409 ''agent_name_taken'' else http_of_error e)
      | Inr x \<Rightarrow> Inr x)"

lemma name_taken_Inr [simp]: "name_taken r = Inr x \<longleftrightarrow> r = Inr x"
  by (cases r) (auto simp: name_taken_def)

definition create_agent_route ::
  "settings \<Rightarrow> ident \<Rightarrow> string \<Rightarrow> string \<Rightarrow> agent_in \<Rightarrow> principal \<Rightarrow> sql_db \<Rightarrow>
     (http_error, agent \<times> sql_db) result" where
  "create_agent_route st nid ref application_id b p db =
     guarded st (\<lambda>g. managed_application g application_id) (Inr ()) (\<lambda>a _.
       res_bind (require_tenant db ref) (\<lambda>t.
       name_taken (sql_create_agent db nid (tenant_id t) (app_id a) (gi_name b) (gi_role b) (gi_status b)
         (gi_created_by_user_id b) (gi_display_name b)))) p db"

definition list_agents_route ::
  "string \<Rightarrow> string \<Rightarrow> principal \<Rightarrow> sql_db \<Rightarrow> (http_error, agent list \<times> sql_db) result" where
  "list_agents_route ref application_id p db =
     res_bind (require_tenant db ref) (\<lambda>t.
     res_bind (require_application db application_id) (\<lambda>a.
       Inr (sql_list_agents db (tenant_id t) (app_id a), db)))"

definition set_agent_roles_route ::
  "settings \<Rightarrow> ident \<Rightarrow> string list \<Rightarrow> principal \<Rightarrow> sql_db \<Rightarrow>
     (http_error, (ident \<times> string list) \<times> sql_db) result" where
  "set_agent_roles_route st gid roles p db =
     guarded st (\<lambda>g. managed_agent g gid) (Inr ()) (\<lambda>_ _.
       res_bind (stored (sql_set_agent_roles db gid (set roles))) (\<lambda>db'. Inr ((gid, sort roles), db'))) p db"

section \<open>Users and the audit log\<close>

record user_in =
  ui_provider :: string
  ui_issuer :: string
  ui_subject :: string
  ui_email :: "string option"
  ui_display_name :: "string option"
  ui_external_tenant_id :: "string option"

text \<open>\<^verbatim>\<open>LIKE\<close> with its wildcards, after lower-casing both sides (\<^verbatim>\<open>ilike\<close>); a null column does not match.\<close>

fun sql_like :: "string \<Rightarrow> string \<Rightarrow> bool" where
  "sql_like [] s \<longleftrightarrow> s = []"
| "sql_like (c # ps) [] \<longleftrightarrow> c = CHR ''%'' \<and> sql_like ps []"
| "sql_like (c # ps) (x # xs) \<longleftrightarrow>
     (if c = CHR ''%'' then sql_like ps (x # xs) \<or> sql_like (c # ps) xs
      else (c = CHR ''_'' \<or> c = x) \<and> sql_like ps xs)"

definition ilike :: "string option \<Rightarrow> string \<Rightarrow> bool" where
  "ilike column pattern =
     (case column of None \<Rightarrow> False | Some v \<Rightarrow> sql_like (map lower_char pattern) (map lower_char v))"

definition user_matches :: "string option \<Rightarrow> user \<Rightarrow> bool" where
  "user_matches q u =
     (case q of
        None \<Rightarrow> True
      | Some s \<Rightarrow> s = '''' \<or> ilike (user_email u) (''%'' @ s @ ''%'') \<or>
          ilike (user_display_name u) (''%'' @ s @ ''%'') \<or> user_id u = s)"

definition user_out :: "sql_db \<Rightarrow> user \<Rightarrow> user \<times> external_identity list" where
  "user_out db u = (u, filter (\<lambda>i. xid_user_id i = user_id u) (db_identities db))"

definition list_users_route ::
  "string option \<Rightarrow> int \<Rightarrow> int \<Rightarrow> principal \<Rightarrow> sql_db \<Rightarrow>
     (http_error, (user \<times> external_identity list) list \<times> sql_db) result" where
  "list_users_route q page page_size p db =
     Inr (map (user_out db) (page_of page page_size (filter (user_matches q) (db_users db))), db)"

definition create_user_route ::
  "ident \<Rightarrow> ident \<Rightarrow> user_in \<Rightarrow> principal \<Rightarrow> sql_db \<Rightarrow>
     (http_error, (user \<times> external_identity list) \<times> sql_db) result" where
  "create_user_route uid xid b p db =
     res_bind (stored (sql_upsert_user_from_identity db uid xid (ui_provider b) (ui_issuer b) (ui_subject b)
         (ui_email b) (ui_external_tenant_id b) (ui_display_name b))) (\<lambda>((u, _), db').
       Inr (user_out db' u, db'))"

definition get_agent_roles_route ::
  "ident \<Rightarrow> principal \<Rightarrow> sql_db \<Rightarrow> (http_error, (ident \<times> string list) \<times> sql_db) result" where
  "get_agent_roles_route gid p db =
     (case sql_get_agent_by_id db gid of
        None \<Rightarrow> Inl (HTTPException 404 ''agent_not_found'')
      | Some _ \<Rightarrow>
          Inr ((gid, sort (map role_name (filter (\<lambda>r. (gid, role_id r) \<in> db_agent_roles db) (db_roles db)))), db))"

definition list_audit_route ::
  "string option \<Rightarrow> string option \<Rightarrow> int \<Rightarrow> int \<Rightarrow> principal \<Rightarrow> sql_db \<Rightarrow>
     (http_error, audit_row list \<times> sql_db) result" where
  "list_audit_route tref decision page page_size p db =
     res_bind (case tref of
         None \<Rightarrow> Inr None
       | Some r \<Rightarrow> if r = '''' then Inr None else map_sum id (\<lambda>t. Some (tenant_id t)) (require_tenant db r)) (\<lambda>tid.
     let newest = sort_key (\<lambda>r. - ae_created_at (al_entry r)) (db_audit db);
         mine = filter (\<lambda>r. case tid of None \<Rightarrow> True | Some t \<Rightarrow> ae_tenant_id (al_entry r) = Some t) newest;
         chosen = filter (\<lambda>r. case decision of
             None \<Rightarrow> True | Some d \<Rightarrow> d = '''' \<or> ae_decision (al_entry r) = d) mine in
     Inr (page_of page page_size chosen, db))"

section \<open>Declarative provisioning\<close>

record catalog_in =
  ci_name :: string
  ci_permissions :: "catalog_permission list"
  ci_default_roles :: "catalog_role list"

text \<open>Answers of \<^verbatim>\<open>_invalid\<close>, and the fields with \<^verbatim>\<open>min_length=1\<close>.\<close>

definition provisioning_outcome :: "string \<Rightarrow> (provisioning_error, 'a) result \<Rightarrow> (http_error, 'a) result" where
  "provisioning_outcome error r =
     (case r of
        Inl (ProvisioningError _) \<Rightarrow> Inl (HTTPException 422 error)
      | Inl (StoreError e) \<Rightarrow> Inl (http_of_error e)
      | Inr x \<Rightarrow> Inr x)"

definition all_named :: "string list \<Rightarrow> (http_error, unit) result" where
  "all_named names = (if '''' \<in> set names then Inl (HTTPException 422 ''string_too_short'') else Inr ())"

definition put_catalog_route ::
  "settings \<Rightarrow> (string \<Rightarrow> string \<Rightarrow> ident) \<Rightarrow> string \<Rightarrow> catalog_in \<Rightarrow> principal \<Rightarrow> sql_db \<Rightarrow>
     (http_error, catalog_result \<times> sql_db) result" where
  "put_catalog_route st new slug b p db =
     guarded st (\<lambda>g. catalog_application g slug)
       (all_named (ci_name b # map cr_name (ci_default_roles b))) (\<lambda>a g.
       provisioning_outcome ''invalid_catalog''
         (apply_application_catalog db new (case a of None \<Rightarrow> slug | Some x \<Rightarrow> app_slug x) (ci_name b)
            (ci_permissions b) (ci_default_roles b) (Some (mg_caller g)))) p db"

definition tenant_state_valid :: "tenant_state \<Rightarrow> (http_error, unit) result" where
  "tenant_state_valid b =
     res_bind (all_named (ts_name b # map da_name (ts_agents b))) (\<lambda>_.
     all_named (concat (map (\<lambda>m. case dm_user_ref m of (p, i, s) \<Rightarrow> [p, i, s]) (ts_members b))))"

definition put_tenant_state_route ::
  "settings \<Rightarrow> (string \<Rightarrow> nat \<Rightarrow> ident) \<Rightarrow> string \<Rightarrow> string \<Rightarrow> tenant_state \<Rightarrow> principal \<Rightarrow> sql_db \<Rightarrow>
     (http_error, tenant_state_result \<times> sql_db) result" where
  "put_tenant_state_route st new slug tenant_slug_ref b p db =
     guarded st (\<lambda>g. manager_application g slug) (tenant_state_valid b) (\<lambda>a _.
       provisioning_outcome ''invalid_state'' (apply_tenant_state db new (app_id a) tenant_slug_ref b)) p db"

text \<open>A route of the runtime surface: the tenant is checked against the caller's own.\<close>

definition list_tenant_roles_route ::
  "string \<Rightarrow> string \<Rightarrow> principal \<Rightarrow> sql_db \<Rightarrow> (http_error, tenant_role_view list \<times> sql_db) result" where
  "list_tenant_roles_route slug ref p db =
     res_bind (require_application db slug) (\<lambda>a.
     res_bind (require_bound_tenant db ref p) (\<lambda>t.
       Inr (list_tenant_roles db (tenant_id t) (app_id a), db)))"

definition default_role_or_404 :: "sql_db \<Rightarrow> application \<Rightarrow> string \<Rightarrow> (http_error, unit) result" where
  "default_role_or_404 db a name =
     (case sql_get_role_by_name db (Some (app_id a)) None name of
        None \<Rightarrow> Inl (HTTPException 404 ''role_not_found'') | Some _ \<Rightarrow> Inr ())"

definition put_tenant_role_route ::
  "settings \<Rightarrow> ident \<Rightarrow> string \<Rightarrow> string \<Rightarrow> string \<Rightarrow> string list \<Rightarrow> principal \<Rightarrow> sql_db \<Rightarrow>
     (http_error, tenant_role_view \<times> sql_db) result" where
  "put_tenant_role_route st nid slug ref name permissions p db =
     guarded st (\<lambda>g. manager_application g slug) (Inr ()) (\<lambda>a _.
       res_bind (require_tenant db ref) (\<lambda>t.
       res_bind (default_role_or_404 db a name) (\<lambda>_.
       res_bind (stored (set_tenant_role_override db nid (tenant_id t) (app_id a) name (set permissions))) (\<lambda>db'.
       case List.find (\<lambda>v. trv_name v = name) (list_tenant_roles db' (tenant_id t) (app_id a)) of
         None \<Rightarrow> Inl InternalError
       | Some v \<Rightarrow> Inr (v, db'))))) p db"

definition delete_tenant_role_route ::
  "settings \<Rightarrow> string \<Rightarrow> string \<Rightarrow> string \<Rightarrow> principal \<Rightarrow> sql_db \<Rightarrow> (http_error, unit \<times> sql_db) result" where
  "delete_tenant_role_route st slug ref name p db =
     guarded st (\<lambda>g. manager_application g slug) (Inr ()) (\<lambda>a _.
       res_bind (require_tenant db ref) (\<lambda>t.
       res_bind (default_role_or_404 db a name) (\<lambda>_.
         Inr ((), delete_tenant_role_override db (tenant_id t) (app_id a) name)))) p db"

section \<open>Invitations\<close>

record invitation_in =
  ii_email :: string
  ii_application_id :: "string option"
  ii_roles :: "string list"
  ii_ttl_days :: int

record invitation_accept_in =
  ia_provider :: string
  ia_issuer :: string
  ia_subject :: string
  ia_email :: "string option"
  ia_external_tenant_id :: "string option"

text \<open>A day in the unit of instants, the microsecond.\<close>

definition day_us :: int where
  "day_us = 86400 * 1000000"

definition ttl_valid :: "int \<Rightarrow> (http_error, unit) result" where
  "ttl_valid days = (if 1 \<le> days \<and> days \<le> 90 then Inr () else Inl (HTTPException 422 ''value_error''))"

text \<open>The dependency on the application needs a valid body, so validation comes before it here.\<close>

definition create_invitation_route ::
  "(string \<Rightarrow> string) \<Rightarrow> settings \<Rightarrow> instant \<Rightarrow> ident \<Rightarrow> string \<Rightarrow> string \<Rightarrow> invitation_in \<Rightarrow> principal \<Rightarrow>
     invitation_row list \<times> sql_db \<Rightarrow> (http_error, (invitation_record \<times> string) \<times> invitation_row list \<times> sql_db) result" where
  "create_invitation_route hash st now nid plaintext ref b p w =
     (case w of (rows, db) \<Rightarrow>
        guarded st (\<lambda>g. res_bind (ttl_valid (ii_ttl_days b)) (\<lambda>_. body_application g (ii_application_id b)))
          (Inr ()) (\<lambda>a _.
          res_bind (require_tenant db ref) (\<lambda>t.
          res_bind (stored (invitation_create hash rows now nid plaintext (tenant_id t) (map_option app_id a)
              (ii_email b) (ii_roles b) None (ii_ttl_days b * day_us))) (\<lambda>(r, rows').
            Inr (r, rows', db)))) p db)"

definition list_invitations_route ::
  "string \<Rightarrow> principal \<Rightarrow> invitation_row list \<times> sql_db \<Rightarrow>
     (http_error, invitation_record list \<times> invitation_row list \<times> sql_db) result" where
  "list_invitations_route ref p w =
     (case w of (rows, db) \<Rightarrow>
        res_bind (require_tenant db ref) (\<lambda>t. Inr (invitation_list_for_tenant rows (tenant_id t), rows, db)))"

text \<open>Any caller may accept. The identity of the body is provisioned first and stays when the token is
  refused; the membership is created by the store.\<close>

definition membership_creator ::
  "ident \<Rightarrow> sql_db \<Rightarrow> ident \<Rightarrow> ident option \<Rightarrow> ident \<Rightarrow> string set option \<Rightarrow> (authz_error, sql_db) result" where
  "membership_creator nid db tid aid uid roles =
     map_sum id snd (sql_create_membership db nid tid aid uid MEMBERSHIP_STATUS_ACTIVE
       (case roles of None \<Rightarrow> {} | Some rs \<Rightarrow> rs))"

definition accept_invitation_route ::
  "(string \<Rightarrow> string) \<Rightarrow> instant \<Rightarrow> ident \<Rightarrow> ident \<Rightarrow> ident \<Rightarrow> string \<Rightarrow> invitation_accept_in \<Rightarrow> principal \<Rightarrow>
     invitation_row list \<times> sql_db \<Rightarrow> (http_error, invitation_record) result \<times> invitation_row list \<times> sql_db" where
  "accept_invitation_route hash now uid xid mid token b p w =
     (case w of (rows, db) \<Rightarrow>
        (case sql_upsert_user_from_identity db uid xid (ia_provider b) (ia_issuer b) (ia_subject b) (ia_email b)
                (ia_external_tenant_id b) None of
           Inl e \<Rightarrow> (Inl (http_of_error e), rows, db)
         | Inr ((u, _), db1) \<Rightarrow>
             (case invitation_accept hash (membership_creator mid) rows db1 now token (user_id u) of
                (Inr r, rows', db2) \<Rightarrow> (Inr r, rows', db2)
              | (Inl (InvitationError reason), rows', db2) \<Rightarrow> (Inl (HTTPException 400 reason), rows', db2)
              | (Inl (MembershipFailed e), rows', db2) \<Rightarrow> (Inl (http_of_error e), rows', db2))))"

definition revoke_invitation_route ::
  "ident \<Rightarrow> principal \<Rightarrow> invitation_row list \<times> sql_db \<Rightarrow> (http_error, unit \<times> invitation_row list \<times> sql_db) result" where
  "revoke_invitation_route iid p w =
     (case w of (rows, db) \<Rightarrow>
        (case invitation_revoke rows iid of
           (False, _) \<Rightarrow> Inl (HTTPException 404 ''invitation_not_found'')
         | (True, rows') \<Rightarrow> Inr ((), rows', db)))"

section \<open>API keys\<close>

record api_key_in =
  ki_name :: string
  ki_scopes :: "string list"
  ki_tenant_id :: "ident option"
  ki_expires_at :: "instant option"

text \<open>The table the key routes write is the one the caller was authenticated against.\<close>

definition key_route ::
  "('key, 'net) auth_env \<Rightarrow> settings \<Rightarrow> instant \<Rightarrow> http_request \<Rightarrow>
     (api_key_row list \<Rightarrow> (http_error, 'a \<times> api_key_row list) result) \<Rightarrow> 'net auth_state \<Rightarrow>
     (http_error, 'a) result \<times> 'net auth_state" where
  "key_route env st now rq handler au =
     (case require_caller env st now rq au of (r, au') \<Rightarrow>
        (case res_bind r require_admin of
           Inl e \<Rightarrow> (Inl e, au')
         | Inr _ \<Rightarrow>
             (case handler (au_keys au') of
                Inl e \<Rightarrow> (Inl e, au')
              | Inr (x, rows) \<Rightarrow> (Inr x, au'\<lparr>au_keys := rows\<rparr>))))"

definition create_api_key_route ::
  "(string \<Rightarrow> string) \<Rightarrow> ident \<Rightarrow> string \<Rightarrow> api_key_in \<Rightarrow> api_key_row list \<Rightarrow>
     (http_error, (api_key_record \<times> string) \<times> api_key_row list) result" where
  "create_api_key_route hash nid raw b rows =
     stored (ak_issue hash rows nid raw (ki_name b) (ki_scopes b) (ki_tenant_id b) (ki_expires_at b) None)"

definition list_api_keys_route ::
  "api_key_row list \<Rightarrow> (http_error, api_key_record list \<times> api_key_row list) result" where
  "list_api_keys_route rows = Inr (ak_list_keys rows, rows)"

definition rotate_api_key_route ::
  "(string \<Rightarrow> string) \<Rightarrow> ident \<Rightarrow> string \<Rightarrow> ident \<Rightarrow> api_key_row list \<Rightarrow>
     (http_error, (api_key_record \<times> string) \<times> api_key_row list) result" where
  "rotate_api_key_route hash nid raw kid rows =
     (case ak_rotate hash rows nid raw kid None of
        Inl ValueError \<Rightarrow> Inl (HTTPException 404 ''api_key_not_found'')
      | Inl e \<Rightarrow> Inl (http_of_error e)
      | Inr r \<Rightarrow> Inr r)"

definition revoke_api_key_route ::
  "ident \<Rightarrow> api_key_row list \<Rightarrow> (http_error, unit \<times> api_key_row list) result" where
  "revoke_api_key_route kid rows =
     (case ak_revoke rows kid of
        (False, _) \<Rightarrow> Inl (HTTPException 404 ''api_key_not_found'')
      | (True, rows') \<Rightarrow> Inr ((), rows'))"

end
