(* ===== verification/Isolation.thy ===== *)
theory Isolation
  imports Member_Routes
begin

text \<open>
  What an operation of the database store may touch. The data of an application are its permissions, roles,
  memberships and agents with their links. An operation for some applications leaves the data of every
  other as it was, and keeps the links at home: a membership or an agent only ever holds roles of its own
  application. This is what the management guard protects, followed here through every administration
  route and any sequence of them.
\<close>

section \<open>Rows by application\<close>

definition rows_of :: "('r \<Rightarrow> ident option) \<Rightarrow> ident \<Rightarrow> 'r list \<Rightarrow> 'r list" where
  "rows_of app a rows = filter (\<lambda>r. app r = Some a) rows"

definition homes :: "('r \<Rightarrow> ident) \<Rightarrow> ('r \<Rightarrow> ident option) \<Rightarrow> 'r list \<Rightarrow> (ident \<times> ident option) set" where
  "homes key app rows = (\<lambda>r. (key r, app r)) ` set rows"

definition outside :: "(ident \<Rightarrow> bool) \<Rightarrow> ident option \<Rightarrow> bool" where
  "outside foreign home \<longleftrightarrow> (\<forall>a. home = Some a \<longrightarrow> \<not> foreign a)"

definition rows_kept ::
  "('r \<Rightarrow> ident) \<Rightarrow> ('r \<Rightarrow> ident option) \<Rightarrow> (ident \<Rightarrow> bool) \<Rightarrow> 'r list \<Rightarrow> 'r list \<Rightarrow> bool" where
  "rows_kept key app foreign rows rows' \<longleftrightarrow>
     unique_col key rows' \<and> (\<forall>a. foreign a \<longrightarrow> rows_of app a rows' = rows_of app a rows)"

named_theorems home_simps

lemma res_bind_InrE: "\<lbrakk>res_bind r f = Inr y; \<And>x. \<lbrakk>r = Inr x; f x = Inr y\<rbrakk> \<Longrightarrow> P\<rbrakk> \<Longrightarrow> P"
  by (auto simp: res_bind_eq_Inr)

lemma homes_append [home_simps]: "homes key app (rows @ [r]) = insert (key r, app r) (homes key app rows)"
  by (simp add: homes_def)

lemma homes_update [home_simps]:
  "(\<And>r. key (f r) = key r \<and> app (f r) = app r) \<Longrightarrow> homes key app (tbl_update key' k f rows) = homes key app rows"
  unfolding homes_def by (rule keys_tbl_update) simp

lemma homes_map [home_simps]:
  "(\<And>r. key (f r) = key r \<and> app (f r) = app r) \<Longrightarrow> homes key app (map f rows) = homes key app rows"
  unfolding homes_def by (rule keys_map) simp

lemma homes_delete: "homes key app (tbl_delete key k rows) = {t \<in> homes key app rows. fst t \<noteq> k}"
  by (induction rows) (auto simp: homes_def tbl_delete_def)

lemma homes_mem: "r \<in> set rows \<Longrightarrow> (key r, app r) \<in> homes key app rows"
  by (simp add: homes_def)

lemma home_elsewhere:
  "\<lbrakk>unique_col key rows; (k, h) \<in> homes key app rows; h \<noteq> Some a\<rbrakk> \<Longrightarrow> k \<notin> key ` set (rows_of app a rows)"
  by (auto simp: homes_def rows_of_def dest: unique_col_eq)

lemma rows_kept_refl: "unique_col key rows \<Longrightarrow> rows_kept key app foreign rows rows"
  by (simp add: rows_kept_def)

lemma rows_kept_trans:
  "\<lbrakk>rows_kept key app foreign r1 r2; rows_kept key app foreign r2 r3\<rbrakk> \<Longrightarrow> rows_kept key app foreign r1 r3"
  by (simp add: rows_kept_def)

lemma rows_kept_unique: "rows_kept key app foreign rows rows' \<Longrightarrow> unique_col key rows'"
  by (simp add: rows_kept_def)

lemma rows_kept_insert:
  assumes "tbl_insert clash row rows = Inr rows'" "unique_col key rows"
    and "\<And>r. key r = key row \<Longrightarrow> clash row r" "outside foreign (app row)"
  shows "rows_kept key app foreign rows rows'"
  using assms by (auto simp: rows_kept_def tbl_insert_Inr unique_col_append rows_of_def outside_def)

lemma rows_kept_map:
  assumes "unique_col key rows" and "\<And>r. key (f r) = key r \<and> app (f r) = app r"
    and "\<And>r. r \<in> set rows \<Longrightarrow> \<not> outside foreign (app r) \<Longrightarrow> f r = r"
  shows "rows_kept key app foreign rows (map f rows)"
proof -
  have "rows_of app a (map f rows) = rows_of app a rows" if "foreign a" for a
    unfolding rows_of_def filter_map comp_def using assms(2)
    by (auto intro!: map_idI assms(3) simp: outside_def that)
  then show ?thesis using unique_col_map [OF assms(1)] assms(2) by (simp add: rows_kept_def)
qed

lemma rows_kept_update:
  assumes "unique_col key rows" and "\<And>r. key (f r) = key r \<and> app (f r) = app r"
    and "(k, h) \<in> homes key app rows" "outside foreign h"
  shows "rows_kept key app foreign rows (tbl_update key k f rows)"
  unfolding tbl_update_def
proof (rule rows_kept_map [OF assms(1)])
  show "key (if key r = k then f r else r) = key r \<and> app (if key r = k then f r else r) = app r" for r
    using assms(2) by simp
  show "(if key r = k then f r else r) = r" if "r \<in> set rows" "\<not> outside foreign (app r)" for r
  proof -
    have "key r \<noteq> k" using assms(1,3,4) that by (auto simp: homes_def dest: unique_col_eq)
    then show ?thesis by simp
  qed
qed

section \<open>Links\<close>

definition owned :: "(ident \<times> ident) set \<Rightarrow> ident set \<Rightarrow> (ident \<times> ident) set" where
  "owned table owners = {l \<in> table. fst l \<in> owners}"

text \<open>The owners of changed links live outside, and a link joins rows of one application.\<close>

definition links_kept ::
  "(ident \<times> ident option) set \<Rightarrow> (ident \<Rightarrow> bool) \<Rightarrow> (ident \<times> ident) set \<Rightarrow> (ident \<times> ident) set \<Rightarrow> bool" where
  "links_kept owners foreign table table' \<longleftrightarrow>
     (\<forall>l. (l \<in> table) \<noteq> (l \<in> table') \<longrightarrow> (\<exists>h. (fst l, h) \<in> owners \<and> outside foreign h))"

definition links_home ::
  "(ident \<times> ident option) set \<Rightarrow> (ident \<times> ident option) set \<Rightarrow> (ident \<times> ident) set \<Rightarrow> bool" where
  "links_home owners targets table \<longleftrightarrow>
     (\<forall>(x, y) \<in> table. \<exists>h. (x, h) \<in> owners \<and> (y, h) \<in> targets)"

lemma links_kept_refl [intro]: "links_kept owners foreign table table"
  by (simp add: links_kept_def)

lemma links_kept_trans:
  "\<lbrakk>links_kept owners foreign t1 t2; links_kept owners foreign t2 t3\<rbrakk> \<Longrightarrow> links_kept owners foreign t1 t3"
  unfolding links_kept_def by metis

lemma links_kept_mono: "\<lbrakk>links_kept owners foreign t t'; owners \<subseteq> owners'\<rbrakk> \<Longrightarrow> links_kept owners' foreign t t'"
  unfolding links_kept_def by blast

lemma links_home_mono:
  "\<lbrakk>links_home owners targets table; owners \<subseteq> owners'; targets \<subseteq> targets'; table' \<subseteq> table\<rbrakk> \<Longrightarrow>
     links_home owners' targets' table'"
  unfolding links_home_def by blast

lemma replace_links_change:
  assumes "replace_links table owner ids current = Inr (b, table')"
  shows "table' \<subseteq> table \<union> {owner} \<times> ids" and "(l \<in> table) \<noteq> (l \<in> table') \<Longrightarrow> fst l = owner"
  using assms by (auto simp: replace_links_def Let_def split: option.splits if_splits)

lemma replace_links_kept:
  assumes "replace_links table owner ids current = Inr (b, table')" "(owner, h) \<in> owners" "outside foreign h"
  shows "links_kept owners foreign table table'"
  unfolding links_kept_def using replace_links_change(2) [OF assms(1)] assms(2,3) by blast

lemma replace_links_home:
  assumes "replace_links table owner ids current = Inr (b, table')" "links_home owners targets table"
    and "(owner, h) \<in> owners" "\<And>i. i \<in> ids \<Longrightarrow> (i, h) \<in> targets"
  shows "links_home owners targets table'"
  using replace_links_change(1) [OF assms(1)] assms(2-4) unfolding links_home_def by fast

text \<open>The links of the rows of one application stay when the rows and the links do.\<close>

lemma owned_kept:
  assumes "rows_kept key app foreign rows rows'" "links_kept (homes key app rows') foreign t t'" "foreign a"
  shows "owned t' (key ` set (rows_of app a rows')) = owned t (key ` set (rows_of app a rows))"
proof -
  have eq: "rows_of app a rows' = rows_of app a rows" using assms(1,3) by (simp add: rows_kept_def)
  have "fst l \<notin> key ` set (rows_of app a rows')" if d: "(l \<in> t) \<noteq> (l \<in> t')" for l
  proof -
    obtain h where h: "(fst l, h) \<in> homes key app rows'" "outside foreign h"
      using assms(2) d unfolding links_kept_def by blast
    then have "h \<noteq> Some a" using assms(3) by (auto simp: outside_def)
    then show ?thesis using home_elsewhere [OF rows_kept_unique [OF assms(1)] h(1)] by blast
  qed
  then show ?thesis unfolding owned_def eq by blast
qed

section \<open>The data of an application\<close>

abbreviation agent_home :: "agent \<Rightarrow> ident option" where
  "agent_home g \<equiv> Some (agent_application_id g)"

definition app_data ::
  "sql_db \<Rightarrow> ident \<Rightarrow> permission list \<times> (role list \<times> (ident \<times> ident) set) \<times>
     (membership_row list \<times> (ident \<times> ident) set) \<times> agent list \<times> (ident \<times> ident) set" where
  "app_data db a =
     (let roles = rows_of role_application_id a (db_roles db);
          members = rows_of ms_application_id a (db_memberships db);
          agents = rows_of agent_home a (db_agents db) in
      (rows_of perm_application_id a (db_permissions db),
       (roles, owned (db_role_permissions db) (role_id ` set roles)),
       (members, owned (db_membership_roles db) (ms_id ` set members)),
       agents, owned (db_agent_roles db) (agent_id ` set agents)))"

abbreviation role_homes :: "sql_db \<Rightarrow> (ident \<times> ident option) set" where
  "role_homes db \<equiv> homes role_id role_application_id (db_roles db)"

abbreviation membership_homes :: "sql_db \<Rightarrow> (ident \<times> ident option) set" where
  "membership_homes db \<equiv> homes ms_id ms_application_id (db_memberships db)"

abbreviation agent_homes :: "sql_db \<Rightarrow> (ident \<times> ident option) set" where
  "agent_homes db \<equiv> homes agent_id agent_home (db_agents db)"

definition internal_home :: "role list \<Rightarrow> (ident \<times> ident option) set \<Rightarrow> bool" where
  "internal_home roles agents \<longleftrightarrow>
     (\<forall>r \<in> set roles. \<forall>g. role_agent_id r = Some g \<longrightarrow> (g, role_application_id r) \<in> agents)"

text \<open>Keys are unique, and links and internal roles stay inside an application.\<close>

definition homes_ok :: "sql_db \<Rightarrow> bool" where
  "homes_ok db \<longleftrightarrow>
     unique_col app_id (db_applications db) \<and> unique_col app_slug (db_applications db) \<and>
     unique_col perm_id (db_permissions db) \<and> unique_col role_id (db_roles db) \<and>
     unique_col ms_id (db_memberships db) \<and> unique_col agent_id (db_agents db) \<and>
     links_home (membership_homes db) (role_homes db) (db_membership_roles db) \<and>
     links_home (agent_homes db) (role_homes db) (db_agent_roles db) \<and>
     internal_home (db_roles db) (agent_homes db)"

definition confined :: "(ident \<Rightarrow> bool) \<Rightarrow> sql_db \<Rightarrow> sql_db \<Rightarrow> bool" where
  "confined foreign db db' \<longleftrightarrow>
     homes_ok db' \<and> (\<forall>a. foreign a \<longrightarrow> app_data db' a = app_data db a)"

lemma confinedI:
  assumes "rows_kept perm_id perm_application_id foreign (db_permissions db) (db_permissions db')"
    and "rows_kept role_id role_application_id foreign (db_roles db) (db_roles db')"
    and "rows_kept ms_id ms_application_id foreign (db_memberships db) (db_memberships db')"
    and "rows_kept agent_id agent_home foreign (db_agents db) (db_agents db')"
    and "links_kept (role_homes db') foreign (db_role_permissions db) (db_role_permissions db')"
    and "links_kept (membership_homes db') foreign (db_membership_roles db) (db_membership_roles db')"
    and "links_kept (agent_homes db') foreign (db_agent_roles db) (db_agent_roles db')"
    and "links_home (membership_homes db') (role_homes db') (db_membership_roles db')"
    and "links_home (agent_homes db') (role_homes db') (db_agent_roles db')"
    and "internal_home (db_roles db') (agent_homes db')"
    and "unique_col app_id (db_applications db')" "unique_col app_slug (db_applications db')"
  shows "confined foreign db db'"
proof -
  have "app_data db' a = app_data db a" if "foreign a" for a
    using owned_kept [OF assms(2,5) that] owned_kept [OF assms(3,6) that] owned_kept [OF assms(4,7) that]
      assms(1-4) that by (simp add: app_data_def Let_def rows_kept_def)
  then show ?thesis using assms by (simp add: confined_def homes_ok_def rows_kept_def)
qed

lemma confined_refl: "homes_ok db \<Longrightarrow> confined foreign db db"
  by (simp add: confined_def)

lemma confined_trans: "\<lbrakk>confined foreign db1 db2; confined foreign db2 db3\<rbrakk> \<Longrightarrow> confined foreign db1 db3"
  by (simp add: confined_def)

lemma confined_ok: "confined foreign db db' \<Longrightarrow> homes_ok db'"
  by (simp add: confined_def)

text \<open>An operation on other tables.\<close>

lemma confined_same:
  assumes "homes_ok db" "db_applications db' = db_applications db" "db_permissions db' = db_permissions db"
    "db_roles db' = db_roles db" "db_memberships db' = db_memberships db" "db_agents db' = db_agents db"
    "db_role_permissions db' = db_role_permissions db" "db_membership_roles db' = db_membership_roles db"
    "db_agent_roles db' = db_agent_roles db"
  shows "confined foreign db db'"
  using assms by (simp add: confined_def homes_ok_def app_data_def)

section \<open>Operations on one table\<close>

lemma homes_okD:
  assumes "homes_ok db"
  shows "unique_col app_id (db_applications db)" "unique_col app_slug (db_applications db)"
    "unique_col perm_id (db_permissions db)" "unique_col role_id (db_roles db)"
    "unique_col ms_id (db_memberships db)" "unique_col agent_id (db_agents db)"
    "links_home (membership_homes db) (role_homes db) (db_membership_roles db)"
    "links_home (agent_homes db) (role_homes db) (db_agent_roles db)"
    "internal_home (db_roles db) (agent_homes db)"
  using assms by (simp_all add: homes_ok_def)

lemmas kept_refl = homes_okD(3-6) [THEN rows_kept_refl]

lemma internal_home_append:
  "\<lbrakk>internal_home roles agents; \<And>g. role_agent_id r = Some g \<Longrightarrow> (g, role_application_id r) \<in> agents\<rbrakk> \<Longrightarrow>
     internal_home (roles @ [r]) agents"
  by (auto simp: internal_home_def)

lemma internal_home_mono: "\<lbrakk>internal_home roles agents; agents \<subseteq> agents'\<rbrakk> \<Longrightarrow> internal_home roles agents'"
  by (auto simp: internal_home_def)

lemma stored_Inr [simp]: "stored r = Inr x \<longleftrightarrow> r = Inr x"
  by (cases r) (auto simp: stored_def)

lemma dict_values_fold:
  "set (dict_values (fold (\<lambda>x d. if P x d then dict_set (k x) (v x) d else d) xs d)) \<subseteq>
     v ` set xs \<union> set (dict_values d)"
proof (induction xs arbitrary: d)
  case (Cons x xs)
  show ?case
  proof (cases "P x d")
    case True
    have "set (dict_values (dict_set (k x) (v x) d)) \<subseteq> insert (v x) (set (dict_values d))"
      using set_update_subset [of "k x" "v x" d] by (force simp: dict_values_def)
    then show ?thesis using Cons.IH [of "dict_set (k x) (v x) d"] True by auto
  qed (use Cons.IH [of d] in auto)
qed simp

lemma dict_values_fold_set:
  "set (dict_values (fold (\<lambda>x d. dict_set (k x) (v x) d) xs d)) \<subseteq> v ` set xs \<union> set (dict_values d)"
  using dict_values_fold [of "\<lambda>_ _. True"] by simp

lemma assignable_values:
  "r \<in> set (dict_values (sql_assignable_roles db tid aid names)) \<Longrightarrow>
     r \<in> set (db_roles db) \<and> role_application_id r = aid"
  unfolding sql_assignable_roles_def
  using dict_values_fold [of "\<lambda>r found. role_tenant_id r \<noteq> None \<or> dict_get found (role_name r) = None"
      role_name "\<lambda>r. r"] by (fastforce simp: dict_values_def)

lemma assignable_home:
  "i \<in> linked_ids (sql_assignable_roles db tid aid names) \<Longrightarrow> (i, aid) \<in> role_homes db"
  by (auto simp: linked_ids_def homes_def dest!: assignable_values)

lemma confined_create_permission:
  assumes "homes_ok db" "sql_create_permission db nid name aid description = Inr (x, db')" "outside foreign aid"
  shows "confined foreign db db'"
proof -
  obtain row ps where i: "tbl_insert permission_clash row (db_permissions db) = Inr ps"
    "db' = db\<lparr>db_permissions := ps\<rparr>" "perm_application_id row = aid"
    using assms(2) by (auto simp: sql_create_permission_def Let_def res_simps)
  have "rows_kept perm_id perm_application_id foreign (db_permissions db) ps"
    by (rule rows_kept_insert [OF i(1) homes_okD(3) [OF assms(1)]])
      (use assms(3) i(3) in \<open>simp_all add: permission_clash_def\<close>)
  then show ?thesis
    by (intro confinedI) (use homes_okD [OF assms(1)] kept_refl [OF assms(1)] i(2) in \<open>auto\<close>)
qed

lemma confined_new_role:
  assumes "homes_ok db" "tbl_insert role_clash row (db_roles db) = Inr rs"
    and "outside foreign (role_application_id row)" "role_agent_id row = None"
  shows "confined foreign db (db\<lparr>db_roles := rs\<rparr>)"
proof -
  have rs: "rs = db_roles db @ [row]" using assms(2) by (simp add: tbl_insert_Inr)
  have "rows_kept role_id role_application_id foreign (db_roles db) rs"
    by (rule rows_kept_insert [OF assms(2) homes_okD(4) [OF assms(1)]]) (use assms(3) in \<open>simp_all add: role_clash_def\<close>)
  moreover have "role_homes db \<subseteq> homes role_id role_application_id rs" by (auto simp: rs home_simps)
  moreover have "internal_home rs (agent_homes db)"
    unfolding rs by (rule internal_home_append) (use homes_okD(9) [OF assms(1)] assms(4) in auto)
  ultimately show ?thesis
    by (intro confinedI)
      (use homes_okD [OF assms(1)] kept_refl [OF assms(1)] in \<open>auto intro: links_home_mono\<close>)
qed

lemma confined_role_permissions:
  assumes "homes_ok db" "replace_links (db_role_permissions db) rid ids current = Inr (b, ls)"
    and "(rid, h) \<in> role_homes db" "outside foreign h"
  shows "confined foreign db (db\<lparr>db_role_permissions := ls\<rparr>)"
  by (intro confinedI)
    (use homes_okD [OF assms(1)] kept_refl [OF assms(1)] replace_links_kept [OF assms(2-4)] in \<open>auto\<close>)

lemma confined_set_role_permissions:
  assumes "homes_ok db" "sql_set_role_permissions db rid names = Inr db'"
    and "\<And>r. sql_get_role db rid = Some r \<Longrightarrow> outside foreign (role_application_id r)"
  shows "confined foreign db db'"
proof (cases "sql_get_role db rid")
  case None
  then have "db' = db" using assms(2) by (simp add: sql_set_role_permissions_def sql_get_role_def)
  then show ?thesis using confined_refl [OF assms(1)] by simp
next
  case (Some r)
  then have g: "tbl_get role_id (db_roles db) rid = Some r" by (simp add: sql_get_role_def)
  then obtain b ids ls where l: "replace_links (db_role_permissions db) rid ids None = Inr (b, ls)"
    "db' = db\<lparr>db_role_permissions := ls\<rparr>"
    using assms(2) by (auto simp: sql_set_role_permissions_def Let_def res_simps)
  have "(rid, role_application_id r) \<in> role_homes db"
    using tbl_get_Some [OF g] by (auto simp: homes_def)
  then show ?thesis unfolding l(2) by (rule confined_role_permissions [OF assms(1) l(1)]) (rule assms(3) [OF Some])
qed

lemma confined_new_membership:
  assumes "homes_ok db" "tbl_insert membership_clash row (db_memberships db) = Inr ms"
    and "outside foreign (ms_application_id row)"
  shows "confined foreign db (db\<lparr>db_memberships := ms\<rparr>)"
    and "(ms_id row, ms_application_id row) \<in> homes ms_id ms_application_id ms"
proof -
  have ms: "ms = db_memberships db @ [row]" using assms(2) by (simp add: tbl_insert_Inr)
  have "rows_kept ms_id ms_application_id foreign (db_memberships db) ms"
    by (rule rows_kept_insert [OF assms(2) homes_okD(5) [OF assms(1)]]) (use assms(3) in \<open>simp_all add: membership_clash_def\<close>)
  moreover have "membership_homes db \<subseteq> homes ms_id ms_application_id ms" by (auto simp: ms home_simps)
  ultimately show "confined foreign db (db\<lparr>db_memberships := ms\<rparr>)"
    by (intro confinedI)
      (use homes_okD [OF assms(1)] kept_refl [OF assms(1)] in \<open>auto intro: links_home_mono\<close>)
  show "(ms_id row, ms_application_id row) \<in> homes ms_id ms_application_id ms" by (simp add: ms home_simps)
qed

lemma confined_membership_roles:
  assumes "homes_ok db" "replace_links (db_membership_roles db) mid ids current = Inr (b, ls)"
    and "(mid, h) \<in> membership_homes db" "outside foreign h" "\<And>i. i \<in> ids \<Longrightarrow> (i, h) \<in> role_homes db"
  shows "confined foreign db (db\<lparr>db_membership_roles := ls\<rparr>)"
  by (intro confinedI)
    (use homes_okD [OF assms(1)] kept_refl [OF assms(1)] replace_links_kept [OF assms(2-4)]
      replace_links_home [OF assms(2) homes_okD(7) [OF assms(1)] assms(3,5)] in \<open>auto\<close>)

lemma confined_create_membership:
  assumes "homes_ok db" "sql_create_membership db nid tid aid uid status roles = Inr (x, db')" "outside foreign aid"
  shows "confined foreign db db'"
proof -
  define row where "row = \<lparr>ms_id = nid, ms_tenant_id = tid, ms_application_id = aid, ms_user_id = uid, ms_status = status\<rparr>"
  obtain ms b ls where i: "tbl_insert membership_clash row (db_memberships db) = Inr ms"
    and l: "(if roles = {} then Inr (False, db_membership_roles db)
       else replace_links (db_membership_roles db) nid
              (linked_ids (sql_assignable_roles db (Some tid) aid roles)) (Some {})) = Inr (b, ls)"
    and db': "db' = db\<lparr>db_memberships := ms, db_membership_roles := ls\<rparr>"
    using assms(2) by (auto simp: sql_create_membership_def Let_def res_simps row_def)
  let ?db1 = "db\<lparr>db_memberships := ms\<rparr>"
  have o: "outside foreign (ms_application_id row)" using assms(3) by (simp add: row_def)
  note c = confined_new_membership [OF assms(1) i o]
  show ?thesis
  proof (cases "roles = {}")
    case True
    then have "db' = db\<lparr>db_memberships := ms\<rparr>" using l by (auto simp: db')
    then show ?thesis using c(1) by simp
  next
    case False
    then have l': "replace_links (db_membership_roles ?db1) nid
        (linked_ids (sql_assignable_roles db (Some tid) aid roles)) (Some {}) = Inr (b, ls)" using l by simp
    have h: "(nid, aid) \<in> membership_homes ?db1" using c(2) by (simp add: row_def)
    have "confined foreign ?db1 (?db1\<lparr>db_membership_roles := ls\<rparr>)"
      by (rule confined_membership_roles [OF confined_ok [OF c(1)] l' h assms(3)]) (simp add: assignable_home)
    then show ?thesis using confined_trans [OF c(1)] by (simp add: db')
  qed
qed

lemma membership_row_home:
  "tbl_get ms_id (db_memberships db) mid = Some m \<Longrightarrow> (mid, ms_application_id m) \<in> membership_homes db"
  by (auto simp: homes_def dest: tbl_get_Some)

lemma confined_set_membership_roles:
  assumes "homes_ok db" "sql_set_membership_roles db mid names = Inr db'"
    and "\<And>m. tbl_get ms_id (db_memberships db) mid = Some m \<Longrightarrow> outside foreign (ms_application_id m)"
  shows "confined foreign db db'"
proof (cases "tbl_get ms_id (db_memberships db) mid")
  case None
  then have "db' = db" using assms(2) by (simp add: sql_set_membership_roles_def)
  then show ?thesis using confined_refl [OF assms(1)] by simp
next
  case (Some m)
  then obtain b ls where l: "replace_links (db_membership_roles db) mid
      (linked_ids (sql_assignable_roles db (Some (ms_tenant_id m)) (ms_application_id m) names)) None = Inr (b, ls)"
    "db' = db\<lparr>db_membership_roles := ls\<rparr>"
    using assms(2) by (auto simp: sql_set_membership_roles_def res_simps)
  show ?thesis unfolding l(2)
    by (rule confined_membership_roles [OF assms(1) l(1) membership_row_home [OF Some] assms(3) [OF Some]])
      (rule assignable_home)
qed

lemma confined_membership_status:
  assumes "homes_ok db" "(mid, h) \<in> membership_homes db" "outside foreign h"
  shows "confined foreign db
    (db\<lparr>db_memberships := tbl_update ms_id mid (\<lambda>m. m\<lparr>ms_status := s\<rparr>) (db_memberships db)\<rparr>)"
proof -
  have "rows_kept ms_id ms_application_id foreign (db_memberships db)
      (tbl_update ms_id mid (\<lambda>m. m\<lparr>ms_status := s\<rparr>) (db_memberships db))"
    by (rule rows_kept_update [OF homes_okD(5) [OF assms(1)] _ assms(2,3)]) simp
  then show ?thesis
    by (intro confinedI) (use homes_okD [OF assms(1)] kept_refl [OF assms(1)] in \<open>auto simp: home_simps\<close>)
qed

lemma confined_create_agent:
  assumes "homes_ok db" "sql_create_agent db nid tid aid name label status creator dn = Inr (x, db')" "\<not> foreign aid"
  shows "confined foreign db db'"
proof -
  obtain row gs where i: "tbl_insert agent_clash row (db_agents db) = Inr gs" "agent_application_id row = aid"
    "db' = db\<lparr>db_agents := gs\<rparr>"
    using assms(2) by (auto simp: sql_create_agent_def Let_def res_simps)
  have gs: "gs = db_agents db @ [row]" using i(1) by (simp add: tbl_insert_Inr)
  have "rows_kept agent_id agent_home foreign (db_agents db) gs"
    by (rule rows_kept_insert [OF i(1) homes_okD(6) [OF assms(1)]])
      (use assms(3) i(2) in \<open>simp_all add: agent_clash_def outside_def\<close>)
  moreover have "agent_homes db \<subseteq> homes agent_id agent_home gs" by (auto simp: gs home_simps)
  ultimately show ?thesis
    by (intro confinedI)
      (use homes_okD [OF assms(1)] kept_refl [OF assms(1)] i(3) in \<open>auto intro: links_home_mono internal_home_mono\<close>)
qed

lemma confined_agent_roles:
  assumes "homes_ok db" "replace_links (db_agent_roles db) gid ids current = Inr (b, ls)"
    and "(gid, h) \<in> agent_homes db" "outside foreign h" "\<And>i. i \<in> ids \<Longrightarrow> (i, h) \<in> role_homes db"
  shows "confined foreign db (db\<lparr>db_agent_roles := ls\<rparr>)"
  by (intro confinedI)
    (use homes_okD [OF assms(1)] kept_refl [OF assms(1)] replace_links_kept [OF assms(2-4)]
      replace_links_home [OF assms(2) homes_okD(8) [OF assms(1)] assms(3,5)] in \<open>auto\<close>)

lemma confined_set_agent_roles:
  assumes "homes_ok db" "sql_set_agent_roles db gid names = Inr db'"
    and "\<And>g. sql_get_agent_by_id db gid = Some g \<Longrightarrow> \<not> foreign (agent_application_id g)"
  shows "confined foreign db db'"
proof (cases "sql_get_agent_by_id db gid")
  case None
  then have "db' = db" using assms(2) by (simp add: sql_set_agent_roles_def sql_get_agent_by_id_def)
  then show ?thesis using confined_refl [OF assms(1)] by simp
next
  case (Some g)
  then have g: "tbl_get agent_id (db_agents db) gid = Some g" by (simp add: sql_get_agent_by_id_def)
  then obtain b ls where l: "replace_links (db_agent_roles db) gid
      (linked_ids (sql_assignable_roles db (Some (agent_tenant_id g)) (Some (agent_application_id g)) names)) None =
      Inr (b, ls)" "db' = db\<lparr>db_agent_roles := ls\<rparr>"
    using assms(2) by (auto simp: sql_set_agent_roles_def Let_def res_simps)
  have "(gid, agent_home g) \<in> agent_homes db" using tbl_get_Some [OF g] by (auto simp: homes_def)
  then show ?thesis unfolding l(2)
    by (rule confined_agent_roles [OF assms(1) l(1)]) (use assms(3) [OF Some] in \<open>auto simp: outside_def intro: assignable_home\<close>)
qed

section \<open>Tenant role overrides\<close>

lemma role_by_name_row:
  "role_by_name db aid tid name = Some r \<Longrightarrow> r \<in> set (db_roles db) \<and> role_application_id r = aid"
  by (auto simp: role_by_name_def named_roles_def dest!: find_Some_set)

lemma role_by_name_home: "role_by_name db aid tid name = Some r \<Longrightarrow> (role_id r, aid) \<in> role_homes db"
  by (auto simp: homes_def dest!: role_by_name_row)

lemma confined_set_override:
  assumes "homes_ok db" "set_tenant_role_override db nid tid aid name permissions = Inr db'" "\<not> foreign aid"
  shows "confined foreign db db'"
proof -
  have o: "outside foreign (Some aid)" using assms(3) by (simp add: outside_def)
  define ids where "ids = perm_id ` set (dict_values (active_permissions db (Some aid) (Some permissions)))"
  define row where "row = \<lparr>role_id = nid, role_name = name, role_scope = TENANT, role_tenant_id = Some tid,
    role_application_id = Some aid, role_description = (case role_by_name db (Some aid) None name of
       None \<Rightarrow> None | Some d \<Rightarrow> role_description d), role_is_system = False, role_agent_id = None\<rparr>"
  obtain q where r: "(case role_by_name db (Some aid) (Some tid) name of
        Some r \<Rightarrow> Inr (role_id r, db)
      | None \<Rightarrow> res_bind (tbl_insert role_clash row (db_roles db)) (\<lambda>rs. Inr (nid, db\<lparr>db_roles := rs\<rparr>))) =
      Inr q"
    and l: "(case q of (rid, db1) \<Rightarrow> res_bind (replace_links (db_role_permissions db1) rid ids None)
        (\<lambda>(_, ls). Inr (db1\<lparr>db_role_permissions := ls\<rparr>))) = Inr db'"
    using assms(2) unfolding set_tenant_role_override_def Let_def ids_def [symmetric] row_def [symmetric]
    by (elim res_bind_InrE) (rule that; assumption)
  obtain rid db1 where q: "q = (rid, db1)" by (cases q)
  have c: "confined foreign db db1 \<and> (rid, Some aid) \<in> role_homes db1"
  proof (cases "role_by_name db (Some aid) (Some tid) name")
    case (Some x)
    then show ?thesis using r confined_refl [OF assms(1)] role_by_name_home [OF Some] by (simp add: q)
  next
    case None
    then obtain rs where i: "tbl_insert role_clash row (db_roles db) = Inr rs" "rid = nid" "db1 = db\<lparr>db_roles := rs\<rparr>"
      using r by (auto simp: res_simps q)
    have "confined foreign db db1" unfolding i(3)
      by (rule confined_new_role [OF assms(1) i(1)]) (use o in \<open>simp_all add: row_def\<close>)
    moreover have "(rid, Some aid) \<in> role_homes db1"
      using i by (auto simp: tbl_insert_Inr home_simps row_def)
    ultimately show ?thesis by blast
  qed
  obtain b ls where ls: "replace_links (db_role_permissions db1) rid ids None = Inr (b, ls)"
    "db' = db1\<lparr>db_role_permissions := ls\<rparr>" using l by (auto simp: res_simps q)
  show ?thesis unfolding ls(2)
    by (rule confined_trans [OF conjunct1 [OF c]],
        rule confined_role_permissions [OF confined_ok [OF conjunct1 [OF c]] ls(1) conjunct2 [OF c] o])
qed

lemma hand_over_change:
  "(l \<in> table) \<noteq> (l \<in> hand_over override dflt table) \<Longrightarrow> (fst l, override) \<in> table"
  by (auto simp: hand_over_def Let_def split: option.splits)

lemma hand_over_home:
  assumes "links_home owners targets table" "(override, h) \<in> targets"
    and "\<And>y h'. \<lbrakk>(override, h) \<in> targets; (y, h') \<in> targets; y = override\<rbrakk> \<Longrightarrow> h' = h"
    and "\<And>d. dflt = Some d \<Longrightarrow> (d, h) \<in> targets"
  shows "links_home owners {t \<in> targets. fst t \<noteq> override \<or> dflt = Some override} (hand_over override dflt table)"
  unfolding links_home_def
proof safe
  fix x y
  assume l: "(x, y) \<in> hand_over override dflt table"
  have holder: "\<exists>h'. (x, h') \<in> owners \<and> h' = h" if "(x, override) \<in> table" for x
    using assms(1) assms(2,3) that unfolding links_home_def by blast
  consider "(x, y) \<in> table" "y \<noteq> override" | "(x, override) \<in> table" "dflt = Some y" "y \<noteq> override"
    using l by (auto simp: hand_over_def Let_def split: option.splits if_splits)
  then show "\<exists>h. (x, h) \<in> owners \<and> (y, h) \<in> {t \<in> targets. fst t \<noteq> override \<or> dflt = Some override}"
  proof cases
    case 1
    then show ?thesis using assms(1) unfolding links_home_def by fastforce
  next
    case 2
    then show ?thesis using holder [OF 2(1)] assms(4) [OF 2(2)] by auto
  qed
qed

lemma homes_function:
  "\<lbrakk>unique_col key rows; (k, h) \<in> homes key app rows; (k, h') \<in> homes key app rows\<rbrakk> \<Longrightarrow> h' = h"
  by (auto simp: homes_def dest: unique_col_eq)

lemma confined_delete_override:
  assumes "homes_ok db" "\<not> foreign aid"
  shows "confined foreign db (delete_tenant_role_override db tid aid name)"
proof (cases "role_by_name db (Some aid) (Some tid) name")
  case None
  then show ?thesis using confined_refl [OF assms(1)] by (simp add: delete_tenant_role_override_def)
next
  case (Some r)
  define d where "d = map_option role_id (role_by_name db (Some aid) None name)"
  define rs where "rs = tbl_delete role_id (role_id r) (db_roles db)"
  define rp where "rp = {l \<in> db_role_permissions db. fst l \<noteq> role_id r}"
  note row = role_by_name_row [OF Some]
  have db': "delete_tenant_role_override db tid aid name = db\<lparr>
      db_membership_roles := hand_over (role_id r) d (db_membership_roles db),
      db_agent_roles := hand_over (role_id r) d (db_agent_roles db), db_role_permissions := rp, db_roles := rs\<rparr>"
    by (simp add: delete_tenant_role_override_def Some d_def rs_def rp_def Let_def)
  have o: "outside foreign (Some aid)" using assms(2) by (simp add: outside_def)
  have h: "(role_id r, Some aid) \<in> role_homes db" using role_by_name_home [OF Some] .
  have u: "unique_col role_id rs" unfolding rs_def tbl_delete_def by (rule unique_col_filter [OF homes_okD(4) [OF assms(1)]])
  have rk: "rows_kept role_id role_application_id foreign (db_roles db) rs"
  proof -
    have "rows_of role_application_id a rs = rows_of role_application_id a (db_roles db)" if "foreign a" for a
    proof -
      have "role_id r \<notin> role_id ` set (rows_of role_application_id a (db_roles db))"
        by (rule home_elsewhere [OF homes_okD(4) [OF assms(1)] h]) (use o that in \<open>auto simp: outside_def\<close>)
      then show ?thesis
        by (auto simp: rows_of_def rs_def tbl_delete_def filter_filter image_iff intro!: filter_cong)
    qed
    then show ?thesis using u by (simp add: rows_kept_def)
  qed
  have hs: "homes role_id role_application_id rs = {t \<in> role_homes db. fst t \<noteq> role_id r}"
    unfolding rs_def by (rule homes_delete)
  have dh: "(x, Some aid) \<in> role_homes db" if "d = Some x" for x
    using that role_by_name_home [of db "Some aid" None name] by (auto simp: d_def)
  have only_home: "h' = Some aid" if "(role_id r, h') \<in> role_homes db" for h'
    by (rule homes_function [OF homes_okD(4) [OF assms(1)] h that])
  have dn: "d \<noteq> Some (role_id r)"
  proof
    assume "d = Some (role_id r)"
    then obtain q where q: "role_by_name db (Some aid) None name = Some q" "role_id q = role_id r"
      by (auto simp: d_def)
    have "q = r" using unique_col_eq [OF homes_okD(4) [OF assms(1)]] role_by_name_row [OF q(1)] row q(2) by blast
    then show False using q(1) Some by (auto simp: role_by_name_def named_roles_def dest!: find_Some_set)
  qed
  have lh: "links_home owners (homes role_id role_application_id rs) (hand_over (role_id r) d table)"
    if "links_home owners (role_homes db) table" for owners table
  proof -
    have "links_home owners {t \<in> role_homes db. fst t \<noteq> role_id r \<or> d = Some (role_id r)} (hand_over (role_id r) d table)"
      by (rule hand_over_home [OF that h _ dh]) (simp_all add: only_home)
    then show ?thesis by (simp add: hs dn)
  qed
  have lk: "links_kept owners foreign table (hand_over (role_id r) d table)"
    if home: "links_home owners (role_homes db) table" for owners table
    unfolding links_kept_def
  proof (intro allI impI)
    fix l
    assume "(l \<in> table) \<noteq> (l \<in> hand_over (role_id r) d table)"
    then have "(fst l, role_id r) \<in> table" by (rule hand_over_change)
    then obtain h' where "(fst l, h') \<in> owners" "(role_id r, h') \<in> role_homes db"
      using home unfolding links_home_def by blast
    then have "(fst l, Some aid) \<in> owners" using only_home by simp
    then show "\<exists>h. (fst l, h) \<in> owners \<and> outside foreign h" using o by auto
  qed
  note l = homes_okD(7,8) [OF assms(1)]
  have ch: "owned rp (role_id ` set (rows_of role_application_id a rs)) =
      owned (db_role_permissions db) (role_id ` set (rows_of role_application_id a (db_roles db)))" if "foreign a" for a
  proof -
    have e: "rows_of role_application_id a rs = rows_of role_application_id a (db_roles db)"
      using rk that by (simp add: rows_kept_def)
    have "role_id r \<notin> role_id ` set (rows_of role_application_id a (db_roles db))"
      by (rule home_elsewhere [OF homes_okD(4) [OF assms(1)] h]) (use o that in \<open>auto simp: outside_def\<close>)
    then have "role_id x \<noteq> role_id r" if "x \<in> set (rows_of role_application_id a (db_roles db))" for x
      using that by (metis imageI)
    then show ?thesis unfolding e by (auto simp: owned_def rp_def)
  qed
  have ih: "internal_home rs (agent_homes db)"
    using homes_okD(9) [OF assms(1)] by (auto simp: internal_home_def rs_def tbl_delete_def)
  have k: "rows_kept ms_id ms_application_id foreign (db_memberships db) (db_memberships db)"
    "rows_kept agent_id agent_home foreign (db_agents db) (db_agents db)" using kept_refl [OF assms(1)] by blast+
  have "app_data (delete_tenant_role_override db tid aid name) a = app_data db a" if "foreign a" for a
    using ch [OF that] owned_kept [OF k(1) lk [OF l(1)] that] owned_kept [OF k(2) lk [OF l(2)] that] rk that
    by (simp add: app_data_def Let_def db' rows_kept_def)
  moreover have "homes_ok (delete_tenant_role_override db tid aid name)"
    using homes_okD [OF assms(1)] u lh [OF l(1)] lh [OF l(2)] ih by (simp add: db' homes_ok_def)
  ultimately show ?thesis by (simp add: confined_def)
qed

end
