(* ===== verification/Admin_Client.thy ===== *)
theory Admin_Client
  imports Sdk_Calls Isolation
begin

text \<open>
  The client of the administration routes (\<^verbatim>\<open>authz_sdk/admin.py\<close>). A call is a function of the transport's
  state that returns a result and the new state; calls are composed by \<open>call_bind\<close>, which stops at the first
  exception as Python does. Arguments are Python values, because the command line passes what it reads from a
  file. What a response must look like is decided by the frozen dataclasses: exactly the fields they know.
\<close>

section \<open>Calls\<close>

type_synonym ('net, 'a) call = "'net \<Rightarrow> (sdk_error, 'a) result \<times> 'net"

definition call_return :: "'a \<Rightarrow> ('net, 'a) call" where
  "call_return x = (\<lambda>net. (Inr x, net))"

definition call_bind :: "('net, 'a) call \<Rightarrow> ('a \<Rightarrow> ('net, 'b) call) \<Rightarrow> ('net, 'b) call" where
  "call_bind m f = (\<lambda>net. case m net of (Inl e, net') \<Rightarrow> (Inl e, net') | (Inr x, net') \<Rightarrow> f x net')"

definition call_lift :: "(authz_error, 'a) result \<Rightarrow> ('net, 'a) call" where
  "call_lift r = (\<lambda>net. (lift_raise r, net))"

text \<open>\<^verbatim>\<open>try: m except Exception: h\<close>, and a \<^verbatim>\<open>for\<close> loop over calls.\<close>

definition call_rescue :: "('net, 'a) call \<Rightarrow> ('net, 'a) call \<Rightarrow> ('net, 'a) call" where
  "call_rescue m h = (\<lambda>net. case m net of (Inl _, net') \<Rightarrow> h net' | (Inr x, net') \<Rightarrow> (Inr x, net'))"

primrec call_each :: "('b \<Rightarrow> ('net, unit) call) \<Rightarrow> 'b list \<Rightarrow> ('net, unit) call" where
  "call_each f [] = call_return ()"
| "call_each f (x # xs) = call_bind (f x) (\<lambda>_. call_each f xs)"

section \<open>Requests\<close>

text \<open>\<^verbatim>\<open>_request\<close>: one attempt, no retries.\<close>

definition admin_finish :: "reply \<Rightarrow> (sdk_error, pyval) result" where
  "admin_finish r =
     (if rp_status r = 204 then Inr PNone
      else if 400 \<le> rp_status r then
        Inl (AuthzServiceError (rp_status r) (case rp_json r of Some v \<Rightarrow> v | None \<Rightarrow> PStr (rp_text r)))
      else (case rp_json r of Some v \<Rightarrow> Inr v | None \<Rightarrow> Inl JSONDecodeError))"

definition admin_message :: "string \<Rightarrow> string \<Rightarrow> pydict option \<Rightarrow> pydict option \<Rightarrow> sdk_request" where
  "admin_message method path body params =
     \<lparr>sr_method = method, sr_path = path, sr_body = body, sr_headers = [], sr_params = params\<rparr>"

definition admin_send :: "'net transport \<Rightarrow> sdk_request \<Rightarrow> ('net, pyval) call" where
  "admin_send http rq net =
     (case http net rq of
        (None, net') \<Rightarrow> (Inl AuthzClientError, net')
      | (Some r, net') \<Rightarrow> (admin_finish r, net'))"

abbreviation admin_json :: "'net transport \<Rightarrow> string \<Rightarrow> string \<Rightarrow> pydict \<Rightarrow> ('net, pyval) call" where
  "admin_json http method path body \<equiv> admin_send http (admin_message method path (Some body) None)"

abbreviation admin_bare :: "'net transport \<Rightarrow> string \<Rightarrow> string \<Rightarrow> ('net, pyval) call" where
  "admin_bare http method path \<equiv> admin_send http (admin_message method path None None)"

section \<open>Responses\<close>

text \<open>\<^verbatim>\<open>Cls(**data)\<close> of a dataclass with the required fields and the defaults of the others: the arguments, or
  \<^verbatim>\<open>TypeError\<close> when \<open>data\<close> is no mapping, misses a field or has one the class does not know.\<close>

definition dataclass_kwargs :: "string list \<Rightarrow> pydict \<Rightarrow> pyval \<Rightarrow> (authz_error, pydict) result" where
  "dataclass_kwargs required defaults data =
     (case data of
        PDict d \<Rightarrow>
          if list_all (\<lambda>(k, _). k \<in> set (required @ map fst defaults)) d \<and>
             list_all (\<lambda>k. dict_get d k \<noteq> None) required
          then Inr (d @ defaults) else Inl TypeError
      | _ \<Rightarrow> Inl TypeError)"

text \<open>\<^verbatim>\<open>[Cls(**r) for r in rows]\<close>.\<close>

definition rows_with :: "(pyval \<Rightarrow> (authz_error, 'a) result) \<Rightarrow> pyval \<Rightarrow> (authz_error, 'a list) result" where
  "rows_with decode v = res_bind (py_iter v) (res_map decode)"

definition decoded :: "('net, pyval) call \<Rightarrow> (pyval \<Rightarrow> (authz_error, 'a) result) \<Rightarrow> ('net, 'a) call" where
  "decoded m decode = call_bind m (\<lambda>v. call_lift (decode v))"

record sdk_tenant =
  xt_id :: pyval
  xt_slug :: pyval
  xt_name :: pyval
  xt_status :: pyval

definition sdk_tenant_of :: "pyval \<Rightarrow> (authz_error, sdk_tenant) result" where
  "sdk_tenant_of data =
     res_bind (dataclass_kwargs [''id'', ''slug'', ''name'', ''status''] [] data) (\<lambda>d.
       Inr \<lparr>xt_id = py_get d ''id'', xt_slug = py_get d ''slug'', xt_name = py_get d ''name'',
            xt_status = py_get d ''status''\<rparr>)"

record sdk_application =
  xa_id :: pyval
  xa_slug :: pyval
  xa_name :: pyval
  xa_status :: pyval
  xa_managed_by :: pyval

definition sdk_application_of :: "pyval \<Rightarrow> (authz_error, sdk_application) result" where
  "sdk_application_of data =
     res_bind (dataclass_kwargs [''id'', ''slug'', ''name'', ''status''] [(''managed_by'', PNone)] data) (\<lambda>d.
       Inr \<lparr>xa_id = py_get d ''id'', xa_slug = py_get d ''slug'', xa_name = py_get d ''name'',
            xa_status = py_get d ''status'', xa_managed_by = py_get d ''managed_by''\<rparr>)"

record sdk_role =
  xr_id :: pyval
  xr_name :: pyval
  xr_scope :: pyval
  xr_application_id :: pyval
  xr_tenant_id :: pyval
  xr_description :: pyval
  xr_is_system :: pyval

definition sdk_role_of :: "pyval \<Rightarrow> (authz_error, sdk_role) result" where
  "sdk_role_of data =
     res_bind (dataclass_kwargs [''id'', ''name'', ''scope'', ''application_id'', ''tenant_id'', ''description'', ''is_system'']
         [] data) (\<lambda>d.
       Inr \<lparr>xr_id = py_get d ''id'', xr_name = py_get d ''name'', xr_scope = py_get d ''scope'',
            xr_application_id = py_get d ''application_id'', xr_tenant_id = py_get d ''tenant_id'',
            xr_description = py_get d ''description'', xr_is_system = py_get d ''is_system''\<rparr>)"

record sdk_permission =
  xp_id :: pyval
  xp_name :: pyval
  xp_resource :: pyval
  xp_action :: pyval
  xp_application_id :: pyval
  xp_description :: pyval
  xp_deprecated :: pyval
  xp_critical :: pyval

definition sdk_permission_of :: "pyval \<Rightarrow> (authz_error, sdk_permission) result" where
  "sdk_permission_of data =
     res_bind (dataclass_kwargs [''id'', ''name'', ''resource'', ''action'', ''application_id'', ''description'']
         [(''deprecated'', PBool False), (''critical'', PBool False)] data) (\<lambda>d.
       Inr \<lparr>xp_id = py_get d ''id'', xp_name = py_get d ''name'', xp_resource = py_get d ''resource'',
            xp_action = py_get d ''action'', xp_application_id = py_get d ''application_id'',
            xp_description = py_get d ''description'', xp_deprecated = py_get d ''deprecated'',
            xp_critical = py_get d ''critical''\<rparr>)"

record sdk_membership =
  xm_id :: pyval
  xm_tenant_id :: pyval
  xm_application_id :: pyval
  xm_user_id :: pyval
  xm_roles :: pyval
  xm_status :: pyval

definition sdk_membership_of :: "pyval \<Rightarrow> (authz_error, sdk_membership) result" where
  "sdk_membership_of data =
     res_bind (dataclass_kwargs [''id'', ''tenant_id'', ''application_id'', ''user_id'', ''roles'', ''status'']
         [] data) (\<lambda>d.
       Inr \<lparr>xm_id = py_get d ''id'', xm_tenant_id = py_get d ''tenant_id'',
            xm_application_id = py_get d ''application_id'', xm_user_id = py_get d ''user_id'',
            xm_roles = py_get d ''roles'', xm_status = py_get d ''status''\<rparr>)"

record sdk_agent =
  xg_id :: pyval
  xg_tenant_id :: pyval
  xg_application_id :: pyval
  xg_name :: pyval
  xg_role :: pyval
  xg_status :: pyval
  xg_display_name :: pyval

definition sdk_agent_of :: "pyval \<Rightarrow> (authz_error, sdk_agent) result" where
  "sdk_agent_of data =
     res_bind (dataclass_kwargs [''id'', ''tenant_id'', ''application_id'', ''name'', ''role'', ''status'']
         [(''display_name'', PNone)] data) (\<lambda>d.
       Inr \<lparr>xg_id = py_get d ''id'', xg_tenant_id = py_get d ''tenant_id'',
            xg_application_id = py_get d ''application_id'', xg_name = py_get d ''name'',
            xg_role = py_get d ''role'', xg_status = py_get d ''status'',
            xg_display_name = py_get d ''display_name''\<rparr>)"

record sdk_api_key =
  xk_id :: pyval
  xk_name :: pyval
  xk_key_prefix :: pyval
  xk_scopes :: pyval
  xk_tenant_id :: pyval
  xk_status :: pyval
  xk_expires_at :: pyval
  xk_last_used_at :: pyval
  xk_rotates :: pyval
  xk_key :: pyval

definition sdk_api_key_of :: "pyval \<Rightarrow> (authz_error, sdk_api_key) result" where
  "sdk_api_key_of data =
     res_bind (dataclass_kwargs [''id'', ''name'', ''key_prefix'', ''scopes'', ''tenant_id'', ''status'', ''expires_at'', ''last_used_at'', ''rotates'']
         [(''key'', PNone)] data) (\<lambda>d.
       Inr \<lparr>xk_id = py_get d ''id'', xk_name = py_get d ''name'',
            xk_key_prefix = py_get d ''key_prefix'', xk_scopes = py_get d ''scopes'',
            xk_tenant_id = py_get d ''tenant_id'', xk_status = py_get d ''status'',
            xk_expires_at = py_get d ''expires_at'', xk_last_used_at = py_get d ''last_used_at'',
            xk_rotates = py_get d ''rotates'', xk_key = py_get d ''key''\<rparr>)"

record sdk_invitation =
  xi_id :: pyval
  xi_tenant_id :: pyval
  xi_application_id :: pyval
  xi_email :: pyval
  xi_roles :: pyval
  xi_status :: pyval
  xi_expires_at :: pyval
  xi_accepted_at :: pyval
  xi_token :: pyval

definition sdk_invitation_of :: "pyval \<Rightarrow> (authz_error, sdk_invitation) result" where
  "sdk_invitation_of data =
     res_bind (dataclass_kwargs [''id'', ''tenant_id'', ''application_id'', ''email'', ''roles'', ''status'', ''expires_at'', ''accepted_at'']
         [(''token'', PNone)] data) (\<lambda>d.
       Inr \<lparr>xi_id = py_get d ''id'', xi_tenant_id = py_get d ''tenant_id'',
            xi_application_id = py_get d ''application_id'', xi_email = py_get d ''email'',
            xi_roles = py_get d ''roles'', xi_status = py_get d ''status'',
            xi_expires_at = py_get d ''expires_at'', xi_accepted_at = py_get d ''accepted_at'',
            xi_token = py_get d ''token''\<rparr>)"

section \<open>Tenants and applications\<close>

definition admin_create_tenant ::
  "'net transport \<Rightarrow> pyval \<Rightarrow> pyval \<Rightarrow> pyval \<Rightarrow> ('net, sdk_tenant) call" where
  "admin_create_tenant http slug name status =
     decoded (admin_json http ''POST'' ''v1/tenants''
       [(''slug'', slug), (''name'', name), (''status'', status)]) sdk_tenant_of"

definition admin_get_tenant ::
  "'net transport \<Rightarrow> (pyval \<Rightarrow> string) \<Rightarrow> pyval \<Rightarrow> ('net, sdk_tenant) call" where
  "admin_get_tenant http repr ref =
     decoded (admin_bare http ''GET'' (''v1/tenants/'' @ py_str repr ref)) sdk_tenant_of"

definition admin_map_tenant_external ::
  "'net transport \<Rightarrow> (pyval \<Rightarrow> string) \<Rightarrow> pyval \<Rightarrow> pyval \<Rightarrow> pyval \<Rightarrow> pyval \<Rightarrow> ('net, pyval) call" where
  "admin_map_tenant_external http repr tid provider issuer external_tenant_id =
     admin_json http ''POST'' (''v1/tenants/'' @ py_str repr tid @ ''/mappings'')
       [(''provider'', provider), (''issuer'', issuer), (''external_tenant_id'', external_tenant_id)]"

definition admin_set_feature_flag ::
  "'net transport \<Rightarrow> (pyval \<Rightarrow> string) \<Rightarrow> pyval \<Rightarrow> pyval \<Rightarrow> pyval \<Rightarrow> pyval \<Rightarrow> ('net, pyval) call" where
  "admin_set_feature_flag http repr tid key value aid =
     admin_json http ''PUT'' (''v1/tenants/'' @ py_str repr tid @ ''/feature-flags'')
       [(''application_id'', aid), (''key'', key), (''value'', value)]"

definition admin_create_application ::
  "'net transport \<Rightarrow> pyval \<Rightarrow> pyval \<Rightarrow> pyval \<Rightarrow> ('net, sdk_application) call" where
  "admin_create_application http slug name status =
     decoded (admin_json http ''POST'' ''v1/applications''
       [(''slug'', slug), (''name'', name), (''status'', status)]) sdk_application_of"

definition admin_get_application ::
  "'net transport \<Rightarrow> (pyval \<Rightarrow> string) \<Rightarrow> pyval \<Rightarrow> ('net, sdk_application) call" where
  "admin_get_application http repr ref =
     decoded (admin_bare http ''GET'' (''v1/applications/'' @ py_str repr ref)) sdk_application_of"

section \<open>Roles and permissions\<close>

definition admin_create_role ::
  "'net transport \<Rightarrow> (pyval \<Rightarrow> string) \<Rightarrow> pyval \<Rightarrow> pyval \<Rightarrow> pyval \<Rightarrow> pyval \<Rightarrow> pyval \<Rightarrow> ('net, sdk_role) call" where
  "admin_create_role http repr aid name scope description tid =
     decoded (admin_json http ''POST'' (''v1/applications/'' @ py_str repr aid @ ''/roles'')
       [(''name'', name), (''scope'', scope), (''description'', description), (''tenant_id'', tid)]) sdk_role_of"

definition admin_list_roles ::
  "'net transport \<Rightarrow> (pyval \<Rightarrow> string) \<Rightarrow> pyval \<Rightarrow> ('net, sdk_role list) call" where
  "admin_list_roles http repr aid =
     decoded (admin_bare http ''GET'' (''v1/applications/'' @ py_str repr aid @ ''/roles'')) (rows_with sdk_role_of)"

definition admin_create_permission ::
  "'net transport \<Rightarrow> (pyval \<Rightarrow> string) \<Rightarrow> pyval \<Rightarrow> pyval \<Rightarrow> pyval \<Rightarrow> ('net, sdk_permission) call" where
  "admin_create_permission http repr aid name description =
     decoded (admin_json http ''POST'' (''v1/applications/'' @ py_str repr aid @ ''/permissions'')
       [(''name'', name), (''description'', description)]) sdk_permission_of"

definition admin_list_permissions ::
  "'net transport \<Rightarrow> (pyval \<Rightarrow> string) \<Rightarrow> pyval \<Rightarrow> ('net, sdk_permission list) call" where
  "admin_list_permissions http repr aid =
     decoded (admin_bare http ''GET'' (''v1/applications/'' @ py_str repr aid @ ''/permissions'')) (rows_with sdk_permission_of)"

definition admin_set_role_permissions ::
  "'net transport \<Rightarrow> (pyval \<Rightarrow> string) \<Rightarrow> pyval \<Rightarrow> pyval \<Rightarrow> ('net, pyval) call" where
  "admin_set_role_permissions http repr rid permissions =
     admin_json http ''PUT'' (''v1/roles/'' @ py_str repr rid @ ''/permissions'')
       [(''permissions'', permissions)]"

definition admin_get_role_permissions ::
  "'net transport \<Rightarrow> (pyval \<Rightarrow> string) \<Rightarrow> pyval \<Rightarrow> ('net, pyval list) call" where
  "admin_get_role_permissions http repr rid =
     decoded (admin_bare http ''GET'' (''v1/roles/'' @ py_str repr rid @ ''/permissions''))
       (\<lambda>data. res_bind (body_get data ''permissions'' PNone) (\<lambda>ps. py_iter (py_or ps (PList []))))"

section \<open>Memberships and agents\<close>

definition admin_create_membership ::
  "'net transport \<Rightarrow> (pyval \<Rightarrow> string) \<Rightarrow> pyval \<Rightarrow> pyval \<Rightarrow> pyval \<Rightarrow> pyval \<Rightarrow> pyval \<Rightarrow> ('net, sdk_membership) call" where
  "admin_create_membership http repr tid uid aid roles status =
     decoded (admin_json http ''POST'' (''v1/tenants/'' @ py_str repr tid @ ''/memberships'')
       [(''user_id'', uid), (''application_id'', aid), (''roles'', py_or roles (PList [])), (''status'', status)])
       sdk_membership_of"

definition admin_list_memberships ::
  "'net transport \<Rightarrow> (pyval \<Rightarrow> string) \<Rightarrow> pyval \<Rightarrow> pyval \<Rightarrow> pyval \<Rightarrow> ('net, sdk_membership list) call" where
  "admin_list_memberships http repr tid page page_size =
     decoded (admin_send http (admin_message ''GET'' (''v1/tenants/'' @ py_str repr tid @ ''/memberships'') None
       (Some [(''page'', page), (''page_size'', page_size)]))) (rows_with sdk_membership_of)"

definition admin_update_membership ::
  "'net transport \<Rightarrow> (pyval \<Rightarrow> string) \<Rightarrow> pyval \<Rightarrow> pyval \<Rightarrow> pyval \<Rightarrow> ('net, sdk_membership) call" where
  "admin_update_membership http repr mid roles status =
     decoded (admin_json http ''PATCH'' (''v1/memberships/'' @ py_str repr mid)
       ((if roles = PNone then [] else [(''roles'', roles)]) @ (if status = PNone then [] else [(''status'', status)])))
       sdk_membership_of"

definition admin_create_agent ::
  "'net transport \<Rightarrow> (pyval \<Rightarrow> string) \<Rightarrow> pyval \<Rightarrow> pyval \<Rightarrow> pyval \<Rightarrow> pyval \<Rightarrow> pyval \<Rightarrow> pyval \<Rightarrow> pyval \<Rightarrow> ('net, sdk_agent) call" where
  "admin_create_agent http repr tid aid name role status created_by display_name =
     decoded (admin_json http ''POST''
       (''v1/tenants/'' @ py_str repr tid @ ''/applications/'' @ py_str repr aid @ ''/agents'')
       [(''name'', name), (''display_name'', display_name), (''role'', role), (''status'', status),
        (''created_by_user_id'', created_by)]) sdk_agent_of"

definition admin_list_agents ::
  "'net transport \<Rightarrow> (pyval \<Rightarrow> string) \<Rightarrow> pyval \<Rightarrow> pyval \<Rightarrow> ('net, sdk_agent list) call" where
  "admin_list_agents http repr tid aid =
     decoded (admin_bare http ''GET''
       (''v1/tenants/'' @ py_str repr tid @ ''/applications/'' @ py_str repr aid @ ''/agents'')) (rows_with sdk_agent_of)"

definition admin_set_agent_roles ::
  "'net transport \<Rightarrow> (pyval \<Rightarrow> string) \<Rightarrow> pyval \<Rightarrow> pyval \<Rightarrow> ('net, pyval) call" where
  "admin_set_agent_roles http repr gid roles =
     admin_json http ''PUT'' (''v1/agents/'' @ py_str repr gid @ ''/roles'') [(''roles'', roles)]"

section \<open>API keys and invitations\<close>

definition admin_issue_api_key ::
  "'net transport \<Rightarrow> pyval \<Rightarrow> pyval \<Rightarrow> pyval \<Rightarrow> ('net, sdk_api_key) call" where
  "admin_issue_api_key http name scopes tid =
     decoded (admin_json http ''POST'' ''v1/api-keys''
       [(''name'', name), (''scopes'', scopes), (''tenant_id'', tid)]) sdk_api_key_of"

definition admin_list_api_keys ::
  "'net transport \<Rightarrow> ('net, sdk_api_key list) call" where
  "admin_list_api_keys http =
     decoded (admin_bare http ''GET'' ''v1/api-keys'') (rows_with sdk_api_key_of)"

definition admin_rotate_api_key ::
  "'net transport \<Rightarrow> (pyval \<Rightarrow> string) \<Rightarrow> pyval \<Rightarrow> ('net, sdk_api_key) call" where
  "admin_rotate_api_key http repr kid =
     decoded (admin_bare http ''POST'' (''v1/api-keys/'' @ py_str repr kid @ ''/rotate'')) sdk_api_key_of"

definition admin_revoke_api_key ::
  "'net transport \<Rightarrow> (pyval \<Rightarrow> string) \<Rightarrow> pyval \<Rightarrow> ('net, unit) call" where
  "admin_revoke_api_key http repr kid =
     call_bind (admin_bare http ''DELETE'' (''v1/api-keys/'' @ py_str repr kid)) (\<lambda>_. call_return ())"

definition admin_create_invitation ::
  "'net transport \<Rightarrow> (pyval \<Rightarrow> string) \<Rightarrow> pyval \<Rightarrow> pyval \<Rightarrow> pyval \<Rightarrow> pyval \<Rightarrow> pyval \<Rightarrow> ('net, sdk_invitation) call" where
  "admin_create_invitation http repr tid email aid roles ttl_days =
     decoded (admin_json http ''POST'' (''v1/tenants/'' @ py_str repr tid @ ''/invitations'')
       [(''email'', email), (''application_id'', aid), (''roles'', py_or roles (PList [])), (''ttl_days'', ttl_days)])
       sdk_invitation_of"

definition admin_list_invitations ::
  "'net transport \<Rightarrow> (pyval \<Rightarrow> string) \<Rightarrow> pyval \<Rightarrow> ('net, sdk_invitation list) call" where
  "admin_list_invitations http repr tid =
     decoded (admin_bare http ''GET'' (''v1/tenants/'' @ py_str repr tid @ ''/invitations'')) (rows_with sdk_invitation_of)"

definition admin_revoke_invitation ::
  "'net transport \<Rightarrow> (pyval \<Rightarrow> string) \<Rightarrow> pyval \<Rightarrow> ('net, unit) call" where
  "admin_revoke_invitation http repr iid =
     call_bind (admin_bare http ''DELETE'' (''v1/invitations/'' @ py_str repr iid)) (\<lambda>_. call_return ())"

definition admin_accept_invitation ::
  "'net transport \<Rightarrow> (pyval \<Rightarrow> string) \<Rightarrow> pyval \<Rightarrow> pyval \<Rightarrow> pyval \<Rightarrow> pyval \<Rightarrow> pyval \<Rightarrow> pyval \<Rightarrow> pyval \<Rightarrow> ('net, sdk_invitation) call" where
  "admin_accept_invitation http repr token provider issuer subject email external_tenant_id claims =
     decoded (admin_json http ''POST'' (''v1/invitations/'' @ py_str repr token @ ''/accept'')
       [(''provider'', provider), (''issuer'', issuer), (''subject'', subject), (''email'', email),
        (''external_tenant_id'', external_tenant_id), (''claims'', py_or claims (PDict []))]) sdk_invitation_of"

section \<open>Role upserts\<close>

text \<open>The first listed role with the name is reused, whichever tenant it belongs to.\<close>

definition upsert_role_with_permissions ::
  "'net transport \<Rightarrow> (pyval \<Rightarrow> string) \<Rightarrow> pyval \<Rightarrow> pyval \<Rightarrow> pyval \<Rightarrow> pyval \<Rightarrow> pyval \<Rightarrow> ('net, sdk_role) call" where
  "upsert_role_with_permissions http repr aid name permissions scope description =
     call_bind (admin_list_roles http repr aid) (\<lambda>roles.
     call_bind (case List.find (\<lambda>r. py_eq (xr_name r) name) roles of
         Some r \<Rightarrow> call_return r
       | None \<Rightarrow> admin_create_role http repr aid name scope description PNone) (\<lambda>role.
     call_bind (admin_set_role_permissions http repr (xr_id role) permissions) (\<lambda>_. call_return role)))"

section \<open>Lemmas\<close>

lemma admin_finish_finish: "admin_finish r = finish_reply r"
  by (simp add: admin_finish_def finish_reply_def)

lemma call_bind_Inr:
  "call_bind m f net = (Inr y, net') \<longleftrightarrow> (\<exists>x net1. m net = (Inr x, net1) \<and> f x net1 = (Inr y, net'))"
  by (auto simp: call_bind_def split: prod.splits sum.splits)

lemma call_lift_Inr: "call_lift r net = (Inr y, net') \<longleftrightarrow> r = Inr y \<and> net' = net"
  by (cases r) (auto simp: call_lift_def lift_raise_def)

lemma call_return_Inr: "call_return x net = (Inr y, net') \<longleftrightarrow> y = x \<and> net' = net"
  by (auto simp: call_return_def)

lemma decoded_Inr:
  "decoded m decode net = (Inr y, net') \<longleftrightarrow> (\<exists>v. m net = (Inr v, net') \<and> decode v = Inr y)"
  by (auto simp: decoded_def call_bind_Inr call_lift_Inr)

lemma admin_send_Inr:
  "admin_send http rq net = (Inr v, net') \<longleftrightarrow> (\<exists>r. http net rq = (Some r, net') \<and> admin_finish r = Inr v)"
  by (auto simp: admin_send_def split: prod.splits option.splits)

text \<open>A value is decoded when it is a success reply with a body.\<close>

lemma admin_finish_Inr: "admin_finish r = Inr v \<Longrightarrow> rp_status r < 400 \<and> (v = PNone \<or> rp_json r = Some v)"
  by (auto simp: admin_finish_def split: if_splits option.splits)

lemmas call_Inr = call_bind_Inr call_lift_Inr call_return_Inr decoded_Inr admin_send_Inr

end
