(* ===== verification/Isolation_Provisioning.thy ===== *)
theory Isolation_Provisioning
  imports Isolation
begin

text \<open>
  The declarative operations stay inside their application as well: \<^verbatim>\<open>apply_application_catalog\<close> and
  \<^verbatim>\<open>apply_tenant_state\<close> of \<open>Provisioning\<close>, loop by loop.
\<close>

section \<open>Loops\<close>

lemma res_fold_inv:
  assumes "res_fold f xs s = Inr s'" and "P s"
    and "\<And>x s s'. \<lbrakk>x \<in> set xs; P s; f x s = Inr s'\<rbrakk> \<Longrightarrow> P s'"
  shows "P s'"
  using assms
proof (induction xs arbitrary: s)
  case (Cons x xs)
  then obtain t where t: "f x s = Inr t" "res_fold f xs t = Inr s'" by (auto split: sum.splits)
  have "P t" by (rule Cons.prems(3) [OF _ Cons.prems(2) t(1)]) simp
  then show ?case by (rule Cons.IH [OF t(2)]) (rule Cons.prems(3); simp)
qed simp

lemma dict_get_pair: "dict_get d k = Some v \<Longrightarrow> (k, v) \<in> set d"
  by (auto dest: map_of_SomeD)

lemma dict_fold_value:
  "dict_get (fold (\<lambda>x d. dict_set (k x) (v x) d) xs []) g = Some y \<Longrightarrow> \<exists>x \<in> set xs. y = v x"
  using dict_get_in_values dict_values_fold_set [of k v xs "[]"] by (fastforce simp: dict_values_def)

lemma lift_store_InrD: "lift_store r = Inr x \<Longrightarrow> r = Inr x"
  by simp

lemma internal_home_update:
  "\<lbrakk>internal_home roles agents; \<And>r. role_agent_id (f r) = role_agent_id r \<and> role_application_id (f r) = role_application_id r\<rbrakk> \<Longrightarrow>
     internal_home (tbl_update key k f roles) agents"
  by (auto simp: internal_home_def in_tbl_update split: if_splits)

lemma confined_agents:
  assumes "homes_ok db" "rows_kept agent_id agent_home foreign (db_agents db) rows"
    and "agent_homes db \<subseteq> homes agent_id agent_home rows"
  shows "confined foreign db (db\<lparr>db_agents := rows\<rparr>)"
  by (intro confinedI)
    (use homes_okD [OF assms(1)] kept_refl [OF assms(1)] assms(2,3) in \<open>auto intro: links_home_mono internal_home_mono\<close>)

lemma confined_memberships:
  assumes "homes_ok db" "rows_kept ms_id ms_application_id foreign (db_memberships db) rows"
    and "membership_homes db \<subseteq> homes ms_id ms_application_id rows"
  shows "confined foreign db (db\<lparr>db_memberships := rows\<rparr>)"
  by (intro confinedI)
    (use homes_okD [OF assms(1)] kept_refl [OF assms(1)] assms(2,3) in \<open>auto intro: links_home_mono\<close>)

lemma confined_roles:
  assumes "homes_ok db" "rows_kept role_id role_application_id foreign (db_roles db) rows"
    and "role_homes db \<subseteq> homes role_id role_application_id rows" "internal_home rows (agent_homes db)"
  shows "confined foreign db (db\<lparr>db_roles := rows\<rparr>)"
  by (intro confinedI)
    (use homes_okD [OF assms(1)] kept_refl [OF assms(1)] assms(2-4) in \<open>auto intro: links_home_mono\<close>)

lemma confined_permissions:
  assumes "homes_ok db" "rows_kept perm_id perm_application_id foreign (db_permissions db) rows"
  shows "confined foreign db (db\<lparr>db_permissions := rows\<rparr>)"
  by (intro confinedI) (use homes_okD [OF assms(1)] kept_refl [OF assms(1)] assms(2) in \<open>auto\<close>)

text \<open>Rows named by key whose home is the one application.\<close>

lemma rows_kept_some:
  assumes "unique_col key rows" "\<And>r. key (f r) = key r \<and> app (f r) = app r" "outside foreign h"
    and "\<And>r. r \<in> set rows \<Longrightarrow> gone r \<Longrightarrow> (key r, h) \<in> homes key app rows"
  shows "rows_kept key app foreign rows (map (\<lambda>r. if gone r then f r else r) rows)"
proof (rule rows_kept_map [OF assms(1)])
  show "key (if gone r then f r else r) = key r \<and> app (if gone r then f r else r) = app r" for r
    using assms(2) by simp
  show "(if gone r then f r else r) = r" if "r \<in> set rows" "\<not> outside foreign (app r)" for r
  proof -
    have "app r = h" if "gone r"
      using homes_function [OF assms(1) assms(4) [OF \<open>r \<in> set rows\<close> that] homes_mem [OF \<open>r \<in> set rows\<close>]] .
    then show ?thesis using that assms(3) by auto
  qed
qed

section \<open>The catalog\<close>

lemma unique_new_application:
  assumes "unique_col app_id rows" "unique_col app_slug rows" "tbl_insert application_clash row rows = Inr rows'"
  shows "unique_col app_id rows'" and "unique_col app_slug rows'"
  using assms by (auto simp: tbl_insert_Inr unique_col_append application_clash_def)

lemma confined_catalog_application:
  assumes "homes_ok db" "catalog_application_row db nid slug name m = Inr (aid, db1)"
  shows "confined foreign db db1"
proof (cases "tbl_get app_slug (db_applications db) slug")
  case (Some a)
  let ?as = "tbl_update app_id (app_id a) (\<lambda>a. a\<lparr>app_name := name\<rparr>) (db_applications db)"
  have "db1 = db\<lparr>db_applications := ?as\<rparr>" using assms(2) Some by (auto simp: catalog_application_row_def)
  moreover have "unique_col app_id ?as" "unique_col app_slug ?as"
    using homes_okD(1,2) [OF assms(1)] by (auto intro!: unique_col_update)
  ultimately show ?thesis
    by (intro confinedI) (use homes_okD [OF assms(1)] kept_refl [OF assms(1)] in \<open>auto\<close>)
next
  case None
  then obtain row as where i: "tbl_insert application_clash row (db_applications db) = Inr as"
    "db1 = db\<lparr>db_applications := as\<rparr>"
    using assms(2) by (auto simp: catalog_application_row_def sql_create_application_def Let_def res_simps)
  have "unique_col app_id as" "unique_col app_slug as"
    by (rule unique_new_application [OF homes_okD(1,2) [OF assms(1)] i(1)])+
  then show ?thesis unfolding i(2)
    by (intro confinedI) (use homes_okD [OF assms(1)] kept_refl [OF assms(1)] in \<open>auto\<close>)
qed

definition named_home ::
  "('r \<Rightarrow> ident) \<Rightarrow> ('r \<Rightarrow> ident option) \<Rightarrow> ident \<Rightarrow> (string, ident) dict \<Rightarrow> 'r list \<Rightarrow> bool" where
  "named_home key app aid names rows \<longleftrightarrow> (\<forall>(n, i) \<in> set names. (i, Some aid) \<in> homes key app rows)"

lemma named_home_get: "\<lbrakk>named_home key app aid names rows; dict_get names n = Some i\<rbrakk> \<Longrightarrow> (i, Some aid) \<in> homes key app rows"
  unfolding named_home_def using dict_get_pair by fast

lemma named_home_set:
  assumes "named_home key app aid names rows" "homes key app rows \<subseteq> homes key app rows'"
    and "(i, Some aid) \<in> homes key app rows'"
  shows "named_home key app aid (dict_set n i names) rows'"
  using assms set_update_subset [of n i names] unfolding named_home_def by fast

lemma named_home_mono:
  "\<lbrakk>named_home key app aid names rows; homes key app rows \<subseteq> homes key app rows'\<rbrakk> \<Longrightarrow> named_home key app aid names rows'"
  unfolding named_home_def by fast

lemma by_name_pairs: "(n, r) \<in> set (by_name name xs) \<Longrightarrow> r \<in> set xs"
proof -
  assume "(n, r) \<in> set (by_name name xs)"
  then have "r \<in> set (dict_values (fold (\<lambda>x d. dict_set (name x) x d) xs []))"
    by (force simp: by_name_def dict_values_def)
  then show ?thesis using dict_values_fold_set [of name "\<lambda>x. x" xs "[]"] by (auto simp: dict_values_def)
qed

lemma named_home_by_name:
  assumes "set xs \<subseteq> set rows" "\<And>r. r \<in> set xs \<Longrightarrow> app r = Some aid"
  shows "named_home key app aid (map (\<lambda>(n, r). (n, key r)) (by_name name xs)) rows"
  using assms by (force simp: named_home_def homes_def dest: by_name_pairs)

definition permission_loop :: "(ident \<Rightarrow> bool) \<Rightarrow> sql_db \<Rightarrow> ident \<Rightarrow> permission list \<times> (string, ident) dict \<times> nat \<Rightarrow> bool" where
  "permission_loop foreign db aid s \<longleftrightarrow>
     (case s of (rows, existing, _) \<Rightarrow>
        rows_kept perm_id perm_application_id foreign (db_permissions db) rows \<and>
        named_home perm_id perm_application_id aid existing rows)"

lemma permission_step:
  assumes "catalog_permission_step pid aid item s = Inr s'" "permission_loop foreign db aid s" "\<not> foreign aid"
  shows "permission_loop foreign db aid s'"
proof -
  obtain name spec where it: "item = (name, spec)" by (cases item)
  obtain rows existing n where s: "s = (rows, existing, n)" by (cases s)
  have k: "rows_kept perm_id perm_application_id foreign (db_permissions db) rows"
    and h: "named_home perm_id perm_application_id aid existing rows"
    using assms(2) by (simp_all add: s permission_loop_def)
  have o: "outside foreign (Some aid)" using assms(3) by (simp add: outside_def)
  show ?thesis
  proof (cases "dict_get existing name")
    case (Some i)
    let ?rows = "tbl_update perm_id i (\<lambda>p. p\<lparr>perm_description := cp_description spec,
        perm_critical := cp_critical spec, perm_deprecated := False\<rparr>) rows"
    have s': "s' = (?rows, existing, n)" using assms(1) Some by (simp add: catalog_permission_step_def it s)
    have "rows_kept perm_id perm_application_id foreign rows ?rows"
      by (rule rows_kept_update [OF rows_kept_unique [OF k] _ named_home_get [OF h Some] o]) simp
    moreover have "homes perm_id perm_application_id ?rows = homes perm_id perm_application_id rows"
      by (rule homes_update) simp
    ultimately show ?thesis
      using rows_kept_trans [OF k] h by (simp add: s' permission_loop_def named_home_def)
  next
    case None
    then obtain row rows' where i: "tbl_insert permission_clash row rows = Inr rows'"
      "perm_id row = pid name" "perm_application_id row = Some aid"
      and s': "s' = (rows', dict_set name (pid name) existing, Suc n)"
      using assms(1) by (auto simp: catalog_permission_step_def it s Let_def res_simps)
    have "rows_kept perm_id perm_application_id foreign rows rows'"
      by (rule rows_kept_insert [OF i(1) rows_kept_unique [OF k]])
        (use o i(3) in \<open>simp_all add: permission_clash_def\<close>)
    moreover have "named_home perm_id perm_application_id aid (dict_set name (pid name) existing) rows'"
      by (rule named_home_set [OF h]) (use i in \<open>auto simp: tbl_insert_Inr home_simps\<close>)
    ultimately show ?thesis using rows_kept_trans [OF k] by (simp add: s' permission_loop_def)
  qed
qed

definition role_loop :: "(ident \<Rightarrow> bool) \<Rightarrow> sql_db \<Rightarrow> ident \<Rightarrow> role list \<times> (string, ident) dict \<times> nat \<times> nat \<Rightarrow> bool" where
  "role_loop foreign db aid s \<longleftrightarrow>
     (case s of (rows, roles, _, _) \<Rightarrow>
        rows_kept role_id role_application_id foreign (db_roles db) rows \<and>
        role_homes db \<subseteq> homes role_id role_application_id rows \<and> internal_home rows (agent_homes db) \<and>
        named_home role_id role_application_id aid roles rows)"

lemma role_step:
  assumes "catalog_role_step rid aid spec s = Inr s'" "role_loop foreign db aid s" "\<not> foreign aid"
  shows "role_loop foreign db aid s'"
proof -
  obtain rows roles n u where s: "s = (rows, roles, n, u)" by (cases s)
  have k: "rows_kept role_id role_application_id foreign (db_roles db) rows"
    and sub: "role_homes db \<subseteq> homes role_id role_application_id rows" and ih: "internal_home rows (agent_homes db)"
    and h: "named_home role_id role_application_id aid roles rows"
    using assms(2) by (simp_all add: s role_loop_def)
  have o: "outside foreign (Some aid)" using assms(3) by (simp add: outside_def)
  show ?thesis
  proof (cases "dict_get roles (cr_name spec)")
    case (Some i)
    let ?rows = "tbl_update role_id i (\<lambda>r. r\<lparr>role_description := cr_description spec\<rparr>) rows"
    have s': "s' = (?rows, roles, n, Suc u)" using assms(1) Some by (simp add: catalog_role_step_def s)
    have "rows_kept role_id role_application_id foreign rows ?rows"
      by (rule rows_kept_update [OF rows_kept_unique [OF k] _ named_home_get [OF h Some] o]) simp
    moreover have "homes role_id role_application_id ?rows = homes role_id role_application_id rows"
      by (rule homes_update) simp
    moreover have "internal_home ?rows (agent_homes db)" by (rule internal_home_update [OF ih]) simp
    ultimately show ?thesis
      using rows_kept_trans [OF k] h sub by (simp add: s' role_loop_def named_home_def)
  next
    case None
    then obtain row rows' where i: "tbl_insert role_clash row rows = Inr rows'" "role_agent_id row = None"
      "role_id row = rid (cr_name spec)" "role_application_id row = Some aid"
      and s': "s' = (rows', dict_set (cr_name spec) (rid (cr_name spec)) roles, Suc n, u)"
      using assms(1) by (auto simp: catalog_role_step_def s res_simps)
    have app: "rows' = rows @ [row]" using i(1) by (simp add: tbl_insert_Inr)
    have "rows_kept role_id role_application_id foreign rows rows'"
      by (rule rows_kept_insert [OF i(1) rows_kept_unique [OF k]]) (use o i(4) in \<open>simp_all add: role_clash_def\<close>)
    moreover have "named_home role_id role_application_id aid (dict_set (cr_name spec) (rid (cr_name spec)) roles) rows'"
      by (rule named_home_set [OF h]) (use i in \<open>auto simp: app home_simps\<close>)
    moreover have "internal_home rows' (agent_homes db)"
      unfolding app by (rule internal_home_append [OF ih]) (simp add: i)
    moreover have "role_homes db \<subseteq> homes role_id role_application_id rows'"
      using sub by (auto simp: app home_simps)
    ultimately show ?thesis using rows_kept_trans [OF k] by (simp add: s' role_loop_def)
  qed
qed

lemma res_bind_pairE:
  "\<lbrakk>res_bind r (\<lambda>(a, b). f a b) = Inr y; \<And>a b. \<lbrakk>r = Inr (a, b); f a b = Inr y\<rbrakk> \<Longrightarrow> P\<rbrakk> \<Longrightarrow> P"
  by (auto simp: res_bind_eq_Inr)

lemma res_bind_tripleE:
  "\<lbrakk>res_bind r (\<lambda>(a, b, c). f a b c) = Inr y; \<And>a b c. \<lbrakk>r = Inr (a, b, c); f a b c = Inr y\<rbrakk> \<Longrightarrow> P\<rbrakk> \<Longrightarrow> P"
  by (auto simp: res_bind_eq_Inr)

lemma res_bind_quadE:
  "\<lbrakk>res_bind r (\<lambda>(a, b, c, d). f a b c d) = Inr y; \<And>a b c d. \<lbrakk>r = Inr (a, b, c, d); f a b c d = Inr y\<rbrakk> \<Longrightarrow> P\<rbrakk> \<Longrightarrow> P"
  by (auto simp: res_bind_eq_Inr)

lemma case_prod_InrE: "\<lbrakk>(case p of (a, b) \<Rightarrow> f a b) = Inr y; \<And>a b. \<lbrakk>p = (a, b); f a b = Inr y\<rbrakk> \<Longrightarrow> P\<rbrakk> \<Longrightarrow> P"
  by (cases p) simp

lemma confined_catalog:
  assumes "homes_ok db" "apply_application_catalog db new slug name ps rs m = Inr (res, db')"
    and "\<And>aid db1. catalog_application_row db (new ''application'' slug) slug name m = Inr (aid, db1) \<Longrightarrow> \<not> foreign aid"
  shows "confined foreign db db'"
proof -
  have "catalog_issues ps rs = []" using assms(2) by (auto simp: apply_application_catalog_def split: if_splits)
  note r = assms(2) [unfolded apply_application_catalog_def Let_def this simp_thms if_False, THEN lift_store_InrD]
  show ?thesis using r
  proof (elim res_bind_quadE res_bind_tripleE res_bind_pairE case_prod_InrE, goal_cases)
    case (1 aid db1 rows existing created deprecated rows' role_rows roles n u)
    have na: "\<not> foreign aid" by (rule assms(3) [OF 1(1)])
    then have o: "outside foreign (Some aid)" by (simp add: outside_def)
    have c1: "confined foreign db db1" by (rule confined_catalog_application [OF assms(1) 1(1)])
    note ok = confined_ok [OF c1]
    have pl: "permission_loop foreign db1 aid (rows, existing, created)"
    proof (rule res_fold_inv [where P = "permission_loop foreign db1 aid", OF 1(2)], goal_cases)
      case 1
      show ?case using kept_refl [OF ok] by (auto simp: permission_loop_def intro!: named_home_by_name)
    next
      case (2 x s s')
      show ?case by (rule permission_step [OF 2(3,2) na])
    qed
    have k: "rows_kept perm_id perm_application_id foreign (db_permissions db1) rows"
      and h: "named_home perm_id perm_application_id aid existing rows"
      using pl by (simp_all add: permission_loop_def)
    have "rows_kept perm_id perm_application_id foreign rows rows'"
      using 1(3) unfolding deprecate_unlisted_def Let_def prod.inject
      by (elim conjE) (erule subst, rule rows_kept_some [OF rows_kept_unique [OF k] _ o],
        use h in \<open>auto simp: named_home_def\<close>)
    note pk = rows_kept_trans [OF k this]
    have rl: "role_loop foreign db1 aid (role_rows, roles, n, u)"
    proof (rule res_fold_inv [where P = "role_loop foreign db1 aid", OF 1(4)], goal_cases)
      case 1
      show ?case using kept_refl [OF ok] homes_okD(9) [OF ok]
        by (auto simp: role_loop_def named_roles_def intro!: named_home_by_name)
    next
      case (2 x s s')
      show ?case by (rule role_step [OF 2(3,2) na])
    qed
    obtain table where t: "res_fold (catalog_links_step existing roles
          (links (db_role_permissions db1) (dict_values (map (\<lambda>(n, r). (n, role_id r))
              (by_name role_name (named_roles db1 (Some aid) None)))))) rs (db_role_permissions db1) = Inr table"
      and db': "db' = db1\<lparr>db_permissions := rows', db_roles := role_rows, db_role_permissions := table\<rparr>"
      using 1(5) by (auto simp: res_bind_eq_Inr)
    have lk: "links_kept (homes role_id role_application_id role_rows) foreign (db_role_permissions db1) table"
    proof (rule res_fold_inv [where P = "links_kept (homes role_id role_application_id role_rows) foreign (db_role_permissions db1)", OF t])
      fix spec t1 t2
      assume kt: "links_kept (homes role_id role_application_id role_rows) foreign (db_role_permissions db1) t1"
        and step: "catalog_links_step existing roles (links (db_role_permissions db1)
          (dict_values (map (\<lambda>(n, r). (n, role_id r)) (by_name role_name (named_roles db1 (Some aid) None))))) spec t1 = Inr t2"
      obtain rid b ids cur where g: "dict_get roles (cr_name spec) = Some rid"
        and rl': "replace_links t1 rid ids cur = Inr (b, t2)"
        using step by (auto simp: catalog_links_step_def res_bind_eq_Inr split: option.splits if_splits)
      have "(rid, Some aid) \<in> homes role_id role_application_id role_rows"
        using rl named_home_get [OF _ g] by (auto simp: role_loop_def)
      then show "links_kept (homes role_id role_application_id role_rows) foreign (db_role_permissions db1) t2"
        using links_kept_trans [OF kt replace_links_kept [OF rl' _ o]] by blast
    qed auto
    have "confined foreign db1 db'"
      by (intro confinedI)
        (use homes_okD [OF ok] kept_refl [OF ok] pk rl lk in \<open>auto simp: db' role_loop_def intro: links_home_mono\<close>)
    then show ?case by (rule confined_trans [OF c1])
  qed
qed

section \<open>Members\<close>

definition member_loop ::
  "(ident \<Rightarrow> bool) \<Rightarrow> sql_db \<Rightarrow> ident \<Rightarrow> (ident, membership_row) dict \<Rightarrow> members_loop \<Rightarrow> bool" where
  "member_loop foreign db aid memberships s \<longleftrightarrow>
     confined foreign db (ml_db s) \<and> db_roles (ml_db s) = db_roles db \<and>
     (\<forall>(u, m) \<in> set memberships. (ms_id m, Some aid) \<in> membership_homes (ml_db s)) \<and>
     (\<forall>(mid, ids, _) \<in> set (ml_desired s).
        (mid, Some aid) \<in> membership_homes (ml_db s) \<and> (\<forall>i \<in> ids. (i, Some aid) \<in> role_homes db))"

lemma upsert_confined:
  assumes "homes_ok db" "upsert_identity db uid xid e ref email ext dn = Inr (r, db')"
  shows "confined foreign db db'" "db_roles db' = db_roles db" "db_memberships db' = db_memberships db"
proof -
  obtain us xs where "db' = db\<lparr>db_users := us, db_identities := xs\<rparr>"
  proof (cases e)
    case (Some i)
    then have "db' = db\<lparr>db_users := db_users db, db_identities := db_identities db\<rparr>"
      using assms(2) by (auto simp: upsert_identity_def split: option.splits)
    then show ?thesis by (rule that)
  next
    case None
    then show ?thesis using assms(2) that by (auto simp: upsert_identity_def Let_def res_simps)
  qed
  then show "confined foreign db db'" "db_roles db' = db_roles db" "db_memberships db' = db_memberships db"
    using assms(1) by (auto intro!: confined_same)
qed

lemma member_step:
  assumes "apply_member new tid aid role_rows identities memberships current im s = Inr s'"
    and "member_loop foreign db aid memberships s" "\<not> foreign aid"
    and roles: "\<And>n r. dict_get role_rows n = Some r \<Longrightarrow> (role_id r, Some aid) \<in> role_homes db"
  shows "member_loop foreign db aid memberships s'"
proof -
  obtain i m where im: "im = (i, m)" by (cases im)
  have o: "outside foreign (Some aid)" using assms(3) by (simp add: outside_def)
  obtain ident db1 where id: "(case dict_get identities (dm_user_ref m) of
          Some ident \<Rightarrow> Inr (ident, ml_db s)
        | None \<Rightarrow> res_bind (upsert_identity (ml_db s) (new ''user'' i) (new ''identity'' i) None
                    (dm_user_ref m) (dm_email m) None (dm_display_name m))
                  (\<lambda>((_, ident), db'). Inr (ident, db'))) = Inr (ident, db1)"
    using assms(1) by (auto simp: apply_member_def im Let_def res_bind_eq_Inr)
  define uid where "uid = xid_user_id ident"
  define ids where "ids = (\<lambda>n. role_id (the (dict_get role_rows n))) ` set (dm_roles m)"
  have known: "set (dm_roles m) \<subseteq> set (map fst role_rows)"
    and rest: "(case dict_get memberships uid of
        None \<Rightarrow> res_bind (tbl_insert membership_clash
            \<lparr>ms_id = new ''membership'' i, ms_tenant_id = tid, ms_application_id = Some aid,
             ms_user_id = uid, ms_status = dm_status m\<rparr> (db_memberships db1)) (\<lambda>ms.
          Inr \<lparr>ml_db = db1\<lparr>db_memberships := ms\<rparr>,
               ml_desired = ml_desired s @ [(new ''membership'' i, ids, {})],
               ml_users = insert uid (ml_users s),
               ml_counts = (ml_counts s)\<lparr>cc_created := Suc (cc_created (ml_counts s))\<rparr>\<rparr>)
      | Some row \<Rightarrow>
          (let current = dict_get_default current (ms_id row) {};
               status = (case tbl_get ms_id (db_memberships db1) (ms_id row) of
                           None \<Rightarrow> ms_status row | Some r \<Rightarrow> ms_status r) in
           Inr \<lparr>ml_db = db1\<lparr>db_memberships :=
                   tbl_update ms_id (ms_id row) (\<lambda>r. r\<lparr>ms_status := dm_status m\<rparr>) (db_memberships db1)\<rparr>,
                ml_desired = ml_desired s @ [(ms_id row, ids, current)],
                ml_users = insert uid (ml_users s),
                ml_counts = (if current \<noteq> ids \<or> status \<noteq> dm_status m
                  then (ml_counts s)\<lparr>cc_updated := Suc (cc_updated (ml_counts s))\<rparr> else ml_counts s)\<rparr>)) = Inr s'"
    using assms(1) unfolding apply_member_def im prod.case id res_bind_Inr Let_def uid_def ids_def
    by (simp_all split: if_splits)
  have h: "confined foreign db (ml_db s)" "db_roles (ml_db s) = db_roles db"
    "\<And>u m. (u, m) \<in> set memberships \<Longrightarrow> (ms_id m, Some aid) \<in> membership_homes (ml_db s)"
    "\<And>mid is c. (mid, is, c) \<in> set (ml_desired s) \<Longrightarrow>
       (mid, Some aid) \<in> membership_homes (ml_db s) \<and> (\<forall>i \<in> is. (i, Some aid) \<in> role_homes db)"
    using assms(2) by (auto simp: member_loop_def)
  have u: "confined foreign (ml_db s) db1 \<and> db_roles db1 = db_roles (ml_db s) \<and>
      db_memberships db1 = db_memberships (ml_db s)"
  proof (cases "dict_get identities (dm_user_ref m)")
    case None
    then obtain us where "upsert_identity (ml_db s) (new ''user'' i) (new ''identity'' i) None
        (dm_user_ref m) (dm_email m) None (dm_display_name m) = Inr (us, db1)"
      using id by (auto simp: res_bind_eq_Inr)
    from upsert_confined [OF confined_ok [OF h(1)] this] show ?thesis by simp
  qed (use id confined_refl [OF confined_ok [OF h(1)]] in simp)
  have c1: "confined foreign db db1" using confined_trans [OF h(1)] u by blast
  have roles_home: "(x, Some aid) \<in> role_homes db" if x: "x \<in> ids" for x
  proof -
    obtain n where n: "n \<in> set (dm_roles m)" "x = role_id (the (dict_get role_rows n))"
      using x by (auto simp: ids_def)
    have "dict_get role_rows n \<noteq> None" by (rule dict_keys_get [THEN iffD1, OF subsetD [OF known n(1)]])
    then show ?thesis using roles n(2) by auto
  qed
  show ?thesis
  proof (cases "dict_get memberships uid")
    case None
    then obtain row ms where i: "tbl_insert membership_clash row (db_memberships db1) = Inr ms"
      "ms_id row = new ''membership'' i" "ms_application_id row = Some aid"
      and s': "ml_db s' = db1\<lparr>db_memberships := ms\<rparr>" "ml_desired s' = ml_desired s @ [(new ''membership'' i, ids, {})]"
      using rest by (auto simp: res_bind_eq_Inr)
    have "outside foreign (ms_application_id row)" using o i(3) by simp
    note n = confined_new_membership [OF confined_ok [OF c1] i(1) this]
    have sub: "membership_homes (ml_db s) \<subseteq> membership_homes (ml_db s')"
      using i(1) u by (auto simp: s' tbl_insert_Inr home_simps)
    show ?thesis
      unfolding member_loop_def
      using confined_trans [OF c1 n(1)] n(2) i(2,3) h u roles_home sub by (auto simp: s')
  next
    case (Some row)
    then have s': "ml_db s' = db1\<lparr>db_memberships :=
        tbl_update ms_id (ms_id row) (\<lambda>r. r\<lparr>ms_status := dm_status m\<rparr>) (db_memberships db1)\<rparr>"
      "ml_desired s' = ml_desired s @ [(ms_id row, ids, dict_get_default current (ms_id row) {})]"
      using rest by (auto simp: Let_def)
    have rh: "(ms_id row, Some aid) \<in> membership_homes db1" using h(3) [OF dict_get_pair [OF Some]] u by simp
    have eq: "membership_homes (ml_db s') = membership_homes (ml_db s)"
      using u by (simp add: s' home_simps)
    show ?thesis
      unfolding member_loop_def
      using confined_trans [OF c1 confined_membership_status [OF confined_ok [OF c1] rh o]] rh h u roles_home eq
      by (auto simp: s')
  qed
qed

lemma confined_members:
  assumes "homes_ok db" "apply_members new tid aid members role_rows db = Inr (counts, db')" "\<not> foreign aid"
    and "\<And>n r. dict_get role_rows n = Some r \<Longrightarrow> (role_id r, Some aid) \<in> role_homes db"
  shows "confined foreign db db' \<and> db_roles db' = db_roles db"
proof -
  have o: "outside foreign (Some aid)" using assms(3) by (simp add: outside_def)
  define ms where "ms = fold (\<lambda>m d. dict_set (ms_user_id m) m d)
    (filter (\<lambda>m. ms_tenant_id m = tid \<and> ms_application_id m = Some aid) (db_memberships db)) []"
  have ms: "(ms_id m, Some aid) \<in> membership_homes db" if "(u, m) \<in> set ms" for u m
    using that dict_values_fold_set [of ms_user_id "\<lambda>m. m"
        "filter (\<lambda>m. ms_tenant_id m = tid \<and> ms_application_id m = Some aid) (db_memberships db)" "[]"]
    by (force simp: ms_def homes_def dict_values_def)
  show ?thesis
    using assms(2) unfolding apply_members_def Let_def ms_def [symmetric]
  proof (elim res_bind_InrE, goal_cases)
    case (1 s table)
    have l: "member_loop foreign db aid ms s"
    proof (rule res_fold_inv [where P = "member_loop foreign db aid ms", OF 1(1)], goal_cases)
      case 1
      show ?case using confined_refl [OF assms(1)] ms by (auto simp: member_loop_def)
    next
      case (2 x s s')
      show ?case by (rule member_step [OF 2(3,2) assms(3,4)])
    qed
    have c: "confined foreign db (ml_db s)" "db_roles (ml_db s) = db_roles db"
      using l by (simp_all add: member_loop_def)
    have t: "confined foreign db ((ml_db s)\<lparr>db_membership_roles := table\<rparr>)"
    proof (rule res_fold_inv [where P = "\<lambda>t. confined foreign db ((ml_db s)\<lparr>db_membership_roles := t\<rparr>)", OF 1(2)], goal_cases)
      case 1
      then show ?case using c(1) by simp
    next
      case (2 x t t')
      obtain mid ids cur b where x: "x = (mid, ids, cur)" and r: "replace_links t mid ids (Some cur) = Inr (b, t')"
        using 2(3) by (cases x) (auto simp: res_bind_eq_Inr)
      let ?db = "(ml_db s)\<lparr>db_membership_roles := t\<rparr>"
      have d: "(mid, Some aid) \<in> membership_homes ?db" "\<And>i. i \<in> ids \<Longrightarrow> (i, Some aid) \<in> role_homes ?db"
        using l 2(1) c(2) by (auto simp: member_loop_def x)
      have "confined foreign ?db (?db\<lparr>db_membership_roles := t'\<rparr>)"
        by (rule confined_membership_roles [OF confined_ok [OF 2(2)] _ d(1) o d(2)]) (use r in auto)
      then show ?case using confined_trans [OF 2(2)] by simp
    qed
    let ?gone = "\<lambda>r. (\<exists>(u, m) \<in> set ms. ms_id m = ms_id r \<and> u \<notin> ml_users s) \<and> ms_status r \<noteq> MEMBERSHIP_STATUS_DISABLED"
    let ?rows = "map (\<lambda>r. if ?gone r then r\<lparr>ms_status := MEMBERSHIP_STATUS_DISABLED\<rparr> else r) (db_memberships (ml_db s))"
    have k: "rows_kept ms_id ms_application_id foreign (db_memberships (ml_db s)) ?rows"
      by (rule rows_kept_some [OF homes_okD(5) [OF confined_ok [OF c(1)]] _ o])
        (use l in \<open>auto simp: member_loop_def\<close>)
    have "confined foreign ((ml_db s)\<lparr>db_membership_roles := table\<rparr>)
        (((ml_db s)\<lparr>db_membership_roles := table\<rparr>)\<lparr>db_memberships := ?rows\<rparr>)"
      by (rule confined_memberships [OF confined_ok [OF t]]) (use k in \<open>simp_all add: home_simps\<close>)
    note confined_trans [OF t this]
    moreover have "db' = ((ml_db s)\<lparr>db_membership_roles := table\<rparr>)\<lparr>db_memberships := ?rows\<rparr>"
      using 1(3) by simp
    ultimately show ?case using c(2) by simp
  qed
qed

section \<open>Agents\<close>

definition agent_row_loop ::
  "(ident \<Rightarrow> bool) \<Rightarrow> sql_db \<Rightarrow> ident \<Rightarrow> agent list \<times> agent_plan list \<Rightarrow> bool" where
  "agent_row_loop foreign db aid s \<longleftrightarrow>
     rows_kept agent_id agent_home foreign (db_agents db) (fst s) \<and>
     agent_homes db \<subseteq> homes agent_id agent_home (fst s) \<and>
     (\<forall>p \<in> set (snd s). (ap_agent p, Some aid) \<in> homes agent_id agent_home (fst s))"

lemma agent_row_step:
  assumes "apply_agent_row new tid aid existing ia s = Inr s'" "agent_row_loop foreign db aid s" "\<not> foreign aid"
    and "\<And>n g. dict_get existing n = Some g \<Longrightarrow> (agent_id g, Some aid) \<in> agent_homes db"
  shows "agent_row_loop foreign db aid s'"
proof -
  obtain i a where ia: "ia = (i, a)" by (cases ia)
  obtain rows plans where s: "s = (rows, plans)" by (cases s)
  have o: "outside foreign (Some aid)" using assms(3) by (simp add: outside_def)
  have k: "rows_kept agent_id agent_home foreign (db_agents db) rows"
    and sub: "agent_homes db \<subseteq> homes agent_id agent_home rows"
    and pl: "\<And>p. p \<in> set plans \<Longrightarrow> (ap_agent p, Some aid) \<in> homes agent_id agent_home rows"
    using assms(2) by (simp_all add: s agent_row_loop_def)
  show ?thesis
  proof (cases "dict_get existing (da_name a)")
    case None
    then obtain row rows' plan where i: "tbl_insert agent_clash row rows = Inr rows'" "agent_application_id row = aid"
      "s' = (rows', plans @ [plan])" "ap_agent plan = agent_id row"
      using assms(1) by (auto simp: apply_agent_row_def ia s res_bind_eq_Inr)
    have "rows_kept agent_id agent_home foreign rows rows'"
      by (rule rows_kept_insert [OF i(1) rows_kept_unique [OF k]]) (use o i(2) in \<open>simp_all add: agent_clash_def\<close>)
    then show ?thesis
      using rows_kept_trans [OF k] sub pl i by (auto simp: agent_row_loop_def tbl_insert_Inr home_simps)
  next
    case (Some g)
    let ?rows = "tbl_update agent_id (agent_id g)
      (\<lambda>r. r\<lparr>agent_status := da_status a, agent_display_name := da_display_name a\<rparr>) rows"
    obtain plan where i: "s' = (?rows, plans @ [plan])" "ap_agent plan = agent_id g"
      using assms(1) Some by (auto simp: apply_agent_row_def ia s Let_def)
    have h: "(agent_id g, Some aid) \<in> homes agent_id agent_home rows" using assms(4) [OF Some] sub by blast
    have "rows_kept agent_id agent_home foreign rows ?rows"
      by (rule rows_kept_update [OF rows_kept_unique [OF k] _ h o]) simp
    then show ?thesis
      using rows_kept_trans [OF k] sub pl h i by (auto simp: agent_row_loop_def home_simps)
  qed
qed

definition agent_role_loop ::
  "(ident \<Rightarrow> bool) \<Rightarrow> sql_db \<Rightarrow> ident \<Rightarrow> role list \<times> (agent_plan \<times> ident) list \<Rightarrow> bool" where
  "agent_role_loop foreign db aid s \<longleftrightarrow>
     rows_kept role_id role_application_id foreign (db_roles db) (fst s) \<and>
     role_homes db \<subseteq> homes role_id role_application_id (fst s) \<and> internal_home (fst s) (agent_homes db) \<and>
     (\<forall>(p, rid) \<in> set (snd s). (ap_agent p, Some aid) \<in> agent_homes db \<and>
        (rid, Some aid) \<in> homes role_id role_application_id (fst s))"

lemma agent_role_step:
  assumes "apply_agent_role new tid aid internal ip s = Inr s'" "agent_role_loop foreign db aid s" "\<not> foreign aid"
    and "(ap_agent (snd ip), Some aid) \<in> agent_homes db"
    and "\<And>g rid. dict_get internal g = Some rid \<Longrightarrow> (rid, Some aid) \<in> role_homes db"
  shows "agent_role_loop foreign db aid s'"
proof -
  obtain i plan where ip: "ip = (i, plan)" by (cases ip)
  obtain rows planned where s: "s = (rows, planned)" by (cases s)
  have o: "outside foreign (Some aid)" using assms(3) by (simp add: outside_def)
  have k: "rows_kept role_id role_application_id foreign (db_roles db) rows"
    and sub: "role_homes db \<subseteq> homes role_id role_application_id rows" and ih: "internal_home rows (agent_homes db)"
    and pl: "\<And>p r. (p, r) \<in> set planned \<Longrightarrow> (ap_agent p, Some aid) \<in> agent_homes db \<and>
        (r, Some aid) \<in> homes role_id role_application_id rows"
    using assms(2) by (auto simp: s agent_role_loop_def)
  show ?thesis
  proof (cases "dict_get internal (ap_agent plan)")
    case (Some rid)
    then have "s' = (rows, planned @ [(plan, rid)])" using assms(1) by (simp add: apply_agent_role_def ip s)
    then show ?thesis
      using k sub ih pl assms(4) assms(5) [OF Some] by (auto simp: agent_role_loop_def ip)
  next
    case None
    then obtain row rows' where i: "tbl_insert role_clash row rows = Inr rows'"
      "role_application_id row = Some aid" "role_agent_id row = Some (ap_agent plan)"
      "s' = (rows', planned @ [(plan, role_id row)])"
      using assms(1) by (auto simp: apply_agent_role_def ip s res_bind_eq_Inr)
    have app: "rows' = rows @ [row]" using i(1) by (simp add: tbl_insert_Inr)
    have "rows_kept role_id role_application_id foreign rows rows'"
      by (rule rows_kept_insert [OF i(1) rows_kept_unique [OF k]]) (use o i(2) in \<open>simp_all add: role_clash_def\<close>)
    moreover have "internal_home rows' (agent_homes db)"
      unfolding app by (rule internal_home_append [OF ih]) (use i assms(4) in \<open>simp add: ip\<close>)
    moreover have "role_homes db \<subseteq> homes role_id role_application_id rows'" using sub by (auto simp: app home_simps)
    ultimately show ?thesis
      using rows_kept_trans [OF k] pl assms(4) i by (auto simp: agent_role_loop_def app home_simps ip)
  qed
qed

definition agent_link_loop ::
  "(ident \<Rightarrow> bool) \<Rightarrow> sql_db \<Rightarrow> (ident \<times> ident) set \<times> (ident \<times> ident) set \<times> change_counts \<Rightarrow> bool" where
  "agent_link_loop foreign db s \<longleftrightarrow>
     (case s of (rp, ar, _) \<Rightarrow> confined foreign db (db\<lparr>db_role_permissions := rp, db_agent_roles := ar\<rparr>))"

lemma agent_link_step:
  assumes "apply_agent_links perm_rows cp cl (plan, rid) s = Inr s'" "agent_link_loop foreign db s" "\<not> foreign aid"
    and h: "(ap_agent plan, Some aid) \<in> agent_homes db" "(rid, Some aid) \<in> role_homes db"
  shows "agent_link_loop foreign db s'"
proof -
  obtain rp ar c where s: "s = (rp, ar, c)" by (cases s)
  have o: "outside foreign (Some aid)" using assms(3) by (simp add: outside_def)
  obtain ids cur1 cur2 b1 b2 rp' ar' c' where r: "replace_links rp rid ids cur1 = Inr (b1, rp')"
    "replace_links ar (ap_agent plan) {rid} cur2 = Inr (b2, ar')" and s': "s' = (rp', ar', c')"
    using assms(1) by (auto simp: apply_agent_links_def s res_bind_eq_Inr split: if_splits)
  let ?db = "db\<lparr>db_role_permissions := rp, db_agent_roles := ar\<rparr>"
  have c: "confined foreign db ?db" using assms(2) by (simp add: agent_link_loop_def s)
  let ?db1 = "?db\<lparr>db_role_permissions := rp'\<rparr>"
  have c1: "confined foreign db ?db1"
    by (rule confined_trans [OF c], rule confined_role_permissions [OF confined_ok [OF c] _ _ o]) (use r(1) h(2) in auto)
  have "confined foreign db (?db1\<lparr>db_agent_roles := ar'\<rparr>)"
    by (rule confined_trans [OF c1], rule confined_agent_roles [OF confined_ok [OF c1] _ _ o]) (use r(2) h in auto)
  then show ?thesis by (simp add: agent_link_loop_def s')
qed

lemma enumerated_mem: "(i, x) \<in> set (enumerated xs) \<Longrightarrow> x \<in> set xs"
  by (auto simp: enumerated_def dest: set_zip_rightD)

lemma confined_apply_agents:
  assumes "homes_ok db" "apply_agents new tid aid agents perm_rows db = Inr (counts, db')" "\<not> foreign aid"
  shows "confined foreign db db'"
proof -
  have o: "outside foreign (Some aid)" using assms(3) by (simp add: outside_def)
  define existing where "existing = by_name agent_name (sql_list_agents db tid aid)"
  define internal where "internal = fold (\<lambda>r d. dict_set (the (role_agent_id r)) (role_id r) d)
    (filter (\<lambda>r. role_agent_id r \<in> Some ` set (map agent_id (dict_values existing))) (db_roles db)) []"
  have ex: "(agent_id g, Some aid) \<in> agent_homes db" if "(n, g) \<in> set existing" for n g
    using by_name_pairs [OF that [unfolded existing_def]] by (auto simp: sql_list_agents_def homes_def)
  have int: "(rid, Some aid) \<in> role_homes db" if gr: "dict_get internal g = Some rid" for g rid
  proof -
    obtain r where r: "r \<in> set (db_roles db)" "rid = role_id r"
      "role_agent_id r \<in> Some ` agent_id ` set (dict_values existing)"
      using dict_fold_value [OF gr [unfolded internal_def]] by auto
    obtain e n where e: "(n, e) \<in> set existing" "role_agent_id r = Some (agent_id e)"
      using r(3) by (auto simp: dict_values_def)
    have "(agent_id e, role_application_id r) \<in> agent_homes db"
      using homes_okD(9) [OF assms(1)] r(1) e(2) by (simp add: internal_home_def)
    then have "role_application_id r = Some aid"
      using homes_function [OF homes_okD(6) [OF assms(1)] ex [OF e(1)]] by blast
    then show ?thesis using r by (auto simp: homes_def)
  qed
  show ?thesis
    using assms(2) unfolding apply_agents_def Let_def existing_def [symmetric] internal_def [symmetric]
  proof (elim res_bind_tripleE res_bind_pairE, goal_cases)
    case (1 rows plans roles planned rp ar c)
    have a: "agent_row_loop foreign db aid (rows, plans)"
    proof (rule res_fold_inv [where P = "agent_row_loop foreign db aid", OF 1(1)], goal_cases)
      case 1
      show ?case using kept_refl [OF assms(1)] by (simp add: agent_row_loop_def)
    next
      case (2 x s s')
      show ?case by (rule agent_row_step [OF 2(3,2) assms(3)]) (rule ex [OF dict_get_pair])
    qed
    let ?db1 = "db\<lparr>db_agents := rows\<rparr>"
    have c1: "confined foreign db ?db1"
      by (rule confined_agents [OF assms(1)]) (use a in \<open>simp_all add: agent_row_loop_def\<close>)
    have r: "agent_role_loop foreign ?db1 aid (roles, planned)"
    proof (rule res_fold_inv [where P = "agent_role_loop foreign ?db1 aid", OF 1(2)], goal_cases)
      case 1
      show ?case
        using kept_refl [OF confined_ok [OF c1]] homes_okD(9) [OF confined_ok [OF c1]] by (simp add: agent_role_loop_def)
    next
      case (2 x s s')
      have "(ap_agent (snd x), Some aid) \<in> agent_homes ?db1"
        using a enumerated_mem [of "fst x" "snd x"] 2(1) by (simp add: agent_row_loop_def)
      then show ?case by (rule agent_role_step [OF 2(3,2) assms(3)]) (simp add: int)
    qed
    let ?db2 = "?db1\<lparr>db_roles := roles\<rparr>"
    have c2: "confined foreign ?db1 ?db2"
      by (rule confined_roles [OF confined_ok [OF c1]]) (use r in \<open>simp_all add: agent_role_loop_def\<close>)
    have l: "agent_link_loop foreign ?db2 (rp, ar, c)"
    proof (rule res_fold_inv [where P = "agent_link_loop foreign ?db2", OF 1(3)], goal_cases)
      case 1
      show ?case using confined_refl [OF confined_ok [OF c2]] by (simp add: agent_link_loop_def)
    next
      case (2 x s s')
      obtain plan rid where x: "x = (plan, rid)" by (cases x)
      show ?case
        by (rule agent_link_step [OF 2(3) [unfolded x] 2(2) assms(3)])
          (use r 2(1) in \<open>auto simp: agent_role_loop_def x\<close>)
    qed
    let ?db3 = "?db2\<lparr>db_role_permissions := rp, db_agent_roles := ar\<rparr>"
    have c3: "confined foreign ?db2 ?db3" using l by (simp add: agent_link_loop_def)
    let ?gone = "\<lambda>g. (\<exists>(n, e) \<in> set existing. agent_id e = agent_id g \<and> n \<notin> da_name ` set agents) \<and>
      agent_status g \<noteq> STATUS_DISABLED"
    let ?rows = "map (\<lambda>g. if ?gone g then g\<lparr>agent_status := STATUS_DISABLED\<rparr> else g) rows"
    have "rows_kept agent_id agent_home foreign rows ?rows"
    proof (rule rows_kept_some [OF _ _ o])
      show "unique_col agent_id rows" using a by (simp add: agent_row_loop_def rows_kept_def)
      show "(agent_id g, Some aid) \<in> homes agent_id agent_home rows" if "?gone g" for g
        using that ex a by (force simp: agent_row_loop_def)
    qed simp
    then have "confined foreign ?db3 (?db3\<lparr>db_agents := ?rows\<rparr>)"
      by (intro confined_agents [OF confined_ok [OF c3]]) (simp_all add: home_simps)
    then have "confined foreign db (?db3\<lparr>db_agents := ?rows\<rparr>)"
      using confined_trans [OF confined_trans [OF c1 confined_trans [OF c2 c3]]] by blast
    moreover have "db' = ?db3\<lparr>db_agents := ?rows\<rparr>" using 1(4) by auto
    ultimately show ?case by simp
  qed
qed

section \<open>The state of a tenant\<close>

lemma confined_create_tenant:
  assumes "homes_ok db" "sql_create_tenant db nid slug name status = Inr (t, db')"
  shows "confined foreign db db'" "db_roles db' = db_roles db"
  using assms by (auto simp: sql_create_tenant_def Let_def res_simps intro!: confined_same)

lemma confined_tenant_state:
  assumes "homes_ok db" "apply_tenant_state db new aid slug b = Inr (res, db')" "\<not> foreign aid"
  shows "confined foreign db db'"
proof -
  define found where "found = tbl_get tenant_slug (db_tenants db) slug"
  define role_rows where "role_rows = sql_assignable_roles db (map_option tenant_id found) (Some aid)
    (set (concat (map dm_roles (ts_members b))))"
  have rr: "(role_id r, Some aid) \<in> role_homes db" if "dict_get role_rows n = Some r" for n r
    using assignable_values [of r db _ "Some aid"] dict_get_in_values [OF that] by (auto simp: role_rows_def homes_def)
  have "tenant_state_issues b role_rows (active_permissions db (Some aid)
      (Some (set (concat (map da_permissions (ts_agents b)))))) = []"
    using assms(2) by (auto simp: apply_tenant_state_def Let_def role_rows_def found_def split: if_splits)
  note r = assms(2) [unfolded apply_tenant_state_def Let_def found_def [symmetric] role_rows_def [symmetric] this
      simp_thms if_False, THEN lift_store_InrD]
  show ?thesis using r
  proof (elim res_bind_pairE, goal_cases)
    case (1 tid db1 members db2 agents db3)
    have c1: "confined foreign db db1 \<and> db_roles db1 = db_roles db"
    proof (cases found)
      case None
      then obtain t where "sql_create_tenant db (new ''tenant'' 0) slug (ts_name b) STATUS_ACTIVE = Inr (t, db1)"
        using 1(1) by (auto simp: res_bind_eq_Inr)
      from confined_create_tenant [OF assms(1) this] show ?thesis by simp
    qed (use 1(1) confined_refl [OF assms(1)] in simp)
    have c2: "confined foreign db1 db2 \<and> db_roles db2 = db_roles db1"
      by (rule confined_members [where aid = aid and foreign = foreign, OF confined_ok [OF conjunct1 [OF c1]] 1(2) assms(3)]) (use c1 rr in auto)
    have c3: "confined foreign db2 db3"
      by (rule confined_apply_agents [where aid = aid and foreign = foreign, OF confined_ok [OF conjunct1 [OF c2]] 1(3) assms(3)])
    have "db' = db3" using 1(4) by simp
    then show ?case using confined_trans [OF confined_trans [OF conjunct1 [OF c1] conjunct1 [OF c2]] c3] by simp
  qed
qed

end
