(* ===== verification/Managed_Runs.thy ===== *)
theory Managed_Runs
  imports Isolation_Provisioning
begin

text \<open>
  The database under any sequence of requests: administration routes by any callers, accepted invitations
  and context resolutions. Links never leave their application, the data of a managed application
  only changes by its manager's hand, and a manager is only lost by an audited release.
\<close>

section \<open>What a guarded route got\<close>

definition manager :: "sql_db \<Rightarrow> ident \<Rightarrow> string option" where
  "manager db aid = (case sql_get_application db aid of None \<Rightarrow> None | Some a \<Rightarrow> app_managed_by a)"

lemma guarded_Inr:
  "guarded st dependency valid h p db = Inr y \<Longrightarrow>
     \<exists>g x. management_guard_init p db st = Inr g \<and> mg_store g = db \<and> mg_caller g = caller_label p st \<and>
       dependency g = Inr x \<and> h x g = Inr y"
  by (auto simp: guarded_def res_bind_eq_Inr dest: management_guard_init_Inr)

text \<open>The applications that are somebody else's.\<close>

definition others :: "sql_db \<Rightarrow> string \<Rightarrow> ident \<Rightarrow> bool" where
  "others db caller a \<longleftrightarrow> a \<noteq> '''' \<and> (\<exists>m. manager db a = Some m \<and> m \<noteq> caller)"

lemma others_refused:
  assumes "mg_store g = db" "sql_get_application db (app_id a) = Some a" "guard_check g a = Inr x"
  shows "\<not> others db (mg_caller g) (app_id a)"
  using assms by (auto simp: others_def manager_def guard_check_def split: option.splits if_splits)

lemma managed_application_mine:
  assumes "homes_ok db" "mg_store g = db" "managed_application g ref = Inr a"
  shows "\<not> others db (mg_caller g) (app_id a)"
proof -
  obtain x where f: "sql_find_application db ref = Some x" "guard_check g x = Inr a"
    using assms(2,3)
    by (auto simp: managed_application_def guard_application_def require_application_def res_bind_eq_Inr
        split: option.splits)
  have "x = a" using f(2) by (auto simp: guard_check_def split: option.splits if_splits)
  then show ?thesis
    using others_refused [OF assms(2) find_application_by_id [OF homes_okD(1) [OF assms(1)] f(1)] f(2)] by simp
qed

lemma manager_application_mine:
  assumes "homes_ok db" "mg_store g = db" "manager_application g ref = Inr a"
  shows "\<not> others db (mg_caller g) (app_id a)"
proof -
  obtain x where f: "sql_find_application db ref = Some x" "guard_check g x = Inr a"
    using assms(2,3)
    by (auto simp: manager_application_def guard_manager_only_def require_application_def res_bind_eq_Inr
        split: option.splits if_splits)
  have "x = a" using f(2) by (auto simp: guard_check_def split: option.splits if_splits)
  then show ?thesis
    using others_refused [OF assms(2) find_application_by_id [OF homes_okD(1) [OF assms(1)] f(1)] f(2)] by simp
qed

lemma catalog_application_mine:
  assumes "homes_ok db" "mg_store g = db" "catalog_application g ref = Inr (Some a)"
  shows "\<not> others db (mg_caller g) (app_id a)" and "a \<in> set (db_applications db)"
proof -
  obtain x where f: "sql_find_application db ref = Some x" "guard_check g x = Inr a"
    using assms(2,3) by (auto simp: catalog_application_def res_bind_eq_Inr split: option.splits)
  have x: "x = a" using f(2) by (auto simp: guard_check_def split: option.splits if_splits)
  then show "\<not> others db (mg_caller g) (app_id a)"
    using others_refused [OF assms(2) find_application_by_id [OF homes_okD(1) [OF assms(1)] f(1)] f(2)] by simp
  show "a \<in> set (db_applications db)"
    using by_id_or_slug_mem f(1) x by (auto simp: sql_find_application_def)
qed

lemma guard_application_id_mine:
  assumes "mg_store g = db" "guard_application_id g h = Inr u"
  shows "outside (others db (mg_caller g)) h"
  using assms
  by (auto simp: guard_application_id_def outside_def others_def manager_def guard_check_def res_bind_eq_Inr
      split: option.splits if_splits)

lemma body_application_mine:
  assumes "homes_ok db" "mg_store g = db" "body_application g ref = Inr a"
  shows "outside (others db (mg_caller g)) (map_option app_id a)"
proof (cases a)
  case (Some x)
  then obtain r where "map_sum id Some (guard_application g r) = Inr (Some x)"
    using assms(3) by (auto simp: body_application_def split: option.splits if_splits)
  then have "guard_application g r = Inr x" by (cases "guard_application g r") auto
  then have "managed_application g r = Inr x" by (simp add: managed_application_def)
  then show ?thesis using managed_application_mine [OF assms(1,2)] Some by (simp add: outside_def)
qed (simp add: outside_def)

section \<open>Requests\<close>

text \<open>A row of the audit log is written under a new identifier, as the database generates it.\<close>

inductive admin_write :: "settings \<Rightarrow> principal \<Rightarrow> sql_db \<Rightarrow> sql_db \<Rightarrow> bool" for st p db where
  create_tenant: "create_tenant_route nid b1 p db = Inr (x1, db') \<Longrightarrow> admin_write st p db db'"
| update_tenant: "update_tenant_route ref b2 p db = Inr (x2, db') \<Longrightarrow> admin_write st p db db'"
| create_mapping: "create_tenant_mapping_route nid ref b3 p db = Inr (x3, db') \<Longrightarrow> admin_write st p db db'"
| set_flag: "set_feature_flag_route ref b4 p db = Inr (x4, db') \<Longrightarrow> admin_write st p db db'"
| set_mask: "set_permission_mask_route ref aref names p db = Inr (x5, db') \<Longrightarrow> admin_write st p db db'"
| create_application: "create_application_route nid b6 p db = Inr (x6, db') \<Longrightarrow> admin_write st p db db'"
| update_application: "update_application_route ref b7 p db = Inr (x7, db') \<Longrightarrow> admin_write st p db db'"
| release: "\<lbrakk>release_management_route st nid now rid ref p db = (x8, db'); nid \<notin> al_id ` set (db_audit db)\<rbrakk> \<Longrightarrow>
     admin_write st p db db'"
| claim: "\<lbrakk>claim_management_route st nid now rid ref p db = (x9, db'); nid \<notin> al_id ` set (db_audit db)\<rbrakk> \<Longrightarrow>
     admin_write st p db db'"
| create_role: "create_role_route st nid aref b10 p db = Inr (x10, db') \<Longrightarrow> admin_write st p db db'"
| role_permissions: "set_role_permissions_route st role names p db = Inr (x11, db') \<Longrightarrow> admin_write st p db db'"
| create_permission: "create_permission_route st nid aref b12 p db = Inr (x12, db') \<Longrightarrow> admin_write st p db db'"
| create_membership: "create_membership_route st nid ref b13 p db = Inr (x13, db') \<Longrightarrow> admin_write st p db db'"
| update_membership: "update_membership_route st mid b14 p db = (x14, db') \<Longrightarrow> admin_write st p db db'"
| create_agent: "create_agent_route st nid ref aref b15 p db = Inr (x15, db') \<Longrightarrow> admin_write st p db db'"
| agent_roles: "set_agent_roles_route st gid names p db = Inr (x16, db') \<Longrightarrow> admin_write st p db db'"
| create_user: "create_user_route uid xid b17 p db = Inr (x17, db') \<Longrightarrow> admin_write st p db db'"
| put_catalog: "put_catalog_route st new1 slug b18 p db = Inr (x18, db') \<Longrightarrow> admin_write st p db db'"
| put_state: "put_tenant_state_route st new2 slug tslug b19 p db = Inr (x19, db') \<Longrightarrow> admin_write st p db db'"
| put_override: "put_tenant_role_route st nid slug ref name names p db = Inr (x20, db') \<Longrightarrow> admin_write st p db db'"
| delete_override: "delete_tenant_role_route st slug ref name p db = Inr (x21, db') \<Longrightarrow> admin_write st p db db'"

inductive service_step :: "settings \<Rightarrow> sql_db \<Rightarrow> sql_db \<Rightarrow> bool" for st db where
  admin: "admin_write st p db db' \<Longrightarrow> service_step st db db'"
| accept: "accept_invitation_route hash now uid xid mid token b p (rows, db) = (r, rows', db') \<Longrightarrow> service_step st db db'"
| resolve: "resolve_context_handler st uid xid b p db = (r, db') \<Longrightarrow> service_step st db db'"

text \<open>The databases the service can reach from an empty one.\<close>

definition service_reachable :: "settings \<Rightarrow> sql_db \<Rightarrow> bool" where
  "service_reachable st db \<longleftrightarrow> (service_step st)\<^sup>*\<^sup>* empty_db db"

section \<open>Each request is confined\<close>

lemma confined_applications:
  assumes "homes_ok db" "unique_col app_id as" "unique_col app_slug as"
  shows "confined foreign db (db\<lparr>db_applications := as\<rparr>)"
  by (intro confinedI) (use homes_okD [OF assms(1)] kept_refl [OF assms(1)] assms(2,3) in \<open>auto\<close>)

lemma audit_row_written:
  "write_audit db nid now e rid = Inr db' \<Longrightarrow>
     \<exists>row. db' = db\<lparr>db_audit := db_audit db @ [row]\<rparr> \<and> ae_reason (al_entry row) = ae_reason e \<and>
       ae_application_id (al_entry row) = ae_application_id e \<and> ae_request (al_entry row) = ae_request e"
  by (auto simp: write_audit_def Let_def res_bind_eq_Inr tbl_insert_Inr)

lemma confined_audit: "\<lbrakk>homes_ok db; write_audit db nid now e rid = Inr db'\<rbrakk> \<Longrightarrow> confined foreign db db'"
  by (auto dest!: audit_row_written intro!: confined_same)

lemma confined_release:
  assumes "homes_ok db" "release_management_route st nid now rid ref p db = (x, db')"
  shows "confined foreign db db'"
proof (cases "require_application db ref")
  case (Inr a)
  let ?db1 = "sql_set_application_managed_by db (app_id a) None"
  have c: "confined foreign db ?db1"
    unfolding sql_set_application_managed_by_def
    by (rule confined_applications [OF assms(1)]) (use homes_okD(1,2) [OF assms(1)] in \<open>auto intro!: unique_col_update\<close>)
  show ?thesis
    using assms(2) Inr c confined_trans [OF c confined_audit [OF confined_ok [OF c]]]
    by (auto simp: release_management_route_def Let_def split: sum.splits)
qed (use assms confined_refl in \<open>auto simp: release_management_route_def\<close>)

lemma confined_claim:
  assumes "homes_ok db" "claim_management_route st nid now rid ref p db = (x, db')"
  shows "confined foreign db db'"
proof (cases "require_application db ref")
  case (Inr a)
  let ?db1 = "snd (sql_claim_application_management db (app_id a) (caller_label p st))"
  have c: "confined foreign db ?db1"
    unfolding sql_claim_application_management_def Let_def snd_conv
    by (rule confined_applications [OF assms(1)])
      (use homes_okD(1,2) [OF assms(1)] in \<open>auto intro!: unique_col_map\<close>)
  show ?thesis
    using assms(2) Inr c confined_trans [OF c confined_audit [OF confined_ok [OF c]]] confined_refl [OF assms(1)]
    by (auto simp: claim_management_route_def Let_def split: sum.splits option.splits prod.splits if_splits)
qed (use assms confined_refl in \<open>auto simp: claim_management_route_def\<close>)

lemma confined_update_membership:
  assumes "homes_ok db" "update_membership_route st mid b p db = (x, db')"
  shows "confined (others db (caller_label p st)) db db'"
proof (cases "guarded st (\<lambda>g. managed_membership g mid) (Inr ()) (\<lambda>m _. Inr m) p db")
  case (Inl e)
  then show ?thesis using assms confined_refl by (auto simp: update_membership_route_def)
next
  case (Inr m)
  let ?f = "others db (caller_label p st)"
  let ?db1 = "patch_membership_status db mid (mp_status b)"
  obtain g where g: "mg_store g = db" "mg_caller g = caller_label p st" "managed_membership g mid = Inr m"
    using guarded_Inr [OF Inr] by auto
  obtain row where row: "tbl_get ms_id (db_memberships db) mid = Some row"
    "guard_application_id g (ms_application_id row) = Inr ()"
    using g(3) by (auto simp: managed_membership_def g(1) sql_get_membership_by_id_def to_membership_def
        res_bind_eq_Inr split: option.splits)
  have o: "outside ?f (ms_application_id row)" using guard_application_id_mine [OF g(1) row(2)] g(2) by simp
  have c1: "confined ?f db ?db1"
  proof (cases "mp_status b")
    case (Some s)
    then show ?thesis
      using confined_membership_status [OF assms(1) membership_row_home [OF row(1)] o] by (simp add: patch_membership_status_def)
  qed (use confined_refl [OF assms(1)] in \<open>simp add: patch_membership_status_def\<close>)
  have m1: "outside ?f (ms_application_id r)" if "tbl_get ms_id (db_memberships ?db1) mid = Some r" for r
    using that o row(1) by (auto simp: patch_membership_status_def tbl_get_update split: option.splits)
  have c2: "confined ?f ?db1 db2" if "sql_set_membership_roles ?db1 mid names = Inr db2" for names db2
    by (rule confined_set_membership_roles [OF confined_ok [OF c1] that m1])
  show ?thesis
    using assms(2) Inr c1 confined_trans [OF c1 c2]
    by (auto simp: update_membership_route_def Let_def split: sum.splits option.splits)
qed

lemma provisioning_outcome_Inr [simp]: "provisioning_outcome e r = Inr x \<longleftrightarrow> r = Inr x"
  by (auto simp: provisioning_outcome_def split: sum.splits provisioning_error.splits)

lemma set_flag_only:
  assumes "sql_set_tenant_feature_flag db tid aid key val = Inr db'"
  obtains fs where "db' = db\<lparr>db_flags := fs\<rparr>"
proof (cases "list_ex (\<lambda>f. ff_tenant_id f = tid \<and> ff_application_id f = aid \<and> ff_key f = key) (db_flags db)")
  case True
  then have "db' = db\<lparr>db_flags := update_first (\<lambda>f. ff_tenant_id f = tid \<and> ff_application_id f = aid \<and> ff_key f = key)
      (\<lambda>f. f\<lparr>ff_value := val\<rparr>) (db_flags db)\<rparr>"
    using assms by (simp add: sql_set_tenant_feature_flag_def Let_def)
  then show thesis by (rule that)
next
  case False
  then obtain fs where "db\<lparr>db_flags := fs\<rparr> = db'"
    using assms unfolding sql_set_tenant_feature_flag_def Let_def by (auto simp only: if_False res_bind_eq_Inr sum.inject)
  then show thesis by (intro that) (rule sym)
qed

lemma no_slug:
  assumes "sql_find_application db slug = None"
  shows "\<forall>y \<in> set (db_applications db). app_slug y \<noteq> slug"
proof -
  have "filter (\<lambda>r. is_uuid slug \<and> app_id r = slug \<or> app_slug r = slug) (db_applications db) = []"
    using assms by (simp add: sql_find_application_def by_id_or_slug_def Let_def split: option.splits list.splits)
  then show ?thesis unfolding filter_empty_conv by blast
qed

lemma confined_put_catalog:
  assumes "homes_ok db" "put_catalog_route st new slug b p db = Inr (x, db')"
  shows "confined (others db (caller_label p st)) db db'"
proof -
  obtain g a where g: "mg_store g = db" "mg_caller g = caller_label p st" "catalog_application g slug = Inr a"
    and r: "apply_application_catalog db new (case a of None \<Rightarrow> slug | Some x \<Rightarrow> app_slug x) (ci_name b)
      (ci_permissions b) (ci_default_roles b) (Some (mg_caller g)) = Inr (x, db')"
    using guarded_Inr [OF assms(2) [unfolded put_catalog_route_def]] by auto
  show ?thesis
  proof (rule confined_catalog [OF assms(1) r])
    fix aid db1
    assume row: "catalog_application_row db (new ''application'' (case a of None \<Rightarrow> slug | Some x \<Rightarrow> app_slug x))
      (case a of None \<Rightarrow> slug | Some x \<Rightarrow> app_slug x) (ci_name b) (Some (mg_caller g)) = Inr (aid, db1)"
    show "\<not> others db (caller_label p st) aid"
    proof (cases a)
      case (Some y)
      note m = catalog_application_mine [OF assms(1) g(1) g(3) [unfolded Some]]
      have "tbl_get app_slug (db_applications db) (app_slug y) = Some y"
        by (rule tbl_get_unique [OF homes_okD(2) [OF assms(1)] m(2)])
      then have "aid = app_id y" using row Some by (simp add: catalog_application_row_def)
      then show ?thesis using m(1) g(2) by simp
    next
      case None
      have "sql_find_application db slug = None"
        using g(3) None by (auto simp: catalog_application_def g(1) res_bind_eq_Inr split: option.splits)
      then have "\<forall>y \<in> set (db_applications db). app_slug y \<noteq> slug"
        by (rule no_slug)
      then have "tbl_get app_slug (db_applications db) slug = None" by (auto simp: tbl_get_None)
      then have "aid \<notin> app_id ` set (db_applications db)"
        using row None
        by (auto simp: catalog_application_row_def sql_create_application_def Let_def res_bind_eq_Inr tbl_insert_Inr
            application_clash_def)
      then have "sql_get_application db aid = None" by (simp add: sql_get_application_def tbl_get_None)
      then show ?thesis by (simp add: others_def manager_def)
    qed
  qed
qed

text \<open>What every administration route keeps: the data of applications managed by somebody else.\<close>

lemma admin_write_confined:
  assumes "homes_ok db" "admin_write st p db db'"
  shows "confined (others db (caller_label p st)) db db'"
  using assms(2)
proof cases
  case (create_tenant nid b x)
  then show ?thesis using confined_create_tenant(1) [OF assms(1)] by (simp add: create_tenant_route_def)
next
  case (update_tenant ref b x)
  then show ?thesis
    using assms(1) by (auto simp: update_tenant_route_def res_bind_eq_Inr intro!: confined_same)
next
  case (create_mapping nid ref b x)
  then show ?thesis
    using assms(1)
    by (auto simp: create_tenant_mapping_route_def sql_create_tenant_identity_mapping_def Let_def res_bind_eq_Inr
        intro!: confined_same)
next
  case (set_flag ref b x)
  then obtain tid aid where "sql_set_tenant_feature_flag db tid aid (ffi_key b) (ffi_value b) = Inr db'"
    by (auto simp: set_feature_flag_route_def res_bind_eq_Inr)
  then obtain fs where "db' = db\<lparr>db_flags := fs\<rparr>" by (rule set_flag_only)
  then show ?thesis using assms(1) by (auto intro!: confined_same)
next
  case (set_mask ref aref names x)
  then show ?thesis
    using assms(1)
    by (auto simp: set_permission_mask_route_def sql_set_tenant_permission_mask_def res_bind_eq_Inr
        intro!: confined_same)
next
  case (create_application nid b x)
  then obtain row as where "tbl_insert application_clash row (db_applications db) = Inr as"
    "db' = db\<lparr>db_applications := as\<rparr>"
    by (auto simp: create_application_route_def sql_create_application_def Let_def res_bind_eq_Inr)
  then show ?thesis
    using confined_applications [OF assms(1) unique_new_application [OF homes_okD(1,2) [OF assms(1)]]] by blast
next
  case (update_application ref b x)
  then show ?thesis
    using homes_okD(1,2) [OF assms(1)]
    by (auto simp: update_application_route_def res_bind_eq_Inr patch_application_def
        intro!: confined_applications [OF assms(1)] unique_col_update)
next
  case (release nid now rid ref x)
  then show ?thesis using confined_release [OF assms(1)] by blast
next
  case (claim nid now rid ref x)
  then show ?thesis using confined_claim [OF assms(1)] by blast
next
  case (create_role nid aref b x)
  from guarded_Inr [OF this [unfolded create_role_route_def]]
  obtain g a scope where g: "mg_store g = db" "mg_caller g = caller_label p st" "managed_application g aref = Inr a"
    and r: "sql_create_role db nid (ri_name b) scope (Some (app_id a)) (ri_tenant_id b) (ri_description b) = Inr (x, db')"
    by (auto split: option.splits)
  have "\<not> others db (caller_label p st) (app_id a)" using managed_application_mine [OF assms(1) g(1,3)] g(2) by simp
  then show ?thesis
    using r by (auto simp: sql_create_role_def Let_def res_bind_eq_Inr outside_def intro!: confined_new_role [OF assms(1)])
next
  case (role_permissions role names x)
  from guarded_Inr [OF this [unfolded set_role_permissions_route_def]]
  obtain g r where g: "mg_store g = db" "mg_caller g = caller_label p st" "managed_role g role = Inr r"
    and s: "sql_set_role_permissions db role (set names) = Inr db'" by (auto simp: res_bind_eq_Inr)
  show ?thesis
  proof (rule confined_set_role_permissions [OF assms(1) s])
    fix q
    assume "sql_get_role db role = Some q"
    then have "guard_application_id g (role_application_id q) = Inr ()"
      using g(3) by (auto simp: managed_role_def g(1) res_bind_eq_Inr)
    then show "outside (others db (caller_label p st)) (role_application_id q)"
      using guard_application_id_mine [OF g(1)] g(2) by simp
  qed
next
  case (create_permission nid aref b x)
  from guarded_Inr [OF this [unfolded create_permission_route_def]]
  obtain g a where g: "mg_store g = db" "mg_caller g = caller_label p st" "managed_application g aref = Inr a"
    and r: "sql_create_permission db nid (pin_name b) (Some (app_id a)) (pin_description b) = Inr (x, db')" by auto
  show ?thesis
    by (rule confined_create_permission [OF assms(1) r])
      (use managed_application_mine [OF assms(1) g(1,3)] g(2) in \<open>simp add: outside_def\<close>)
next
  case (create_membership nid ref b x)
  from guarded_Inr [OF this [unfolded create_membership_route_def]]
  obtain g a t where g: "mg_store g = db" "mg_caller g = caller_label p st"
      "body_application g (mi_application_id b) = Inr a"
    and r: "sql_create_membership db nid t (map_option app_id a) (mi_user_id b) (mi_status b) (set (mi_roles b)) =
      Inr (x, db')" by (auto simp: res_bind_eq_Inr)
  show ?thesis
    by (rule confined_create_membership [OF assms(1) r]) (use body_application_mine [OF assms(1) g(1,3)] g(2) in simp)
next
  case (update_membership mid b x)
  then show ?thesis using confined_update_membership [OF assms(1)] by blast
next
  case (create_agent nid ref aref b x)
  from guarded_Inr [OF this [unfolded create_agent_route_def]]
  obtain g a t where g: "mg_store g = db" "mg_caller g = caller_label p st" "managed_application g aref = Inr a"
    and r: "sql_create_agent db nid t (app_id a) (gi_name b) (gi_role b) (gi_status b) (gi_created_by_user_id b)
      (gi_display_name b) = Inr (x, db')"
    by (auto simp: res_bind_eq_Inr)
  show ?thesis
    by (rule confined_create_agent [OF assms(1) r]) (use managed_application_mine [OF assms(1) g(1,3)] g(2) in simp)
next
  case (agent_roles gid names x)
  from guarded_Inr [OF this [unfolded set_agent_roles_route_def]]
  obtain g a where g: "mg_store g = db" "mg_caller g = caller_label p st" "managed_agent g gid = Inr a"
    and s: "sql_set_agent_roles db gid (set names) = Inr db'" by (auto simp: res_bind_eq_Inr)
  show ?thesis
  proof (rule confined_set_agent_roles [OF assms(1) s])
    fix q
    assume "sql_get_agent_by_id db gid = Some q"
    then have "guard_application_id g (Some (agent_application_id q)) = Inr ()"
      using g(3) by (auto simp: managed_agent_def g(1) res_bind_eq_Inr)
    then show "\<not> others db (caller_label p st) (agent_application_id q)"
      using guard_application_id_mine [OF g(1)] g(2) by (auto simp: outside_def)
  qed
next
  case (create_user uid xid b x)
  then show ?thesis
    using upsert_confined(1) [OF assms(1)]
    by (auto simp: create_user_route_def sql_upsert_user_from_identity_def res_bind_eq_Inr)
next
  case (put_catalog new slug b x)
  then show ?thesis using confined_put_catalog [OF assms(1)] by blast
next
  case (put_state new slug tslug b x)
  from guarded_Inr [OF this [unfolded put_tenant_state_route_def]]
  obtain g a where g: "mg_store g = db" "mg_caller g = caller_label p st" "manager_application g slug = Inr a"
    and r: "apply_tenant_state db new (app_id a) tslug b = Inr (x, db')" by auto
  show ?thesis
    by (rule confined_tenant_state [OF assms(1) r]) (use manager_application_mine [OF assms(1) g(1,3)] g(2) in simp)
next
  case (put_override nid slug ref name names x)
  from guarded_Inr [OF this [unfolded put_tenant_role_route_def]]
  obtain g a t where g: "mg_store g = db" "mg_caller g = caller_label p st" "manager_application g slug = Inr a"
    and r: "set_tenant_role_override db nid t (app_id a) name (set names) = Inr db'"
    by (auto simp: res_bind_eq_Inr split: option.splits)
  show ?thesis
    by (rule confined_set_override [OF assms(1) r]) (use manager_application_mine [OF assms(1) g(1,3)] g(2) in simp)
next
  case (delete_override slug ref name x)
  from guarded_Inr [OF this [unfolded delete_tenant_role_route_def]]
  obtain g a t where g: "mg_store g = db" "mg_caller g = caller_label p st" "manager_application g slug = Inr a"
    and r: "db' = delete_tenant_role_override db t (app_id a) name" by (auto simp: res_bind_eq_Inr)
  show ?thesis
    unfolding r
    by (rule confined_delete_override [OF assms(1)]) (use manager_application_mine [OF assms(1) g(1,3)] g(2) in simp)
qed

section \<open>Applications and the audit log\<close>

definition aside :: "sql_db \<Rightarrow> application list \<times> audit_row list" where
  "aside db = (db_applications db, db_audit db)"

lemma upsert_aside:
  "upsert_identity db uid xid e ref email ext dn = Inr (r, db') \<Longrightarrow> aside db' = aside db"
  by (auto simp: upsert_identity_def aside_def Let_def res_bind_eq_Inr split: option.splits)

lemma member_aside:
  assumes "apply_member new tid aid role_rows identities memberships current im s = Inr s'"
  shows "aside (ml_db s') = aside (ml_db s)"
  using assms unfolding apply_member_def Let_def
proof (elim case_prod_InrE res_bind_pairE, goal_cases)
  case (1 i m ident db1)
  have "aside db1 = aside (ml_db s)"
    using 1(2) by (auto simp: res_bind_eq_Inr split: option.splits dest: upsert_aside)
  moreover have "aside (ml_db s') = aside db1"
    using 1(3) by (auto simp: aside_def res_bind_eq_Inr split: option.splits if_splits)
  ultimately show ?case by simp
qed

lemma members_aside:
  assumes "apply_members new tid aid members role_rows db = Inr (counts, db')"
  shows "aside db' = aside db"
  using assms unfolding apply_members_def Let_def
proof (elim res_bind_InrE, goal_cases)
  case (1 s table)
  have "aside (ml_db s) = aside db"
    by (rule res_fold_inv [where P = "\<lambda>s. aside (ml_db s) = aside db", OF 1(1)]) (simp_all add: member_aside)
  then show ?case using 1(3) by (auto simp: aside_def)
qed

lemma agents_aside: "apply_agents new tid aid agents perm_rows db = Inr (counts, db') \<Longrightarrow> aside db' = aside db"
  unfolding apply_agents_def Let_def by (elim res_bind_tripleE res_bind_pairE) (auto simp: aside_def)

lemma tenant_state_aside:
  assumes "apply_tenant_state db new aid slug b = Inr (res, db')"
  shows "aside db' = aside db"
proof -
  have "tenant_state_issues b (sql_assignable_roles db (map_option tenant_id (tbl_get tenant_slug (db_tenants db) slug))
      (Some aid) (set (concat (map dm_roles (ts_members b))))) (active_permissions db (Some aid)
      (Some (set (concat (map da_permissions (ts_agents b)))))) = []"
    using assms by (auto simp: apply_tenant_state_def Let_def split: if_splits)
  note r = assms [unfolded apply_tenant_state_def Let_def this simp_thms if_False, THEN lift_store_InrD]
  show ?thesis using r
  proof (elim res_bind_pairE, goal_cases)
    case (1 tid db1 members db2 agents db3)
    have "aside db1 = aside db"
      using 1(1) by (auto simp: sql_create_tenant_def aside_def Let_def res_bind_eq_Inr split: option.splits)
    then show ?case using members_aside [OF 1(2)] agents_aside [OF 1(3)] 1(4) by simp
  qed
qed

lemma override_aside:
  "set_tenant_role_override db nid tid aid name names = Inr db' \<Longrightarrow> aside db' = aside db"
  unfolding set_tenant_role_override_def Let_def
  by (elim res_bind_InrE) (auto simp: aside_def res_bind_eq_Inr split: option.splits)

lemma catalog_aside:
  assumes "apply_application_catalog db new slug name ps rs m = Inr (res, db')"
  obtains aid db1 where "catalog_application_row db (new ''application'' slug) slug name m = Inr (aid, db1)"
    "aside db' = aside db1"
proof -
  have "catalog_issues ps rs = []" using assms by (auto simp: apply_application_catalog_def split: if_splits)
  note r = assms [unfolded apply_application_catalog_def Let_def this simp_thms if_False, THEN lift_store_InrD]
  show thesis using r
  proof (elim res_bind_quadE res_bind_tripleE res_bind_pairE case_prod_InrE, goal_cases)
    case (1 aid db1 rows existing created deprecated rows' role_rows roles n u)
    then show ?case by (intro that [OF 1(1)]) (auto simp: res_bind_eq_Inr aside_def)
  qed
qed

lemma membership_aside: "sql_create_membership db nid tid aid uid status roles = Inr (x, db') \<Longrightarrow> aside db' = aside db"
  unfolding sql_create_membership_def Let_def by (elim res_bind_InrE res_bind_pairE) (auto simp: aside_def)

lemma update_membership_aside: "update_membership_route st mid b p db = (x, db') \<Longrightarrow> aside db' = aside db"
proof -
  have s: "aside db2 = aside db1" if "sql_set_membership_roles db1 mid names = Inr db2" for db1 db2 names
    using that by (auto simp: sql_set_membership_roles_def aside_def res_bind_eq_Inr split: option.splits)
  have "aside (patch_membership_status db mid v) = aside db" for v
    by (simp add: patch_membership_status_def aside_def split: option.splits)
  then show "update_membership_route st mid b p db = (x, db') \<Longrightarrow> aside db' = aside db"
    by (auto simp: update_membership_route_def Let_def split: sum.splits option.splits dest!: s)
qed

section \<open>How a manager changes\<close>

text \<open>The application that had no manager got the caller, which is recorded unless the catalog call created
  it; or it lost its manager to a release, which is recorded with the manager and the caller.\<close>

definition claim_recorded :: "sql_db \<Rightarrow> sql_db \<Rightarrow> ident \<Rightarrow> string \<Rightarrow> bool" where
  "claim_recorded db db' aid caller \<longleftrightarrow>
     (\<exists>row. db_audit db' = db_audit db @ [row] \<and> ae_reason (al_entry row) = ''management_claimed'' \<and>
        ae_application_id (al_entry row) = Some aid \<and> ae_request (al_entry row) = [(''claimed_by'', PStr caller)])"

definition release_recorded :: "sql_db \<Rightarrow> sql_db \<Rightarrow> ident \<Rightarrow> string \<Rightarrow> bool" where
  "release_recorded db db' aid caller \<longleftrightarrow>
     (\<exists>row. db_audit db' = db_audit db @ [row] \<and> ae_reason (al_entry row) = ''management_released'' \<and>
        ae_application_id (al_entry row) = Some aid \<and>
        ae_request (al_entry row) = [(''managed_by'', opt_val (manager db aid)), (''released_by'', PStr caller)])"

definition manager_move :: "sql_db \<Rightarrow> sql_db \<Rightarrow> ident \<Rightarrow> string \<Rightarrow> bool" where
  "manager_move db db' aid caller \<longleftrightarrow>
     manager db aid = None \<and> manager db' aid = Some caller \<and>
       (sql_get_application db aid = None \<or> claim_recorded db db' aid caller) \<or>
     manager db' aid = None \<and> release_recorded db db' aid caller"

lemma manager_aside: "aside db' = aside db \<Longrightarrow> manager db' aid = manager db aid"
  by (simp add: aside_def manager_def sql_get_application_def)

lemma manager_update:
  assumes "\<And>a. app_id (f a) = app_id a" "\<And>a. app_managed_by (f a) = app_managed_by a"
  shows "manager (db\<lparr>db_applications := tbl_update app_id k f (db_applications db)\<rparr>) aid = manager db aid"
  using assms by (simp add: manager_def sql_get_application_def tbl_get_update split: option.splits)

lemma manager_append:
  assumes "tbl_insert application_clash row (db_applications db) = Inr as"
  shows "manager (db\<lparr>db_applications := as\<rparr>) aid =
      (if aid = app_id row then app_managed_by row else manager db aid)"
    and "sql_get_application db (app_id row) = None"
proof -
  have "app_id row \<notin> app_id ` set (db_applications db)" and as: "as = db_applications db @ [row]"
    using assms by (auto simp: tbl_insert_Inr application_clash_def)
  then show n: "sql_get_application db (app_id row) = None" by (simp add: sql_get_application_def tbl_get_None)
  show "manager (db\<lparr>db_applications := as\<rparr>) aid = (if aid = app_id row then app_managed_by row else manager db aid)"
    using n by (auto simp: as manager_def sql_get_application_def tbl_get_append split: option.splits)
qed

lemma required_application:
  assumes "homes_ok db" "require_application db ref = Inr a"
  shows "sql_get_application db (app_id a) = Some a"
  using find_application_by_id [OF homes_okD(1) [OF assms(1)]] assms(2)
  by (simp add: require_application_def split: option.splits)

lemma write_audit_fresh:
  assumes "nid \<notin> al_id ` set (db_audit db)"
  obtains row where "write_audit db nid now e rid = Inr (db\<lparr>db_audit := db_audit db @ [row]\<rparr>)"
    "ae_reason (al_entry row) = ae_reason e" "ae_application_id (al_entry row) = ae_application_id e"
    "ae_request (al_entry row) = ae_request e"
proof -
  define row where "row = \<lparr>al_id = nid, al_entry = e\<lparr>ae_created_at := now, ae_request_id :=
      (case rid of None \<Rightarrow> ae_request_id e | Some r \<Rightarrow> if r = '''' then ae_request_id e else Some r)\<rparr>\<rparr>"
  have "tbl_insert (\<lambda>new r. al_id r = al_id new) row (db_audit db) = Inr (db_audit db @ [row])"
    using assms by (auto simp: tbl_insert_Inr row_def)
  then have "write_audit db nid now e rid = Inr (db\<lparr>db_audit := db_audit db @ [row]\<rparr>)"
    by (simp add: write_audit_def Let_def row_def)
  then show thesis by (rule that) (simp_all add: row_def)
qed

lemma release_moves:
  assumes "homes_ok db" "release_management_route st nid now rid ref p db = (x, db')" "nid \<notin> al_id ` set (db_audit db)"
  shows "manager db' aid = manager db aid \<or> manager_move db db' aid (caller_label p st)"
    and "\<exists>more. db_audit db' = db_audit db @ more"
proof -
  have "(manager db' aid = manager db aid \<or> manager_move db db' aid (caller_label p st)) \<and>
      (\<exists>more. db_audit db' = db_audit db @ more)"
  proof (cases "require_application db ref")
    case (Inr a)
    let ?db1 = "sql_set_application_managed_by db (app_id a) None"
    have g: "sql_get_application db (app_id a) = Some a" by (rule required_application [OF assms(1) Inr])
    have fresh: "nid \<notin> al_id ` set (db_audit ?db1)" using assms(3) by (simp add: sql_set_application_managed_by_def)
    define e where "e = management_entry ''management_released'' ''release'' (app_id a)
        [(''managed_by'', opt_val (app_managed_by a)), (''released_by'', PStr (caller_label p st))]
        [(''managed_by'', PNone)]"
    obtain row where w: "write_audit ?db1 nid now e rid = Inr (?db1\<lparr>db_audit := db_audit ?db1 @ [row]\<rparr>)"
      and row: "ae_reason (al_entry row) = ae_reason e" "ae_application_id (al_entry row) = ae_application_id e"
        "ae_request (al_entry row) = ae_request e"
      by (rule write_audit_fresh [OF fresh])
    have db': "db' = ?db1\<lparr>db_audit := db_audit db @ [row]\<rparr>"
      using assms(2) w by (simp add: release_management_route_def Inr Let_def stored_def e_def [symmetric] sql_set_application_managed_by_def)
    have m: "manager db' b = (if b = app_id a then None else manager db b)" for b
      by (simp add: db' sql_set_application_managed_by_def manager_def sql_get_application_def tbl_get_update
          split: option.splits)
    have "manager db (app_id a) = app_managed_by a" using g by (simp add: manager_def)
    then show ?thesis
      using m row by (auto simp: db' e_def management_entry_def manager_move_def release_recorded_def sql_set_application_managed_by_def)
  qed (use assms(2) in \<open>simp add: release_management_route_def\<close>)
  then show "manager db' aid = manager db aid \<or> manager_move db db' aid (caller_label p st)"
    and "\<exists>more. db_audit db' = db_audit db @ more" by blast+
qed

lemma claim_moves:
  assumes "homes_ok db" "claim_management_route st nid now rid ref p db = (x, db')" "nid \<notin> al_id ` set (db_audit db)"
  shows "manager db' aid = manager db aid \<or> manager_move db db' aid (caller_label p st)"
    and "\<exists>more. db_audit db' = db_audit db @ more"
proof -
  have "(manager db' aid = manager db aid \<or> manager_move db db' aid (caller_label p st)) \<and>
      (\<exists>more. db_audit db' = db_audit db @ more)"
  proof (cases "require_application db ref")
    case (Inr a)
    have g: "sql_get_application db (app_id a) = Some a" by (rule required_application [OF assms(1) Inr])
    show ?thesis
    proof (cases "app_managed_by a")
      case (Some m)
      then have "db' = db" using assms(2) Inr by (simp add: claim_management_route_def Let_def)
      then show ?thesis by simp
    next
      case None
      let ?c = "caller_label p st"
      define db1 where "db1 = db\<lparr>db_applications := tbl_update app_id (app_id a)
        (\<lambda>a. if app_managed_by a = None then a\<lparr>app_managed_by := Some ?c\<rparr> else a) (db_applications db)\<rparr>"
      have t: "tbl_get app_id (db_applications db) (app_id a) = Some a" using g by (simp add: sql_get_application_def)
      have c: "sql_claim_application_management db (app_id a) ?c = (Some ?c, db1)"
      proof -
        have "map (\<lambda>b. if app_id b = app_id a \<and> app_managed_by b = None then b\<lparr>app_managed_by := Some ?c\<rparr> else b)
            (db_applications db) = db_applications db1"
          by (auto simp: db1_def tbl_update_def)
        moreover have "tbl_get app_id (db_applications db1) (app_id a) = Some (a\<lparr>app_managed_by := Some ?c\<rparr>)"
          using t None by (simp add: db1_def tbl_get_update)
        ultimately show ?thesis by (simp add: sql_claim_application_management_def Let_def db1_def)
      qed
      have fresh: "nid \<notin> al_id ` set (db_audit db1)" using assms(3) by (simp add: db1_def)
      define e where "e = management_entry ''management_claimed'' ''claim'' (app_id a)
          [(''claimed_by'', PStr ?c)] [(''managed_by'', PStr ?c)]"
      obtain row where w: "write_audit db1 nid now e rid = Inr (db1\<lparr>db_audit := db_audit db1 @ [row]\<rparr>)"
        and row: "ae_reason (al_entry row) = ae_reason e" "ae_application_id (al_entry row) = ae_application_id e"
          "ae_request (al_entry row) = ae_request e"
        by (rule write_audit_fresh [OF fresh])
      have db': "db' = db1\<lparr>db_audit := db_audit db @ [row]\<rparr>"
        using assms(2) w c
        by (simp add: claim_management_route_def Inr None Let_def stored_def e_def [symmetric] db1_def)
      have m: "manager db' b = (if b = app_id a then Some ?c else manager db b)" for b
        using t None
        by (auto simp: db' db1_def manager_def sql_get_application_def tbl_get_update split: option.splits)
      have "manager db (app_id a) = None" using g None by (simp add: manager_def)
      then show ?thesis
        using m row by (auto simp: db' db1_def e_def management_entry_def manager_move_def claim_recorded_def)
    qed
  qed (use assms(2) in \<open>simp add: claim_management_route_def\<close>)
  then show "manager db' aid = manager db aid \<or> manager_move db db' aid (caller_label p st)"
    and "\<exists>more. db_audit db' = db_audit db @ more" by blast+
qed

text \<open>The routes that write neither an application's row nor the audit log.\<close>

lemma admin_write_aside:
  assumes "homes_ok db" "admin_write st p db db'"
  shows "aside db' = aside db \<or>
     (\<exists>as. aside db' = (as, db_audit db) \<and>
        (\<forall>aid. manager (db\<lparr>db_applications := as\<rparr>) aid = manager db aid \<or>
           sql_get_application db aid = None \<and> manager (db\<lparr>db_applications := as\<rparr>) aid = Some (caller_label p st))) \<or>
     (\<exists>nid now rid ref x. nid \<notin> al_id ` set (db_audit db) \<and>
        (release_management_route st nid now rid ref p db = (x, db') \<or>
         claim_management_route st nid now rid ref p db = (x, db')))"
  using assms(2)
proof cases
  case (create_application nid b x)
  then obtain row as where i: "tbl_insert application_clash row (db_applications db) = Inr as"
    "db' = db\<lparr>db_applications := as\<rparr>" "app_managed_by row = None"
    by (auto simp: create_application_route_def sql_create_application_def Let_def res_bind_eq_Inr)
  have "manager db (app_id row) = None" using manager_append(2) [OF i(1)] by (simp add: manager_def)
  then show ?thesis using manager_append(1) [OF i(1)] i(2,3) by (auto simp: aside_def)
next
  case (update_application ref b x)
  then obtain k where "db' = db\<lparr>db_applications := tbl_update app_id k (patch_application b) (db_applications db)\<rparr>"
    by (auto simp: update_application_route_def res_bind_eq_Inr)
  then show ?thesis by (auto simp: aside_def manager_update patch_application_def)
next
  case (put_catalog new slug b x)
  from guarded_Inr [OF this [unfolded put_catalog_route_def]]
  obtain g a where g: "mg_store g = db" "mg_caller g = caller_label p st" "catalog_application g slug = Inr a"
    and r': "apply_application_catalog db new (case a of None \<Rightarrow> slug | Some x \<Rightarrow> app_slug x) (ci_name b)
      (ci_permissions b) (ci_default_roles b) (Some (mg_caller g)) = Inr (x, db')" by auto
  define s where "s = (case a of None \<Rightarrow> slug | Some x \<Rightarrow> app_slug x)"
  note r = r' [folded s_def]
  obtain aid db1 where c: "catalog_application_row db (new ''application'' s) s (ci_name b) (Some (mg_caller g)) =
      Inr (aid, db1)" "aside db' = aside db1" by (rule catalog_aside [OF r])
  show ?thesis
  proof (cases "tbl_get app_slug (db_applications db) s")
    case (Some y)
    then have "aside db' = (tbl_update app_id (app_id y) (\<lambda>a. a\<lparr>app_name := ci_name b\<rparr>) (db_applications db), db_audit db)"
      using c by (auto simp: catalog_application_row_def aside_def)
    then show ?thesis by (auto simp: manager_update)
  next
    case None
    then obtain row as where i: "tbl_insert application_clash row (db_applications db) = Inr as"
      "app_managed_by row = Some (caller_label p st)" "db1 = db\<lparr>db_applications := as\<rparr>"
      using c(1) g(2) by (auto simp: catalog_application_row_def sql_create_application_def Let_def res_bind_eq_Inr)
    have "aside db' = (as, db_audit db)" using c(2) i(3) by (simp add: aside_def)
    then show ?thesis using manager_append [OF i(1)] i(2) by auto
  qed
next
  case (create_tenant nid b x)
  then have "aside db' = aside db"
    by (auto simp: aside_def create_tenant_route_def sql_create_tenant_def Let_def res_bind_eq_Inr split: option.splits)
  then show ?thesis by blast
next
  case (update_tenant ref b x)
  then have "aside db' = aside db"
    by (auto simp: aside_def update_tenant_route_def Let_def res_bind_eq_Inr split: option.splits)
  then show ?thesis by blast
next
  case (create_mapping nid ref b x)
  then have "aside db' = aside db"
    by (auto simp: aside_def create_tenant_mapping_route_def sql_create_tenant_identity_mapping_def Let_def res_bind_eq_Inr split: option.splits)
  then show ?thesis by blast
next
  case (set_flag ref b x)
  then obtain tid aid where "sql_set_tenant_feature_flag db tid aid (ffi_key b) (ffi_value b) = Inr db'"
    by (auto simp: set_feature_flag_route_def res_bind_eq_Inr)
  then obtain fs where "db' = db\<lparr>db_flags := fs\<rparr>" by (rule set_flag_only)
  then show ?thesis by (simp add: aside_def)
next
  case (set_mask ref aref names x)
  then have "aside db' = aside db"
    by (auto simp: aside_def set_permission_mask_route_def sql_set_tenant_permission_mask_def Let_def res_bind_eq_Inr split: option.splits)
  then show ?thesis by blast
next
  case (release nid now rid ref x)
  then show ?thesis by blast
next
  case (claim nid now rid ref x)
  then show ?thesis by blast
next
  case (create_role nid aref b x)
  from guarded_Inr [OF this [unfolded create_role_route_def]]
  have "aside db' = aside db"
    by (auto simp: aside_def sql_create_role_def Let_def res_bind_eq_Inr split: option.splits)
  then show ?thesis by blast
next
  case (role_permissions role names x)
  from guarded_Inr [OF this [unfolded set_role_permissions_route_def]]
  have "aside db' = aside db"
    by (auto simp: aside_def sql_set_role_permissions_def Let_def res_bind_eq_Inr split: option.splits)
  then show ?thesis by blast
next
  case (create_permission nid aref b x)
  from guarded_Inr [OF this [unfolded create_permission_route_def]]
  have "aside db' = aside db"
    by (auto simp: aside_def sql_create_permission_def Let_def res_bind_eq_Inr split: option.splits)
  then show ?thesis by blast
next
  case (create_membership nid ref b x)
  from guarded_Inr [OF this [unfolded create_membership_route_def]]
  have "aside db' = aside db" by (auto simp: res_bind_eq_Inr split: option.splits dest: membership_aside)
  then show ?thesis by blast
next
  case (update_membership mid b x)
  then show ?thesis using update_membership_aside by blast
next
  case (create_agent nid ref aref b x)
  from guarded_Inr [OF this [unfolded create_agent_route_def]]
  have "aside db' = aside db"
    by (auto simp: aside_def sql_create_agent_def Let_def res_bind_eq_Inr split: option.splits)
  then show ?thesis by blast
next
  case (agent_roles gid names x)
  from guarded_Inr [OF this [unfolded set_agent_roles_route_def]]
  have "aside db' = aside db"
    by (auto simp: aside_def sql_set_agent_roles_def Let_def res_bind_eq_Inr split: option.splits)
  then show ?thesis by blast
next
  case (create_user uid xid b x)
  then have "aside db' = aside db"
    by (auto simp: create_user_route_def sql_upsert_user_from_identity_def res_bind_eq_Inr dest: upsert_aside)
  then show ?thesis by blast
next
  case (put_state new slug tslug b x)
  from guarded_Inr [OF this [unfolded put_tenant_state_route_def]]
  have "aside db' = aside db" by (auto simp: res_bind_eq_Inr split: option.splits dest: tenant_state_aside)
  then show ?thesis by blast
next
  case (put_override nid slug ref name names x)
  from guarded_Inr [OF this [unfolded put_tenant_role_route_def]]
  have "aside db' = aside db" by (auto simp: res_bind_eq_Inr split: option.splits dest: override_aside)
  then show ?thesis by blast
next
  case (delete_override slug ref name x)
  from guarded_Inr [OF this [unfolded delete_tenant_role_route_def]]
  have "aside db' = aside db"
    by (auto simp: aside_def delete_tenant_role_override_def Let_def res_bind_eq_Inr split: option.splits)
  then show ?thesis by blast
qed

lemma audit_grows:
  assumes "homes_ok db" "admin_write st p db db'"
  shows "\<exists>more. db_audit db' = db_audit db @ more"
  using admin_write_aside [OF assms]
proof (elim disjE exE conjE)
  assume "aside db' = aside db"
  then show ?thesis by (simp add: aside_def)
next
  fix as
  assume "aside db' = (as, db_audit db)"
  then show ?thesis by (simp add: aside_def)
next
  fix nid now rid ref x
  assume "nid \<notin> al_id ` set (db_audit db)" "release_management_route st nid now rid ref p db = (x, db')"
  then show ?thesis using release_moves(2) [OF assms(1)] by metis
next
  fix nid now rid ref x
  assume "nid \<notin> al_id ` set (db_audit db)" "claim_management_route st nid now rid ref p db = (x, db')"
  then show ?thesis using claim_moves(2) [OF assms(1)] by metis
qed

lemma manager_moves:
  assumes "homes_ok db" "admin_write st p db db'" "manager db' aid \<noteq> manager db aid"
  shows "manager_move db db' aid (caller_label p st)"
  using admin_write_aside [OF assms(1,2)]
proof (elim disjE exE conjE)
  assume "aside db' = aside db"
  then show ?thesis using assms(3) manager_aside [of db' db aid] by simp
next
  fix as
  assume a: "aside db' = (as, db_audit db)"
    and m: "\<forall>aid. manager (db\<lparr>db_applications := as\<rparr>) aid = manager db aid \<or>
      sql_get_application db aid = None \<and> manager (db\<lparr>db_applications := as\<rparr>) aid = Some (caller_label p st)"
  have e: "manager db' aid = manager (db\<lparr>db_applications := as\<rparr>) aid"
    using a by (simp add: manager_def sql_get_application_def aside_def)
  then have "sql_get_application db aid = None" "manager db' aid = Some (caller_label p st)"
    using m assms(3) by metis+
  moreover have "manager db aid = None" using calculation(1) by (simp add: manager_def)
  ultimately show ?thesis by (simp add: manager_move_def)
next
  fix nid now rid ref x
  assume "nid \<notin> al_id ` set (db_audit db)" "release_management_route st nid now rid ref p db = (x, db')"
  then show ?thesis using release_moves(1) [OF assms(1)] assms(3) by metis
next
  fix nid now rid ref x
  assume "nid \<notin> al_id ` set (db_audit db)" "claim_management_route st nid now rid ref p db = (x, db')"
  then show ?thesis using claim_moves(1) [OF assms(1)] assms(3) by metis
qed

text \<open>A request of a caller that is not \<open>m\<close>, and the releases of an application in the audit log.\<close>

definition foreign_write :: "settings \<Rightarrow> string \<Rightarrow> sql_db \<Rightarrow> sql_db \<Rightarrow> bool" where
  "foreign_write st m db db' \<longleftrightarrow> (\<exists>p. caller_label p st \<noteq> m \<and> admin_write st p db db')"

definition releases :: "sql_db \<Rightarrow> ident \<Rightarrow> audit_row list" where
  "releases db aid =
     filter (\<lambda>r. ae_reason (al_entry r) = ''management_released'' \<and> ae_application_id (al_entry r) = Some aid)
       (db_audit db)"

lemma foreign_write_keeps:
  assumes "homes_ok db" "foreign_write st m db db'" "aid \<noteq> ''''" "manager db aid = Some m"
    and "releases db' aid = releases db aid"
  shows "manager db' aid = Some m \<and> app_data db' aid = app_data db aid"
proof -
  obtain p where p: "caller_label p st \<noteq> m" "admin_write st p db db'"
    using assms(2) by (auto simp: foreign_write_def)
  have "others db (caller_label p st) aid" using assms(3,4) p(1) by (simp add: others_def)
  then have "app_data db' aid = app_data db aid"
    using admin_write_confined [OF assms(1) p(2)] by (simp add: confined_def)
  moreover have "manager db' aid = manager db aid"
  proof (rule ccontr)
    assume "manager db' aid \<noteq> manager db aid"
    from manager_moves [OF assms(1) p(2) this] show False
      using assms(4,5) by (auto simp: manager_move_def release_recorded_def releases_def)
  qed
  ultimately show ?thesis using assms(4) by simp
qed

lemma foreign_run_grows:
  assumes "(foreign_write st m)\<^sup>*\<^sup>* db db'" "homes_ok db"
  shows "homes_ok db' \<and> (\<exists>more. releases db' aid = releases db aid @ more)"
  using assms(1)
proof (induction rule: rtranclp_induct)
  case base
  then show ?case using assms(2) by simp
next
  case (step db1 db2)
  obtain p where p: "admin_write st p db1 db2" using step(2) by (auto simp: foreign_write_def)
  have ok: "homes_ok db1" using step.IH by blast
  have "homes_ok db2" using confined_ok [OF admin_write_confined [OF ok p]] .
  moreover obtain more where "db_audit db2 = db_audit db1 @ more" using audit_grows [OF ok p] by blast
  ultimately show ?case using step.IH by (auto simp: releases_def)
qed

lemma foreign_run_keeps:
  assumes "(foreign_write st m)\<^sup>*\<^sup>* db db'" "homes_ok db" "aid \<noteq> ''''" "manager db aid = Some m"
    and "releases db' aid = releases db aid"
  shows "manager db' aid = Some m \<and> app_data db' aid = app_data db aid"
  using assms(1,5)
proof (induction rule: rtranclp_induct)
  case base
  then show ?case using assms(4) by simp
next
  case (step db1 db2)
  note g1 = foreign_run_grows [OF step(1) assms(2)]
  obtain m1 where m1: "releases db1 aid = releases db aid @ m1" using g1 by blast
  obtain m2 where m2: "releases db2 aid = releases db1 aid @ m2"
    using foreign_run_grows [OF r_into_rtranclp [of "foreign_write st m", OF step(2)] conjunct1 [OF g1]] by blast
  have "releases db1 aid = releases db aid" "releases db2 aid = releases db1 aid"
    using m1 m2 step.prems by simp_all
  then show ?case
    using step.IH foreign_write_keeps [OF conjunct1 [OF g1] step(2) assms(3)] by simp
qed

section \<open>Links stay home\<close>

lemma accept_ok:
  assumes "homes_ok db" "accept_invitation_route hash now uid xid mid token b p (rows, db) = (r, rows', db')"
  shows "homes_ok db'"
proof (cases "sql_upsert_user_from_identity db uid xid (ia_provider b) (ia_issuer b) (ia_subject b) (ia_email b)
    (ia_external_tenant_id b) None")
  case (Inl e)
  then show ?thesis using assms by (simp add: accept_invitation_route_def)
next
  case (Inr q)
  obtain u i db1 where q: "q = ((u, i), db1)" by (cases q) auto
  have ok: "homes_ok db1"
    using upsert_confined(1) [OF assms(1) Inr [unfolded q sql_upsert_user_from_identity_def]] confined_ok by blast
  obtain res rows2 db2 where a: "invitation_accept hash (membership_creator mid) rows db1 now token (user_id u) = (res, rows2, db2)"
    by (cases "invitation_accept hash (membership_creator mid) rows db1 now token (user_id u)")
  have d: "db' = db2"
    using assms(2) by (auto simp: accept_invitation_route_def Inr q a split: sum.splits invitation_error.splits)
  have c: "homes_ok db3" if new: "membership_creator mid db1 t h v rs = Inr db3" for t h v rs db3
  proof -
    obtain x where "sql_create_membership db1 mid t h v MEMBERSHIP_STATUS_ACTIVE (case rs of None \<Rightarrow> {} | Some s \<Rightarrow> s) =
        Inr (x, db3)"
      using new unfolding membership_creator_def by (cases "sql_create_membership db1 mid t h v
        MEMBERSHIP_STATUS_ACTIVE (case rs of None \<Rightarrow> {} | Some s \<Rightarrow> s)") auto
    from confined_create_membership [OF ok this, where foreign = "\<lambda>_. False"] show ?thesis
      by (simp add: outside_def confined_ok)
  qed
  show ?thesis
    using a ok c by (auto simp: d invitation_accept_def Let_def split: prod.splits sum.splits)
qed

lemma resolve_ok:
  assumes "homes_ok db" "resolve_context_handler st uid xid b p db = (r, db')"
  shows "homes_ok db'"
proof -
  have c: "homes_ok db2" if "context_user auto uid xid i db = (u, db2)" for auto i u db2
    using that assms(1) confined_ok [OF upsert_confined(1) [OF assms(1)]]
    by (auto simp: context_user_def sql_upsert_user_from_identity_def split: option.splits if_splits sum.splits prod.splits)
  then show ?thesis
    using assms by (auto simp: resolve_context_handler_def resolve_identity_def split: prod.splits sum.splits option.splits)
qed

lemma service_step_ok: "\<lbrakk>service_step st db db'; homes_ok db\<rbrakk> \<Longrightarrow> homes_ok db'"
  by (cases rule: service_step.cases) (auto dest: admin_write_confined confined_ok accept_ok resolve_ok)

lemma empty_ok: "homes_ok empty_db"
  by (simp add: homes_ok_def empty_db_def links_home_def internal_home_def)

lemma service_reachable_empty: "service_reachable st empty_db"
  by (simp add: service_reachable_def)

lemma service_reachable_step: "\<lbrakk>service_reachable st db; service_step st db db'\<rbrakk> \<Longrightarrow> service_reachable st db'"
  unfolding service_reachable_def by (rule rtranclp.rtrancl_into_rtrancl)

lemma reachable_ok: "service_reachable st db \<Longrightarrow> homes_ok db"
  unfolding service_reachable_def by (induction rule: rtranclp_induct) (auto intro: empty_ok service_step_ok)

section \<open>Properties\<close>

text \<open>C12: the manager of an application changes only by its own rules. When any administration request changes
  who manages an application, either the application had no manager (or did not exist) and the caller became
  it, and a claim of an existing application is in the audit log; or the application lost its manager and the
  last entry of the audit log is a release naming the application, the manager it had and the caller.\<close>

theorem manager_changes_audited:
  assumes "homes_ok db" "admin_write st p db db'" "manager db' aid \<noteq> manager db aid"
  shows "manager_move db db' aid (caller_label p st)"
  by (rule manager_moves [OF assms])

text \<open>C2: nobody but its manager changes a managed application. Start from a database where application \<open>aid\<close>
  is managed by \<open>m\<close> and let any callers other than \<open>m\<close>, admins included, make any administration requests in
  any order. As long as none of them released the application, which the audit log would show, \<open>m\<close> still
  manages it and its permissions, roles, memberships, agents and all their links are what they were.\<close>

theorem managed_data_isolated:
  assumes "(foreign_write st m)\<^sup>*\<^sup>* db db'" "homes_ok db" "aid \<noteq> ''''" "manager db aid = Some m"
    and "releases db' aid = releases db aid"
  shows "manager db' aid = Some m \<and> app_data db' aid = app_data db aid"
  by (rule foreign_run_keeps [OF assms])

text \<open>C11: roles never cross applications. In every database the service reaches from an empty one, by
  administration requests of any callers, accepted invitations and context resolutions, a link of a membership
  leads to an existing role of the membership's own application, a link of an agent to one of the agent's, and
  the internal role of an agent belongs to the agent's application.\<close>

theorem links_stay_home:
  assumes "service_reachable st db"
  shows "(\<forall>(i, j) \<in> db_membership_roles db. \<exists>m \<in> set (db_memberships db). \<exists>r \<in> set (db_roles db).
       ms_id m = i \<and> role_id r = j \<and> role_application_id r = ms_application_id m) \<and>
    (\<forall>(i, j) \<in> db_agent_roles db. \<exists>g \<in> set (db_agents db). \<exists>r \<in> set (db_roles db).
       agent_id g = i \<and> role_id r = j \<and> role_application_id r = Some (agent_application_id g)) \<and>
    (\<forall>r \<in> set (db_roles db). \<forall>i. role_agent_id r = Some i \<longrightarrow>
       (\<exists>g \<in> set (db_agents db). agent_id g = i \<and> role_application_id r = Some (agent_application_id g)))"
proof -
  note ok = homes_okD(7-9) [OF reachable_ok [OF assms]]
  have 1: "\<exists>m \<in> set (db_memberships db). \<exists>r \<in> set (db_roles db).
      ms_id m = i \<and> role_id r = j \<and> role_application_id r = ms_application_id m"
    if "(i, j) \<in> db_membership_roles db" for i j
    using ok(1) that unfolding links_home_def homes_def by fastforce
  have 2: "\<exists>g \<in> set (db_agents db). \<exists>r \<in> set (db_roles db).
      agent_id g = i \<and> role_id r = j \<and> role_application_id r = Some (agent_application_id g)"
    if "(i, j) \<in> db_agent_roles db" for i j
    using ok(2) that unfolding links_home_def homes_def by fastforce
  have 3: "\<exists>g \<in> set (db_agents db). agent_id g = i \<and> role_application_id r = Some (agent_application_id g)"
    if "r \<in> set (db_roles db)" "role_agent_id r = Some i" for r i
    using ok(3) that unfolding internal_home_def homes_def by fastforce
  show ?thesis using 1 2 3 by blast
qed

section \<open>Witnesses\<close>

lemma sample_admin_label: "caller_label sample_admin st = ''session:root''"
  by (simp add: caller_label_def sample_admin_def)

lemma managed_db_ok: "homes_ok managed_db"
  by (simp add: homes_ok_def managed_db_def sample_db_def sample_role_def links_home_def internal_home_def
      homes_def unique_col_def empty_db_def)

lemma managed_db_manager: "manager managed_db ''a'' = Some ''client:docs''"
  by (simp add: manager_def sql_get_application_def tbl_get_def managed_db_def)

theorem manager_changes_audited_witness:
  "\<exists>st db'. load_settings [] = Inr st \<and> admin_write st sample_admin managed_db db' \<and>
     manager db' ''a'' = None \<and> manager_move managed_db db' ''a'' ''session:root''"
proof -
  obtain st where st: "load_settings [] = Inr st" using load_defaults by blast
  obtain x db' where r: "release_management_route st ''n'' 0 None ''docs'' sample_admin managed_db = (x, db')"
    by fastforce
  have w: "admin_write st sample_admin managed_db db'"
    by (rule admin_write.release [OF r]) (simp add: managed_db_def sample_db_def empty_db_def)
  have "require_application managed_db ''docs'' = Inr \<lparr>app_id = ''a'', app_slug = ''docs'', app_name = ''Docs'',
      app_status = ''active'', app_managed_by = Some ''client:docs''\<rparr>"
    by (simp add: require_application_def sql_find_application_def by_id_or_slug_def managed_db_def)
  then have n: "manager db' ''a'' = None"
    using r by (auto simp: release_management_route_def Let_def write_audit_def sql_set_application_managed_by_def
        tbl_update_def managed_db_def sample_db_def empty_db_def tbl_insert_def manager_def sql_get_application_def
        tbl_get_def stored_def)
  then have "manager db' ''a'' \<noteq> manager managed_db ''a''" by (simp add: managed_db_manager)
  from manager_changes_audited [OF managed_db_ok w this]
  have "manager_move managed_db db' ''a'' ''session:root''" by (simp add: sample_admin_label)
  then show ?thesis using st w n by blast
qed

theorem managed_data_isolated_witness:
  "\<exists>st db'. load_settings [] = Inr st \<and> foreign_write st ''client:docs'' managed_db db' \<and>
     length (db_applications db') = 2 \<and> manager db' ''a'' = Some ''client:docs'' \<and>
     app_data db' ''a'' = app_data managed_db ''a''"
proof -
  obtain st where st: "load_settings [] = Inr st" using load_defaults by blast
  define db' where "db' = managed_db\<lparr>db_applications := db_applications managed_db @
    [\<lparr>app_id = ''b'', app_slug = ''blog'', app_name = ''Blog'', app_status = ''active'', app_managed_by = None\<rparr>]\<rparr>"
  have r: "create_application_route ''b'' \<lparr>ai_slug = ''blog'', ai_name = ''Blog'', ai_status = ''active''\<rparr>
      sample_admin managed_db = Inr (\<lparr>app_id = ''b'', app_slug = ''blog'', app_name = ''Blog'',
        app_status = ''active'', app_managed_by = None\<rparr>, db')"
    by (simp add: create_application_route_def sql_create_application_def tbl_insert_def application_clash_def
        managed_db_def db'_def Let_def)
  have f: "foreign_write st ''client:docs'' managed_db db'"
    unfolding foreign_write_def
    by (rule exI [of _ sample_admin]) (use admin_write.create_application [OF r] in \<open>simp add: sample_admin_label\<close>)
  have n: "releases db' ''a'' = releases managed_db ''a''" by (simp add: releases_def db'_def)
  have "''a'' \<noteq> ''''" by simp
  from managed_data_isolated [OF r_into_rtranclp [of "foreign_write st ''client:docs''", OF f] managed_db_ok this
      managed_db_manager n]
  have "manager db' ''a'' = Some ''client:docs'' \<and> app_data db' ''a'' = app_data managed_db ''a''" .
  moreover have "length (db_applications db') = 2" by (simp add: db'_def managed_db_def)
  ultimately show ?thesis using st f by blast
qed

theorem links_stay_home_witness:
  "\<exists>st db. load_settings [] = Inr st \<and> service_reachable st db \<and> (''m'', ''r'') \<in> db_membership_roles db \<and>
     (\<exists>m \<in> set (db_memberships db). \<exists>r \<in> set (db_roles db).
        ms_id m = ''m'' \<and> role_id r = ''r'' \<and> role_application_id r = ms_application_id m)"
proof -
  obtain st where st: "load_settings [] = Inr st" using load_defaults by blast
  have adm: "require_admin sample_admin = Inr sample_admin"
    by (simp add: sample_admin_def require_admin_def require_surface_def principal_allows_def scope_allows_def SCOPE_ADMIN_def)
  let ?t = "\<lparr>tenant_id = ''t'', tenant_slug = ''acme'', tenant_name = ''Acme'', tenant_status = ''active''\<rparr>"
  let ?a = "\<lparr>app_id = ''a'', app_slug = ''docs'', app_name = ''Docs'', app_status = ''active'', app_managed_by = None\<rparr>"
  let ?r = "\<lparr>role_id = ''r'', role_name = ''reader'', role_scope = APPLICATION, role_tenant_id = None,
    role_application_id = Some ''a'', role_description = None, role_is_system = False, role_agent_id = None\<rparr>"
  let ?m = "\<lparr>ms_id = ''m'', ms_tenant_id = ''t'', ms_application_id = Some ''a'', ms_user_id = ''u'', ms_status = ''active''\<rparr>"
  define d1 where "d1 = empty_db\<lparr>db_tenants := [?t]\<rparr>"
  define d2 where "d2 = d1\<lparr>db_applications := [?a]\<rparr>"
  define d3 where "d3 = d2\<lparr>db_roles := [?r]\<rparr>"
  define d4 where "d4 = d3\<lparr>db_memberships := [?m], db_membership_roles := {(''m'', ''r'')}\<rparr>"
  have 1: "create_tenant_route ''t'' \<lparr>ti_slug = ''acme'', ti_name = ''Acme'', ti_status = ''active''\<rparr> sample_admin
      empty_db = Inr (?t, d1)"
    by (simp add: create_tenant_route_def sql_create_tenant_def tbl_insert_def d1_def empty_db_def Let_def)
  have 2: "create_application_route ''a'' \<lparr>ai_slug = ''docs'', ai_name = ''Docs'', ai_status = ''active''\<rparr> sample_admin
      d1 = Inr (?a, d2)"
    by (simp add: create_application_route_def sql_create_application_def tbl_insert_def d2_def d1_def empty_db_def Let_def)
  have fa: "sql_find_application db ''docs'' = Some ?a" if "db_applications db = [?a]" for db
    using that by (simp add: sql_find_application_def by_id_or_slug_def)
  have ft: "sql_find_tenant db ''acme'' = Some ?t" if "db_tenants db = [?t]" for db
    using that by (simp add: sql_find_tenant_def by_id_or_slug_def)
  have g: "guarded st (\<lambda>g. managed_application g ''docs'') (Inr ()) h sample_admin db =
      h ?a \<lparr>mg_store = db, mg_caller = caller_label sample_admin st\<rparr>" if "db_applications db = [?a]" for db h
    using fa [OF that]
    by (simp add: guarded_def management_guard_init_def adm managed_application_def guard_application_def
        require_application_def guard_check_def)
  have 3: "create_role_route st ''r'' ''docs'' \<lparr>ri_name = ''reader'', ri_scope = ''application'', ri_description = None,
      ri_tenant_id = None\<rparr> sample_admin d2 = Inr (?r, d3)"
    by (simp add: create_role_route_def g d2_def role_scope_of_def sql_create_role_def tbl_insert_def d3_def d1_def
        empty_db_def Let_def)
  have 4: "\<exists>x. create_membership_route st ''m'' ''acme'' \<lparr>mi_user_id = ''u'', mi_application_id = Some ''docs'',
      mi_roles = [''reader''], mi_status = ''active''\<rparr> sample_admin d3 = Inr (x, d4)"
    using fa [of d3] ft [of d3]
    by (simp add: create_membership_route_def guarded_def management_guard_init_def adm body_application_def
        guard_application_def require_application_def guard_check_def require_tenant_def sql_create_membership_def
        tbl_insert_def sql_assignable_roles_def linked_ids_def dict_values_def replace_links_def d4_def d3_def d2_def
        d1_def empty_db_def Let_def)
  obtain x where x: "create_membership_route st ''m'' ''acme'' \<lparr>mi_user_id = ''u'', mi_application_id = Some ''docs'',
      mi_roles = [''reader''], mi_status = ''active''\<rparr> sample_admin d3 = Inr (x, d4)" using 4 by blast
  note s = service_step.admin [OF admin_write.create_tenant [OF 1]] service_step.admin [OF admin_write.create_application [OF 2]]
    service_step.admin [OF admin_write.create_role [OF 3]] service_step.admin [OF admin_write.create_membership [OF x]]
  have reach: "service_reachable st d4"
    by (rule service_reachable_step [OF service_reachable_step [OF service_reachable_step [OF service_reachable_step
          [OF service_reachable_empty s(1)] s(2)] s(3)] s(4)])
  have l: "(''m'', ''r'') \<in> db_membership_roles d4" by (simp add: d4_def)
  have "\<exists>m \<in> set (db_memberships d4). \<exists>r \<in> set (db_roles d4).
      ms_id m = ''m'' \<and> role_id r = ''r'' \<and> role_application_id r = ms_application_id m"
    using bspec [OF conjunct1 [OF links_stay_home [OF reach]] l] by simp
  then show ?thesis using st reach l by blast
qed

end
