(* ===== verification/Admin_Service.thy ===== *)
theory Admin_Service
  imports Admin_Client Sql_Refinement Managed_Runs
begin

text \<open>
  The administration client and the service together: \<^verbatim>\<open>upsert_role_with_permissions\<close> is three requests, and
  the routes of roles answer them over the database. The transport may fail any of them; a success reply means
  that the route ran on the database of that moment and left the one that follows. Other requests do not come
  in between.
\<close>

section \<open>The role routes as the client sees them\<close>

fun role_scope_value :: "role_scope \<Rightarrow> string" where
  "role_scope_value PLATFORM = ''platform''"
| "role_scope_value APPLICATION = ''application''"
| "role_scope_value TENANT = ''tenant''"
| "role_scope_value AGENT = ''agent''"

definition role_out :: "role \<Rightarrow> pydict" where
  "role_out r =
     [(''id'', PStr (role_id r)), (''name'', PStr (role_name r)), (''scope'', PStr (role_scope_value (role_scope r))),
      (''application_id'', opt_val (role_application_id r)), (''tenant_id'', opt_val (role_tenant_id r)),
      (''description'', opt_val (role_description r)), (''is_system'', PBool (role_is_system r))]"

definition list_roles_message :: "string \<Rightarrow> sdk_request" where
  "list_roles_message aid = admin_message ''GET'' (''v1/applications/'' @ aid @ ''/roles'') None None"

definition create_role_message :: "string \<Rightarrow> string \<Rightarrow> string \<Rightarrow> string option \<Rightarrow> sdk_request" where
  "create_role_message aid name scope description =
     admin_message ''POST'' (''v1/applications/'' @ aid @ ''/roles'')
       (Some [(''name'', PStr name), (''scope'', PStr scope), (''description'', opt_val description), (''tenant_id'', PNone)]) None"

definition role_permissions_message :: "string \<Rightarrow> string list \<Rightarrow> sdk_request" where
  "role_permissions_message rid permissions =
     admin_message ''PUT'' (''v1/roles/'' @ rid @ ''/permissions'')
       (Some [(''permissions'', PList (map PStr permissions))]) None"

definition role_service :: "settings \<Rightarrow> 'net transport \<Rightarrow> ('net \<Rightarrow> sql_db) \<Rightarrow> bool" where
  "role_service st http db_of \<longleftrightarrow>
     (\<forall>net net' r. rp_status r < 400 \<longrightarrow>
       (\<forall>aid. http net (list_roles_message aid) = (Some r, net') \<longrightarrow>
          (\<exists>p rs. list_roles_route aid p (db_of net) = Inr (rs, db_of net') \<and>
             rp_json r = Some (PList (map (PDict \<circ> role_out) rs)))) \<and>
       (\<forall>aid name scope d. http net (create_role_message aid name scope d) = (Some r, net') \<longrightarrow>
          (\<exists>p nid x. create_role_route st nid aid
               \<lparr>ri_name = name, ri_scope = scope, ri_description = d, ri_tenant_id = None\<rparr> p (db_of net) = Inr (x, db_of net') \<and>
             rp_json r = Some (PDict (role_out x)))) \<and>
       (\<forall>rid ps. http net (role_permissions_message rid ps) = (Some r, net') \<longrightarrow>
          (\<exists>p x. set_role_permissions_route st rid ps p (db_of net) = Inr (x, db_of net'))))"

section \<open>Lemmas\<close>

lemma fold_dict_set_mem:
  "(k, v) \<in> set (fold (\<lambda>x d. dict_set (f x) x d) xs d0) \<Longrightarrow> (k, v) \<in> set d0 \<or> (k = f v \<and> v \<in> set xs)"
proof (induction xs arbitrary: d0)
  case (Cons x xs)
  have "set (AList.update (f x) x d) \<subseteq> insert (f x, x) (set d)" for d
    by (induction d) auto
  then show ?case using Cons.IH [of "dict_set (f x) x d0"] Cons.prems by auto
qed simp

lemma active_permissions_mem:
  assumes "(k, q) \<in> set (active_permissions db aid (Some names))"
  shows "k = perm_name q \<and> k \<in> names \<and> q \<in> set (db_permissions db) \<and> perm_application_id q = aid \<and> perm_active q"
  using fold_dict_set_mem [OF assms [unfolded active_permissions_def]] by auto

text \<open>Setting the permissions of a role is exact for that role and touches no other.\<close>

lemma set_role_permissions_exact:
  assumes "unique_col perm_id (db_permissions db)" "sql_get_role db rid = Some r"
    and "sql_set_role_permissions db rid names = Inr db'"
  shows "perm_name ` set (sql_list_role_permissions db' rid) = names \<and>
    (\<forall>o'. o' \<noteq> rid \<longrightarrow> sql_list_role_permissions db' o' = sql_list_role_permissions db o') \<and> db_roles db' = db_roles db \<and>
    db_applications db' = db_applications db"
proof -
  let ?d = "active_permissions db (role_application_id r) (Some names)"
  obtain b ls where l: "replace_links (db_role_permissions db) rid (perm_id ` set (dict_values ?d)) None = Inr (b, ls)"
    and c: "check_names ''permission'' names (set (map fst ?d)) = Inr ()" and db': "db' = db\<lparr>db_role_permissions := ls\<rparr>"
    using assms(2,3) by (auto simp: sql_set_role_permissions_def sql_get_role_def Let_def res_bind_eq_Inr)
  have ls: "link_set ls o' = (if o' = rid then perm_id ` set (dict_values ?d) else link_set (db_role_permissions db) o')" for o'
    using replace_links_exact [OF l] by simp
  have mem: "(o', i) \<in> ls \<longleftrightarrow> (if o' = rid then i \<in> perm_id ` set (dict_values ?d) else (o', i) \<in> db_role_permissions db)" for o' i
    using ls [of o'] by (auto simp: link_set_def split: if_splits)
  have v: "q \<in> set (dict_values ?d) \<longleftrightarrow> (perm_name q, q) \<in> set ?d" for q
    using active_permissions_mem by (force simp: dict_values_def)
  have "names = fst ` set ?d" using c active_permissions_mem by (fastforce simp: check_names_ok)
  moreover have "set (sql_list_role_permissions db' rid) = set (dict_values ?d)"
  proof (rule set_eqI)
    fix q
    have "q \<in> set (db_permissions db)" if "q \<in> set (dict_values ?d)"
      using that active_permissions_mem unfolding v by blast
    then show "q \<in> set (sql_list_role_permissions db' rid) \<longleftrightarrow> q \<in> set (dict_values ?d)"
      by (auto simp: sql_list_role_permissions_def db' mem dest: unique_col_eq [OF assms(1)] active_permissions_mem)
        (metis active_permissions_mem unique_col_eq [OF assms(1)] v)
  qed
  moreover have "perm_name ` set (dict_values ?d) = fst ` set ?d"
    using active_permissions_mem by (force simp: dict_values_def)
  ultimately show ?thesis by (auto simp: sql_list_role_permissions_def db' mem)
qed

text \<open>What the client makes of the answers.\<close>

definition role_row :: "role \<Rightarrow> sdk_role" where
  "role_row r =
     \<lparr>xr_id = PStr (role_id r), xr_name = PStr (role_name r), xr_scope = PStr (role_scope_value (role_scope r)),
      xr_application_id = opt_val (role_application_id r), xr_tenant_id = opt_val (role_tenant_id r),
      xr_description = opt_val (role_description r), xr_is_system = PBool (role_is_system r)\<rparr>"

lemma sdk_role_of_out: "sdk_role_of (PDict (role_out r)) = Inr (role_row r)"
  by (simp add: sdk_role_of_def dataclass_kwargs_def role_out_def role_row_def py_get_def)

lemma rows_with_out: "rows_with sdk_role_of (PList (map (PDict \<circ> role_out) rs)) = Inr (map role_row rs)"
  by (induction rs) (auto simp: rows_with_def sdk_role_of_out)

lemma decoded_none: "rows_with sdk_role_of PNone \<noteq> Inr x" "sdk_role_of PNone \<noteq> Inr y"
  by (simp_all add: rows_with_def sdk_role_of_def dataclass_kwargs_def)

lemma list_roles_service:
  assumes "role_service st http db_of" "admin_list_roles http repr v net = (Inr roles, net')"
  shows "db_of net' = db_of net \<and> (\<exists>a. require_application (db_of net) (py_str repr v) = Inr a \<and>
    roles = map role_row (sql_list_roles_for_application (db_of net) (app_id a)))"
proof -
  obtain w r where h: "http net (list_roles_message (py_str repr v)) = (Some r, net')" "admin_finish r = Inr w"
    and d: "rows_with sdk_role_of w = Inr roles"
    using assms(2) by (auto simp: admin_list_roles_def call_Inr list_roles_message_def)
  have ok: "rp_status r < 400" "rp_json r = Some w"
    using admin_finish_Inr [OF h(2)] d decoded_none(1) by auto
  obtain p rs where l: "list_roles_route (py_str repr v) p (db_of net) = Inr (rs, db_of net')"
    and j: "rp_json r = Some (PList (map (PDict \<circ> role_out) rs))"
    using assms(1) ok(1) h(1) unfolding role_service_def by blast
  have "roles = map role_row rs" using j ok(2) d rows_with_out by simp
  then show ?thesis using l by (auto simp: list_roles_route_def res_bind_eq_Inr)
qed

lemma create_role_service:
  assumes "role_service st http db_of" "unique_col role_id (db_roles (db_of net))"
    and "admin_create_role http repr w (PStr name) (PStr scope) (opt_val d) PNone net = (Inr x, net')"
  shows "\<exists>a r. require_application (db_of net) (py_str repr w) = Inr a \<and> x = role_row r \<and> role_name r = name \<and>
    role_application_id r = Some (app_id a) \<and> db_of net' = (db_of net)\<lparr>db_roles := db_roles (db_of net) @ [r]\<rparr> \<and>
    unique_col role_id (db_roles (db_of net'))"
proof -
  obtain v r where h: "http net (create_role_message (py_str repr w) name scope d) = (Some r, net')" "admin_finish r = Inr v"
    and d: "sdk_role_of v = Inr x"
    using assms(3) by (auto simp: admin_create_role_def call_Inr create_role_message_def)
  have ok: "rp_status r < 400" "rp_json r = Some v"
    using admin_finish_Inr [OF h(2)] d decoded_none(2) by auto
  obtain p nid row where l: "create_role_route st nid (py_str repr w)
      \<lparr>ri_name = name, ri_scope = scope, ri_description = d, ri_tenant_id = None\<rparr> p (db_of net) = Inr (row, db_of net')"
    and j: "rp_json r = Some (PDict (role_out row))"
    using assms(1) ok(1) h(1) unfolding role_service_def by blast
  have x: "x = role_row row" using j ok(2) d sdk_role_of_out by simp
  from guarded_Inr [OF l [unfolded create_role_route_def]] obtain g a sc where
    g: "mg_store g = db_of net" "managed_application g (py_str repr w) = Inr a"
    and c: "sql_create_role (db_of net) nid name sc (Some (app_id a)) None d = Inr (row, db_of net')"
    by (auto simp: stored_def map_sum_Inr_iff split: option.splits)
  have a: "require_application (db_of net) (py_str repr w) = Inr a"
    using g by (auto simp: managed_application_def guard_application_def guard_check_def res_bind_eq_Inr
        split: option.splits if_splits)
  obtain rs where i: "tbl_insert role_clash row (db_roles (db_of net)) = Inr rs"
    and row: "role_name row = name" "role_application_id row = Some (app_id a)"
    and db': "db_of net' = (db_of net)\<lparr>db_roles := rs\<rparr>"
    using c by (auto simp: sql_create_role_def Let_def res_bind_eq_Inr)
  have "rs = db_roles (db_of net) @ [row]" "unique_col role_id rs"
    using i assms(2) by (auto simp: tbl_insert_Inr role_clash_def unique_col_append)
  then show ?thesis using a x row db' by auto
qed

lemma set_permissions_service:
  assumes "role_service st http db_of"
    and "admin_set_role_permissions http repr (PStr rid) (PList (map PStr ps)) net = (Inr x, net')"
  shows "\<exists>r. sql_get_role (db_of net) rid = Some r \<and>
    sql_set_role_permissions (db_of net) rid (set ps) = Inr (db_of net')"
proof -
  obtain r where h: "http net (role_permissions_message rid ps) = (Some r, net')" "admin_finish r = Inr x"
    using assms(2) by (auto simp: admin_set_role_permissions_def call_Inr role_permissions_message_def)
  then obtain p y where "set_role_permissions_route st rid ps p (db_of net) = Inr (y, db_of net')"
    using assms(1) admin_finish_Inr [OF h(2)] unfolding role_service_def by blast
  from guarded_Inr [OF this [unfolded set_role_permissions_route_def]] show ?thesis
    by (auto simp: managed_role_def stored_def map_sum_Inr_iff res_bind_eq_Inr split: option.splits)
qed

text \<open>The upsert of a role, step by step.\<close>

lemma upsert_exact:
  assumes "role_service st http db_of" and "homes_ok (db_of net)"
    and "upsert_role_with_permissions http repr v (PStr name) (PList (map PStr permissions)) (PStr scope)
      (opt_val description) net = (Inr x, net')"
  shows "\<exists>a r. require_application (db_of net) (py_str repr v) = Inr a \<and> xr_id x = PStr (role_id r) \<and>
    sql_get_role (db_of net') (role_id r) = Some r \<and> role_name r = name \<and> role_application_id r = Some (app_id a) \<and>
    perm_name ` set (sql_list_role_permissions (db_of net') (role_id r)) = set permissions \<and>
    (\<forall>other. other \<noteq> role_id r \<longrightarrow>
       sql_list_role_permissions (db_of net') other = sql_list_role_permissions (db_of net) other) \<and>
    (case List.find (\<lambda>q. role_name q = name) (sql_list_roles_for_application (db_of net) (app_id a)) of
       Some q \<Rightarrow> r = q \<and> db_roles (db_of net') = db_roles (db_of net)
     | None \<Rightarrow> db_roles (db_of net') = db_roles (db_of net) @ [r]) \<and>
    db_applications (db_of net') = db_applications (db_of net)"
proof -
  note u = homes_okD(3,4) [OF assms(2)]
  obtain roles net1 net2 y where l: "admin_list_roles http repr v net = (Inr roles, net1)"
    and c: "(case List.find (\<lambda>r. py_eq (xr_name r) (PStr name)) roles of Some r \<Rightarrow> call_return r
      | None \<Rightarrow> admin_create_role http repr v (PStr name) (PStr scope) (opt_val description) PNone) net1 = (Inr x, net2)"
    and w: "admin_set_role_permissions http repr (xr_id x) (PList (map PStr permissions)) net2 = (Inr y, net')"
    using assms(3) by (auto simp: upsert_role_with_permissions_def call_bind_Inr call_return_Inr)
  obtain a where a: "require_application (db_of net) (py_str repr v) = Inr a" and d1: "db_of net1 = db_of net"
    and roles: "roles = map role_row (sql_list_roles_for_application (db_of net) (app_id a))"
    using list_roles_service [OF assms(1) l] by auto
  let ?found = "List.find (\<lambda>q. role_name q = name) (sql_list_roles_for_application (db_of net) (app_id a))"
  have f: "List.find (\<lambda>r. py_eq (xr_name r) (PStr name)) roles = map_option role_row ?found"
    unfolding roles by (simp add: find_map comp_def role_row_def)
  have role: "\<exists>r. x = role_row r \<and> role_name r = name \<and> role_application_id r = Some (app_id a) \<and>
      sql_get_role (db_of net2) (role_id r) = Some r \<and> unique_col perm_id (db_permissions (db_of net2)) \<and>
      (\<forall>o'. sql_list_role_permissions (db_of net2) o' = sql_list_role_permissions (db_of net) o') \<and>
      (case ?found of Some q \<Rightarrow> r = q \<and> db_roles (db_of net2) = db_roles (db_of net)
       | None \<Rightarrow> db_roles (db_of net2) = db_roles (db_of net) @ [r]) \<and>
      db_applications (db_of net2) = db_applications (db_of net)"
  proof (cases ?found)
    case None
    with c f have "admin_create_role http repr v (PStr name) (PStr scope) (opt_val description) PNone net1 = (Inr x, net2)"
      by simp
    from create_role_service [OF assms(1) _ this, unfolded d1, OF u(2)] a obtain r where
      r: "x = role_row r" "role_name r = name" "role_application_id r = Some (app_id a)"
        "db_of net2 = (db_of net)\<lparr>db_roles := db_roles (db_of net) @ [r]\<rparr>" "unique_col role_id (db_roles (db_of net2))"
      by auto
    moreover have "sql_get_role (db_of net2) (role_id r) = Some r"
      unfolding sql_get_role_def by (rule tbl_get_unique [OF r(5)]) (simp add: r(4))
    ultimately show ?thesis using None u(1) by (auto simp: sql_list_role_permissions_def)
  next
    case (Some q)
    with c f have "x = role_row q" "net2 = net1" by (simp_all add: call_return_Inr)
    moreover have "q \<in> set (db_roles (db_of net))" "role_name q = name" "role_application_id q = Some (app_id a)"
      using Some by (auto simp: sql_list_roles_for_application_def dest!: find_Some_set)
    ultimately show ?thesis
      using Some u tbl_get_unique [OF u(2), of q] by (simp add: sql_get_role_def d1)
  qed
  then obtain r where r: "x = role_row r" "role_name r = name" "role_application_id r = Some (app_id a)"
    "sql_get_role (db_of net2) (role_id r) = Some r" "unique_col perm_id (db_permissions (db_of net2))"
    and k: "\<forall>o'. sql_list_role_permissions (db_of net2) o' = sql_list_role_permissions (db_of net) o'"
    and t: "case ?found of Some q \<Rightarrow> r = q \<and> db_roles (db_of net2) = db_roles (db_of net)
       | None \<Rightarrow> db_roles (db_of net2) = db_roles (db_of net) @ [r]"
    and ap: "db_applications (db_of net2) = db_applications (db_of net)" by auto
  have xid: "xr_id x = PStr (role_id r)" by (simp add: r(1) role_row_def)
  from set_permissions_service [OF assms(1) w [unfolded xid]] have
    s: "sql_set_role_permissions (db_of net2) (role_id r) (set permissions) = Inr (db_of net')" by blast
  note e = set_role_permissions_exact [OF r(5,4) s]
  have "sql_get_role (db_of net') (role_id r) = Some r" using e r(4) by (simp add: sql_get_role_def)
  moreover have "db_applications (db_of net') = db_applications (db_of net)"
    using e ap by simp
  moreover have eq: "db_roles (db_of net') = db_roles (db_of net2)" using e by blast
  ultimately show ?thesis
    unfolding eq using a xid r(2,3) e k t by (intro exI [of _ a] exI [of _ r]) simp
qed

section \<open>Properties\<close>

text \<open>An upsert that returns has made the permissions of one role of the application exactly the requested
  ones and changed no other role. The role bears the name and is the first listed one that does, or a new one
  when there was none. Nothing is said of its tenant: a tenant's own role of that name is reused as well.\<close>

theorem upsert_role_exact:
  assumes "role_service st http db_of" and "homes_ok (db_of net)"
    and "upsert_role_with_permissions http repr (PStr aid) (PStr name) (PList (map PStr permissions)) (PStr scope)
      (opt_val description) net = (Inr x, net')"
  shows "\<exists>a r. require_application (db_of net) aid = Inr a \<and> xr_id x = PStr (role_id r) \<and>
    sql_get_role (db_of net') (role_id r) = Some r \<and> role_name r = name \<and> role_application_id r = Some (app_id a) \<and>
    perm_name ` set (sql_list_role_permissions (db_of net') (role_id r)) = set permissions \<and>
    (\<forall>other. other \<noteq> role_id r \<longrightarrow>
       sql_list_role_permissions (db_of net') other = sql_list_role_permissions (db_of net) other) \<and>
    (case List.find (\<lambda>q. role_name q = name) (sql_list_roles_for_application (db_of net) (app_id a)) of
       Some q \<Rightarrow> r = q \<and> db_roles (db_of net') = db_roles (db_of net)
     | None \<Rightarrow> db_roles (db_of net') = db_roles (db_of net) @ [r])"
  using upsert_exact [OF assms] unfolding py_str.simps by blast

text \<open>The witness has only a tenant's own role of that name, which the upsert of the application's role changes.\<close>

definition up_role :: role where
  "up_role = \<lparr>role_id = ''r'', role_name = ''editor'', role_scope = TENANT, role_tenant_id = Some ''t'',
     role_application_id = Some ''a'', role_description = None, role_is_system = False, role_agent_id = None\<rparr>"

definition up_permission :: permission where
  "up_permission = \<lparr>perm_id = ''p'', perm_name = ''docs.read'', perm_resource = ''docs'', perm_action = ''read'',
     perm_application_id = Some ''a'', perm_description = None, perm_deprecated = False, perm_critical = False\<rparr>"

definition up_app :: application where
  "up_app = \<lparr>app_id = ''a'', app_slug = ''a'', app_name = ''App'', app_status = ''active'', app_managed_by = None\<rparr>"

definition up_db :: sql_db where
  "up_db = empty_db\<lparr>db_applications := [up_app], db_roles := [up_role], db_permissions := [up_permission]\<rparr>"

text \<open>A transport that carries two requests and loses the rest.\<close>

definition up_reply :: "pyval \<Rightarrow> reply" where
  "up_reply v = \<lparr>rp_status = 200, rp_json = Some v, rp_text = ''''\<rparr>"

definition up_http :: "settings \<Rightarrow> sql_db transport" where
  "up_http st db rq =
     (if rq = list_roles_message ''a'' then
        (case list_roles_route ''a'' sample_admin db of
           Inl _ \<Rightarrow> (None, db)
         | Inr (rs, db') \<Rightarrow> (Some (up_reply (PList (map (PDict \<circ> role_out) rs))), db'))
      else if rq = role_permissions_message ''r'' [''docs.read''] then
        (case set_role_permissions_route st ''r'' [''docs.read''] sample_admin db of
           Inl _ \<Rightarrow> (None, db)
         | Inr (_, db') \<Rightarrow> (Some (up_reply (PDict [])), db'))
      else (None, db))"

lemma messages_distinct:
  "list_roles_message x = list_roles_message y \<longleftrightarrow> x = y"
  "role_permissions_message x ps = role_permissions_message y qs \<longleftrightarrow> x = y \<and> ps = qs"
  "list_roles_message x \<noteq> role_permissions_message y ps" "create_role_message x n s d \<noteq> list_roles_message y"
  "create_role_message x n s d \<noteq> role_permissions_message y ps" "role_permissions_message y ps \<noteq> list_roles_message x"
  by (auto simp: list_roles_message_def role_permissions_message_def create_role_message_def admin_message_def
      inj_map_eq_map inj_def)

lemma up_http_serves: "role_service st (up_http st) (\<lambda>db. db)"
  unfolding role_service_def up_http_def
  by (auto simp: messages_distinct up_reply_def split: sum.splits prod.splits) blast+

lemma role_call_messages:
  "admin_list_roles http repr (PStr aid) = decoded (admin_send http (list_roles_message aid)) (rows_with sdk_role_of)"
  "admin_set_role_permissions http repr (PStr rid) (PList (map PStr ps)) = admin_send http (role_permissions_message rid ps)"
  by (simp_all add: admin_list_roles_def admin_set_role_permissions_def list_roles_message_def role_permissions_message_def)

lemma up_db_ok: "homes_ok up_db"
  by (simp add: homes_ok_def up_db_def empty_db_def unique_col_def links_home_def internal_home_def up_role_def)

lemma up_upserts:
  fixes http :: "sql_db transport"
  assumes "\<And>db aid. http db (list_roles_message aid) = up_http st db (list_roles_message aid)"
    and "\<And>db rid ps. http db (role_permissions_message rid ps) = up_http st db (role_permissions_message rid ps)"
  shows "upsert_role_with_permissions http repr (PStr ''a'') (PStr ''editor'') (PList (map PStr [''docs.read'']))
    (PStr ''application'') (opt_val None) up_db = (Inr (role_row up_role), up_db\<lparr>db_role_permissions := {(''r'', ''p'')}\<rparr>)"
proof -
  let ?db = "up_db\<lparr>db_role_permissions := {(''r'', ''p'')}\<rparr>"
  have f: "sql_find_application up_db ''a'' = Some up_app" "sql_get_application up_db ''a'' = Some up_app"
    by (simp_all add: sql_find_application_def sql_get_application_def by_id_or_slug_def tbl_get_def up_db_def empty_db_def up_app_def)
  have l: "list_roles_route ''a'' sample_admin up_db = Inr ([up_role], up_db)"
    by (simp add: list_roles_route_def require_application_def f)
      (simp add: sql_list_roles_for_application_def up_db_def empty_db_def up_role_def up_app_def)
  have ad: "require_admin sample_admin = Inr sample_admin"
    by (simp add: sample_admin_def require_admin_def require_surface_def principal_allows_def scope_allows_def SCOPE_ADMIN_def)
  have r: "sql_get_role up_db ''r'' = Some up_role"
    by (simp add: sql_get_role_def tbl_get_def up_db_def empty_db_def up_role_def)
  have s0: "sql_set_role_permissions up_db ''r'' {''docs.read''} = Inr ?db"
    by (simp add: sql_set_role_permissions_def r [unfolded sql_get_role_def])
      (simp add: up_db_def empty_db_def up_role_def up_permission_def active_permissions_def perm_active_def check_names_def
        replace_links_def link_set_def dict_values_def Let_def)
  have s: "\<exists>y. set_role_permissions_route st ''r'' [''docs.read''] sample_admin up_db = Inr (y, ?db)"
    by (simp add: set_role_permissions_route_def guarded_def management_guard_init_def ad managed_role_def r s0 stored_def
        guard_application_id_def f guard_check_def up_role_def up_app_def)
  have w: "admin_set_role_permissions http repr (PStr ''r'') (PList (map PStr [''docs.read''])) up_db = (Inr (PDict []), ?db)"
    unfolding role_call_messages using s
    by (auto simp: admin_send_def assms up_http_def messages_distinct up_reply_def admin_finish_def)
  have ls: "admin_list_roles http repr (PStr ''a'') up_db = (Inr [role_row up_role], up_db)"
    unfolding role_call_messages using rows_with_out [of "[up_role]"]
    by (simp add: decoded_def call_bind_def call_lift_def lift_raise_def admin_send_def assms up_http_def l up_reply_def
        admin_finish_def)
  have x: "xr_id (role_row up_role) = PStr ''r''" "xr_name (role_row up_role) = PStr ''editor''"
    by (simp_all add: role_row_def up_role_def)
  show ?thesis
    using w by (simp add: upsert_role_with_permissions_def call_bind_def call_return_def ls x)
qed

theorem upsert_role_exact_witness:
  "\<forall>st. \<exists>x db'. homes_ok up_db \<and>
     upsert_role_with_permissions (up_http st) (\<lambda>_. []) (PStr ''a'') (PStr ''editor'') (PList (map PStr [''docs.read'']))
       (PStr ''application'') (opt_val None) up_db = (Inr x, db') \<and>
     role_tenant_id up_role = Some ''t'' \<and> xr_id x = PStr (role_id up_role) \<and>
     perm_name ` set (sql_list_role_permissions up_db (role_id up_role)) = {} \<and>
     perm_name ` set (sql_list_role_permissions db' (role_id up_role)) = {''docs.read''}"
  (is "\<forall>st. ?P st")
proof (intro allI)
  fix st
  let ?db = "up_db\<lparr>db_role_permissions := {(''r'', ''p'')}\<rparr>"
  note u = up_upserts [OF refl refl, of st "\<lambda>_. []"]
  from upsert_role_exact [OF up_http_serves up_db_ok u] obtain q :: role where
    "xr_id (role_row up_role) = PStr (role_id q)"
    "perm_name ` set (sql_list_role_permissions ?db (role_id q)) = set [''docs.read'']"
    by blast
  then have "perm_name ` set (sql_list_role_permissions ?db (role_id up_role)) = {''docs.read''}"
    by (simp add: role_row_def)
  moreover have "perm_name ` set (sql_list_role_permissions up_db (role_id up_role)) = {}"
    by (simp add: sql_list_role_permissions_def up_db_def empty_db_def)
  moreover have "role_tenant_id up_role = Some ''t''" "xr_id (role_row up_role) = PStr (role_id up_role)"
    by (simp_all add: up_role_def role_row_def)
  ultimately show "?P st" using up_db_ok u by (intro exI [of _ "role_row up_role"] exI [of _ ?db]) simp
qed

end
