(* ===== verification/Operator_Cli.thy ===== *)
theory Operator_Cli
  imports Admin_Client Signing_Keys
begin

text \<open>
  The command line (\<^verbatim>\<open>authz_service/cli.py\<close>): \<^verbatim>\<open>bootstrap\<close>, which seeds a tenant and an application from a file
  through the administration client; the \<^verbatim>\<open>oauth\<close> commands, which work on the tables of clients and signing keys
  directly; and \<^verbatim>\<open>inspect\<close>. Printing is left out except where a command prints one JSON value, which is its result.
  Files, the two parsers and the transport are parameters.
\<close>

section \<open>Outcomes and arguments\<close>

datatype exit_reason = SpecNotFound | YamlMissing | SectionsMissing | ClientNotFound

datatype cli_error = SystemExit exit_reason | SpecUnreadable | HttpxError | CliRaised sdk_error

text \<open>\<^verbatim>\<open>_load_spec\<close>; \<open>yaml\<close> is \<open>None\<close> when the package is not installed, a parser \<open>None\<close> on a text it rejects.\<close>

definition path_suffix :: "string \<Rightarrow> string \<Rightarrow> bool" where
  "path_suffix suffix path \<longleftrightarrow> length suffix \<le> length path \<and> drop (length path - length suffix) path = suffix"

definition load_spec ::
  "(string \<Rightarrow> string option) \<Rightarrow> (string \<Rightarrow> pyval option) option \<Rightarrow> (string \<Rightarrow> pyval option) \<Rightarrow> string \<Rightarrow>
     (cli_error, pyval) result" where
  "load_spec read_file yaml json path =
     (case read_file path of
        None \<Rightarrow> Inl (SystemExit SpecNotFound)
      | Some text \<Rightarrow>
          if path_suffix ''.yaml'' path \<or> path_suffix ''.yml'' path then
            (case yaml of
               None \<Rightarrow> Inl (SystemExit YamlMissing)
             | Some load \<Rightarrow> (case load text of None \<Rightarrow> Inl SpecUnreadable | Some v \<Rightarrow> Inr v))
          else (case json text of None \<Rightarrow> Inl SpecUnreadable | Some v \<Rightarrow> Inr v))"

section \<open>Bootstrap\<close>

text \<open>Find or create: any exception of the look-up leads to the creation.\<close>

definition bootstrap_tenant :: "'net transport \<Rightarrow> (pyval \<Rightarrow> string) \<Rightarrow> pyval \<Rightarrow> ('net, sdk_tenant) call" where
  "bootstrap_tenant http repr spec =
     call_rescue
       (call_bind (call_lift (body_item spec ''slug'')) (admin_get_tenant http repr))
       (call_bind (call_lift (body_item spec ''slug'')) (\<lambda>slug.
        call_bind (call_lift (body_get spec ''name'' slug)) (\<lambda>name.
          admin_create_tenant http slug name (PStr ''active''))))"

definition bootstrap_application :: "'net transport \<Rightarrow> (pyval \<Rightarrow> string) \<Rightarrow> pyval \<Rightarrow> ('net, sdk_application) call" where
  "bootstrap_application http repr spec =
     call_rescue
       (call_bind (call_lift (body_item spec ''slug'')) (admin_get_application http repr))
       (call_bind (call_lift (body_item spec ''slug'')) (\<lambda>slug.
        call_bind (call_lift (body_get spec ''name'' slug)) (\<lambda>name.
          admin_create_application http slug name (PStr ''active''))))"

text \<open>\<^verbatim>\<open>for x in spec.get(k, [])\<close>.\<close>

definition for_section :: "pyval \<Rightarrow> string \<Rightarrow> (pyval \<Rightarrow> ('net, unit) call) \<Rightarrow> ('net, unit) call" where
  "for_section spec k body =
     call_bind (call_lift (res_bind (body_get spec k (PList [])) py_iter)) (call_each body)"

definition bootstrap_mapping :: "'net transport \<Rightarrow> (pyval \<Rightarrow> string) \<Rightarrow> pyval \<Rightarrow> pyval \<Rightarrow> ('net, unit) call" where
  "bootstrap_mapping http repr tid mapping =
     call_rescue
       (call_bind (call_lift (body_item mapping ''provider'')) (\<lambda>provider.
        call_bind (call_lift (body_item mapping ''issuer'')) (\<lambda>issuer.
        call_bind (call_lift (body_item mapping ''external_tenant_id'')) (\<lambda>external.
        call_bind (admin_map_tenant_external http repr tid provider issuer external) (\<lambda>_. call_return ())))))
       (call_return ())"

definition bootstrap_permission ::
  "'net transport \<Rightarrow> (pyval \<Rightarrow> string) \<Rightarrow> pyval \<Rightarrow> pyval list \<Rightarrow> pyval \<Rightarrow> ('net, unit) call" where
  "bootstrap_permission http repr aid existing name =
     (if \<not> py_hashable name then call_lift (Inl TypeError)
      else if list_ex (py_eq name) existing then call_return ()
      else call_bind (admin_create_permission http repr aid name PNone) (\<lambda>_. call_return ()))"

definition bootstrap_permissions ::
  "'net transport \<Rightarrow> (pyval \<Rightarrow> string) \<Rightarrow> pyval \<Rightarrow> pyval \<Rightarrow> ('net, unit) call" where
  "bootstrap_permissions http repr aid app_spec =
     call_bind (admin_list_permissions http repr aid) (\<lambda>ps.
       if \<not> list_all py_hashable (map xp_name ps) then call_lift (Inl TypeError)
       else for_section app_spec ''permissions'' (bootstrap_permission http repr aid (map xp_name ps)))"

text \<open>\<^verbatim>\<open>list(v or [])\<close>.\<close>

definition list_or_empty :: "pyval \<Rightarrow> (authz_error, pyval) result" where
  "list_or_empty v = map_sum id PList (py_iter (py_or v (PList [])))"

definition bootstrap_role :: "'net transport \<Rightarrow> (pyval \<Rightarrow> string) \<Rightarrow> pyval \<Rightarrow> pyval \<Rightarrow> ('net, unit) call" where
  "bootstrap_role http repr aid role_spec =
     call_bind (call_lift (body_item role_spec ''name'')) (\<lambda>name.
     call_bind (call_lift (body_get role_spec ''scope'' (PStr ''application''))) (\<lambda>scope.
     call_bind (call_lift (res_bind (body_get role_spec ''permissions'' PNone) list_or_empty)) (\<lambda>permissions.
     call_bind (upsert_role_with_permissions http repr aid name permissions scope PNone) (\<lambda>_. call_return ()))))"

text \<open>\<^verbatim>\<open>(tenant_spec.get("feature_flags") or {}).items()\<close>.\<close>

definition flag_items :: "pyval \<Rightarrow> (authz_error, pydict) result" where
  "flag_items spec =
     res_bind (body_get spec ''feature_flags'' PNone)
       (\<lambda>v. case py_or v (PDict []) of PDict d \<Rightarrow> Inr d | _ \<Rightarrow> Inl AttributeError)"

definition bootstrap_flags :: "'net transport \<Rightarrow> (pyval \<Rightarrow> string) \<Rightarrow> pyval \<Rightarrow> pyval \<Rightarrow> ('net, unit) call" where
  "bootstrap_flags http repr tid tenant_spec =
     call_bind (call_lift (flag_items tenant_spec))
       (call_each (\<lambda>(key, value). call_bind (admin_set_feature_flag http repr tid (PStr key) value PNone) (\<lambda>_. call_return ())))"

definition bootstrap_membership ::
  "'net transport \<Rightarrow> (pyval \<Rightarrow> string) \<Rightarrow> pyval \<Rightarrow> pyval \<Rightarrow> pyval \<Rightarrow> ('net, unit) call" where
  "bootstrap_membership http repr tid aid m =
     call_bind (call_lift (body_item m ''user_id'')) (\<lambda>uid.
     call_bind (call_lift (body_get m ''roles'' PNone)) (\<lambda>roles.
     call_bind (admin_create_membership http repr tid uid aid (py_or roles (PList [])) (PStr ''active'')) (\<lambda>_. call_return ())))"

definition bootstrap_agent ::
  "'net transport \<Rightarrow> (pyval \<Rightarrow> string) \<Rightarrow> pyval \<Rightarrow> pyval \<Rightarrow> pyval \<Rightarrow> ('net, unit) call" where
  "bootstrap_agent http repr tid aid a =
     call_bind (call_lift (body_item a ''name'')) (\<lambda>name.
     call_bind (call_lift (body_get a ''role'' (PStr ''''))) (\<lambda>role.
     call_bind (admin_create_agent http repr tid aid name role (PStr ''active'') PNone PNone) (\<lambda>agent.
       if py_truthy role then call_bind (admin_set_agent_roles http repr (xg_id agent) (PList [role])) (\<lambda>_. call_return ())
       else call_return ())))"

text \<open>The body of the \<^verbatim>\<open>with\<close> block, and the command.\<close>

definition bootstrap_steps :: "'net transport \<Rightarrow> (pyval \<Rightarrow> string) \<Rightarrow> pyval \<Rightarrow> pyval \<Rightarrow> pyval \<Rightarrow> ('net, unit) call" where
  "bootstrap_steps http repr spec tenant_spec app_spec =
     call_bind (bootstrap_tenant http repr tenant_spec) (\<lambda>tenant.
     call_bind (for_section tenant_spec ''mappings'' (bootstrap_mapping http repr (xt_id tenant))) (\<lambda>_.
     call_bind (bootstrap_application http repr app_spec) (\<lambda>application.
     call_bind (bootstrap_permissions http repr (xa_id application) app_spec) (\<lambda>_.
     call_bind (for_section app_spec ''roles'' (bootstrap_role http repr (xa_id application))) (\<lambda>_.
     call_bind (bootstrap_flags http repr (xt_id tenant) tenant_spec) (\<lambda>_.
     call_bind (for_section spec ''memberships'' (bootstrap_membership http repr (xt_id tenant) (xa_id application))) (\<lambda>_.
       for_section spec ''agents'' (bootstrap_agent http repr (xt_id tenant) (xa_id application)))))))))"

definition cmd_bootstrap :: "'net transport \<Rightarrow> (pyval \<Rightarrow> string) \<Rightarrow> pyval \<Rightarrow> 'net \<Rightarrow> (cli_error, unit) result \<times> 'net" where
  "cmd_bootstrap http repr spec net =
     (case spec of
        PDict d \<Rightarrow>
          (let tenant_spec = dict_get_default d ''tenant'' (PDict []);
               app_spec = dict_get_default d ''application'' (PDict []) in
           if \<not> py_truthy tenant_spec \<or> \<not> py_truthy app_spec then (Inl (SystemExit SectionsMissing), net)
           else map_prod (map_sum CliRaised id) id (bootstrap_steps http repr spec tenant_spec app_spec net))
      | _ \<Rightarrow> (Inl (CliRaised (SdkRaised AttributeError)), net))"

section \<open>Clients and signing keys\<close>

text \<open>\<^verbatim>\<open>_local_store\<close>: the database the commands open.\<close>

definition local_database_url :: "string option \<Rightarrow> (string, string) dict \<Rightarrow> string \<Rightarrow> string" where
  "local_database_url arg environ configured =
     (case arg of
        Some u \<Rightarrow> if u \<noteq> '''' then u else dict_get_default environ ''AUTHZ_DATABASE_URL'' configured
      | None \<Rightarrow> dict_get_default environ ''AUTHZ_DATABASE_URL'' configured)"

definition scope_args :: "string \<Rightarrow> string list" where
  "scope_args s = filter (\<lambda>x. strip x \<noteq> '''') (split_on CHR '','' s)"

definition strings :: "string list \<Rightarrow> pyval" where
  "strings xs = PList (map PStr xs)"

definition cmd_oauth_client_create ::
  "(string \<Rightarrow> string) \<Rightarrow> instant \<Rightarrow> ident \<Rightarrow> string \<Rightarrow> string \<Rightarrow> string \<Rightarrow> string \<Rightarrow> ident option \<Rightarrow>
     oauth_client_row list \<Rightarrow> (cli_error, pydict) result \<times> oauth_client_row list" where
  "cmd_oauth_client_create hash now nid raw_id raw_secret name scopes tid rows =
     (case oc_issue hash rows now nid raw_id raw_secret name (scope_args scopes) tid None None of
        Inl e \<Rightarrow> (Inl (CliRaised (SdkRaised e)), rows)
      | Inr ((rec, secret), rows') \<Rightarrow>
          (Inr [(''client_id'', PStr (ocr_client_id rec)), (''client_secret'', PStr secret), (''name'', PStr (ocr_name rec)),
                (''scopes'', strings (ocr_scopes rec)), (''tenant_id'', opt_val (ocr_tenant_id rec))], rows'))"

definition cmd_oauth_client_list :: "(instant \<Rightarrow> string) \<Rightarrow> oauth_client_row list \<Rightarrow> pydict list" where
  "cmd_oauth_client_list isoformat rows =
     map (\<lambda>r. [(''client_id'', PStr (ocr_client_id r)), (''name'', PStr (ocr_name r)), (''scopes'', strings (ocr_scopes r)),
               (''tenant_id'', opt_val (ocr_tenant_id r)), (''status'', PStr (ocr_status r)),
               (''last_used_at'', opt_val (map_option isoformat (ocr_last_used_at r)))]) (oc_list_clients rows)"

definition cmd_oauth_client_revoke ::
  "string \<Rightarrow> oauth_client_row list \<Rightarrow> (cli_error, unit) result \<times> oauth_client_row list" where
  "cmd_oauth_client_revoke client_id rows =
     (let (found, rows') = oc_revoke rows client_id in
      (if found then Inr () else Inl (SystemExit ClientNotFound), rows'))"

definition cmd_oauth_client_rotate ::
  "(string \<Rightarrow> string) \<Rightarrow> string \<Rightarrow> string \<Rightarrow> oauth_client_row list \<Rightarrow>
     (cli_error, pydict) result \<times> oauth_client_row list" where
  "cmd_oauth_client_rotate hash raw client_id rows =
     (case oc_rotate_secret hash rows raw client_id of
        (None, rows') \<Rightarrow> (Inl (SystemExit ClientNotFound), rows')
      | (Some (rec, secret), rows') \<Rightarrow>
          (Inr [(''client_id'', PStr (ocr_client_id rec)), (''client_secret'', PStr secret)], rows'))"

definition key_summary :: "signing_key \<Rightarrow> pydict" where
  "key_summary k = [(''kid'', PStr (sk_kid k)), (''alg'', PStr (sk_alg k)), (''status'', PStr (sk_status k))]"

definition cmd_oauth_key_generate ::
  "(string \<Rightarrow> string) \<Rightarrow> string \<times> (string \<times> string) \<Rightarrow> instant \<Rightarrow> signing_key_row list \<Rightarrow>
     (signing_error, pydict) result \<times> signing_key_row list" where
  "cmd_oauth_key_generate hash gen now rows =
     (case generate_and_persist hash gen now (signing_service_init rows '''' True ''sqlite+pysqlite:'') of
        Inl e \<Rightarrow> (Inl e, rows)
      | Inr (k, svc) \<Rightarrow> (Inr (key_summary k), ss_rows svc))"

definition cmd_oauth_key_rotate ::
  "(string \<Rightarrow> string) \<Rightarrow> string \<times> (string \<times> string) \<Rightarrow> instant \<Rightarrow> settings \<Rightarrow> signing_key_row list \<Rightarrow>
     (signing_error, pydict) result \<times> signing_key_row list" where
  "cmd_oauth_key_rotate hash gen now st rows =
     (case rotate_key hash gen now
             (signing_service_init rows (cfg_oauth_signing_key_pem st) (cfg_dev_mode st) (cfg_database_url st)) of
        Inl e \<Rightarrow> (Inl e, rows)
      | Inr (k, svc) \<Rightarrow> (Inr (key_summary k), ss_rows svc))"

definition cmd_oauth_key_list :: "(instant \<Rightarrow> string) \<Rightarrow> signing_key_row list \<Rightarrow> pydict list" where
  "cmd_oauth_key_list isoformat rows =
     map (\<lambda>k. key_summary k @ [(''created_at'', opt_val (map_option isoformat (sk_created_at k)))])
       (list_signing_keys (signing_service_init rows '''' False ''''))"

section \<open>Inspect\<close>

text \<open>The exit code; the health check prints what it got.\<close>

definition cmd_inspect_health :: "'net transport \<Rightarrow> 'net \<Rightarrow> (cli_error, nat \<times> pyval \<times> nat) result \<times> 'net" where
  "cmd_inspect_health http net =
     (case http net \<lparr>sr_method = ''GET'', sr_path = ''/healthz'', sr_body = None, sr_headers = [], sr_params = None\<rparr> of
        (None, net') \<Rightarrow> (Inl HttpxError, net')
      | (Some r, net') \<Rightarrow>
          (case rp_json r of
             None \<Rightarrow> (Inl (CliRaised JSONDecodeError), net')
           | Some v \<Rightarrow> (Inr (rp_status r, v, if rp_status r < 400 then 0 else 1), net')))"

definition cmd_inspect_decision ::
  "'net transport \<Rightarrow> (pyval \<Rightarrow> string) \<Rightarrow> 'p sdk_client \<Rightarrow> string \<Rightarrow> ident option \<Rightarrow> ident option \<Rightarrow> ident \<Rightarrow> ident \<Rightarrow>
     string \<Rightarrow> string \<Rightarrow> 'net \<Rightarrow> (cli_error, nat) result \<times> 'net" where
  "cmd_inspect_decision http repr cl subject_type uid gid tid aid resource action net =
     (let subject = \<lparr>sj_type = subject_type, sj_user_id = uid, sj_agent_id = gid, sj_service_account_id = None,
                     sj_user_ref = None, sj_agent_name = None\<rparr> in
      case client_authorize http repr cl net tid aid subject resource action [] None of
        (Inl e, net') \<Rightarrow> (Inl (CliRaised e), net')
      | (Inr allowed, net') \<Rightarrow> (Inr (if allowed then 0 else 2), net'))"

section \<open>Lemmas\<close>

lemma call_each_append:
  "call_each f (xs @ ys) = call_bind (call_each f xs) (\<lambda>_. call_each f ys)"
  by (induction xs) (auto simp: call_bind_def call_return_def split: prod.splits sum.splits)

lemma for_section_Inr:
  "for_section spec k body net = (Inr (), net') \<longleftrightarrow>
     (\<exists>v xs. body_get spec k (PList []) = Inr v \<and> py_iter v = Inr xs \<and> call_each body xs net = (Inr (), net'))"
  by (auto simp: for_section_def call_Inr res_bind_eq_Inr)

end
