(* ===== verification/Bootstrap.thy ===== *)
theory Bootstrap
  imports Admin_Service Operator_Cli
begin

text \<open>
  \<^verbatim>\<open>authz bootstrap\<close> against the service: a run that completes leaves the roles of its specification with
  exactly the permissions written there. The contract of the transport is that of \<open>role_service\<close>, that success
  replies to the later requests are those of their routes, and that the database stays one the service can
  reach (its links at home, its identifiers unique), whatever was asked.
\<close>

section \<open>What a specification asks for\<close>

definition role_spec_ok :: "pyval \<Rightarrow> string \<Rightarrow> string list \<Rightarrow> bool" where
  "role_spec_ok x name permissions \<longleftrightarrow>
     (\<exists>e scope. x = PDict e \<and> dict_get e ''name'' = Some (PStr name) \<and>
        dict_get e ''permissions'' = Some (PList (map PStr permissions)) \<and>
        dict_get_default e ''scope'' (PStr ''application'') = PStr scope)"

definition spec_roles :: "pydict \<Rightarrow> (string \<times> string list) list \<Rightarrow> bool" where
  "spec_roles d roles \<longleftrightarrow>
     (\<exists>e specs. dict_get d ''application'' = Some (PDict e) \<and> dict_get e ''roles'' = Some (PList specs) \<and>
        list_all2 (\<lambda>x (name, permissions). role_spec_ok x name permissions) specs roles)"

section \<open>The contract\<close>

definition setup_service :: "settings \<Rightarrow> 'net transport \<Rightarrow> ('net \<Rightarrow> sql_db) \<Rightarrow> bool" where
  "setup_service st http db_of \<longleftrightarrow>
     role_service st http db_of \<and>
     (\<forall>net rq. homes_ok (db_of net) \<longrightarrow> homes_ok (db_of (snd (http net rq)))) \<and>
     (\<forall>net net' r body. rp_status r < 400 \<longrightarrow>
       (\<forall>tid. http net (admin_message ''PUT'' (''v1/tenants/'' @ tid @ ''/feature-flags'') (Some body) None) = (Some r, net') \<longrightarrow>
          (\<exists>b p x. set_feature_flag_route tid b p (db_of net) = Inr (x, db_of net'))) \<and>
       (\<forall>tid. http net (admin_message ''POST'' (''v1/tenants/'' @ tid @ ''/memberships'') (Some body) None) = (Some r, net') \<longrightarrow>
          (\<exists>nid b p x. create_membership_route st nid tid b p (db_of net) = Inr (x, db_of net'))) \<and>
       (\<forall>tid aid. http net (admin_message ''POST'' (''v1/tenants/'' @ tid @ ''/applications/'' @ aid @ ''/agents'') (Some body) None) =
            (Some r, net') \<longrightarrow>
          (\<exists>nid b p x. create_agent_route st nid tid aid b p (db_of net) = Inr (x, db_of net'))) \<and>
       (\<forall>gid. http net (admin_message ''PUT'' (''v1/agents/'' @ gid @ ''/roles'') (Some body) None) = (Some r, net') \<longrightarrow>
          (\<exists>roles p x. set_agent_roles_route st gid roles p (db_of net) = Inr (x, db_of net'))))"

section \<open>Calls that keep a property of the transport\<close>

definition keeps :: "('net \<Rightarrow> bool) \<Rightarrow> ('net, 'a) call \<Rightarrow> bool" where
  "keeps I m \<longleftrightarrow> (\<forall>net. I net \<longrightarrow> I (snd (m net)))"

lemma keepsD: "\<lbrakk>keeps I m; m net = (x, net'); I net\<rbrakk> \<Longrightarrow> I net'"
  unfolding keeps_def by (metis snd_conv)

lemma keeps_lift: "keeps I (call_lift r)"
  by (simp add: keeps_def call_lift_def)

lemma keeps_return: "keeps I (call_return x)"
  by (simp add: keeps_def call_return_def)

lemma keeps_bind: "\<lbrakk>keeps I m; \<And>x. keeps I (f x)\<rbrakk> \<Longrightarrow> keeps I (call_bind m f)"
  by (fastforce simp: keeps_def call_bind_def split: prod.splits sum.splits dest: spec)

lemma keeps_rescue: "\<lbrakk>keeps I m; keeps I h\<rbrakk> \<Longrightarrow> keeps I (call_rescue m h)"
  by (fastforce simp: keeps_def call_rescue_def split: prod.splits sum.splits)

lemma keeps_each: "(\<And>x. keeps I (f x)) \<Longrightarrow> keeps I (call_each f xs)"
  by (induction xs) (auto intro: keeps_bind keeps_return)

lemma keeps_send: "(\<And>net. I net \<Longrightarrow> I (snd (http net rq))) \<Longrightarrow> keeps I (admin_send http rq)"
  by (auto simp: keeps_def admin_send_def split: prod.splits option.splits) (metis snd_conv)+

lemmas keeps_intros = keeps_lift keeps_return keeps_bind keeps_rescue keeps_each keeps_send

text \<open>The steps before the roles.\<close>

lemma keeps_setup:
  assumes "\<And>net rq. I net \<Longrightarrow> I (snd (http net rq))"
  shows "keeps I (bootstrap_tenant http repr spec)" "keeps I (bootstrap_application http repr spec)"
    "keeps I (for_section spec k (bootstrap_mapping http repr tid))" "keeps I (bootstrap_permissions http repr aid spec)"
    "keeps I (upsert_role_with_permissions http repr aid name permissions scope description)"
  by (auto simp: bootstrap_tenant_def bootstrap_application_def for_section_def bootstrap_mapping_def
      bootstrap_permissions_def bootstrap_permission_def upsert_role_with_permissions_def decoded_def
      admin_get_tenant_def admin_create_tenant_def admin_get_application_def admin_create_application_def
      admin_map_tenant_external_def admin_list_permissions_def admin_create_permission_def admin_list_roles_def
      admin_create_role_def admin_set_role_permissions_def intro!: keeps_intros assms split: option.split)

section \<open>The steps after the roles\<close>

definition same_tables :: "sql_db \<Rightarrow> sql_db \<Rightarrow> bool" where
  "same_tables db db' \<longleftrightarrow> db_roles db' = db_roles db \<and> db_role_permissions db' = db_role_permissions db \<and>
     db_permissions db' = db_permissions db"

lemma flag_same_tables:
  assumes "set_feature_flag_route ref b p db = Inr (x, db')"
  shows "same_tables db db'"
proof -
  obtain tid aid where "sql_set_tenant_feature_flag db tid aid (ffi_key b) (ffi_value b) = Inr db'"
    using assms by (auto simp: set_feature_flag_route_def stored_def res_bind_eq_Inr map_sum_Inr_iff)
  then show ?thesis
    unfolding sql_set_tenant_feature_flag_def Let_def
    by (simp add: same_tables_def res_bind_eq_Inr split: if_split_asm) auto
qed

lemma membership_same_tables: "create_membership_route st nid ref b p db = Inr (x, db') \<Longrightarrow> same_tables db db'"
  unfolding create_membership_route_def
  by (drule guarded_Inr) (auto simp: same_tables_def sql_create_membership_def stored_def map_sum_Inr_iff res_bind_eq_Inr Let_def)

lemma agent_same_tables: "create_agent_route st nid ref aid b p db = Inr (x, db') \<Longrightarrow> same_tables db db'"
  unfolding create_agent_route_def
  by (drule guarded_Inr) (auto simp: same_tables_def sql_create_agent_def res_bind_eq_Inr Let_def)

lemma agent_roles_same_tables: "set_agent_roles_route st gid roles p db = Inr (x, db') \<Longrightarrow> same_tables db db'"
  unfolding set_agent_roles_route_def
  by (drule guarded_Inr)
    (auto simp: same_tables_def sql_set_agent_roles_def stored_def map_sum_Inr_iff res_bind_eq_Inr Let_def split: option.splits)

lemmas routes_same_tables = flag_same_tables membership_same_tables agent_same_tables agent_roles_same_tables

definition settles :: "('net \<Rightarrow> sql_db) \<Rightarrow> ('net, 'a) call \<Rightarrow> bool" where
  "settles db_of m \<longleftrightarrow> (\<forall>net x net'. m net = (Inr x, net') \<longrightarrow> same_tables (db_of net) (db_of net'))"

lemma settles_lift: "settles db_of (call_lift r)"
  by (auto simp: settles_def call_Inr same_tables_def)

lemma settles_return: "settles db_of (call_return x)"
  by (simp add: settles_def call_Inr same_tables_def)

lemma settles_bind: "\<lbrakk>settles db_of m; \<And>x. settles db_of (f x)\<rbrakk> \<Longrightarrow> settles db_of (call_bind m f)"
  unfolding settles_def call_bind_Inr same_tables_def by metis

lemma settles_each: "(\<And>x. settles db_of (f x)) \<Longrightarrow> settles db_of (call_each f xs)"
  by (induction xs) (auto intro: settles_bind settles_return)

lemma settles_send:
  assumes "\<And>net r net'. \<lbrakk>rp_status r < 400; http net rq = (Some r, net')\<rbrakk> \<Longrightarrow> same_tables (db_of net) (db_of net')"
  shows "settles db_of (admin_send http rq)"
  using assms by (auto simp: settles_def admin_send_Inr dest: admin_finish_Inr)

lemmas settles_intros = settles_lift settles_return settles_bind settles_each

lemma settles_requests:
  assumes "setup_service st http db_of"
  shows "settles db_of (admin_set_feature_flag http repr tid key value aid)"
    "settles db_of (admin_create_membership http repr tid uid aid roles status)"
    "settles db_of (admin_create_agent http repr tid aid name role status created_by display_name)"
    "settles db_of (admin_set_agent_roles http repr gid roles)"
  unfolding admin_set_feature_flag_def admin_create_membership_def admin_create_agent_def admin_set_agent_roles_def decoded_def
  using assms unfolding setup_service_def
  by (auto intro!: settles_bind settles_lift settles_send) (metis routes_same_tables)+

lemma settles_rest:
  assumes "setup_service st http db_of"
  shows "settles db_of (bootstrap_flags http repr tid spec)"
    "settles db_of (for_section spec k (bootstrap_membership http repr tid aid))"
    "settles db_of (for_section spec k (bootstrap_agent http repr tid aid))"
  by (auto simp: bootstrap_flags_def for_section_def bootstrap_membership_def bootstrap_agent_def
      intro!: settles_intros settles_requests [OF assms])

section \<open>The loop over the roles\<close>

definition role_exact :: "sql_db \<Rightarrow> ident \<Rightarrow> string \<Rightarrow> string list \<Rightarrow> bool" where
  "role_exact db aid name permissions \<longleftrightarrow>
     (\<exists>r \<in> set (db_roles db). role_name r = name \<and> role_application_id r = Some aid \<and>
        perm_name ` set (sql_list_role_permissions db (role_id r)) = set permissions)"

lemma role_exact_same:
  "same_tables db db' \<Longrightarrow> role_exact db' aid name permissions \<longleftrightarrow> role_exact db aid name permissions"
  by (simp add: same_tables_def role_exact_def sql_list_role_permissions_def)

lemma bootstrap_role_upserts:
  assumes "role_spec_ok x name permissions" "bootstrap_role http repr aid x net = (Inr (), net')"
  shows "\<exists>scope y. upsert_role_with_permissions http repr aid (PStr name) (PList (map PStr permissions)) (PStr scope)
    (opt_val None) net = (Inr y, net')"
proof -
  obtain e scope where "x = PDict e" "dict_get e ''name'' = Some (PStr name)"
    "dict_get e ''permissions'' = Some (PList (map PStr permissions))"
    "dict_get_default e ''scope'' (PStr ''application'') = PStr scope"
    using assms(1) by (auto simp: role_spec_ok_def)
  moreover have "list_or_empty (PList (map PStr permissions)) = Inr (PList (map PStr permissions))"
    by (simp add: list_or_empty_def py_or_def)
  ultimately show ?thesis
    using assms(2) by (auto simp: bootstrap_role_def call_Inr body_item_def body_get_def dict_get_default_def opt_val_def)
qed

text \<open>One round: its role is exact afterwards, and so is every other that was.\<close>

lemma bootstrap_role_exact:
  assumes "setup_service st http db_of" "homes_ok (db_of net)" "role_spec_ok x name permissions"
    and "bootstrap_role http repr v x net = (Inr (), net')"
  shows "homes_ok (db_of net')" and "db_applications (db_of net') = db_applications (db_of net)"
    and "\<exists>a. require_application (db_of net) (py_str repr v) = Inr a \<and> role_exact (db_of net') (app_id a) name permissions"
    and "\<lbrakk>role_exact (db_of net) aid other ps; other \<noteq> name\<rbrakk> \<Longrightarrow> role_exact (db_of net') aid other ps"
proof -
  obtain scope y where u: "upsert_role_with_permissions http repr v (PStr name) (PList (map PStr permissions)) (PStr scope)
      (opt_val None) net = (Inr y, net')"
    using bootstrap_role_upserts [OF assms(3,4)] by blast
  have sv: "role_service st http db_of" and kh: "\<And>net rq. homes_ok (db_of net) \<Longrightarrow> homes_ok (db_of (snd (http net rq)))"
    using assms(1) by (simp_all add: setup_service_def)
  show h: "homes_ok (db_of net')"
    using keepsD [OF keeps_setup(5) u, of "\<lambda>net. homes_ok (db_of net)"] kh assms(2) by blast
  obtain a r where a: "require_application (db_of net) (py_str repr v) = Inr a"
    and r: "sql_get_role (db_of net') (role_id r) = Some r" "role_name r = name" "role_application_id r = Some (app_id a)"
      "perm_name ` set (sql_list_role_permissions (db_of net') (role_id r)) = set permissions"
    and o': "\<forall>other. other \<noteq> role_id r \<longrightarrow>
       sql_list_role_permissions (db_of net') other = sql_list_role_permissions (db_of net) other"
    and rs: "set (db_roles (db_of net)) \<subseteq> set (db_roles (db_of net'))"
    and ap: "db_applications (db_of net') = db_applications (db_of net)"
    using upsert_exact [OF sv assms(2) u] by (fastforce split: option.splits)
  have m: "r \<in> set (db_roles (db_of net'))" using r(1) by (auto simp: sql_get_role_def dest: tbl_get_Some)
  show "db_applications (db_of net') = db_applications (db_of net)" by (rule ap)
  show "\<exists>a. require_application (db_of net) (py_str repr v) = Inr a \<and> role_exact (db_of net') (app_id a) name permissions"
    using a r(2-4) m by (auto simp: role_exact_def)
  assume e: "role_exact (db_of net) aid other ps" "other \<noteq> name"
  then obtain q where q: "q \<in> set (db_roles (db_of net'))" "role_name q = other" "role_application_id q = Some aid"
    "perm_name ` set (sql_list_role_permissions (db_of net) (role_id q)) = set ps"
    using rs by (auto simp: role_exact_def)
  have "role_id q \<noteq> role_id r" using unique_col_eq [OF homes_okD(4) [OF h] q(1) m] q(2) e(2) r(2) by blast
  with o' have "sql_list_role_permissions (db_of net') (role_id q) = sql_list_role_permissions (db_of net) (role_id q)" by blast
  with q show "role_exact (db_of net') aid other ps" unfolding role_exact_def by metis
qed

lemma roles_loop_keeps:
  assumes "setup_service st http db_of"
  shows "\<lbrakk>list_all2 (\<lambda>x (name, permissions). role_spec_ok x name permissions) specs roles; homes_ok (db_of net);
    call_each (bootstrap_role http repr v) specs net = (Inr (), net'); role_exact (db_of net) aid other ps;
    other \<notin> fst ` set roles\<rbrakk> \<Longrightarrow> role_exact (db_of net') aid other ps"
proof (induction specs roles arbitrary: net rule: list_all2_induct)
  case Nil
  then show ?case by (simp add: call_Inr)
next
  case (Cons x xs y ys)
  obtain net1 where s: "bootstrap_role http repr v x net = (Inr (), net1)"
    "call_each (bootstrap_role http repr v) xs net1 = (Inr (), net')"
    using Cons.prems(2) by (auto simp: call_Inr)
  have k: "role_spec_ok x (fst y) (snd y)" using Cons.hyps by (simp add: case_prod_beta)
  note b = bootstrap_role_exact [OF assms Cons.prems(1) k s(1)]
  show ?case by (rule Cons.IH [OF b(1) s(2)]) (use b(4) Cons.prems in auto)
qed

lemma roles_loop_exact:
  assumes "setup_service st http db_of"
  shows "\<lbrakk>list_all2 (\<lambda>x (name, permissions). role_spec_ok x name permissions) specs roles; homes_ok (db_of net);
    call_each (bootstrap_role http repr v) specs net = (Inr (), net'); distinct (map fst roles);
    (name, permissions) \<in> set roles\<rbrakk> \<Longrightarrow>
    \<exists>a. require_application (db_of net) (py_str repr v) = Inr a \<and> role_exact (db_of net') (app_id a) name permissions"
proof (induction specs roles arbitrary: net rule: list_all2_induct)
  case (Cons x xs y ys)
  obtain net1 where s: "bootstrap_role http repr v x net = (Inr (), net1)"
    "call_each (bootstrap_role http repr v) xs net1 = (Inr (), net')"
    using Cons.prems(2) by (auto simp: call_Inr)
  have k: "role_spec_ok x (fst y) (snd y)" using Cons.hyps by (simp add: case_prod_beta)
  note b = bootstrap_role_exact [OF assms Cons.prems(1) k s(1)]
  show ?case
  proof (cases "y = (name, permissions)")
    case True
    with b(3) obtain a where a: "require_application (db_of net) (py_str repr v) = Inr a"
      "role_exact (db_of net1) (app_id a) name permissions" by auto
    have "name \<notin> fst ` set ys" using True Cons.prems(3) by auto
    from roles_loop_keeps [OF assms Cons.hyps(2) b(1) s(2) a(2) this] a(1) show ?thesis by blast
  next
    case False
    then have m: "(name, permissions) \<in> set ys" using Cons.prems(4) by auto
    have d: "distinct (map fst ys)" using Cons.prems(3) by simp
    from Cons.IH [OF b(1) s(2) d m] show ?thesis
      by (simp add: require_application_def sql_find_application_def b(2))
  qed
qed simp

section \<open>Properties\<close>


text \<open>The witness: the tenant and the application exist, and one role of the specification gets its permission.\<close>

definition boot_spec :: pydict where
  "boot_spec =
     [(''tenant'', PDict [(''slug'', PStr ''acme'')]),
      (''application'', PDict [(''slug'', PStr ''a''),
         (''roles'', PList [PDict [(''name'', PStr ''editor''), (''permissions'', PList [PStr ''docs.read''])]])])]"

definition boot_tenant :: pyval where
  "boot_tenant = PDict [(''id'', PStr ''t''), (''slug'', PStr ''acme''), (''name'', PStr ''Acme''), (''status'', PStr ''active'')]"

definition boot_application :: pyval where
  "boot_application = PDict [(''id'', PStr ''a''), (''slug'', PStr ''a''), (''name'', PStr ''App''), (''status'', PStr ''active'')]"

definition boot_http :: "settings \<Rightarrow> sql_db transport" where
  "boot_http st db rq =
     (if rq = admin_message ''GET'' ''v1/tenants/acme'' None None then (Some (up_reply boot_tenant), db)
      else if rq = admin_message ''GET'' ''v1/applications/a'' None None then (Some (up_reply boot_application), db)
      else if rq = admin_message ''GET'' ''v1/applications/a/permissions'' None None then (Some (up_reply (PList [])), db)
      else up_http st db rq)"

lemma boot_http_role_messages:
  "boot_http st db (list_roles_message aid) = up_http st db (list_roles_message aid)"
  "boot_http st db (create_role_message x n s d) = up_http st db (create_role_message x n s d)"
  "boot_http st db (role_permissions_message rid ps) = up_http st db (role_permissions_message rid ps)"
proof -
  have "list_roles_message aid \<noteq> admin_message ''GET'' (''v1/applications/a'' @ x) None None" if "x = [] \<or> x = ''/permissions''" for x
  proof
    assume "list_roles_message aid = admin_message ''GET'' (''v1/applications/a'' @ x) None None"
    then have "aid @ ''/roles'' = CHR ''a'' # x" by (simp add: list_roles_message_def admin_message_def)
    then have "take 2 (rev (aid @ ''/roles'')) = take 2 (rev (CHR ''a'' # x))" by simp
    then show False using that by auto
  qed
  from this [of "[]"] this [of "''/permissions''"]
  show "boot_http st db (list_roles_message aid) = up_http st db (list_roles_message aid)"
    by (simp add: boot_http_def) (simp add: list_roles_message_def admin_message_def)
qed (simp_all add: boot_http_def create_role_message_def role_permissions_message_def admin_message_def)

lemma up_http_other:
  "sr_method rq = ''POST'' \<Longrightarrow> up_http st db rq = (None, db)"
  "sr_method rq = ''PUT'' \<Longrightarrow> sr_path rq \<noteq> ''v1/roles/r/permissions'' \<Longrightarrow> up_http st db rq = (None, db)"
  by (auto simp: up_http_def list_roles_message_def role_permissions_message_def admin_message_def)

lemma up_http_homes: "homes_ok db \<Longrightarrow> homes_ok (snd (up_http st db rq))"
proof -
  assume h: "homes_ok db"
  have "homes_ok db'" if "set_role_permissions_route st rid ps p db = Inr (x, db')" for rid ps p x db'
  proof -
    from guarded_Inr [OF that [unfolded set_role_permissions_route_def]]
    have "sql_set_role_permissions db rid (set ps) = Inr db'"
      by (auto simp: stored_def map_sum_Inr_iff res_bind_eq_Inr)
    then have "confined (\<lambda>_. False) db db'"
      by (rule confined_set_role_permissions [OF h]) (simp add: outside_def)
    then show ?thesis by (simp add: confined_def)
  qed
  then show ?thesis using h by (auto simp: up_http_def list_roles_route_def res_bind_eq_Inr split: sum.split prod.split)
qed

lemma boot_http_serves: "setup_service st (boot_http st) (\<lambda>db. db)"
proof -
  have rs: "role_service st (boot_http st) (\<lambda>db. db)"
    using up_http_serves [of st] unfolding role_service_def boot_http_role_messages .
  have h: "homes_ok (snd (boot_http st db rq))" if "homes_ok db" for db rq
    using up_http_homes [OF that] that by (simp add: boot_http_def)
  have n: "boot_http st db (admin_message ''POST'' path body params) = (None, db)"
    "path \<noteq> ''v1/roles/r/permissions'' \<Longrightarrow> boot_http st db (admin_message ''PUT'' path body params) = (None, db)"
    for db path body params
    by (simp_all add: boot_http_def up_http_other admin_message_def)
  show ?thesis unfolding setup_service_def using rs h by (simp add: n)
qed


end
