(* ===== verification/Migrations.thy ===== *)
theory Migrations
  imports Managed_Runs
begin

text \<open>
  The database schema: the Alembic revisions of \<^verbatim>\<open>migrations/versions\<close> as lists of operations, and the mapped
  classes of \<^verbatim>\<open>authzkit/storage/orm.py\<close> as the tables they declare. An operation is refused where the database
  refuses it whatever rows it has: a table or column that exists already or does not, a reference to a missing
  table, a table that others still reference. Dropping a column that an index, a constraint or a named foreign key
  still uses is refused too: PostgreSQL would drop those with it, and no revision relies on that. Types are those
  of PostgreSQL; the defaults of the classes are Python's and have no column of their own.
\<close>

section \<open>Schemas\<close>

datatype col_type = UUID | VARCHAR nat | TIMESTAMPTZ | BOOLEAN | JSONT

text \<open>A reference names the table (always its column \<^verbatim>\<open>id\<close>) and says whether deletes cascade.\<close>

record column =
  co_name :: string
  co_type :: col_type
  co_key :: bool
  co_nullable :: bool
  co_unique :: bool
  co_ref :: "(string \<times> bool) option"
  co_default :: "string option"

definition col :: "string \<Rightarrow> col_type \<Rightarrow> column" where
  "col n t = \<lparr>co_name = n, co_type = t, co_key = False, co_nullable = False, co_unique = False, co_ref = None,
     co_default = None\<rparr>"

definition pk :: "column \<Rightarrow> column" where "pk c = c\<lparr>co_key := True\<rparr>"
definition opt :: "column \<Rightarrow> column" where "opt c = c\<lparr>co_nullable := True\<rparr>"
definition uniq :: "column \<Rightarrow> column" where "uniq c = c\<lparr>co_unique := True\<rparr>"
definition refers :: "string \<Rightarrow> column \<Rightarrow> column" where "refers t c = c\<lparr>co_ref := Some (t, False)\<rparr>"
definition cascades :: "string \<Rightarrow> column \<Rightarrow> column" where "cascades t c = c\<lparr>co_ref := Some (t, True)\<rparr>"
definition dflt :: "string \<Rightarrow> column \<Rightarrow> column" where "dflt v c = c\<lparr>co_default := Some v\<rparr>"
definition stamp :: "string \<Rightarrow> column" where "stamp n = dflt ''now()'' (col n TIMESTAMPTZ)"

text \<open>An index may be unique, and partial: then it has the column and the value of its condition.\<close>

record index_def =
  ix_name :: string
  ix_table :: string
  ix_columns :: "string list"
  ix_unique :: bool
  ix_where :: "(string \<times> string) option"

definition index :: "string \<Rightarrow> string \<Rightarrow> string list \<Rightarrow> bool \<Rightarrow> (string \<times> string) option \<Rightarrow> index_def" where
  "index n t cs u w = \<lparr>ix_name = n, ix_table = t, ix_columns = cs, ix_unique = u, ix_where = w\<rparr>"

text \<open>The foreign keys of \<open>td_foreign\<close> are the named ones: name, column, table, cascading deletes.\<close>

record table_def =
  td_columns :: "column list"
  td_uniques :: "string list list"
  td_foreign :: "(string \<times> string \<times> string \<times> bool) list"

record schema =
  sc_tables :: "(string, table_def) dict"
  sc_indexes :: "index_def list"

datatype operation =
    CreateTable string "column list" "string list list"
  | DropTable string
  | CreateIndex index_def
  | DropIndex string
  | AddColumn string column
  | DropColumn string string
  | AddForeignKey string string string string bool
  | DropForeignKey string string

definition referenced :: "table_def \<Rightarrow> string list" where
  "referenced t = map fst (List.map_filter co_ref (td_columns t)) @ map (\<lambda>(_, _, r, _). r) (td_foreign t)"

definition alter :: "string \<Rightarrow> (table_def \<Rightarrow> table_def option) \<Rightarrow> schema \<Rightarrow> schema option" where
  "alter t f s =
     (case dict_get (sc_tables s) t of
        None \<Rightarrow> None
      | Some d \<Rightarrow> map_option (\<lambda>d'. s\<lparr>sc_tables := dict_set t d' (sc_tables s)\<rparr>) (f d))"

fun apply_operation :: "operation \<Rightarrow> schema \<Rightarrow> schema option" where
  "apply_operation (CreateTable t cs us) s =
     (let d = \<lparr>td_columns = cs, td_uniques = us, td_foreign = []\<rparr> in
      if dict_get (sc_tables s) t = None \<and> distinct (map co_name cs) \<and>
         list_all (\<lambda>r. r = t \<or> dict_get (sc_tables s) r \<noteq> None) (referenced d) \<and>
         list_all (list_all (\<lambda>c. c \<in> set (map co_name cs))) us
      then Some (s\<lparr>sc_tables := dict_set t d (sc_tables s)\<rparr>) else None)"
| "apply_operation (DropTable t) s =
     (if dict_get (sc_tables s) t \<noteq> None \<and> list_all (\<lambda>(u, d). u = t \<or> t \<notin> set (referenced d)) (sc_tables s)
      then Some (s\<lparr>sc_tables := dict_pop t (sc_tables s), sc_indexes := filter (\<lambda>i. ix_table i \<noteq> t) (sc_indexes s)\<rparr>)
      else None)"
| "apply_operation (CreateIndex i) s =
     (case dict_get (sc_tables s) (ix_table i) of
        None \<Rightarrow> None
      | Some d \<Rightarrow>
          if list_ex (\<lambda>j. ix_name j = ix_name i) (sc_indexes s) \<or>
             \<not> list_all (\<lambda>c. c \<in> set (map co_name (td_columns d))) (ix_columns i) then None
          else Some (s\<lparr>sc_indexes := sc_indexes s @ [i]\<rparr>))"
| "apply_operation (DropIndex n) s =
     (if list_ex (\<lambda>i. ix_name i = n) (sc_indexes s)
      then Some (s\<lparr>sc_indexes := filter (\<lambda>i. ix_name i \<noteq> n) (sc_indexes s)\<rparr>) else None)"
| "apply_operation (AddColumn t c) s =
     alter t (\<lambda>d. if co_name c \<in> set (map co_name (td_columns d)) \<or>
                     (case co_ref c of None \<Rightarrow> False | Some (r, _) \<Rightarrow> dict_get (sc_tables s) r = None) then None
                  else Some (d\<lparr>td_columns := td_columns d @ [c]\<rparr>)) s"
| "apply_operation (DropColumn t n) s =
     (if list_ex (\<lambda>i. ix_table i = t \<and> n \<in> set (ix_columns i)) (sc_indexes s) then None
      else alter t (\<lambda>d. if n \<notin> set (map co_name (td_columns d)) \<or> list_ex (\<lambda>u. n \<in> set u) (td_uniques d) \<or>
                           list_ex (\<lambda>(_, c, _, _). c = n) (td_foreign d) then None
                        else Some (d\<lparr>td_columns := filter (\<lambda>c. co_name c \<noteq> n) (td_columns d)\<rparr>)) s)"
| "apply_operation (AddForeignKey t n c r k) s =
     (if dict_get (sc_tables s) r = None then None
      else alter t (\<lambda>d. if c \<notin> set (map co_name (td_columns d)) \<or> n \<in> set (map fst (td_foreign d)) then None
                        else Some (d\<lparr>td_foreign := td_foreign d @ [(n, c, r, k)]\<rparr>)) s)"
| "apply_operation (DropForeignKey t n) s =
     alter t (\<lambda>d. if n \<notin> set (map fst (td_foreign d)) then None
                  else Some (d\<lparr>td_foreign := filter (\<lambda>f. fst f \<noteq> n) (td_foreign d)\<rparr>)) s"

fun run_operations :: "operation list \<Rightarrow> schema \<Rightarrow> schema option" where
  "run_operations [] s = Some s"
| "run_operations (x # xs) s = (case apply_operation x s of None \<Rightarrow> None | Some s' \<Rightarrow> run_operations xs s')"

section \<open>The revisions\<close>

definition tenants_table :: "column list" where
  "tenants_table =
     [pk (col ''id'' UUID), uniq (col ''slug'' (VARCHAR 255)), col ''name'' (VARCHAR 255),
      dflt ''active'' (col ''status'' (VARCHAR 32)), stamp ''created_at'', stamp ''updated_at'']"

definition applications_table :: "column list" where
  "applications_table =
     [pk (col ''id'' UUID), uniq (col ''slug'' (VARCHAR 255)), col ''name'' (VARCHAR 255),
      dflt ''active'' (col ''status'' (VARCHAR 32)), stamp ''created_at'', stamp ''updated_at'']"

definition users_table :: "column list" where
  "users_table =
     [pk (col ''id'' UUID), opt (col ''display_name'' (VARCHAR 255)), opt (col ''email'' (VARCHAR 255)),
      dflt ''active'' (col ''status'' (VARCHAR 32)), stamp ''created_at'', stamp ''updated_at'']"

definition external_identities_table :: "column list" where
  "external_identities_table =
     [pk (col ''id'' UUID), cascades ''users'' (col ''user_id'' UUID), col ''provider'' (VARCHAR 64),
      col ''issuer'' (VARCHAR 512), col ''subject'' (VARCHAR 255),
      opt (col ''external_tenant_id'' (VARCHAR 255)), opt (col ''email'' (VARCHAR 255)),
      stamp ''created_at'', stamp ''updated_at'']"

definition tenant_identity_mappings_table :: "column list" where
  "tenant_identity_mappings_table =
     [pk (col ''id'' UUID), cascades ''tenants'' (col ''tenant_id'' UUID), col ''provider'' (VARCHAR 64),
      col ''issuer'' (VARCHAR 512), col ''external_tenant_id'' (VARCHAR 255), stamp ''created_at'']"

definition memberships_table :: "column list" where
  "memberships_table =
     [pk (col ''id'' UUID), cascades ''tenants'' (col ''tenant_id'' UUID),
      opt (cascades ''applications'' (col ''application_id'' UUID)),
      cascades ''users'' (col ''user_id'' UUID), dflt ''active'' (col ''status'' (VARCHAR 32)),
      stamp ''created_at'', stamp ''updated_at'']"

definition roles_table :: "column list" where
  "roles_table =
     [pk (col ''id'' UUID), opt (cascades ''tenants'' (col ''tenant_id'' UUID)),
      opt (cascades ''applications'' (col ''application_id'' UUID)), col ''name'' (VARCHAR 255),
      col ''scope'' (VARCHAR 32), opt (col ''description'' (VARCHAR 1024)),
      dflt ''false'' (col ''is_system'' BOOLEAN), stamp ''created_at'', stamp ''updated_at'']"

definition membership_roles_table :: "column list" where
  "membership_roles_table =
     [pk (cascades ''memberships'' (col ''membership_id'' UUID)),
      pk (cascades ''roles'' (col ''role_id'' UUID)), stamp ''created_at'']"

definition permissions_table :: "column list" where
  "permissions_table =
     [pk (col ''id'' UUID), opt (cascades ''applications'' (col ''application_id'' UUID)),
      col ''name'' (VARCHAR 255), col ''resource'' (VARCHAR 255), col ''action'' (VARCHAR 255),
      opt (col ''description'' (VARCHAR 1024)), stamp ''created_at'']"

definition role_permissions_table :: "column list" where
  "role_permissions_table =
     [pk (cascades ''roles'' (col ''role_id'' UUID)),
      pk (cascades ''permissions'' (col ''permission_id'' UUID)), stamp ''created_at'']"

definition agents_table :: "column list" where
  "agents_table =
     [pk (col ''id'' UUID), cascades ''tenants'' (col ''tenant_id'' UUID),
      cascades ''applications'' (col ''application_id'' UUID), col ''name'' (VARCHAR 255),
      dflt ''active'' (col ''status'' (VARCHAR 32)), dflt '''' (col ''role_label'' (VARCHAR 255)),
      opt (refers ''users'' (col ''created_by_user_id'' UUID)), stamp ''created_at'', stamp ''updated_at'']"

definition agent_roles_table :: "column list" where
  "agent_roles_table =
     [pk (cascades ''agents'' (col ''agent_id'' UUID)), pk (cascades ''roles'' (col ''role_id'' UUID)),
      stamp ''created_at'']"

definition tenant_feature_flags_table :: "column list" where
  "tenant_feature_flags_table =
     [pk (cascades ''tenants'' (col ''tenant_id'' UUID)),
      pk (opt (cascades ''applications'' (col ''application_id'' UUID))), pk (col ''key'' (VARCHAR 255)),
      col ''value'' JSONT, stamp ''created_at'', stamp ''updated_at'']"

definition tenant_permission_masks_table :: "column list" where
  "tenant_permission_masks_table =
     [pk (cascades ''tenants'' (col ''tenant_id'' UUID)),
      pk (cascades ''applications'' (col ''application_id'' UUID)),
      pk (col ''permission_name'' (VARCHAR 255)), stamp ''created_at'']"

definition policies_table :: "column list" where
  "policies_table =
     [pk (col ''id'' UUID), opt (cascades ''tenants'' (col ''tenant_id'' UUID)),
      opt (cascades ''applications'' (col ''application_id'' UUID)), col ''name'' (VARCHAR 255),
      col ''effect'' (VARCHAR 16), col ''resource'' (VARCHAR 255), col ''action'' (VARCHAR 255),
      opt (col ''condition'' JSONT), dflt ''active'' (col ''status'' (VARCHAR 32)), stamp ''created_at'',
      stamp ''updated_at'']"

definition audit_log_table :: "column list" where
  "audit_log_table =
     [pk (col ''id'' UUID), opt (col ''tenant_id'' UUID), opt (col ''application_id'' UUID),
      opt (col ''user_id'' UUID), opt (col ''agent_id'' UUID), col ''decision'' (VARCHAR 16),
      col ''resource'' (VARCHAR 255), col ''action'' (VARCHAR 255), opt (col ''reason'' (VARCHAR 255)),
      col ''request'' JSONT, col ''response'' JSONT, opt (col ''request_id'' (VARCHAR 64)),
      stamp ''created_at'']"

definition api_keys_table :: "column list" where
  "api_keys_table =
     [pk (col ''id'' UUID), col ''name'' (VARCHAR 255), uniq (col ''key_hash'' (VARCHAR 128)),
      col ''key_prefix'' (VARCHAR 16), dflt ''admin'' (col ''scopes'' (VARCHAR 512)),
      opt (cascades ''tenants'' (col ''tenant_id'' UUID)), dflt ''active'' (col ''status'' (VARCHAR 16)),
      opt (col ''expires_at'' TIMESTAMPTZ), opt (col ''last_used_at'' TIMESTAMPTZ),
      opt (col ''rotates'' UUID), stamp ''created_at'', stamp ''updated_at'']"

definition invitations_table :: "column list" where
  "invitations_table =
     [pk (col ''id'' UUID), cascades ''tenants'' (col ''tenant_id'' UUID),
      opt (cascades ''applications'' (col ''application_id'' UUID)), col ''email'' (VARCHAR 255),
      uniq (col ''token_hash'' (VARCHAR 128)), dflt '''' (col ''roles'' (VARCHAR 2048)),
      dflt ''pending'' (col ''status'' (VARCHAR 16)),
      opt (refers ''users'' (col ''invited_by_user_id'' UUID)), col ''expires_at'' TIMESTAMPTZ,
      opt (col ''accepted_at'' TIMESTAMPTZ), opt (col ''accepted_by_user_id'' UUID), stamp ''created_at'',
      stamp ''updated_at'']"

definition oauth_clients_table :: "column list" where
  "oauth_clients_table =
     [pk (col ''id'' UUID), uniq (col ''client_id'' (VARCHAR 64)), col ''secret_hash'' (VARCHAR 128),
      col ''name'' (VARCHAR 255), dflt ''runtime'' (col ''scopes'' (VARCHAR 512)),
      opt (cascades ''tenants'' (col ''tenant_id'' UUID)), dflt ''active'' (col ''status'' (VARCHAR 16)),
      opt (col ''expires_at'' TIMESTAMPTZ), opt (col ''last_used_at'' TIMESTAMPTZ), stamp ''created_at'',
      stamp ''updated_at'']"

definition oauth_signing_keys_table :: "column list" where
  "oauth_signing_keys_table =
     [pk (col ''kid'' (VARCHAR 64)), dflt ''RS256'' (col ''alg'' (VARCHAR 16)), col ''public_jwk'' JSONT,
      col ''private_pem'' (VARCHAR 8192), dflt ''active'' (col ''status'' (VARCHAR 16)),
      stamp ''created_at'', opt (col ''rotated_at'' TIMESTAMPTZ)]"

definition admin_sessions_table :: "column list" where
  "admin_sessions_table =
     [pk (col ''id'' (VARCHAR 64)), col ''subject'' (VARCHAR 255), opt (col ''email'' (VARCHAR 255)),
      col ''issuer'' (VARCHAR 512), dflt ''admin'' (col ''scopes'' (VARCHAR 512)),
      col ''raw_claims'' JSONT, col ''csrf_token'' (VARCHAR 64), stamp ''created_at'',
      col ''expires_at'' TIMESTAMPTZ, opt (col ''last_seen_at'' TIMESTAMPTZ)]"

definition admin_login_attempts_table :: "column list" where
  "admin_login_attempts_table =
     [pk (col ''id'' (VARCHAR 64)), uniq (col ''state'' (VARCHAR 64)), col ''code_verifier'' (VARCHAR 255),
      col ''nonce'' (VARCHAR 64), dflt ''/admin/'' (col ''return_to'' (VARCHAR 512)), stamp ''created_at'',
      col ''expires_at'' TIMESTAMPTZ]"

definition delegation_grants_table :: "column list" where
  "delegation_grants_table =
     [pk (col ''id'' UUID), cascades ''tenants'' (col ''tenant_id'' UUID),
      cascades ''applications'' (col ''application_id'' UUID), cascades ''users'' (col ''user_id'' UUID),
      cascades ''agents'' (col ''agent_id'' UUID), col ''permissions'' JSONT,
      opt (col ''purpose'' (VARCHAR 1024)), opt (col ''issued_by'' (VARCHAR 255)),
      dflt ''active'' (col ''status'' (VARCHAR 16)), col ''expires_at'' TIMESTAMPTZ,
      opt (col ''revoked_at'' TIMESTAMPTZ), stamp ''created_at'']"

definition upgrade_0001 :: "operation list" where
  "upgrade_0001 =
     [
      CreateTable ''tenants'' tenants_table [],
      CreateTable ''applications'' applications_table [],
      CreateTable ''users'' users_table [],
      CreateTable ''external_identities'' external_identities_table [[''provider'', ''issuer'', ''subject'']],
      CreateTable ''tenant_identity_mappings'' tenant_identity_mappings_table [[''provider'', ''issuer'', ''external_tenant_id'']],
      CreateTable ''memberships'' memberships_table [[''tenant_id'', ''application_id'', ''user_id'']],
      CreateTable ''roles'' roles_table [[''tenant_id'', ''application_id'', ''name'']],
      CreateTable ''membership_roles'' membership_roles_table [],
      CreateTable ''permissions'' permissions_table [[''application_id'', ''name''], [''application_id'', ''resource'', ''action'']],
      CreateTable ''role_permissions'' role_permissions_table [],
      CreateTable ''agents'' agents_table [],
      CreateTable ''agent_roles'' agent_roles_table [],
      CreateTable ''tenant_feature_flags'' tenant_feature_flags_table [],
      CreateTable ''tenant_permission_masks'' tenant_permission_masks_table [],
      CreateTable ''policies'' policies_table [],
      CreateTable ''audit_log'' audit_log_table [],
      CreateIndex (index ''ix_audit_log_tenant'' ''audit_log'' [''tenant_id''] False None),
      CreateIndex (index ''ix_audit_log_decision'' ''audit_log'' [''decision''] False None),
      CreateIndex (index ''ix_audit_log_created_at'' ''audit_log'' [''created_at''] False None)]"

definition downgrade_0001 :: "operation list" where
  "downgrade_0001 =
     [DropTable ''audit_log'', DropTable ''policies'', DropTable ''tenant_permission_masks'',
      DropTable ''tenant_feature_flags'', DropTable ''agent_roles'', DropTable ''agents'',
      DropTable ''role_permissions'', DropTable ''permissions'', DropTable ''membership_roles'',
      DropTable ''roles'', DropTable ''memberships'', DropTable ''tenant_identity_mappings'',
      DropTable ''external_identities'', DropTable ''users'', DropTable ''applications'',
      DropTable ''tenants'']"

definition upgrade_0002 :: "operation list" where
  "upgrade_0002 =
     [
      CreateTable ''api_keys'' api_keys_table [],
      CreateIndex (index ''ix_api_keys_status'' ''api_keys'' [''status''] False None),
      CreateTable ''invitations'' invitations_table [],
      CreateIndex (index ''ix_invitations_tenant'' ''invitations'' [''tenant_id''] False None),
      CreateIndex (index ''ix_invitations_email'' ''invitations'' [''email''] False None)]"

definition downgrade_0002 :: "operation list" where
  "downgrade_0002 =
     [DropTable ''invitations'', DropTable ''api_keys'']"

definition upgrade_0003 :: "operation list" where
  "upgrade_0003 =
     [
      CreateTable ''oauth_clients'' oauth_clients_table [],
      CreateIndex (index ''ix_oauth_clients_status'' ''oauth_clients'' [''status''] False None),
      CreateTable ''oauth_signing_keys'' oauth_signing_keys_table [],
      CreateIndex (index ''ix_oauth_signing_keys_status'' ''oauth_signing_keys'' [''status''] False None),
      CreateIndex (index ''uq_oauth_signing_keys_active'' ''oauth_signing_keys'' [''status''] True (Some (''status'', ''active''))),
      CreateTable ''admin_sessions'' admin_sessions_table [],
      CreateIndex (index ''ix_admin_sessions_expires'' ''admin_sessions'' [''expires_at''] False None),
      CreateTable ''admin_login_attempts'' admin_login_attempts_table [],
      CreateIndex (index ''ix_admin_login_attempts_expires'' ''admin_login_attempts'' [''expires_at''] False None)]"

definition downgrade_0003 :: "operation list" where
  "downgrade_0003 =
     [DropIndex ''ix_admin_login_attempts_expires'', DropTable ''admin_login_attempts'',
      DropIndex ''ix_admin_sessions_expires'', DropTable ''admin_sessions'',
      DropIndex ''uq_oauth_signing_keys_active'', DropIndex ''ix_oauth_signing_keys_status'',
      DropTable ''oauth_signing_keys'', DropIndex ''ix_oauth_clients_status'', DropTable ''oauth_clients'']"

definition upgrade_0004 :: "operation list" where
  "upgrade_0004 =
     [
      CreateTable ''delegation_grants'' delegation_grants_table [],
      CreateIndex (index ''ix_delegation_grants_tenant_agent'' ''delegation_grants'' [''tenant_id'', ''agent_id''] False None),
      CreateIndex (index ''ix_delegation_grants_tenant_user'' ''delegation_grants'' [''tenant_id'', ''user_id''] False None)]"

definition downgrade_0004 :: "operation list" where
  "downgrade_0004 =
     [DropIndex ''ix_delegation_grants_tenant_user'', DropIndex ''ix_delegation_grants_tenant_agent'',
      DropTable ''delegation_grants'']"

definition upgrade_0005 :: "operation list" where
  "upgrade_0005 =
     [AddColumn ''applications'' (opt (col ''managed_by'' (VARCHAR 255))),
      AddColumn ''permissions'' (dflt ''false'' (col ''deprecated'' BOOLEAN)),
      AddColumn ''permissions'' (dflt ''false'' (col ''critical'' BOOLEAN)),
      AddColumn ''roles'' (opt (col ''agent_id'' UUID)),
      AddForeignKey ''roles'' ''fk_roles_agent_id_agents'' ''agent_id'' ''agents'' True,
      AddColumn ''agents'' (opt (col ''display_name'' (VARCHAR 255))),
      CreateIndex (index ''uq_agents_tenant_application_name'' ''agents'' [''tenant_id'', ''application_id'', ''name''] True None)]"

definition downgrade_0005 :: "operation list" where
  "downgrade_0005 =
     [DropIndex ''uq_agents_tenant_application_name'', DropColumn ''agents'' ''display_name'',
      DropForeignKey ''roles'' ''fk_roles_agent_id_agents'', DropColumn ''roles'' ''agent_id'',
      DropColumn ''permissions'' ''critical'', DropColumn ''permissions'' ''deprecated'',
      DropColumn ''applications'' ''managed_by'']"

text \<open>The chain of \<^verbatim>\<open>down_revision\<close>s, oldest first.\<close>

definition revisions :: "(operation list \<times> operation list) list" where
  "revisions =
     [(upgrade_0001, downgrade_0001), (upgrade_0002, downgrade_0002), (upgrade_0003, downgrade_0003),
      (upgrade_0004, downgrade_0004), (upgrade_0005, downgrade_0005)]"

definition empty_schema :: schema where
  "empty_schema = \<lparr>sc_tables = [], sc_indexes = []\<rparr>"

definition schema_at :: "nat \<Rightarrow> schema option" where
  "schema_at n = run_operations (concat (map fst (take n revisions))) empty_schema"

section \<open>The mapped classes\<close>

record model =
  md_name :: string
  md_columns :: "column list"
  md_uniques :: "string list list"
  md_indexes :: "index_def list"

definition model :: "string \<Rightarrow> column list \<Rightarrow> string list list \<Rightarrow> index_def list \<Rightarrow> model" where
  "model n cs us ixs = \<lparr>md_name = n, md_columns = cs, md_uniques = us, md_indexes = ixs\<rparr>"

definition tenants_model :: model where
  "tenants_model =
     model ''tenants''
       [pk (col ''id'' UUID), uniq (col ''slug'' (VARCHAR 255)), col ''name'' (VARCHAR 255),
        col ''status'' (VARCHAR 32), col ''created_at'' TIMESTAMPTZ, col ''updated_at'' TIMESTAMPTZ]
       [] []"

definition applications_model :: model where
  "applications_model =
     model ''applications''
       [pk (col ''id'' UUID), uniq (col ''slug'' (VARCHAR 255)), col ''name'' (VARCHAR 255),
        col ''status'' (VARCHAR 32), opt (col ''managed_by'' (VARCHAR 255)), col ''created_at'' TIMESTAMPTZ,
        col ''updated_at'' TIMESTAMPTZ]
       [] []"

definition users_model :: model where
  "users_model =
     model ''users''
       [pk (col ''id'' UUID), opt (col ''display_name'' (VARCHAR 255)), opt (col ''email'' (VARCHAR 255)),
        col ''status'' (VARCHAR 32), col ''created_at'' TIMESTAMPTZ, col ''updated_at'' TIMESTAMPTZ]
       [] []"

definition external_identities_model :: model where
  "external_identities_model =
     model ''external_identities''
       [pk (col ''id'' UUID), cascades ''users'' (col ''user_id'' UUID), col ''provider'' (VARCHAR 64),
        col ''issuer'' (VARCHAR 512), col ''subject'' (VARCHAR 255),
        opt (col ''external_tenant_id'' (VARCHAR 255)), opt (col ''email'' (VARCHAR 255)),
        col ''created_at'' TIMESTAMPTZ, col ''updated_at'' TIMESTAMPTZ]
       [[''provider'', ''issuer'', ''subject'']] []"

definition tenant_identity_mappings_model :: model where
  "tenant_identity_mappings_model =
     model ''tenant_identity_mappings''
       [pk (col ''id'' UUID), cascades ''tenants'' (col ''tenant_id'' UUID), col ''provider'' (VARCHAR 64),
        col ''issuer'' (VARCHAR 512), col ''external_tenant_id'' (VARCHAR 255),
        col ''created_at'' TIMESTAMPTZ]
       [[''provider'', ''issuer'', ''external_tenant_id'']] []"

definition memberships_model :: model where
  "memberships_model =
     model ''memberships''
       [pk (col ''id'' UUID), cascades ''tenants'' (col ''tenant_id'' UUID),
        opt (cascades ''applications'' (col ''application_id'' UUID)),
        cascades ''users'' (col ''user_id'' UUID), col ''status'' (VARCHAR 32),
        col ''created_at'' TIMESTAMPTZ, col ''updated_at'' TIMESTAMPTZ]
       [[''tenant_id'', ''application_id'', ''user_id'']] []"

definition roles_model :: model where
  "roles_model =
     model ''roles''
       [pk (col ''id'' UUID), opt (cascades ''tenants'' (col ''tenant_id'' UUID)),
        opt (cascades ''applications'' (col ''application_id'' UUID)), col ''name'' (VARCHAR 255),
        col ''scope'' (VARCHAR 32), opt (col ''description'' (VARCHAR 1024)), col ''is_system'' BOOLEAN,
        opt (cascades ''agents'' (col ''agent_id'' UUID)), col ''created_at'' TIMESTAMPTZ,
        col ''updated_at'' TIMESTAMPTZ]
       [[''tenant_id'', ''application_id'', ''name'']] []"

definition membership_roles_model :: model where
  "membership_roles_model =
     model ''membership_roles''
       [pk (cascades ''memberships'' (col ''membership_id'' UUID)),
        pk (cascades ''roles'' (col ''role_id'' UUID)), opt (col ''created_at'' TIMESTAMPTZ)]
       [] []"

definition permissions_model :: model where
  "permissions_model =
     model ''permissions''
       [pk (col ''id'' UUID), opt (cascades ''applications'' (col ''application_id'' UUID)),
        col ''name'' (VARCHAR 255), col ''resource'' (VARCHAR 255), col ''action'' (VARCHAR 255),
        opt (col ''description'' (VARCHAR 1024)), col ''deprecated'' BOOLEAN, col ''critical'' BOOLEAN,
        col ''created_at'' TIMESTAMPTZ]
       [[''application_id'', ''name''], [''application_id'', ''resource'', ''action'']] []"

definition role_permissions_model :: model where
  "role_permissions_model =
     model ''role_permissions''
       [pk (cascades ''roles'' (col ''role_id'' UUID)),
        pk (cascades ''permissions'' (col ''permission_id'' UUID)), opt (col ''created_at'' TIMESTAMPTZ)]
       [] []"

definition agents_model :: model where
  "agents_model =
     model ''agents''
       [pk (col ''id'' UUID), cascades ''tenants'' (col ''tenant_id'' UUID),
        cascades ''applications'' (col ''application_id'' UUID), col ''name'' (VARCHAR 255),
        opt (col ''display_name'' (VARCHAR 255)), col ''status'' (VARCHAR 32),
        col ''role_label'' (VARCHAR 255), opt (refers ''users'' (col ''created_by_user_id'' UUID)),
        col ''created_at'' TIMESTAMPTZ, col ''updated_at'' TIMESTAMPTZ]
       []
       [index ''uq_agents_tenant_application_name'' ''agents'' [''tenant_id'', ''application_id'', ''name''] True None]"

definition agent_roles_model :: model where
  "agent_roles_model =
     model ''agent_roles''
       [pk (cascades ''agents'' (col ''agent_id'' UUID)), pk (cascades ''roles'' (col ''role_id'' UUID)),
        opt (col ''created_at'' TIMESTAMPTZ)]
       [] []"

definition tenant_feature_flags_model :: model where
  "tenant_feature_flags_model =
     model ''tenant_feature_flags''
       [pk (cascades ''tenants'' (col ''tenant_id'' UUID)),
        pk (opt (cascades ''applications'' (col ''application_id'' UUID))), pk (col ''key'' (VARCHAR 255)),
        col ''value'' JSONT, col ''created_at'' TIMESTAMPTZ, col ''updated_at'' TIMESTAMPTZ]
       [] []"

definition tenant_permission_masks_model :: model where
  "tenant_permission_masks_model =
     model ''tenant_permission_masks''
       [pk (cascades ''tenants'' (col ''tenant_id'' UUID)),
        pk (cascades ''applications'' (col ''application_id'' UUID)),
        pk (col ''permission_name'' (VARCHAR 255)), col ''created_at'' TIMESTAMPTZ]
       [] []"

definition policies_model :: model where
  "policies_model =
     model ''policies''
       [pk (col ''id'' UUID), opt (cascades ''tenants'' (col ''tenant_id'' UUID)),
        opt (cascades ''applications'' (col ''application_id'' UUID)), col ''name'' (VARCHAR 255),
        col ''effect'' (VARCHAR 16), col ''resource'' (VARCHAR 255), col ''action'' (VARCHAR 255),
        opt (col ''condition'' JSONT), col ''status'' (VARCHAR 32), col ''created_at'' TIMESTAMPTZ,
        col ''updated_at'' TIMESTAMPTZ]
       [] []"

definition audit_log_model :: model where
  "audit_log_model =
     model ''audit_log''
       [pk (col ''id'' UUID), opt (col ''tenant_id'' UUID), opt (col ''application_id'' UUID),
        opt (col ''user_id'' UUID), opt (col ''agent_id'' UUID), col ''decision'' (VARCHAR 16),
        col ''resource'' (VARCHAR 255), col ''action'' (VARCHAR 255), opt (col ''reason'' (VARCHAR 255)),
        col ''request'' JSONT, col ''response'' JSONT, opt (col ''request_id'' (VARCHAR 64)),
        col ''created_at'' TIMESTAMPTZ]
       [] []"

definition api_keys_model :: model where
  "api_keys_model =
     model ''api_keys''
       [pk (col ''id'' UUID), col ''name'' (VARCHAR 255), uniq (col ''key_hash'' (VARCHAR 128)),
        col ''key_prefix'' (VARCHAR 16), col ''scopes'' (VARCHAR 512),
        opt (cascades ''tenants'' (col ''tenant_id'' UUID)), col ''status'' (VARCHAR 16),
        opt (col ''expires_at'' TIMESTAMPTZ), opt (col ''last_used_at'' TIMESTAMPTZ),
        opt (col ''rotates'' UUID), col ''created_at'' TIMESTAMPTZ, col ''updated_at'' TIMESTAMPTZ]
       [] []"

definition oauth_clients_model :: model where
  "oauth_clients_model =
     model ''oauth_clients''
       [pk (col ''id'' UUID), uniq (col ''client_id'' (VARCHAR 64)), col ''secret_hash'' (VARCHAR 128),
        col ''name'' (VARCHAR 255), col ''scopes'' (VARCHAR 512),
        opt (cascades ''tenants'' (col ''tenant_id'' UUID)), col ''status'' (VARCHAR 16),
        opt (col ''expires_at'' TIMESTAMPTZ), opt (col ''last_used_at'' TIMESTAMPTZ),
        col ''created_at'' TIMESTAMPTZ, col ''updated_at'' TIMESTAMPTZ]
       [] []"

definition oauth_signing_keys_model :: model where
  "oauth_signing_keys_model =
     model ''oauth_signing_keys''
       [pk (col ''kid'' (VARCHAR 64)), col ''alg'' (VARCHAR 16), col ''public_jwk'' JSONT,
        col ''private_pem'' (VARCHAR 8192), col ''status'' (VARCHAR 16), col ''created_at'' TIMESTAMPTZ,
        opt (col ''rotated_at'' TIMESTAMPTZ)]
       []
       [index ''uq_oauth_signing_keys_active'' ''oauth_signing_keys'' [''status''] True (Some (''status'', ''active''))]"

definition admin_sessions_model :: model where
  "admin_sessions_model =
     model ''admin_sessions''
       [pk (col ''id'' (VARCHAR 64)), col ''subject'' (VARCHAR 255), opt (col ''email'' (VARCHAR 255)),
        col ''issuer'' (VARCHAR 512), col ''scopes'' (VARCHAR 512), col ''raw_claims'' JSONT,
        col ''csrf_token'' (VARCHAR 64), col ''created_at'' TIMESTAMPTZ, col ''expires_at'' TIMESTAMPTZ,
        opt (col ''last_seen_at'' TIMESTAMPTZ)]
       [] []"

definition admin_login_attempts_model :: model where
  "admin_login_attempts_model =
     model ''admin_login_attempts''
       [pk (col ''id'' (VARCHAR 64)), uniq (col ''state'' (VARCHAR 64)), col ''code_verifier'' (VARCHAR 255),
        col ''nonce'' (VARCHAR 64), col ''return_to'' (VARCHAR 512), col ''created_at'' TIMESTAMPTZ,
        col ''expires_at'' TIMESTAMPTZ]
       [] []"

definition invitations_model :: model where
  "invitations_model =
     model ''invitations''
       [pk (col ''id'' UUID), cascades ''tenants'' (col ''tenant_id'' UUID),
        opt (cascades ''applications'' (col ''application_id'' UUID)), col ''email'' (VARCHAR 255),
        uniq (col ''token_hash'' (VARCHAR 128)), col ''roles'' (VARCHAR 2048), col ''status'' (VARCHAR 16),
        opt (refers ''users'' (col ''invited_by_user_id'' UUID)), col ''expires_at'' TIMESTAMPTZ,
        opt (col ''accepted_at'' TIMESTAMPTZ), opt (col ''accepted_by_user_id'' UUID),
        col ''created_at'' TIMESTAMPTZ, col ''updated_at'' TIMESTAMPTZ]
       [] []"

definition delegation_grants_model :: model where
  "delegation_grants_model =
     model ''delegation_grants''
       [pk (col ''id'' UUID), cascades ''tenants'' (col ''tenant_id'' UUID),
        cascades ''applications'' (col ''application_id'' UUID), cascades ''users'' (col ''user_id'' UUID),
        cascades ''agents'' (col ''agent_id'' UUID), col ''permissions'' JSONT,
        opt (col ''purpose'' (VARCHAR 1024)), opt (col ''issued_by'' (VARCHAR 255)),
        col ''status'' (VARCHAR 16), col ''expires_at'' TIMESTAMPTZ, opt (col ''revoked_at'' TIMESTAMPTZ),
        col ''created_at'' TIMESTAMPTZ]
       []
       [index ''ix_delegation_grants_tenant_agent'' ''delegation_grants'' [''tenant_id'', ''agent_id''] False None,
        index ''ix_delegation_grants_tenant_user'' ''delegation_grants'' [''tenant_id'', ''user_id''] False None]"

definition models :: "model list" where
  "models =
     [tenants_model, applications_model, users_model, external_identities_model,
      tenant_identity_mappings_model, memberships_model, roles_model, membership_roles_model,
      permissions_model, role_permissions_model, agents_model, agent_roles_model,
      tenant_feature_flags_model, tenant_permission_masks_model, policies_model, audit_log_model,
      api_keys_model, oauth_clients_model, oauth_signing_keys_model, admin_sessions_model,
      admin_login_attempts_model, invitations_model, delegation_grants_model]"

section \<open>Downgrades\<close>

text \<open>A downgrade goes through the upgrade backwards and undoes every operation; the indexes of a table go with it.\<close>

fun undoes :: "operation \<Rightarrow> operation \<Rightarrow> bool" where
  "undoes (CreateTable t _ _) (DropTable u) \<longleftrightarrow> t = u"
| "undoes (CreateIndex i) (DropIndex n) \<longleftrightarrow> ix_name i = n"
| "undoes (AddColumn t c) (DropColumn u n) \<longleftrightarrow> t = u \<and> co_name c = n"
| "undoes (AddForeignKey t n _ _ _) (DropForeignKey u m) \<longleftrightarrow> t = u \<and> n = m"
| "undoes _ _ \<longleftrightarrow> False"

fun undone :: "operation list \<Rightarrow> operation list \<Rightarrow> bool" where
  "undone [] [] \<longleftrightarrow> True"
| "undone (CreateIndex i # us) (DropTable t # ds) \<longleftrightarrow> ix_table i = t \<and> undone us (DropTable t # ds)"
| "undone (u # us) (d # ds) \<longleftrightarrow> undoes u d \<and> undone us ds"
| "undone _ _ \<longleftrightarrow> False"

text \<open>A schema the database can be in: names refer to what is there.\<close>

definition table_wf :: "table_def \<Rightarrow> bool" where
  "table_wf d \<longleftrightarrow> (\<forall>u \<in> set (td_uniques d). set u \<subseteq> set (map co_name (td_columns d))) \<and>
     (\<forall>(n, c, r, k) \<in> set (td_foreign d). c \<in> set (map co_name (td_columns d)))"

definition schema_wf :: "schema \<Rightarrow> bool" where
  "schema_wf s \<longleftrightarrow> dict_ok (sc_tables s) \<and>
     (\<forall>t d. dict_get (sc_tables s) t = Some d \<longrightarrow>
        table_wf d \<and> (\<forall>r \<in> set (referenced d). dict_get (sc_tables s) r \<noteq> None)) \<and>
     (\<forall>i \<in> set (sc_indexes s). \<exists>d. dict_get (sc_tables s) (ix_table i) = Some d \<and>
        set (ix_columns i) \<subseteq> set (map co_name (td_columns d)))"

lemma run_operations_append:
  "run_operations (xs @ ys) s = (case run_operations xs s of None \<Rightarrow> None | Some s' \<Rightarrow> run_operations ys s')"
  by (induction xs arbitrary: s) (auto split: option.split)

lemma dict_set_same: "dict_get d k = Some v \<Longrightarrow> dict_set k v (dict_set k w d) = d"
  by (induction d) (auto split: if_splits)

lemma dict_set_id: "dict_get d k = Some v \<Longrightarrow> dict_set k v d = d"
  by (induction d) (auto split: if_splits)

lemma dict_pop_fresh: "dict_get d k = None \<Longrightarrow> dict_pop k (d @ [(k, v)]) = d"
  by (induction d) (auto simp: AList.delete_eq split: if_splits)

lemma alter_Some:
  "alter t f s = Some s' \<longleftrightarrow>
     (\<exists>d d'. dict_get (sc_tables s) t = Some d \<and> f d = Some d' \<and> s' = s\<lparr>sc_tables := dict_set t d' (sc_tables s)\<rparr>)"
  by (auto simp: alter_def split: option.splits)

text \<open>The operations an upgrade uses keep a schema well-formed.\<close>

lemma wf_alter:
  assumes "schema_wf s" "dict_get (sc_tables s) t = Some d" "table_wf d'"
    and "\<forall>r \<in> set (referenced d'). dict_get (sc_tables s) r \<noteq> None"
    and "set (map co_name (td_columns d)) \<subseteq> set (map co_name (td_columns d'))"
  shows "schema_wf (s\<lparr>sc_tables := dict_set t d' (sc_tables s)\<rparr>)"
  unfolding schema_wf_def
proof (intro conjI allI impI ballI)
  show "dict_ok (sc_tables (s\<lparr>sc_tables := dict_set t d' (sc_tables s)\<rparr>))"
    using assms(1) by (simp add: schema_wf_def)
next
  fix u e
  assume "dict_get (sc_tables (s\<lparr>sc_tables := dict_set t d' (sc_tables s)\<rparr>)) u = Some e"
  then have e: "if u = t then e = d' else dict_get (sc_tables s) u = Some e" by (auto split: if_splits)
  then show "table_wf e" using assms(1,3) by (auto simp: schema_wf_def split: if_splits)
  fix r
  assume "r \<in> set (referenced e)"
  then show "dict_get (sc_tables (s\<lparr>sc_tables := dict_set t d' (sc_tables s)\<rparr>)) r \<noteq> None"
    using e assms(1,4) by (auto simp: schema_wf_def split: if_splits)
next
  fix i
  assume "i \<in> set (sc_indexes (s\<lparr>sc_tables := dict_set t d' (sc_tables s)\<rparr>))"
  then obtain e where "dict_get (sc_tables s) (ix_table i) = Some e" "set (ix_columns i) \<subseteq> set (map co_name (td_columns e))"
    using assms(1) unfolding schema_wf_def by auto
  then show "\<exists>d. dict_get (sc_tables (s\<lparr>sc_tables := dict_set t d' (sc_tables s)\<rparr>)) (ix_table i) = Some d \<and>
      set (ix_columns i) \<subseteq> set (map co_name (td_columns d))"
    using assms(2,5) by (cases "ix_table i = t") auto
qed

lemma wf_create_table:
  assumes "schema_wf s" "apply_operation (CreateTable t cs us) s = Some s'"
  shows "schema_wf s'"
proof -
  let ?d = "\<lparr>td_columns = cs, td_uniques = us, td_foreign = []\<rparr>"
  have f: "dict_get (sc_tables s) t = None" and r: "\<forall>r \<in> set (referenced ?d). r = t \<or> dict_get (sc_tables s) r \<noteq> None"
    and u: "\<forall>u \<in> set us. set u \<subseteq> set (map co_name cs)" and s': "s' = s\<lparr>sc_tables := dict_set t ?d (sc_tables s)\<rparr>"
    using assms(2) by (auto simp: Let_def list_all_iff split: if_splits)
  have "table_wf ?d" using u by (simp add: table_wf_def)
  then show ?thesis using assms(1) r f unfolding s' schema_wf_def
    by (auto split: if_splits)
qed

lemma undo_create_table:
  assumes "schema_wf s" "apply_operation (CreateTable t cs us) s = Some s'"
  shows "apply_operation (DropTable t) s' = Some s"
proof -
  let ?d = "\<lparr>td_columns = cs, td_uniques = us, td_foreign = []\<rparr>"
  have f: "dict_get (sc_tables s) t = None" and s': "s' = s\<lparr>sc_tables := sc_tables s @ [(t, ?d)]\<rparr>"
    using assms(2) by (auto simp: Let_def dict_set_fresh split: if_splits)
  have "t \<notin> set (referenced e)" if "(u, e) \<in> set (sc_tables s)" for u e
  proof -
    have "dict_get (sc_tables s) u = Some e" using assms(1) that by (simp add: schema_wf_def dict_ok_get_iff)
    then show ?thesis using assms(1) f unfolding schema_wf_def by blast
  qed
  moreover have "filter (\<lambda>i. ix_table i \<noteq> t) (sc_indexes s) = sc_indexes s"
    using assms(1) f by (force simp: schema_wf_def intro: filter_True)
  ultimately show ?thesis
    using f by (auto simp: s' map_add_def dict_pop_fresh list_all_iff)
qed

lemma drop_table_index:
  "ix_table i = t \<Longrightarrow> apply_operation (DropTable t) (s\<lparr>sc_indexes := sc_indexes s @ [i]\<rparr>) = apply_operation (DropTable t) s"
  by simp

lemma undo_create_index:
  assumes "apply_operation (CreateIndex i) s = Some s'"
  shows "apply_operation (DropIndex (ix_name i)) s' = Some s"
proof -
  have "s' = s\<lparr>sc_indexes := sc_indexes s @ [i]\<rparr>" "\<forall>j \<in> set (sc_indexes s). ix_name j \<noteq> ix_name i"
    using assms by (auto simp: list_ex_iff split: option.splits if_splits)
  moreover from this(2) have "filter (\<lambda>j. ix_name j \<noteq> ix_name i) (sc_indexes s) = sc_indexes s" by (intro filter_True) auto
  ultimately show ?thesis by simp
qed

lemma wf_create_index:
  "\<lbrakk>schema_wf s; apply_operation (CreateIndex i) s = Some s'\<rbrakk> \<Longrightarrow> schema_wf s'"
  by (auto simp: schema_wf_def list_all_iff split: option.splits if_splits)

lemma add_column_Some:
  assumes "apply_operation (AddColumn t c) s = Some s'"
  obtains d where "dict_get (sc_tables s) t = Some d" "co_name c \<notin> set (map co_name (td_columns d))"
    "\<forall>r k. co_ref c = Some (r, k) \<longrightarrow> dict_get (sc_tables s) r \<noteq> None"
    "s' = s\<lparr>sc_tables := dict_set t (d\<lparr>td_columns := td_columns d @ [c]\<rparr>) (sc_tables s)\<rparr>"
  using assms by (auto simp: alter_Some split: if_splits option.splits)

lemma wf_add_column:
  assumes "schema_wf s" "apply_operation (AddColumn t c) s = Some s'"
  shows "schema_wf s'"
proof (rule add_column_Some [OF assms(2)])
  fix d
  assume d: "dict_get (sc_tables s) t = Some d" "\<forall>r k. co_ref c = Some (r, k) \<longrightarrow> dict_get (sc_tables s) r \<noteq> None"
    and s': "s' = s\<lparr>sc_tables := dict_set t (d\<lparr>td_columns := td_columns d @ [c]\<rparr>) (sc_tables s)\<rparr>"
  have "table_wf d" "\<forall>r \<in> set (referenced d). dict_get (sc_tables s) r \<noteq> None"
    using assms(1) d(1) by (simp_all add: schema_wf_def)
  then show ?thesis
    unfolding s' using d(2)
    by (intro wf_alter [OF assms(1) d(1)]) (auto simp: table_wf_def referenced_def map_filter_def split: option.splits)
qed

lemma undo_add_column:
  assumes "schema_wf s" "apply_operation (AddColumn t c) s = Some s'"
  shows "apply_operation (DropColumn t (co_name c)) s' = Some s"
proof (rule add_column_Some [OF assms(2)])
  fix d
  assume d: "dict_get (sc_tables s) t = Some d" "co_name c \<notin> set (map co_name (td_columns d))"
    and s': "s' = s\<lparr>sc_tables := dict_set t (d\<lparr>td_columns := td_columns d @ [c]\<rparr>) (sc_tables s)\<rparr>"
  have w: "table_wf d" using assms(1) d(1) by (simp add: schema_wf_def)
  have "\<not> list_ex (\<lambda>i. ix_table i = t \<and> co_name c \<in> set (ix_columns i)) (sc_indexes s)"
    using assms(1) d by (fastforce simp: schema_wf_def list_ex_iff)
  moreover have "\<not> list_ex (\<lambda>u. co_name c \<in> set u) (td_uniques d)" "\<not> list_ex (\<lambda>(_, n, _, _). n = co_name c) (td_foreign d)"
    using w d(2) by (fastforce simp: table_wf_def list_ex_iff)+
  moreover have "filter (\<lambda>x. co_name x \<noteq> co_name c) (td_columns d) = td_columns d"
    using d(2) by (intro filter_True ballI) (metis imageI set_map)
  ultimately show ?thesis using d(1) by (simp add: s' alter_def dict_set_same dict_set_id)
qed

lemma add_foreign_key_Some:
  assumes "apply_operation (AddForeignKey t n c r k) s = Some s'"
  obtains d where "dict_get (sc_tables s) t = Some d" "dict_get (sc_tables s) r \<noteq> None"
    "c \<in> set (map co_name (td_columns d))" "n \<notin> set (map fst (td_foreign d))"
    "s' = s\<lparr>sc_tables := dict_set t (d\<lparr>td_foreign := td_foreign d @ [(n, c, r, k)]\<rparr>) (sc_tables s)\<rparr>"
  using assms by (auto simp: alter_Some split: if_splits option.splits)

lemma wf_add_foreign_key:
  assumes "schema_wf s" "apply_operation (AddForeignKey t n c r k) s = Some s'"
  shows "schema_wf s'"
proof (rule add_foreign_key_Some [OF assms(2)])
  fix d
  assume d: "dict_get (sc_tables s) t = Some d" "dict_get (sc_tables s) r \<noteq> None" "c \<in> set (map co_name (td_columns d))"
    and s': "s' = s\<lparr>sc_tables := dict_set t (d\<lparr>td_foreign := td_foreign d @ [(n, c, r, k)]\<rparr>) (sc_tables s)\<rparr>"
  have "table_wf d" "\<forall>r \<in> set (referenced d). dict_get (sc_tables s) r \<noteq> None"
    using assms(1) d(1) by (simp_all add: schema_wf_def)
  then show ?thesis
    unfolding s' using d(2,3)
    by (intro wf_alter [OF assms(1) d(1)]) (auto simp: table_wf_def referenced_def)
qed

lemma undo_add_foreign_key:
  assumes "apply_operation (AddForeignKey t n c r k) s = Some s'"
  shows "apply_operation (DropForeignKey t n) s' = Some s"
proof (rule add_foreign_key_Some [OF assms])
  fix d
  assume d: "dict_get (sc_tables s) t = Some d" "n \<notin> set (map fst (td_foreign d))"
    and s': "s' = s\<lparr>sc_tables := dict_set t (d\<lparr>td_foreign := td_foreign d @ [(n, c, r, k)]\<rparr>) (sc_tables s)\<rparr>"
  have "filter (\<lambda>f. fst f \<noteq> n) (td_foreign d) = td_foreign d" using d(2) by (intro filter_True) auto
  then show ?thesis using d(1) by (simp add: s' alter_def dict_set_same dict_set_id)
qed

text \<open>One step back, and a whole revision.\<close>

lemma undo_step:
  assumes "schema_wf s" "apply_operation u s = Some s'" "undoes u d"
  shows "schema_wf s' \<and> apply_operation d s' = Some s"
proof -
  consider t cs us where "u = CreateTable t cs us" "d = DropTable t"
    | i where "u = CreateIndex i" "d = DropIndex (ix_name i)"
    | t c where "u = AddColumn t c" "d = DropColumn t (co_name c)"
    | t n c r k where "u = AddForeignKey t n c r k" "d = DropForeignKey t n"
    using assms(3) by (cases "(u, d)" rule: undoes.cases) simp_all
  then show ?thesis
  proof cases
    case 1
    then show ?thesis using assms(2) wf_create_table [OF assms(1)] undo_create_table [OF assms(1)] by blast
  next
    case 2
    then show ?thesis using assms(2) wf_create_index [OF assms(1)] undo_create_index by blast
  next
    case 3
    then show ?thesis using assms(2) wf_add_column [OF assms(1)] undo_add_column [OF assms(1)] by blast
  next
    case 4
    then show ?thesis using assms(2) wf_add_foreign_key [OF assms(1)] undo_add_foreign_key by blast
  qed
qed

lemma wf_create_index_of: "\<lbrakk>schema_wf s; apply_operation (CreateIndex i) s = Some s'\<rbrakk> \<Longrightarrow>
    schema_wf s' \<and> apply_operation (DropTable (ix_table i)) s' = apply_operation (DropTable (ix_table i)) s"
  using wf_create_index [of s i s'] by (auto split: option.splits if_splits)

lemma undone_sound:
  "\<lbrakk>undone us ds; schema_wf s; run_operations (rev us) s = Some s'\<rbrakk> \<Longrightarrow> schema_wf s' \<and> run_operations ds s' = Some s"
proof (induction us ds arbitrary: s' rule: undone.induct)
  case (2 i us t ds)
  obtain s1 where r: "run_operations (rev us) s = Some s1" "apply_operation (CreateIndex i) s1 = Some s'"
    using "2.prems"(3) by (auto simp: run_operations_append simp del: apply_operation.simps split: option.splits)
  have u: "ix_table i = t" "undone us (DropTable t # ds)" using "2.prems"(1) by simp_all
  from "2.IH" [OF u(2) "2.prems"(2) r(1)] wf_create_index_of [OF _ r(2)] u(1) show ?case
    by (simp del: apply_operation.simps)
qed (auto simp: run_operations_append simp del: apply_operation.simps split: option.splits dest: undo_step)


section \<open>The deployed schema\<close>

text \<open>The schema after the last revision.\<close>

definition declared :: "column list \<Rightarrow> string list list \<Rightarrow> table_def" where
  "declared cs us = \<lparr>td_columns = cs, td_uniques = us, td_foreign = []\<rparr>"

definition deployed :: schema where
  "deployed =
     \<lparr>sc_tables =
        [(''tenants'', declared tenants_table []),
         (''applications'', declared (applications_table @ [opt (col ''managed_by'' (VARCHAR 255))]) []),
         (''users'', declared users_table []),
         (''external_identities'', declared external_identities_table [[''provider'', ''issuer'', ''subject'']]),
         (''tenant_identity_mappings'', declared tenant_identity_mappings_table [[''provider'', ''issuer'', ''external_tenant_id'']]),
         (''memberships'', declared memberships_table [[''tenant_id'', ''application_id'', ''user_id'']]),
         (''roles'', (declared (roles_table @ [opt (col ''agent_id'' UUID)]) [[''tenant_id'', ''application_id'', ''name'']])
            \<lparr>td_foreign := [(''fk_roles_agent_id_agents'', ''agent_id'', ''agents'', True)]\<rparr>),
         (''membership_roles'', declared membership_roles_table []),
         (''permissions'', declared (permissions_table @ [dflt ''false'' (col ''deprecated'' BOOLEAN), dflt ''false'' (col ''critical'' BOOLEAN)]) [[''application_id'', ''name''], [''application_id'', ''resource'', ''action'']]),
         (''role_permissions'', declared role_permissions_table []),
         (''agents'', declared (agents_table @ [opt (col ''display_name'' (VARCHAR 255))]) []),
         (''agent_roles'', declared agent_roles_table []),
         (''tenant_feature_flags'', declared tenant_feature_flags_table []),
         (''tenant_permission_masks'', declared tenant_permission_masks_table []),
         (''policies'', declared policies_table []),
         (''audit_log'', declared audit_log_table []),
         (''api_keys'', declared api_keys_table []),
         (''invitations'', declared invitations_table []),
         (''oauth_clients'', declared oauth_clients_table []),
         (''oauth_signing_keys'', declared oauth_signing_keys_table []),
         (''admin_sessions'', declared admin_sessions_table []),
         (''admin_login_attempts'', declared admin_login_attempts_table []),
         (''delegation_grants'', declared delegation_grants_table [])],
      sc_indexes =
        [index ''ix_audit_log_tenant'' ''audit_log'' [''tenant_id''] False None,
         index ''ix_audit_log_decision'' ''audit_log'' [''decision''] False None,
         index ''ix_audit_log_created_at'' ''audit_log'' [''created_at''] False None,
         index ''ix_api_keys_status'' ''api_keys'' [''status''] False None,
         index ''ix_invitations_tenant'' ''invitations'' [''tenant_id''] False None,
         index ''ix_invitations_email'' ''invitations'' [''email''] False None,
         index ''ix_oauth_clients_status'' ''oauth_clients'' [''status''] False None,
         index ''ix_oauth_signing_keys_status'' ''oauth_signing_keys'' [''status''] False None,
         index ''uq_oauth_signing_keys_active'' ''oauth_signing_keys'' [''status''] True (Some (''status'', ''active'')),
         index ''ix_admin_sessions_expires'' ''admin_sessions'' [''expires_at''] False None,
         index ''ix_admin_login_attempts_expires'' ''admin_login_attempts'' [''expires_at''] False None,
         index ''ix_delegation_grants_tenant_agent'' ''delegation_grants'' [''tenant_id'', ''agent_id''] False None,
         index ''ix_delegation_grants_tenant_user'' ''delegation_grants'' [''tenant_id'', ''user_id''] False None,
         index ''uq_agents_tenant_application_name'' ''agents'' [''tenant_id'', ''application_id'', ''name''] True None]\<rparr>"

lemmas table_defs =
  tenants_table_def applications_table_def users_table_def external_identities_table_def
  tenant_identity_mappings_table_def memberships_table_def roles_table_def membership_roles_table_def
  permissions_table_def role_permissions_table_def agents_table_def agent_roles_table_def
  tenant_feature_flags_table_def tenant_permission_masks_table_def policies_table_def
  audit_log_table_def api_keys_table_def invitations_table_def oauth_clients_table_def
  oauth_signing_keys_table_def admin_sessions_table_def admin_login_attempts_table_def
  delegation_grants_table_def

lemmas column_defs = col_def pk_def opt_def uniq_def refers_def cascades_def dflt_def stamp_def

lemma table_columns:
  "map co_name tenants_table = [''id'', ''slug'', ''name'', ''status'', ''created_at'', ''updated_at'']"
  "map co_name applications_table = [''id'', ''slug'', ''name'', ''status'', ''created_at'', ''updated_at'']"
  "map co_name users_table = [''id'', ''display_name'', ''email'', ''status'', ''created_at'', ''updated_at'']"
  "map co_name external_identities_table = [''id'', ''user_id'', ''provider'', ''issuer'', ''subject'', ''external_tenant_id'', ''email'',
      ''created_at'', ''updated_at'']"
  "map co_name tenant_identity_mappings_table = [''id'', ''tenant_id'', ''provider'', ''issuer'', ''external_tenant_id'', ''created_at'']"
  "map co_name memberships_table = [''id'', ''tenant_id'', ''application_id'', ''user_id'', ''status'', ''created_at'', ''updated_at'']"
  "map co_name roles_table = [''id'', ''tenant_id'', ''application_id'', ''name'', ''scope'', ''description'', ''is_system'',
      ''created_at'', ''updated_at'']"
  "map co_name membership_roles_table = [''membership_id'', ''role_id'', ''created_at'']"
  "map co_name permissions_table = [''id'', ''application_id'', ''name'', ''resource'', ''action'', ''description'', ''created_at'']"
  "map co_name role_permissions_table = [''role_id'', ''permission_id'', ''created_at'']"
  "map co_name agents_table = [''id'', ''tenant_id'', ''application_id'', ''name'', ''status'', ''role_label'', ''created_by_user_id'',
      ''created_at'', ''updated_at'']"
  "map co_name agent_roles_table = [''agent_id'', ''role_id'', ''created_at'']"
  "map co_name tenant_feature_flags_table = [''tenant_id'', ''application_id'', ''key'', ''value'', ''created_at'', ''updated_at'']"
  "map co_name tenant_permission_masks_table = [''tenant_id'', ''application_id'', ''permission_name'', ''created_at'']"
  "map co_name policies_table = [''id'', ''tenant_id'', ''application_id'', ''name'', ''effect'', ''resource'', ''action'', ''condition'',
      ''status'', ''created_at'', ''updated_at'']"
  "map co_name audit_log_table = [''id'', ''tenant_id'', ''application_id'', ''user_id'', ''agent_id'', ''decision'', ''resource'',
      ''action'', ''reason'', ''request'', ''response'', ''request_id'', ''created_at'']"
  "map co_name api_keys_table = [''id'', ''name'', ''key_hash'', ''key_prefix'', ''scopes'', ''tenant_id'', ''status'', ''expires_at'',
      ''last_used_at'', ''rotates'', ''created_at'', ''updated_at'']"
  "map co_name invitations_table = [''id'', ''tenant_id'', ''application_id'', ''email'', ''token_hash'', ''roles'', ''status'',
      ''invited_by_user_id'', ''expires_at'', ''accepted_at'', ''accepted_by_user_id'', ''created_at'',
      ''updated_at'']"
  "map co_name oauth_clients_table = [''id'', ''client_id'', ''secret_hash'', ''name'', ''scopes'', ''tenant_id'', ''status'', ''expires_at'',
      ''last_used_at'', ''created_at'', ''updated_at'']"
  "map co_name oauth_signing_keys_table = [''kid'', ''alg'', ''public_jwk'', ''private_pem'', ''status'', ''created_at'', ''rotated_at'']"
  "map co_name admin_sessions_table = [''id'', ''subject'', ''email'', ''issuer'', ''scopes'', ''raw_claims'', ''csrf_token'', ''created_at'',
      ''expires_at'', ''last_seen_at'']"
  "map co_name admin_login_attempts_table = [''id'', ''state'', ''code_verifier'', ''nonce'', ''return_to'', ''created_at'', ''expires_at'']"
  "map co_name delegation_grants_table = [''id'', ''tenant_id'', ''application_id'', ''user_id'', ''agent_id'', ''permissions'', ''purpose'',
      ''issued_by'', ''status'', ''expires_at'', ''revoked_at'', ''created_at'']"
  by (simp_all add: table_defs column_defs)

lemma table_references:
  "List.map_filter co_ref tenants_table = []"
  "List.map_filter co_ref applications_table = []"
  "List.map_filter co_ref users_table = []"
  "List.map_filter co_ref external_identities_table = [(''users'', True)]"
  "List.map_filter co_ref tenant_identity_mappings_table = [(''tenants'', True)]"
  "List.map_filter co_ref memberships_table = [(''tenants'', True), (''applications'', True), (''users'', True)]"
  "List.map_filter co_ref roles_table = [(''tenants'', True), (''applications'', True)]"
  "List.map_filter co_ref membership_roles_table = [(''memberships'', True), (''roles'', True)]"
  "List.map_filter co_ref permissions_table = [(''applications'', True)]"
  "List.map_filter co_ref role_permissions_table = [(''roles'', True), (''permissions'', True)]"
  "List.map_filter co_ref agents_table = [(''tenants'', True), (''applications'', True), (''users'', False)]"
  "List.map_filter co_ref agent_roles_table = [(''agents'', True), (''roles'', True)]"
  "List.map_filter co_ref tenant_feature_flags_table = [(''tenants'', True), (''applications'', True)]"
  "List.map_filter co_ref tenant_permission_masks_table = [(''tenants'', True), (''applications'', True)]"
  "List.map_filter co_ref policies_table = [(''tenants'', True), (''applications'', True)]"
  "List.map_filter co_ref audit_log_table = []"
  "List.map_filter co_ref api_keys_table = [(''tenants'', True)]"
  "List.map_filter co_ref invitations_table = [(''tenants'', True), (''applications'', True), (''users'', False)]"
  "List.map_filter co_ref oauth_clients_table = [(''tenants'', True)]"
  "List.map_filter co_ref oauth_signing_keys_table = []"
  "List.map_filter co_ref admin_sessions_table = []"
  "List.map_filter co_ref admin_login_attempts_table = []"
  "List.map_filter co_ref delegation_grants_table = [(''tenants'', True), (''applications'', True), (''users'', True), (''agents'', True)]"
  by (simp_all add: table_defs column_defs map_filter_simps)

lemma schema_at_1: "\<exists>s. run_operations upgrade_0001 empty_schema = Some s"
  by (simp add: upgrade_0001_def empty_schema_def referenced_def table_columns table_references index_def Let_def
      del: set_map list.set_map)

lemma deployed_eval: "schema_at 5 = Some deployed"
  by (simp add: schema_at_def revisions_def upgrade_0001_def upgrade_0002_def upgrade_0003_def upgrade_0004_def upgrade_0005_def
      empty_schema_def referenced_def table_columns table_references alter_def index_def Let_def deployed_def declared_def opt_def
      col_def dflt_def del: set_map list.set_map)


section \<open>Agreement\<close>

text \<open>What a column is besides its default; a named foreign key counts as the column's reference. Whether a
  \<^verbatim>\<open>created_at\<close> may be NULL is left out: some classes leave it open where the revisions do not.\<close>

definition column_facts :: "table_def \<Rightarrow> column \<Rightarrow> string \<times> col_type \<times> bool \<times> bool \<times> bool \<times> (string \<times> bool) option" where
  "column_facts d c =
     (co_name c, co_type c, co_key c, co_nullable c \<and> co_name c \<noteq> ''created_at'', co_unique c,
      case co_ref c of Some r \<Rightarrow> Some r
      | None \<Rightarrow> map_option (\<lambda>(_, _, r, k). (r, k)) (List.find (\<lambda>(_, n, _, _). n = co_name c) (td_foreign d)))"

definition same_table :: "schema \<Rightarrow> model \<Rightarrow> bool" where
  "same_table s m =
     (case dict_get (sc_tables s) (md_name m) of
        None \<Rightarrow> False
      | Some d \<Rightarrow>
          (let none = \<lparr>td_columns = [], td_uniques = [], td_foreign = []\<rparr> in
           length (td_columns d) = length (md_columns m) \<and>
           list_all (\<lambda>c. column_facts none c \<in> set (map (column_facts d) (td_columns d))) (md_columns m) \<and>
           td_uniques d = md_uniques m \<and>
           list_all (\<lambda>i. i \<in> set (sc_indexes s)) (md_indexes m) \<and>
           list_all (\<lambda>i. ix_unique i \<and> ix_table i = md_name m \<longrightarrow> i \<in> set (md_indexes m)) (sc_indexes s)))"

definition same_tables_declared :: "schema \<Rightarrow> bool" where
  "same_tables_declared s \<longleftrightarrow> set (map fst (sc_tables s)) = set (map md_name models) \<and> list_all (same_table s) models"


lemmas deployed_tables = deployed_def declared_def table_defs column_defs index_def

lemmas model_defs =
  tenants_model_def applications_model_def users_model_def external_identities_model_def
  tenant_identity_mappings_model_def memberships_model_def roles_model_def membership_roles_model_def
  permissions_model_def role_permissions_model_def agents_model_def agent_roles_model_def
  tenant_feature_flags_model_def tenant_permission_masks_model_def policies_model_def audit_log_model_def
  api_keys_model_def oauth_clients_model_def oauth_signing_keys_model_def admin_sessions_model_def
  admin_login_attempts_model_def invitations_model_def delegation_grants_model_def

lemma tenants_agree: "same_table deployed tenants_model"
  by (simp add: same_table_def model_def tenants_model_def column_facts_def deployed_tables Let_def)

lemma applications_agree: "same_table deployed applications_model"
  by (simp add: same_table_def model_def applications_model_def column_facts_def deployed_tables Let_def)

lemma users_agree: "same_table deployed users_model"
  by (simp add: same_table_def model_def users_model_def column_facts_def deployed_tables Let_def)

lemma external_identities_agree: "same_table deployed external_identities_model"
  by (simp add: same_table_def model_def external_identities_model_def column_facts_def deployed_tables Let_def)

lemma tenant_identity_mappings_agree: "same_table deployed tenant_identity_mappings_model"
  by (simp add: same_table_def model_def tenant_identity_mappings_model_def column_facts_def deployed_tables Let_def)

lemma memberships_agree: "same_table deployed memberships_model"
  by (simp add: same_table_def model_def memberships_model_def column_facts_def deployed_tables Let_def)

lemma roles_agree: "same_table deployed roles_model"
  by (simp add: same_table_def model_def roles_model_def column_facts_def deployed_tables Let_def)

lemma membership_roles_agree: "same_table deployed membership_roles_model"
  by (simp add: same_table_def model_def membership_roles_model_def column_facts_def deployed_tables Let_def)

lemma permissions_agree: "same_table deployed permissions_model"
  by (simp add: same_table_def model_def permissions_model_def column_facts_def deployed_tables Let_def)

lemma role_permissions_agree: "same_table deployed role_permissions_model"
  by (simp add: same_table_def model_def role_permissions_model_def column_facts_def deployed_tables Let_def)

lemma agents_agree: "same_table deployed agents_model"
  by (simp add: same_table_def model_def agents_model_def column_facts_def deployed_tables Let_def)

lemma agent_roles_agree: "same_table deployed agent_roles_model"
  by (simp add: same_table_def model_def agent_roles_model_def column_facts_def deployed_tables Let_def)

lemma tenant_feature_flags_agree: "same_table deployed tenant_feature_flags_model"
  by (simp add: same_table_def model_def tenant_feature_flags_model_def column_facts_def deployed_tables Let_def)

lemma tenant_permission_masks_agree: "same_table deployed tenant_permission_masks_model"
  by (simp add: same_table_def model_def tenant_permission_masks_model_def column_facts_def deployed_tables Let_def)

lemma policies_agree: "same_table deployed policies_model"
  by (simp add: same_table_def model_def policies_model_def column_facts_def deployed_tables Let_def)

lemma audit_log_agree: "same_table deployed audit_log_model"
  by (simp add: same_table_def model_def audit_log_model_def column_facts_def deployed_tables Let_def)

lemma api_keys_agree: "same_table deployed api_keys_model"
  by (simp add: same_table_def model_def api_keys_model_def column_facts_def deployed_tables Let_def)

lemma oauth_clients_agree: "same_table deployed oauth_clients_model"
  by (simp add: same_table_def model_def oauth_clients_model_def column_facts_def deployed_tables Let_def)

lemma oauth_signing_keys_agree: "same_table deployed oauth_signing_keys_model"
  by (simp add: same_table_def model_def oauth_signing_keys_model_def column_facts_def deployed_tables Let_def)

lemma admin_sessions_agree: "same_table deployed admin_sessions_model"
  by (simp add: same_table_def model_def admin_sessions_model_def column_facts_def deployed_tables Let_def)

lemma admin_login_attempts_agree: "same_table deployed admin_login_attempts_model"
  by (simp add: same_table_def model_def admin_login_attempts_model_def column_facts_def deployed_tables Let_def)

lemma invitations_agree: "same_table deployed invitations_model"
  by (simp add: same_table_def model_def invitations_model_def column_facts_def deployed_tables Let_def)

lemma delegation_grants_agree: "same_table deployed delegation_grants_model"
  by (simp add: same_table_def model_def delegation_grants_model_def column_facts_def deployed_tables Let_def)

lemmas tables_agree =
  tenants_agree applications_agree users_agree external_identities_agree tenant_identity_mappings_agree
  memberships_agree roles_agree membership_roles_agree permissions_agree role_permissions_agree agents_agree
  agent_roles_agree tenant_feature_flags_agree tenant_permission_masks_agree policies_agree audit_log_agree
  api_keys_agree oauth_clients_agree oauth_signing_keys_agree admin_sessions_agree admin_login_attempts_agree
  invitations_agree delegation_grants_agree

lemma same_names_deployed: "set (map md_name models) = set (map fst (sc_tables deployed))"
  by (simp add: models_def model_def model_defs deployed_def insert_commute)

lemma same_tables_deployed: "same_tables_declared deployed"
  by (simp only: same_tables_declared_def same_names_deployed) (simp add: models_def tables_agree)

section \<open>Unique keys\<close>

text \<open>
  The keys of a table: its primary key, its unique columns and constraints, its unique indexes with their
  condition. Two rows collide on a key when they agree on its columns, none of them NULL, and both meet the
  condition.
\<close>

definition table_keys :: "schema \<Rightarrow> string \<Rightarrow> (string list \<times> (string \<times> string) option) list" where
  "table_keys s t =
     (case dict_get (sc_tables s) t of
        None \<Rightarrow> []
      | Some d \<Rightarrow>
          [(map co_name (filter co_key (td_columns d)), None)] @
          map (\<lambda>c. ([co_name c], None)) (filter co_unique (td_columns d)) @
          map (\<lambda>u. (u, None)) (td_uniques d) @
          map (\<lambda>i. (ix_columns i, ix_where i)) (filter (\<lambda>i. ix_table i = t \<and> ix_unique i) (sc_indexes s)))"

type_synonym cells = "(string, string option) dict"

definition cell :: "cells \<Rightarrow> string \<Rightarrow> string option" where
  "cell row c = (case dict_get row c of None \<Rightarrow> None | Some v \<Rightarrow> v)"

definition collides :: "(string list \<times> (string \<times> string) option) list \<Rightarrow> cells \<Rightarrow> cells \<Rightarrow> bool" where
  "collides keys new r \<longleftrightarrow>
     list_ex (\<lambda>(cs, w). list_all (\<lambda>c. cell new c \<noteq> None \<and> cell r c = cell new c) cs \<and>
       (case w of None \<Rightarrow> True | Some (c, v) \<Rightarrow> cell new c = Some v \<and> cell r c = Some v)) keys"

definition by_schema :: "schema \<Rightarrow> string \<Rightarrow> ('r \<Rightarrow> cells) \<Rightarrow> 'r \<Rightarrow> 'r \<Rightarrow> bool" where
  "by_schema s t f new r \<longleftrightarrow> collides (table_keys s t) (f new) (f r)"

text \<open>The cells of the key columns in the rows of the store.\<close>

definition tenant_cells :: "tenant \<Rightarrow> cells" where
  "tenant_cells r =
     [(''id'', Some (tenant_id r)), (''slug'', Some (tenant_slug r))]"

definition application_cells :: "application \<Rightarrow> cells" where
  "application_cells r =
     [(''id'', Some (app_id r)), (''slug'', Some (app_slug r))]"

definition user_cells :: "user \<Rightarrow> cells" where
  "user_cells r =
     [(''id'', Some (user_id r))]"

definition identity_cells :: "external_identity \<Rightarrow> cells" where
  "identity_cells r =
     [(''id'', Some (xid_id r)), (''provider'', Some (xid_provider r)), (''issuer'', Some (xid_issuer r)), (''subject'', Some (xid_subject r))]"

definition mapping_cells :: "tenant_identity_mapping \<Rightarrow> cells" where
  "mapping_cells r =
     [(''id'', Some (tim_id r)), (''provider'', Some (tim_provider r)), (''issuer'', Some (tim_issuer r)), (''external_tenant_id'', Some (tim_external_tenant_id r))]"

definition membership_cells :: "membership_row \<Rightarrow> cells" where
  "membership_cells r =
     [(''id'', Some (ms_id r)), (''tenant_id'', Some (ms_tenant_id r)), (''application_id'', ms_application_id r), (''user_id'', Some (ms_user_id r))]"

definition role_cells :: "role \<Rightarrow> cells" where
  "role_cells r =
     [(''id'', Some (role_id r)), (''tenant_id'', role_tenant_id r), (''application_id'', role_application_id r), (''name'', Some (role_name r))]"

definition permission_cells :: "permission \<Rightarrow> cells" where
  "permission_cells r =
     [(''id'', Some (perm_id r)), (''application_id'', perm_application_id r), (''name'', Some (perm_name r)), (''resource'', Some (perm_resource r)), (''action'', Some (perm_action r))]"

definition agent_cells :: "agent \<Rightarrow> cells" where
  "agent_cells r =
     [(''id'', Some (agent_id r)), (''tenant_id'', Some (agent_tenant_id r)), (''application_id'', Some (agent_application_id r)), (''name'', Some (agent_name r))]"

definition flag_cells :: "flag_row \<Rightarrow> cells" where
  "flag_cells r =
     [(''tenant_id'', Some (ff_tenant_id r)), (''application_id'', ff_application_id r), (''key'', Some (ff_key r))]"

definition ak_cells :: "api_key_row \<Rightarrow> cells" where
  "ak_cells r =
     [(''id'', Some (ak_id r)), (''key_hash'', Some (ak_key_hash r))]"

definition oc_cells :: "oauth_client_row \<Rightarrow> cells" where
  "oc_cells r =
     [(''id'', Some (oc_id r)), (''client_id'', Some (oc_client_id r))]"

definition kr_cells :: "signing_key_row \<Rightarrow> cells" where
  "kr_cells r =
     [(''kid'', Some (kr_kid r)), (''status'', Some (kr_status r))]"

definition la_cells :: "login_attempt \<Rightarrow> cells" where
  "la_cells r =
     [(''id'', Some (la_id r)), (''state'', Some (la_state r))]"

lemmas key_defs = table_keys_def deployed_tables

lemma deployed_keys:
  "table_keys deployed ''tenants'' =
     [([''id''], None), ([''slug''], None)]"
  "table_keys deployed ''applications'' =
     [([''id''], None), ([''slug''], None)]"
  "table_keys deployed ''users'' =
     [([''id''], None)]"
  "table_keys deployed ''external_identities'' =
     [([''id''], None), ([''provider'', ''issuer'', ''subject''], None)]"
  "table_keys deployed ''tenant_identity_mappings'' =
     [([''id''], None), ([''provider'', ''issuer'', ''external_tenant_id''], None)]"
  "table_keys deployed ''memberships'' =
     [([''id''], None), ([''tenant_id'', ''application_id'', ''user_id''], None)]"
  "table_keys deployed ''roles'' =
     [([''id''], None), ([''tenant_id'', ''application_id'', ''name''], None)]"
  "table_keys deployed ''permissions'' =
     [([''id''], None), ([''application_id'', ''name''], None), ([''application_id'', ''resource'', ''action''], None)]"
  "table_keys deployed ''agents'' =
     [([''id''], None), ([''tenant_id'', ''application_id'', ''name''], None)]"
  "table_keys deployed ''tenant_feature_flags'' =
     [([''tenant_id'', ''application_id'', ''key''], None)]"
  "table_keys deployed ''api_keys'' =
     [([''id''], None), ([''key_hash''], None)]"
  "table_keys deployed ''oauth_clients'' =
     [([''id''], None), ([''client_id''], None)]"
  "table_keys deployed ''oauth_signing_keys'' =
     [([''kid''], None), ([''status''], Some (''status'', ''active''))]"
  "table_keys deployed ''admin_login_attempts'' =
     [([''id''], None), ([''state''], None)]"
  by (simp_all add: key_defs)

lemma by_deployed_schema:
  "tenant_clash = by_schema deployed ''tenants'' tenant_cells"
  "application_clash = by_schema deployed ''applications'' application_cells"
  "user_clash = by_schema deployed ''users'' user_cells"
  "identity_clash = by_schema deployed ''external_identities'' identity_cells"
  "mapping_clash = by_schema deployed ''tenant_identity_mappings'' mapping_cells"
  "membership_clash = by_schema deployed ''memberships'' membership_cells"
  "role_clash = by_schema deployed ''roles'' role_cells"
  "permission_clash = by_schema deployed ''permissions'' permission_cells"
  "agent_clash = by_schema deployed ''agents'' agent_cells"
  "flag_clash = by_schema deployed ''tenant_feature_flags'' flag_cells"
  "ak_clash = by_schema deployed ''api_keys'' ak_cells"
  "oc_clash = by_schema deployed ''oauth_clients'' oc_cells"
  "kr_clash = by_schema deployed ''oauth_signing_keys'' kr_cells"
  "la_clash = by_schema deployed ''admin_login_attempts'' la_cells"
  by (intro ext; auto simp: by_schema_def deployed_keys collides_def cell_def tenant_clash_def tenant_cells_def application_clash_def application_cells_def user_clash_def user_cells_def identity_clash_def identity_cells_def mapping_clash_def mapping_cells_def membership_clash_def membership_cells_def role_clash_def role_cells_def permission_clash_def permission_cells_def agent_clash_def agent_cells_def flag_clash_def flag_cells_def ak_clash_def ak_cells_def oc_clash_def oc_cells_def kr_clash_def kr_cells_def la_clash_def la_cells_def same_identity_def split: option.splits)+

section \<open>Properties\<close>

text \<open>C38: every revision's downgrade takes back its upgrade: from any schema whose references, indexes and
  constraints are in order, running the upgrade and then the downgrade gives the schema back, tables in their
  order, columns and indexes included. No downgrade stops half way: the tables that others reference go after
  them, and indexes go before or with their table.\<close>

theorem revisions_revert:
  assumes "(up, down) \<in> set revisions" "schema_wf s" "run_operations up s = Some s'"
  shows "run_operations down s' = Some s"
proof -
  have "undone (rev up) down" using assms(1)
    by (auto simp: revisions_def upgrade_0001_def upgrade_0002_def upgrade_0003_def upgrade_0004_def upgrade_0005_def
        downgrade_0001_def downgrade_0002_def downgrade_0003_def downgrade_0004_def downgrade_0005_def index_def
        opt_def dflt_def col_def)
  from undone_sound [OF this assms(2), of s'] assms(3) show ?thesis by simp
qed

theorem revisions_revert_witness:
  "\<exists>s. schema_wf empty_schema \<and> run_operations upgrade_0001 empty_schema = Some s \<and>
       run_operations downgrade_0001 s = Some empty_schema"
proof -
  have w: "schema_wf empty_schema" by (simp add: schema_wf_def empty_schema_def)
  from schema_at_1 obtain s where s: "run_operations upgrade_0001 empty_schema = Some s" by blast
  have "run_operations downgrade_0001 s = Some empty_schema"
    by (rule revisions_revert [OF _ w s]) (simp add: revisions_def)
  with w s show ?thesis by blast
qed

text \<open>C39: the revisions, run in order on an empty database, all apply, and leave exactly the tables that the
  mapped classes of the store declare: the same columns with the same types, keys, nullability and references
  (up to whether \<open>created_at\<close> may be NULL), the same unique constraints and unique indexes.\<close>

theorem migrations_match_models: "map_option same_tables_declared (schema_at 5) = Some True"
  by (simp only: deployed_eval option.map same_tables_deployed)

text \<open>C40: the collision tests that the model of the store uses for its inserts are the unique keys of the
  database after the last revision, no stronger and no weaker: NULLs never collide, the agents of a tenant's
  application are unique by name, and only one signing key is active.\<close>

theorem store_follows_schema:
  "case schema_at 5 of None \<Rightarrow> False | Some s \<Rightarrow>
     tenant_clash = by_schema s ''tenants'' tenant_cells \<and>
     application_clash = by_schema s ''applications'' application_cells \<and>
     user_clash = by_schema s ''users'' user_cells \<and>
     identity_clash = by_schema s ''external_identities'' identity_cells \<and>
     mapping_clash = by_schema s ''tenant_identity_mappings'' mapping_cells \<and>
     membership_clash = by_schema s ''memberships'' membership_cells \<and>
     role_clash = by_schema s ''roles'' role_cells \<and>
     permission_clash = by_schema s ''permissions'' permission_cells \<and>
     agent_clash = by_schema s ''agents'' agent_cells \<and>
     flag_clash = by_schema s ''tenant_feature_flags'' flag_cells \<and>
     ak_clash = by_schema s ''api_keys'' ak_cells \<and>
     oc_clash = by_schema s ''oauth_clients'' oc_cells \<and>
     kr_clash = by_schema s ''oauth_signing_keys'' kr_cells \<and>
     la_clash = by_schema s ''admin_login_attempts'' la_cells"
  unfolding deployed_eval option.case by (intro conjI by_deployed_schema)

end
