(* ===== verification/Spec2Isabelle.thy ===== *)
theory Spec2Isabelle
  imports Sdk_Service Startup Admin_Login Bootstrap Migrations
begin

text \<open>
  A verification development of an authorization service: a multi-tenant policy decision point with an
  HTTP interface (\<^verbatim>\<open>src/authz_service\<close>) over a domain library (\<^verbatim>\<open>src/authzkit\<close>), and the client of
  applications that enforce its decisions (\<^verbatim>\<open>src/authz_sdk\<close>).

  \<^bold>\<open>The program.\<close> A request reaches the service through three middlewares (idempotent replay, rate limit,
  request context). A dependency authenticates the caller by an API key, a bearer token or a session cookie
  and checks the scope of the surface (\<^verbatim>\<open>runtime\<close> or \<^verbatim>\<open>admin\<close>) and the tenant the caller is bound to. A runtime
  handler resolves the references of its body, an optional delegation token narrows what the agent may do,
  the engine decides from memberships, roles, permissions, tenant masks and attribute rules, and denials go
  to the audit log. An admin handler changes the same tables behind the guard of managed applications. Beside
  that the service issues access tokens and delegation grants with its own signing keys, logs administrators
  in through an OpenID provider, and runs workers that prune what is old.

  \<^bold>\<open>Theories and sources.\<close>
  \<^item> \<^verbatim>\<open>Prelude\<close>: results with a Python exception, insertion-ordered dictionaries, string operations, ASCII and
    base-64 facts; \<^verbatim>\<open>Tables\<close>: a table is the list of its rows, inserts respect unique constraints, and the
    locale \<^verbatim>\<open>revocable\<close> of credentials that stay revoked.
  \<^item> \<^verbatim>\<open>Domain\<close> (\<^verbatim>\<open>authzkit/exceptions.py\<close>, \<^verbatim>\<open>tenancy/models.py\<close>, \<^verbatim>\<open>rbac/models.py\<close>, \<^verbatim>\<open>agents/models.py\<close>),
    \<^verbatim>\<open>Policies\<close> (\<^verbatim>\<open>policies/expressions.py\<close>, \<^verbatim>\<open>policies/engine.py\<close>), \<^verbatim>\<open>Engine\<close> (\<^verbatim>\<open>rbac/checker.py\<close> over the
    protocol of \<^verbatim>\<open>rbac/repository.py\<close>, a record of functions with the locale \<^verbatim>\<open>rbac_contract\<close>), \<^verbatim>\<open>Agents\<close>
    (\<^verbatim>\<open>agents/\<close>, \<^verbatim>\<open>tools/\<close>, \<^verbatim>\<open>mcp/\<close>: the snapshot an agent works with and its guards).
  \<^item> \<^verbatim>\<open>Memory_Store\<close> and \<^verbatim>\<open>Memory_Invariants\<close> (\<^verbatim>\<open>storage/memory.py\<close>), \<^verbatim>\<open>Sql_Store\<close> (\<^verbatim>\<open>storage/sqlalchemy.py\<close>,
    \<^verbatim>\<open>storage/orm.py\<close>), \<^verbatim>\<open>Sql_Refinement\<close> (the second refines the first), \<^verbatim>\<open>Provisioning\<close>
    (\<^verbatim>\<open>authzkit/provisioning.py\<close> and the declarative operations of the store).
  \<^item> \<^verbatim>\<open>Identity\<close> (\<^verbatim>\<open>identity/\<close>), \<^verbatim>\<open>Signing_Keys\<close>, \<^verbatim>\<open>Delegations\<close>, \<^verbatim>\<open>Api_Keys\<close> (with principals and OAuth clients),
    \<^verbatim>\<open>OAuth_Resource\<close>, \<^verbatim>\<open>Sessions\<close>, \<^verbatim>\<open>Invitations\<close>: the modules of \<^verbatim>\<open>authzkit/security\<close>.
  \<^item> \<^verbatim>\<open>Settings\<close> (\<^verbatim>\<open>authz_service/config.py\<close> and the start-up checks of \<^verbatim>\<open>main.py\<close>), \<^verbatim>\<open>Middleware\<close> and
    \<^verbatim>\<open>Idempotency\<close> (\<^verbatim>\<open>middleware.py\<close>), \<^verbatim>\<open>Callers\<close> (\<^verbatim>\<open>dependencies.py\<close>), \<^verbatim>\<open>References\<close> (\<^verbatim>\<open>references.py\<close>,
    \<^verbatim>\<open>management.py\<close>, the validators of \<^verbatim>\<open>service/schemas.py\<close>).
  \<^item> \<^verbatim>\<open>Decisions_Api\<close> (\<^verbatim>\<open>api/authorize.py\<close>), \<^verbatim>\<open>Delegations_Api\<close> (\<^verbatim>\<open>api/delegations.py\<close>), \<^verbatim>\<open>Context_Api\<close>
    (\<^verbatim>\<open>api/context.py\<close>, \<^verbatim>\<open>tenancy/resolver.py\<close>, \<^verbatim>\<open>rbac/resolver.py\<close>), \<^verbatim>\<open>OAuth_Token\<close> and \<^verbatim>\<open>Admin_Login\<close>
    (\<^verbatim>\<open>api/oauth.py\<close>, \<^verbatim>\<open>api/oauth_clients.py\<close>), \<^verbatim>\<open>Background\<close> (\<^verbatim>\<open>audit_retention.py\<close>, \<^verbatim>\<open>oauth_janitor.py\<close>,
    \<^verbatim>\<open>observability.py\<close>).
  \<^item> \<^verbatim>\<open>Admin_Routes\<close> and \<^verbatim>\<open>Member_Routes\<close> (the other modules of \<^verbatim>\<open>authz_service/api\<close>); \<^verbatim>\<open>Isolation\<close>,
    \<^verbatim>\<open>Isolation_Provisioning\<close> and \<^verbatim>\<open>Managed_Runs\<close>: the database under any sequence of their requests.
  \<^item> \<^verbatim>\<open>Startup\<close> (\<^verbatim>\<open>oauth_config.py\<close> and \<^verbatim>\<open>create_app\<close> of \<^verbatim>\<open>main.py\<close>: trusted issuers, middlewares, routers, workers).
  \<^item> \<^verbatim>\<open>Sdk_Client\<close> and \<^verbatim>\<open>Sdk_Calls\<close> (\<^verbatim>\<open>authz_sdk/client.py\<close>, \<^verbatim>\<open>fastapi_dependency.py\<close>, \<^verbatim>\<open>agent_session.py\<close>);
    \<^verbatim>\<open>Sdk_Service\<close>: the client and the endpoints together, over a transport that may lose, delay and repeat.
  \<^item> \<^verbatim>\<open>Admin_Client\<close> (\<^verbatim>\<open>authz_sdk/admin.py\<close>) and \<^verbatim>\<open>Operator_Cli\<close> (the commands of \<^verbatim>\<open>authz_service/cli.py\<close>);
    \<^verbatim>\<open>Admin_Service\<close> and \<^verbatim>\<open>Bootstrap\<close>: an upsert of a role and a whole bootstrap against the routes.
  \<^item> \<^verbatim>\<open>Migrations\<close> (\<^verbatim>\<open>migrations/versions\<close> and the tables of \<^verbatim>\<open>storage/orm.py\<close>): the schema as lists of operations, its
    downgrades, and its unique keys beside the collision tests of \<^verbatim>\<open>Sql_Store\<close> and the security services.

  \<^bold>\<open>Correspondence.\<close> A Python class is a record with the fields of the class, an exception a constructor of
  \<^verbatim>\<open>authz_error\<close>, \<^verbatim>\<open>http_error\<close> or an error type of its service, and a function that may raise returns a sum.
  A method that changes its object takes and returns the object; a handler takes and returns the database
  (and the tables of the security services) it changes. Values that come from outside are arguments:
  identifiers and random tokens of new rows, the clock (in microseconds, so that comparisons are those of
  Python's \<^verbatim>\<open>datetime\<close>), and request ids. JSON values and claims are \<^verbatim>\<open>pyval\<close>, Python integers are unbounded.
  Libraries are parameters: the hash, the RSA and JWT operations, \<^verbatim>\<open>httpx\<close>, the URL parser. A theorem that needs
  one of them to behave says so in a hypothesis and has a witness with a concrete function.

  \<^bold>\<open>What is proved.\<close>
  \<^item> Decisions: the engine's two questions agree and an agent never exceeds its user, its roles, the tenant's
    mask or its grant (\<^verbatim>\<open>Engine\<close>); conditions mean what they say (\<^verbatim>\<open>Policies\<close>); tenants do not influence each
    other and every permission has a provenance (\<^verbatim>\<open>Memory_Invariants\<close>); the database answers as the
    in-memory store (\<^verbatim>\<open>Sql_Refinement\<close>); an allowing answer of the endpoint rests on an authenticated caller, an
    active tenant, a live grant and the engine (\<^verbatim>\<open>Decisions_Api\<close>), and refusals do not reveal other tenants.
  \<^item> Credentials: callers, keys, sessions, tokens, invitations and grants are accepted only while they live and
    only for what they were issued for, including issuance by the token endpoint and by the admin login.
  \<^item> Administration: over any sequence of requests links stay in their application, the data of a managed
    application only changes by its manager, and a manager is only lost by an audited release.
  \<^item> Across the network: what the client's \<^verbatim>\<open>require\<close> and the guard of a delegated agent run let through was
    authorized by the service, within the grant (\<^verbatim>\<open>Sdk_Service\<close>); bearer tokens come from configured issuers
    only (\<^verbatim>\<open>Startup\<close>).
  \<^item> Infrastructure: rate limits hold in every window, repeated requests are replayed, the client's retries end
    and its cache is sound, workers remove what is due and no more.
  \<^item> Operation: a bootstrap that completes leaves the roles of its file with exactly the permissions written
    there (\<^verbatim>\<open>Bootstrap\<close>); every downgrade takes back its upgrade, the revisions leave the tables the mapped
    classes declare, and the store's inserts collide exactly on the keys of the deployed schema (\<^verbatim>\<open>Migrations\<close>).
  The locales state the contracts these rest on (repositories, revocable credentials, sliding windows, replay
  stores, permission guards) and are interpreted on the models of the classes that provide them.

  \<^bold>\<open>Bounds and fuel.\<close> No definition uses fuel. The retry loop of the client is recursive in the remaining
  attempts, the cache's eviction and the parsers in their lists; a worker's thread is the list of the
  moments of its ticks; sequences of requests are reflexive transitive closures.

  \<^bold>\<open>Not modelled.\<close> The argument parser of \<^verbatim>\<open>cli.py\<close> and its schema commands, which hand over to Alembic;
  logging, tracing and the rendering of metrics; the static files of the admin page; the rows of a database
  while it is migrated; the deployment, contract and load test scripts and the examples, which call the service
  from outside. Transactions of different requests are interleaved only where a class splits its work into
  several (invitations); a handler is otherwise one step.
\<close>

end
